(* ===== verification/Prelude.thy ===== *)
theory Prelude
  imports Main "HOL-Library.Word" "HOL-Library.AList"
begin

unbundle bit_operations_syntax

text \<open>
  Vocabulary and lemmas that the components share: machine integers and their byte
  encodings, Rust's \<open>Result\<close> and \<open>Option\<close> combinators, effectful programs that
  pass a world along, and the operations of Rust's \<open>str\<close> the sources use.

  A \<open>String\<close> or \<open>&str\<close> is modelled by the list of its UTF-8 bytes (\<^typ>\<open>string\<close>, a
  list of 8-bit characters), so that \<open>length\<close> is Rust's \<open>len()\<close>.  A \<open>Result<T, E>\<close> is
  a value of the sum type \<open>E + T\<close>, with \<open>Inl\<close> for \<open>Err\<close> and \<open>Inr\<close> for \<open>Ok\<close>.
  Code outside the repository (hash functions, ciphers, codecs, the chain client) never
  has a definition here: the definitions that use it take it as an argument.
\<close>

named_theorems res_simps \<open>inversion of Result and IO combinators\<close>
named_theorems str_simps \<open>string operations\<close>
named_theorems byte_simps \<open>integers as bytes\<close>

type_synonym byte = "8 word"
type_synonym u8 = "8 word"
type_synonym u32 = "32 word"
type_synonym u64 = "64 word"
type_synonym u128 = "128 word"
type_synonym 'a result = "string + 'a"

section \<open>Result and Option\<close>

text \<open>\<open>and_then r f\<close> is \<open>let x = r?; f(x)\<close>.\<close>

fun and_then :: "'e + 'a \<Rightarrow> ('a \<Rightarrow> 'e + 'b) \<Rightarrow> 'e + 'b" where
  "and_then (Inl e) f = Inl e"
| "and_then (Inr x) f = f x"

fun map_err :: "('e \<Rightarrow> 'f) \<Rightarrow> 'e + 'a \<Rightarrow> 'f + 'a" where
  "map_err f (Inl e) = Inl (f e)"
| "map_err f (Inr x) = Inr x"

fun ok_or :: "'e \<Rightarrow> 'a option \<Rightarrow> 'e + 'a" where
  "ok_or e None = Inl e"
| "ok_or e (Some x) = Inr x"

fun res_ok :: "'e + 'a \<Rightarrow> 'a option" where
  "res_ok (Inl e) = None"
| "res_ok (Inr x) = Some x"

definition guard :: "bool \<Rightarrow> 'e \<Rightarrow> 'e + unit" where
  "guard bad e = (if bad then Inl e else Inr ())"

fun unwrap_or :: "'a \<Rightarrow> 'a option \<Rightarrow> 'a" where
  "unwrap_or d None = d"
| "unwrap_or d (Some x) = x"

lemma and_then_eq_Inr [res_simps]:
  "and_then r f = Inr y \<longleftrightarrow> (\<exists>x. r = Inr x \<and> f x = Inr y)"
  by (cases r) auto

lemma and_then_eq_Inl [res_simps]:
  "and_then r f = Inl e \<longleftrightarrow> r = Inl e \<or> (\<exists>x. r = Inr x \<and> f x = Inl e)"
  by (cases r) auto

lemma map_err_eq_Inr [res_simps]: "map_err f r = Inr y \<longleftrightarrow> r = Inr y"
  by (cases r) auto

lemma map_err_eq_Inl [res_simps]: "map_err f r = Inl e \<longleftrightarrow> (\<exists>e'. r = Inl e' \<and> e = f e')"
  by (cases r) auto

lemma ok_or_eq_Inr [res_simps]: "ok_or e v = Inr y \<longleftrightarrow> v = Some y"
  by (cases v) auto

lemma ok_or_eq_Inl [res_simps]: "ok_or e v = Inl e' \<longleftrightarrow> v = None \<and> e' = e"
  by (cases v) auto

lemma guard_eq_Inr [res_simps]: "guard bad e = Inr u \<longleftrightarrow> \<not> bad"
  by (simp add: guard_def)

lemma guard_eq_Inl [res_simps]: "guard bad e = Inl e' \<longleftrightarrow> bad \<and> e' = e"
  by (auto simp: guard_def)

lemma guard_cases [simp]: "\<not> bad \<Longrightarrow> guard bad e = Inr ()" "bad \<Longrightarrow> guard bad e = Inl e"
  by (simp_all add: guard_def)

lemma res_ok_eq_Some [res_simps]: "res_ok r = Some x \<longleftrightarrow> r = Inr x"
  by (cases r) auto

lemma res_ok_eq_None [res_simps]: "res_ok r = None \<longleftrightarrow> (\<exists>e. r = Inl e)"
  by (cases r) auto

text \<open>\<open>iter().map(f).collect::<Result<Vec<_>, _>>()\<close>: the first error wins.\<close>

fun collect_res :: "('a \<Rightarrow> 'e + 'b) \<Rightarrow> 'a list \<Rightarrow> 'e + 'b list" where
  "collect_res f [] = Inr []"
| "collect_res f (x # xs) = and_then (f x) (\<lambda>y. and_then (collect_res f xs) (\<lambda>ys. Inr (y # ys)))"

lemma collect_res_eq_Inr:
  "collect_res f xs = Inr ys \<longleftrightarrow> length ys = length xs \<and> (\<forall>i < length xs. f (xs ! i) = Inr (ys ! i))"
proof (induction xs arbitrary: ys)
  case (Cons x xs)
  show ?case
    by (cases ys) (auto simp: Cons.IH res_simps nth_Cons split: nat.splits)
qed auto

lemma collect_res_map:
  assumes "\<And>x. x \<in> set xs \<Longrightarrow> f x = Inr (g x)"
  shows "collect_res f xs = Inr (map g xs)"
  using assms by (induction xs) auto

section \<open>Effectful programs\<close>

text \<open>
  A call that reaches the clock, the random generator or the chain takes the world and
  returns its result with the world after the call.  \<open>io_then\<close> runs two such programs in
  sequence; the second is not run when the first fails.
\<close>

type_synonym ('w, 'e, 'a) io = "'w \<Rightarrow> ('e + 'a) \<times> 'w"

definition io_then :: "('w, 'e, 'a) io \<Rightarrow> ('a \<Rightarrow> ('w, 'e, 'b) io) \<Rightarrow> ('w, 'e, 'b) io" where
  "io_then m f w = (case m w of (Inl e, w') \<Rightarrow> (Inl e, w') | (Inr x, w') \<Rightarrow> f x w')"

definition io_lift :: "'e + 'a \<Rightarrow> ('w, 'e, 'a) io" where
  "io_lift r w = (r, w)"

definition io_map_err :: "('e \<Rightarrow> 'f) \<Rightarrow> ('w, 'e, 'a) io \<Rightarrow> ('w, 'f, 'a) io" where
  "io_map_err f m w = (case m w of (r, w') \<Rightarrow> (map_err f r, w'))"

lemma io_then_eq_Inr [res_simps]:
  "io_then m f w = (Inr y, w2) \<longleftrightarrow> (\<exists>x w1. m w = (Inr x, w1) \<and> f x w1 = (Inr y, w2))"
  by (auto simp: io_then_def split: prod.splits sum.splits)

lemma io_then_eq_Inl [res_simps]:
  "io_then m f w = (Inl e, w2) \<longleftrightarrow>
     m w = (Inl e, w2) \<or> (\<exists>x w1. m w = (Inr x, w1) \<and> f x w1 = (Inl e, w2))"
  by (auto simp: io_then_def split: prod.splits sum.splits)

lemma io_lift_eq [res_simps]: "io_lift r w = (s, w2) \<longleftrightarrow> r = s \<and> w2 = w"
  by (auto simp: io_lift_def)

lemma io_map_err_eq_Inr [res_simps]: "io_map_err f m w = (Inr y, w2) \<longleftrightarrow> m w = (Inr y, w2)"
  by (auto simp: io_map_err_def res_simps split: prod.splits)

lemma io_map_err_eq_Inl [res_simps]:
  "io_map_err f m w = (Inl e, w2) \<longleftrightarrow> (\<exists>e'. m w = (Inl e', w2) \<and> e = f e')"
  by (auto simp: io_map_err_def res_simps split: prod.splits)

lemma io_then_step [simp]:
  "m w = (Inr x, w1) \<Longrightarrow> io_then m f w = f x w1"
  "m w = (Inl e, w1) \<Longrightarrow> io_then m f w = (Inl e, w1)"
  by (simp_all add: io_then_def)

lemma io_lift_step [simp]: "io_lift r w = (r, w)"
  by (simp add: io_lift_def)

lemma io_map_err_step [simp]:
  "m w = (r, w1) \<Longrightarrow> io_map_err f m w = (map_err f r, w1)"
  by (simp add: io_map_err_def)

section \<open>Machine integers\<close>

definition sat_add :: "'a::len word \<Rightarrow> 'a word \<Rightarrow> 'a word" where
  "sat_add a b = (if unat a + unat b < 2 ^ LENGTH('a) then a + b else - 1)"

definition sat_sub :: "'a::len word \<Rightarrow> 'a word \<Rightarrow> 'a word" where
  "sat_sub a b = (if b \<le> a then a - b else 0)"

definition sat_mul :: "'a::len word \<Rightarrow> 'a word \<Rightarrow> 'a word" where
  "sat_mul a b = (if unat a * unat b < 2 ^ LENGTH('a) then a * b else - 1)"

lemma unat_bound: "unat w < 2 ^ LENGTH('a)" for w :: "'a::len word"
  by (rule unsigned_less)

lemma unat_ucast_up:
  assumes "LENGTH('a) \<le> LENGTH('b)"
  shows "unat (ucast w :: 'b::len word) = unat (w :: 'a::len word)"
proof -
  have "unat w < 2 ^ LENGTH('b)"
    using unat_bound [of w] assms by (meson less_le_trans one_le_numeral power_increasing)
  then show ?thesis by (simp add: unsigned_ucast_eq take_bit_nat_eq_self)
qed

lemma unat_max: "unat (- 1 :: 'a::len word) = 2 ^ LENGTH('a) - 1"
  by (simp add: unsigned_minus_1_eq_mask mask_eq_exp_minus_1)

lemma unat_sat_add:
  "unat (sat_add a b) = min (unat a + unat b) (2 ^ LENGTH('a) - 1)" for a b :: "'a::len word"
  by (auto simp: sat_add_def unat_max unat_word_ariths min_def)

lemma unat_sat_sub: "unat (sat_sub a b) = unat a - unat b"
  by (auto simp: sat_sub_def unat_sub word_le_nat_alt)

lemma unat_sat_mul:
  "unat (sat_mul a b) = min (unat a * unat b) (2 ^ LENGTH('a) - 1)" for a b :: "'a::len word"
proof (cases "unat a * unat b < 2 ^ LENGTH('a)")
  case True
  then have "unat a * unat b \<le> 2 ^ LENGTH('a) - 1" by linarith
  with True show ?thesis by (simp add: sat_mul_def unat_word_ariths)
next
  case False
  then have "2 ^ LENGTH('a) - 1 \<le> unat a * unat b" by linarith
  with False show ?thesis by (simp add: sat_mul_def unat_max min_def)
qed

lemma sat_add_0 [simp]: "sat_add a 0 = a"
  using unat_bound [of a] by (simp add: sat_add_def)

lemma unat_push_bit_1: "k < LENGTH('a) \<Longrightarrow> unat (push_bit k 1 :: 'a::len word) = 2 ^ k"
proof -
  assume k: "k < LENGTH('a)"
  have "(push_bit k 1 :: 'a word) = of_nat (2 ^ k)" by (simp add: push_bit_of_1)
  then have "unat (push_bit k 1 :: 'a word) = 2 ^ k mod 2 ^ LENGTH('a)"
    by (simp only: unat_of_nat)
  with k show ?thesis by (simp add: power_strict_increasing)
qed

lemma unat_min: "unat (min a b) = min (unat a) (unat b)"
  by (simp add: min_def word_le_nat_alt)

lemma sat_add_ge: "a \<le> sat_add a b" for a b :: "'a::len word"
proof -
  have "unat a \<le> 2 ^ LENGTH('a) - 1" using unat_bound [of a] by linarith
  then show ?thesis by (simp add: word_le_nat_alt unat_sat_add)
qed

section \<open>Integers as bytes\<close>

fun le_bytes :: "nat \<Rightarrow> nat \<Rightarrow> byte list" where
  "le_bytes 0 n = []"
| "le_bytes (Suc k) n = word_of_nat n # le_bytes k (n div 256)"

fun le_nat :: "byte list \<Rightarrow> nat" where
  "le_nat [] = 0"
| "le_nat (b # bs) = unat b + 256 * le_nat bs"

definition be_bytes :: "nat \<Rightarrow> nat \<Rightarrow> byte list" where
  "be_bytes k n = rev (le_bytes k n)"

definition be_nat :: "byte list \<Rightarrow> nat" where
  "be_nat bs = le_nat (rev bs)"

lemma length_le_bytes [simp]: "length (le_bytes k n) = k"
  by (induction k arbitrary: n) auto

lemma length_be_bytes [simp]: "length (be_bytes k n) = k"
  by (simp add: be_bytes_def)

lemma le_nat_le_bytes [byte_simps]: "le_nat (le_bytes k n) = n mod 256 ^ k"
  by (induction k arbitrary: n) (auto simp: unat_of_nat mod_mult2_eq)

lemma be_nat_be_bytes [byte_simps]: "be_nat (be_bytes k n) = n mod 256 ^ k"
  by (simp add: be_nat_def be_bytes_def byte_simps)

lemma le_nat_bound: "le_nat bs < 256 ^ length bs"
proof (induction bs)
  case (Cons b bs)
  have "unat b < 256" using unat_bound [of b] by simp
  with Cons show ?case by simp
qed auto

lemma be_nat_bound: "be_nat bs < 256 ^ length bs"
  using le_nat_bound [of "rev bs"] by (simp add: be_nat_def)

definition u32_to_be :: "u32 \<Rightarrow> byte list" where "u32_to_be w = be_bytes 4 (unat w)"
definition u64_to_be :: "u64 \<Rightarrow> byte list" where "u64_to_be w = be_bytes 8 (unat w)"
definition u128_to_be :: "u128 \<Rightarrow> byte list" where "u128_to_be w = be_bytes 16 (unat w)"
definition u32_from_be :: "byte list \<Rightarrow> u32" where "u32_from_be bs = word_of_nat (be_nat bs)"
definition u64_from_be :: "byte list \<Rightarrow> u64" where "u64_from_be bs = word_of_nat (be_nat bs)"
definition u128_from_be :: "byte list \<Rightarrow> u128" where "u128_from_be bs = word_of_nat (be_nat bs)"
definition u32_to_le :: "u32 \<Rightarrow> byte list" where "u32_to_le w = le_bytes 4 (unat w)"
definition u32_from_le :: "byte list \<Rightarrow> u32" where "u32_from_le bs = word_of_nat (le_nat bs)"

text \<open>
  The contract of a fixed-width encoding and what its clients need of it: a field can be
  cut out of a message at its offset, and a concatenation of fields can be taken apart.
\<close>

locale fixed_codec =
  fixes enc :: "'a \<Rightarrow> byte list"
    and dec :: "byte list \<Rightarrow> 'a"
    and width :: nat
  assumes length_enc: "length (enc x) = width"
    and dec_enc: "dec (enc x) = x"
begin

lemma enc_inject: "enc x = enc y \<longleftrightarrow> x = y"
  by (metis dec_enc)

lemma enc_append_inject: "enc x @ r = enc y @ s \<longleftrightarrow> x = y \<and> r = s"
  by (metis append_eq_append_conv enc_inject length_enc)

lemma append_enc_inject: "r @ enc x = s @ enc y \<longleftrightarrow> r = s \<and> x = y"
  by (metis append_eq_append_conv enc_inject length_enc)

lemma field_at:
  assumes "length p = i"
  shows "dec (take width (drop i (p @ enc x @ s))) = x"
  using assms by (simp add: length_enc dec_enc)

end

interpretation be32: fixed_codec u32_to_be u32_from_be 4
proof
  fix x :: u32
  have "unat x < 4294967296" using unat_bound [of x] by simp
  then show "u32_from_be (u32_to_be x) = x"
    by (simp add: u32_from_be_def u32_to_be_def byte_simps)
qed (simp add: u32_to_be_def)

interpretation be64: fixed_codec u64_to_be u64_from_be 8
proof
  fix x :: u64
  have "unat x < 18446744073709551616" using unat_bound [of x] by simp
  then show "u64_from_be (u64_to_be x) = x"
    by (simp add: u64_from_be_def u64_to_be_def byte_simps)
qed (simp add: u64_to_be_def)

interpretation be128: fixed_codec u128_to_be u128_from_be 16
proof
  fix x :: u128
  have "unat x < 256 ^ 16" using unat_bound [of x] by simp
  then show "u128_from_be (u128_to_be x) = x"
    by (simp add: u128_from_be_def u128_to_be_def byte_simps)
qed (simp add: u128_to_be_def)

interpretation le32: fixed_codec u32_to_le u32_from_le 4
proof
  fix x :: u32
  have "unat x < 4294967296" using unat_bound [of x] by simp
  then show "u32_from_le (u32_to_le x) = x"
    by (simp add: u32_from_le_def u32_to_le_def byte_simps)
qed (simp add: u32_to_le_def)

section \<open>Strings\<close>

definition as_bytes :: "string \<Rightarrow> byte list" where
  "as_bytes s = map of_char s"

lemma of_char_byte_inject: "(of_char c :: byte) = of_char d \<longleftrightarrow> c = d"
proof
  assume "(of_char c :: byte) = of_char d"
  then have "unat (of_char c :: byte) = unat (of_char d :: byte)" by simp
  then have "unat (of_nat (of_char c) :: byte) = unat (of_nat (of_char d) :: byte)"
    by (simp only: of_nat_of_char)
  then have "(of_char c :: nat) = of_char d"
    by (simp add: unat_of_nat of_char_mod_256)
  then show "c = d" by simp
qed simp

lemma as_bytes_inject [simp]: "as_bytes s = as_bytes t \<longleftrightarrow> s = t"
  by (auto simp: as_bytes_def inj_map_eq_map inj_def of_char_byte_inject)

lemma length_as_bytes [simp]: "length (as_bytes s) = length s"
  by (simp add: as_bytes_def)

fun strip_prefix :: "string \<Rightarrow> string \<Rightarrow> string option" where
  "strip_prefix [] s = Some s"
| "strip_prefix (p # ps) [] = None"
| "strip_prefix (p # ps) (c # cs) = (if p = c then strip_prefix ps cs else None)"

lemma strip_prefix_Some [str_simps]: "strip_prefix p s = Some t \<longleftrightarrow> s = p @ t"
  by (induction p s rule: strip_prefix.induct) auto

lemma strip_prefix_append [simp]: "strip_prefix p (p @ t) = Some t"
  by (simp add: str_simps)

definition starts_with :: "string \<Rightarrow> string \<Rightarrow> bool" where
  "starts_with s p = (strip_prefix p s \<noteq> None)"

text \<open>\<open>value.strip_prefix("0x").or_else(|| value.strip_prefix("0X")).unwrap_or(value)\<close>\<close>

definition strip_0x :: "string \<Rightarrow> string" where
  "strip_0x value =
     (case strip_prefix ''0x'' value of
        Some s \<Rightarrow> s
      | None \<Rightarrow> unwrap_or value (strip_prefix ''0X'' value))"

lemma strip_0x_prefix [simp]: "strip_0x (CHR ''0'' # CHR ''x'' # s) = s" "strip_0x (CHR ''0'' # CHR ''X'' # s) = s"
  by (simp_all add: strip_0x_def)

definition is_ascii_hexdigit :: "char \<Rightarrow> bool" where
  "is_ascii_hexdigit c = (c \<in> set ''0123456789abcdefABCDEF'')"

definition ascii_lower :: "char \<Rightarrow> char" where
  "ascii_lower c = (if 65 \<le> (of_char c :: nat) \<and> (of_char c :: nat) \<le> 90
                    then char_of ((of_char c :: nat) + 32) else c)"

definition to_ascii_lowercase :: "string \<Rightarrow> string" where
  "to_ascii_lowercase s = map ascii_lower s"

lemma length_to_ascii_lowercase [simp]: "length (to_ascii_lowercase s) = length s"
  by (simp add: to_ascii_lowercase_def)

lemma ascii_lower_hexdigit:
  assumes "is_ascii_hexdigit c"
  shows "ascii_lower c \<in> set ''0123456789abcdef''"
proof -
  have "list_all (\<lambda>c. ascii_lower c \<in> set ''0123456789abcdef'') ''0123456789abcdefABCDEF''"
    by code_simp
  with assms show ?thesis
    unfolding is_ascii_hexdigit_def list_all_iff by blast
qed

lemma ascii_lower_fixed:
  assumes "c \<in> set ''0123456789abcdef''"
  shows "ascii_lower c = c" and "is_ascii_hexdigit c"
proof -
  have "list_all (\<lambda>c. ascii_lower c = c \<and> is_ascii_hexdigit c) ''0123456789abcdef''"
    by code_simp
  with assms show "ascii_lower c = c" and "is_ascii_hexdigit c"
    unfolding list_all_iff by blast+
qed

text \<open>
  \<open>str::trim\<close> removes the characters with Unicode's White\_Space property at both ends.
  \<open>ws_len s\<close> is the number of bytes of the white-space character at the front of \<open>s\<close>, and 0
  when there is none; \<open>ws_len_rev\<close> reads the reversed string.
\<close>

definition ws_len :: "string \<Rightarrow> nat" where
  "ws_len s = (case s of
      [] \<Rightarrow> 0
    | a # r \<Rightarrow>
        if (9 \<le> (of_char a :: nat) \<and> (of_char a :: nat) \<le> 13) \<or> a = CHR '' '' then 1
        else (case r of
            [] \<Rightarrow> 0
          | b # r' \<Rightarrow>
              if a = CHR 0xC2 \<and> (b = CHR 0x85 \<or> b = CHR 0xA0) then 2
              else (case r' of
                  [] \<Rightarrow> 0
                | c # _ \<Rightarrow>
                    if (a = CHR 0xE1 \<and> b = CHR 0x9A \<and> c = CHR 0x80)
                       \<or> (a = CHR 0xE2 \<and> b = CHR 0x80 \<and>
                            (128 \<le> (of_char c :: nat) \<and> (of_char c :: nat) \<le> 138
                             \<or> c = CHR 0xA8 \<or> c = CHR 0xA9 \<or> c = CHR 0xAF))
                       \<or> (a = CHR 0xE2 \<and> b = CHR 0x81 \<and> c = CHR 0x9F)
                       \<or> (a = CHR 0xE3 \<and> b = CHR 0x80 \<and> c = CHR 0x80)
                    then 3 else 0)))"

definition ws_len_rev :: "string \<Rightarrow> nat" where
  "ws_len_rev s = (if ws_len (rev (take 1 s)) = 1 then 1
                   else if 2 \<le> length s \<and> ws_len (rev (take 2 s)) = 2 then 2
                   else if 3 \<le> length s \<and> ws_len (rev (take 3 s)) = 3 then 3
                   else 0)"

lemma ws_len_le_length: "ws_len s \<le> length s"
  by (auto simp: ws_len_def split: list.splits)

function drop_ws :: "(string \<Rightarrow> nat) \<Rightarrow> string \<Rightarrow> string" where
  "drop_ws f s = (if f s = 0 \<or> s = [] then s else drop_ws f (drop (f s) s))"
  by pat_completeness auto
termination
  by (relation "measure (\<lambda>(f, s). length s)") auto

declare drop_ws.simps [simp del]

definition trim :: "string \<Rightarrow> string" where
  "trim s = rev (drop_ws ws_len_rev (rev (drop_ws ws_len s)))"

lemma drop_ws_no_ws: "f s = 0 \<Longrightarrow> drop_ws f s = s"
  by (subst drop_ws.simps) simp

lemma drop_ws_suffix: "\<exists>p. s = p @ drop_ws f s"
proof (induction f s rule: drop_ws.induct)
  case (1 f s)
  show ?case
  proof (cases "f s = 0 \<or> s = []")
    case True
    then show ?thesis by (subst drop_ws.simps) simp
  next
    case False
    with 1 obtain p where "drop (f s) s = p @ drop_ws f (drop (f s) s)" by blast
    moreover from False have "drop_ws f s = drop_ws f (drop (f s) s)"
      by (simp add: drop_ws.simps [of f s])
    ultimately have "s = (take (f s) s @ p) @ drop_ws f s"
      by (metis append_assoc append_take_drop_id)
    then show ?thesis by blast
  qed
qed

lemma trim_infix: "\<exists>p q. s = p @ trim s @ q"
proof -
  obtain p where p: "s = p @ drop_ws ws_len s" using drop_ws_suffix by blast
  obtain q where "rev (drop_ws ws_len s) = q @ drop_ws ws_len_rev (rev (drop_ws ws_len s))"
    using drop_ws_suffix by blast
  then have "drop_ws ws_len s = trim s @ rev q"
    by (metis rev_append rev_rev_ident trim_def)
  with p show ?thesis by metis
qed

text \<open>A string of visible ASCII characters is its own trim.\<close>

definition visible_ascii :: "string \<Rightarrow> bool" where
  "visible_ascii s = (\<forall>c \<in> set s. 33 \<le> (of_char c :: nat) \<and> (of_char c :: nat) \<le> 126)"

lemma visible_not_ws_lead:
  assumes "33 \<le> (of_char c :: nat)" "(of_char c :: nat) \<le> 126"
  shows "c \<noteq> CHR '' ''" "c \<noteq> CHR 0xC2" "c \<noteq> CHR 0xE1" "c \<noteq> CHR 0xE2" "c \<noteq> CHR 0xE3"
    "\<not> (of_char c :: nat) \<le> 13"
  using assms by auto

lemma ws_len_visible:
  assumes "visible_ascii s"
  shows "ws_len s = 0"
proof (cases s)
  case (Cons a r)
  with assms have "33 \<le> (of_char a :: nat)" "(of_char a :: nat) \<le> 126"
    by (simp_all add: visible_ascii_def)
  from visible_not_ws_lead [OF this] show ?thesis
    by (simp add: Cons ws_len_def split: list.splits)
qed (simp add: ws_len_def)

lemma trim_visible [simp]:
  assumes "visible_ascii s"
  shows "trim s = s"
proof -
  have vis: "visible_ascii (rev (take n (rev s)))" for n
    using assms by (auto simp: visible_ascii_def dest: in_set_takeD)
  have "ws_len_rev (rev s) = 0"
    by (simp add: ws_len_rev_def ws_len_visible vis)
  then show ?thesis
    using assms by (simp add: trim_def drop_ws_no_ws ws_len_visible)
qed

text \<open>\<open>str::split(sep)\<close>: the pieces between separators, always at least one.\<close>

fun split_on :: "char \<Rightarrow> string \<Rightarrow> string list" where
  "split_on x [] = [[]]"
| "split_on x (c # cs) =
     (if c = x then [] # split_on x cs
      else (case split_on x cs of [] \<Rightarrow> [[c]] | p # ps \<Rightarrow> (c # p) # ps))"

lemma split_on_nonempty [simp]: "split_on x s \<noteq> []"
  by (induction s) (auto split: list.splits)

lemma split_on_no_sep: "x \<notin> set p \<Longrightarrow> split_on x p = [p]"
  by (induction p) auto

lemma split_on_append [str_simps]: "x \<notin> set p \<Longrightarrow> split_on x (p @ x # s) = p # split_on x s"
  by (induction p) auto

text \<open>Decimal digits, as \<open>format!\<close> prints an unsigned integer.\<close>

definition digit_char :: "nat \<Rightarrow> char" where
  "digit_char d = char_of (48 + d)"

fun show_nat :: "nat \<Rightarrow> string" where
  "show_nat n = (if n < 10 then [digit_char n] else show_nat (n div 10) @ [digit_char (n mod 10)])"

declare show_nat.simps [simp del]

definition read_dec :: "string \<Rightarrow> nat" where
  "read_dec s = foldl (\<lambda>acc c. acc * 10 + (of_char c - 48)) 0 s"

lemma digit_char_val: "d < 10 \<Longrightarrow> (of_char (digit_char d) :: nat) = 48 + d"
  by (simp add: digit_char_def of_char_of)

lemma digit_char_digit:
  assumes "d < 10"
  shows "digit_char d \<in> set ''0123456789''"
proof -
  have "list_all (\<lambda>d. digit_char d \<in> set ''0123456789'') [0..<10]" by code_simp
  moreover from assms have "d \<in> set [0..<10]" by simp
  ultimately show ?thesis unfolding list_all_iff by blast
qed

lemma read_dec_show_nat [str_simps]: "read_dec (show_nat n) = n"
proof (induction n rule: show_nat.induct)
  case (1 n)
  show ?case
  proof (cases "n < 10")
    case True
    then show ?thesis by (subst show_nat.simps) (simp add: read_dec_def digit_char_val)
  next
    case False
    with 1 have "read_dec (show_nat (n div 10)) = n div 10" by simp
    with False show ?thesis
      by (subst show_nat.simps) (simp add: read_dec_def digit_char_val)
  qed
qed

lemma show_nat_inject [simp]: "show_nat m = show_nat n \<longleftrightarrow> m = n"
  by (metis read_dec_show_nat)

lemma show_nat_digits: "set (show_nat n) \<subseteq> set ''0123456789''"
proof (induction n rule: show_nat.induct)
  case (1 n)
  show ?case
  proof (cases "n < 10")
    case True
    then have "show_nat n = [digit_char n]" by (subst show_nat.simps) simp
    with digit_char_digit [OF True] show ?thesis by simp
  next
    case False
    with 1 show ?thesis
      using digit_char_digit [of "n mod 10"] by (subst show_nat.simps) auto
  qed
qed

lemma show_nat_nonempty [simp]: "show_nat n \<noteq> []"
  by (subst show_nat.simps) simp

definition show_u :: "'a::len word \<Rightarrow> string" where
  "show_u w = show_nat (unat w)"

lemma show_u_inject [simp]: "show_u v = show_u w \<longleftrightarrow> v = w"
  by (simp add: show_u_def word_unat_eq_iff)

lemma show_u_digits: "set (show_u w) \<subseteq> set ''0123456789''"
  by (simp only: show_u_def show_nat_digits)

text \<open>Taking a text apart at a separator that one side does not contain.\<close>

lemma append_sep_left_inject:
  assumes "x \<notin> set a" "x \<notin> set a'"
  shows "a @ x # b = a' @ x # b' \<longleftrightarrow> a = a' \<and> b = b'"
  using assms
proof (induction a arbitrary: a')
  case Nil
  then show ?case by (cases a') auto
next
  case (Cons y a)
  then show ?case by (cases a') auto
qed

lemma append_sep_right_inject:
  assumes "x \<notin> set b" "x \<notin> set b'"
  shows "a @ x # b = a' @ x # b' \<longleftrightarrow> a = a' \<and> b = b'"
proof -
  have "a @ x # b = a' @ x # b' \<longleftrightarrow> rev (a @ x # b) = rev (a' @ x # b')"
    by (simp only: rev_is_rev_conv)
  also have "\<dots> \<longleftrightarrow> rev b @ x # rev a = rev b' @ x # rev a'" by simp
  also have "\<dots> \<longleftrightarrow> a = a' \<and> b = b'"
    using assms append_sep_left_inject [of x "rev b" "rev b'" "rev a" "rev a'"] by auto
  finally show ?thesis .
qed

section \<open>JSON values\<close>

text \<open>
  \<open>serde_json::Value\<close>, the value type the sources build with \<open>json!\<close> and inspect.  An object is
  the list of its entries; a number is kept as a \<open>u64\<close> when it is one and as its text otherwise.
  Parsing and printing belong to \<open>serde_json\<close> and are arguments of the definitions that use them.
\<close>

datatype json =
    JNull
  | JBool bool
  | JNum u64
  | JNumOther string
  | JStr string
  | JArr "json list"
  | JObj "(string \<times> json) list"

fun json_get :: "string \<Rightarrow> json \<Rightarrow> json option" where
  "json_get k (JObj fields) = map_of fields k"
| "json_get k _ = None"

fun json_as_str :: "json \<Rightarrow> string option" where
  "json_as_str (JStr s) = Some s"
| "json_as_str _ = None"

text \<open>\<open>Value::pointer\<close> along object keys.\<close>

fun json_pointer :: "string list \<Rightarrow> json \<Rightarrow> json option" where
  "json_pointer [] v = Some v"
| "json_pointer (k # ks) v = (case json_get k v of None \<Rightarrow> None | Some v' \<Rightarrow> json_pointer ks v')"

text \<open>
  Assignment \<open>value[key] = v\<close> to an object replaces the entry or adds it.  (On any other value
  the indexing panics; the sources only assign into objects they have just built.)
\<close>

fun json_set :: "string \<Rightarrow> json \<Rightarrow> json \<Rightarrow> json" where
  "json_set k v (JObj fields) = JObj (AList.update k v fields)"
| "json_set k v j = j"

section \<open>Sealing and opening\<close>

text \<open>
  The contract between code that protects a payload and code that recovers it.  \<open>plain k p\<close> is what
  opening yields of the payload \<open>p\<close>; \<open>good k\<close> is what must hold of the key material.
\<close>

locale sealed_channel =
  fixes good :: "'k \<Rightarrow> bool"
    and plain :: "'k \<Rightarrow> 'p \<Rightarrow> 'q option"
    and seal :: "'k \<Rightarrow> 'p \<Rightarrow> 'e + 'c"
    and unseal :: "'k \<Rightarrow> 'c \<Rightarrow> 'f + 'q"
  assumes unseal_seal: "good k \<Longrightarrow> seal k p = Inr c \<Longrightarrow> \<exists>q. plain k p = Some q \<and> unseal k c = Inr q"
begin

lemma seal_plain_inject:
  assumes "good k" "seal k p = Inr c" "seal k p' = Inr c"
  shows "plain k p = plain k p'"
  using unseal_seal [OF assms(1,2)] unseal_seal [OF assms(1,3)] by auto

lemma unseal_all:
  assumes "good k" "collect_res (seal k) ps = Inr cs"
  shows "\<exists>qs. map (plain k) ps = map Some qs \<and> collect_res (unseal k) cs = Inr qs"
  using assms(2)
proof (induction ps arbitrary: cs)
  case (Cons p ps)
  then obtain c cs' where c: "seal k p = Inr c" "collect_res (seal k) ps = Inr cs'" "cs = c # cs'"
    by (auto simp: res_simps)
  from unseal_seal [OF assms(1) c(1)] obtain q where "plain k p = Some q" "unseal k c = Inr q" by blast
  moreover from Cons.IH [OF c(2)] obtain qs where
    "map (plain k) ps = map Some qs" "collect_res (unseal k) cs' = Inr qs" by blast
  ultimately show ?case using c(3) by (intro exI [of _ "q # qs"]) simp
qed simp

end

section \<open>Two-party ratchets\<close>

text \<open>
  The contract of a key ratchet between two parties: \<open>send\<close> yields the key of the next message,
  what travels with it and the sender's new state; \<open>recv\<close> yields the key and the receiver's new
  state.  \<open>converse\<close> runs a conversation in which each message is delivered before the next is
  sent; \<open>True\<close> marks the messages of the first party.
\<close>

fun converse ::
  "('i \<Rightarrow> 's \<Rightarrow> 'e + 'k \<times> 'm \<times> 's) \<Rightarrow> ('i \<Rightarrow> 'm \<Rightarrow> 's \<Rightarrow> 'e + 'k \<times> 's) \<Rightarrow> (bool \<times> 'i) list \<Rightarrow>
   's \<Rightarrow> 's \<Rightarrow> 'e + ('k \<times> 'k) list \<times> 's \<times> 's" where
  "converse send recv [] a b = Inr ([], a, b)"
| "converse send recv ((True, i) # ms) a b =
     and_then (send i a) (\<lambda>(k, m, a'). and_then (recv i m b) (\<lambda>(k', b').
     and_then (converse send recv ms a' b') (\<lambda>(ks, p). Inr ((k, k') # ks, p))))"
| "converse send recv ((False, i) # ms) a b =
     and_then (send i b) (\<lambda>(k, m, b'). and_then (recv i m a) (\<lambda>(k', a').
     and_then (converse send recv ms a' b') (\<lambda>(ks, p). Inr ((k, k') # ks, p))))"

locale ratchet =
  fixes sync :: "'s \<Rightarrow> 's \<Rightarrow> bool"
    and accepts :: "'i \<Rightarrow> 's \<Rightarrow> bool"
    and send :: "'i \<Rightarrow> 's \<Rightarrow> 'e + 'k \<times> 'm \<times> 's"
    and recv :: "'i \<Rightarrow> 'm \<Rightarrow> 's \<Rightarrow> 'e + 'k \<times> 's"
  assumes sync_sym: "sync a b \<Longrightarrow> sync b a"
    and deliver: "sync a b \<Longrightarrow> send i a = Inr (k, m, a') \<Longrightarrow> accepts i b \<Longrightarrow>
                    \<exists>b'. recv i m b = Inr (k, b') \<and> sync a' b'"
    and recv_accepts: "recv i m b = Inr (k, b') \<Longrightarrow> accepts i b"
begin

lemma agree:
  assumes "sync a b" "send i a = Inr (k, m, a')" "recv i m b = Inr (k', b')"
  shows "k' = k \<and> sync a' b'"
  using deliver [OF assms(1,2) recv_accepts [OF assms(3)]] assms(3) by auto

lemma converse_agree:
  assumes "sync a b" "converse send recv ms a b = Inr (ks, a', b')"
  shows "sync a' b' \<and> (\<forall>(k, k') \<in> set ks. k = k') \<and> length ks = length ms"
  using assms
proof (induction ms arbitrary: a b ks)
  case (Cons im ms)
  obtain first i where im: "im = (first, i)" by (cases im)
  show ?case
  proof (cases first)
    case True
    with Cons.prems(2) im obtain k m a1 k' b1 ks' where
      run: "send i a = Inr (k, m, a1)" "recv i m b = Inr (k', b1)"
        "converse send recv ms a1 b1 = Inr (ks', a', b')" "ks = (k, k') # ks'"
      by (auto simp: res_simps split: prod.splits)
    with agree [OF Cons.prems(1) run(1,2)] Cons.IH [OF _ run(3)] show ?thesis by simp
  next
    case False
    with Cons.prems(2) im obtain k m b1 k' a1 ks' where
      run: "send i b = Inr (k, m, b1)" "recv i m a = Inr (k', a1)"
        "converse send recv ms a1 b1 = Inr (ks', a', b')" "ks = (k, k') # ks'"
      by (auto simp: res_simps split: prod.splits)
    from agree [OF sync_sym [OF Cons.prems(1)] run(1,2)] have "k' = k" "sync a1 b1"
      by (auto intro: sync_sym)
    with Cons.IH [OF _ run(3)] run(4) show ?thesis by simp
  qed
qed simp

end

section \<open>Concrete codecs for examples\<close>

text \<open>
  Instances of the encoding parameters, used where a theorem is applied to concrete data: lower
  case hexadecimal, and the identity between bytes and characters.
\<close>

definition nibble :: "nat \<Rightarrow> char" where
  "nibble n = ''0123456789abcdef'' ! n"

fun hex_enc :: "byte list \<Rightarrow> string" where
  "hex_enc [] = []"
| "hex_enc (b # bs) = nibble (unat b div 16) # nibble (unat b mod 16) # hex_enc bs"

definition nibble_val :: "char \<Rightarrow> nat option" where
  "nibble_val c = map_of (zip ''0123456789abcdef'' [0..<16]) c"

fun hex_dec :: "string \<Rightarrow> string + byte list" where
  "hex_dec [] = Inr []"
| "hex_dec [c] = Inl ''Odd number of digits''"
| "hex_dec (c # d # s) =
     (case (nibble_val c, nibble_val d) of
        (Some h, Some l) \<Rightarrow> and_then (hex_dec s) (\<lambda>bs. Inr (word_of_nat (16 * h + l) # bs))
      | _ \<Rightarrow> Inl ''Invalid character'')"

lemma nibble_facts:
  assumes "n < 16"
  shows "nibble_val (nibble n) = Some n" and "nibble n \<in> set ''0123456789abcdef''"
proof -
  have "list_all (\<lambda>n. nibble_val (nibble n) = Some n \<and> nibble n \<in> set ''0123456789abcdef'') [0..<16]"
    by code_simp
  with assms show "nibble_val (nibble n) = Some n" and "nibble n \<in> set ''0123456789abcdef''"
    unfolding list_all_iff by auto
qed

lemma byte_nibbles: "unat (b :: byte) div 16 < 16" "unat (b :: byte) mod 16 < 16"
  using unat_bound [of b] by auto

lemma hex_dec_enc [simp]: "hex_dec (hex_enc bs) = Inr bs"
proof (induction bs)
  case (Cons b bs)
  have "(word_of_nat (16 * (unat b div 16) + unat b mod 16) :: byte) = b" by simp
  with Cons show ?case by (simp add: nibble_facts byte_nibbles)
qed simp

lemma hex_enc_inject: "hex_enc bs = hex_enc bs' \<Longrightarrow> bs = bs'"
  by (metis hex_dec_enc sum.inject(2))

lemma hex_enc_chars: "set (hex_enc bs) \<subseteq> set ''0123456789abcdef''"
proof -
  have "list_all (\<lambda>c. c \<in> set ''0123456789abcdef'') (hex_enc bs)"
  proof (induction bs)
    case (Cons b bs)
    then show ?case
      by (simp only: hex_enc.simps list.pred_inject nibble_facts(2) byte_nibbles simp_thms)
  qed (simp only: hex_enc.simps list.pred_inject)
  then show ?thesis unfolding list_all_iff by blast
qed

lemma length_hex_enc [simp]: "length (hex_enc bs) = 2 * length bs"
  by (induction bs) auto

definition text_of_bytes :: "byte list \<Rightarrow> string" where
  "text_of_bytes bs = map (\<lambda>b. char_of (unat b)) bs"

lemma as_bytes_text_of_bytes [simp]: "as_bytes (text_of_bytes bs) = bs"
proof -
  have "(of_char (char_of (unat b)) :: byte) = b" for b :: byte
  proof -
    have "(of_char (char_of (unat b)) :: byte) = of_nat (of_char (char_of (unat b)))"
      by (simp only: of_nat_of_char)
    also have "\<dots> = of_nat (unat b mod 256)" by (simp only: of_char_of)
    also have "\<dots> = b" using unat_bound [of b] by simp
    finally show ?thesis .
  qed
  then show ?thesis by (simp add: as_bytes_def text_of_bytes_def map_idI)
qed

end
