(* ===== verification/Infra.thy ===== *)
theory Infra
  imports Prelude
begin

unbundle bit_operations_syntax

text \<open>
  The crate \<open>bee_infra\<close>: the token-bucket rate limiter (\<open>rate_limiter.rs\<close>), the polling
  loop (\<open>lib.rs\<close>), the classified retry loop with exponential back-off (\<open>retry.rs\<close>) and
  the queue-overflow retry of prepared messages (\<open>message_delivery.rs\<close>).

  Clock, sleep and the caller's operation act on a world of arbitrary type \<open>'w\<close>.  A
  \<open>Duration\<close> is its whole number of milliseconds.
\<close>

section \<open>Rate limiter\<close>

record TokenBucket =
  interval_ms :: u64
  next_allowed_ms :: u64

text \<open>\<open>RateLimiter::new\<close> panics on 0, which is \<open>None\<close> here.\<close>

definition rate_limiter_new :: "u32 \<Rightarrow> TokenBucket option" where
  "rate_limiter_new max_rps =
     (if max_rps > 0
      then Some \<lparr> interval_ms = 1000 div ucast max_rps, next_allowed_ms = 0 \<rparr>
      else None)"

text \<open>
  The critical section of \<open>acquire\<close>: the clock reading \<open>now\<close> gives the time to wait and
  the bucket after the reservation.
\<close>

definition acquire :: "u64 \<Rightarrow> TokenBucket \<Rightarrow> u64 \<times> TokenBucket" where
  "acquire now bucket =
     (if now \<ge> next_allowed_ms bucket
      then (0, bucket\<lparr>next_allowed_ms := now + interval_ms bucket\<rparr>)
      else (next_allowed_ms bucket - now,
            bucket\<lparr>next_allowed_ms := next_allowed_ms bucket + interval_ms bucket\<rparr>))"

text \<open>
  The moments at which a sequence of calls is let through: a call that reads the clock at
  \<open>now\<close> and waits \<open>wait\<close> proceeds at \<open>now + wait\<close>.
\<close>

fun slots :: "TokenBucket \<Rightarrow> u64 list \<Rightarrow> nat list" where
  "slots b [] = []"
| "slots b (now # nows) =
     (case acquire now b of (wait, b') \<Rightarrow> (unat now + unat wait) # slots b' nows)"

text \<open>No addition of the run overflows: the limiter's clock stays below \<open>u64::MAX\<close>.\<close>

definition no_overflow :: "TokenBucket \<Rightarrow> u64 list \<Rightarrow> bool" where
  "no_overflow b nows =
     (Max (set (unat (next_allowed_ms b) # map unat nows)) + (length nows + 1) * unat (interval_ms b) < 2 ^ 64)"

lemma acquire_slot:
  assumes "max (unat now) (unat (next_allowed_ms b)) + unat (interval_ms b) < 2 ^ 64"
    and "acquire now b = (wait, b')"
  shows "unat now + unat wait = max (unat now) (unat (next_allowed_ms b))"
    and "unat (next_allowed_ms b') = unat now + unat wait + unat (interval_ms b)"
    and "interval_ms b' = interval_ms b"
  using assms
  by (auto simp: acquire_def word_le_nat_alt unat_word_ariths unat_sub split: if_splits)

lemma slots_spaced:
  assumes "\<And>now. now \<in> set nows \<Longrightarrow> unat now \<le> m" and "unat (next_allowed_ms b) \<le> m"
    and "m + (length nows + 1) * unat (interval_ms b) < 2 ^ 64"
    and "i < length nows"
  shows "unat (next_allowed_ms b) + i * unat (interval_ms b) \<le> slots b nows ! i \<and>
         (\<forall>j. i + j < length nows \<longrightarrow>
            slots b nows ! i + j * unat (interval_ms b) \<le> slots b nows ! (i + j))"
  using assms
proof (induction nows arbitrary: b m i)
  case Nil
  then show ?case by simp
next
  case (Cons now nows)
  obtain wait b' where acq: "acquire now b = (wait, b')" by (cases "acquire now b")
  let ?k = "unat (interval_ms b)"
  have bound: "max (unat now) (unat (next_allowed_ms b)) + ?k < 2 ^ 64"
    using Cons.prems(1) [of now] Cons.prems(2,3) by (simp add: max_def)
  note slot = acquire_slot [OF bound acq]
  have le_m: "unat now + unat wait \<le> m"
    using Cons.prems(1) [of now] Cons.prems(2) slot(1) by simp
  have ih: "unat (next_allowed_ms b') + n * ?k \<le> slots b' nows ! n \<and>
      (\<forall>j. n + j < length nows \<longrightarrow> slots b' nows ! n + j * ?k \<le> slots b' nows ! (n + j))"
    if "n < length nows" for n
    using Cons.IH [of "m + ?k" b' n] that Cons.prems slot(2,3) le_m
    by (force simp: algebra_simps)
  show ?case
  proof (cases i)
    case 0
    have "slots b (now # nows) ! 0 + j * ?k \<le> slots b (now # nows) ! j"
      if "j < length (now # nows)" for j
    proof (cases j)
      case (Suc n)
      with that have "unat (next_allowed_ms b') + n * ?k \<le> slots b' nows ! n" using ih by simp
      with Suc acq slot(2) show ?thesis by simp
    qed simp
    with 0 acq slot(1) show ?thesis by simp
  next
    case (Suc n)
    with Cons.prems(4) have n: "n < length nows" by simp
    have "unat (next_allowed_ms b) + ?k \<le> unat (next_allowed_ms b')" using slot by simp
    with ih [OF n] Suc acq show ?thesis by (auto simp: algebra_simps)
  qed
qed

text \<open>
  Property C33.  Whatever the clock reads, as long as no sum overflows, the calls let through by
  one limiter are spaced: the call \<open>k\<close> places after call \<open>i\<close> proceeds at least \<open>k\<close>
  intervals after it.
\<close>

theorem rate_limiter_spacing:
  assumes "no_overflow b nows" and "i + k < length nows"
  shows "slots b nows ! i + k * unat (interval_ms b) \<le> slots b nows ! (i + k)"
proof -
  let ?m = "Max (set (unat (next_allowed_ms b) # map unat nows))"
  have "unat now \<le> ?m" if "now \<in> set nows" for now using that by simp
  moreover have "unat (next_allowed_ms b) \<le> ?m" by simp
  moreover have "?m + (length nows + 1) * unat (interval_ms b) < 2 ^ 64"
    using assms(1) by (simp add: no_overflow_def)
  ultimately have "\<forall>j. i + j < length nows \<longrightarrow>
      slots b nows ! i + j * unat (interval_ms b) \<le> slots b nows ! (i + j)"
    using slots_spaced [of nows ?m b i] assms(2) by simp
  with assms(2) show ?thesis by blast
qed

theorem rate_limiter_spacing_witness:
  "slots \<lparr> interval_ms = 100, next_allowed_ms = 0 \<rparr> [5, 6, 7] ! 0 + 2 * 100
     \<le> slots \<lparr> interval_ms = 100, next_allowed_ms = 0 \<rparr> [5, 6, 7] ! (0 + 2)"
proof -
  have "no_overflow \<lparr> interval_ms = 100, next_allowed_ms = 0 \<rparr> [5, 6, 7]"
    by (simp add: no_overflow_def)
  from rate_limiter_spacing [OF this, of 0 2] show ?thesis by simp
qed

text \<open>
  Further property.  A rate above 1000 requests per second is not limited at all: the interval is
  0 and, on a clock that does not run backwards, no call ever waits.
\<close>

theorem rate_limiter_above_1000_unlimited:
  assumes "1000 < max_rps" and "rate_limiter_new max_rps = Some b"
    and "sorted (map unat nows)"
  shows "slots b nows = map unat nows"
proof -
  have "unat max_rps > 1000" using assms(1) by (simp add: word_less_nat_alt)
  then have "(1000 :: u64) div ucast max_rps = 0"
    by (simp add: word_arith_nat_div unat_ucast_up)
  with assms(2) have b: "b = \<lparr> interval_ms = 0, next_allowed_ms = 0 \<rparr>"
    by (auto simp: rate_limiter_new_def split: if_splits)
  have "\<forall>now \<in> set nows. a \<le> now \<Longrightarrow> sorted (map unat nows) \<Longrightarrow>
      slots \<lparr> interval_ms = 0, next_allowed_ms = a \<rparr> nows = map unat nows" for a
    by (induction nows arbitrary: a) (auto simp: acquire_def word_le_nat_alt)
  then show ?thesis using assms(3) by (simp add: b)
qed

theorem rate_limiter_above_1000_unlimited_witness:
  "slots \<lparr> interval_ms = 0, next_allowed_ms = 0 \<rparr> [7, 7, 7] = [7, 7, 7]"
proof -
  have "rate_limiter_new 2000 = Some \<lparr> interval_ms = 0, next_allowed_ms = 0 \<rparr>"
    by (simp add: rate_limiter_new_def)
  from rate_limiter_above_1000_unlimited [OF _ this, of "[7, 7, 7]"] show ?thesis by simp
qed

section \<open>Bounded loops\<close>

text \<open>
  The contract that the three retrying loops share: round \<open>n\<close> either finishes with a result
  or hands over the world of the next round, and the round that reaches the limit ends the
  loop.  \<open>rounds_world round n w k\<close> is the world before round \<open>n + k\<close>, provided that none of the
  rounds from \<open>n\<close> on finished before.
\<close>

fun rounds_world :: "(nat \<Rightarrow> 'w \<Rightarrow> 'r + 'w) \<Rightarrow> nat \<Rightarrow> 'w \<Rightarrow> nat \<Rightarrow> 'w option" where
  "rounds_world round n w 0 = Some w"
| "rounds_world round n w (Suc k) =
     (case round n w of Inl r \<Rightarrow> None | Inr w' \<Rightarrow> rounds_world round (n + 1) w' k)"

locale bounded_loop =
  fixes loop :: "nat \<Rightarrow> 'w \<Rightarrow> 'r"
    and round :: "nat \<Rightarrow> 'w \<Rightarrow> 'r + 'w"
    and final :: "nat \<Rightarrow> 'w \<Rightarrow> 'r"
    and limit :: nat
  assumes loop_step:
      "n + 1 < limit \<Longrightarrow> loop n w = (case round n w of Inl r \<Rightarrow> r | Inr w' \<Rightarrow> loop (n + 1) w')"
    and loop_final: "n + 1 = limit \<Longrightarrow> loop n w = final n w"
begin

lemma skip: "rounds_world round n w k = Some v \<Longrightarrow> n + k < limit \<Longrightarrow> loop n w = loop (n + k) v"
proof (induction k arbitrary: n w)
  case (Suc k)
  then obtain w' where "round n w = Inr w'" "rounds_world round (n + 1) w' k = Some v"
    by (auto split: sum.splits)
  with Suc.IH [of "n + 1" w'] Suc.prems(2) show ?case by (simp add: loop_step)
qed simp

lemma finished:
  assumes "rounds_world round n w k = Some v" and "n + k + 1 < limit" and "round (n + k) v = Inl r"
  shows "loop n w = r"
  using skip [OF assms(1)] assms(2,3) by (simp add: loop_step)

lemma exhausted:
  assumes "rounds_world round n w k = Some v" and "n + k + 1 = limit"
  shows "loop n w = final (n + k) v"
  using skip [OF assms(1)] assms(2) by (simp add: loop_final)

end

section \<open>Polling\<close>

definition max_attempts_err :: "(string \<Rightarrow> 'e) \<Rightarrow> u32 \<Rightarrow> 'e" where
  "max_attempts_err from_string max_attempts =
     from_string (''Wait for property. Max '' @ show_u max_attempts @ '' attempts reached.'')"

text \<open>
  The loop of \<open>poll_until\<close>, entered with \<open>attempts < max_attempts\<close>.  \<open>sleep\<close> is
  \<open>sleep_ms\<close> at the interval.
\<close>

function poll_loop ::
  "('w, 'e, 't) io \<Rightarrow> ('t \<Rightarrow> bool) \<Rightarrow> ('w \<Rightarrow> 'w) \<Rightarrow> 'e \<Rightarrow> nat \<Rightarrow> nat \<Rightarrow> ('w, 'e, 't) io" where
  "poll_loop fetch_data predicate sleep err max_attempts attempts w =
     (case fetch_data w of
        (Inl e, w1) \<Rightarrow> (Inl e, w1)
      | (Inr data, w1) \<Rightarrow>
          if predicate data then (Inr data, w1)
          else if attempts + 1 \<ge> max_attempts then (Inl err, w1)
          else poll_loop fetch_data predicate sleep err max_attempts (attempts + 1) (sleep w1))"
  by pat_completeness auto
termination
  by (relation "measure (\<lambda>(f, p, s, e, m, n, w). m - n)") auto

declare poll_loop.simps [simp del]

definition poll_until ::
  "(string \<Rightarrow> 'e) \<Rightarrow> (u64 \<Rightarrow> 'w \<Rightarrow> 'w) \<Rightarrow> ('w, 'e, 't) io \<Rightarrow> ('t \<Rightarrow> bool) \<Rightarrow>
   u32 option \<Rightarrow> u64 option \<Rightarrow> ('w, 'e, 't) io" where
  "poll_until from_string sleep_ms fetch_data predicate max_attempts interval w =
     (let max_attempts = unwrap_or 100 max_attempts;
          interval = unwrap_or 100 interval
      in if max_attempts = 0 then (Inl (max_attempts_err from_string max_attempts), w)
         else poll_loop fetch_data predicate (sleep_ms interval)
                (max_attempts_err from_string max_attempts) (unat max_attempts) 0 w)"

text \<open>
  One round of a poll: the reference description is the sequence of its rounds.
\<close>

definition poll_round ::
  "('w, 'e, 't) io \<Rightarrow> ('t \<Rightarrow> bool) \<Rightarrow> ('w \<Rightarrow> 'w) \<Rightarrow> nat \<Rightarrow> 'w \<Rightarrow> (('e + 't) \<times> 'w) + 'w" where
  "poll_round fetch_data predicate sleep n w =
     (case fetch_data w of
        (Inl e, w1) \<Rightarrow> Inl (Inl e, w1)
      | (Inr data, w1) \<Rightarrow> if predicate data then Inl (Inr data, w1) else Inr (sleep w1))"

definition poll_final ::
  "('w, 'e, 't) io \<Rightarrow> ('t \<Rightarrow> bool) \<Rightarrow> 'e \<Rightarrow> nat \<Rightarrow> 'w \<Rightarrow> ('e + 't) \<times> 'w" where
  "poll_final fetch_data predicate err n w =
     (case fetch_data w of
        (Inl e, w1) \<Rightarrow> (Inl e, w1)
      | (Inr data, w1) \<Rightarrow> (if predicate data then Inr data else Inl err, w1))"

interpretation poll: bounded_loop "poll_loop f p s e m" "poll_round f p s" "poll_final f p e" m
  for f p s e m
proof
  show "n + 1 < m \<Longrightarrow> poll_loop f p s e m n w =
      (case poll_round f p s n w of Inl r \<Rightarrow> r | Inr w' \<Rightarrow> poll_loop f p s e m (n + 1) w')" for n w
    by (subst poll_loop.simps) (simp add: poll_round_def split: prod.splits sum.splits)
  show "n + 1 = m \<Longrightarrow> poll_loop f p s e m n w = poll_final f p e n w" for n w
    by (subst poll_loop.simps) (simp add: poll_final_def split: prod.splits sum.splits)
qed

text \<open>
  Further property.  \<open>poll_until\<close> returns what the first finishing round returns, as long as that
  round is one of the first \<open>max_attempts\<close>: the data when the predicate accepts it, the error
  when the fetch fails.
\<close>

theorem poll_until_first_finished:
  assumes "rounds_world (poll_round fetch predicate (sleep (unwrap_or 100 interval))) 0 w k = Some v"
    and "k < unat (unwrap_or 100 max_attempts)"
    and "fetch v = (r, w')" and "case r of Inl e \<Rightarrow> True | Inr data \<Rightarrow> predicate data"
  shows "poll_until from_string sleep fetch predicate max_attempts interval w = (r, w')"
proof -
  let ?m = "unwrap_or 100 max_attempts" and ?s = "sleep (unwrap_or 100 interval)"
  let ?e = "max_attempts_err from_string ?m"
  have "poll_until from_string sleep fetch predicate max_attempts interval w
      = poll_loop fetch predicate ?s ?e (unat ?m) 0 w"
    using assms(2) by (auto simp: poll_until_def Let_def)
  also have "\<dots> = poll_loop fetch predicate ?s ?e (unat ?m) k v"
    using poll.skip [OF assms(1)] assms(2) by simp
  also have "\<dots> = (r, w')"
    using assms(3,4) by (subst poll_loop.simps) (auto split: sum.splits)
  finally show ?thesis .
qed

theorem poll_until_first_finished_witness:
  "poll_until id (\<lambda>_ n. n) (\<lambda>n. (Inr (Suc n), Suc n)) (\<lambda>v. 3 \<le> v) (Some 10) (Some 0) (0 :: nat)
     = (Inr 3, 3)"
proof (rule poll_until_first_finished [where k = 2])
  show "2 < unat (unwrap_or 100 (Some 10) :: u32)" by simp
  show "rounds_world (poll_round (\<lambda>n. (Inr (Suc n), Suc n)) (\<lambda>v. 3 \<le> v)
          ((\<lambda>_ n. n) (unwrap_or 100 (Some 0)))) 0 (0 :: nat) 2 = Some 2"
    by (simp add: poll_round_def eval_nat_numeral)
qed auto

text \<open>
  Further property.  When all \<open>max_attempts\<close> rounds fetch data that the predicate rejects,
  \<open>poll_until\<close> fails with the exhaustion error right after the last of these fetches; with
  \<open>max_attempts = 0\<close> it fails without any fetch.
\<close>

theorem poll_until_exhausted:
  assumes "unat (unwrap_or 100 max_attempts) = Suc k"
    and "rounds_world (poll_round fetch predicate (sleep (unwrap_or 100 interval))) 0 w k = Some v"
    and "fetch v = (Inr data, w')" and "\<not> predicate data"
  shows "poll_until from_string sleep fetch predicate max_attempts interval w =
           (Inl (max_attempts_err from_string (unwrap_or 100 max_attempts)), w') \<and>
         poll_until from_string sleep fetch predicate (Some 0) interval w =
           (Inl (max_attempts_err from_string 0), w)"
proof -
  let ?m = "unwrap_or 100 max_attempts" and ?s = "sleep (unwrap_or 100 interval)"
  let ?e = "max_attempts_err from_string ?m"
  have "poll_until from_string sleep fetch predicate max_attempts interval w
      = poll_loop fetch predicate ?s ?e (unat ?m) 0 w"
    using assms(1) by (auto simp: poll_until_def Let_def)
  also have "\<dots> = poll_final fetch predicate ?e k v"
    using poll.exhausted [OF assms(2), where m = "unat ?m" and e = ?e] assms(1) by simp
  finally show ?thesis
    using assms(3,4) by (simp add: poll_final_def poll_until_def Let_def)
qed

theorem poll_until_exhausted_witness:
  "poll_until id (\<lambda>_ n. n) (\<lambda>n. (Inr n, Suc n)) (\<lambda>_. False) (Some 3) (Some 0) (0 :: nat)
     = (Inl ''Wait for property. Max 3 attempts reached.'', 3)"
proof -
  have "unat (unwrap_or 100 (Some 3) :: u32) = Suc 2" by simp
  moreover have "rounds_world (poll_round (\<lambda>n. (Inr n :: string + nat, Suc n)) (\<lambda>_. False)
          ((\<lambda>_ n. n) (unwrap_or 100 (Some (0 :: u64))))) 0 (0 :: nat) 2 = Some 2"
    by (simp add: poll_round_def eval_nat_numeral)
  moreover have "max_attempts_err id (3 :: u32) = ''Wait for property. Max 3 attempts reached.''"
    by code_simp
  ultimately show ?thesis
    using poll_until_exhausted [of "Some 3" 2 "\<lambda>n. (Inr n, Suc n)" "\<lambda>_. False" "\<lambda>_ n. n" "Some 0" 0 2 2 3 id]
    by simp
qed

section \<open>Classified retry\<close>

type_synonym duration = nat

definition as_millis_u64 :: "duration \<Rightarrow> u64" where
  "as_millis_u64 d = word_of_nat d"

record RetryPolicy =
  max_attempts :: u32
  max_total :: "duration option"
  base_delay :: duration
  max_delay :: duration
  jitter :: bool

definition http_default :: RetryPolicy where
  "http_default = \<lparr> max_attempts = 5, max_total = Some (60 * 1000), base_delay = 500,
                    max_delay = 30 * 1000, jitter = True \<rparr>"

definition tvm_transient_legacy :: RetryPolicy where
  "tvm_transient_legacy = \<lparr> max_attempts = 3, max_total = None, base_delay = 1000,
                            max_delay = 1000, jitter = False \<rparr>"

text \<open>
  The effects of the retry loop: the clock, \<open>sleep_ms\<close>, the re-acquisition of the optional
  rate limiter, and the process-wide jitter counter (\<open>fetch_add\<close> returns its old value).
\<close>

record 'w retry_env =
  re_now_ms :: "'w \<Rightarrow> u64 \<times> 'w"
  re_sleep_ms :: "u64 \<Rightarrow> 'w \<Rightarrow> 'w"
  re_acquire :: "'w \<Rightarrow> 'w"
  re_counter_fetch_add :: "u64 \<Rightarrow> 'w \<Rightarrow> u64 \<times> 'w"

definition jitter_up_to :: "'w retry_env \<Rightarrow> u64 \<Rightarrow> 'w \<Rightarrow> u64 \<times> 'w" where
  "jitter_up_to env span_ms w =
     (if span_ms = 0 then (0, w)
      else case re_counter_fetch_add env 0x9E3779B97F4A7C15 w of (n, w1) \<Rightarrow>
        case re_now_ms env w1 of (t, w2) \<Rightarrow>
          let mixed = n XOR word_rotl 13 t;
              mixed = mixed * 0xBF58476D1CE4E5B9;
              mixed = mixed XOR drop_bit 31 mixed
          in (mixed mod span_ms, w2))"

definition backoff_factor :: "u32 \<Rightarrow> u64" where
  "backoff_factor attempt =
     (let k = unat (sat_sub attempt 1) in if k < 64 then push_bit k 1 else - 1)"

definition backoff_delay :: "'w retry_env \<Rightarrow> RetryPolicy \<Rightarrow> u32 \<Rightarrow> 'w \<Rightarrow> u64 \<times> 'w" where
  "backoff_delay env policy attempt w =
     (let base = as_millis_u64 (base_delay policy);
          cap = as_millis_u64 (max_delay policy);
          factor = backoff_factor attempt;
          grown = sat_mul base factor;
          capped = min grown cap
      in case (if jitter policy then jitter_up_to env base w else (0, w)) of
           (jitter_ms, w') \<Rightarrow> (min (sat_add capped jitter_ms) cap, w'))"

text \<open>The wall-clock check: is the total budget spent?\<close>

definition total_exceeded :: "'w retry_env \<Rightarrow> RetryPolicy \<Rightarrow> u64 \<Rightarrow> 'w \<Rightarrow> bool \<times> 'w" where
  "total_exceeded env policy start_ms w =
     (case max_total policy of
        None \<Rightarrow> (False, w)
      | Some cap \<Rightarrow> (case re_now_ms env w of (t, w') \<Rightarrow>
          (sat_sub t start_ms \<ge> as_millis_u64 cap, w')))"

text \<open>The loop \<open>for attempt in 1..=max_attempts\<close>, from attempt \<open>attempt\<close> on.\<close>

function retry_loop ::
  "'w retry_env \<Rightarrow> RetryPolicy \<Rightarrow> ('e \<Rightarrow> bool) \<Rightarrow> ('w, 'e, 'a) io \<Rightarrow> u64 \<Rightarrow> nat \<Rightarrow> ('w, 'e, 'a) io" where
  "retry_loop env policy should_retry op start_ms attempt w =
     (case op (re_acquire env w) of
        (Inr v, w1) \<Rightarrow> (Inr v, w1)
      | (Inl err, w1) \<Rightarrow>
          if attempt \<ge> unat (max_attempts policy) \<or> \<not> should_retry err then (Inl err, w1)
          else (case total_exceeded env policy start_ms w1 of (expired, w2) \<Rightarrow>
                  if expired then (Inl err, w2)
                  else case backoff_delay env policy (word_of_nat attempt) w2 of (delay, w3) \<Rightarrow>
                    retry_loop env policy should_retry op start_ms (attempt + 1)
                      (re_sleep_ms env delay w3)))"
  by pat_completeness auto
termination
  by (relation "measure (\<lambda>(env, p, sr, op, s, n, w). unat (max_attempts p) - n)") auto

declare retry_loop.simps [simp del]

text \<open>\<open>None\<close> is the panic of the assertion \<open>max_attempts >= 1\<close>.\<close>

definition with_retry_policy ::
  "'w retry_env \<Rightarrow> RetryPolicy \<Rightarrow> ('e \<Rightarrow> bool) \<Rightarrow> ('w, 'e, 'a) io \<Rightarrow> 'w \<Rightarrow> (('e + 'a) \<times> 'w) option" where
  "with_retry_policy env policy should_retry op w =
     (if max_attempts policy \<ge> 1
      then case re_now_ms env w of (start_ms, w1) \<Rightarrow>
             Some (retry_loop env policy should_retry op start_ms 1 w1)
      else None)"

text \<open>A measure of the world that only the operation itself changes, by one per run.\<close>

definition counts_runs :: "'w retry_env \<Rightarrow> ('w, 'e, 'a) io \<Rightarrow> ('w \<Rightarrow> nat) \<Rightarrow> bool" where
  "counts_runs env op cnt =
     ((\<forall>w. cnt (snd (op w)) = cnt w + 1) \<and> (\<forall>w. cnt (snd (re_now_ms env w)) = cnt w) \<and>
      (\<forall>d w. cnt (re_sleep_ms env d w) = cnt w) \<and> (\<forall>w. cnt (re_acquire env w) = cnt w) \<and>
      (\<forall>c w. cnt (snd (re_counter_fetch_add env c w)) = cnt w))"

lemma counts_runs_backoff:
  assumes "counts_runs env op cnt"
  shows "cnt (snd (backoff_delay env policy a w)) = cnt w"
proof -
  have j: "cnt (snd (jitter_up_to env span w)) = cnt w" for span
    using assms by (simp add: counts_runs_def jitter_up_to_def Let_def split: prod.splits) (metis snd_conv)
  show ?thesis
    using j [of "as_millis_u64 (base_delay policy)"]
    by (auto simp: backoff_delay_def Let_def split: prod.splits)
qed

lemma total_exceeded_frame:
  assumes "counts_runs env op cnt" and "total_exceeded env policy st w = (expired, w')"
  shows "cnt w' = cnt w \<and> (expired \<longrightarrow> max_total policy \<noteq> None)"
proof (cases "max_total policy")
  case (Some cap)
  have "cnt (snd (re_now_ms env w)) = cnt w" using assms(1) by (simp add: counts_runs_def)
  with assms(2) Some show ?thesis by (auto simp: total_exceeded_def split: prod.splits)
qed (use assms(2) in \<open>auto simp: total_exceeded_def\<close>)

lemma retry_loop_runs:
  assumes "counts_runs env op cnt" and "n \<le> unat (max_attempts policy)"
    and "retry_loop env policy sr op st n w = (res, w')"
  shows "cnt w < cnt w' \<and> cnt w' + n \<le> cnt w + unat (max_attempts policy) + 1 \<and>
         (\<exists>v v'. op v = (res, v')) \<and>
         (\<forall>err. res = Inl err \<longrightarrow> max_total policy = None \<longrightarrow>
            cnt w' + n < cnt w + unat (max_attempts policy) + 1 \<longrightarrow> \<not> sr err)"
  using assms
proof (induction env policy sr op st n w arbitrary: res w' rule: retry_loop.induct)
  case (1 env policy sr op st n w)
  obtain r w1 where op: "op (re_acquire env w) = (r, w1)" by (cases "op (re_acquire env w)")
  have c1: "cnt w1 = cnt w + 1"
    using "1.prems"(1) op unfolding counts_runs_def by (metis snd_conv)
  obtain expired w2 where ex: "total_exceeded env policy st w1 = (expired, w2)"
    by (cases "total_exceeded env policy st w1")
  have c2: "cnt w2 = cnt w1" and ex_cap: "expired \<longrightarrow> max_total policy \<noteq> None"
    using total_exceeded_frame [OF "1.prems"(1) ex] by auto
  obtain delay w3 where del: "backoff_delay env policy (word_of_nat n) w2 = (delay, w3)"
    by (cases "backoff_delay env policy (word_of_nat n) w2")
  have c3: "cnt (re_sleep_ms env delay w3) = cnt w2"
    using counts_runs_backoff [OF "1.prems"(1), of policy "word_of_nat n" w2] "1.prems"(1) del
    by (simp add: counts_runs_def)
  show ?case
  proof (cases r)
    case (Inr v)
    with "1.prems" op c1 show ?thesis by (auto simp: retry_loop.simps [of env policy sr op st n w])
  next
    case (Inl err)
    show ?thesis
    proof (cases "n \<ge> unat (max_attempts policy) \<or> \<not> sr err \<or> expired")
      case True
      then have "res = Inl err" and "w' = w1 \<or> w' = w2"
        using "1.prems"(3) op Inl ex
        by (auto simp: retry_loop.simps [of env policy sr op st n w] split: if_splits)
      with True ex_cap "1.prems"(2) op Inl c1 c2 show ?thesis by auto
    next
      case False
      with "1.prems"(3) op Inl ex del
      have rec: "retry_loop env policy sr op st (n + 1) (re_sleep_ms env delay w3) = (res, w')"
        by (simp add: retry_loop.simps [of env policy sr op st n w])
      from "1.IH" [OF op [symmetric] Inl _ ex [symmetric] _ del [symmetric] "1.prems"(1) _ rec] False
      show ?thesis using c1 c2 c3 by auto
    qed
  qed
qed

text \<open>
  Further property.  \<open>with_retry_policy\<close> runs the operation at least once and at most
  \<open>max_attempts\<close> times, returns verbatim what one of the runs returned, and without a
  wall-clock cap gives up early only on an error the classifier rejects.
\<close>

theorem with_retry_policy_bounded:
  assumes "counts_runs env op cnt"
    and "with_retry_policy env policy should_retry op w = Some (res, w')"
  shows "cnt w < cnt w' \<and> cnt w' \<le> cnt w + unat (max_attempts policy) \<and>
         (\<exists>v v'. op v = (res, v')) \<and>
         (\<forall>err. res = Inl err \<longrightarrow> max_total policy = None \<longrightarrow>
            cnt w' < cnt w + unat (max_attempts policy) \<longrightarrow> \<not> should_retry err)"
proof -
  obtain t w1 where t: "re_now_ms env w = (t, w1)" by (cases "re_now_ms env w")
  have c: "cnt w1 = cnt w" using assms(1) t unfolding counts_runs_def by (metis snd_conv)
  have "1 \<le> unat (max_attempts policy)"
    and "retry_loop env policy should_retry op t 1 w1 = (res, w')"
    using assms(2) t by (auto simp: with_retry_policy_def word_le_nat_alt split: if_splits)
  from retry_loop_runs [OF assms(1) this] c show ?thesis by auto
qed

theorem with_retry_policy_bounded_witness:
  "with_retry_policy \<lparr> re_now_ms = (\<lambda>n. (0, n)), re_sleep_ms = (\<lambda>_ n. n), re_acquire = id,
       re_counter_fetch_add = (\<lambda>_ n. (0, n)) \<rparr> tvm_transient_legacy (\<lambda>_. True)
       (\<lambda>n. (if n < 2 then Inl ''transient'' else Inr (7 :: nat), n + 1)) (0 :: nat)
     = Some (Inr 7, 3) \<and> (0 :: nat) < 3 \<and> (3 :: nat) \<le> 0 + unat (max_attempts tvm_transient_legacy)"
proof -
  let ?env = "\<lparr> re_now_ms = (\<lambda>n. (0, n)), re_sleep_ms = (\<lambda>_ n. n), re_acquire = id,
       re_counter_fetch_add = (\<lambda>_ n. (0, n)) \<rparr> :: nat retry_env"
  let ?op = "\<lambda>n :: nat. (if n < 2 then Inl ''transient'' else Inr (7 :: nat), n + 1)"
  have run: "with_retry_policy ?env tvm_transient_legacy (\<lambda>_. True) ?op 0 = Some (Inr 7, 3)"
    by (simp add: with_retry_policy_def tvm_transient_legacy_def retry_loop.simps backoff_delay_def
        total_exceeded_def Let_def)
  have "counts_runs ?env ?op id" by (simp add: counts_runs_def)
  from with_retry_policy_bounded [OF this run] run show ?thesis by simp
qed

definition retry_round ::
  "'w retry_env \<Rightarrow> RetryPolicy \<Rightarrow> ('e \<Rightarrow> bool) \<Rightarrow> ('w, 'e, 'a) io \<Rightarrow> u64 \<Rightarrow> nat \<Rightarrow> 'w \<Rightarrow>
   (('e + 'a) \<times> 'w) + 'w" where
  "retry_round env policy should_retry op start_ms n w =
     (case op (re_acquire env w) of
        (Inr v, w1) \<Rightarrow> Inl (Inr v, w1)
      | (Inl err, w1) \<Rightarrow>
          if \<not> should_retry err then Inl (Inl err, w1)
          else (case total_exceeded env policy start_ms w1 of (expired, w2) \<Rightarrow>
                  if expired then Inl (Inl err, w2)
                  else case backoff_delay env policy (word_of_nat (n + 1)) w2 of (delay, w3) \<Rightarrow>
                    Inr (re_sleep_ms env delay w3)))"

interpretation retry:
  bounded_loop "\<lambda>n. retry_loop env p sr op st (n + 1)" "retry_round env p sr op st"
    "\<lambda>_ w. op (re_acquire env w)" "unat (max_attempts p)"
  for env p sr op st
proof
  show "n + 1 < unat (max_attempts p) \<Longrightarrow> retry_loop env p sr op st (n + 1) w =
      (case retry_round env p sr op st n w of Inl r \<Rightarrow> r
       | Inr w' \<Rightarrow> retry_loop env p sr op st (n + 1 + 1) w')" for n w
    by (subst retry_loop.simps) (simp add: retry_round_def split: prod.splits sum.splits)
  show "n + 1 = unat (max_attempts p) \<Longrightarrow> retry_loop env p sr op st (n + 1) w = op (re_acquire env w)"
    for n w
    by (subst retry_loop.simps) (simp split: prod.splits sum.splits)
qed

text \<open>
  Further property.  The first attempt that succeeds ends the retry with its value: when attempts
  \<open>1\<close> to \<open>k\<close> fail with retryable errors inside the time budget and attempt \<open>k + 1\<close>, still
  within \<open>max_attempts\<close>, succeeds, the result is that success.
\<close>

theorem with_retry_policy_first_success:
  assumes "re_now_ms env w = (start_ms, w1)" and "k < unat (max_attempts policy)"
    and "rounds_world (retry_round env policy should_retry op start_ms) 0 w1 k = Some v"
    and "op (re_acquire env v) = (Inr value, w')"
  shows "with_retry_policy env policy should_retry op w = Some (Inr value, w')"
proof -
  have "1 \<le> max_attempts policy" using assms(2) by (simp add: word_le_nat_alt)
  moreover have "retry_loop env policy should_retry op start_ms (0 + 1) w1
      = retry_loop env policy should_retry op start_ms (0 + k + 1) v"
    using retry.skip [OF assms(3)] assms(2) by simp
  moreover have "\<dots> = (Inr value, w')"
    using assms(4) by (subst retry_loop.simps) simp
  ultimately show ?thesis using assms(1) by (simp add: with_retry_policy_def)
qed

theorem with_retry_policy_first_success_witness:
  "with_retry_policy \<lparr> re_now_ms = (\<lambda>n. (0, n)), re_sleep_ms = (\<lambda>_ n. n), re_acquire = id,
       re_counter_fetch_add = (\<lambda>_ n. (0, n)) \<rparr> tvm_transient_legacy (\<lambda>_. True)
       (\<lambda>n. (if n < 1 then Inl ''transient'' else Inr (7 :: nat), n + 1)) (0 :: nat)
     = Some (Inr 7, 2)"
  by (rule with_retry_policy_first_success [where k = 1 and start_ms = 0 and ?w1.0 = 0 and v = 1])
    (simp_all add: tvm_transient_legacy_def retry_round_def total_exceeded_def backoff_delay_def Let_def)

lemma unat_backoff_factor:
  assumes "1 \<le> attempt"
  shows "unat (backoff_factor attempt) = (if unat attempt \<le> 64 then 2 ^ (unat attempt - 1) else 2 ^ 64 - 1)"
proof -
  have "unat (sat_sub attempt 1) = unat attempt - 1" by (simp add: unat_sat_sub)
  moreover have "1 \<le> unat attempt" using assms by (simp add: word_le_nat_alt)
  moreover have "unat (push_bit k 1 :: u64) = 2 ^ k" if "k < 64" for k
    using that by (intro unat_push_bit_1) simp
  ultimately show ?thesis
    by (auto simp: backoff_factor_def Let_def unat_max)
qed

lemma capped_growth:
  assumes "1 \<le> attempt"
  shows "unat (min (sat_mul base (backoff_factor attempt)) cap)
       = min (unat base * 2 ^ (unat attempt - 1)) (unat cap)"
proof -
  have lt: "unat base < 2 ^ 64" "unat cap < 2 ^ 64"
    using unat_bound [of base] unat_bound [of cap] by simp_all
  show ?thesis
  proof (cases "unat attempt \<le> 64")
    case True
    with lt show ?thesis
      by (simp add: unat_min unat_sat_mul unat_backoff_factor [OF assms] min.assoc)
  next
    case False
    have "unat cap \<le> min (unat base * (2 ^ 64 - 1)) (2 ^ 64 - 1)" if "unat base \<noteq> 0"
      using that lt(2) by (auto simp: min_def)
    moreover have "unat cap \<le> unat base * 2 ^ (unat attempt - 1)" if "unat base \<noteq> 0"
    proof -
      have "(2 :: nat) ^ 64 \<le> 2 ^ (unat attempt - 1)"
        using False by (intro power_increasing) auto
      with that lt(2) have "unat cap \<le> 1 * 2 ^ (unat attempt - 1)" by simp
      also have "\<dots> \<le> unat base * 2 ^ (unat attempt - 1)"
        using that by (intro mult_le_mono) auto
      finally show ?thesis .
    qed
    ultimately show ?thesis
      using False by (cases "unat base = 0")
        (auto simp: unat_min unat_sat_mul unat_backoff_factor [OF assms])
  qed
qed

text \<open>
  Further property.  Without jitter the delay before attempt \<open>a + 1\<close> is exactly
  \<open>min (base * 2 ^ (a - 1)) max_delay\<close> for every attempt number, also where the shift or the
  product would leave 64 bits; with jitter it never exceeds \<open>max_delay\<close> and is never below
  the delay without jitter.
\<close>

theorem backoff_delay_spec:
  assumes "1 \<le> attempt" and "base_delay policy < 2 ^ 64" and "max_delay policy < 2 ^ 64"
    and "backoff_delay env policy attempt w = (delay, w')"
  shows "unat delay \<le> max_delay policy \<and>
         min (base_delay policy * 2 ^ (unat attempt - 1)) (max_delay policy) \<le> unat delay \<and>
         (\<not> jitter policy \<longrightarrow>
            unat delay = min (base_delay policy * 2 ^ (unat attempt - 1)) (max_delay policy))"
proof -
  let ?base = "as_millis_u64 (base_delay policy)" and ?cap = "as_millis_u64 (max_delay policy)"
  have b: "unat ?base = base_delay policy" and c: "unat ?cap = max_delay policy"
    using assms(2,3) by (simp_all add: as_millis_u64_def unat_of_nat)
  obtain j where j: "delay = min (sat_add (min (sat_mul ?base (backoff_factor attempt)) ?cap) j) ?cap"
    and j0: "\<not> jitter policy \<longrightarrow> j = 0"
    using assms(4) by (auto simp: backoff_delay_def Let_def split: prod.splits if_splits)
  let ?x = "min (sat_mul ?base (backoff_factor attempt)) ?cap"
  have x: "unat ?x = min (base_delay policy * 2 ^ (unat attempt - 1)) (max_delay policy)"
    using capped_growth [OF assms(1)] b c by simp
  have "?x \<le> delay" using sat_add_ge [of ?x j] by (simp add: j)
  moreover have "delay \<le> ?cap" by (simp add: j)
  moreover have "delay = ?x" if "\<not> jitter policy"
    using that j0 by (simp add: j)
  ultimately show ?thesis using x c by (auto simp: word_le_nat_alt)
qed

theorem backoff_delay_spec_witness:
  "fst (backoff_delay \<lparr> re_now_ms = (\<lambda>n. (0, n)), re_sleep_ms = (\<lambda>_ n. n), re_acquire = id,
       re_counter_fetch_add = (\<lambda>_ n. (0, n)) \<rparr>
       \<lparr> max_attempts = 10, max_total = None, base_delay = 100, max_delay = 800, jitter = False \<rparr>
       50 (0 :: nat)) = 800"
proof -
  let ?env = "\<lparr> re_now_ms = (\<lambda>n. (0, n)), re_sleep_ms = (\<lambda>_ n. n), re_acquire = id,
       re_counter_fetch_add = (\<lambda>_ n. (0, n)) \<rparr> :: nat retry_env"
  let ?p = "\<lparr> max_attempts = 10, max_total = None, base_delay = 100, max_delay = 800, jitter = False \<rparr>"
  obtain d w where d: "backoff_delay ?env ?p 50 0 = (d, w)" by (cases "backoff_delay ?env ?p 50 0")
  have "unat d = 800" using backoff_delay_spec [OF _ _ _ d] by simp
  then have "d = 800" by (simp add: word_unat_eq_iff)
  with d show ?thesis by simp
qed

section \<open>Types of the chain client\<close>

record KeyPair =
  kp_public :: string
  kp_secret :: string

section \<open>Queue-overflow retry of prepared messages\<close>

text \<open>
  \<open>ClientError\<close> of the chain client, by the accessors the sources call: \<open>code()\<close>,
  \<open>message()\<close>, \<open>data()\<close> and its \<open>Display\<close> text.
\<close>

record ClientError =
  ce_code :: u32
  ce_message :: string
  ce_data :: json
  ce_display :: string

definition is_queue_overflow :: "ClientError \<Rightarrow> bool" where
  "is_queue_overflow error =
     (Option.bind (json_pointer [''node_error'', ''extensions'', ''code''] (ce_data error)) json_as_str
        = Some ''QUEUE_OVERFLOW'')"

definition QUEUE_OVERFLOW_MAX_RETRIES :: nat where
  "QUEUE_OVERFLOW_MAX_RETRIES = 30"

definition QUEUE_OVERFLOW_RETRY_INTERVAL :: duration where
  "QUEUE_OVERFLOW_RETRY_INTERVAL = 1000"

function overflow_loop ::
  "('w, ClientError, 'a) io \<Rightarrow> (duration \<Rightarrow> 'w \<Rightarrow> 'w) \<Rightarrow> ('w \<Rightarrow> u64) \<Rightarrow> u64 \<Rightarrow> nat \<Rightarrow>
   ('w, ClientError, 'a) io" where
  "overflow_loop attempt sleep now_millis deadline_millis retries w =
     (case attempt w of
        (Inr result, w1) \<Rightarrow> (Inr result, w1)
      | (Inl error, w1) \<Rightarrow>
          if \<not> is_queue_overflow error \<or> retries \<ge> QUEUE_OVERFLOW_MAX_RETRIES then (Inl error, w1)
          else if sat_add (now_millis w1) (as_millis_u64 QUEUE_OVERFLOW_RETRY_INTERVAL) \<ge> deadline_millis
          then (Inl error, w1)
          else overflow_loop attempt sleep now_millis deadline_millis (retries + 1)
                 (sleep QUEUE_OVERFLOW_RETRY_INTERVAL w1))"
  by pat_completeness auto
termination
  by (relation "measure (\<lambda>(a, s, n, d, k, w). QUEUE_OVERFLOW_MAX_RETRIES - k)") auto

declare overflow_loop.simps [simp del]

definition with_queue_overflow_retry ::
  "('w, ClientError, 'a) io \<Rightarrow> (duration \<Rightarrow> 'w \<Rightarrow> 'w) \<Rightarrow> ('w \<Rightarrow> u64) \<Rightarrow> u32 option \<Rightarrow>
   ('w, ClientError, 'a) io" where
  "with_queue_overflow_retry attempt sleep now_millis expires_at w =
     (case expires_at of
        None \<Rightarrow> attempt w
      | Some expires_at \<Rightarrow>
          let deadline_millis = ucast expires_at * 1000
          in overflow_loop attempt sleep now_millis deadline_millis 0 w)"

definition overflow_round ::
  "('w, ClientError, 'a) io \<Rightarrow> (duration \<Rightarrow> 'w \<Rightarrow> 'w) \<Rightarrow> ('w \<Rightarrow> u64) \<Rightarrow> u64 \<Rightarrow> nat \<Rightarrow> 'w \<Rightarrow>
   ((ClientError + 'a) \<times> 'w) + 'w" where
  "overflow_round attempt sleep now_millis deadline n w =
     (case attempt w of
        (Inr result, w1) \<Rightarrow> Inl (Inr result, w1)
      | (Inl error, w1) \<Rightarrow>
          if is_queue_overflow error \<and> unat (now_millis w1) + 1000 < unat deadline
          then Inr (sleep QUEUE_OVERFLOW_RETRY_INTERVAL w1) else Inl (Inl error, w1))"

lemma retry_time_ok:
  "sat_add t (as_millis_u64 QUEUE_OVERFLOW_RETRY_INTERVAL) \<ge> d \<longleftrightarrow> \<not> unat t + 1000 < unat d"
  using unat_bound [of d]
  by (auto simp: word_le_nat_alt unat_sat_add as_millis_u64_def QUEUE_OVERFLOW_RETRY_INTERVAL_def)

interpretation overflow:
  bounded_loop "overflow_loop a s now d" "overflow_round a s now d" "\<lambda>_. a" 31
  for a s now d
proof
  show "n + 1 < 31 \<Longrightarrow> overflow_loop a s now d n w =
      (case overflow_round a s now d n w of Inl r \<Rightarrow> r | Inr w' \<Rightarrow> overflow_loop a s now d (n + 1) w')"
    for n w
    by (subst overflow_loop.simps)
      (simp add: overflow_round_def retry_time_ok QUEUE_OVERFLOW_MAX_RETRIES_def
        split: prod.splits sum.splits)
  show "n + 1 = 31 \<Longrightarrow> overflow_loop a s now d n w = a w" for n w
    by (subst overflow_loop.simps)
      (simp add: QUEUE_OVERFLOW_MAX_RETRIES_def split: prod.splits sum.splits)
qed

text \<open>
  Further property.  A prepared message that can expire is resent only after a structured queue
  overflow, only while the next attempt still falls before its expiry, and at most 30 times:
  the outcome is that of the first attempt at which one of these conditions fails, and in any
  case that of attempt 31.
\<close>

theorem queue_overflow_retry_spec:
  assumes "rounds_world (overflow_round attempt sleep now (ucast expires_at * 1000)) 0 w k = Some v"
    and "attempt v = (r, w')"
    and "k = 30 \<or> k < 30 \<and> (\<forall>error. r = Inl error \<longrightarrow>
           \<not> is_queue_overflow error \<or> unat expires_at * 1000 \<le> unat (now w') + 1000)"
  shows "with_queue_overflow_retry attempt sleep now (Some expires_at) w = (r, w')"
proof -
  let ?d = "ucast expires_at * 1000 :: u64"
  have d: "unat ?d = unat expires_at * 1000"
  proof -
    have "unat expires_at < 2 ^ 32" using unat_bound [of expires_at] by simp
    moreover have "unat (ucast expires_at :: u64) = unat expires_at" by (simp add: unat_ucast_up)
    ultimately show ?thesis by (simp add: unat_word_ariths)
  qed
  have "overflow_loop attempt sleep now ?d 0 w = (r, w')"
  proof (cases "k = 30")
    case True
    with overflow.exhausted [OF assms(1)] assms(2) show ?thesis by simp
  next
    case False
    with assms(2,3) have "overflow_round attempt sleep now ?d k v = Inl (r, w')"
      by (auto simp: overflow_round_def d split: sum.splits)
    with overflow.finished [OF assms(1)] False assms(3) show ?thesis by simp
  qed
  then show ?thesis by (simp add: with_queue_overflow_retry_def)
qed

theorem queue_overflow_retry_spec_witness:
  "with_queue_overflow_retry (\<lambda>n. (Inr ''sent'', n + 1)) (\<lambda>_ n. n) (\<lambda>_. 1000) (Some 60) (0 :: nat)
     = (Inr ''sent'', 1)"
  by (rule queue_overflow_retry_spec [where k = 0 and v = 0]) simp_all

end
