(* ===== verification/Shared.thy ===== *)
theory Shared
  imports Prelude
begin

unbundle bit_operations_syntax

text \<open>
  The crate \<open>bee_shared\<close>: mined leaves and their proof-of-work check (\<open>miner/leaf.rs\<close>), the
  session types (\<open>miner/mod.rs\<close>) and the decoding of a verification request (\<open>verifier.rs\<close>).

  \<open>blake3\<close> stands for the hash function of the package of that name: feeding a hasher with
  several \<open>update\<close> calls hashes the concatenation of their arguments.  \<open>hex_encode\<close> stands
  for \<open>hex::encode\<close>, \<open>borsh_rest\<close> for the derived Borsh decoder.
\<close>

section \<open>Leaves\<close>

record Leaf =
  l_index :: u128
  l_nonce :: u64
  l_seed :: string
  l_x :: u32
  l_y :: u32
  l_timestamp :: u64
  l_complexity :: u32

record ComputedLeaf =
  cl_index :: u128
  cl_nonce :: u64
  cl_seed :: string
  cl_x :: u32
  cl_y :: u32
  cl_timestamp :: u64
  cl_complexity :: u32
  cl_hash :: "byte list"

definition leaf_from :: "ComputedLeaf \<Rightarrow> Leaf" where
  "leaf_from value =
     \<lparr> l_index = cl_index value, l_nonce = cl_nonce value, l_seed = cl_seed value,
       l_x = cl_x value, l_y = cl_y value, l_timestamp = cl_timestamp value,
       l_complexity = cl_complexity value \<rparr>"

text \<open>The bytes \<open>Leaf::compute\<close> feeds to the hasher, in the order of the \<open>update\<close> calls.\<close>

definition leaf_preimage :: "Leaf \<Rightarrow> byte list" where
  "leaf_preimage l =
     u32_to_be (l_x l) @ u32_to_be (l_y l) @ u64_to_be (l_timestamp l) @
     u32_to_be (l_complexity l) @ as_bytes (l_seed l) @ u128_to_be (l_index l) @
     u64_to_be (l_nonce l)"

definition leaf_compute :: "(byte list \<Rightarrow> byte list) \<Rightarrow> Leaf \<Rightarrow> ComputedLeaf" where
  "leaf_compute blake3 l =
     \<lparr> cl_index = l_index l, cl_nonce = l_nonce l, cl_seed = l_seed l, cl_x = l_x l,
       cl_y = l_y l, cl_timestamp = l_timestamp l, cl_complexity = l_complexity l,
       cl_hash = blake3 (leaf_preimage l) \<rparr>"

definition merkle_text :: "(byte list \<Rightarrow> string) \<Rightarrow> ComputedLeaf \<Rightarrow> string" where
  "merkle_text hex_encode c =
     ''index:'' @ show_u (cl_index c) @ '',nonce:'' @ show_u (cl_nonce c) @ '',seed:'' @ cl_seed c @
     '',x:'' @ show_u (cl_x c) @ '',y:'' @ show_u (cl_y c) @ '',timestamp:'' @ show_u (cl_timestamp c) @
     '',complexity:'' @ show_u (cl_complexity c) @ '',hash:'' @ hex_encode (cl_hash c)"

definition merkle_hash ::
  "(byte list \<Rightarrow> byte list) \<Rightarrow> (byte list \<Rightarrow> string) \<Rightarrow> ComputedLeaf \<Rightarrow> byte list" where
  "merkle_hash blake3 hex_encode c = blake3 (as_bytes (merkle_text hex_encode c))"

definition hash_num :: "ComputedLeaf \<Rightarrow> u128" where
  "hash_num c = (if length (cl_hash c) < 16 then - 1 else u128_from_be (take 16 (cl_hash c)))"

definition leaf_verify :: "(byte list \<Rightarrow> byte list) \<Rightarrow> ComputedLeaf \<Rightarrow> string \<Rightarrow> u32 \<Rightarrow> bool" where
  "leaf_verify blake3 c seed complexity =
     (if cl_seed c \<noteq> seed \<or> cl_complexity c \<noteq> complexity then False
      else if cl_complexity c \<ge> 128 then False
      else
        let hash_valid = (let leaf = leaf_from c; computed = leaf_compute blake3 leaf
                          in cl_hash c = cl_hash computed);
            num_valid = (let threshold = drop_bit (unat (cl_complexity c)) (- 1)
                         in hash_num c < threshold)
        in hash_valid \<and> num_valid)"

lemma leaf_from_compute [simp]: "leaf_from (leaf_compute blake3 l) = l"
  by (simp add: leaf_from_def leaf_compute_def)

lemma compute_leaf_from:
  "cl_hash c = cl_hash (leaf_compute blake3 (leaf_from c)) \<longleftrightarrow> c = leaf_compute blake3 (leaf_from c)"
  by (cases c) (auto simp: leaf_compute_def leaf_from_def)

lemma unat_mask_u128: "n \<le> 128 \<Longrightarrow> unat (mask n :: u128) = 2 ^ n - 1"
proof -
  assume n: "n \<le> 128"
  have "(mask n :: u128) = word_of_nat (mask n)" by (simp add: of_nat_mask_eq)
  then have "unat (mask n :: u128) = mask n mod 2 ^ 128" by (simp only: unat_of_nat) simp
  moreover have "(2 :: nat) ^ n \<le> 2 ^ 128" using n by (intro power_increasing) auto
  then have "mask n < (2 :: nat) ^ 128" by (simp add: mask_eq_exp_minus_1)
  ultimately show ?thesis by (simp add: mask_eq_exp_minus_1)
qed

text \<open>
  Further property.  A computed leaf verifies against a seed and a complexity exactly when it
  carries them, the complexity is below 128, its hash is the one recomputed from its fields,
  and the first 16 bytes of the hash, read as a big-endian number, are below
  \<open>2 ^ (128 - complexity) - 1\<close>: at least \<open>complexity\<close> leading zero bits.
\<close>

theorem leaf_verify_iff:
  "leaf_verify blake3 c seed complexity \<longleftrightarrow>
     cl_seed c = seed \<and> cl_complexity c = complexity \<and> unat complexity < 128 \<and>
     c = leaf_compute blake3 (leaf_from c) \<and>
     16 \<le> length (cl_hash c) \<and>
     be_nat (take 16 (cl_hash c)) < 2 ^ (128 - unat complexity) - 1"
proof -
  have num: "hash_num c < mask (128 - unat k) \<longleftrightarrow>
      16 \<le> length (cl_hash c) \<and> be_nat (take 16 (cl_hash c)) < 2 ^ (128 - unat k) - 1"
    if "unat k < 128" for k :: u32
  proof (cases "16 \<le> length (cl_hash c)")
    case True
    then have "be_nat (take 16 (cl_hash c)) < 256 ^ 16"
      using be_nat_bound [of "take 16 (cl_hash c)"] by simp
    with True show ?thesis
      by (simp add: hash_num_def word_less_nat_alt unat_mask_u128 u128_from_be_def unat_of_nat)
  next
    case False
    have "(2 :: nat) ^ (128 - unat k) \<le> 2 ^ 128" by (intro power_increasing) auto
    with False show ?thesis
      by (simp add: hash_num_def word_less_nat_alt unat_mask_u128 unat_max)
  qed
  show ?thesis
    unfolding leaf_verify_def Let_def compute_leaf_from
    by (auto simp: num word_le_nat_alt not_le)
qed

text \<open>
  Further property.  The bytes hashed for a leaf determine the leaf: no two different leaves feed the
  same bytes to the hasher, although the seed in the middle has no length prefix.
\<close>

theorem leaf_preimage_inject: "leaf_preimage l = leaf_preimage l' \<longleftrightarrow> l = l'"
proof
  assume eq: "leaf_preimage l = leaf_preimage l'"
  then have "as_bytes (l_seed l) @ u128_to_be (l_index l) @ u64_to_be (l_nonce l)
      = as_bytes (l_seed l') @ u128_to_be (l_index l') @ u64_to_be (l_nonce l')"
    and head: "l_x l = l_x l'" "l_y l = l_y l'" "l_timestamp l = l_timestamp l'"
      "l_complexity l = l_complexity l'"
    by (auto simp: leaf_preimage_def be32.enc_append_inject be64.enc_append_inject)
  then have "(as_bytes (l_seed l) @ u128_to_be (l_index l)) @ u64_to_be (l_nonce l)
      = (as_bytes (l_seed l') @ u128_to_be (l_index l')) @ u64_to_be (l_nonce l')"
    by simp
  then have "l_seed l = l_seed l'" "l_index l = l_index l'" "l_nonce l = l_nonce l'"
    by (simp_all only: be64.append_enc_inject be128.append_enc_inject as_bytes_inject)
  with head show "l = l'" by (cases l, cases l') simp
qed simp

lemma comma_free_show_u: "CHR '','' \<notin> set (show_u w)"
  using show_u_digits [of w] by auto

lemma comma_sep_right: "CHR '','' \<notin> set b \<Longrightarrow> CHR '','' \<notin> set b' \<Longrightarrow>
    a @ CHR '','' # b = a' @ CHR '','' # b' \<longleftrightarrow> a = a' \<and> b = b'"
  by (rule append_sep_right_inject)

text \<open>
  Further property.  The text hashed into the Merkle tree determines the computed leaf, whatever
  characters the seed contains: no two different leaves have the same tree leaf unless the
  hash function collides.
\<close>

theorem merkle_text_inject:
  assumes "\<And>bs bs'. hex_encode bs = hex_encode bs' \<Longrightarrow> bs = bs'"
    and "\<And>bs. CHR '','' \<notin> set (hex_encode bs)"
  shows "merkle_text hex_encode c = merkle_text hex_encode c' \<longleftrightarrow> c = c'"
proof
  let ?pre = "\<lambda>c. ''index:'' @ show_u (cl_index c) @ '',nonce:'' @ show_u (cl_nonce c) @ '',seed:'' @ cl_seed c"
  let ?x = "\<lambda>c. ?pre c @ '',x:'' @ show_u (cl_x c)"
  let ?y = "\<lambda>c. ?x c @ '',y:'' @ show_u (cl_y c)"
  let ?t = "\<lambda>c. ?y c @ '',timestamp:'' @ show_u (cl_timestamp c)"
  let ?k = "\<lambda>c. ?t c @ '',complexity:'' @ show_u (cl_complexity c)"
  note [simp] = comma_free_show_u assms(2)
  assume "merkle_text hex_encode c = merkle_text hex_encode c'"
  then have "?k c @ CHR '','' # (''hash:'' @ hex_encode (cl_hash c))
      = ?k c' @ CHR '','' # (''hash:'' @ hex_encode (cl_hash c'))"
    by (simp add: merkle_text_def)
  then have k: "?k c = ?k c'" and h: "hex_encode (cl_hash c) = hex_encode (cl_hash c')"
    by (subst (asm) comma_sep_right; simp)+
  from k have "?t c @ CHR '','' # (''complexity:'' @ show_u (cl_complexity c))
      = ?t c' @ CHR '','' # (''complexity:'' @ show_u (cl_complexity c'))" by simp
  then have t: "?t c = ?t c'" and "cl_complexity c = cl_complexity c'"
    by (subst (asm) comma_sep_right; simp)+
  moreover from t have "?y c @ CHR '','' # (''timestamp:'' @ show_u (cl_timestamp c))
      = ?y c' @ CHR '','' # (''timestamp:'' @ show_u (cl_timestamp c'))" by simp
  then have y: "?y c = ?y c'" and "cl_timestamp c = cl_timestamp c'"
    by (subst (asm) comma_sep_right; simp)+
  moreover from y have "?x c @ CHR '','' # (''y:'' @ show_u (cl_y c))
      = ?x c' @ CHR '','' # (''y:'' @ show_u (cl_y c'))" by simp
  then have x: "?x c = ?x c'" and "cl_y c = cl_y c'"
    by (subst (asm) comma_sep_right; simp)+
  moreover from x have "?pre c @ CHR '','' # (''x:'' @ show_u (cl_x c))
      = ?pre c' @ CHR '','' # (''x:'' @ show_u (cl_x c'))" by simp
  then have p: "?pre c = ?pre c'" and "cl_x c = cl_x c'"
    by (subst (asm) comma_sep_right; simp)+
  moreover from p have "cl_index c = cl_index c' \<and> cl_nonce c = cl_nonce c' \<and> cl_seed c = cl_seed c'"
    by (auto simp: append_sep_left_inject)
  ultimately show "c = c'" using assms(1) [OF h] by (cases c, cases c') simp
qed simp

theorem merkle_text_inject_witness:
  "merkle_text hex_enc (leaf_compute id \<lparr> l_index = 0, l_nonce = 0, l_seed = ''a,x:0'', l_x = 0,
       l_y = 0, l_timestamp = 0, l_complexity = 0 \<rparr>)
   \<noteq> merkle_text hex_enc (leaf_compute id \<lparr> l_index = 0, l_nonce = 0, l_seed = ''a'', l_x = 0,
       l_y = 0, l_timestamp = 0, l_complexity = 0 \<rparr>)"
proof -
  have "CHR '','' \<notin> set (hex_enc bs)" for bs using hex_enc_chars [of bs] by auto
  from merkle_text_inject [where hex_encode = hex_enc, OF hex_enc_inject this] show ?thesis
    by (simp add: leaf_compute_def)
qed

section \<open>Session types\<close>

record SessionSubmit =
  ss_root :: "byte list"
  ss_leaves_count :: u64

record SessionProof =
  sp_proof :: "byte list"
  sp_leaves_tree :: "byte list list"
  sp_leaves_data :: "ComputedLeaf list"

record PartialVerifySession =
  pv_easy_submit_params :: SessionSubmit
  pv_hard_submit_params :: SessionSubmit
  pv_easy_proof_params :: SessionProof
  pv_hard_first_proof_params :: SessionProof
  pv_hard_range_proof_params :: SessionProof
  pv_hard_last_proof_params :: SessionProof

record ParamsOfVerifySession =
  vs_seed :: string
  vs_easy_complexity :: u32
  vs_easy_interval_start :: u64
  vs_easy_interval_end :: u64
  vs_hard_complexity :: u32
  vs_hard_interval_start :: u64
  vs_hard_interval_end :: u64
  vs_easy_submit_params :: SessionSubmit
  vs_hard_submit_params :: SessionSubmit
  vs_easy_proof_params :: SessionProof
  vs_hard_first_proof_params :: SessionProof
  vs_hard_range_proof_params :: SessionProof
  vs_hard_last_proof_params :: SessionProof

section \<open>Decoding a verification request\<close>

definition HEADER_LEN :: nat where "HEADER_LEN = 72"

text \<open>\<open>&bytes[a..b]\<close>; every use below is behind the length check.\<close>

definition slice :: "nat \<Rightarrow> nat \<Rightarrow> 'a list \<Rightarrow> 'a list" where
  "slice a b xs = take (b - a) (drop a xs)"

definition verify_session_try_from ::
  "(byte list \<Rightarrow> string) \<Rightarrow> (byte list \<Rightarrow> PartialVerifySession result) \<Rightarrow> byte list \<Rightarrow>
   ParamsOfVerifySession result" where
  "verify_session_try_from hex_encode borsh_rest bytes =
     (if length bytes < HEADER_LEN then
        Inl (''Input too short: expected at least 72 bytes, got '' @ show_nat (length bytes))
      else
        let seed = hex_encode (slice 0 32 bytes);
            easy_complexity = u32_from_be (slice 32 36 bytes);
            easy_interval_start = u64_from_be (slice 36 44 bytes);
            easy_interval_end = u64_from_be (slice 44 52 bytes);
            hard_complexity = u32_from_be (slice 52 56 bytes);
            hard_interval_start = u64_from_be (slice 56 64 bytes);
            hard_interval_end = u64_from_be (slice 64 72 bytes);
            bytes_rest = drop HEADER_LEN bytes
        in and_then (map_err (\<lambda>e. ''Decode rest bytes ('' @ e @ '')'') (borsh_rest bytes_rest)) (\<lambda>rest.
             Inr \<lparr> vs_seed = ''0x'' @ seed,
                   vs_easy_complexity = easy_complexity,
                   vs_easy_interval_start = easy_interval_start,
                   vs_easy_interval_end = easy_interval_end,
                   vs_hard_complexity = hard_complexity,
                   vs_hard_interval_start = hard_interval_start,
                   vs_hard_interval_end = hard_interval_end,
                   vs_easy_submit_params = pv_easy_submit_params rest,
                   vs_hard_submit_params = pv_hard_submit_params rest,
                   vs_easy_proof_params = pv_easy_proof_params rest,
                   vs_hard_first_proof_params = pv_hard_first_proof_params rest,
                   vs_hard_range_proof_params = pv_hard_range_proof_params rest,
                   vs_hard_last_proof_params = pv_hard_last_proof_params rest \<rparr>))"

definition encode_header ::
  "byte list \<Rightarrow> u32 \<Rightarrow> u64 \<Rightarrow> u64 \<Rightarrow> u32 \<Rightarrow> u64 \<Rightarrow> u64 \<Rightarrow> byte list" where
  "encode_header seed ec es ee hc hs he =
     seed @ u32_to_be ec @ u64_to_be es @ u64_to_be ee @ u32_to_be hc @ u64_to_be hs @ u64_to_be he"

lemma slice_field:
  "slice (length p) (length p + length q) (p @ q @ s) = q"
  by (simp add: slice_def)

lemma header_slices:
  assumes "length seed = 32"
  shows "slice 0 32 (encode_header seed ec es ee hc hs he @ rest) = seed"
    and "slice 32 36 (encode_header seed ec es ee hc hs he @ rest) = u32_to_be ec"
    and "slice 36 44 (encode_header seed ec es ee hc hs he @ rest) = u64_to_be es"
    and "slice 44 52 (encode_header seed ec es ee hc hs he @ rest) = u64_to_be ee"
    and "slice 52 56 (encode_header seed ec es ee hc hs he @ rest) = u32_to_be hc"
    and "slice 56 64 (encode_header seed ec es ee hc hs he @ rest) = u64_to_be hs"
    and "slice 64 72 (encode_header seed ec es ee hc hs he @ rest) = u64_to_be he"
    and "drop 72 (encode_header seed ec es ee hc hs he @ rest) = rest"
    and "length (encode_header seed ec es ee hc hs he) = 72"
  using assms be32.length_enc be64.length_enc
  by (simp_all add: slice_def encode_header_def)

text \<open>
  Property C32.  Decoding inverts the documented request layout: a request that consists of a
  32-byte seed, the six big-endian header fields and a tail the Borsh decoder accepts yields
  exactly these fields, with the seed as \<open>0x\<close> and its hex digits.
\<close>

theorem verify_session_try_from_header:
  assumes "length seed = 32" and "borsh_rest rest = Inr p"
  shows "\<exists>v. verify_session_try_from hex_encode borsh_rest
               (encode_header seed ec es ee hc hs he @ rest) = Inr v \<and>
             vs_seed v = ''0x'' @ hex_encode seed \<and>
             vs_easy_complexity v = ec \<and> vs_easy_interval_start v = es \<and> vs_easy_interval_end v = ee \<and>
             vs_hard_complexity v = hc \<and> vs_hard_interval_start v = hs \<and> vs_hard_interval_end v = he \<and>
             vs_easy_submit_params v = pv_easy_submit_params p \<and>
             vs_hard_submit_params v = pv_hard_submit_params p \<and>
             vs_easy_proof_params v = pv_easy_proof_params p \<and>
             vs_hard_first_proof_params v = pv_hard_first_proof_params p \<and>
             vs_hard_range_proof_params v = pv_hard_range_proof_params p \<and>
             vs_hard_last_proof_params v = pv_hard_last_proof_params p"
  using assms(2)
  by (simp add: verify_session_try_from_def HEADER_LEN_def Let_def header_slices [OF assms(1)]
      be32.dec_enc be64.dec_enc)

definition empty_session :: PartialVerifySession where
  "empty_session =
     (let s = \<lparr> ss_root = [], ss_leaves_count = 0 \<rparr>;
          p = \<lparr> sp_proof = [], sp_leaves_tree = [], sp_leaves_data = [] \<rparr>
      in \<lparr> pv_easy_submit_params = s, pv_hard_submit_params = s, pv_easy_proof_params = p,
           pv_hard_first_proof_params = p, pv_hard_range_proof_params = p,
           pv_hard_last_proof_params = p \<rparr>)"

theorem verify_session_try_from_header_witness:
  "\<exists>v. verify_session_try_from hex_enc (\<lambda>_. Inr empty_session)
         (encode_header (replicate 32 0) 10 1729 1769 11 325 365 @ []) = Inr v \<and>
       vs_easy_complexity v = 10 \<and> vs_easy_interval_end v = 1769 \<and> vs_hard_interval_start v = 325"
  using verify_session_try_from_header
    [of "replicate 32 0" "\<lambda>_. Inr empty_session" "[]" empty_session hex_enc 10 1729 1769 11 325 365]
  by auto

text \<open>
  Further property.  Decoding never fails except with the two documented errors: the request is
  shorter than the 72-byte header, or the Borsh decoder rejects what follows it.
\<close>

theorem verify_session_try_from_errors:
  "verify_session_try_from hex_encode borsh_rest bytes = Inl e \<longleftrightarrow>
     length bytes < 72 \<and>
       e = ''Input too short: expected at least 72 bytes, got '' @ show_nat (length bytes) \<or>
     72 \<le> length bytes \<and>
       (\<exists>e'. borsh_rest (drop 72 bytes) = Inl e' \<and> e = ''Decode rest bytes ('' @ e' @ '')'')"
  by (auto simp: verify_session_try_from_def HEADER_LEN_def Let_def res_simps)

text \<open>\<open>combine_bytes\<close>: the Borsh encodings of the arguments, one after the other.\<close>

fun combine_bytes :: "('a \<Rightarrow> byte list result) \<Rightarrow> ('a \<Rightarrow> string) \<Rightarrow> 'a list \<Rightarrow> byte list result" where
  "combine_bytes to_vec debug [] = Inr []"
| "combine_bytes to_vec debug (arg # args) =
     and_then (map_err (\<lambda>e. ''Serialize `'' @ debug arg @ ''` to bytes ('' @ e @ '')'') (to_vec arg))
       (\<lambda>bytes. and_then (combine_bytes to_vec debug args) (\<lambda>rest. Inr (bytes @ rest)))"

lemma combine_bytes_concat:
  "(\<And>a. a \<in> set args \<Longrightarrow> to_vec a = Inr (f a)) \<Longrightarrow>
   combine_bytes to_vec debug args = Inr (concat (map f args))"
  by (induction args) auto

section \<open>A concrete hash\<close>

text \<open>A hash function for the worked examples: every digest is 32 zero bytes.\<close>

definition zero_hash :: "byte list \<Rightarrow> byte list" where
  "zero_hash bs = replicate 32 0"

lemma zero_hash_const [simp]: "zero_hash a = zero_hash b \<longleftrightarrow> True"
  by (simp add: zero_hash_def)

lemma zero_hash_leaf_verify:
  assumes "unat (l_complexity l) < 128"
  shows "leaf_verify zero_hash (leaf_compute zero_hash l) (l_seed l) (l_complexity l)"
proof -
  have "hash_num (leaf_compute zero_hash l) = 0"
    by (simp add: hash_num_def leaf_compute_def zero_hash_def u128_from_be_def be_nat_def eval_nat_numeral)
  moreover have "0 < unat (mask (128 - unat (l_complexity l)) :: u128)"
    using assms one_less_power [of "2 :: nat" "128 - unat (l_complexity l)"] by (simp add: unat_mask_u128)
  ultimately show ?thesis
    using assms
    by (simp add: leaf_verify_def leaf_compute_def leaf_from_def word_le_nat_alt not_le word_less_nat_alt)
qed

end
