(* ===== verification/Mining.thy ===== *)
theory Mining
  imports Infra Shared
begin

unbundle bit_operations_syntax

text \<open>
  The core of the crate \<open>bee_miner\<close>: the Merkle accumulator (\<open>core/merkle.rs\<close>), the
  proof-of-work search (\<open>core/processor.rs\<close>), the mining session (\<open>core/context.rs\<close>), the
  choice of the session complexity (\<open>core/session_complexity.rs\<close>) and the key helpers
  (\<open>core/keys.rs\<close>).

  The Merkle tree itself is the package \<open>rs_merkle\<close>: its operations are the fields of
  \<open>merkle_lib\<close>, an argument of every definition that uses the tree, and what the sources
  rely on is the predicate \<open>merkle_lib_ok\<close>.
\<close>

section \<open>The Merkle accumulator\<close>

record 't merkle_lib =
  mt_new :: 't
  mt_insert :: "byte list \<Rightarrow> 't \<Rightarrow> 't"
  mt_commit :: "'t \<Rightarrow> 't"
  mt_root :: "'t \<Rightarrow> byte list option"
  mt_leaves :: "'t \<Rightarrow> byte list list option"
  mt_proof_bytes :: "'t \<Rightarrow> nat list \<Rightarrow> byte list"

text \<open>
  The documented behaviour of \<open>rs_merkle::MerkleTree\<close>, stated through the committed and the
  pending leaves of a tree: \<open>insert\<close> adds a pending leaf, \<open>commit\<close> appends the pending leaves to
  the committed ones, and \<open>leaves\<close> returns the committed leaves.
\<close>

definition merkle_lib_ok :: "'t merkle_lib \<Rightarrow> ('t \<Rightarrow> byte list list) \<Rightarrow> ('t \<Rightarrow> byte list list) \<Rightarrow> bool" where
  "merkle_lib_ok lib committed pending =
     (committed (mt_new lib) = [] \<and> pending (mt_new lib) = [] \<and>
      (\<forall>h t. committed (mt_insert lib h t) = committed t \<and> pending (mt_insert lib h t) = pending t @ [h]) \<and>
      (\<forall>t. committed (mt_commit lib t) = committed t @ pending t \<and> pending (mt_commit lib t) = []) \<and>
      (\<forall>t. unwrap_or [] (mt_leaves lib t) = committed t))"

definition mp_new :: "'t merkle_lib \<Rightarrow> 't" where
  "mp_new lib = mt_new lib"

definition mp_add_leaf ::
  "'t merkle_lib \<Rightarrow> (byte list \<Rightarrow> byte list) \<Rightarrow> (byte list \<Rightarrow> string) \<Rightarrow> ComputedLeaf \<Rightarrow> 't \<Rightarrow> 't" where
  "mp_add_leaf lib blake3 hex_encode computed_leaf tree =
     mt_insert lib (merkle_hash blake3 hex_encode computed_leaf) tree"

definition mp_get_merkle_root :: "'t merkle_lib \<Rightarrow> 't \<Rightarrow> byte list" where
  "mp_get_merkle_root lib tree = (case mt_root lib tree of Some root \<Rightarrow> root | None \<Rightarrow> [])"

definition mp_get_merkle_leaves :: "'t merkle_lib \<Rightarrow> 't \<Rightarrow> byte list list" where
  "mp_get_merkle_leaves lib tree = (case mt_leaves lib tree of Some leaves \<Rightarrow> leaves | None \<Rightarrow> [])"

definition mp_get_proof_in_window ::
  "'t merkle_lib \<Rightarrow> 't \<Rightarrow> nat \<Rightarrow> nat \<Rightarrow> (byte list \<times> byte list list) result" where
  "mp_get_proof_in_window lib tree start_index end_index =
     (let leaves = mp_get_merkle_leaves lib tree;
          total_leaves = length leaves
      in if start_index \<ge> end_index \<or> end_index > total_leaves then Inl ''invalid window range''
         else
           let indices_to_prove = [start_index..<end_index];
               proof_bytes = mt_proof_bytes lib tree indices_to_prove;
               selected_leaves = slice start_index end_index leaves
           in Inr (proof_bytes, selected_leaves))"

definition mp_clear :: "'t merkle_lib \<Rightarrow> 't \<Rightarrow> 't" where
  "mp_clear lib tree = mt_new lib"

definition mp_commit :: "'t merkle_lib \<Rightarrow> 't \<Rightarrow> 't" where
  "mp_commit lib tree = mt_commit lib tree"

lemma mp_get_merkle_leaves_committed:
  assumes "merkle_lib_ok lib committed pending"
  shows "mp_get_merkle_leaves lib t = committed t"
proof -
  have "unwrap_or [] (mt_leaves lib t) = committed t" using assms by (simp add: merkle_lib_ok_def)
  then show ?thesis by (cases "mt_leaves lib t") (simp_all add: mp_get_merkle_leaves_def)
qed

section \<open>The proof-of-work search\<close>

record ParamsOfCalcHash =
  ch_seed :: string
  ch_idx :: u128
  ch_x :: u32
  ch_y :: u32
  ch_timestamp :: u64
  ch_complexity :: u32

definition candidate :: "ParamsOfCalcHash \<Rightarrow> u64 \<Rightarrow> Leaf" where
  "candidate params nonce =
     \<lparr> l_index = ch_idx params, l_nonce = nonce, l_seed = ch_seed params, l_x = ch_x params,
       l_y = ch_y params, l_timestamp = ch_timestamp params, l_complexity = ch_complexity params \<rparr>"

text \<open>
  \<open>u128::MAX >> complexity\<close> in a release build, where the shift amount is taken modulo 128.
\<close>

definition pow_threshold :: "u32 \<Rightarrow> u128" where
  "pow_threshold complexity = drop_bit (unat complexity mod 128) (- 1)"

text \<open>The search loop; \<open>None\<close> when it never ends (every nonce fails).\<close>

partial_function (option) calc_hash_loop ::
  "(byte list \<Rightarrow> byte list) \<Rightarrow> ParamsOfCalcHash \<Rightarrow> u128 \<Rightarrow> u64 \<Rightarrow> ComputedLeaf option" where
  "calc_hash_loop blake3 params threshold nonce =
     (let computed_leaf = leaf_compute blake3 (candidate params nonce)
      in if hash_num computed_leaf < threshold then Some computed_leaf
         else calc_hash_loop blake3 params threshold (nonce + 1))"

definition calc_hash_blake ::
  "'t merkle_lib \<Rightarrow> (byte list \<Rightarrow> byte list) \<Rightarrow> (byte list \<Rightarrow> string) \<Rightarrow> ParamsOfCalcHash \<Rightarrow> 't \<Rightarrow>
   (ComputedLeaf \<times> 't) option" where
  "calc_hash_blake lib blake3 hex_encode params merkle =
     (case calc_hash_loop blake3 params (pow_threshold (ch_complexity params)) 0 of
        None \<Rightarrow> None
      | Some computed_leaf \<Rightarrow> Some (computed_leaf, mp_add_leaf lib blake3 hex_encode computed_leaf merkle))"

definition solves :: "(byte list \<Rightarrow> byte list) \<Rightarrow> ParamsOfCalcHash \<Rightarrow> u128 \<Rightarrow> u64 \<Rightarrow> bool" where
  "solves blake3 params threshold nonce =
     (hash_num (leaf_compute blake3 (candidate params nonce)) < threshold)"

lemma calc_hash_loop_unfold:
  "calc_hash_loop b p th n =
     (if solves b p th n then Some (leaf_compute b (candidate p n)) else calc_hash_loop b p th (n + 1))"
  by (subst calc_hash_loop.simps) (simp add: solves_def Let_def)

lemma calc_hash_loop_Some:
  assumes "calc_hash_loop b p th n = Some c"
  shows "\<exists>m. solves b p th m \<and> c = leaf_compute b (candidate p m)"
proof (rule calc_hash_loop.raw_induct
    [where P = "\<lambda>b p th n c. \<exists>m. solves b p th m \<and> c = leaf_compute b (candidate p m)", OF _ assms])
  fix f b p th n c
  assume "\<And>b p th n c. f b p th n = Some c \<Longrightarrow>
      \<exists>m. solves b p th m \<and> c = leaf_compute b (candidate p m)"
    and "(let computed_leaf = leaf_compute b (candidate p n)
      in if hash_num computed_leaf < th then Some computed_leaf else f b p th (n + 1)) = Some c"
  then show "\<exists>m. solves b p th m \<and> c = leaf_compute b (candidate p m)"
    by (auto simp: Let_def solves_def split: if_splits)
qed

lemma calc_hash_loop_finds:
  assumes "\<forall>j < k. \<not> solves b p th (n + of_nat j)" and "solves b p th (n + of_nat k)"
  shows "calc_hash_loop b p th n = Some (leaf_compute b (candidate p (n + of_nat k)))"
  using assms
proof (induction k arbitrary: n)
  case 0
  then show ?case by (subst calc_hash_loop_unfold) simp
next
  case (Suc k)
  from Suc.prems(1) have "\<not> solves b p th n" by force
  moreover have "\<forall>j < k. \<not> solves b p th (n + 1 + of_nat j)"
  proof (intro allI impI)
    fix j assume "j < k"
    with Suc.prems(1) have "\<not> solves b p th (n + of_nat (Suc j))" by blast
    then show "\<not> solves b p th (n + 1 + of_nat j)" by (simp add: algebra_simps)
  qed
  moreover have "solves b p th (n + 1 + of_nat k)"
    using Suc.prems(2) by (simp add: algebra_simps)
  ultimately show ?case
    using Suc.IH [of "n + 1"] by (subst calc_hash_loop_unfold) (simp add: algebra_simps)
qed

text \<open>
  Property C12.  The proof-of-work search returns exactly when some 64-bit nonce meets the
  threshold, and then it returns the leaf of the smallest such nonce and inserts its Merkle
  hash into the tree; otherwise it never returns.
\<close>

theorem calc_hash_blake_search:
  "calc_hash_blake lib blake3 hex_encode params merkle =
     (if \<exists>nonce. solves blake3 params (pow_threshold (ch_complexity params)) nonce
      then let leaf = leaf_compute blake3 (candidate params
                 (LEAST nonce. solves blake3 params (pow_threshold (ch_complexity params)) nonce))
           in Some (leaf, mp_add_leaf lib blake3 hex_encode leaf merkle)
      else None)"
proof (cases "\<exists>nonce. solves blake3 params (pow_threshold (ch_complexity params)) nonce")
  case True
  let ?S = "solves blake3 params (pow_threshold (ch_complexity params))"
  define m where "m = (LEAST nonce. ?S nonce)"
  have m: "?S m" using True unfolding m_def by (auto intro: LeastI_ex)
  have "\<not> ?S (0 + of_nat j)" if "j < unat m" for j
  proof
    assume "?S (0 + of_nat j)"
    then have "m \<le> of_nat j" unfolding m_def by (simp add: Least_le)
    moreover have "j < 2 ^ LENGTH(64)" using that unat_bound [of m] by linarith
    ultimately show False using that by (simp add: word_le_nat_alt unat_of_nat)
  qed
  then have "calc_hash_loop blake3 params (pow_threshold (ch_complexity params)) 0
      = Some (leaf_compute blake3 (candidate params m))"
    using calc_hash_loop_finds [of "unat m" blake3 params _ 0] m by simp
  with True show ?thesis by (simp add: calc_hash_blake_def Let_def m_def)
next
  case False
  then have "calc_hash_loop blake3 params (pow_threshold (ch_complexity params)) 0 = None"
    using calc_hash_loop_Some by (metis not_Some_eq)
  with False show ?thesis by (simp add: calc_hash_blake_def)
qed

lemma calc_hash_blake_Some:
  assumes "calc_hash_blake lib blake3 hex_encode params merkle = Some (c, merkle')"
  shows "\<exists>nonce. c = leaf_compute blake3 (candidate params nonce) \<and>
           hash_num c < pow_threshold (ch_complexity params)"
    and "merkle' = mp_add_leaf lib blake3 hex_encode c merkle"
  using assms calc_hash_loop_Some [of blake3 params "pow_threshold (ch_complexity params)" 0 c]
  by (auto simp: calc_hash_blake_def solves_def split: option.splits)

text \<open>
  Property C11.  A mined leaf passes the verifier's leaf check for the session's seed and
  complexity whenever the complexity is below 128; from 128 on, the search still returns
  leaves but none of them passes.
\<close>

theorem mined_leaf_verifies:
  assumes "calc_hash_blake lib blake3 hex_encode params merkle = Some (c, merkle')"
  shows "leaf_verify blake3 c (ch_seed params) (ch_complexity params) \<longleftrightarrow> ch_complexity params < 128"
proof -
  obtain nonce where c: "c = leaf_compute blake3 (candidate params nonce)"
    and num: "hash_num c < pow_threshold (ch_complexity params)"
    using calc_hash_blake_Some(1) [OF assms] by blast
  have mod: "unat (ch_complexity params) mod 128 = unat (ch_complexity params)"
    if "ch_complexity params < 128"
    using that by (simp add: word_less_nat_alt)
  show ?thesis
    using num unfolding leaf_verify_def Let_def pow_threshold_def
    by (auto simp: c mod leaf_compute_def candidate_def leaf_from_def not_le)
qed

definition toy_lib :: "(byte list list \<times> byte list list) merkle_lib" where
  "toy_lib = \<lparr> mt_new = ([], []), mt_insert = (\<lambda>h (c, p). (c, p @ [h])),
     mt_commit = (\<lambda>(c, p). (c @ p, [])), mt_root = (\<lambda>(c, p). if c = [] then None else Some (concat c)),
     mt_leaves = (\<lambda>(c, p). if c = [] then None else Some c), mt_proof_bytes = (\<lambda>_ _. [7]) \<rparr>"

lemma toy_lib_ok: "merkle_lib_ok toy_lib fst snd"
  by (auto simp: merkle_lib_ok_def toy_lib_def)

theorem mined_leaf_verifies_witness:
  "\<exists>c merkle'. calc_hash_blake toy_lib (\<lambda>_. replicate 32 0) hex_enc
       \<lparr> ch_seed = ''s'', ch_idx = 0, ch_x = 1, ch_y = 1, ch_timestamp = 5, ch_complexity = 12 \<rparr>
       ([], []) = Some (c, merkle') \<and> leaf_verify (\<lambda>_. replicate 32 0) c ''s'' 12"
proof -
  let ?p = "\<lparr> ch_seed = ''s'', ch_idx = 0, ch_x = 1, ch_y = 1, ch_timestamp = 5, ch_complexity = 12 \<rparr>"
  let ?b = "\<lambda>_ :: byte list. replicate 32 0 :: byte list"
  have "hash_num (leaf_compute ?b (candidate ?p 0)) = 0"
    by (simp add: hash_num_def leaf_compute_def u128_from_be_def be_nat_def eval_nat_numeral)
  moreover have "0 < pow_threshold (ch_complexity ?p)"
    by (simp add: pow_threshold_def word_less_nat_alt unat_mask_u128)
  ultimately have "solves ?b ?p (pow_threshold (ch_complexity ?p)) 0" by (simp add: solves_def)
  then have "calc_hash_loop ?b ?p (pow_threshold (ch_complexity ?p)) 0
      = Some (leaf_compute ?b (candidate ?p 0))"
    using calc_hash_loop_finds [of 0 ?b ?p _ 0] by simp
  then obtain c m where run: "calc_hash_blake toy_lib ?b hex_enc ?p ([], []) = Some (c, m)"
    by (simp add: calc_hash_blake_def)
  with mined_leaf_verifies [OF run] show ?thesis by auto
qed

section \<open>The mining session\<close>

record ParamsOfCompute =
  pc_x :: u32
  pc_y :: u32
  pc_now_ms :: u64

record ResultOfGetMerkleSnapshot =
  ms_root :: "byte list"
  ms_leaves :: "byte list list"

record ResultOfGetProof =
  gp_proof :: "byte list"
  gp_selected_leaves :: "byte list list"
  gp_selected_leaves_data :: "ComputedLeaf list"

record 't MiningCore =
  mc_hash_processor :: 't
  mc_target_bits :: u32
  mc_seed :: string
  mc_committed :: bool
  mc_completed :: "ComputedLeaf list"
  mc_ends_at_ms :: "u64 option"
  mc_duration_ms :: u64
  mc_last_now_ms :: "u64 option"

definition mining_core_new :: "'t merkle_lib \<Rightarrow> string \<Rightarrow> u64 \<Rightarrow> u32 \<Rightarrow> 't MiningCore" where
  "mining_core_new lib seed duration_ms target_bits =
     \<lparr> mc_hash_processor = mp_new lib, mc_target_bits = target_bits, mc_seed = seed,
       mc_committed = False, mc_completed = [], mc_ends_at_ms = None,
       mc_duration_ms = duration_ms, mc_last_now_ms = None \<rparr>"

definition deadline_reached_ms :: "'t MiningCore \<Rightarrow> u64 \<Rightarrow> bool" where
  "deadline_reached_ms core now_ms =
     (case mc_ends_at_ms core of None \<Rightarrow> False | Some end_ms \<Rightarrow> now_ms \<ge> end_ms)"

text \<open>The first call of a session sets its deadline.\<close>

definition start_deadline :: "u64 \<Rightarrow> 't MiningCore \<Rightarrow> 't MiningCore" where
  "start_deadline now_ms core =
     (if mc_ends_at_ms core = None
      then core\<lparr>mc_ends_at_ms := Some (sat_add now_ms (mc_duration_ms core))\<rparr> else core)"

text \<open>
  \<open>MiningCore::compute\<close>: the mined leaf, if the call is accepted, and the session after the
  call; \<open>None\<close> at the outside when the search never ends.
\<close>

definition mining_compute ::
  "'t merkle_lib \<Rightarrow> (byte list \<Rightarrow> byte list) \<Rightarrow> (byte list \<Rightarrow> string) \<Rightarrow> ParamsOfCompute \<Rightarrow>
   't MiningCore \<Rightarrow> (ComputedLeaf option \<times> 't MiningCore) option" where
  "mining_compute lib blake3 hex_encode params core0 =
     (let core = start_deadline (pc_now_ms params) core0
      in if deadline_reached_ms core (pc_now_ms params) then Some (None, core)
         else if mc_committed core then Some (None, core)
         else if (case mc_last_now_ms core of None \<Rightarrow> False | Some prev \<Rightarrow> pc_now_ms params < prev)
         then Some (None, core)
         else
           let core = core\<lparr>mc_last_now_ms := Some (pc_now_ms params)\<rparr>;
               job_index = word_of_nat (length (mc_completed core))
           in case calc_hash_blake lib blake3 hex_encode
                     \<lparr> ch_seed = mc_seed core, ch_idx = job_index, ch_x = pc_x params, ch_y = pc_y params,
                       ch_timestamp = pc_now_ms params, ch_complexity = mc_target_bits core \<rparr>
                     (mc_hash_processor core) of
                None \<Rightarrow> None
              | Some (computed_leaf, merkle) \<Rightarrow>
                  Some (Some computed_leaf,
                        core\<lparr>mc_hash_processor := merkle,
                             mc_completed := mc_completed core @ [computed_leaf]\<rparr>))"

definition mining_get_merkle ::
  "'t merkle_lib \<Rightarrow> 't MiningCore \<Rightarrow> ResultOfGetMerkleSnapshot \<times> 't MiningCore" where
  "mining_get_merkle lib core0 =
     (let core = (if \<not> mc_committed core0
                  then core0\<lparr>mc_hash_processor := mp_commit lib (mc_hash_processor core0),
                             mc_committed := True\<rparr>
                  else core0)
      in (\<lparr> ms_root = mp_get_merkle_root lib (mc_hash_processor core),
            ms_leaves = mp_get_merkle_leaves lib (mc_hash_processor core) \<rparr>, core))"

text \<open>Slicing outside the list panics, which is \<open>None\<close>.\<close>

definition completed_in_window :: "'t MiningCore \<Rightarrow> nat \<Rightarrow> nat \<Rightarrow> ComputedLeaf list option" where
  "completed_in_window core start_index end_index =
     (if start_index \<le> end_index \<and> end_index \<le> length (mc_completed core)
      then Some (slice start_index end_index (mc_completed core)) else None)"

definition mining_get_proof ::
  "'t merkle_lib \<Rightarrow> 't MiningCore \<Rightarrow> nat \<Rightarrow> nat \<Rightarrow> (ResultOfGetProof result) option" where
  "mining_get_proof lib core start_index end_index =
     (case mp_get_proof_in_window lib (mc_hash_processor core) start_index end_index of
        Inl e \<Rightarrow> Some (Inl e)
      | Inr (proof_bytes, selected_leaves) \<Rightarrow>
          map_option (\<lambda>leaves_data.
              Inr \<lparr> gp_proof = proof_bytes, gp_selected_leaves = selected_leaves,
                    gp_selected_leaves_data = leaves_data \<rparr>)
            (completed_in_window core start_index end_index))"

definition mining_reset :: "'t merkle_lib \<Rightarrow> 't MiningCore \<Rightarrow> 't MiningCore" where
  "mining_reset lib core =
     core\<lparr>mc_hash_processor := mp_clear lib (mc_hash_processor core), mc_completed := [],
          mc_committed := False, mc_ends_at_ms := None, mc_last_now_ms := None\<rparr>"

text \<open>Every state a session can be in: the operations in any order from a new session.\<close>

inductive session_reachable ::
  "'t merkle_lib \<Rightarrow> (byte list \<Rightarrow> byte list) \<Rightarrow> (byte list \<Rightarrow> string) \<Rightarrow> string \<Rightarrow> u64 \<Rightarrow> u32 \<Rightarrow>
   't MiningCore \<Rightarrow> bool"
  for lib blake3 hex_encode seed duration bits where
  new: "session_reachable lib blake3 hex_encode seed duration bits (mining_core_new lib seed duration bits)"
| compute: "session_reachable lib blake3 hex_encode seed duration bits core \<Longrightarrow>
     mining_compute lib blake3 hex_encode params core = Some (r, core') \<Longrightarrow>
     session_reachable lib blake3 hex_encode seed duration bits core'"
| get_merkle: "session_reachable lib blake3 hex_encode seed duration bits core \<Longrightarrow>
     mining_get_merkle lib core = (r, core') \<Longrightarrow>
     session_reachable lib blake3 hex_encode seed duration bits core'"
| reset: "session_reachable lib blake3 hex_encode seed duration bits core \<Longrightarrow>
     session_reachable lib blake3 hex_encode seed duration bits (mining_reset lib core)"

text \<open>
  The invariant of a session: its parameters are fixed; the completed leaves are numbered from
  0, solved for the session's seed and complexity, with timestamps that do not decrease, end at
  the watermark and lie before the deadline; and the tree holds the Merkle hashes of
  exactly these leaves, pending until the session is committed.
\<close>

definition leaf_of_session ::
  "(byte list \<Rightarrow> byte list) \<Rightarrow> string \<Rightarrow> u32 \<Rightarrow> nat \<Rightarrow> ComputedLeaf \<Rightarrow> bool" where
  "leaf_of_session blake3 seed bits i c =
     (cl_index c = word_of_nat i \<and> cl_seed c = seed \<and> cl_complexity c = bits \<and>
      c = leaf_compute blake3 (leaf_from c) \<and> hash_num c < pow_threshold bits)"

definition session_inv ::
  "(byte list \<Rightarrow> byte list) \<Rightarrow> (byte list \<Rightarrow> string) \<Rightarrow> ('t \<Rightarrow> byte list list) \<Rightarrow> ('t \<Rightarrow> byte list list) \<Rightarrow>
   string \<Rightarrow> u64 \<Rightarrow> u32 \<Rightarrow> 't MiningCore \<Rightarrow> bool" where
  "session_inv blake3 hex_encode committed pending seed duration bits core =
     (mc_seed core = seed \<and> mc_duration_ms core = duration \<and> mc_target_bits core = bits \<and>
      (\<forall>i < length (mc_completed core). leaf_of_session blake3 seed bits i (mc_completed core ! i)) \<and>
      sorted (map (unat \<circ> cl_timestamp) (mc_completed core)) \<and>
      mc_last_now_ms core =
        (if mc_completed core = [] then None else Some (cl_timestamp (last (mc_completed core)))) \<and>
      (\<forall>c \<in> set (mc_completed core). \<exists>end_ms. mc_ends_at_ms core = Some end_ms \<and> cl_timestamp c < end_ms) \<and>
      committed (mc_hash_processor core) @ pending (mc_hash_processor core)
        = map (merkle_hash blake3 hex_encode) (mc_completed core) \<and>
      (if mc_committed core then pending (mc_hash_processor core) = []
       else committed (mc_hash_processor core) = []))"

lemma start_deadline_facts:
  "mc_ends_at_ms (start_deadline now core) \<noteq> None"
  "mc_ends_at_ms core = Some e \<Longrightarrow> start_deadline now core = core"
  "mc_seed (start_deadline now core) = mc_seed core"
  "mc_duration_ms (start_deadline now core) = mc_duration_ms core"
  "mc_target_bits (start_deadline now core) = mc_target_bits core"
  "mc_completed (start_deadline now core) = mc_completed core"
  "mc_last_now_ms (start_deadline now core) = mc_last_now_ms core"
  "mc_committed (start_deadline now core) = mc_committed core"
  "mc_hash_processor (start_deadline now core) = mc_hash_processor core"
  by (auto simp: start_deadline_def)

text \<open>
  What \<open>compute\<close> does: either the call is refused and only the deadline may be set, or a solved
  leaf with the next index is appended.
\<close>

lemma mining_compute_cases:
  assumes "mining_compute lib blake3 hex_encode params core = Some (r, core')"
  obtains (refused) "r = None" "core' = start_deadline (pc_now_ms params) core"
  | (mined) c where "r = Some c" "\<not> mc_committed core"
      "\<not> deadline_reached_ms (start_deadline (pc_now_ms params) core) (pc_now_ms params)"
      "\<forall>prev. mc_last_now_ms core = Some prev \<longrightarrow> prev \<le> pc_now_ms params"
      "leaf_of_session blake3 (mc_seed core) (mc_target_bits core) (length (mc_completed core)) c"
      "cl_timestamp c = pc_now_ms params"
      "core' = (start_deadline (pc_now_ms params) core)\<lparr>mc_last_now_ms := Some (pc_now_ms params),
         mc_hash_processor := mp_add_leaf lib blake3 hex_encode c (mc_hash_processor core),
         mc_completed := mc_completed core @ [c]\<rparr>"
proof -
  let ?core = "start_deadline (pc_now_ms params) core"
  let ?late = "case mc_last_now_ms core of None \<Rightarrow> False | Some prev \<Rightarrow> pc_now_ms params < prev"
  let ?p = "\<lparr> ch_seed = mc_seed core, ch_idx = word_of_nat (length (mc_completed core)),
      ch_x = pc_x params, ch_y = pc_y params, ch_timestamp = pc_now_ms params,
      ch_complexity = mc_target_bits core \<rparr>"
  show thesis
  proof (cases "deadline_reached_ms ?core (pc_now_ms params) \<or> mc_committed core \<or> ?late")
    case True
    with assms show thesis
      by (auto simp: mining_compute_def Let_def start_deadline_facts intro!: refused split: if_splits)
  next
    case False
    then obtain c merkle where
      run: "calc_hash_blake lib blake3 hex_encode ?p (mc_hash_processor core) = Some (c, merkle)"
      and res: "r = Some c" "core' = ?core\<lparr>mc_last_now_ms := Some (pc_now_ms params),
         mc_hash_processor := merkle, mc_completed := mc_completed core @ [c]\<rparr>"
      using assms by (auto simp: mining_compute_def Let_def start_deadline_facts split: option.splits)
    obtain nonce where "c = leaf_compute blake3 (candidate ?p nonce)"
      "hash_num c < pow_threshold (mc_target_bits core)"
      using calc_hash_blake_Some(1) [OF run] by auto
    then have "leaf_of_session blake3 (mc_seed core) (mc_target_bits core) (length (mc_completed core)) c"
      and "cl_timestamp c = pc_now_ms params"
      by (auto simp: leaf_of_session_def candidate_def leaf_compute_def leaf_from_def)
    with False res calc_hash_blake_Some(2) [OF run] show thesis
      by (intro mined) (auto split: option.splits)
  qed
qed

lemma sorted_snoc_last:
  assumes "sorted (map f xs)" and "xs \<noteq> [] \<Longrightarrow> f (last xs) \<le> f x"
  shows "sorted (map f (xs @ [x]))"
proof (cases "xs = []")
  case False
  then have "xs = butlast xs @ [last xs]" by simp
  then have "sorted (map f (butlast xs @ [last xs]))" using assms(1) by simp
  then have "\<forall>y \<in> set (butlast xs). f y \<le> f (last xs)" by (simp add: sorted_append)
  then have "f y \<le> f (last xs)" if "y \<in> set xs" for y
    using that \<open>xs = butlast xs @ [last xs]\<close> by (metis Un_iff empty_iff insert_iff list.set order_refl set_append)
  with assms(2) [OF False] show ?thesis using assms(1) by (auto simp: sorted_append intro: order_trans)
qed simp

lemma session_inv_compute:
  assumes lib: "merkle_lib_ok lib committed pending"
    and inv: "session_inv blake3 hex_encode committed pending seed duration bits core"
    and run: "mining_compute lib blake3 hex_encode params core = Some (r, core')"
  shows "session_inv blake3 hex_encode committed pending seed duration bits core'"
  using run
proof (cases rule: mining_compute_cases)
  case refused
  with inv show ?thesis
    by (fastforce simp: session_inv_def start_deadline_facts)
next
  case (mined c)
  let ?core = "start_deadline (pc_now_ms params) core"
  obtain end_ms where e: "mc_ends_at_ms ?core = Some end_ms"
    using start_deadline_facts(1) [of "pc_now_ms params" core] by auto
  have old: "cl_timestamp d < end_ms" if "d \<in> set (mc_completed core)" for d
  proof -
    obtain e' where "mc_ends_at_ms core = Some e'" "cl_timestamp d < e'"
      using inv \<open>d \<in> set (mc_completed core)\<close> by (auto simp: session_inv_def)
    with e start_deadline_facts(2) [of core e' "pc_now_ms params"] show ?thesis by simp
  qed
  have new: "cl_timestamp c < end_ms"
    using mined(3,6) e by (simp add: deadline_reached_ms_def not_le)
  have "sorted (map (unat \<circ> cl_timestamp) (mc_completed core @ [c]))"
  proof (rule sorted_snoc_last)
    show "sorted (map (unat \<circ> cl_timestamp) (mc_completed core))"
      using inv by (simp add: session_inv_def)
    assume "mc_completed core \<noteq> []"
    then have "mc_last_now_ms core = Some (cl_timestamp (last (mc_completed core)))"
      using inv by (simp add: session_inv_def)
    then show "(unat \<circ> cl_timestamp) (last (mc_completed core)) \<le> (unat \<circ> cl_timestamp) c"
      using mined(4,6) by (simp add: word_le_nat_alt)
  qed
  moreover have "\<forall>i < length (mc_completed core @ [c]).
      leaf_of_session blake3 seed bits i ((mc_completed core @ [c]) ! i)"
    using inv mined(5) by (auto simp: session_inv_def nth_append less_Suc_eq)
  moreover have "committed (mp_add_leaf lib blake3 hex_encode c (mc_hash_processor core)) = []"
    and "pending (mp_add_leaf lib blake3 hex_encode c (mc_hash_processor core))
      = map (merkle_hash blake3 hex_encode) (mc_completed core @ [c])"
    using lib inv mined(2) by (auto simp: merkle_lib_ok_def session_inv_def mp_add_leaf_def)
  ultimately show ?thesis
    using inv mined(2,6,7) old new e by (auto simp: session_inv_def start_deadline_facts)
qed

lemma session_inv_get_merkle:
  assumes "merkle_lib_ok lib committed pending"
    and "session_inv blake3 hex_encode committed pending seed duration bits core"
    and "mining_get_merkle lib core = (r, core')"
  shows "session_inv blake3 hex_encode committed pending seed duration bits core'"
  using assms
  by (cases "mc_committed core")
    (auto simp: session_inv_def mining_get_merkle_def merkle_lib_ok_def mp_commit_def Let_def)

lemma session_inv_reachable:
  assumes "merkle_lib_ok lib committed pending"
    and "session_reachable lib blake3 hex_encode seed duration bits core"
  shows "session_inv blake3 hex_encode committed pending seed duration bits core"
  using assms(2)
proof (induction rule: session_reachable.induct)
  case new
  then show ?case
    using assms(1) by (simp add: session_inv_def mining_core_new_def merkle_lib_ok_def mp_new_def)
next
  case (reset core)
  then show ?case
    using assms(1) by (simp add: session_inv_def mining_reset_def merkle_lib_ok_def mp_clear_def)
next
  case (compute core params r core')
  then show ?case using session_inv_compute [OF assms(1)] by blast
next
  case (get_merkle core r core')
  then show ?case using session_inv_get_merkle [OF assms(1)] by blast
qed

text \<open>An example session: every nonce solves, since the hash is all zeros.\<close>

definition example_core :: "(byte list list \<times> byte list list) MiningCore" where
  "example_core = mining_core_new toy_lib ''s'' 5000 12"

definition example_leaf :: "nat \<Rightarrow> u64 \<Rightarrow> ComputedLeaf" where
  "example_leaf i now = leaf_compute zero_hash
     \<lparr> l_index = word_of_nat i, l_nonce = 0, l_seed = ''s'', l_x = 1, l_y = 1, l_timestamp = now,
       l_complexity = 12 \<rparr>"

definition example_mined :: "(byte list list \<times> byte list list) MiningCore" where
  "example_mined = example_core\<lparr>mc_hash_processor := ([], [zero_hash []]), mc_completed := [example_leaf 0 100],
     mc_ends_at_ms := Some 5100, mc_last_now_ms := Some 100\<rparr>"

lemma zero_hash_solves: "hash_num (leaf_compute zero_hash l) < pow_threshold 12"
proof -
  have "hash_num (leaf_compute zero_hash l) = 0"
    by (simp add: hash_num_def leaf_compute_def zero_hash_def u128_from_be_def be_nat_def eval_nat_numeral)
  then show ?thesis by (simp add: pow_threshold_def word_less_nat_alt unat_mask_u128)
qed

lemma example_compute:
  "mining_compute toy_lib zero_hash hex_enc \<lparr> pc_x = 1, pc_y = 1, pc_now_ms = 100 \<rparr> example_core
     = Some (Some (example_leaf 0 100), example_mined)"
  by (simp add: mining_compute_def Let_def start_deadline_def example_core_def mining_core_new_def
      deadline_reached_ms_def sat_add_def calc_hash_blake_def calc_hash_loop_unfold solves_def
      zero_hash_solves example_mined_def example_leaf_def candidate_def mp_new_def toy_lib_def
      mp_add_leaf_def merkle_hash_def zero_hash_def)

lemma example_reachable: "session_reachable toy_lib zero_hash hex_enc ''s'' 5000 12 example_mined"
  using session_reachable.new [of toy_lib zero_hash hex_enc "''s''" 5000 12] example_compute
  by (auto simp: example_core_def intro: session_reachable.compute)

text \<open>
  Property C5.  In every state a session can reach, the completed leaves are numbered
  consecutively from 0, each solves the session's proof of work for its seed and complexity,
  their timestamps do not decrease and lie before the deadline, the watermark is the last
  timestamp, and the Merkle tree holds exactly their hashes, in order.
\<close>

theorem mining_session_invariant:
  assumes "merkle_lib_ok lib committed pending"
    and "session_reachable lib blake3 hex_encode seed duration bits core"
  shows "session_inv blake3 hex_encode committed pending seed duration bits core"
  using assms by (rule session_inv_reachable)

theorem mining_session_invariant_witness:
  "session_inv zero_hash hex_enc fst snd ''s'' 5000 12 example_mined"
  by (rule mining_session_invariant [OF toy_lib_ok example_reachable])

lemma mining_get_proof_total:
  assumes "merkle_lib_ok lib committed pending"
    and "session_reachable lib blake3 hex_encode seed duration bits core"
  shows "mining_get_proof lib core s e \<noteq> None"
proof -
  have "session_inv blake3 hex_encode committed pending seed duration bits core"
    using assms by (rule session_inv_reachable)
  then have "length (committed (mc_hash_processor core)) \<le> length (mc_completed core)"
    by (auto simp: session_inv_def dest!: arg_cong [of _ _ length])
  then show ?thesis
    by (auto simp: mining_get_proof_def mp_get_proof_in_window_def completed_in_window_def Let_def
        mp_get_merkle_leaves_committed [OF assms(1)])
qed

text \<open>
  Further property.  In every reachable state \<open>get_proof\<close> neither panics nor mixes leaves: before the
  commit, and for a window that is empty or reaches past the leaves, it is the error
  \<open>invalid window range\<close>; otherwise it returns the library's proof for the window, the mined
  leaves of the window, and tree leaves that are the Merkle hashes of these very leaves.
\<close>

theorem mining_get_proof_spec:
  assumes "merkle_lib_ok lib committed pending"
    and "session_reachable lib blake3 hex_encode seed duration bits core"
  shows "mining_get_proof lib core s e =
     (if mc_committed core \<and> s < e \<and> e \<le> length (mc_completed core)
      then let window = slice s e (mc_completed core)
           in Some (Inr \<lparr> gp_proof = mt_proof_bytes lib (mc_hash_processor core) [s..<e],
                          gp_selected_leaves = map (merkle_hash blake3 hex_encode) window,
                          gp_selected_leaves_data = window \<rparr>)
      else Some (Inl ''invalid window range''))"
proof -
  have inv: "session_inv blake3 hex_encode committed pending seed duration bits core"
    using assms by (rule session_inv_reachable)
  have leaves: "mp_get_merkle_leaves lib (mc_hash_processor core)
      = (if mc_committed core then map (merkle_hash blake3 hex_encode) (mc_completed core) else [])"
    using inv by (auto simp: mp_get_merkle_leaves_committed [OF assms(1)] session_inv_def)
  show ?thesis
    by (auto simp: mining_get_proof_def mp_get_proof_in_window_def leaves Let_def
        completed_in_window_def slice_def take_map drop_map)
qed

theorem mining_get_proof_spec_witness:
  "mining_get_proof toy_lib (snd (mining_get_merkle toy_lib example_mined)) 0 1 =
     Some (Inr \<lparr> gp_proof = [7], gp_selected_leaves = [zero_hash []],
                 gp_selected_leaves_data = [example_leaf 0 100] \<rparr>)"
proof -
  obtain r core where snap: "mining_get_merkle toy_lib example_mined = (r, core)"
    by (cases "mining_get_merkle toy_lib example_mined")
  have "session_reachable toy_lib zero_hash hex_enc ''s'' 5000 12 core"
    using example_reachable snap by (rule session_reachable.get_merkle)
  from mining_get_proof_spec [OF toy_lib_ok this, of 0 1] snap show ?thesis
    by (auto simp: mining_get_merkle_def example_mined_def example_core_def mining_core_new_def Let_def
        slice_def toy_lib_def merkle_hash_def zero_hash_def)
qed

text \<open>
  Further property.  A snapshot freezes the session: taking it again returns the same root and leaves
  and changes nothing, and until the next reset every further tap is refused and leaves the
  mined leaves and the tree untouched.
\<close>

theorem mining_commit_freezes:
  assumes "mining_get_merkle lib core = (snapshot, core')"
  shows "mining_get_merkle lib core' = (snapshot, core') \<and>
         (\<exists>core''. mining_compute lib blake3 hex_encode params core' = Some (None, core'') \<and>
            mc_completed core'' = mc_completed core \<and>
            mining_get_merkle lib core'' = (snapshot, core''))"
proof -
  have "mc_committed core'" "mc_completed core' = mc_completed core"
    using assms by (auto simp: mining_get_merkle_def Let_def split: if_splits)
  then show ?thesis
    using assms
    by (auto simp: mining_get_merkle_def mining_compute_def Let_def start_deadline_facts split: if_splits)
qed

theorem mining_commit_freezes_witness:
  "\<exists>snapshot core'. mining_get_merkle toy_lib example_mined = (snapshot, core') \<and>
     mining_get_merkle toy_lib core' = (snapshot, core')"
proof -
  obtain r core where snap: "mining_get_merkle toy_lib example_mined = (r, core)"
    by (cases "mining_get_merkle toy_lib example_mined")
  from mining_commit_freezes [OF snap] snap show ?thesis by blast
qed

text \<open>
  Further property.  A tap is accepted exactly when the session is not committed, the clock has not
  reached the deadline fixed by the first tap (its time plus the duration, saturating) and has
  not gone back behind the last accepted tap; an accepted tap appends one leaf with the tap's
  time, a refused one appends none.
\<close>

theorem mining_compute_acceptance:
  assumes "mining_compute lib blake3 hex_encode params core = Some (r, core')"
  shows "(case r of
            None \<Rightarrow> mc_completed core' = mc_completed core
          | Some c \<Rightarrow> mc_completed core' = mc_completed core @ [c] \<and>
                       cl_timestamp c = pc_now_ms params \<and>
                       cl_index c = word_of_nat (length (mc_completed core))) \<and>
         (r \<noteq> None \<longleftrightarrow>
            \<not> mc_committed core \<and>
            pc_now_ms params < unwrap_or (sat_add (pc_now_ms params) (mc_duration_ms core)) (mc_ends_at_ms core) \<and>
            (\<forall>prev. mc_last_now_ms core = Some prev \<longrightarrow> prev \<le> pc_now_ms params))"
proof -
  have dl: "deadline_reached_ms (start_deadline now core) now \<longleftrightarrow>
      \<not> now < unwrap_or (sat_add now (mc_duration_ms core)) (mc_ends_at_ms core)" for now
    by (cases "mc_ends_at_ms core") (auto simp: deadline_reached_ms_def start_deadline_def not_less)
  show ?thesis
    using assms
  proof (cases rule: mining_compute_cases)
    case refused
    with assms dl show ?thesis
      by (auto simp: start_deadline_facts mining_compute_def Let_def split: option.splits if_splits)
  next
    case (mined c)
    then show ?thesis by (auto simp: start_deadline_facts dl leaf_of_session_def)
  qed
qed

theorem mining_compute_acceptance_witness:
  "mc_completed example_mined = mc_completed example_core @ [example_leaf 0 100] \<and>
   \<not> mc_committed example_core"
  using mining_compute_acceptance [OF example_compute] by simp

section \<open>The complexity of a session\<close>

record MinerComplexityData =
  md_seed :: string
  md_next_seed :: string
  md_easy :: u32
  md_hard :: u32
  md_easy_old :: u32
  md_hard_old :: u32

definition select_session_complexity ::
  "string \<Rightarrow> MinerComplexityData \<Rightarrow> bool \<Rightarrow> (u32 \<times> u32) option" where
  "select_session_complexity seed data session_in_flight =
     (if seed = md_seed data then Some (md_easy_old data, md_hard_old data)
      else if seed = md_next_seed data then
        if session_in_flight then Some (md_easy data, md_hard data)
        else Some (md_easy_old data, md_hard_old data)
      else None)"

section \<open>Mining keys\<close>

definition normalize_owner_public_for_compare :: "string \<Rightarrow> string" where
  "normalize_owner_public_for_compare value =
     (let stripped = strip_0x value in ''0x'' @ to_ascii_lowercase stripped)"

record ResultOfGenMiningKeys =
  gk_keys :: KeyPair
  gk_deep_link :: string

record 'cfg ParamsOfEnsureMiningKeysPropagated =
  em_client_config :: 'cfg
  em_miner_address :: string
  em_app_id :: string
  em_expected_owner_public :: string
  em_max_attempts :: "u32 option"
  em_interval_ms :: "u64 option"

text \<open>
  The calls into the blockchain kit that \<open>core/keys.rs\<close> makes: the client context, mnemonics
  and key derivation, and the getters of the contracts.  \<open>'w\<close> is the world they act on.
\<close>

record ('w, 'cfg, 'ctx, 'i, 'm) mining_kit =
  kit_context_new :: "'cfg \<Rightarrow> 'ctx result"
  kit_mnemonic_from_random :: "'ctx \<Rightarrow> nat \<Rightarrow> ('w, string, string) io"
  kit_derive_sign_keys :: "'ctx \<Rightarrow> string \<Rightarrow> nat \<Rightarrow> KeyPair result"
  kit_miner_owner_public :: "'ctx \<Rightarrow> string \<Rightarrow> ('w, string, string \<rightharpoonup> string) io"
  kit_root_get_indexer :: "'ctx \<Rightarrow> string \<Rightarrow> ('w, string, 'i) io"
  kit_indexer_multifactor :: "'i \<Rightarrow> ('w, string, string) io"
  kit_mirror_new :: "'ctx \<Rightarrow> string \<Rightarrow> 'm result"
  kit_mirror_get_miner :: "'m \<Rightarrow> string \<Rightarrow> ('w, string, string) io"

definition MINING_WORD_COUNT :: nat where "MINING_WORD_COUNT = 24"

definition DEEPLINK_RESOLVER_URL :: string where "DEEPLINK_RESOLVER_URL = ''https://links.gosh.sh''"

text \<open>
  \<open>ResultOfGenMiningKeys::deep_link\<close>: \<open>to_vec\<close> is the JSON serialisation of the payload,
  \<open>b64url\<close> the unpadded URL-safe base64 encoder.
\<close>

definition mining_deep_link ::
  "(json \<Rightarrow> byte list result) \<Rightarrow> (byte list \<Rightarrow> string) \<Rightarrow> string \<Rightarrow> string \<Rightarrow> string result" where
  "mining_deep_link to_vec b64url public app_id =
     (let payload = JObj [(''pubkey'', JStr public), (''app_id'', JStr app_id)]
      in and_then (map_err (\<lambda>e. ''Serialize deep link payload ('' @ e @ '')'') (to_vec payload)) (\<lambda>payload.
         let payload = b64url payload
         in Inr (DEEPLINK_RESOLVER_URL @ ''/deeplinks/wallet/v2/set-mining-keys?payload='' @ payload)))"

text \<open>\<open>cfg\<close> is the default client configuration with the endpoint \<open>localhost\<close>.\<close>

definition gen_mining_keys ::
  "('w, 'cfg, 'ctx, 'i, 'm) mining_kit \<Rightarrow> (json \<Rightarrow> byte list result) \<Rightarrow> (byte list \<Rightarrow> string) \<Rightarrow> 'cfg \<Rightarrow>
   string \<Rightarrow> ('w, string, ResultOfGenMiningKeys) io" where
  "gen_mining_keys kit to_vec b64url cfg app_id =
     io_then (io_lift (map_err (\<lambda>e. ''Create tvm client context ('' @ e @ '')'') (kit_context_new kit cfg))) (\<lambda>context.
     io_then (io_map_err (\<lambda>e. ''Failed to generate mnemonic phrase ('' @ e @ '')'')
                (kit_mnemonic_from_random kit context MINING_WORD_COUNT)) (\<lambda>phrase.
     io_then (io_lift (map_err (\<lambda>e. ''Failed to derive key pair ('' @ e @ '')'')
                (kit_derive_sign_keys kit context phrase MINING_WORD_COUNT))) (\<lambda>key_pair.
     io_then (io_lift (mining_deep_link to_vec b64url (kp_public key_pair) app_id)) (\<lambda>link.
     io_lift (Inr \<lparr> gk_keys = key_pair, gk_deep_link = link \<rparr>)))))"

definition ensure_mining_keys_propagated ::
  "('w, 'cfg, 'ctx, 'i, 'm) mining_kit \<Rightarrow> (u64 \<Rightarrow> 'w \<Rightarrow> 'w) \<Rightarrow> 'cfg ParamsOfEnsureMiningKeysPropagated \<Rightarrow>
   ('w, string, unit) io" where
  "ensure_mining_keys_propagated kit sleep_ms params =
     io_then (io_lift (map_err (\<lambda>e. ''Create tvm client context ('' @ e @ '')'')
                (kit_context_new kit (em_client_config params)))) (\<lambda>context.
     let expected_owner_public = normalize_owner_public_for_compare (em_expected_owner_public params)
     in io_then
          (poll_until id sleep_ms
             (io_map_err (\<lambda>e. ''ensure_mining_keys_propagated: miner.get_details ('' @ e @ '')'')
                (kit_miner_owner_public kit context (em_miner_address params)))
             (\<lambda>owner_public. case owner_public (em_app_id params) of
                None \<Rightarrow> False
              | Some value \<Rightarrow> normalize_owner_public_for_compare value = expected_owner_public)
             (em_max_attempts params) (em_interval_ms params))
          (\<lambda>_. io_lift (Inr ())))"

text \<open>\<open>rsplit(':').next()\<close> is the part after the last colon.\<close>

definition resolve_mirror_for_multifactor ::
  "('w, 'cfg, 'ctx, 'i, 'm) mining_kit \<Rightarrow> 'ctx \<Rightarrow> string \<Rightarrow> 'm result" where
  "resolve_mirror_for_multifactor kit context multifactor_address =
     (let tail = last (split_on (CHR '':'') multifactor_address)
      in if tail = [] then Inl (''Invalid multifactor address format: '' @ multifactor_address)
         else map_err (\<lambda>e. ''Mirror::new_default ('' @ e @ '')'') (kit_mirror_new kit context tail))"

definition resolve_miner_for_multifactor ::
  "('w, 'cfg, 'ctx, 'i, 'm) mining_kit \<Rightarrow> 'ctx \<Rightarrow> string \<Rightarrow> ('w, string, string) io" where
  "resolve_miner_for_multifactor kit context multifactor_address =
     io_then (io_lift (resolve_mirror_for_multifactor kit context multifactor_address)) (\<lambda>mirror.
     io_map_err (\<lambda>e. ''Resolve miner for multifactor ('' @ e @ '')'')
       (kit_mirror_get_miner kit mirror multifactor_address))"

definition get_multifactor_address_by_wallet_name ::
  "('w, 'cfg, 'ctx, 'i, 'm) mining_kit \<Rightarrow> 'ctx \<Rightarrow> string \<Rightarrow> ('w, string, string) io" where
  "get_multifactor_address_by_wallet_name kit context wallet_name =
     io_then (io_map_err (\<lambda>e. ''Get indexer by wallet name ('' @ e @ '')'')
                (kit_root_get_indexer kit context wallet_name)) (\<lambda>indexer.
     io_map_err (\<lambda>e. ''Get indexer details ('' @ e @ '')'') (kit_indexer_multifactor kit indexer))"

definition get_miner_address_by_wallet_name ::
  "('w, 'cfg, 'ctx, 'i, 'm) mining_kit \<Rightarrow> 'cfg \<Rightarrow> string \<Rightarrow> ('w, string, string) io" where
  "get_miner_address_by_wallet_name kit client_config wallet_name =
     io_then (io_lift (map_err (\<lambda>e. ''Create tvm client context ('' @ e @ '')'')
                (kit_context_new kit client_config))) (\<lambda>context.
     io_then (get_multifactor_address_by_wallet_name kit context wallet_name) (\<lambda>multifactor_address.
     resolve_miner_for_multifactor kit context multifactor_address))"

end
