(* ===== verification/Verifier.thy ===== *)
theory Verifier
  imports Shared
begin

text \<open>
  The crate \<open>bee_verifier\<close>: the component the chain runs on a submitted mining session
  (\<open>lib.rs\<close>, \<open>verifier.rs\<close>, \<open>error.rs\<close>).

  It is built for \<open>wasm32\<close> in release mode, so \<open>as usize\<close> truncates to 32 bits and unchecked
  subtraction wraps.  Merkle proofs are the package \<open>rs_merkle\<close>: \<open>pl_from_bytes\<close> is
  \<open>MerkleProof::from_bytes\<close> and \<open>pl_verify\<close> is \<open>MerkleProof::verify\<close>.
\<close>

section \<open>Errors\<close>

datatype LibErrorCode =
  DeserializeRequest | CheckRoot | DeserializeProof | BuildMerkleProof | CheckLeaf |
  GetFirstHardLeaf | GetLastHardLeaf

fun lib_error_code_value :: "LibErrorCode \<Rightarrow> u32" where
  "lib_error_code_value DeserializeRequest = 100"
| "lib_error_code_value CheckRoot = 200"
| "lib_error_code_value DeserializeProof = 300"
| "lib_error_code_value BuildMerkleProof = 301"
| "lib_error_code_value CheckLeaf = 302"
| "lib_error_code_value GetFirstHardLeaf = 303"
| "lib_error_code_value GetLastHardLeaf = 304"

record LibError =
  le_code :: LibErrorCode
  le_message :: "string option"

definition lib_error_bytes :: "LibError \<Rightarrow> byte list" where
  "lib_error_bytes value = [0, 0] @ u32_to_le (lib_error_code_value (le_code value))"

section \<open>Checking one opening\<close>

record 'p proof_lib =
  pl_from_bytes :: "byte list \<Rightarrow> 'p result"
  pl_verify :: "'p \<Rightarrow> byte list \<Rightarrow> nat list \<Rightarrow> byte list list \<Rightarrow> nat \<Rightarrow> bool"

text \<open>\<open>usize\<close> on \<open>wasm32\<close>.\<close>

definition as_usize :: "u64 \<Rightarrow> nat" where
  "as_usize n = unat (ucast n :: u32)"

record ParamsOfValidateProof =
  vp_root :: "byte list"
  vp_proof :: "byte list"
  vp_leaves_count :: nat
  vp_leaves_chunk :: "byte list list"
  vp_leaves_indices :: "nat list"

text \<open>The conversion of a slice to \<open>[u8; 32]\<close>.\<close>

definition try_into_32 :: "byte list \<Rightarrow> byte list result" where
  "try_into_32 bs = (if length bs = 32 then Inr bs else Inl ''could not convert slice to array'')"

definition validate_proof :: "'p proof_lib \<Rightarrow> ParamsOfValidateProof \<Rightarrow> LibError + bool" where
  "validate_proof lib req =
     (if vp_proof req = [] then
        if length (vp_leaves_chunk req) = 1 then Inr (vp_leaves_chunk req ! 0 = vp_root req)
        else Inr False
      else
        and_then (map_err (\<lambda>e. \<lparr> le_code = BuildMerkleProof,
                                  le_message = Some (''Proof build failure ('' @ e @ '')'') \<rparr>)
                   (pl_from_bytes lib (vp_proof req))) (\<lambda>proof.
        and_then (map_err (\<lambda>e. \<lparr> le_code = CheckRoot,
                                  le_message = Some (''Root bytes to slice ('' @ e @ '')'') \<rparr>)
                   (try_into_32 (vp_root req))) (\<lambda>root.
        and_then (collect_res (\<lambda>(i, leaf).
                     map_err (\<lambda>e. \<lparr> le_code = CheckLeaf,
                                    le_message = Some (''Leaf `'' @ show_nat i @ ''` bytes to slice ('' @ e @ '')'') \<rparr>)
                       (try_into_32 leaf))
                   (List.enumerate 0 (vp_leaves_chunk req))) (\<lambda>leaves.
        Inr (pl_verify lib proof root (vp_leaves_indices req) leaves (vp_leaves_count req))))))"

record ParamsOfValidateLeaves =
  vl_seed :: string
  vl_complexity :: u32
  vl_leaves :: "ComputedLeaf list"

definition validate_leaves :: "(byte list \<Rightarrow> byte list) \<Rightarrow> ParamsOfValidateLeaves \<Rightarrow> bool" where
  "validate_leaves blake3 params =
     (vl_leaves params \<noteq> [] \<and>
      list_all (\<lambda>computed_leaf. leaf_verify blake3 computed_leaf (vl_seed params) (vl_complexity params))
        (vl_leaves params))"

definition verify_proof_and_leaves ::
  "'p proof_lib \<Rightarrow> (byte list \<Rightarrow> byte list) \<Rightarrow> string \<Rightarrow> u32 \<Rightarrow> u64 \<times> u64 \<Rightarrow> SessionSubmit \<Rightarrow> SessionProof \<Rightarrow>
   LibError + bool" where
  "verify_proof_and_leaves lib blake3 seed complexity interval submit_params proof_params =
     and_then (validate_proof lib
        \<lparr> vp_root = ss_root submit_params, vp_proof = sp_proof proof_params,
          vp_leaves_count = as_usize (ss_leaves_count submit_params),
          vp_leaves_chunk = sp_leaves_tree proof_params,
          vp_leaves_indices = [as_usize (fst interval)..<as_usize (snd interval)] \<rparr>) (\<lambda>valid_proof.
     let valid_leaves = validate_leaves blake3
           \<lparr> vl_seed = seed, vl_complexity = complexity, vl_leaves = sp_leaves_data proof_params \<rparr>
     in Inr (valid_proof \<and> valid_leaves))"

section \<open>Checking a session\<close>

text \<open>The number of 330 ms blocks between the first and the last hard leaf.\<close>

definition hard_computation_blocks :: "ComputedLeaf \<Rightarrow> ComputedLeaf \<Rightarrow> u32" where
  "hard_computation_blocks first_leaf last_leaf =
     ucast ((cl_timestamp last_leaf - cl_timestamp first_leaf) div 330)"

text \<open>\<open>verify\<close> after decoding, with its early returns as errors.\<close>

definition verify_params ::
  "'p proof_lib \<Rightarrow> (byte list \<Rightarrow> byte list) \<Rightarrow> ParamsOfVerifySession \<Rightarrow> LibError + byte list" where
  "verify_params lib blake3 params =
     and_then (verify_proof_and_leaves lib blake3 (vs_seed params) (vs_easy_complexity params)
        (vs_easy_interval_start params, vs_easy_interval_end params)
        (vs_easy_submit_params params) (vs_easy_proof_params params)) (\<lambda>easy_valid.
     and_then (verify_proof_and_leaves lib blake3 (vs_seed params) (vs_hard_complexity params)
        (0, 1)
        (vs_hard_submit_params params) (vs_hard_first_proof_params params)) (\<lambda>hard_first_valid.
     and_then (verify_proof_and_leaves lib blake3 (vs_seed params) (vs_hard_complexity params)
        (vs_hard_interval_start params, vs_hard_interval_end params)
        (vs_hard_submit_params params) (vs_hard_range_proof_params params)) (\<lambda>hard_range_valid.
     and_then (verify_proof_and_leaves lib blake3 (vs_seed params) (vs_hard_complexity params)
        (ss_leaves_count (vs_hard_submit_params params) - 1, ss_leaves_count (vs_hard_submit_params params))
        (vs_hard_submit_params params) (vs_hard_last_proof_params params)) (\<lambda>hard_last_valid.
     case sp_leaves_data (vs_hard_first_proof_params params) of
       [] \<Rightarrow> Inl \<lparr> le_code = GetFirstHardLeaf, le_message = None \<rparr>
     | first_leaf # _ \<Rightarrow>
       if sp_leaves_data (vs_hard_last_proof_params params) = []
       then Inl \<lparr> le_code = GetLastHardLeaf, le_message = None \<rparr>
       else
         let last_leaf = last (sp_leaves_data (vs_hard_last_proof_params params));
             blocks = hard_computation_blocks first_leaf last_leaf
         in Inr ([1] @ [of_bool (easy_valid \<and> hard_first_valid \<and> hard_range_valid \<and> hard_last_valid)] @
                 u32_to_le blocks)))))"

definition verify ::
  "'p proof_lib \<Rightarrow> (byte list \<Rightarrow> byte list) \<Rightarrow> (byte list \<Rightarrow> string) \<Rightarrow>
   (byte list \<Rightarrow> PartialVerifySession result) \<Rightarrow> byte list \<Rightarrow> byte list" where
  "verify lib blake3 hex_encode borsh_rest req =
     (case verify_session_try_from hex_encode borsh_rest req of
        Inl e \<Rightarrow> lib_error_bytes \<lparr> le_code = DeserializeRequest, le_message = Some e \<rparr>
      | Inr params \<Rightarrow>
          (case verify_params lib blake3 params of
             Inl e \<Rightarrow> lib_error_bytes e
           | Inr result \<Rightarrow> result))"

section \<open>What an accepted opening means\<close>

text \<open>
  The reference description of the proof check: the empty proof opens the one leaf that is the
  root itself, any other proof is what \<open>rs_merkle\<close> accepts on 32-byte hashes.
\<close>

definition proof_opens ::
  "'p proof_lib \<Rightarrow> byte list \<Rightarrow> nat \<Rightarrow> byte list \<Rightarrow> nat list \<Rightarrow> byte list list \<Rightarrow> bool" where
  "proof_opens lib root count proof indices chunk =
     (if proof = [] then chunk = [root]
      else length root = 32 \<and> (\<forall>leaf \<in> set chunk. length leaf = 32) \<and>
           (\<exists>p. pl_from_bytes lib proof = Inr p \<and> pl_verify lib p root indices chunk count))"

definition opening_ok ::
  "'p proof_lib \<Rightarrow> (byte list \<Rightarrow> byte list) \<Rightarrow> string \<Rightarrow> u32 \<Rightarrow> u64 \<times> u64 \<Rightarrow> SessionSubmit \<Rightarrow> SessionProof \<Rightarrow> bool" where
  "opening_ok lib blake3 seed complexity interval submit p =
     (proof_opens lib (ss_root submit) (as_usize (ss_leaves_count submit)) (sp_proof p)
        [as_usize (fst interval)..<as_usize (snd interval)] (sp_leaves_tree p) \<and>
      sp_leaves_data p \<noteq> [] \<and>
      (\<forall>c \<in> set (sp_leaves_data p). leaf_verify blake3 c seed complexity))"

lemma try_into_32_eq [res_simps]: "try_into_32 bs = Inr x \<longleftrightarrow> x = bs \<and> length bs = 32"
  by (auto simp: try_into_32_def)

lemma collect_leaves_ok:
  "collect_res (\<lambda>(i, leaf). map_err (f i) (try_into_32 leaf)) (List.enumerate n chunk) = Inr leaves \<longleftrightarrow>
     leaves = chunk \<and> (\<forall>leaf \<in> set chunk. length leaf = 32)"
  by (induction chunk arbitrary: n leaves) (auto simp: res_simps)

lemma collect_leaves_error:
  "collect_res (\<lambda>(i, leaf). map_err (f i) (try_into_32 leaf)) (List.enumerate n chunk) = Inl e \<Longrightarrow>
     \<exists>i e'. e = f i e'"
  by (induction chunk arbitrary: n) (auto simp: res_simps)

lemma validate_proof_accepts:
  "validate_proof lib req = Inr True \<longleftrightarrow>
     proof_opens lib (vp_root req) (vp_leaves_count req) (vp_proof req) (vp_leaves_indices req)
       (vp_leaves_chunk req)"
proof (cases "vp_proof req = []")
  case True
  then show ?thesis
    by (cases "vp_leaves_chunk req") (auto simp: validate_proof_def proof_opens_def)
next
  case False
  then show ?thesis
    by (auto simp: validate_proof_def proof_opens_def res_simps collect_leaves_ok)
qed

lemma validate_proof_error:
  assumes "validate_proof lib req = Inl e"
  shows "le_code e \<in> {CheckRoot, BuildMerkleProof, CheckLeaf}"
  using assms collect_leaves_error
  by (fastforce simp: validate_proof_def res_simps split: if_splits)

lemma verify_proof_and_leaves_accepts:
  "verify_proof_and_leaves lib blake3 seed complexity interval submit p = Inr True \<longleftrightarrow>
     opening_ok lib blake3 seed complexity interval submit p"
proof -
  have "and_then v (\<lambda>valid. Inr (valid \<and> b)) = Inr True \<longleftrightarrow> v = Inr True \<and> b" for v :: "LibError + bool" and b
    by (cases v) auto
  then show ?thesis
    by (simp add: verify_proof_and_leaves_def opening_ok_def validate_leaves_def validate_proof_accepts
        list_all_iff)
qed

lemma verify_proof_and_leaves_error:
  "verify_proof_and_leaves lib blake3 seed complexity interval submit p = Inl e \<Longrightarrow>
     le_code e \<in> {CheckRoot, BuildMerkleProof, CheckLeaf}"
  using validate_proof_error by (fastforce simp: verify_proof_and_leaves_def Let_def res_simps)

lemma verify_params_cases:
  obtains (error) e where "verify_params lib blake3 params = Inl e"
      "le_code e \<in> {CheckRoot, BuildMerkleProof, CheckLeaf, GetFirstHardLeaf, GetLastHardLeaf}"
  | (ok) easy_valid first_valid range_valid last_valid where
      "verify_proof_and_leaves lib blake3 (vs_seed params) (vs_easy_complexity params)
        (vs_easy_interval_start params, vs_easy_interval_end params)
        (vs_easy_submit_params params) (vs_easy_proof_params params) = Inr easy_valid"
      "verify_proof_and_leaves lib blake3 (vs_seed params) (vs_hard_complexity params) (0, 1)
        (vs_hard_submit_params params) (vs_hard_first_proof_params params) = Inr first_valid"
      "verify_proof_and_leaves lib blake3 (vs_seed params) (vs_hard_complexity params)
        (vs_hard_interval_start params, vs_hard_interval_end params)
        (vs_hard_submit_params params) (vs_hard_range_proof_params params) = Inr range_valid"
      "verify_proof_and_leaves lib blake3 (vs_seed params) (vs_hard_complexity params)
        (ss_leaves_count (vs_hard_submit_params params) - 1, ss_leaves_count (vs_hard_submit_params params))
        (vs_hard_submit_params params) (vs_hard_last_proof_params params) = Inr last_valid"
      "sp_leaves_data (vs_hard_first_proof_params params) \<noteq> []"
      "sp_leaves_data (vs_hard_last_proof_params params) \<noteq> []"
      "verify_params lib blake3 params =
         Inr ([1, of_bool (easy_valid \<and> first_valid \<and> range_valid \<and> last_valid)] @
              u32_to_le (hard_computation_blocks (hd (sp_leaves_data (vs_hard_first_proof_params params)))
                 (last (sp_leaves_data (vs_hard_last_proof_params params)))))"
proof (cases "verify_params lib blake3 params")
  case (Inl e)
  then have "le_code e \<in> {CheckRoot, BuildMerkleProof, CheckLeaf, GetFirstHardLeaf, GetLastHardLeaf}"
    by (cases "sp_leaves_data (vs_hard_first_proof_params params)")
      (auto simp: verify_params_def Let_def res_simps dest!: verify_proof_and_leaves_error split: if_splits)
  with Inl show ?thesis by (rule error)
next
  case (Inr out)
  then obtain c cs where data: "sp_leaves_data (vs_hard_first_proof_params params) = c # cs"
      "sp_leaves_data (vs_hard_last_proof_params params) \<noteq> []"
    by (cases "sp_leaves_data (vs_hard_first_proof_params params)")
      (auto simp: verify_params_def res_simps split: if_splits)
  note run = Inr [unfolded verify_params_def Let_def data list.case if_not_P [OF data(2)] and_then_eq_Inr]
  from run obtain a b c' d where parts:
      "verify_proof_and_leaves lib blake3 (vs_seed params) (vs_easy_complexity params)
        (vs_easy_interval_start params, vs_easy_interval_end params)
        (vs_easy_submit_params params) (vs_easy_proof_params params) = Inr a"
      "verify_proof_and_leaves lib blake3 (vs_seed params) (vs_hard_complexity params) (0, 1)
        (vs_hard_submit_params params) (vs_hard_first_proof_params params) = Inr b"
      "verify_proof_and_leaves lib blake3 (vs_seed params) (vs_hard_complexity params)
        (vs_hard_interval_start params, vs_hard_interval_end params)
        (vs_hard_submit_params params) (vs_hard_range_proof_params params) = Inr c'"
      "verify_proof_and_leaves lib blake3 (vs_seed params) (vs_hard_complexity params)
        (ss_leaves_count (vs_hard_submit_params params) - 1, ss_leaves_count (vs_hard_submit_params params))
        (vs_hard_submit_params params) (vs_hard_last_proof_params params) = Inr d"
    by blast
  show ?thesis
    by (rule ok [OF parts]) (simp_all add: data verify_params_def parts)
qed

lemma verify_params_accepted:
  assumes "opening_ok lib blake3 (vs_seed v) (vs_easy_complexity v)
      (vs_easy_interval_start v, vs_easy_interval_end v) (vs_easy_submit_params v) (vs_easy_proof_params v)"
    and "opening_ok lib blake3 (vs_seed v) (vs_hard_complexity v)
      (0, 1) (vs_hard_submit_params v) (vs_hard_first_proof_params v)"
    and "opening_ok lib blake3 (vs_seed v) (vs_hard_complexity v)
      (vs_hard_interval_start v, vs_hard_interval_end v) (vs_hard_submit_params v) (vs_hard_range_proof_params v)"
    and "opening_ok lib blake3 (vs_seed v) (vs_hard_complexity v)
      (ss_leaves_count (vs_hard_submit_params v) - 1, ss_leaves_count (vs_hard_submit_params v))
      (vs_hard_submit_params v) (vs_hard_last_proof_params v)"
  shows "verify_params lib blake3 v = Inr ([1, 1] @ u32_to_le (hard_computation_blocks
           (hd (sp_leaves_data (vs_hard_first_proof_params v))) (last (sp_leaves_data (vs_hard_last_proof_params v)))))"
proof -
  have "sp_leaves_data (vs_hard_first_proof_params v) \<noteq> []" "sp_leaves_data (vs_hard_last_proof_params v) \<noteq> []"
    using assms(2,4) by (simp_all add: opening_ok_def)
  then show ?thesis
    by (cases "sp_leaves_data (vs_hard_first_proof_params v)")
      (simp_all add: verify_params_def assms [THEN verify_proof_and_leaves_accepts [THEN iffD2]])
qed

lemma u32_to_le_length [simp]: "length (u32_to_le w) = 4"
  by (rule le32.length_enc)

text \<open>
  Further property.  The answer of the verifier always has six bytes.  Either it starts with two
  zeros and carries an error code, code 100 exactly when the request could not be decoded and
  never the unused code 300; or it starts with 1, a verdict byte 0 or 1, and a block count.
\<close>

theorem verify_output:
  "(\<exists>code \<in> {DeserializeRequest, CheckRoot, BuildMerkleProof, CheckLeaf, GetFirstHardLeaf, GetLastHardLeaf}.
      verify lib blake3 hex_encode borsh_rest req = [0, 0] @ u32_to_le (lib_error_code_value code) \<and>
      (code = DeserializeRequest \<longleftrightarrow> (\<exists>e. verify_session_try_from hex_encode borsh_rest req = Inl e))) \<or>
   (\<exists>valid blocks. verify lib blake3 hex_encode borsh_rest req = [1, of_bool valid] @ u32_to_le blocks)"
proof (cases "verify_session_try_from hex_encode borsh_rest req")
  case (Inl e)
  then show ?thesis by (auto simp: verify_def lib_error_bytes_def)
next
  case (Inr params)
  then show ?thesis
    by (cases rule: verify_params_cases [of lib blake3 params])
      (auto simp: verify_def lib_error_bytes_def)
qed

text \<open>
  Property C2.  The verdict is 1 exactly when the request decodes and all four openings (easy
  window, first, range and last hard leaf) hold: each Merkle proof opens its tree leaves at the
  window's indices, and each list of leaf data is non-empty and every leaf in it has a valid
  proof of work for the seed and complexity.  The reported blocks are then the distance of the
  first and the last hard leaf.
\<close>

theorem verify_accepts_iff:
  "verify lib blake3 hex_encode borsh_rest req = [1, 1] @ u32_to_le blocks \<longleftrightarrow>
   (\<exists>v. verify_session_try_from hex_encode borsh_rest req = Inr v \<and>
        opening_ok lib blake3 (vs_seed v) (vs_easy_complexity v)
          (vs_easy_interval_start v, vs_easy_interval_end v) (vs_easy_submit_params v) (vs_easy_proof_params v) \<and>
        opening_ok lib blake3 (vs_seed v) (vs_hard_complexity v)
          (0, 1) (vs_hard_submit_params v) (vs_hard_first_proof_params v) \<and>
        opening_ok lib blake3 (vs_seed v) (vs_hard_complexity v)
          (vs_hard_interval_start v, vs_hard_interval_end v) (vs_hard_submit_params v) (vs_hard_range_proof_params v) \<and>
        opening_ok lib blake3 (vs_seed v) (vs_hard_complexity v)
          (ss_leaves_count (vs_hard_submit_params v) - 1, ss_leaves_count (vs_hard_submit_params v))
          (vs_hard_submit_params v) (vs_hard_last_proof_params v) \<and>
        blocks = hard_computation_blocks (hd (sp_leaves_data (vs_hard_first_proof_params v)))
                   (last (sp_leaves_data (vs_hard_last_proof_params v))))"
proof (cases "verify_session_try_from hex_encode borsh_rest req")
  case (Inl e)
  then show ?thesis by (simp add: verify_def lib_error_bytes_def)
next
  case (Inr v)
  then show ?thesis
  proof (cases rule: verify_params_cases [of lib blake3 v])
    case (error e)
    have "sp_leaves_data p \<noteq> []" if "opening_ok lib blake3 seed k i sub p" for seed k i sub p
      using that by (simp add: opening_ok_def)
    with error Inr show ?thesis
      by (cases "sp_leaves_data (vs_hard_first_proof_params v)")
        (auto simp: verify_def lib_error_bytes_def verify_params_def Let_def
          verify_proof_and_leaves_accepts [symmetric])
  next
    case ok
    then show ?thesis
      by (auto simp: verify_def Inr verify_proof_and_leaves_accepts [symmetric] le32.enc_inject)
  qed
qed

section \<open>What an accepted opening does not mean\<close>

text \<open>
  Property C34.  The two halves of an opening are checked independently: when an opening is
  accepted, it stays accepted with its leaf data replaced by any other leaf that solves the
  proof of work for the seed and complexity, whatever its index and whether or not its Merkle
  hash is among the opened tree leaves.
\<close>

theorem verify_leaves_not_bound_to_tree:
  assumes "verify_proof_and_leaves lib blake3 seed complexity interval submit p = Inr True"
    and "leaf_verify blake3 c seed complexity"
  shows "verify_proof_and_leaves lib blake3 seed complexity interval submit (p\<lparr>sp_leaves_data := [c]\<rparr>) = Inr True"
  using assms by (simp add: verify_proof_and_leaves_accepts opening_ok_def)

definition example_proof_lib :: "unit proof_lib" where
  "example_proof_lib = \<lparr> pl_from_bytes = (\<lambda>bs. if bs = [7] then Inr () else Inl ''bad''),
     pl_verify = (\<lambda>_ root indices leaves count. root = hd leaves \<and> length indices = length leaves) \<rparr>"

definition example_seed :: string where
  "example_seed = ''0x'' @ hex_enc (replicate 32 0)"

definition example_hard_leaf :: "u64 \<Rightarrow> u32 \<Rightarrow> ComputedLeaf" where
  "example_hard_leaf now complexity = leaf_compute zero_hash
     \<lparr> l_index = 9, l_nonce = 0, l_seed = example_seed, l_x = 1, l_y = 1,
       l_timestamp = now, l_complexity = complexity \<rparr>"

lemma example_hard_leaf_verifies:
  "unat complexity < 128 \<Longrightarrow>
     leaf_verify zero_hash (example_hard_leaf now complexity) example_seed complexity"
  unfolding example_hard_leaf_def
  using zero_hash_leaf_verify
    [of "\<lparr> l_index = 9, l_nonce = 0, l_seed = example_seed, l_x = 1, l_y = 1,
           l_timestamp = now, l_complexity = complexity \<rparr>"]
  by simp

theorem verify_leaves_not_bound_to_tree_witness:
  "verify_proof_and_leaves example_proof_lib zero_hash example_seed 11 (0, 1)
     \<lparr> ss_root = replicate 32 1, ss_leaves_count = 5 \<rparr>
     \<lparr> sp_proof = [7], sp_leaves_tree = [replicate 32 1], sp_leaves_data = [example_hard_leaf 990 11] \<rparr> = Inr True"
proof -
  let ?s = "\<lparr> ss_root = replicate 32 1, ss_leaves_count = 5 \<rparr>"
  let ?p = "\<lparr> sp_proof = [7], sp_leaves_tree = [replicate 32 1], sp_leaves_data = [example_hard_leaf 5 11] \<rparr>"
  have "opening_ok example_proof_lib zero_hash example_seed 11 (0, 1) ?s ?p"
    by (simp add: opening_ok_def proof_opens_def example_proof_lib_def as_usize_def
        example_hard_leaf_verifies del: replicate.simps)
  then have "verify_proof_and_leaves example_proof_lib zero_hash example_seed 11 (0, 1) ?s ?p
      = Inr True"
    by (simp only: verify_proof_and_leaves_accepts)
  from verify_leaves_not_bound_to_tree [OF this example_hard_leaf_verifies [of 11 990]] show ?thesis
    by simp
qed

text \<open>
  A request in which every proof is empty, every opening shows the claimed root as its only
  tree leaf, and one easy and one hard leaf are repeated.
\<close>

definition single_leaf_opening :: "byte list \<Rightarrow> ComputedLeaf \<Rightarrow> SessionProof" where
  "single_leaf_opening root c = \<lparr> sp_proof = [], sp_leaves_tree = [root], sp_leaves_data = [c] \<rparr>"

definition single_leaf_session ::
  "byte list \<Rightarrow> u64 \<Rightarrow> byte list \<Rightarrow> u64 \<Rightarrow> ComputedLeaf \<Rightarrow> ComputedLeaf \<Rightarrow> ComputedLeaf \<Rightarrow> PartialVerifySession" where
  "single_leaf_session easy_root easy_count hard_root hard_count easy first_hard last_hard =
     \<lparr> pv_easy_submit_params = \<lparr> ss_root = easy_root, ss_leaves_count = easy_count \<rparr>,
       pv_hard_submit_params = \<lparr> ss_root = hard_root, ss_leaves_count = hard_count \<rparr>,
       pv_easy_proof_params = single_leaf_opening easy_root easy,
       pv_hard_first_proof_params = single_leaf_opening hard_root first_hard,
       pv_hard_range_proof_params = single_leaf_opening hard_root first_hard,
       pv_hard_last_proof_params = single_leaf_opening hard_root last_hard \<rparr>"

lemma single_leaf_opening_ok:
  "opening_ok lib blake3 seed complexity interval \<lparr> ss_root = root, ss_leaves_count = n \<rparr>
     (single_leaf_opening root c) \<longleftrightarrow> leaf_verify blake3 c seed complexity"
  by (simp add: opening_ok_def proof_opens_def single_leaf_opening_def)

text \<open>
  Further property.  With empty proofs a session is accepted for any roots, any claimed numbers of
  leaves and any challenged windows, as soon as one easy leaf and two hard leaves solve the proof
  of work: the claimed counts and the windows are not looked at on this path, and the reported
  block count is the one the submitter's two timestamps give.
\<close>

theorem verify_accepts_single_leaf:
  assumes "length seed = 32"
    and "borsh_rest rest = Inr (single_leaf_session easy_root easy_count hard_root hard_count easy h1 h2)"
    and "leaf_verify blake3 easy (''0x'' @ hex_encode seed) ec"
    and "leaf_verify blake3 h1 (''0x'' @ hex_encode seed) hc"
    and "leaf_verify blake3 h2 (''0x'' @ hex_encode seed) hc"
  shows "verify lib blake3 hex_encode borsh_rest (encode_header seed ec es ee hc hs he @ rest)
           = [1, 1] @ u32_to_le (hard_computation_blocks h1 h2)"
proof -
  have "verify_session_try_from hex_encode borsh_rest (encode_header seed ec es ee hc hs he @ rest) = Inr
     \<lparr> vs_seed = ''0x'' @ hex_encode seed, vs_easy_complexity = ec, vs_easy_interval_start = es,
       vs_easy_interval_end = ee, vs_hard_complexity = hc, vs_hard_interval_start = hs,
       vs_hard_interval_end = he,
       vs_easy_submit_params = \<lparr> ss_root = easy_root, ss_leaves_count = easy_count \<rparr>,
       vs_hard_submit_params = \<lparr> ss_root = hard_root, ss_leaves_count = hard_count \<rparr>,
       vs_easy_proof_params = single_leaf_opening easy_root easy,
       vs_hard_first_proof_params = single_leaf_opening hard_root h1,
       vs_hard_range_proof_params = single_leaf_opening hard_root h1,
       vs_hard_last_proof_params = single_leaf_opening hard_root h2 \<rparr>" (is "?try = Inr ?v")
    using assms(2)
    by (simp add: verify_session_try_from_def HEADER_LEN_def Let_def header_slices [OF assms(1)]
        be32.dec_enc be64.dec_enc single_leaf_session_def)
  moreover have "verify_params lib blake3 ?v = Inr ([1, 1] @ u32_to_le (hard_computation_blocks h1 h2))"
    using assms(3-5) single_leaf_opening_ok [of lib blake3]
    by (simp add: verify_params_def verify_proof_and_leaves_accepts [THEN iffD2])
      (simp add: single_leaf_opening_def)
  ultimately show ?thesis by (simp add: verify_def)
qed

theorem verify_accepts_single_leaf_witness:
  "verify example_proof_lib zero_hash hex_enc
     (\<lambda>_. Inr (single_leaf_session [1] 1000000 [2] 2000000 (example_hard_leaf 5 10) (example_hard_leaf 0 11)
        (example_hard_leaf 330000 11)))
     (encode_header (replicate 32 0) 10 1729 1769 11 325 365 @ []) = [1, 1, 0xE8, 3, 0, 0]"
proof -
  have four: "(4 :: nat) = Suc (Suc (Suc (Suc 0)))" by simp
  have "hard_computation_blocks (example_hard_leaf 0 11) (example_hard_leaf 330000 11) = 1000"
    by (simp add: hard_computation_blocks_def example_hard_leaf_def leaf_compute_def)
  moreover have "u32_to_le 1000 = [0xE8, 3, 0, 0]"
    unfolding u32_to_le_def four by simp
  ultimately show ?thesis
    by (subst verify_accepts_single_leaf
        [of "replicate 32 0" _ "[]" "[1]" 1000000 "[2]" 2000000 "example_hard_leaf 5 10" "example_hard_leaf 0 11"
            "example_hard_leaf 330000 11"])
      (simp_all only: length_replicate example_seed_def [symmetric], simp_all add: example_hard_leaf_verifies)
qed

lemma hard_computation_blocks_unat:
  "unat (hard_computation_blocks first_leaf last_leaf) =
     (unat (cl_timestamp last_leaf - cl_timestamp first_leaf) div 330) mod 2 ^ 32"
  by (simp add: hard_computation_blocks_def unsigned_ucast_eq unat_div take_bit_eq_mod)

text \<open>
  Further property.  The block count is the distance of the two timestamps in blocks of 330 ms,
  reduced to 32 bits; when the last leaf is older than the first, the subtraction wraps and the
  count is that of a distance near \<open>2 ^ 64\<close>.
\<close>

theorem hard_computation_blocks_value:
  "unat (hard_computation_blocks first_leaf last_leaf) =
     ((if cl_timestamp first_leaf \<le> cl_timestamp last_leaf
       then unat (cl_timestamp last_leaf) - unat (cl_timestamp first_leaf)
       else 2 ^ 64 + unat (cl_timestamp last_leaf) - unat (cl_timestamp first_leaf)) div 330) mod 2 ^ 32"
proof -
  let ?f = "cl_timestamp first_leaf" and ?l = "cl_timestamp last_leaf"
  have "unat (?l - ?f) = (if ?f \<le> ?l then unat ?l - unat ?f else 2 ^ 64 + unat ?l - unat ?f)"
    by (auto simp: unat_sub_if' word_le_nat_alt)
  then show ?thesis
    by (simp add: hard_computation_blocks_unat)
qed

end
