(* ===== verification/Worker.thy ===== *)
theory Worker
  imports Mining Verifier
begin

text \<open>
  The miner of the crate \<open>bee_miner\<close> as it runs in the browser: the object \<open>Miner\<close>
  (\<open>wasm/miner.rs\<close>) with its seeds and workers, the task each worker runs (\<open>wasm/worker.rs\<close>)
  and the messages between them.

  The tasks are cooperative: code between two \<open>await\<close> points runs without interruption.  A
  definition \<open>run_...\<close> below is the code of a task from one \<open>await\<close> to the next; what the awaited
  operation returns, and every clock reading, is its argument.  Callbacks into JavaScript and
  calls of the miner contract are logged in the state, in order.
\<close>

section \<open>Data\<close>

record Interval =
  iv_start :: u64
  iv_end :: u64

record SessionIntervalData =
  si_easy :: Interval
  si_hard :: Interval
  si_worker_id :: u64

datatype MinerCommand =
  Stop
| QueueTap u32 u32
| SendSessionInterval SessionIntervalData
| ProcessSessionAccepted string
| ProcessSessionRejected string

datatype MinerStatus = Queued | Computing | Submitting | Finished

fun miner_status_string :: "MinerStatus \<Rightarrow> string" where
  "miner_status_string Queued = ''queued''"
| "miner_status_string Computing = ''computing''"
| "miner_status_string Submitting = ''submitting''"
| "miner_status_string Finished = ''finished''"

record CallbackData =
  cb_action :: string
  cb_data :: "json option"
  cb_error :: "string option"

definition callback_data :: "string \<Rightarrow> json option \<Rightarrow> CallbackData" where
  "callback_data action data = \<lparr> cb_action = action, cb_data = data, cb_error = None \<rparr>"

definition callback_error :: "string \<Rightarrow> string \<Rightarrow> json option \<Rightarrow> CallbackData" where
  "callback_error action err data = \<lparr> cb_action = action, cb_data = data, cb_error = Some err \<rparr>"

text \<open>A worker; its \<open>sender\<close> is the number of the channel its task reads.\<close>

record MinerWorker =
  w_id :: u64
  w_sender :: nat
  w_status :: MinerStatus
  w_app_id :: string
  w_keys :: KeyPair
  w_seed :: string
  w_duration_ms :: u64
  w_easy_complexity :: u32
  w_hard_complexity :: u32

text \<open>The calls of the miner contract.\<close>

record ParamsOfSubmitSession =
  su_app_id :: string
  su_easy_count :: u64
  su_hard_count :: u64
  su_worker_id :: u64
  su_data :: string

record ParamsOfVerifySessionCall =
  ve_app_id :: string
  ve_data :: string
  ve_success_event_address :: "string list"
  ve_success_event_data :: "string list"
  ve_error_event_address :: "string list"
  ve_error_event_data :: "string list"

datatype chain_call =
  CallSubmitSession ParamsOfSubmitSession KeyPair
| CallVerifySession ParamsOfVerifySessionCall KeyPair

text \<open>
  What the miner takes from other packages: the Merkle tree, the hash, hex, the Borsh
  serialisation of three types (with the \<open>Debug\<close> print the error message uses) and the addresses
  of two events.
\<close>

record 't worker_env =
  we_lib :: "'t merkle_lib"
  we_blake3 :: "byte list \<Rightarrow> byte list"
  we_hex_encode :: "byte list \<Rightarrow> string"
  we_hex_decode :: "string \<Rightarrow> byte list result"
  we_submit_to_vec :: "SessionSubmit \<Rightarrow> byte list result"
  we_submit_debug :: "SessionSubmit \<Rightarrow> string"
  we_proof_to_vec :: "SessionProof \<Rightarrow> byte list result"
  we_proof_debug :: "SessionProof \<Rightarrow> string"
  we_status_to_vec :: "u64 \<Rightarrow> byte list result"
  we_status_from_slice :: "byte list \<Rightarrow> u64 result"
  we_status_debug :: "u64 \<Rightarrow> string"
  we_bytes_debug :: "byte list \<Rightarrow> string"
  we_accepted_address :: string
  we_rejected_address :: string

section \<open>Session status data\<close>

definition session_status_of_string :: "'t worker_env \<Rightarrow> string \<Rightarrow> u64 result" where
  "session_status_of_string env value =
     and_then (map_err (\<lambda>e. ''Decode data from hex `'' @ value @ ''` ('' @ e @ '')'') (we_hex_decode env value)) (\<lambda>bytes.
     map_err (\<lambda>e. ''Deserialize data from `'' @ we_bytes_debug env bytes @ ''` ('' @ e @ '')'')
       (we_status_from_slice env bytes))"

definition string_of_session_status :: "'t worker_env \<Rightarrow> u64 \<Rightarrow> string result" where
  "string_of_session_status env worker_id =
     and_then (map_err (\<lambda>e. ''Serialize event data `'' @ we_status_debug env worker_id @ ''` ('' @ e @ '')'')
                 (we_status_to_vec env worker_id)) (\<lambda>bytes.
     Inr (we_hex_encode env bytes))"

section \<open>What a worker sends\<close>

text \<open>
  \<open>get_session_complexity\<close>: the awaited account fetch, the account's data, the decoded data and
  the deserialised fields are its arguments, in the order the code asks for them.
\<close>

definition get_session_complexity ::
  "unit result \<Rightarrow> 'd option \<Rightarrow> ('d \<Rightarrow> json result) \<Rightarrow> (json \<Rightarrow> MinerComplexityData result) \<Rightarrow> string \<Rightarrow> bool \<Rightarrow>
   ((u32 \<times> u32) option) result" where
  "get_session_complexity fetched account_data decode from_value seed session_in_flight =
     and_then (map_err (\<lambda>e. ''Fetch miner account data ('' @ e @ '')'') fetched) (\<lambda>_.
     and_then (ok_or ''Miner account has no data'' account_data) (\<lambda>data.
     and_then (map_err (\<lambda>e. ''Decode miner account data ('' @ e @ '')'') (decode data)) (\<lambda>value.
     and_then (map_err (\<lambda>e. ''Deserialize miner complexity data ('' @ e @ '')'') (from_value value)) (\<lambda>data.
     Inr (select_session_complexity seed data session_in_flight)))))"

definition session_submit :: "ResultOfGetMerkleSnapshot \<Rightarrow> SessionSubmit" where
  "session_submit tree = \<lparr> ss_root = ms_root tree, ss_leaves_count = word_of_nat (length (ms_leaves tree)) \<rparr>"

definition submit_session_root ::
  "'t worker_env \<Rightarrow> MinerWorker \<Rightarrow> ResultOfGetMerkleSnapshot \<times> ResultOfGetMerkleSnapshot \<Rightarrow>
   ParamsOfSubmitSession result" where
  "submit_session_root env worker trees =
     (let easy_params = session_submit (fst trees);
          hard_params = session_submit (snd trees)
      in and_then (map_err (\<lambda>e. ''Serialize submit session params to bytes ('' @ e @ '')'')
                    (combine_bytes (we_submit_to_vec env) (we_submit_debug env) [easy_params, hard_params])) (\<lambda>bytes.
         Inr \<lparr> su_app_id = w_app_id worker, su_easy_count = ss_leaves_count easy_params,
               su_hard_count = ss_leaves_count hard_params, su_worker_id = w_id worker,
               su_data = we_hex_encode env bytes \<rparr>))"

definition session_opening :: "ResultOfGetProof \<Rightarrow> SessionProof" where
  "session_opening p =
     \<lparr> sp_proof = gp_proof p, sp_leaves_tree = gp_selected_leaves p, sp_leaves_data = gp_selected_leaves_data p \<rparr>"

text \<open>\<open>get_proof\<close> can panic, so a computation with it is an option of a result.\<close>

definition opening_of ::
  "'t worker_env \<Rightarrow> string \<Rightarrow> 't MiningCore \<Rightarrow> nat \<Rightarrow> nat \<Rightarrow> (SessionProof result) option" where
  "opening_of env what core s e =
     map_option (\<lambda>r. and_then (map_err (\<lambda>e. ''Get '' @ what @ '' proof ('' @ e @ '')'') r) (\<lambda>p. Inr (session_opening p)))
       (mining_get_proof (we_lib env) core s e)"

fun all_res :: "('e + 'a) option list \<Rightarrow> ('e + 'a list) option" where
  "all_res [] = Some (Inr [])"
| "all_res (None # rs) = None"
| "all_res (Some (Inl e) # rs) = Some (Inl e)"
| "all_res (Some (Inr x) # rs) = map_option (map_sum id (\<lambda>xs. x # xs)) (all_res rs)"

text \<open>The four openings of \<open>submit_session_proof\<close>, in its order; the first failure stops it.\<close>

definition session_openings ::
  "'t worker_env \<Rightarrow> 't MiningCore \<times> 't MiningCore \<Rightarrow> ResultOfGetMerkleSnapshot \<Rightarrow> SessionIntervalData \<Rightarrow>
   (SessionProof list result) option" where
  "session_openings env cores hard_tree interval =
     (let easy_core = fst cores; hard_core = snd cores; n = length (ms_leaves hard_tree)
      in all_res
           [opening_of env ''easy'' easy_core (as_usize (iv_start (si_easy interval))) (as_usize (iv_end (si_easy interval))),
            opening_of env ''hard first'' hard_core 0 1,
            opening_of env ''hard range'' hard_core (as_usize (iv_start (si_hard interval))) (as_usize (iv_end (si_hard interval))),
            opening_of env ''hard last'' hard_core (n - 1) n])"

definition submit_session_proof ::
  "'t worker_env \<Rightarrow> MinerWorker \<Rightarrow> 't MiningCore \<times> 't MiningCore \<Rightarrow> ResultOfGetMerkleSnapshot \<Rightarrow>
   SessionIntervalData \<Rightarrow> (ParamsOfVerifySessionCall result) option" where
  "submit_session_proof env worker cores hard_tree interval =
     map_option (\<lambda>openings.
       and_then openings (\<lambda>openings.
       and_then (map_err (\<lambda>e. ''Serialize submit session params to bytes ('' @ e @ '')'')
                  (combine_bytes (we_proof_to_vec env) (we_proof_debug env) openings)) (\<lambda>bytes.
       and_then (map_err (\<lambda>e. ''Serialize event data ('' @ e @ '')'') (string_of_session_status env (w_id worker))) (\<lambda>event_data.
       Inr \<lparr> ve_app_id = w_app_id worker, ve_data = we_hex_encode env bytes,
             ve_success_event_address = [we_accepted_address env], ve_success_event_data = [event_data],
             ve_error_event_address = [we_rejected_address env], ve_error_event_data = [event_data] \<rparr>))))
       (session_openings env cores hard_tree interval)"

section \<open>The miner and its tasks\<close>

text \<open>
  The suspension points of \<open>run\<close>: spawned but not yet polled, awaiting the account data, in the
  computation loop, waiting for another submission to end, awaiting \<open>submit_session\<close>, awaiting a
  command, awaiting \<open>verify_session\<close>.
\<close>

record 't cores =
  c_time :: "'t MiningCore"
  c_tap :: "'t MiningCore"

record trees =
  tr_time :: ResultOfGetMerkleSnapshot
  tr_tap :: ResultOfGetMerkleSnapshot

datatype 't phase =
  Spawned
| AwaitComplexity bool
| InLoop "'t cores" u64
| WaitTurn "'t cores" trees
| AwaitSubmit "'t cores" trees
| Listening "'t cores" trees
| AwaitProof "'t cores" trees
| Ended

record 't task =
  t_worker :: MinerWorker
  t_phase :: "'t phase"

text \<open>The object \<open>Miner\<close>, the cells it shares with the tasks, the channels and the logs.\<close>

record 't Miner =
  m_app_id :: string
  m_keys :: KeyPair
  m_seeds :: "string list"
  m_complexity :: "u32 \<times> u32"
  m_workers :: "MinerWorker list"
  m_after_dt :: u64
  m_tasks :: "'t task list"
  m_channels :: "MinerCommand list list"
  m_callbacks :: "CallbackData list"
  m_calls :: "chain_call list"

definition send_callback :: "CallbackData \<Rightarrow> 't Miner \<Rightarrow> 't Miner" where
  "send_callback arg m = m\<lparr>m_callbacks := m_callbacks m @ [arg]\<rparr>"

definition send_call :: "chain_call \<Rightarrow> 't Miner \<Rightarrow> 't Miner" where
  "send_call c m = m\<lparr>m_calls := m_calls m @ [c]\<rparr>"

definition unbounded_send :: "nat \<Rightarrow> MinerCommand \<Rightarrow> 't Miner \<Rightarrow> 't Miner" where
  "unbounded_send ch cmd m = m\<lparr>m_channels := (m_channels m)[ch := m_channels m ! ch @ [cmd]]\<rparr>"

definition pop_command :: "nat \<Rightarrow> 't Miner \<Rightarrow> 't Miner" where
  "pop_command ch m = m\<lparr>m_channels := (m_channels m)[ch := tl (m_channels m ! ch)]\<rparr>"

definition set_phase :: "nat \<Rightarrow> 't phase \<Rightarrow> 't Miner \<Rightarrow> 't Miner" where
  "set_phase i ph m = m\<lparr>m_tasks := (m_tasks m)[i := (m_tasks m ! i)\<lparr>t_phase := ph\<rparr>]\<rparr>"

text \<open>\<open>iter_mut().find(..)\<close>: the first worker with the id.\<close>

fun set_status :: "u64 \<Rightarrow> MinerStatus \<Rightarrow> MinerWorker list \<Rightarrow> MinerWorker list" where
  "set_status i st [] = []"
| "set_status i st (w # ws) = (if w_id w = i then w\<lparr>w_status := st\<rparr> # ws else w # set_status i st ws)"

definition update_worker_status :: "u64 \<Rightarrow> MinerStatus \<Rightarrow> 't Miner \<Rightarrow> 't Miner" where
  "update_worker_status i st m = m\<lparr>m_workers := set_status i st (m_workers m)\<rparr>"

definition status_updated :: "u64 \<Rightarrow> MinerStatus \<Rightarrow> CallbackData" where
  "status_updated i st = callback_data ''status_updated''
     (Some (JObj [(''worker_id'', JNum i), (''status'', JStr (miner_status_string st))]))"

definition shutdown_worker :: "MinerWorker \<Rightarrow> bool \<Rightarrow> bool \<Rightarrow> 't Miner \<Rightarrow> 't Miner" where
  "shutdown_worker worker seed_used miner_state_corrupted m =
     (let m = update_worker_status (w_id worker) Finished m;
          m = send_callback (status_updated (w_id worker) Finished) m;
          m = m\<lparr>m_workers := filter (\<lambda>w. w_id w \<noteq> w_id worker) (m_workers m)\<rparr>
      in send_callback (callback_data ''status_updated''
           (Some (JObj [(''worker_id'', JNum (w_id worker)), (''status'', JStr ''removed''),
              (''seed'', if seed_used then JStr (w_seed worker) else JNull),
              (''miner_state_corrupted'', JBool miner_state_corrupted)]))) m)"

definition end_task :: "nat \<Rightarrow> MinerWorker \<Rightarrow> bool \<Rightarrow> bool \<Rightarrow> 't Miner \<Rightarrow> 't Miner" where
  "end_task i worker seed_used miner_state_corrupted m =
     set_phase i Ended (shutdown_worker worker seed_used miner_state_corrupted m)"

subsection \<open>The task of a worker\<close>

text \<open>From the first poll to the account query.\<close>

definition run_start :: "nat \<Rightarrow> 't Miner \<Rightarrow> 't Miner" where
  "run_start i m =
     (let worker = t_worker (m_tasks m ! i);
          m = update_worker_status (w_id worker) Computing m;
          m = send_callback (status_updated (w_id worker) Computing) m;
          session_in_flight = list_ex (\<lambda>w. w_id w \<noteq> w_id worker \<and> w_status w = Submitting) (m_workers m)
      in set_phase i (AwaitComplexity session_in_flight) m)"

text \<open>
  From the end of the computation to the next suspension: waiting for the turn, or the end when
  a tree is empty.  \<open>run_turn\<close> is one round of the waiting loop.
\<close>

definition run_turn :: "'t worker_env \<Rightarrow> nat \<Rightarrow> 't cores \<Rightarrow> trees \<Rightarrow> 't Miner \<Rightarrow> 't Miner" where
  "run_turn env i cores trees m =
     (let worker = t_worker (m_tasks m ! i)
      in if list_ex (\<lambda>w. w_status w = Submitting) (m_workers m) then set_phase i (WaitTurn cores trees) m
         else
           let m = update_worker_status (w_id worker) Submitting m;
               m = send_callback (status_updated (w_id worker) Submitting) m
           in case submit_session_root env worker (tr_time trees, tr_tap trees) of
                Inr params \<Rightarrow>
                  set_phase i (AwaitSubmit cores trees) (send_call (CallSubmitSession params (w_keys worker)) m)
              | Inl e \<Rightarrow>
                  end_task i worker True True
                    (send_callback (callback_error ''submit_session_root'' ''Submit session root failed''
                       (Some (JObj [(''worker_id'', JNum (w_id worker)), (''message'', JStr e)]))) m))"

definition run_finalize :: "'t worker_env \<Rightarrow> nat \<Rightarrow> 't cores \<Rightarrow> 't Miner \<Rightarrow> 't Miner" where
  "run_finalize env i cores m =
     (let worker = t_worker (m_tasks m ! i);
          (time_tree, time_core) = mining_get_merkle (we_lib env) (c_time cores);
          (tap_tree, tap_core) = mining_get_merkle (we_lib env) (c_tap cores);
          m = send_callback (callback_data ''computation_completed''
                (Some (JObj [(''worker_id'', JNum (w_id worker)),
                             (''taps'', JNum (word_of_nat (length (ms_leaves tap_tree))))]))) m
      in if ms_leaves time_tree = [] \<or> ms_leaves tap_tree = [] then
           end_task i worker False False (m\<lparr>m_seeds := w_seed worker # m_seeds m\<rparr>)
         else run_turn env i \<lparr> c_time = time_core, c_tap = tap_core \<rparr>
                \<lparr> tr_time = time_tree, tr_tap = tap_tree \<rparr> m)"

text \<open>
  One round of the computation loop at the clock reading \<open>now\<close>; \<open>None\<close> when a nonce search in it
  does not end.
\<close>

definition run_round :: "'t worker_env \<Rightarrow> nat \<Rightarrow> 't cores \<Rightarrow> u64 \<Rightarrow> u64 \<Rightarrow> 't Miner \<Rightarrow> 't Miner option" where
  "run_round env i cores start_ms now m =
     (let worker = t_worker (m_tasks m ! i);
          continue = (\<lambda>cores m.
            if now \<ge> start_ms + w_duration_ms worker then run_finalize env i cores m
            else set_phase i (InLoop cores start_ms) m)
      in case m_channels m ! i of
           event # _ \<Rightarrow>
             let m = pop_command i m
             in (case event of
                   QueueTap x y \<Rightarrow>
                     map_option (\<lambda>(_, tap_core).
                       continue (cores\<lparr>c_tap := tap_core\<rparr>)
                         (send_callback (callback_data ''tap_computed''
                            (Some (JObj [(''worker_id'', JNum (w_id worker))]))) m))
                       (mining_compute (we_lib env) (we_blake3 env) (we_hex_encode env)
                          \<lparr> pc_x = x, pc_y = y, pc_now_ms = now \<rparr> (c_tap cores))
                 | Stop \<Rightarrow> Some (run_finalize env i cores m)
                 | _ \<Rightarrow> Some (continue cores m))
         | [] \<Rightarrow>
             map_option (\<lambda>(_, time_core). continue (cores\<lparr>c_time := time_core\<rparr>) m)
               (mining_compute (we_lib env) (we_blake3 env) (we_hex_encode env)
                  \<lparr> pc_x = 0, pc_y = 0, pc_now_ms = now \<rparr> (c_time cores)))"

text \<open>From the answer of the account query on, into the first round of the loop.\<close>

definition session_complexity_or_default ::
  "MinerWorker \<Rightarrow> ((u32 \<times> u32) option) result \<Rightarrow> u32 \<times> u32" where
  "session_complexity_or_default worker r =
     (case r of
        Inr (Some complexity) \<Rightarrow> complexity
      | Inr None \<Rightarrow> (w_easy_complexity worker, w_hard_complexity worker)
      | Inl e \<Rightarrow> (w_easy_complexity worker, w_hard_complexity worker))"

definition run_complexity ::
  "'t worker_env \<Rightarrow> nat \<Rightarrow> ((u32 \<times> u32) option) result \<Rightarrow> u64 \<Rightarrow> u64 \<Rightarrow> 't Miner \<Rightarrow> 't Miner option" where
  "run_complexity env i complexity start_ms now m =
     (let worker = t_worker (m_tasks m ! i);
          (easy_complexity, hard_complexity) = session_complexity_or_default worker complexity;
          time_core = mining_core_new (we_lib env) (w_seed worker) (w_duration_ms worker) easy_complexity;
          tap_core = mining_core_new (we_lib env) (w_seed worker) (w_duration_ms worker) hard_complexity
      in run_round env i \<lparr> c_time = time_core, c_tap = tap_core \<rparr> start_ms now m)"

text \<open>From the answer of \<open>submit_session\<close> on.\<close>

definition run_submitted :: "nat \<Rightarrow> 't cores \<Rightarrow> trees \<Rightarrow> unit result \<Rightarrow> 't Miner \<Rightarrow> 't Miner" where
  "run_submitted i cores trees r m =
     (let worker = t_worker (m_tasks m ! i)
      in case r of
           Inr _ \<Rightarrow>
             set_phase i (Listening cores trees)
               (send_callback (callback_data ''submit_session_root'' (Some (JObj [(''worker_id'', JNum (w_id worker))]))) m)
         | Inl e \<Rightarrow>
             end_task i worker True True
               (send_callback (callback_error ''submit_session_root'' ''Submit session root failed''
                  (Some (JObj [(''worker_id'', JNum (w_id worker)),
                               (''message'', JStr (''Submit miner session ('' @ e @ '')''))]))) m))"

definition proof_failed :: "nat \<Rightarrow> MinerWorker \<Rightarrow> string \<Rightarrow> 't Miner \<Rightarrow> 't Miner" where
  "proof_failed i worker e m =
     end_task i worker True False
       (send_callback (callback_error ''submit_session_proof'' ''Submit session root failed''
          (Some (JObj [(''worker_id'', JNum (w_id worker)), (''message'', JStr e)]))) m)"

text \<open>One received command; \<open>None\<close> when \<open>get_proof\<close> panics.\<close>

definition run_command ::
  "'t worker_env \<Rightarrow> nat \<Rightarrow> 't cores \<Rightarrow> trees \<Rightarrow> MinerCommand \<Rightarrow> 't Miner \<Rightarrow> 't Miner option" where
  "run_command env i cores trees command m =
     (let worker = t_worker (m_tasks m ! i); m = pop_command i m
      in case command of
           SendSessionInterval data \<Rightarrow>
             map_option (\<lambda>r. case r of
                 Inr params \<Rightarrow>
                   set_phase i (AwaitProof cores trees) (send_call (CallVerifySession params (w_keys worker)) m)
               | Inl e \<Rightarrow> proof_failed i worker e m)
               (submit_session_proof env worker (c_time cores, c_tap cores) (tr_tap trees) data)
         | ProcessSessionAccepted wasm_result \<Rightarrow>
             Some (end_task i worker True False
               (send_callback (callback_data ''session_accepted''
                  (Some (JObj [(''worker_id'', JNum (w_id worker)), (''result'', JStr wasm_result)]))) m))
         | ProcessSessionRejected wasm_result \<Rightarrow>
             Some (end_task i worker True False
               (send_callback (callback_error ''session_rejected'' ''Session rejected''
                  (Some (JObj [(''worker_id'', JNum (w_id worker)), (''result'', JStr wasm_result)]))) m))
         | _ \<Rightarrow> Some (set_phase i (Listening cores trees) m))"

definition run_proved :: "nat \<Rightarrow> 't cores \<Rightarrow> trees \<Rightarrow> unit result \<Rightarrow> 't Miner \<Rightarrow> 't Miner" where
  "run_proved i cores trees r m =
     (let worker = t_worker (m_tasks m ! i)
      in case r of
           Inr _ \<Rightarrow>
             set_phase i (Listening cores trees)
               (send_callback (callback_data ''submit_session_proof'' (Some (JObj [(''worker_id'', JNum (w_id worker))]))) m)
         | Inl e \<Rightarrow> proof_failed i worker (''Verify miner session ('' @ e @ '')'') m)"

subsection \<open>The miner object\<close>

record MinerDetails =
  md_easy_complexity :: u32
  md_hard_complexity :: u32
  md_cur_seed :: string
  md_upcoming_seed :: string
  md_submit_session_data :: "string option"

text \<open>
  \<open>Miner::new\<close> after the client context: \<open>details\<close> and \<open>cancelled\<close> are what \<open>get_details\<close> and
  \<open>cancel_session\<close> return, \<open>now\<close> the clock in milliseconds.
\<close>

definition miner_new ::
  "string \<Rightarrow> KeyPair \<Rightarrow> MinerDetails result \<Rightarrow> unit result \<Rightarrow> u64 \<Rightarrow> ('t Miner) result" where
  "miner_new app_id keys details cancelled now =
     and_then (map_err (\<lambda>e. ''Get miner details ('' @ e @ '')'') details) (\<lambda>details.
     let events_after_dt = now div 1000 - 1;
         complexity = (md_easy_complexity details, md_hard_complexity details)
     in and_then
          (if md_submit_session_data details \<noteq> None
           then and_then (map_err (\<lambda>e. ''Cancel stale session data ('' @ e @ '')'') cancelled)
                  (\<lambda>_. Inr [md_upcoming_seed details])
           else Inr [md_cur_seed details, md_upcoming_seed details]) (\<lambda>seeds.
        Inr \<lparr> m_app_id = app_id, m_keys = keys, m_seeds = seeds, m_complexity = complexity,
              m_workers = [], m_after_dt = events_after_dt, m_tasks = [], m_channels = [],
              m_callbacks = [], m_calls = [] \<rparr>))"

definition can_start :: "'t Miner \<Rightarrow> bool" where
  "can_start m =
     (let is_active_worker = list_ex (\<lambda>w. w_status w = Computing) (m_workers m);
          is_seeds_empty = (m_seeds m = [])
      in \<not> is_active_worker \<and> \<not> is_seeds_empty)"

text \<open>\<open>start\<close>; \<open>new_id\<close> is the random id of the worker.\<close>

definition miner_start :: "u32 \<Rightarrow> u64 \<Rightarrow> 't Miner \<Rightarrow> string + 't Miner" where
  "miner_start duration_ms new_id m =
     (if list_ex (\<lambda>w. w_status w = Computing) (m_workers m) then Inl ''There is already running worker''
      else case m_seeds m of
        [] \<Rightarrow> Inl ''No seeds available''
      | seed # seeds \<Rightarrow>
          let worker = \<lparr> w_id = new_id, w_sender = length (m_channels m), w_status = Queued,
                         w_app_id = m_app_id m, w_keys = m_keys m, w_seed = seed,
                         w_duration_ms = ucast duration_ms,
                         w_easy_complexity = fst (m_complexity m), w_hard_complexity = snd (m_complexity m) \<rparr>
          in Inr (m\<lparr>m_seeds := seeds, m_workers := m_workers m @ [worker],
                    m_channels := m_channels m @ [[]],
                    m_tasks := m_tasks m @ [\<lparr> t_worker = worker, t_phase = Spawned \<rparr>]\<rparr>))"

definition miner_stop :: "'t Miner \<Rightarrow> 't Miner" where
  "miner_stop m =
     (let m = m\<lparr>m_workers := filter (\<lambda>w. w_status w \<noteq> Queued) (m_workers m)\<rparr>
      in fold (\<lambda>w m. unbounded_send (w_sender w) Stop m)
           (filter (\<lambda>w. w_status w = Computing) (m_workers m)) m)"

definition add_tap :: "u32 \<Rightarrow> u32 \<Rightarrow> 't Miner \<Rightarrow> string + 't Miner" where
  "add_tap x y m =
     (case find (\<lambda>w. w_status w = Computing) (m_workers m) of
        Some worker \<Rightarrow> Inr (unbounded_send (w_sender worker) (QueueTap x y) m)
      | None \<Rightarrow> Inl ''No running workers to add tap to'')"

definition remove_seed :: "string \<Rightarrow> 't Miner \<Rightarrow> 't Miner" where
  "remove_seed seed m = m\<lparr>m_seeds := filter (\<lambda>v. v \<noteq> seed) (m_seeds m)\<rparr>"

definition handle_session_result ::
  "'t worker_env \<Rightarrow> string \<Rightarrow> MinerCommand \<Rightarrow> 't Miner \<Rightarrow> 't Miner" where
  "handle_session_result env session_status_data cmd m =
     (case session_status_of_string env session_status_data of
        Inl e \<Rightarrow> m
      | Inr worker_id \<Rightarrow>
          (case find (\<lambda>w. w_id w = worker_id) (m_workers m) of
             Some worker \<Rightarrow> unbounded_send (w_sender worker) cmd m
           | None \<Rightarrow> m))"

subsection \<open>Contract events\<close>

datatype DecodedMinerEvent =
  SessionInterval (created_at: u64) SessionIntervalData
| SeedUpdated (created_at: u64) string
| ComplexityUpdated (created_at: u64) u32 u32
| SessionAccepted (created_at: u64) string string
| SessionRejected (created_at: u64) string string

record 'r raw_event =
  re_created_at :: u64
  re_payload :: 'r

text \<open>\<open>get_miner_events\<close> on what the event query returned; \<open>from_event\<close> decodes one event.\<close>

definition get_miner_events ::
  "('r raw_event \<Rightarrow> DecodedMinerEvent result) \<Rightarrow> ('r raw_event list) result \<Rightarrow> u64 \<Rightarrow> DecodedMinerEvent list result" where
  "get_miner_events from_event queried after_dt =
     and_then (map_err (\<lambda>e. ''Query miner events ('' @ e @ '')'') queried) (\<lambda>events.
     collect_res from_event (filter (\<lambda>event. re_created_at event > after_dt) events))"

fun process_event :: "'t worker_env \<Rightarrow> DecodedMinerEvent \<Rightarrow> 't Miner \<Rightarrow> 't Miner" where
  "process_event env (SessionInterval _ data) m =
     (case find (\<lambda>w. w_id w = si_worker_id data) (m_workers m) of
        Some worker \<Rightarrow> unbounded_send (w_sender worker) (SendSessionInterval data) m
      | None \<Rightarrow> m)"
| "process_event env (SeedUpdated _ next_seed) m = m\<lparr>m_seeds := m_seeds m @ [next_seed]\<rparr>"
| "process_event env (ComplexityUpdated _ easy hard) m = m\<lparr>m_complexity := (easy, hard)\<rparr>"
| "process_event env (SessionAccepted _ data wasm_result) m =
     handle_session_result env data (ProcessSessionAccepted wasm_result) m"
| "process_event env (SessionRejected _ data wasm_result) m =
     handle_session_result env data (ProcessSessionRejected wasm_result) m"

text \<open>One round of the event thread after its timer.\<close>

definition read_events ::
  "'t worker_env \<Rightarrow> ('r raw_event \<Rightarrow> DecodedMinerEvent result) \<Rightarrow> ('r raw_event list) result \<Rightarrow> 't Miner \<Rightarrow> 't Miner" where
  "read_events env from_event queried m =
     (case get_miner_events from_event queried (m_after_dt m) of
        Inl e \<Rightarrow> m
      | Inr decoded_events \<Rightarrow>
          let m = fold (process_event env) decoded_events m
          in if decoded_events = [] then m
             else m\<lparr>m_after_dt := Max (set (map created_at decoded_events))\<rparr>)"

subsection \<open>Steps\<close>

text \<open>
  What can happen next: a call from JavaScript, a round of the event thread, or the resumption of
  a suspended task with whatever it awaited.
\<close>

inductive miner_step :: "'t worker_env \<Rightarrow> 't Miner \<Rightarrow> 't Miner \<Rightarrow> bool" for env where
  start: "miner_start duration_ms new_id m = Inr m' \<Longrightarrow> miner_step env m m'"
| stop: "miner_step env m (miner_stop m)"
| add_tap: "add_tap x y m = Inr m' \<Longrightarrow> miner_step env m m'"
| remove_seed: "miner_step env m (remove_seed seed m)"
| events: "miner_step env m ((fold (process_event env) evs m)\<lparr>m_after_dt := after_dt\<rparr>)"
| spawned: "i < length (m_tasks m) \<Longrightarrow> t_phase (m_tasks m ! i) = Spawned \<Longrightarrow>
     miner_step env m (run_start i m)"
| complexity: "i < length (m_tasks m) \<Longrightarrow> t_phase (m_tasks m ! i) = AwaitComplexity in_flight \<Longrightarrow>
     run_complexity env i r start_ms now m = Some m' \<Longrightarrow> miner_step env m m'"
| round: "i < length (m_tasks m) \<Longrightarrow> t_phase (m_tasks m ! i) = InLoop cores start_ms \<Longrightarrow>
     run_round env i cores start_ms now m = Some m' \<Longrightarrow> miner_step env m m'"
| turn: "i < length (m_tasks m) \<Longrightarrow> t_phase (m_tasks m ! i) = WaitTurn cores trees \<Longrightarrow>
     miner_step env m (run_turn env i cores trees m)"
| submitted: "i < length (m_tasks m) \<Longrightarrow> t_phase (m_tasks m ! i) = AwaitSubmit cores trees \<Longrightarrow>
     miner_step env m (run_submitted i cores trees r m)"
| command: "i < length (m_tasks m) \<Longrightarrow> t_phase (m_tasks m ! i) = Listening cores trees \<Longrightarrow>
     m_channels m ! i = cmd # cmds \<Longrightarrow> run_command env i cores trees cmd m = Some m' \<Longrightarrow> miner_step env m m'"
| proved: "i < length (m_tasks m) \<Longrightarrow> t_phase (m_tasks m ! i) = AwaitProof cores trees \<Longrightarrow>
     miner_step env m (run_proved i cores trees r m)"

inductive miner_reachable :: "'t worker_env \<Rightarrow> 't Miner \<Rightarrow> bool" for env where
  new: "miner_new app_id keys details cancelled now = Inr m \<Longrightarrow> miner_reachable env m"
| step: "miner_reachable env m \<Longrightarrow> miner_step env m m' \<Longrightarrow> miner_reachable env m'"

lemma read_events_step: "miner_step env m (read_events env from_event queried m)"
proof (cases "get_miner_events from_event queried (m_after_dt m)")
  case (Inl e)
  have "miner_step env m ((fold (process_event env) [] m)\<lparr>m_after_dt := m_after_dt m\<rparr>)"
    by (rule miner_step.events)
  with Inl show ?thesis by (simp add: read_events_def)
next
  case (Inr evs)
  let ?m = "fold (process_event env) evs m"
  have "miner_step env m (?m\<lparr>m_after_dt := if evs = [] then m_after_dt ?m else Max (set (map created_at evs))\<rparr>)"
    by (rule miner_step.events)
  with Inr show ?thesis by (cases "evs = []") (simp_all add: read_events_def Let_def)
qed

section \<open>Invariant\<close>

text \<open>
  At most one listed worker is submitting; every task has its channel; and a task's cores are
  sessions of its worker's seed and duration, committed with the recorded non-empty trees once the
  computation is over.
\<close>

definition submitting :: "MinerWorker list \<Rightarrow> nat" where
  "submitting ws = length (filter (\<lambda>w. w_status w = Submitting) ws)"

definition core_of :: "'t worker_env \<Rightarrow> MinerWorker \<Rightarrow> 't MiningCore \<Rightarrow> bool" where
  "core_of env worker core =
     session_reachable (we_lib env) (we_blake3 env) (we_hex_encode env) (w_seed worker) (w_duration_ms worker)
       (mc_target_bits core) core"

definition closed_session :: "'t worker_env \<Rightarrow> MinerWorker \<Rightarrow> 't cores \<Rightarrow> trees \<Rightarrow> bool" where
  "closed_session env worker cores trees =
     (core_of env worker (c_time cores) \<and> core_of env worker (c_tap cores) \<and>
      mining_get_merkle (we_lib env) (c_time cores) = (tr_time trees, c_time cores) \<and>
      mining_get_merkle (we_lib env) (c_tap cores) = (tr_tap trees, c_tap cores) \<and>
      ms_leaves (tr_time trees) \<noteq> [] \<and> ms_leaves (tr_tap trees) \<noteq> [])"

fun phase_ok :: "'t worker_env \<Rightarrow> MinerWorker \<Rightarrow> 't phase \<Rightarrow> bool" where
  "phase_ok env worker (InLoop cores start_ms) =
     (core_of env worker (c_time cores) \<and> core_of env worker (c_tap cores))"
| "phase_ok env worker (WaitTurn cores trees) = closed_session env worker cores trees"
| "phase_ok env worker (AwaitSubmit cores trees) = closed_session env worker cores trees"
| "phase_ok env worker (Listening cores trees) = closed_session env worker cores trees"
| "phase_ok env worker (AwaitProof cores trees) = closed_session env worker cores trees"
| "phase_ok env worker _ = True"

definition task_ok :: "'t worker_env \<Rightarrow> 't task \<Rightarrow> bool" where
  "task_ok env t = phase_ok env (t_worker t) (t_phase t)"

definition miner_inv :: "'t worker_env \<Rightarrow> 't Miner \<Rightarrow> bool" where
  "miner_inv env m =
     (submitting (m_workers m) \<le> 1 \<and> length (m_channels m) = length (m_tasks m) \<and>
      (\<forall>t \<in> set (m_tasks m). task_ok env t))"

subsection \<open>What each operation touches\<close>

lemma send_callback_frame [simp]:
  "m_workers (send_callback c m) = m_workers m" "m_tasks (send_callback c m) = m_tasks m"
  "m_channels (send_callback c m) = m_channels m" "m_seeds (send_callback c m) = m_seeds m"
  "m_calls (send_callback c m) = m_calls m"
  by (simp_all add: send_callback_def)

lemma send_call_frame [simp]:
  "m_workers (send_call c m) = m_workers m" "m_tasks (send_call c m) = m_tasks m"
  "m_channels (send_call c m) = m_channels m" "m_seeds (send_call c m) = m_seeds m"
  "m_calls (send_call c m) = m_calls m @ [c]"
  by (simp_all add: send_call_def)

lemma channel_frame [simp]:
  "m_workers (unbounded_send ch cmd m) = m_workers m" "m_tasks (unbounded_send ch cmd m) = m_tasks m"
  "length (m_channels (unbounded_send ch cmd m)) = length (m_channels m)"
  "m_workers (pop_command ch m) = m_workers m" "m_tasks (pop_command ch m) = m_tasks m"
  "length (m_channels (pop_command ch m)) = length (m_channels m)"
  "m_calls (unbounded_send ch cmd m) = m_calls m" "m_calls (pop_command ch m) = m_calls m"
  by (simp_all add: unbounded_send_def pop_command_def)

lemma set_phase_frame [simp]:
  "m_workers (set_phase i ph m) = m_workers m" "m_channels (set_phase i ph m) = m_channels m"
  "m_calls (set_phase i ph m) = m_calls m" "m_seeds (set_phase i ph m) = m_seeds m"
  by (simp_all add: set_phase_def)

lemma update_worker_status_frame [simp]:
  "m_workers (update_worker_status k st m) = set_status k st (m_workers m)"
  "m_tasks (update_worker_status k st m) = m_tasks m"
  "m_channels (update_worker_status k st m) = m_channels m"
  "m_calls (update_worker_status k st m) = m_calls m"
  by (simp_all add: update_worker_status_def)

lemma shutdown_worker_frame [simp]:
  "m_tasks (shutdown_worker worker u c m) = m_tasks m"
  "m_channels (shutdown_worker worker u c m) = m_channels m"
  "m_calls (shutdown_worker worker u c m) = m_calls m"
  "m_workers (shutdown_worker worker u c m)
     = filter (\<lambda>w. w_id w \<noteq> w_id worker) (set_status (w_id worker) Finished (m_workers m))"
  by (simp_all add: shutdown_worker_def Let_def)

lemma submitting_simps [simp]:
  "submitting [] = 0" "submitting (ws @ vs) = submitting ws + submitting vs"
  "submitting (w # ws) = (if w_status w = Submitting then 1 else 0) + submitting ws"
  by (simp_all add: submitting_def)

lemma submitting_filter: "submitting (filter P ws) \<le> submitting ws"
  by (induction ws) auto

lemma submitting_set_status: "st \<noteq> Submitting \<Longrightarrow> submitting (set_status k st ws) \<le> submitting ws"
  by (induction ws) auto

lemma submitting_none: "submitting ws = 0 \<longleftrightarrow> \<not> list_ex (\<lambda>w. w_status w = Submitting) ws"
  by (induction ws) auto

lemma submitting_set_status_none: "submitting ws = 0 \<Longrightarrow> submitting (set_status k st ws) \<le> 1"
  by (induction ws) (auto split: if_splits)

subsection \<open>Preservation\<close>

lemma miner_inv_set_phase:
  assumes "submitting (m_workers m) \<le> 1" "length (m_channels m) = length (m_tasks m)"
    "\<forall>t \<in> set (m_tasks m). task_ok env t" "i < length (m_tasks m)"
    "phase_ok env (t_worker (m_tasks m ! i)) ph"
  shows "miner_inv env (set_phase i ph m)"
  using assms set_update_subset_insert [of "m_tasks m" i "(m_tasks m ! i)\<lparr>t_phase := ph\<rparr>"]
  by (auto simp: miner_inv_def set_phase_def task_ok_def)

lemma miner_inv_end_task:
  assumes "submitting (m_workers m) \<le> 1" "length (m_channels m) = length (m_tasks m)"
    "\<forall>t \<in> set (m_tasks m). task_ok env t" "i < length (m_tasks m)"
  shows "miner_inv env (end_task i worker u c m)"
proof -
  have "submitting (m_workers (shutdown_worker worker u c m)) \<le> 1"
    using assms(1) submitting_set_status [of Finished "w_id worker" "m_workers m"]
      submitting_filter [of "\<lambda>w. w_id w \<noteq> w_id worker" "set_status (w_id worker) Finished (m_workers m)"]
    by simp
  then show ?thesis
    unfolding end_task_def using assms by (intro miner_inv_set_phase) simp_all
qed

lemma mining_compute_keeps_bits:
  "mining_compute lib blake3 hex_encode params core = Some (r, core') \<Longrightarrow> mc_target_bits core' = mc_target_bits core"
  by (auto simp: mining_compute_def Let_def start_deadline_def split: if_splits option.splits)

lemma mining_get_merkle_keeps_bits:
  "mining_get_merkle lib core = (r, core') \<Longrightarrow> mc_target_bits core' = mc_target_bits core"
  by (auto simp: mining_get_merkle_def Let_def split: if_splits)

lemma core_of_compute:
  assumes "core_of env worker core"
    and "mining_compute (we_lib env) (we_blake3 env) (we_hex_encode env) params core = Some (r, core')"
  shows "core_of env worker core'"
  using assms session_reachable.compute mining_compute_keeps_bits [OF assms(2)]
  unfolding core_of_def by metis

lemma core_of_get_merkle:
  assumes "core_of env worker core" and "mining_get_merkle (we_lib env) core = (r, core')"
  shows "core_of env worker core'"
  using assms session_reachable.get_merkle mining_get_merkle_keeps_bits [OF assms(2)]
  unfolding core_of_def by metis

lemma get_merkle_fixed:
  "mining_get_merkle lib core = (r, core') \<Longrightarrow> mining_get_merkle lib core' = (r, core')"
  by (auto simp: mining_get_merkle_def Let_def split: if_splits)

lemma run_turn_inv:
  assumes "submitting (m_workers m) \<le> 1" "length (m_channels m) = length (m_tasks m)"
    "\<forall>t \<in> set (m_tasks m). task_ok env t" "i < length (m_tasks m)"
    "closed_session env (t_worker (m_tasks m ! i)) cores trees"
  shows "miner_inv env (run_turn env i cores trees m)"
proof (cases "list_ex (\<lambda>w. w_status w = Submitting) (m_workers m)")
  case True
  with assms show ?thesis by (simp add: run_turn_def miner_inv_set_phase)
next
  case False
  then have "submitting (set_status k Submitting (m_workers m)) \<le> 1" for k
    using submitting_set_status_none by (simp add: submitting_none)
  with False assms show ?thesis
    by (auto simp: run_turn_def Let_def split: sum.splits intro!: miner_inv_set_phase miner_inv_end_task)
qed

lemma run_finalize_inv:
  assumes "submitting (m_workers m) \<le> 1" "length (m_channels m) = length (m_tasks m)"
    "\<forall>t \<in> set (m_tasks m). task_ok env t" "i < length (m_tasks m)"
    "core_of env (t_worker (m_tasks m ! i)) (c_time cores)" "core_of env (t_worker (m_tasks m ! i)) (c_tap cores)"
  shows "miner_inv env (run_finalize env i cores m)"
proof -
  obtain tt tc where t: "mining_get_merkle (we_lib env) (c_time cores) = (tt, tc)" by fastforce
  obtain pt pc where p: "mining_get_merkle (we_lib env) (c_tap cores) = (pt, pc)" by fastforce
  have "closed_session env (t_worker (m_tasks m ! i)) \<lparr> c_time = tc, c_tap = pc \<rparr> \<lparr> tr_time = tt, tr_tap = pt \<rparr>"
    if "ms_leaves tt \<noteq> []" "ms_leaves pt \<noteq> []"
    using that core_of_get_merkle [OF assms(5) t] core_of_get_merkle [OF assms(6) p]
      get_merkle_fixed [OF t] get_merkle_fixed [OF p]
    by (simp add: closed_session_def)
  with assms show ?thesis
    by (auto simp: run_finalize_def Let_def t p intro!: miner_inv_end_task run_turn_inv)
qed

lemma run_round_inv:
  assumes "submitting (m_workers m) \<le> 1" "length (m_channels m) = length (m_tasks m)"
    "\<forall>t \<in> set (m_tasks m). task_ok env t" "i < length (m_tasks m)"
    "core_of env (t_worker (m_tasks m ! i)) (c_time cores)" "core_of env (t_worker (m_tasks m ! i)) (c_tap cores)"
    and "run_round env i cores start_ms now m = Some m'"
  shows "miner_inv env m'"
  using assms
  by (auto simp: run_round_def Let_def split: list.splits MinerCommand.splits if_splits
      intro!: run_finalize_inv miner_inv_set_phase intro: core_of_compute)

lemma run_command_inv:
  assumes "submitting (m_workers m) \<le> 1" "length (m_channels m) = length (m_tasks m)"
    "\<forall>t \<in> set (m_tasks m). task_ok env t" "i < length (m_tasks m)"
    "closed_session env (t_worker (m_tasks m ! i)) cores trees"
    and "run_command env i cores trees cmd m = Some m'"
  shows "miner_inv env m'"
proof (cases "\<exists>data. cmd = SendSessionInterval data")
  case True
  then obtain data r where "cmd = SendSessionInterval data"
    "submit_session_proof env (t_worker (m_tasks m ! i)) (c_time cores, c_tap cores) (tr_tap trees) data = Some r"
    using assms(6) by (auto simp: run_command_def Let_def)
  with assms show ?thesis
    by (cases r) (auto simp: run_command_def Let_def proof_failed_def
        intro!: miner_inv_set_phase miner_inv_end_task)
next
  case False
  with assms show ?thesis
    by (cases cmd) (auto simp: run_command_def Let_def intro!: miner_inv_set_phase miner_inv_end_task)
qed

lemma miner_inv_channels:
  assumes "miner_inv env m" "m_workers m' = m_workers m" "m_tasks m' = m_tasks m"
    "length (m_channels m') = length (m_channels m)"
  shows "miner_inv env m'"
  using assms by (simp add: miner_inv_def)

lemma unbounded_send_inv: "miner_inv env m \<Longrightarrow> miner_inv env (unbounded_send ch cmd m)"
  by (erule miner_inv_channels) simp_all

lemma process_event_inv: "miner_inv env m \<Longrightarrow> miner_inv env (process_event env ev m)"
  by (cases ev) (auto simp: handle_session_result_def split: option.splits sum.splits
      intro: unbounded_send_inv elim!: miner_inv_channels)

lemma miner_stop_inv:
  assumes "miner_inv env m"
  shows "miner_inv env (miner_stop m)"
proof -
  have sent: "miner_inv env m' \<Longrightarrow> miner_inv env (fold (\<lambda>w m. unbounded_send (w_sender w) Stop m) ws m')" for ws m'
    by (induction ws arbitrary: m') (simp_all add: unbounded_send_inv)
  have "miner_inv env (m\<lparr>m_workers := filter (\<lambda>w. w_status w \<noteq> Queued) (m_workers m)\<rparr>)"
    using assms submitting_filter [of _ "m_workers m"] by (auto simp: miner_inv_def intro: order_trans)
  then show ?thesis unfolding miner_stop_def Let_def by (rule sent)
qed

lemma core_of_new: "core_of env worker (mining_core_new (we_lib env) (w_seed worker) (w_duration_ms worker) bits)"
proof -
  let ?core = "mining_core_new (we_lib env) (w_seed worker) (w_duration_ms worker) bits"
  have "mc_target_bits ?core = bits" by (simp add: mining_core_new_def)
  then show ?thesis unfolding core_of_def by (metis session_reachable.new)
qed

lemma miner_step_inv:
  assumes "miner_step env m m'" "miner_inv env m"
  shows "miner_inv env m'"
proof -
  have parts: "submitting (m_workers m) \<le> 1" "length (m_channels m) = length (m_tasks m)"
      "\<forall>t \<in> set (m_tasks m). task_ok env t"
    using assms(2) by (simp_all add: miner_inv_def)
  then have phase: "phase_ok env (t_worker (m_tasks m ! i)) (t_phase (m_tasks m ! i))" if "i < length (m_tasks m)" for i
    using that by (simp add: task_ok_def)
  from assms(1) show ?thesis
proof (cases rule: miner_step.cases)
  case (start d k)
  with assms(2) show ?thesis
    by (auto simp: miner_start_def miner_inv_def Let_def task_ok_def split: if_splits list.splits)
next
  case (add_tap x y)
  with assms(2) show ?thesis
    by (auto simp: add_tap_def split: option.splits intro: unbounded_send_inv)
next
  case stop
  with assms(2) show ?thesis by (simp add: miner_stop_inv)
next
  case (remove_seed seed)
  with assms(2) show ?thesis by (simp add: remove_seed_def miner_inv_def)
next
  case (events d evs)
  have "miner_inv env (fold (process_event env) evs m)"
    using assms(2) by (induction evs arbitrary: m) (auto intro: process_event_inv)
  with events show ?thesis by (simp add: miner_inv_def)
next
  case (spawned i)
  have "submitting (set_status k Computing (m_workers m)) \<le> 1" for k
    using parts(1) submitting_set_status [of Computing k "m_workers m"] by simp
  with spawned parts show ?thesis
    by (auto simp: run_start_def Let_def intro!: miner_inv_set_phase)
next
  case (complexity i fl r st now)
  with parts show ?thesis
    by (auto simp: run_complexity_def Let_def core_of_new split: prod.splits intro!: run_round_inv)
next
  case (round i cores st now)
  with parts phase [of i] show ?thesis
    by (intro run_round_inv [of m env i cores st now]) auto
next
  case (turn i cores trees)
  with parts phase [of i] show ?thesis
    by (auto intro!: run_turn_inv)
next
  case (submitted i cores trees r)
  with parts phase [of i] show ?thesis
    by (auto simp: run_submitted_def Let_def split: sum.splits intro!: miner_inv_set_phase miner_inv_end_task)
next
  case (command i cores trees cmd cmds)
  with parts phase [of i] show ?thesis
    by (intro run_command_inv [of m env i cores trees cmd]) auto
next
  case (proved i cores trees r)
  with parts phase [of i] show ?thesis
    by (auto simp: run_proved_def proof_failed_def Let_def split: sum.splits
        intro!: miner_inv_set_phase miner_inv_end_task)
qed
qed

lemma miner_inv_reachable: "miner_reachable env m \<Longrightarrow> miner_inv env m"
proof (induction rule: miner_reachable.induct)
  case (new app_id keys details cancelled now m)
  then show ?case by (auto simp: miner_new_def Let_def miner_inv_def res_simps)
next
  case (step m m')
  then show ?case by (rule_tac miner_step_inv)
qed

section \<open>Honest sessions are accepted\<close>

text \<open>
  The documented behaviour of \<open>rs_merkle\<close> that ties the tree of the miner to the proofs of the
  verifier: the serialised proof of a window decodes, and verifies against the root, the
  window's leaves and the number of leaves; and the root of a tree of one leaf is this leaf.
\<close>

definition proof_lib_complete ::
  "'t merkle_lib \<Rightarrow> 'p proof_lib \<Rightarrow> ('t \<Rightarrow> byte list list) \<Rightarrow> bool" where
  "proof_lib_complete mlib plib committed =
     ((\<forall>t s e root. s < e \<and> e \<le> length (committed t) \<and> mt_root mlib t = Some root \<and>
        mt_proof_bytes mlib t [s..<e] \<noteq> [] \<longrightarrow>
        (\<exists>p. pl_from_bytes plib (mt_proof_bytes mlib t [s..<e]) = Inr p \<and>
             pl_verify plib p root [s..<e] (slice s e (committed t)) (length (committed t)))) \<and>
      (\<forall>t leaf. committed t = [leaf] \<longrightarrow> mt_root mlib t = Some leaf))"

lemma as_usize_of_nat: "n < 2 ^ 32 \<Longrightarrow> as_usize (word_of_nat n) = n"
  by (simp add: as_usize_def unsigned_ucast_eq unsigned_of_nat take_bit_nat_eq_self)

lemma slice_subset: "set (slice a b xs) \<subseteq> set xs"
  by (auto simp: slice_def dest: in_set_takeD in_set_dropD)

lemma slice_map: "slice a b (map f xs) = map f (slice a b xs)"
  by (simp add: slice_def take_map drop_map)

lemma length_slice: "b \<le> length xs \<Longrightarrow> length (slice a b xs) = b - a"
  by (simp add: slice_def)

lemma session_leaf_verifies:
  assumes "session_inv blake3 hex_encode committed pending seed duration bits core"
    and "unat bits < 128" and "c \<in> set (mc_completed core)"
  shows "leaf_verify blake3 c seed bits"
proof -
  obtain i where "i < length (mc_completed core)" "c = mc_completed core ! i"
    using assms(3) by (auto simp: in_set_conv_nth)
  then have "leaf_of_session blake3 seed bits i c" using assms(1) by (simp add: session_inv_def)
  then show ?thesis
    using assms(2)
    by (auto simp: leaf_of_session_def leaf_verify_def pow_threshold_def Let_def word_le_nat_alt)
qed

text \<open>The proof of \<open>get_proof\<close> for a window of a reachable session, in terms of its leaves.\<close>

lemma session_window:
  assumes "merkle_lib_ok lib committed pending"
    and "session_reachable lib blake3 hex_encode seed duration bits core"
    and "mining_get_proof lib core s e = Some (Inr r)"
  shows "s < e" "e \<le> length (mc_completed core)"
    "committed (mc_hash_processor core) = map (merkle_hash blake3 hex_encode) (mc_completed core)"
    "r = \<lparr> gp_proof = mt_proof_bytes lib (mc_hash_processor core) [s..<e],
           gp_selected_leaves = slice s e (committed (mc_hash_processor core)),
           gp_selected_leaves_data = slice s e (mc_completed core) \<rparr>"
proof -
  have inv: "session_inv blake3 hex_encode committed pending seed duration bits core"
    using assms(1,2) by (rule session_inv_reachable)
  have r: "s < e \<and> e \<le> length (committed (mc_hash_processor core)) \<and> e \<le> length (mc_completed core) \<and>
      r = \<lparr> gp_proof = mt_proof_bytes lib (mc_hash_processor core) [s..<e],
            gp_selected_leaves = slice s e (committed (mc_hash_processor core)),
            gp_selected_leaves_data = slice s e (mc_completed core) \<rparr>"
    using assms(3)
    by (auto simp: mining_get_proof_def mp_get_proof_in_window_def Let_def completed_in_window_def
        mp_get_merkle_leaves_committed [OF assms(1)] split: if_splits option.splits)
  then have "committed (mc_hash_processor core) \<noteq> []" by auto
  then have "mc_committed core" using inv by (auto simp: session_inv_def split: if_splits)
  with inv r show "s < e" "e \<le> length (mc_completed core)"
    "committed (mc_hash_processor core) = map (merkle_hash blake3 hex_encode) (mc_completed core)"
    "r = \<lparr> gp_proof = mt_proof_bytes lib (mc_hash_processor core) [s..<e],
           gp_selected_leaves = slice s e (committed (mc_hash_processor core)),
           gp_selected_leaves_data = slice s e (mc_completed core) \<rparr>"
    by (auto simp: session_inv_def)
qed

lemma get_merkle_committed: "mc_committed (snd (mining_get_merkle lib core))"
  by (simp add: mining_get_merkle_def Let_def)

lemma snapshot_of_committed:
  assumes "merkle_lib_ok mlib committed pending" "mining_get_merkle mlib core = (tree, core)"
  shows "mc_committed core" "ms_root tree = mp_get_merkle_root mlib (mc_hash_processor core)"
    "ms_leaves tree = committed (mc_hash_processor core)"
proof -
  show "mc_committed core" using get_merkle_committed [of mlib core] assms(2) by simp
  with assms show "ms_root tree = mp_get_merkle_root mlib (mc_hash_processor core)"
    "ms_leaves tree = committed (mc_hash_processor core)"
    using mp_get_merkle_leaves_committed [OF assms(1)]
    by (auto simp: mining_get_merkle_def Let_def)
qed

text \<open>
  One opening of a session: accepted when its Merkle proof is not empty, or when the session has
  one leaf only.
\<close>

lemma honest_opening:
  assumes ok: "merkle_lib_ok mlib committed pending" "proof_lib_complete mlib plib committed"
    and reach: "session_reachable mlib blake3 hex_encode seed duration bits core"
    and snap: "mining_get_merkle mlib core = (tree, core)"
    and opened: "mining_get_proof mlib core s e = Some (Inr r)"
    and nonempty: "gp_proof r = [] \<Longrightarrow> length (mc_completed core) = 1"
    and root: "length (ms_root tree) = 32" and hash: "\<And>bs. length (blake3 bs) = 32"
    and bounds: "unat bits < 128" "length (mc_completed core) < 2 ^ 32"
    and window: "as_usize a = s" "as_usize b = e"
  shows "opening_ok plib blake3 seed bits (a, b) (session_submit tree) (session_opening r)"
proof -
  note w = session_window [OF ok(1) reach opened]
  let ?t = "mc_hash_processor core"
  have inv: "session_inv blake3 hex_encode committed pending seed duration bits core"
    using ok(1) reach by (rule session_inv_reachable)
  note tree = snapshot_of_committed(2,3) [OF ok(1) snap]
  then have usize: "as_usize (ss_leaves_count (session_submit tree)) = length (mc_completed core)"
    using w(3) bounds(2) by (simp add: session_submit_def as_usize_of_nat)
  obtain h where h: "mt_root mlib ?t = Some h" "ms_root tree = h"
    using root tree by (cases "mt_root mlib ?t") (auto simp: mp_get_merkle_root_def)
  have len: "length (committed ?t) = length (mc_completed core)" using w(3) by simp
  have leaves: "\<forall>leaf \<in> set (slice s e (committed ?t)). length leaf = 32"
    using slice_subset [of s e "committed ?t"] hash w(3) by (auto simp: merkle_hash_def)
  have "proof_opens plib h (length (mc_completed core)) (gp_proof r) [s..<e] (gp_selected_leaves r)"
  proof (cases "gp_proof r = []")
    case True
    then obtain leaf where leaf: "committed ?t = [leaf]"
      using nonempty len by (cases "committed ?t") auto
    then have "h = leaf" using ok(2) h(1) by (simp add: proof_lib_complete_def)
    moreover have "s = 0" "e = 1" using w(1,2) nonempty [OF True] by auto
    ultimately show ?thesis using True leaf w(4) by (simp add: proof_opens_def slice_def)
  next
    case False
    then have "mt_proof_bytes mlib ?t [s..<e] \<noteq> []" using w(4) by simp
    then obtain p where "pl_from_bytes plib (mt_proof_bytes mlib ?t [s..<e]) = Inr p"
      "pl_verify plib p h [s..<e] (slice s e (committed ?t)) (length (committed ?t))"
      using ok(2) [unfolded proof_lib_complete_def, THEN conjunct1, rule_format, of s e ?t h] w(1,2) h(1) len
      by auto
    then show ?thesis using False root h(2) leaves w(4) len by (simp add: proof_opens_def)
  qed
  moreover have "\<forall>c \<in> set (slice s e (mc_completed core)). leaf_verify blake3 c seed bits"
    using slice_subset [of s e "mc_completed core"] session_leaf_verifies [OF inv bounds(1)] by auto
  moreover have "slice s e (mc_completed core) \<noteq> []"
    using w(1) length_slice [OF w(2), of s] by auto
  ultimately show ?thesis
    using w(4) h(2) usize window by (simp add: opening_ok_def session_submit_def session_opening_def)
qed

lemma opening_of_ok:
  "opening_of env what core s e = Some (Inr p) \<longleftrightarrow>
     (\<exists>r. mining_get_proof (we_lib env) core s e = Some (Inr r) \<and> p = session_opening r)"
  by (auto simp: opening_of_def res_simps)

lemma all_res_ok:
  "all_res rs = Some (Inr xs) \<longleftrightarrow> rs = map (Some \<circ> Inr) xs"
proof (induction rs arbitrary: xs rule: all_res.induct)
  case (4 x rs)
  show ?case
  proof (cases xs)
    case (Cons y ys)
    have "map_option (map_sum id ((#) x)) r = Some (Inr (y # ys)) \<longleftrightarrow> x = y \<and> r = Some (Inr ys)" for r :: "('a + 'b list) option"
      by (cases r; cases "the r") auto
    with Cons 4 [of ys] show ?thesis by auto
  next
    case Nil
    have "map_option (map_sum id ((#) x)) r \<noteq> Some (Inr [])" for r :: "('a + 'b list) option"
      by (cases r; cases "the r") auto
    with Nil show ?thesis by simp
  qed
qed auto

text \<open>The decoded request for a session: the header the contract puts before the miner's data.\<close>

definition session_request ::
  "MinerWorker \<Rightarrow> 't cores \<Rightarrow> trees \<Rightarrow> SessionIntervalData \<Rightarrow> SessionProof \<Rightarrow> SessionProof \<Rightarrow> SessionProof \<Rightarrow> SessionProof \<Rightarrow>
   ParamsOfVerifySession" where
  "session_request worker cores trees interval p_easy p_first p_range p_last =
     \<lparr> vs_seed = w_seed worker,
       vs_easy_complexity = mc_target_bits (c_time cores),
       vs_easy_interval_start = iv_start (si_easy interval), vs_easy_interval_end = iv_end (si_easy interval),
       vs_hard_complexity = mc_target_bits (c_tap cores),
       vs_hard_interval_start = iv_start (si_hard interval), vs_hard_interval_end = iv_end (si_hard interval),
       vs_easy_submit_params = session_submit (tr_time trees),
       vs_hard_submit_params = session_submit (tr_tap trees),
       vs_easy_proof_params = p_easy, vs_hard_first_proof_params = p_first,
       vs_hard_range_proof_params = p_range, vs_hard_last_proof_params = p_last \<rparr>"

text \<open>A core whose openings the verifier can accept: bounded complexity and size, hashes of 32 bytes.\<close>

definition provable_core :: "'t MiningCore \<Rightarrow> ResultOfGetMerkleSnapshot \<Rightarrow> bool" where
  "provable_core core tree =
     (unat (mc_target_bits core) < 128 \<and> length (mc_completed core) < 2 ^ 32 \<and> length (ms_root tree) = 32)"

lemma session_opening_ok:
  assumes "merkle_lib_ok (we_lib env) committed pending" "proof_lib_complete (we_lib env) plib committed"
    and "core_of env worker core" "mining_get_merkle (we_lib env) core = (tree, core)"
    and "provable_core core tree" "\<And>bs. length (we_blake3 env bs) = 32"
    and "opening_of env what core s e = Some (Inr p)"
    and "sp_proof p = [] \<Longrightarrow> length (mc_completed core) = 1"
    and "as_usize a = s" "as_usize b = e"
  shows "opening_ok plib (we_blake3 env) (w_seed worker) (mc_target_bits core) (a, b) (session_submit tree) p"
    and "sp_leaves_data p = slice s e (mc_completed core)"
proof -
  obtain r where r: "mining_get_proof (we_lib env) core s e = Some (Inr r)" "p = session_opening r"
    using assms(7) by (auto simp: opening_of_ok)
  note reach = assms(3) [unfolded core_of_def]
  show "opening_ok plib (we_blake3 env) (w_seed worker) (mc_target_bits core) (a, b) (session_submit tree) p"
    unfolding r(2)
    using assms(5,6,8-10) r honest_opening [OF assms(1,2) reach assms(4) r(1)]
    by (simp add: provable_core_def session_opening_def)
  show "sp_leaves_data p = slice s e (mc_completed core)"
    using session_window(4) [OF assms(1) reach r(1)] r(2) by (simp add: session_opening_def)
qed

lemma as_usize_minus_one: "0 < n \<Longrightarrow> n < 2 ^ 32 \<Longrightarrow> as_usize (word_of_nat n - 1) = n - 1"
  using as_usize_of_nat [of "n - 1"] by (cases n) simp_all

lemma last_drop_one: "xs \<noteq> [] \<Longrightarrow> drop (length xs - Suc 0) xs = [last xs]"
  by (induction xs rule: rev_induct) auto

lemma sorted_hd_last:
  "sorted (map (unat \<circ> cl_timestamp) xs) \<Longrightarrow> xs \<noteq> [] \<Longrightarrow> unat (cl_timestamp (hd xs)) \<le> unat (cl_timestamp (last xs))"
  by (cases xs) auto


text \<open>A concrete environment, worker and finished session.\<close>

definition toy_proof_lib :: "unit proof_lib" where
  "toy_proof_lib = \<lparr> pl_from_bytes = (\<lambda>bs. if bs = [7] then Inr () else Inl ''bad''),
     pl_verify = (\<lambda>_ root indices leaves count. length indices = length leaves \<and> length leaves \<le> count) \<rparr>"

lemma toy_complete: "proof_lib_complete toy_lib toy_proof_lib fst"
  by (auto simp: proof_lib_complete_def toy_lib_def toy_proof_lib_def length_slice)

definition example_env :: "(byte list list \<times> byte list list) worker_env" where
  "example_env = \<lparr> we_lib = toy_lib, we_blake3 = zero_hash, we_hex_encode = hex_enc, we_hex_decode = hex_dec,
     we_submit_to_vec = (\<lambda>_. Inr []), we_submit_debug = (\<lambda>_. []), we_proof_to_vec = (\<lambda>_. Inr []),
     we_proof_debug = (\<lambda>_. []), we_status_to_vec = (\<lambda>k. Inr (u64_to_be k)),
     we_status_from_slice = (\<lambda>bs. Inr (u64_from_be bs)), we_status_debug = (\<lambda>_. []), we_bytes_debug = (\<lambda>_. []),
     we_accepted_address = ''a'', we_rejected_address = ''r'' \<rparr>"

definition example_worker :: MinerWorker where
  "example_worker = \<lparr> w_id = 7, w_sender = 0, w_status = Submitting, w_app_id = ''app'',
     w_keys = \<lparr> kp_public = ''p'', kp_secret = ''k'' \<rparr>, w_seed = ''s'', w_duration_ms = 5000,
     w_easy_complexity = 12, w_hard_complexity = 12 \<rparr>"

definition example_tree :: ResultOfGetMerkleSnapshot where
  "example_tree = \<lparr> ms_root = zero_hash [], ms_leaves = [zero_hash []] \<rparr>"

definition example_closed :: "(byte list list \<times> byte list list) MiningCore" where
  "example_closed = example_mined\<lparr>mc_hash_processor := ([zero_hash []], []), mc_committed := True\<rparr>"

definition example_opening :: SessionProof where
  "example_opening = \<lparr> sp_proof = [7], sp_leaves_tree = [zero_hash []], sp_leaves_data = [example_leaf 0 100] \<rparr>"

definition example_interval :: SessionIntervalData where
  "example_interval = \<lparr> si_easy = \<lparr> iv_start = 0, iv_end = 1 \<rparr>, si_hard = \<lparr> iv_start = 0, iv_end = 1 \<rparr>, si_worker_id = 7 \<rparr>"

lemma example_snapshot:
  "mining_get_merkle toy_lib example_mined = (example_tree, example_closed)"
  "mining_get_merkle toy_lib example_closed = (example_tree, example_closed)"
  by (simp_all add: mining_get_merkle_def example_mined_def example_closed_def example_core_def
      mining_core_new_def mp_commit_def mp_get_merkle_root_def mp_get_merkle_leaves_def toy_lib_def
      example_tree_def Let_def)

lemma example_proof:
  "mining_get_proof toy_lib example_closed 0 1 = Some (Inr \<lparr> gp_proof = [7], gp_selected_leaves = [zero_hash []],
     gp_selected_leaves_data = [example_leaf 0 100] \<rparr>)"
  by (simp add: mining_get_proof_def mp_get_proof_in_window_def mp_get_merkle_leaves_def toy_lib_def
      example_closed_def example_mined_def example_core_def mining_core_new_def completed_in_window_def
      slice_def Let_def)

lemma example_closed_session:
  "closed_session example_env example_worker \<lparr> c_time = example_closed, c_tap = example_closed \<rparr>
     \<lparr> tr_time = example_tree, tr_tap = example_tree \<rparr>"
proof -
  have "session_reachable toy_lib zero_hash hex_enc ''s'' 5000 12 example_closed"
    using example_reachable example_snapshot(1) by (rule session_reachable.get_merkle)
  moreover have "mc_target_bits example_closed = 12"
    by (simp add: example_closed_def example_mined_def example_core_def mining_core_new_def)
  ultimately show ?thesis
    by (simp add: closed_session_def core_of_def example_env_def example_worker_def example_snapshot(2))
      (simp add: example_tree_def)
qed


text \<open>
  Further property.  An opening of several leaves whose Merkle proof needs no further hashes, such as
  that of the whole tree, is refused: the verifier answers \<open>false\<close> for the honest opening.
\<close>

theorem honest_full_window_rejected:
  assumes "merkle_lib_ok (we_lib env) committed pending" "core_of env worker core"
    and "opening_of env what core s e = Some (Inr p)" "sp_proof p = []" "s + 1 < e"
  shows "verify_proof_and_leaves plib blake3 seed complexity interval submit p = Inr False"
proof -
  obtain r where r: "mining_get_proof (we_lib env) core s e = Some (Inr r)" "p = session_opening r"
    using assms(3) by (auto simp: opening_of_ok)
  note w = session_window [OF assms(1) assms(2) [unfolded core_of_def] r(1)]
  have "length (sp_leaves_tree p) = e - s"
    using w r(2) by (simp add: session_opening_def length_slice)
  with assms(4,5) show ?thesis
    by (auto simp: verify_proof_and_leaves_def validate_proof_def Let_def)
qed

text \<open>A variant of the example library whose proofs are empty, and a session of two leaves in it.\<close>

definition bare_lib :: "(byte list list \<times> byte list list) merkle_lib" where
  "bare_lib = toy_lib\<lparr>mt_proof_bytes := (\<lambda>_ _. [])\<rparr>"

definition bare_core :: "(byte list list \<times> byte list list) MiningCore" where
  "bare_core = \<lparr> mc_hash_processor = ([zero_hash [], zero_hash []], []), mc_target_bits = 12, mc_seed = ''s'',
     mc_committed = True, mc_completed = [example_leaf 0 100, example_leaf 1 100], mc_ends_at_ms = Some 5100,
     mc_duration_ms = 5000, mc_last_now_ms = Some 100 \<rparr>"

lemma bare_lib_ok: "merkle_lib_ok bare_lib fst snd"
  by (auto simp: merkle_lib_ok_def bare_lib_def toy_lib_def)

definition bare_state :: "ComputedLeaf list \<Rightarrow> u64 option \<Rightarrow> u64 option \<Rightarrow> (byte list list \<times> byte list list) MiningCore" where
  "bare_state cs e l = bare_core\<lparr>mc_hash_processor := ([], map (merkle_hash zero_hash hex_enc) cs),
     mc_committed := False, mc_completed := cs, mc_ends_at_ms := e, mc_last_now_ms := l\<rparr>"

lemma bare_compute:
  assumes "(e, l) = (None, None) \<or> (e, l) = (Some 5100, Some 100)"
  shows "mining_compute bare_lib zero_hash hex_enc \<lparr> pc_x = 1, pc_y = 1, pc_now_ms = 100 \<rparr> (bare_state cs e l)
    = Some (Some (example_leaf (length cs) 100),
        bare_state (cs @ [example_leaf (length cs) 100]) (Some 5100) (Some 100))"
  using assms
  by (auto simp: mining_compute_def Let_def start_deadline_def bare_core_def bare_state_def
      deadline_reached_ms_def sat_add_def calc_hash_blake_def calc_hash_loop_unfold solves_def
      zero_hash_solves example_leaf_def candidate_def bare_lib_def toy_lib_def mp_add_leaf_def)

lemma bare_reachable: "session_reachable bare_lib zero_hash hex_enc ''s'' 5000 12 bare_core"
proof -
  let ?one = "[example_leaf 0 100]" and ?two = "[example_leaf 0 100, example_leaf 1 100]"
  have "bare_state [] None None = mining_core_new bare_lib ''s'' 5000 12"
    by (simp add: bare_state_def bare_core_def mining_core_new_def mp_new_def bare_lib_def toy_lib_def)
  then have "session_reachable bare_lib zero_hash hex_enc ''s'' 5000 12 (bare_state [] None None)"
    by (metis session_reachable.new)
  then have "session_reachable bare_lib zero_hash hex_enc ''s'' 5000 12 (bare_state ?one (Some 5100) (Some 100))"
    using bare_compute [of None None "[]"] by (auto intro: session_reachable.compute)
  then have "session_reachable bare_lib zero_hash hex_enc ''s'' 5000 12 (bare_state ?two (Some 5100) (Some 100))"
    using bare_compute [of "Some 5100" "Some 100" ?one] by (auto intro: session_reachable.compute)
  moreover have "snd (mining_get_merkle bare_lib (bare_state ?two (Some 5100) (Some 100))) = bare_core"
    by (simp add: mining_get_merkle_def Let_def bare_state_def bare_core_def mp_commit_def bare_lib_def toy_lib_def
        merkle_hash_def)
  ultimately show ?thesis
    by (metis session_reachable.get_merkle prod.collapse)
qed

theorem honest_full_window_rejected_witness:
  "\<exists>p. opening_of (example_env\<lparr>we_lib := bare_lib\<rparr>) ''easy'' bare_core 0 2 = Some (Inr p) \<and>
     verify_proof_and_leaves toy_proof_lib zero_hash ''s'' 12 (0, 2)
       \<lparr> ss_root = zero_hash [] @ zero_hash [], ss_leaves_count = 2 \<rparr> p = Inr False"
proof -
  let ?p = "\<lparr> sp_proof = [], sp_leaves_tree = [zero_hash [], zero_hash []],
      sp_leaves_data = [example_leaf 0 100, example_leaf 1 100] \<rparr>"
  have op: "opening_of (example_env\<lparr>we_lib := bare_lib\<rparr>) ''easy'' bare_core 0 2 = Some (Inr ?p)"
    by (simp add: opening_of_def mining_get_proof_def mp_get_proof_in_window_def mp_get_merkle_leaves_def
        example_env_def bare_lib_def toy_lib_def bare_core_def completed_in_window_def slice_def Let_def
        session_opening_def)
  have "core_of (example_env\<lparr>we_lib := bare_lib\<rparr>) example_worker bare_core"
    using bare_reachable by (simp add: core_of_def example_env_def example_worker_def bare_core_def)
  with honest_full_window_rejected [OF _ this op] bare_lib_ok op show ?thesis
    by (auto simp: example_env_def)
qed

section \<open>Scheduling\<close>

text \<open>
  Property C3.  In every interleaving of calls, contract events and tasks, at most one listed worker
  is submitting at a time, and a task that holds cores and trees holds committed sessions of its
  worker's own seed and duration, with non-empty trees that are the snapshots of these cores.
\<close>

theorem miner_scheduling_invariant:
  assumes "miner_reachable env m"
  shows "length (filter (\<lambda>w. w_status w = Submitting) (m_workers m)) \<le> 1 \<and>
         (\<forall>t \<in> set (m_tasks m). \<forall>cores trees.
            t_phase t \<in> {WaitTurn cores trees, AwaitSubmit cores trees, Listening cores trees, AwaitProof cores trees}
            \<longrightarrow> closed_session env (t_worker t) cores trees)"
  using miner_inv_reachable [OF assms] by (auto simp: miner_inv_def submitting_def task_ok_def)

definition example_details :: MinerDetails where
  "example_details = \<lparr> md_easy_complexity = 12, md_hard_complexity = 12, md_cur_seed = ''s'',
     md_upcoming_seed = ''t'', md_submit_session_data = None \<rparr>"

definition example_miner :: "(byte list list \<times> byte list list) Miner" where
  "example_miner = \<lparr> m_app_id = ''app'', m_keys = \<lparr> kp_public = ''p'', kp_secret = ''k'' \<rparr>, m_seeds = [''s'', ''t''],
     m_complexity = (12, 12), m_workers = [], m_after_dt = 9, m_tasks = [], m_channels = [],
     m_callbacks = [], m_calls = [] \<rparr>"

definition example_started :: "(byte list list \<times> byte list list) Miner" where
  "example_started =
     (let w = example_worker\<lparr>w_status := Queued\<rparr>
      in example_miner\<lparr>m_seeds := [''t''], m_workers := [w], m_channels := [[]],
           m_tasks := [\<lparr> t_worker = w, t_phase = Spawned \<rparr>]\<rparr>)"

lemma example_miner_reachable: "miner_reachable env example_miner"
proof -
  have "miner_new ''app'' \<lparr> kp_public = ''p'', kp_secret = ''k'' \<rparr> (Inr example_details) (Inr ()) 10000
      = Inr example_miner"
    by (simp add: miner_new_def example_details_def example_miner_def)
  then show ?thesis by (rule miner_reachable.new)
qed

lemma example_start: "miner_start 5000 7 example_miner = Inr example_started"
  by (simp add: miner_start_def example_miner_def example_started_def example_worker_def Let_def)

lemma example_run_reachable: "miner_reachable env (run_start 0 example_started)"
proof -
  have "miner_reachable env example_started"
    using example_miner_reachable miner_step.start [OF example_start] by (rule miner_reachable.step)
  moreover have "miner_step env example_started (run_start 0 example_started)"
    by (rule miner_step.spawned) (simp_all add: example_started_def Let_def)
  ultimately show ?thesis by (rule miner_reachable.step)
qed

theorem miner_scheduling_invariant_witness:
  "length (filter (\<lambda>w. w_status w = Submitting) (m_workers (run_start 0 example_started))) \<le> 1 \<and>
   map w_status (m_workers (run_start 0 example_started)) = [Computing]"
  using miner_scheduling_invariant [OF example_run_reachable]
  by (simp add: run_start_def example_started_def example_worker_def Let_def)

text \<open>
  Further property.  A task that waits for the contract never panics, whatever command it receives and
  whatever interval the contract asks for: \<open>run_command\<close> always has a result, either a further
  suspension or the end of the task.
\<close>

theorem worker_never_panics:
  assumes "merkle_lib_ok (we_lib env) committed pending" "miner_reachable env m"
    and "i < length (m_tasks m)" "t_phase (m_tasks m ! i) = Listening cores trees"
  shows "\<exists>m'. run_command env i cores trees cmd m = Some m' \<and>
           (\<exists>ph. t_phase (m_tasks m' ! i) = ph \<and> ph \<in> {Listening cores trees, AwaitProof cores trees, Ended})"
proof -
  have closed: "closed_session env (t_worker (m_tasks m ! i)) cores trees"
    using miner_inv_reachable [OF assms(2)] assms(3,4)
    by (metis miner_inv_def nth_mem phase_ok.simps(4) task_ok_def)
  have total: "opening_of env what core s e \<noteq> None" if "core_of env worker core" for what worker core s e
    using mining_get_proof_total [OF assms(1) that [unfolded core_of_def]] by (simp add: opening_of_def)
  have all: "None \<notin> set rs \<Longrightarrow> all_res rs \<noteq> None" for rs :: "(string + SessionProof) option list"
    by (induction rs rule: all_res.induct) auto
  have tot: "None \<noteq> opening_of env what (c_time cores) s e" "None \<noteq> opening_of env what (c_tap cores) s e" for what s e
    using closed total [of _ _ what s e] unfolding closed_session_def by metis+
  have "session_openings env (c_time cores, c_tap cores) (tr_tap trees) data \<noteq> None" for data
    unfolding session_openings_def Let_def by (intro all) (simp add: tot)
  then have some: "\<exists>r. submit_session_proof env (t_worker (m_tasks m ! i)) (c_time cores, c_tap cores) (tr_tap trees) data = Some r" for data
    by (auto simp: submit_session_proof_def)
  have phase: "t_phase (m_tasks (set_phase i ph m1) ! i) = ph" if "m_tasks m1 = m_tasks m" for ph and m1 :: "'a Miner"
    using assms(3) that by (simp add: set_phase_def)
  show ?thesis
  proof (cases "\<exists>data. cmd = SendSessionInterval data")
    case True
    then obtain data r where "cmd = SendSessionInterval data"
      "submit_session_proof env (t_worker (m_tasks m ! i)) (c_time cores, c_tap cores) (tr_tap trees) data = Some r"
      using some by blast
    then show ?thesis
      by (cases r) (auto simp: run_command_def Let_def proof_failed_def end_task_def phase)
  next
    case False
    then show ?thesis
      by (cases cmd) (auto simp: run_command_def Let_def end_task_def phase)
  qed
qed

definition toy_mined :: "u32 \<Rightarrow> u32 \<Rightarrow> u64 \<Rightarrow> (byte list list \<times> byte list list) MiningCore" where
  "toy_mined x y now = (mining_core_new toy_lib ''s'' 5000 12)\<lparr>mc_hash_processor := ([], [zero_hash []]),
     mc_completed := [leaf_compute zero_hash \<lparr> l_index = 0, l_nonce = 0, l_seed = ''s'', l_x = x, l_y = y,
       l_timestamp = now, l_complexity = 12 \<rparr>],
     mc_ends_at_ms := Some (now + 5000), mc_last_now_ms := Some now\<rparr>"

lemma toy_compute:
  assumes "now = 100 \<or> now = 5100"
  shows "mining_compute toy_lib zero_hash hex_enc \<lparr> pc_x = x, pc_y = y, pc_now_ms = now \<rparr>
     (mining_core_new toy_lib ''s'' 5000 12) = Some (Some (hd (mc_completed (toy_mined x y now))), toy_mined x y now)"
  using assms
  by (auto simp: mining_compute_def Let_def start_deadline_def mining_core_new_def
      deadline_reached_ms_def sat_add_def calc_hash_blake_def calc_hash_loop_unfold solves_def
      zero_hash_solves toy_mined_def candidate_def mp_new_def toy_lib_def
      mp_add_leaf_def merkle_hash_def zero_hash_def)

definition example_loop :: "(byte list list \<times> byte list list) Miner" where
  "example_loop = the (run_complexity example_env 0 (Inr None) 100 100 (run_start 0 example_started))"

lemma example_loop_step: "run_complexity example_env 0 (Inr None) 100 100 (run_start 0 example_started) = Some example_loop"
  and example_loop_facts: "m_channels example_loop = [[]]" "m_workers example_loop = [example_worker\<lparr>w_status := Computing\<rparr>]"
   "m_tasks example_loop = [\<lparr> t_worker = example_worker\<lparr>w_status := Queued\<rparr>, t_phase = InLoop \<lparr> c_time = toy_mined 0 0 100, c_tap = mining_core_new toy_lib ''s'' 5000 12 \<rparr> 100 \<rparr>]"
  by (simp_all add: example_loop_def run_complexity_def run_start_def example_started_def example_worker_def example_env_def
     session_complexity_or_default_def run_round_def toy_compute Let_def set_phase_def example_miner_def update_worker_status_def send_callback_def)

definition example_tapped :: "(byte list list \<times> byte list list) Miner" where
  "example_tapped = unbounded_send 0 (QueueTap 1 1) example_loop"

lemma example_tapped_step: "add_tap 1 1 example_loop = Inr example_tapped"
  by (simp add: add_tap_def example_loop_facts example_tapped_def example_worker_def)

definition example_cores :: "(byte list list \<times> byte list list) cores" where
  "example_cores = \<lparr> c_time = (toy_mined 0 0 100)\<lparr>mc_hash_processor := ([zero_hash []], []), mc_committed := True\<rparr>,
     c_tap = (toy_mined 1 1 5100)\<lparr>mc_hash_processor := ([zero_hash []], []), mc_committed := True\<rparr> \<rparr>"

lemma toy_snapshot:
  "mining_get_merkle toy_lib (toy_mined x y now)
     = (example_tree, (toy_mined x y now)\<lparr>mc_hash_processor := ([zero_hash []], []), mc_committed := True\<rparr>)"
  by (simp add: mining_get_merkle_def toy_mined_def mining_core_new_def mp_commit_def mp_get_merkle_root_def
      mp_get_merkle_leaves_def toy_lib_def example_tree_def Let_def)

definition example_submitted :: "(byte list list \<times> byte list list) Miner" where
  "example_submitted = the (run_round example_env 0 \<lparr> c_time = toy_mined 0 0 100,
     c_tap = mining_core_new toy_lib ''s'' 5000 12 \<rparr> 100 5100 example_tapped)"

lemma example_submitted_step:
  "run_round example_env 0 \<lparr> c_time = toy_mined 0 0 100, c_tap = mining_core_new toy_lib ''s'' 5000 12 \<rparr> 100 5100 example_tapped
     = Some example_submitted"
  and example_submitted_facts:
  "m_tasks example_submitted = [\<lparr> t_worker = example_worker\<lparr>w_status := Queued\<rparr>,
     t_phase = AwaitSubmit example_cores \<lparr> tr_time = example_tree, tr_tap = example_tree \<rparr> \<rparr>]"
  by (simp_all add: example_submitted_def run_round_def Let_def example_tapped_def unbounded_send_def pop_command_def
      example_loop_facts toy_compute example_env_def run_finalize_def toy_snapshot example_cores_def run_turn_def
      example_worker_def submit_session_root_def set_phase_def example_tree_def)

lemma example_listening:
  "\<exists>m cores trees. miner_reachable example_env m \<and> 0 < length (m_tasks m) \<and>
     t_phase (m_tasks m ! 0) = Listening cores trees"
proof -
  let ?trees = "\<lparr> tr_time = example_tree, tr_tap = example_tree \<rparr>"
  have "miner_step example_env (run_start 0 example_started) example_loop"
    by (rule miner_step.complexity [where in_flight = False, OF _ _ example_loop_step])
      (simp_all add: run_start_def example_started_def Let_def set_phase_def)
  then have "miner_reachable example_env example_loop" by (rule miner_reachable.step [OF example_run_reachable])
  then have "miner_reachable example_env example_tapped"
    using miner_step.add_tap [OF example_tapped_step] by (rule miner_reachable.step)
  moreover have "miner_step example_env example_tapped example_submitted"
    by (rule miner_step.round [OF _ _ example_submitted_step]) (simp_all add: example_tapped_def example_loop_facts)
  ultimately have "miner_reachable example_env example_submitted" by (rule miner_reachable.step)
  moreover have "miner_step example_env example_submitted (run_submitted 0 example_cores ?trees (Inr ()) example_submitted)"
    by (rule miner_step.submitted) (simp_all add: example_submitted_facts)
  ultimately have "miner_reachable example_env (run_submitted 0 example_cores ?trees (Inr ()) example_submitted)"
    by (rule miner_reachable.step)
  then show ?thesis
    by (rule_tac exI [of _ "run_submitted 0 example_cores ?trees (Inr ()) example_submitted"])
      (auto simp: run_submitted_def set_phase_def example_submitted_facts)
qed

theorem worker_never_panics_witness:
  "\<exists>m cores trees. t_phase (m_tasks m ! 0) = Listening cores trees \<and>
     (\<forall>cmd. run_command example_env 0 cores trees cmd m \<noteq> None)"
proof -
  obtain m cores trees where m: "miner_reachable example_env m" "0 < length (m_tasks m)"
    "t_phase (m_tasks m ! 0) = Listening cores trees"
    using example_listening by blast
  have ok: "merkle_lib_ok (we_lib example_env) fst snd" using toy_lib_ok by (simp add: example_env_def)
  have "run_command example_env 0 cores trees cmd m \<noteq> None" for cmd
    using worker_never_panics [OF ok m, of cmd] by auto
  with m(3) show ?thesis by blast
qed

text \<open>
  Further property.  \<open>stop\<close> does not cancel a queued worker: right after \<open>start\<close>, \<open>stop\<close> removes the worker
  from the list, yet its task stays spawned, the seed is not put back, and the first poll of the
  task computes with no worker listed, so that \<open>can_start\<close> stays true while it computes.
\<close>

theorem stop_leaves_queued_task:
  assumes "miner_start duration new_id m = Inr m1"
    and "m_workers m = []" and "length (m_channels m) = length (m_tasks m)"
  shows "m_workers (miner_stop m1) = [] \<and> m_seeds (miner_stop m1) = tl (m_seeds m) \<and>
         t_phase (last (m_tasks (miner_stop m1))) = Spawned \<and>
         m_workers (run_start (length (m_tasks m)) (miner_stop m1)) = [] \<and>
         (can_start (run_start (length (m_tasks m)) (miner_stop m1)) \<longleftrightarrow> tl (m_seeds m) \<noteq> [])"
  using assms
  by (auto simp: miner_start_def miner_stop_def run_start_def can_start_def update_worker_status_def Let_def
      split: list.splits)

theorem stop_leaves_queued_task_witness:
  "m_workers (miner_stop example_started) = [] \<and> t_phase (last (m_tasks (miner_stop example_started))) = Spawned \<and>
   can_start (run_start 0 (miner_stop example_started))"
  using stop_leaves_queued_task [OF example_start] by (simp add: example_miner_def)

end
