(* ===== verification/Message.thy ===== *)
theory Message
  imports Prelude
begin

unbundle bit_operations_syntax

text \<open>
  \<open>bee_connect/src/message.rs\<close>: the message primitives shared by the client and the wallet side of
  the connect protocol.  They encrypt and decrypt message bodies, build the associated data and
  normalise identifiers.

  The cryptographic packages are one record \<open>crypto\<close>, the JSON printer included.  What the
  protocol relies on is \<open>crypto_ok\<close>: the codecs invert each other, the cipher decrypts what it
  encrypted under the same key, nonce and associated data, the Diffie-Hellman function commutes,
  and digests have 32 bytes.
\<close>

section \<open>The cryptographic packages\<close>

record crypto =
  cr_hex_encode :: "byte list \<Rightarrow> string"
  cr_hex_decode :: "string \<Rightarrow> byte list result"
  cr_b64_encode :: "byte list \<Rightarrow> string"
  cr_b64_decode :: "string \<Rightarrow> byte list result"
  cr_hkdf :: "byte list \<Rightarrow> byte list \<Rightarrow> byte list \<Rightarrow> byte list result"
  cr_encrypt :: "byte list \<Rightarrow> byte list \<Rightarrow> byte list \<Rightarrow> byte list \<Rightarrow> byte list result"
  cr_decrypt :: "byte list \<Rightarrow> byte list \<Rightarrow> byte list \<Rightarrow> byte list \<Rightarrow> byte list result"
  cr_x25519_public :: "byte list \<Rightarrow> byte list"
  cr_x25519 :: "byte list \<Rightarrow> byte list \<Rightarrow> byte list"
  cr_ed25519_public :: "byte list \<Rightarrow> byte list"
  cr_to_vec :: "json \<Rightarrow> byte list result"

definition crypto_ok :: "crypto \<Rightarrow> bool" where
  "crypto_ok cr =
     ((\<forall>bs. cr_hex_decode cr (cr_hex_encode cr bs) = Inr bs) \<and>
      (\<forall>bs. \<forall>c \<in> set (cr_hex_encode cr bs). is_ascii_hexdigit c) \<and>
      (\<forall>bs. length (cr_hex_encode cr bs) = 2 * length bs) \<and>
      (\<forall>bs. cr_b64_decode cr (cr_b64_encode cr bs) = Inr bs) \<and>
      (\<forall>k n m a c. cr_encrypt cr k n m a = Inr c \<longrightarrow> cr_decrypt cr k n c a = Inr m) \<and>
      (\<forall>s i f. \<exists>k. cr_hkdf cr s i f = Inr k \<and> length k = 32) \<and>
      (\<forall>a. length (cr_x25519_public cr a) = 32) \<and>
      (\<forall>a b. length (cr_x25519 cr a b) = 32) \<and>
      (\<forall>a b. length a = 32 \<longrightarrow> length b = 32 \<longrightarrow>
         cr_x25519 cr a (cr_x25519_public cr b) = cr_x25519 cr b (cr_x25519_public cr a)) \<and>
      (\<forall>s. length (cr_ed25519_public cr s) = 32))"

lemma crypto_okD:
  assumes "crypto_ok cr"
  shows "cr_hex_decode cr (cr_hex_encode cr bs) = Inr bs"
    and "c \<in> set (cr_hex_encode cr bs) \<Longrightarrow> is_ascii_hexdigit c"
    and "length (cr_hex_encode cr bs) = 2 * length bs"
    and "cr_b64_decode cr (cr_b64_encode cr bs) = Inr bs"
    and "cr_encrypt cr k n m a = Inr ct \<Longrightarrow> cr_decrypt cr k n ct a = Inr m"
    and "\<exists>k. cr_hkdf cr s i f = Inr k \<and> length k = 32"
    and "length (cr_x25519_public cr x) = 32"
    and "length (cr_x25519 cr x y) = 32"
    and "length x = 32 \<Longrightarrow> length y = 32 \<Longrightarrow>
           cr_x25519 cr x (cr_x25519_public cr y) = cr_x25519 cr y (cr_x25519_public cr x)"
    and "length (cr_ed25519_public cr s) = 32"
  using assms unfolding crypto_ok_def by blast+

section \<open>Protocol constants\<close>

definition CONNECT_DEEPLINK_VERSION :: string where "CONNECT_DEEPLINK_VERSION = ''bee_connect.dl/1''"
definition CONNECT_MESSAGE_VERSION :: string where "CONNECT_MESSAGE_VERSION = ''bee_connect.msg/1''"
definition CONNECT_MESSAGE_TYPE_WALLET_HELLO :: string where
  "CONNECT_MESSAGE_TYPE_WALLET_HELLO = ''wallet_hello''"
definition CONNECT_MESSAGE_TYPE_CLIENT_DISCONNECT :: string where
  "CONNECT_MESSAGE_TYPE_CLIENT_DISCONNECT = ''client_disconnect''"
definition CONNECT_MESSAGE_TYPE_SET_MINING_KEYS :: string where
  "CONNECT_MESSAGE_TYPE_SET_MINING_KEYS = ''set_mining_keys''"
definition CONNECT_MESSAGE_TYPE_SIGN_CHALLENGE :: string where
  "CONNECT_MESSAGE_TYPE_SIGN_CHALLENGE = ''sign_challenge''"
definition CONNECT_MESSAGE_TYPE_CHALLENGE_RESPONSE :: string where
  "CONNECT_MESSAGE_TYPE_CHALLENGE_RESPONSE = ''challenge_response''"
definition CONNECT_MESSAGE_ENC_NONE :: string where "CONNECT_MESSAGE_ENC_NONE = ''none''"
definition CONNECT_MESSAGE_ENC_XCHACHA :: string where
  "CONNECT_MESSAGE_ENC_XCHACHA = ''xchacha20poly1305-hkdf-sha256''"
definition CONNECT_MESSAGE_KEY_INFO :: "byte list" where
  "CONNECT_MESSAGE_KEY_INFO = as_bytes ''bee_connect.msg.key.v1''"

section \<open>Message bodies\<close>

record EncryptedConnectBody =
  eb_ciphertext_b64url :: string
  eb_nonce_b64url :: string
  eb_salt_b64url :: string

definition derive_connect_message_key :: "crypto \<Rightarrow> string \<Rightarrow> byte list \<Rightarrow> byte list result" where
  "derive_connect_message_key cr encryption_secret salt =
     (let secret_hex = strip_0x encryption_secret
      in if secret_hex = [] \<or> \<not> list_all is_ascii_hexdigit secret_hex
         then Inl ''encryption secret must be valid hex''
         else and_then (map_err (\<lambda>e. ''Decode encryption secret hex ('' @ e @ '')'') (cr_hex_decode cr secret_hex)) (\<lambda>secret.
              if secret = [] then Inl ''encryption secret must not be empty''
              else map_err (\<lambda>e. ''HKDF expand connect key ('' @ e @ '')'')
                     (cr_hkdf cr salt secret CONNECT_MESSAGE_KEY_INFO)))"

text \<open>The two random draws of \<open>encrypt_connect_body\<close> are its last arguments.\<close>

definition encrypt_connect_body ::
  "crypto \<Rightarrow> json \<Rightarrow> string \<Rightarrow> byte list \<Rightarrow> byte list result \<Rightarrow> byte list result \<Rightarrow> EncryptedConnectBody result" where
  "encrypt_connect_body cr body encryption_secret aad nonce_draw salt_draw =
     and_then (map_err (\<lambda>e. ''Serialize connect body for encryption ('' @ e @ '')'') (cr_to_vec cr body)) (\<lambda>plaintext.
     and_then (map_err (\<lambda>e. ''Generate connect nonce ('' @ e @ '')'') nonce_draw) (\<lambda>nonce.
     and_then (map_err (\<lambda>e. ''Generate connect salt ('' @ e @ '')'') salt_draw) (\<lambda>salt.
     and_then (derive_connect_message_key cr encryption_secret salt) (\<lambda>key.
     and_then (map_err (\<lambda>e. ''Encrypt connect body ('' @ e @ '')'') (cr_encrypt cr key nonce plaintext aad)) (\<lambda>ciphertext.
     Inr \<lparr> eb_ciphertext_b64url = cr_b64_encode cr ciphertext, eb_nonce_b64url = cr_b64_encode cr nonce,
           eb_salt_b64url = cr_b64_encode cr salt \<rparr>)))))"

definition decrypt_connect_body ::
  "crypto \<Rightarrow> string \<Rightarrow> string \<Rightarrow> string \<Rightarrow> string \<Rightarrow> byte list \<Rightarrow> byte list result" where
  "decrypt_connect_body cr ciphertext_b64url nonce_b64url salt_b64url encryption_secret aad =
     and_then (map_err (\<lambda>e. ''Decode encrypted connect ciphertext ('' @ e @ '')'') (cr_b64_decode cr ciphertext_b64url)) (\<lambda>ciphertext.
     and_then (map_err (\<lambda>e. ''Decode encrypted connect nonce ('' @ e @ '')'') (cr_b64_decode cr nonce_b64url)) (\<lambda>nonce.
     if length nonce \<noteq> 24 then Inl (''Invalid encrypted connect nonce length: '' @ show_nat (length nonce))
     else
     and_then (map_err (\<lambda>e. ''Decode encrypted connect salt ('' @ e @ '')'') (cr_b64_decode cr salt_b64url)) (\<lambda>salt.
     if length salt \<noteq> 32 then Inl (''Invalid encrypted connect salt length: '' @ show_nat (length salt))
     else
     and_then (derive_connect_message_key cr encryption_secret salt) (\<lambda>key.
     map_err (\<lambda>e. ''Decrypt connect body ('' @ e @ '')'') (cr_decrypt cr key nonce ciphertext aad)))))"

definition connect_message_aad ::
  "crypto \<Rightarrow> string \<Rightarrow> string \<Rightarrow> u64 \<Rightarrow> string \<Rightarrow> u64 \<Rightarrow> byte list result" where
  "connect_message_aad cr session_id dir seq msg_type ts =
     map_err (\<lambda>e. ''Serialize connect message AAD ('' @ e @ '')'')
       (cr_to_vec cr (JObj
          [(''v'', JStr CONNECT_MESSAGE_VERSION), (''session_id'', JStr session_id), (''dir'', JStr dir),
           (''seq'', JNum seq), (''type'', JStr msg_type), (''ts'', JNum ts)]))"

section \<open>Input normalisation\<close>

text \<open>\<open>{:0>64}\<close> pads on the left with zeros to 64 characters.\<close>

definition pad64 :: "string \<Rightarrow> string" where
  "pad64 s = replicate (64 - length s) (CHR ''0'') @ s"

definition normalize_uint256_hex :: "string \<Rightarrow> string result" where
  "normalize_uint256_hex value =
     (let stripped = strip_0x value
      in if stripped = [] then Inl ''app_id must be a non-empty uint256 hex string''
         else if length stripped > 64
         then Inl (''app_id hex is too long for uint256 ('' @ show_nat (length stripped) @ '' > 64)'')
         else if \<not> list_all is_ascii_hexdigit stripped then Inl (''app_id is not valid hex: '' @ value)
         else Inr (''0x'' @ pad64 (to_ascii_lowercase stripped)))"

definition normalize_owner_public_hex :: "string \<Rightarrow> string result" where
  "normalize_owner_public_hex value =
     (let stripped = strip_0x value
      in if stripped = [] then Inl ''owner_public must be non-empty hex string''
         else if length stripped \<noteq> 64
         then Inl (''owner_public must be 64 hex chars (got '' @ show_nat (length stripped) @ '')'')
         else if \<not> list_all is_ascii_hexdigit stripped then Inl (''owner_public is not valid hex: '' @ value)
         else Inr (to_ascii_lowercase stripped))"

section \<open>Encryption and decryption\<close>

text \<open>The key material of one message: secret, associated data and the two draws.\<close>

record body_key =
  bk_crypto :: crypto
  bk_secret :: string
  bk_aad :: "byte list"
  bk_nonce :: "byte list"
  bk_salt :: "byte list"

definition body_key_ok :: "body_key \<Rightarrow> bool" where
  "body_key_ok k = (crypto_ok (bk_crypto k) \<and> length (bk_nonce k) = 24 \<and> length (bk_salt k) = 32)"

definition seal_body :: "body_key \<Rightarrow> json \<Rightarrow> EncryptedConnectBody result" where
  "seal_body k body =
     encrypt_connect_body (bk_crypto k) body (bk_secret k) (bk_aad k) (Inr (bk_nonce k)) (Inr (bk_salt k))"

definition open_body :: "body_key \<Rightarrow> EncryptedConnectBody \<Rightarrow> byte list result" where
  "open_body k eb =
     decrypt_connect_body (bk_crypto k) (eb_ciphertext_b64url eb) (eb_nonce_b64url eb) (eb_salt_b64url eb)
       (bk_secret k) (bk_aad k)"

interpretation body: sealed_channel body_key_ok "\<lambda>k. res_ok \<circ> cr_to_vec (bk_crypto k)" seal_body open_body
proof
  fix k p c
  assume k: "body_key_ok k" and c: "seal_body k p = Inr c"
  have ok: "crypto_ok (bk_crypto k)" using k by (simp add: body_key_ok_def)
  from c obtain plain key ct where
    "cr_to_vec (bk_crypto k) p = Inr plain"
    "derive_connect_message_key (bk_crypto k) (bk_secret k) (bk_salt k) = Inr key"
    "cr_encrypt (bk_crypto k) key (bk_nonce k) plain (bk_aad k) = Inr ct"
    "c = \<lparr> eb_ciphertext_b64url = cr_b64_encode (bk_crypto k) ct,
           eb_nonce_b64url = cr_b64_encode (bk_crypto k) (bk_nonce k),
           eb_salt_b64url = cr_b64_encode (bk_crypto k) (bk_salt k) \<rparr>"
    by (auto simp: seal_body_def encrypt_connect_body_def res_simps)
  then show "\<exists>q. (res_ok \<circ> cr_to_vec (bk_crypto k)) p = Some q \<and> open_body k c = Inr q"
    using k crypto_okD(4,5) [OF ok]
    by (simp add: open_body_def decrypt_connect_body_def body_key_ok_def)
qed

text \<open>
  Further property.  Decryption inverts encryption: with the same secret and associated data, the
  encrypted body decrypts to the serialised body, whatever the random draws of the right length
  were.
\<close>

theorem connect_body_roundtrip:
  assumes "crypto_ok cr" "length nonce = 24" "length salt = 32"
    and "encrypt_connect_body cr body encryption_secret aad (Inr nonce) (Inr salt) = Inr eb"
  shows "\<exists>plaintext. cr_to_vec cr body = Inr plaintext \<and>
           decrypt_connect_body cr (eb_ciphertext_b64url eb) (eb_nonce_b64url eb) (eb_salt_b64url eb)
             encryption_secret aad = Inr plaintext"
proof -
  let ?k = "\<lparr> bk_crypto = cr, bk_secret = encryption_secret, bk_aad = aad, bk_nonce = nonce, bk_salt = salt \<rparr>"
  have "body_key_ok ?k" using assms by (simp add: body_key_ok_def)
  moreover have "seal_body ?k body = Inr eb" using assms(4) by (simp add: seal_body_def)
  ultimately show ?thesis
    using body.unseal_seal by (fastforce simp: open_body_def res_simps)
qed

text \<open>
  A concrete instance of the packages: hexadecimal codecs, a cipher that prefixes the message with
  its key, nonce and associated data and checks the prefix, and byte-wise exclusive or as the
  Diffie-Hellman function.
\<close>

definition pad32 :: "byte list \<Rightarrow> byte list" where
  "pad32 bs = take 32 (bs @ replicate 32 0)"

definition toy_crypto :: crypto where
  "toy_crypto = \<lparr> cr_hex_encode = hex_enc, cr_hex_decode = hex_dec, cr_b64_encode = hex_enc, cr_b64_decode = hex_dec,
     cr_hkdf = (\<lambda>salt ikm info. Inr (pad32 (rev ikm @ salt @ info))),
     cr_encrypt = (\<lambda>k n m a. Inr (k @ n @ a @ m)),
     cr_decrypt = (\<lambda>k n c a. if take (length (k @ n @ a)) c = k @ n @ a then Inr (drop (length (k @ n @ a)) c)
                             else Inl ''aead::Error''),
     cr_x25519_public = pad32, cr_x25519 = (\<lambda>a b. map2 (XOR) (pad32 a) (pad32 b)),
     cr_ed25519_public = pad32, cr_to_vec = (\<lambda>_. Inr [123, 125]) \<rparr>"

lemma toy_crypto_sel [simp]:
  "cr_hex_encode toy_crypto = hex_enc" "cr_hex_decode toy_crypto = hex_dec"
  "cr_b64_encode toy_crypto = hex_enc" "cr_b64_decode toy_crypto = hex_dec"
  "cr_x25519_public toy_crypto = pad32" "cr_x25519 toy_crypto a b = map2 (XOR) (pad32 a) (pad32 b)"
  "cr_to_vec toy_crypto j = Inr [123, 125]"
  "cr_hkdf toy_crypto salt ikm info = Inr (pad32 (rev ikm @ salt @ info))"
  "cr_encrypt toy_crypto k n m aad = Inr (k @ n @ aad @ m)"
  by (simp_all add: toy_crypto_def)

lemma length_pad32 [simp]: "length (pad32 bs) = 32"
  by (simp add: pad32_def)

lemma pad32_id: "length bs = 32 \<Longrightarrow> pad32 bs = bs"
  by (simp add: pad32_def)

lemma hex_enc_hexdigit: "c \<in> set (hex_enc bs) \<Longrightarrow> is_ascii_hexdigit c"
  using hex_enc_chars ascii_lower_fixed(2) by blast

lemma map2_xor_commute: "map2 (XOR) (a :: byte list) b = map2 (XOR) b a"
  by (induction a b rule: list_induct2') (auto simp: xor.commute)

lemma toy_crypto_ok: "crypto_ok toy_crypto"
  unfolding crypto_ok_def toy_crypto_def
  by (simp add: hex_enc_hexdigit map2_xor_commute pad32_id)

theorem connect_body_roundtrip_witness:
  "\<exists>eb. encrypt_connect_body toy_crypto (JObj []) ''0xff'' [1] (Inr (replicate 24 2)) (Inr (replicate 32 3)) = Inr eb \<and>
     decrypt_connect_body toy_crypto (eb_ciphertext_b64url eb) (eb_nonce_b64url eb) (eb_salt_b64url eb) ''0xff'' [1]
       = Inr [123, 125]"
proof -
  have "derive_connect_message_key toy_crypto ''0xff'' (replicate 32 3) \<in> range Inr"
    by (simp add: derive_connect_message_key_def is_ascii_hexdigit_def toy_crypto_def nibble_val_def upt_rec)
  then obtain eb where eb: "encrypt_connect_body toy_crypto (JObj []) ''0xff'' [1] (Inr (replicate 24 2)) (Inr (replicate 32 3)) = Inr eb"
    by (auto simp: encrypt_connect_body_def)
  from connect_body_roundtrip [OF toy_crypto_ok _ _ eb] eb show ?thesis
    by (auto simp: toy_crypto_def)
qed

section \<open>Normal forms\<close>

text \<open>The value of a hexadecimal numeral of either case.\<close>

definition hex_digit_value :: "char \<Rightarrow> nat" where
  "hex_digit_value c = the (map_of (zip ''0123456789abcdef'' [0..<16]) (ascii_lower c))"

definition hex_number :: "string \<Rightarrow> nat" where
  "hex_number s = foldl (\<lambda>a c. 16 * a + hex_digit_value c) 0 s"

lemma hex_digit_value_zero [simp]: "hex_digit_value (CHR ''0'') = 0"
  by code_simp

lemma hex_number_pad64: "hex_number (pad64 s) = hex_number s"
proof -
  have "foldl (\<lambda>a c. 16 * a + hex_digit_value c) 0 (replicate n (CHR ''0'')) = 0" for n
    by (induction n) simp_all
  then show ?thesis by (simp add: hex_number_def pad64_def)
qed

lemma ascii_lower_idem: "ascii_lower (ascii_lower c) = ascii_lower c"
  by (simp add: ascii_lower_def)

lemma hex_number_lower: "hex_number (to_ascii_lowercase s) = hex_number s"
proof -
  have "foldl (\<lambda>a c. 16 * a + hex_digit_value c) n (map ascii_lower s)
      = foldl (\<lambda>a c. 16 * a + hex_digit_value c) n s" for n
    by (induction s arbitrary: n) (simp_all add: hex_digit_value_def ascii_lower_idem)
  then show ?thesis by (simp add: hex_number_def to_ascii_lowercase_def)
qed

lemma length_lower [simp]: "length (to_ascii_lowercase s) = length s"
  by (simp add: to_ascii_lowercase_def)

definition is_lower_hex :: "char \<Rightarrow> bool" where
  "is_lower_hex c = (c \<in> set ''0123456789abcdef'')"

lemma lower_hexdigits: "list_all is_ascii_hexdigit s \<Longrightarrow> list_all is_lower_hex (to_ascii_lowercase s)"
  using ascii_lower_hexdigit
  unfolding to_ascii_lowercase_def list_all_iff is_lower_hex_def by (simp only: set_map ball_simps) blast

lemma lower_fixed: "list_all is_lower_hex s \<Longrightarrow> to_ascii_lowercase s = s"
  unfolding to_ascii_lowercase_def list_all_iff is_lower_hex_def
  by (rule map_idI) (simp only: ascii_lower_fixed)

lemma lower_hex_digits: "list_all is_lower_hex s \<Longrightarrow> list_all is_ascii_hexdigit s"
  by (erule list.pred_mono_strong) (simp only: is_lower_hex_def ascii_lower_fixed)

lemma pad64_lower_hex: "list_all is_lower_hex s \<Longrightarrow> list_all is_lower_hex (pad64 s)"
proof -
  have "is_lower_hex (CHR ''0'')" by code_simp
  then show "list_all is_lower_hex s \<Longrightarrow> ?thesis" by (auto simp: pad64_def list_all_iff)
qed

lemma length_pad64: "length s \<le> 64 \<Longrightarrow> length (pad64 s) = 64"
  by (simp add: pad64_def)

lemma normalize_uint256_hex_ok:
  "normalize_uint256_hex value = Inr r \<longleftrightarrow>
     strip_0x value \<noteq> [] \<and> length (strip_0x value) \<le> 64 \<and> list_all is_ascii_hexdigit (strip_0x value) \<and>
     r = ''0x'' @ pad64 (to_ascii_lowercase (strip_0x value))"
  by (auto simp: normalize_uint256_hex_def Let_def)

lemma normalize_uint256_hex_normal:
  "length digits = 64 \<Longrightarrow> list_all is_lower_hex digits \<Longrightarrow>
     normalize_uint256_hex (''0x'' @ digits) = Inr (''0x'' @ digits)"
  by (auto simp: normalize_uint256_hex_ok lower_fixed lower_hex_digits pad64_def)

lemma normalize_owner_public_hex_ok:
  "normalize_owner_public_hex value = Inr r \<longleftrightarrow>
     length (strip_0x value) = 64 \<and> list_all is_ascii_hexdigit (strip_0x value) \<and>
     r = to_ascii_lowercase (strip_0x value)"
  by (auto simp: normalize_owner_public_hex_def Let_def)

text \<open>
  Further property.  Normalising an application id succeeds exactly on non-empty hexadecimal numerals of
  at most 64 digits, with or without prefix.  The result is \<open>0x\<close> and 64 lower-case digits of the
  same value, and normalising it again changes nothing.
\<close>

theorem normalize_uint256_hex_spec:
  "(case normalize_uint256_hex value of
      Inr r \<Rightarrow> \<exists>digits. r = ''0x'' @ digits \<and> length digits = 64 \<and> list_all is_lower_hex digits \<and>
                 hex_number digits = hex_number (strip_0x value) \<and> normalize_uint256_hex r = Inr r
    | Inl e \<Rightarrow> True) \<and>
   ((\<exists>r. normalize_uint256_hex value = Inr r) \<longleftrightarrow>
      strip_0x value \<noteq> [] \<and> length (strip_0x value) \<le> 64 \<and> list_all is_ascii_hexdigit (strip_0x value))"
proof (cases "normalize_uint256_hex value")
  case (Inr r)
  let ?d = "pad64 (to_ascii_lowercase (strip_0x value))"
  have ok: "strip_0x value \<noteq> []" "length (strip_0x value) \<le> 64" "list_all is_ascii_hexdigit (strip_0x value)"
    and r: "r = ''0x'' @ ?d"
    using Inr by (simp_all add: normalize_uint256_hex_ok)
  have d: "length ?d = 64" "list_all is_lower_hex ?d" "hex_number ?d = hex_number (strip_0x value)"
    using ok by (simp_all add: length_pad64 pad64_lower_hex lower_hexdigits hex_number_pad64 hex_number_lower)
  with ok r Inr normalize_uint256_hex_normal [OF d(1,2)] show ?thesis by auto
next
  case (Inl e)
  then have "normalize_uint256_hex value \<noteq> Inr (''0x'' @ pad64 (to_ascii_lowercase (strip_0x value)))" by simp
  then have "\<not> (strip_0x value \<noteq> [] \<and> length (strip_0x value) \<le> 64 \<and> list_all is_ascii_hexdigit (strip_0x value))"
    unfolding normalize_uint256_hex_ok by blast
  with Inl show ?thesis by simp
qed

end
