(* ===== verification/Dh.thy ===== *)
theory Dh
  imports Message
begin

unbundle bit_operations_syntax

text \<open>
  \<open>bee_connect/src/dh.rs\<close>: the X25519 handshake, the session keys and the re-keying of every
  message.  Clock readings and random draws are arguments.  The package \<open>x25519-dalek\<close> keeps a
  secret's bytes as they are, so \<open>StaticSecret::from(b).to_bytes()\<close> is \<open>b\<close>.
\<close>

section \<open>Keys\<close>

definition SIGNING_KEY_INFO :: "byte list" where "SIGNING_KEY_INFO = as_bytes ''bee_connect.signing.v1''"
definition ENCRYPTION_KEY_INFO :: "byte list" where "ENCRYPTION_KEY_INFO = as_bytes ''bee_connect.encryption.v1''"
definition REKEY_INFO :: "byte list" where "REKEY_INFO = as_bytes ''bee_connect.rekey.v1''"
definition DEFAULT_SESSION_TTL_SECS :: u64 where "DEFAULT_SESSION_TTL_SECS = 24 * 60 * 60"

record DhKeyPair =
  dk_public_hex :: string
  dk_secret_hex :: string

record DhSessionKeys =
  sk_signing_public_hex :: string
  sk_signing_secret_hex :: string
  sk_encryption_root_hex :: string

definition generate_dh_keypair :: "crypto \<Rightarrow> byte list result \<Rightarrow> DhKeyPair result" where
  "generate_dh_keypair cr draw =
     and_then (map_err (\<lambda>e. ''Failed to generate random bytes: '' @ e) draw) (\<lambda>secret.
     Inr \<lparr> dk_public_hex = cr_hex_encode cr (cr_x25519_public cr secret),
           dk_secret_hex = cr_hex_encode cr secret \<rparr>)"

definition compute_shared_secret :: "crypto \<Rightarrow> string \<Rightarrow> string \<Rightarrow> string result" where
  "compute_shared_secret cr my_secret_hex their_public_hex =
     and_then (map_err (\<lambda>e. ''Decode DH secret hex ('' @ e @ '')'') (cr_hex_decode cr my_secret_hex)) (\<lambda>my_secret.
     and_then (guard (length my_secret \<noteq> 32) ''DH secret must be 32 bytes'') (\<lambda>_.
     and_then (map_err (\<lambda>e. ''Decode DH public hex ('' @ e @ '')'') (cr_hex_decode cr their_public_hex)) (\<lambda>their_public.
     and_then (guard (length their_public \<noteq> 32) ''DH public key must be 32 bytes'') (\<lambda>_.
     let shared = cr_x25519 cr my_secret their_public
     in if list_all (\<lambda>b. b = 0) shared then Inl ''DH shared secret is zero (invalid peer public key)''
        else Inr (cr_hex_encode cr shared)))))"

definition derive_session_keys :: "crypto \<Rightarrow> string \<Rightarrow> string \<Rightarrow> DhSessionKeys result" where
  "derive_session_keys cr shared_secret_hex session_id =
     and_then (map_err (\<lambda>e. ''Decode shared secret hex ('' @ e @ '')'') (cr_hex_decode cr shared_secret_hex)) (\<lambda>shared.
     if length shared \<noteq> 32 then Inl (''Shared secret must be 32 bytes, got '' @ show_nat (length shared))
     else
       let salt = as_bytes session_id
       in and_then (map_err (\<lambda>e. ''HKDF expand signing key ('' @ e @ '')'') (cr_hkdf cr salt shared SIGNING_KEY_INFO)) (\<lambda>signing_seed.
          and_then (map_err (\<lambda>e. ''HKDF expand encryption root ('' @ e @ '')'') (cr_hkdf cr salt shared ENCRYPTION_KEY_INFO)) (\<lambda>root.
          Inr \<lparr> sk_signing_public_hex = cr_hex_encode cr (cr_ed25519_public cr signing_seed),
                sk_signing_secret_hex = cr_hex_encode cr signing_seed,
                sk_encryption_root_hex = cr_hex_encode cr root \<rparr>)))"

section \<open>Session state\<close>

record ConnectSessionState =
  cs_encryption_root :: string
  cs_my_dh_secret :: string
  cs_peer_dh_public :: string
  cs_signing_public :: string
  cs_signing_secret :: string
  cs_created_at :: u64
  cs_expires_at :: u64
  cs_last_seen_seq :: u64
  cs_last_sent_seq :: u64

definition is_expired :: "u64 \<Rightarrow> ConnectSessionState \<Rightarrow> bool" where
  "is_expired now state = (if cs_expires_at state = 0 then False else now \<ge> cs_expires_at state)"

definition ensure_not_expired :: "u64 \<Rightarrow> ConnectSessionState \<Rightarrow> unit result" where
  "ensure_not_expired now state =
     guard (is_expired now state)
       (''Connect session expired at '' @ show_u (cs_expires_at state) @
        '' (created_at='' @ show_u (cs_created_at state) @ '')'')"

text \<open>\<open>last_sent_seq + 1\<close> wraps in release builds.\<close>

definition next_outbound_seq :: "u64 result \<Rightarrow> ConnectSessionState \<Rightarrow> u64 result" where
  "next_outbound_seq now_millis state =
     and_then now_millis (\<lambda>now. Inr (max now (cs_last_sent_seq state + 1)))"

record RekeyResult =
  rr_message_encryption_root :: string
  rr_new_dh_public :: "string option"
  rr_updated_state :: ConnectSessionState
  rr_outbound_seq :: u64

definition create_initial_state :: "u64 \<Rightarrow> DhSessionKeys \<Rightarrow> string \<Rightarrow> string \<Rightarrow> ConnectSessionState" where
  "create_initial_state now session_keys my_dh_secret_hex peer_dh_public_hex =
     \<lparr> cs_encryption_root = sk_encryption_root_hex session_keys, cs_my_dh_secret = my_dh_secret_hex,
       cs_peer_dh_public = peer_dh_public_hex, cs_signing_public = sk_signing_public_hex session_keys,
       cs_signing_secret = sk_signing_secret_hex session_keys, cs_created_at = now,
       cs_expires_at = now + DEFAULT_SESSION_TTL_SECS, cs_last_seen_seq = 0, cs_last_sent_seq = 0 \<rparr>"

definition derive_rekey_root :: "crypto \<Rightarrow> string \<Rightarrow> string \<Rightarrow> string \<Rightarrow> string result" where
  "derive_rekey_root cr current_root_hex shared_secret_hex session_id =
     and_then (map_err (\<lambda>e. ''Decode current root hex ('' @ e @ '')'') (cr_hex_decode cr current_root_hex)) (\<lambda>root.
     if length root \<noteq> 32 then Inl (''Encryption root must be 32 bytes, got '' @ show_nat (length root))
     else
     and_then (map_err (\<lambda>e. ''Decode shared secret hex ('' @ e @ '')'') (cr_hex_decode cr shared_secret_hex)) (\<lambda>shared.
     if length shared \<noteq> 32 then Inl (''Shared secret must be 32 bytes, got '' @ show_nat (length shared))
     else
       let ikm = root @ shared; salt = as_bytes session_id
       in and_then (map_err (\<lambda>e. ''HKDF expand rekey root ('' @ e @ '')'') (cr_hkdf cr salt ikm REKEY_INFO)) (\<lambda>new_root.
          Inr (cr_hex_encode cr new_root))))"

definition rekey_outbound ::
  "crypto \<Rightarrow> u64 \<Rightarrow> byte list result \<Rightarrow> ConnectSessionState \<Rightarrow> string \<Rightarrow> u64 \<Rightarrow> RekeyResult result" where
  "rekey_outbound cr now draw state session_id outbound_seq =
     and_then (ensure_not_expired now state) (\<lambda>_.
     if outbound_seq = 0 then Inl ''rekey_outbound: outbound_seq must be > 0''
     else if outbound_seq \<le> cs_last_sent_seq state
     then Inl (''rekey_outbound: seq '' @ show_u outbound_seq @ '' is not monotonically increasing (last_sent='' @
               show_u (cs_last_sent_seq state) @ '')'')
     else
     and_then (generate_dh_keypair cr draw) (\<lambda>new_dh.
     and_then (compute_shared_secret cr (dk_secret_hex new_dh) (cs_peer_dh_public state)) (\<lambda>shared.
     and_then (derive_rekey_root cr (cs_encryption_root state) shared session_id) (\<lambda>new_root.
     Inr \<lparr> rr_message_encryption_root = new_root, rr_new_dh_public = Some (dk_public_hex new_dh),
           rr_updated_state = state\<lparr>cs_encryption_root := new_root, cs_my_dh_secret := dk_secret_hex new_dh,
                                    cs_last_sent_seq := outbound_seq\<rparr>,
           rr_outbound_seq = outbound_seq \<rparr>))))"

text \<open>The message of a replay contains a dash outside ASCII, here its three UTF-8 bytes.\<close>

definition em_dash :: string where
  "em_dash = map char_of [226, 128, 148 :: nat]"

definition rekey_inbound ::
  "crypto \<Rightarrow> u64 \<Rightarrow> ConnectSessionState \<Rightarrow> string \<Rightarrow> string \<Rightarrow> u64 \<Rightarrow> RekeyResult result" where
  "rekey_inbound cr now state peer_new_dh_public session_id incoming_seq =
     and_then (ensure_not_expired now state) (\<lambda>_.
     if incoming_seq = 0 then Inl ''rekey_inbound: incoming seq must be > 0''
     else if incoming_seq \<le> cs_last_seen_seq state
     then Inl (''rekey_inbound: replay detected '' @ em_dash @ '' incoming seq '' @ show_u incoming_seq @
               '' <= last_seen_seq '' @ show_u (cs_last_seen_seq state))
     else
     and_then (compute_shared_secret cr (cs_my_dh_secret state) peer_new_dh_public) (\<lambda>shared.
     and_then (derive_rekey_root cr (cs_encryption_root state) shared session_id) (\<lambda>new_root.
     Inr \<lparr> rr_message_encryption_root = new_root, rr_new_dh_public = None,
           rr_updated_state = state\<lparr>cs_encryption_root := new_root, cs_peer_dh_public := peer_new_dh_public,
                                    cs_last_seen_seq := incoming_seq\<rparr>,
           rr_outbound_seq = 0 \<rparr>)))"

section \<open>Agreement of the two parties\<close>

text \<open>The two states match: one root, and each holds the public key of the other's secret.\<close>

definition in_sync :: "crypto \<Rightarrow> ConnectSessionState \<Rightarrow> ConnectSessionState \<Rightarrow> bool" where
  "in_sync cr a b =
     (crypto_ok cr \<and> cs_encryption_root a = cs_encryption_root b \<and>
      (\<exists>root sa sb. length root = 32 \<and> length sa = 32 \<and> length sb = 32 \<and>
         cs_encryption_root a = cr_hex_encode cr root \<and>
         cs_my_dh_secret a = cr_hex_encode cr sa \<and> cs_my_dh_secret b = cr_hex_encode cr sb \<and>
         cs_peer_dh_public a = cr_hex_encode cr (cr_x25519_public cr sb) \<and>
         cs_peer_dh_public b = cr_hex_encode cr (cr_x25519_public cr sa)))"

lemma in_sync_sym: "in_sync cr a b \<Longrightarrow> in_sync cr b a"
  unfolding in_sync_def by metis

lemma compute_shared_secret_hex:
  assumes "crypto_ok cr" "length s = 32" "length p = 32"
  shows "compute_shared_secret cr (cr_hex_encode cr s) (cr_hex_encode cr p) =
     (if list_all (\<lambda>b. b = 0) (cr_x25519 cr s p) then Inl ''DH shared secret is zero (invalid peer public key)''
      else Inr (cr_hex_encode cr (cr_x25519 cr s p)))"
  using assms by (simp add: compute_shared_secret_def crypto_okD(1) Let_def)

lemma compute_shared_secret_commute:
  assumes "crypto_ok cr" "length s = 32" "length t = 32"
  shows "compute_shared_secret cr (cr_hex_encode cr s) (cr_hex_encode cr (cr_x25519_public cr t))
       = compute_shared_secret cr (cr_hex_encode cr t) (cr_hex_encode cr (cr_x25519_public cr s))"
  using assms crypto_okD(7,9) [OF assms(1)] by (simp add: compute_shared_secret_hex)

lemma derive_rekey_root_hex:
  assumes "crypto_ok cr" "derive_rekey_root cr root shared session_id = Inr new_root"
  shows "\<exists>bs. length bs = 32 \<and> new_root = cr_hex_encode cr bs"
  using assms crypto_okD(6) [OF assms(1)]
  by (auto simp: derive_rekey_root_def res_simps Let_def split: if_splits) (metis sum.inject(2))

text \<open>
  One message: \<open>dh_send\<close> and \<open>dh_recv\<close> are the two re-keyings with the inputs of a message, its
  session id, the two clocks, the sender's draw and the sequence number.
\<close>

record dh_input =
  di_session_id :: string
  di_send_now :: u64
  di_recv_now :: u64
  di_draw :: "byte list"
  di_seq :: u64

definition dh_send ::
  "crypto \<Rightarrow> dh_input \<Rightarrow> ConnectSessionState \<Rightarrow> string + string \<times> string \<times> ConnectSessionState" where
  "dh_send cr i state =
     and_then (guard (length (di_draw i) \<noteq> 32) ''short draw'') (\<lambda>_.
     and_then (rekey_outbound cr (di_send_now i) (Inr (di_draw i)) state (di_session_id i) (di_seq i)) (\<lambda>r.
     Inr (rr_message_encryption_root r, unwrap_or [] (rr_new_dh_public r), rr_updated_state r)))"

definition dh_recv ::
  "crypto \<Rightarrow> dh_input \<Rightarrow> string \<Rightarrow> ConnectSessionState \<Rightarrow> string + string \<times> ConnectSessionState" where
  "dh_recv cr i peer_public state =
     and_then (rekey_inbound cr (di_recv_now i) state peer_public (di_session_id i) (di_seq i)) (\<lambda>r.
     Inr (rr_message_encryption_root r, rr_updated_state r))"

definition dh_accepts :: "dh_input \<Rightarrow> ConnectSessionState \<Rightarrow> bool" where
  "dh_accepts i state =
     (\<not> is_expired (di_recv_now i) state \<and> di_seq i \<noteq> 0 \<and> cs_last_seen_seq state < di_seq i)"

lemma rekey_outbound_ok:
  "rekey_outbound cr now draw state session_id seq = Inr r \<longleftrightarrow>
     \<not> is_expired now state \<and> seq \<noteq> 0 \<and> cs_last_sent_seq state < seq \<and>
     (\<exists>s shared new_root. draw = Inr s \<and>
        compute_shared_secret cr (cr_hex_encode cr s) (cs_peer_dh_public state) = Inr shared \<and>
        derive_rekey_root cr (cs_encryption_root state) shared session_id = Inr new_root \<and>
        r = \<lparr> rr_message_encryption_root = new_root,
              rr_new_dh_public = Some (cr_hex_encode cr (cr_x25519_public cr s)),
              rr_updated_state = state\<lparr>cs_encryption_root := new_root, cs_my_dh_secret := cr_hex_encode cr s,
                                       cs_last_sent_seq := seq\<rparr>,
              rr_outbound_seq = seq \<rparr>)"
  by (auto simp: rekey_outbound_def ensure_not_expired_def generate_dh_keypair_def res_simps not_le)

lemma rekey_inbound_ok:
  "rekey_inbound cr now state peer session_id seq = Inr r \<longleftrightarrow>
     \<not> is_expired now state \<and> seq \<noteq> 0 \<and> cs_last_seen_seq state < seq \<and>
     (\<exists>shared new_root.
        compute_shared_secret cr (cs_my_dh_secret state) peer = Inr shared \<and>
        derive_rekey_root cr (cs_encryption_root state) shared session_id = Inr new_root \<and>
        r = \<lparr> rr_message_encryption_root = new_root, rr_new_dh_public = None,
              rr_updated_state = state\<lparr>cs_encryption_root := new_root, cs_peer_dh_public := peer,
                                       cs_last_seen_seq := seq\<rparr>,
              rr_outbound_seq = 0 \<rparr>)"
  by (auto simp: rekey_inbound_def ensure_not_expired_def res_simps not_le)

lemma rekey_deliver:
  assumes sync: "in_sync cr a b"
    and out: "rekey_outbound cr now (Inr s) a session_id seq = Inr r" "length s = 32"
    and fresh: "\<not> is_expired now' b" "cs_last_seen_seq b < seq"
  shows "\<exists>r'. rekey_inbound cr now' b (the (rr_new_dh_public r)) session_id seq = Inr r' \<and>
           rr_message_encryption_root r' = rr_message_encryption_root r \<and>
           in_sync cr (rr_updated_state r) (rr_updated_state r') \<and>
           rr_updated_state r' = b\<lparr>cs_encryption_root := rr_message_encryption_root r,
              cs_peer_dh_public := the (rr_new_dh_public r), cs_last_seen_seq := seq\<rparr>"
proof -
  have ok: "crypto_ok cr" using sync by (simp add: in_sync_def)
  obtain sb where sb: "length sb = 32" "cs_my_dh_secret b = cr_hex_encode cr sb"
      "cs_peer_dh_public a = cr_hex_encode cr (cr_x25519_public cr sb)"
    using sync by (auto simp: in_sync_def)
  from out obtain shared new_root where o:
      "seq \<noteq> 0" "compute_shared_secret cr (cr_hex_encode cr s) (cs_peer_dh_public a) = Inr shared"
      "derive_rekey_root cr (cs_encryption_root a) shared session_id = Inr new_root"
      "r = \<lparr> rr_message_encryption_root = new_root,
             rr_new_dh_public = Some (cr_hex_encode cr (cr_x25519_public cr s)),
             rr_updated_state = a\<lparr>cs_encryption_root := new_root, cs_my_dh_secret := cr_hex_encode cr s,
                                  cs_last_sent_seq := seq\<rparr>,
             rr_outbound_seq = seq \<rparr>"
    by (auto simp: rekey_outbound_ok)
  have "compute_shared_secret cr (cs_my_dh_secret b) (cr_hex_encode cr (cr_x25519_public cr s)) = Inr shared"
    using o(2) compute_shared_secret_commute [OF ok out(2) sb(1)] sb by simp
  moreover have "cs_encryption_root a = cs_encryption_root b" using sync by (simp add: in_sync_def)
  moreover obtain root where "length root = 32" "new_root = cr_hex_encode cr root"
    using derive_rekey_root_hex [OF ok o(3)] by blast
  ultimately show ?thesis
    using o fresh sb out(2) ok
    by (auto simp: rekey_inbound_ok in_sync_def)
qed

interpretation dh: ratchet "in_sync cr" dh_accepts "dh_send cr" "dh_recv cr" for cr
proof
  show "in_sync cr b a" if "in_sync cr a b" for a b using that by (rule in_sync_sym)
  show "dh_accepts i b" if "dh_recv cr i m b = Inr (k, b')" for i m b k b'
    using that by (auto simp: dh_recv_def dh_accepts_def rekey_inbound_ok res_simps)
  show "\<exists>b'. dh_recv cr i m b = Inr (k, b') \<and> in_sync cr a' b'"
    if "in_sync cr a b" "dh_send cr i a = Inr (k, m, a')" "dh_accepts i b" for a b i k m a'
  proof -
    from that(2) obtain r where r: "length (di_draw i) = 32"
        "rekey_outbound cr (di_send_now i) (Inr (di_draw i)) a (di_session_id i) (di_seq i) = Inr r"
        "k = rr_message_encryption_root r" "m = unwrap_or [] (rr_new_dh_public r)" "a' = rr_updated_state r"
      by (auto simp: dh_send_def res_simps)
    moreover have "m = the (rr_new_dh_public r)" using r(2,4) by (auto simp: rekey_outbound_ok)
    ultimately show ?thesis
      using rekey_deliver [OF that(1) r(2,1), of "di_recv_now i"] that(3)
      by (auto simp: dh_accepts_def dh_recv_def)
  qed
qed

text \<open>In a matching state a message can be sent unless the draw gives a zero secret.\<close>

lemma rekey_outbound_succeeds:
  assumes "crypto_ok cr" "length root = 32" "length s = 32" "length p = 32"
    and "cs_encryption_root a = cr_hex_encode cr root" "cs_peer_dh_public a = cr_hex_encode cr p"
    and "\<not> list_all (\<lambda>b. b = 0) (cr_x25519 cr s p)"
    and "\<not> is_expired now a" "cs_last_sent_seq a < seq"
  shows "\<exists>r. rekey_outbound cr now (Inr s) a session_id seq = Inr r"
proof -
  obtain k where "cr_hkdf cr (as_bytes session_id) (root @ cr_x25519 cr s p) REKEY_INFO = Inr k"
    using crypto_okD(6) [OF assms(1)] by blast
  then have "derive_rekey_root cr (cs_encryption_root a) (cr_hex_encode cr (cr_x25519 cr s p)) session_id
      = Inr (cr_hex_encode cr k)"
    using assms(2,5) crypto_okD(1,8) [OF assms(1)] by (simp add: derive_rekey_root_def)
  moreover have "compute_shared_secret cr (cr_hex_encode cr s) (cs_peer_dh_public a)
      = Inr (cr_hex_encode cr (cr_x25519 cr s p))"
    using assms compute_shared_secret_hex by simp
  moreover have "seq \<noteq> 0" using assms(9) by auto
  ultimately show ?thesis using assms(8,9) by (auto simp: rekey_outbound_ok)
qed

text \<open>A concrete pair of matching states.\<close>

lemma toy_xor: "map2 (XOR) (replicate n a) (replicate n b) = replicate n (a XOR b :: byte)"
  by (induction n) auto

definition toy_state :: "byte \<Rightarrow> byte \<Rightarrow> ConnectSessionState" where
  "toy_state mine peer =
     \<lparr> cs_encryption_root = hex_enc (replicate 32 9), cs_my_dh_secret = hex_enc (replicate 32 mine),
       cs_peer_dh_public = hex_enc (replicate 32 peer), cs_signing_public = ''p'', cs_signing_secret = ''s'',
       cs_created_at = 0, cs_expires_at = 86400, cs_last_seen_seq = 0, cs_last_sent_seq = 0 \<rparr>"

lemma toy_sync: "in_sync toy_crypto (toy_state a b) (toy_state b a)"
  unfolding in_sync_def
proof (intro conjI exI)
  show "crypto_ok toy_crypto" by (rule toy_crypto_ok)
  show "length (replicate 32 (9 :: byte)) = 32" "length (replicate 32 a) = 32" "length (replicate 32 b) = 32" by simp_all
qed (simp_all add: toy_state_def pad32_id)

lemma toy_send:
  assumes "(0 :: byte) \<noteq> d XOR b" "0 < seq" "now < 86400"
  shows "\<exists>r. rekey_outbound toy_crypto now (Inr (replicate 32 d)) (toy_state a b) session_id seq = Inr r"
proof (rule rekey_outbound_succeeds [OF toy_crypto_ok, of "replicate 32 9" _ "replicate 32 b"])
  show "\<not> list_all (\<lambda>b. b = 0) (cr_x25519 toy_crypto (replicate 32 d) (replicate 32 b))"
    using assms(1) by (auto simp: pad32_id toy_xor list_all_iff)
qed (use assms in \<open>simp_all add: toy_state_def is_expired_def not_le\<close>)

lemma handshake_agrees:
  assumes "crypto_ok cr" "length sc = 32" "length sw = 32"
    and "generate_dh_keypair cr (Inr sc) = Inr client" "generate_dh_keypair cr (Inr sw) = Inr wallet"
    and "compute_shared_secret cr (dk_secret_hex client) (dk_public_hex wallet) = Inr shared"
  shows "compute_shared_secret cr (dk_secret_hex wallet) (dk_public_hex client) = Inr shared \<and>
         (\<exists>keys. derive_session_keys cr shared session_id = Inr keys \<and>
            in_sync cr (create_initial_state now keys (dk_secret_hex client) (dk_public_hex wallet))
                       (create_initial_state now' keys (dk_secret_hex wallet) (dk_public_hex client)))"
proof -
  have keys: "client = \<lparr> dk_public_hex = cr_hex_encode cr (cr_x25519_public cr sc), dk_secret_hex = cr_hex_encode cr sc \<rparr>"
    "wallet = \<lparr> dk_public_hex = cr_hex_encode cr (cr_x25519_public cr sw), dk_secret_hex = cr_hex_encode cr sw \<rparr>"
    using assms(4,5) by (simp_all add: generate_dh_keypair_def)
  have "shared = cr_hex_encode cr (cr_x25519 cr sc (cr_x25519_public cr sw))"
    using assms crypto_okD(7) [OF assms(1)] by (simp add: keys compute_shared_secret_hex split: if_splits)
  moreover obtain seed where "cr_hkdf cr (as_bytes session_id) (cr_x25519 cr sc (cr_x25519_public cr sw)) SIGNING_KEY_INFO = Inr seed"
    using crypto_okD(6) [OF assms(1)] by blast
  moreover obtain root where root: "cr_hkdf cr (as_bytes session_id) (cr_x25519 cr sc (cr_x25519_public cr sw)) ENCRYPTION_KEY_INFO = Inr root"
      "length root = 32"
    using crypto_okD(6) [OF assms(1)] by blast
  ultimately have derive: "derive_session_keys cr shared session_id = Inr \<lparr> sk_signing_public_hex = cr_hex_encode cr (cr_ed25519_public cr seed),
      sk_signing_secret_hex = cr_hex_encode cr seed, sk_encryption_root_hex = cr_hex_encode cr root \<rparr>"
    (is "_ = Inr ?keys")
    using crypto_okD(1,8) [OF assms(1)] by (simp add: derive_session_keys_def)
  have "in_sync cr (create_initial_state now ?keys (dk_secret_hex client) (dk_public_hex wallet))
                   (create_initial_state now' ?keys (dk_secret_hex wallet) (dk_public_hex client))"
    unfolding in_sync_def
  proof (intro conjI exI)
    show "length root = 32" "length sc = 32" "length sw = 32" "crypto_ok cr" by fact+
  qed (simp_all add: create_initial_state_def keys)
  with derive show ?thesis
    using assms(6) compute_shared_secret_commute [OF assms(1-3)] by (auto simp: keys)
qed

text \<open>
  Further property.  The handshake agrees: the two parties, each with its own secret and the other's
  public key, compute the same shared secret, derive the same signing keys and encryption root,
  and start in matching states (unless the shared secret is zero, which both reject).
\<close>

theorem dh_handshake_agrees:
  assumes "crypto_ok cr" "length sc = 32" "length sw = 32"
    and "generate_dh_keypair cr (Inr sc) = Inr client" "generate_dh_keypair cr (Inr sw) = Inr wallet"
    and "compute_shared_secret cr (dk_secret_hex client) (dk_public_hex wallet) = Inr shared"
  shows "compute_shared_secret cr (dk_secret_hex wallet) (dk_public_hex client) = Inr shared \<and>
         (\<exists>keys. derive_session_keys cr shared session_id = Inr keys \<and>
            in_sync cr (create_initial_state now keys (dk_secret_hex client) (dk_public_hex wallet))
                       (create_initial_state now' keys (dk_secret_hex wallet) (dk_public_hex client)))"
  using handshake_agrees [OF assms] .

theorem dh_handshake_agrees_witness:
  "\<exists>shared keys.
     compute_shared_secret toy_crypto (hex_enc (replicate 32 2)) (hex_enc (replicate 32 1)) = Inr shared \<and>
     derive_session_keys toy_crypto shared ''sid'' = Inr keys"
proof -
  let ?k = "\<lambda>b. \<lparr> dk_public_hex = hex_enc (replicate 32 b), dk_secret_hex = hex_enc (replicate 32 b) \<rparr>"
  have gen: "generate_dh_keypair toy_crypto (Inr (replicate 32 b)) = Inr (?k b)" for b
    by (simp add: generate_dh_keypair_def pad32_id)
  have "\<exists>shared. compute_shared_secret toy_crypto (hex_enc (replicate 32 1)) (hex_enc (replicate 32 2)) = Inr shared"
    using compute_shared_secret_hex [OF toy_crypto_ok, of "replicate 32 1" "replicate 32 2"]
    by (simp add: pad32_id toy_xor list_all_iff)
  then obtain shared where
    "compute_shared_secret toy_crypto (dk_secret_hex (?k 1)) (dk_public_hex (?k 2)) = Inr shared" by auto
  from dh_handshake_agrees [OF toy_crypto_ok _ _ gen gen this, of "''sid''" 0 0] show ?thesis by auto
qed

text \<open>
  Property C9.  The ratchet keeps the parties together: in any conversation in which every message is
  delivered before the next is sent, in whatever order the two parties speak, the key the receiver
  derives is the key the sender used for every message, and the states match at the end.
\<close>

theorem ratchet_conversation_agrees:
  assumes "in_sync cr a b"
    and "converse (dh_send cr) (dh_recv cr) messages a b = Inr (keys, a', b')"
  shows "in_sync cr a' b' \<and> length keys = length messages \<and> (\<forall>(sent, received) \<in> set keys. sent = received)"
  using dh.converse_agree [OF assms] by simp

theorem ratchet_conversation_agrees_witness:
  "\<exists>keys a b. converse (dh_send toy_crypto) (dh_recv toy_crypto)
     [(True, \<lparr> di_session_id = ''sid'', di_send_now = 1, di_recv_now = 2, di_draw = replicate 32 4, di_seq = 10 \<rparr>)]
     (toy_state 1 2) (toy_state 2 1) = Inr (keys, a, b) \<and> length keys = 1 \<and> in_sync toy_crypto a b"
proof -
  let ?i = "\<lparr> di_session_id = ''sid'', di_send_now = 1, di_recv_now = 2, di_draw = replicate 32 4, di_seq = 10 \<rparr>"
  obtain r where r: "rekey_outbound toy_crypto 1 (Inr (replicate 32 4)) (toy_state 1 2) ''sid'' 10 = Inr r"
    using toy_send [of 4 2 10 1 1 "''sid''"] by auto
  then obtain pub where "rr_new_dh_public r = Some pub" by (auto simp: rekey_outbound_ok)
  with r have "dh_send toy_crypto ?i (toy_state 1 2) = Inr (rr_message_encryption_root r, pub, rr_updated_state r)"
    by (simp add: dh_send_def)
  moreover have "dh_accepts ?i (toy_state 2 1)" by (simp add: dh_accepts_def toy_state_def is_expired_def)
  ultimately obtain b where "converse (dh_send toy_crypto) (dh_recv toy_crypto) [(True, ?i)] (toy_state 1 2) (toy_state 2 1)
      = Inr ([(rr_message_encryption_root r, rr_message_encryption_root r)], rr_updated_state r, b)"
    using dh.deliver [OF toy_sync] by fastforce
  with ratchet_conversation_agrees [OF toy_sync this] show ?thesis by auto
qed

text \<open>
  Further property.  A message sent in a matching state is always accepted by the receiver, as long as its
  session has not expired and the sequence number is above every one it has seen.
\<close>

theorem ratchet_message_accepted:
  assumes "in_sync cr a b" "length s = 32"
    and "rekey_outbound cr now (Inr s) a session_id seq = Inr r"
    and "\<not> is_expired now' b" "cs_last_seen_seq b < seq"
  shows "\<exists>r'. rekey_inbound cr now' b (the (rr_new_dh_public r)) session_id seq = Inr r' \<and>
           rr_message_encryption_root r' = rr_message_encryption_root r \<and>
           in_sync cr (rr_updated_state r) (rr_updated_state r')"
  using rekey_deliver [OF assms(1,3,2,4,5)] by blast

theorem ratchet_message_accepted_witness:
  "\<exists>r r'. rekey_outbound toy_crypto 1 (Inr (replicate 32 4)) (toy_state 1 2) ''sid'' 10 = Inr r \<and>
     rekey_inbound toy_crypto 2 (toy_state 2 1) (the (rr_new_dh_public r)) ''sid'' 10 = Inr r'"
proof -
  obtain r where r: "rekey_outbound toy_crypto 1 (Inr (replicate 32 4)) (toy_state 1 2) ''sid'' 10 = Inr r"
    using toy_send [of 4 2 10 1 1 "''sid''"] by auto
  from ratchet_message_accepted [OF toy_sync _ r, of 2] r show ?thesis
    by (auto simp: toy_state_def is_expired_def)
qed

text \<open>Any number of re-keyings from one state to another.\<close>

inductive session_steps :: "crypto \<Rightarrow> ConnectSessionState \<Rightarrow> ConnectSessionState \<Rightarrow> bool" for cr where
  no_steps: "session_steps cr s s"
| outbound: "session_steps cr s t \<Longrightarrow> rekey_outbound cr now draw t session_id seq = Inr r \<Longrightarrow>
     session_steps cr s (rr_updated_state r)"
| inbound: "session_steps cr s t \<Longrightarrow> rekey_inbound cr now t peer session_id seq = Inr r \<Longrightarrow>
     session_steps cr s (rr_updated_state r)"

lemma session_steps_monotone:
  "session_steps cr s t \<Longrightarrow>
     cs_last_seen_seq s \<le> cs_last_seen_seq t \<and> cs_last_sent_seq s \<le> cs_last_sent_seq t \<and>
     cs_signing_public t = cs_signing_public s \<and> cs_signing_secret t = cs_signing_secret s \<and>
     cs_created_at t = cs_created_at s \<and> cs_expires_at t = cs_expires_at s"
  by (induction rule: session_steps.induct) (auto simp: rekey_outbound_ok rekey_inbound_ok)

text \<open>
  Property C10.  No replay: after an inbound message with sequence number \<open>seq\<close>, every later inbound
  message with this number or a smaller one is refused, whatever key it carries and however many
  other messages were sent or received in between; the signing keys and the expiry never change.
\<close>

theorem rekey_no_replay:
  assumes "rekey_inbound cr now s peer session_id seq = Inr r"
    and "session_steps cr (rr_updated_state r) t"
    and "seq' \<le> seq"
  shows "(\<exists>e. rekey_inbound cr now' t peer' session_id' seq' = Inl e) \<and>
         cs_signing_public t = cs_signing_public s \<and> cs_signing_secret t = cs_signing_secret s \<and>
         cs_expires_at t = cs_expires_at s"
proof -
  have "cs_last_seen_seq (rr_updated_state r) = seq" "cs_signing_public (rr_updated_state r) = cs_signing_public s"
    "cs_signing_secret (rr_updated_state r) = cs_signing_secret s" "cs_expires_at (rr_updated_state r) = cs_expires_at s"
    using assms(1) by (auto simp: rekey_inbound_ok)
  with session_steps_monotone [OF assms(2)] assms(3)
  have "\<not> cs_last_seen_seq t < seq'" "cs_signing_public t = cs_signing_public s"
    "cs_signing_secret t = cs_signing_secret s" "cs_expires_at t = cs_expires_at s"
    by auto
  moreover from this(1) have "rekey_inbound cr now' t peer' session_id' seq' \<noteq> Inr r'" for r'
    by (simp add: rekey_inbound_ok)
  ultimately show ?thesis
    by (cases "rekey_inbound cr now' t peer' session_id' seq'") auto
qed

theorem rekey_no_replay_witness:
  "\<exists>r. rekey_inbound toy_crypto 2 (toy_state 2 1) (hex_enc (replicate 32 4)) ''sid'' 10 = Inr r \<and>
     (\<exists>e. rekey_inbound toy_crypto 3 (rr_updated_state r) (hex_enc (replicate 32 4)) ''sid'' 10 = Inl e)"
proof -
  obtain q where q: "rekey_outbound toy_crypto 1 (Inr (replicate 32 4)) (toy_state 1 2) ''sid'' 10 = Inr q"
    using toy_send [of 4 2 10 1 1 "''sid''"] by auto
  then have "the (rr_new_dh_public q) = hex_enc (replicate 32 4)"
    by (auto simp: rekey_outbound_ok pad32_id)
  with rekey_deliver [OF toy_sync q, of 2] obtain r where
    r: "rekey_inbound toy_crypto 2 (toy_state 2 1) (hex_enc (replicate 32 4)) ''sid'' 10 = Inr r"
    by (auto simp: toy_state_def is_expired_def)
  from rekey_no_replay [OF r session_steps.no_steps, of 10] r show ?thesis by auto
qed

text \<open>
  Further property.  The next outbound sequence number is above the last one and usable for an outbound
  message, except at the very end of the range: after the number \<open>2 ^ 64 - 1\<close> the increment wraps,
  and no number is accepted any more.
\<close>

theorem next_outbound_seq_increases:
  "(case next_outbound_seq (Inr now) state of
      Inr seq \<Rightarrow> if cs_last_sent_seq state = - 1
                 then (\<forall>t draw session_id r. rekey_outbound cr t draw state session_id seq \<noteq> Inr r)
                 else cs_last_sent_seq state < seq \<and> now \<le> seq
    | Inl e \<Rightarrow> False)"
proof (cases "cs_last_sent_seq state = - 1")
  case True
  then have "\<not> cs_last_sent_seq state < seq" for seq by (simp add: word_order.extremum_strict)
  then show ?thesis using True by (simp add: next_outbound_seq_def rekey_outbound_ok)
next
  case False
  then have "cs_last_sent_seq state < cs_last_sent_seq state + 1"
    using inc_less_eq_self_iff_eq [of "cs_last_sent_seq state"] by (simp add: not_le [symmetric])
  then show ?thesis using False by (auto simp: next_outbound_seq_def max_def)
qed

end
