(* ===== verification/Errors.thy ===== *)
theory Errors
  imports Infra
begin

text \<open>
  The crate \<open>bee_errors\<close>: the error value \<open>AppError\<close> all other crates return, its builders, and the
  conversions from the errors of the chain client and of the contract kit.  The JSON value of a
  client error (\<open>serde_json::to_value\<close>) and the \<open>Debug\<close> texts of the kit's enumerations are
  arguments.
\<close>

section \<open>The error value\<close>

record AppError =
  ae_message :: string
  ae_details :: "string option"
  ae_module :: "string option"
  ae_error_code :: "string option"
  ae_kind :: "string option"
  ae_tvm_error :: "json option"

definition app_error_new :: "string \<Rightarrow> AppError" where
  "app_error_new message =
     \<lparr> ae_message = message, ae_details = None, ae_module = None, ae_error_code = None, ae_kind = None,
       ae_tvm_error = None \<rparr>"

definition with_details :: "string \<Rightarrow> AppError \<Rightarrow> AppError" where
  "with_details details e = e\<lparr>ae_details := Some details\<rparr>"

definition with_code :: "string \<Rightarrow> AppError \<Rightarrow> AppError" where
  "with_code code e = e\<lparr>ae_error_code := Some code\<rparr>"

definition with_module :: "string \<Rightarrow> AppError \<Rightarrow> AppError" where
  "with_module m e = e\<lparr>ae_module := Some m\<rparr>"

definition with_kind :: "string \<Rightarrow> AppError \<Rightarrow> AppError" where
  "with_kind k e = e\<lparr>ae_kind := Some k\<rparr>"

definition with_context :: "string \<Rightarrow> AppError \<Rightarrow> AppError" where
  "with_context context e =
     e\<lparr>ae_message := context @ '': '' @ ae_message e,
       ae_details := Some (case ae_details e of
                             Some details \<Rightarrow> context @ ''; '' @ details
                           | None \<Rightarrow> context)\<rparr>"

text \<open>\<open>From<String>\<close> and \<open>From<serde_json::Error>\<close>; the others differ in the kind only.\<close>

definition app_error_from_string :: "string \<Rightarrow> AppError" where
  "app_error_from_string message = app_error_new message"

definition app_error_from_json :: "string \<Rightarrow> AppError" where
  "app_error_from_json message = with_kind ''json'' (app_error_new message)"

section \<open>Errors of the chain\<close>

text \<open>
  The derived deserialisation of a struct with one optional field: from an object, whose other
  fields are ignored, or from a sequence of at most one element.  \<open>None\<close> is a failure, and \<open>null\<close>
  counts as a missing field.
\<close>

fun optional_field :: "string \<Rightarrow> json \<Rightarrow> json option option" where
  "optional_field k (JObj fs) =
     Some (case map_of fs k of None \<Rightarrow> None | Some v \<Rightarrow> if v = JNull then None else Some v)"
| "optional_field k (JArr []) = Some None"
| "optional_field k (JArr [v]) = Some (if v = JNull then None else Some v)"
| "optional_field k _ = None"

definition sub_field :: "string \<Rightarrow> json option option \<Rightarrow> json option option" where
  "sub_field k v = (case v of None \<Rightarrow> None | Some None \<Rightarrow> Some None | Some (Some j) \<Rightarrow> optional_field k j)"

definition json_u32 :: "json option option \<Rightarrow> u32 option option" where
  "json_u32 v =
     (case v of
        None \<Rightarrow> None
      | Some None \<Rightarrow> Some None
      | Some (Some (JNum n)) \<Rightarrow> if unat n < 2 ^ 32 then Some (Some (ucast n)) else None
      | Some (Some _) \<Rightarrow> None)"

definition extract_exit_code :: "ClientError \<Rightarrow> u32 option" where
  "extract_exit_code err =
     Option.bind (json_u32 (sub_field ''exit_code'' (sub_field ''details'' (sub_field ''extensions''
       (optional_field ''node_error'' (ce_data err)))))) id"

text \<open>The \<open>Debug\<close> text of an optional number.\<close>

definition debug_opt_u32 :: "u32 option \<Rightarrow> string" where
  "debug_opt_u32 v = (case v of None \<Rightarrow> ''None'' | Some n \<Rightarrow> ''Some('' @ show_u n @ '')'')"

definition app_error_from_client :: "(ClientError \<Rightarrow> json result) \<Rightarrow> ClientError \<Rightarrow> AppError" where
  "app_error_from_client to_value e =
     (let code = show_u (ce_code e);
          details = ''tvm_code='' @ show_u (ce_code e) @ '', tvm_details='' @ ce_display e @
                    '', exit_code='' @ debug_opt_u32 (extract_exit_code e);
          tvm_error = res_ok (to_value e);
          err = with_details details (with_code code (with_module ''tvm'' (with_kind ''tvm''
                  (app_error_new (ce_message e)))))
      in err\<lparr>ae_tvm_error := tvm_error\<rparr>)"

text \<open>The modules and codes of the contract kit, with the payload the sources ignore.\<close>

datatype 'm KitModule =
  MvSystem 'm | BkSystem 'm | AuthService 'm | Token 'm | Account | Event | MvConfig | Multisig |
  Giver 'm | Accumulator 'm | Exchange 'm | External string | OtherModule 'm

fun module_prefix :: "'m KitModule \<Rightarrow> string" where
  "module_prefix (MvSystem _) = ''mvsystem''"
| "module_prefix (BkSystem _) = ''bksystem''"
| "module_prefix (AuthService _) = ''authservice''"
| "module_prefix (Token _) = ''token''"
| "module_prefix Account = ''account''"
| "module_prefix Event = ''event''"
| "module_prefix MvConfig = ''mvconfig''"
| "module_prefix Multisig = ''multisig''"
| "module_prefix (Giver _) = ''giver''"
| "module_prefix (Accumulator _) = ''accumulator''"
| "module_prefix (Exchange _) = ''exchange''"
| "module_prefix (External name) = name"
| "module_prefix (OtherModule _) = ''unknown''"

record kit_code =
  kc_none :: bool
  kc_as_i32 :: string
  kc_debug :: string

record 'm KitError =
  ke_module :: "'m KitModule"
  ke_code :: kit_code
  ke_message :: string
  ke_tvm_error :: "ClientError option"

definition app_error_from_kit ::
  "('m KitModule \<Rightarrow> string) \<Rightarrow> (ClientError \<Rightarrow> json result) \<Rightarrow> 'm KitError \<Rightarrow> AppError" where
  "app_error_from_kit debug_module to_value e =
     (let kit_module = module_prefix (ke_module e);
          (kind, module_name, code) =
            (if \<not> kc_none (ke_code e) then (''kit'', kit_module, kc_as_i32 (ke_code e))
             else case ke_tvm_error e of
                    Some te \<Rightarrow>
                      (case extract_exit_code te of
                         Some exit_code \<Rightarrow> (''tvm_exit'', kit_module, show_u exit_code)
                       | None \<Rightarrow> (''tvm'', ''tvm'', show_u (ce_code te)))
                  | None \<Rightarrow> (''kit'', kit_module, kc_as_i32 (ke_code e)));
          details =
            (case ke_tvm_error e of
               Some te \<Rightarrow> ''kit_module='' @ debug_module (ke_module e) @ '', kit_code='' @ kc_debug (ke_code e) @
                          '', tvm_code='' @ show_u (ce_code te) @ '', exit_code='' @
                          debug_opt_u32 (extract_exit_code te) @ '', tvm_details='' @ ce_display te
             | None \<Rightarrow> ''kit_module='' @ debug_module (ke_module e) @ '', kit_code='' @ kc_debug (ke_code e));
          tvm_error = Option.bind (ke_tvm_error e) (\<lambda>te. res_ok (to_value te));
          err = with_details details (with_code code (with_module module_name (with_kind kind
                  (app_error_new (ke_message e)))))
      in err\<lparr>ae_tvm_error := tvm_error\<rparr>)"

section \<open>Contexts\<close>

text \<open>
  A chain of contexts keeps the error: the message ends in the original message, the details list
  the contexts from the outermost to the innermost and then the original details, and code, kind,
  module and the raw chain error are those of the origin.
\<close>

lemma with_context_chain:
  "ae_message (fold with_context cs e) = concat (map (\<lambda>c. c @ '': '') (rev cs)) @ ae_message e"
  "ae_error_code (fold with_context cs e) = ae_error_code e" "ae_kind (fold with_context cs e) = ae_kind e"
  "ae_module (fold with_context cs e) = ae_module e" "ae_tvm_error (fold with_context cs e) = ae_tvm_error e"
  by (induction cs arbitrary: e) (auto simp: with_context_def)

text \<open>
  Further property.  Classification of kit errors: a real kit code always wins and is reported with the
  kit's module; without one, an exit code found in the chain error is reported as \<open>tvm_exit\<close>, any
  other chain error with the client's own code; the raw chain error is attached whenever it
  serialises, and contexts added later change none of this.
\<close>

theorem kit_error_classification:
  "let a = fold with_context cs (app_error_from_kit debug_module to_value e);
       kit = (''kit'', module_prefix (ke_module e), kc_as_i32 (ke_code e))
   in (the (ae_kind a), the (ae_module a), the (ae_error_code a)) =
        (if kc_none (ke_code e)
         then (case ke_tvm_error e of
                 None \<Rightarrow> kit
               | Some te \<Rightarrow> (case extract_exit_code te of
                              Some n \<Rightarrow> (''tvm_exit'', module_prefix (ke_module e), show_u n)
                            | None \<Rightarrow> (''tvm'', ''tvm'', show_u (ce_code te))))
         else kit) \<and>
      ae_kind a \<noteq> None \<and> ae_module a \<noteq> None \<and> ae_error_code a \<noteq> None \<and>
      ae_tvm_error a = Option.bind (ke_tvm_error e) (\<lambda>te. res_ok (to_value te)) \<and>
      ae_message a = concat (map (\<lambda>c. c @ '': '') (rev cs)) @ ke_message e"
  by (auto simp: Let_def with_context_chain app_error_from_kit_def with_details_def with_code_def
      with_module_def with_kind_def app_error_new_def split: option.splits)

end
