(* ===== verification/ConnectClient.thy ===== *)
theory ConnectClient
  imports Dh Errors
begin

text \<open>
  \<open>bee_connect/src/client.rs\<close>: the client side of the connect protocol.  Sessions are created as
  deep links, messages are encoded into envelopes and written to the session's profile contract,
  and the events of the profile are scanned for the answers.

  The chain, the clocks, the random generator and the typed JSON decoders are the fields of
  \<open>connect_env\<close>; \<open>'w\<close> is the world they act on and \<open>'r\<close> a handle of the root contract.  Errors of
  the contract kit reach these definitions as \<open>AppError\<close>, converted as in \<open>Errors\<close>.
\<close>

section \<open>Data\<close>

definition CONNECT_DEEPLINK_RESOLVER_URL :: string where
  "CONNECT_DEEPLINK_RESOLVER_URL = ''https://links.gosh.sh''"
definition CONNECT_DEEPLINK_PATH :: string where "CONNECT_DEEPLINK_PATH = ''/deeplinks/wallet/v1/connect''"
definition DEFAULT_CONNECT_TTL_SECS :: u64 where "DEFAULT_CONNECT_TTL_SECS = 300"
definition ACTIVE_SESSIONS_CHUNK_SIZE :: nat where "ACTIVE_SESSIONS_CHUNK_SIZE = 10"
definition CONNECT_DESCRIPTION_PREFIX :: string where "CONNECT_DESCRIPTION_PREFIX = ''bee_connect:''"
definition CONNECT_DESCRIPTION_VERSION :: string where "CONNECT_DESCRIPTION_VERSION = ''v1''"

record ConnectPayload =
  cp_v :: string
  cp_session_id :: string
  cp_description :: string
  cp_expires_at :: u64
  cp_app_id :: string
  cp_nonce :: "string option"

record ConnectMessageEnc =
  me_alg :: string
  me_nonce :: "string option"
  me_salt :: "string option"

record ConnectMessageEnvelope =
  en_v :: string
  en_session_id :: string
  en_dir :: string
  en_seq :: u64
  en_msg_type :: string
  en_ts :: "u64 option"
  en_dh_public :: "string option"
  en_enc :: "ConnectMessageEnc option"
  en_body :: json

record WalletHelloBody =
  wb_wallet_name :: string
  wb_wallet_address :: string
  wb_nonce :: "string option"
  wb_signature :: "string option"
  wb_epk_public :: "string option"

record SetMiningKeysBody =
  kb_app_id :: string
  kb_owner_public :: string

record ChallengeResponseBody =
  rb_nonce :: string
  rb_signature :: string
  rb_wallet_address :: string
  rb_epk_public :: "string option"

record context_event =
  ce_id :: string
  ce_created_at :: u64
  ce_text :: string

record ResultOfSendMessage =
  sm_message_hash :: "string option"
  sm_aborted :: "bool option"
  sm_exit_code :: "int option"

record client_config =
  cfg_endpoints :: "string list"
  cfg_max_reconnect_timeout :: u32
  cfg_api_token :: "string option"

record profile_record =
  pr_profile :: string
  pr_description :: string
  pr_event_id :: string
  pr_created_at :: u64

record profiles_page =
  pg_records :: "profile_record list"
  pg_oldest_cursor :: "string option"

record ('w, 'r) connect_env =
  ce_crypto :: crypto
  ce_acquire :: "'w \<Rightarrow> 'w"
  ce_sleep_ms :: "u64 \<Rightarrow> 'w \<Rightarrow> 'w"
  ce_now_secs :: "('w, AppError, u64) io"
  ce_dh_now_secs :: "'w \<Rightarrow> u64 \<times> 'w"
  ce_now_millis :: "('w, string, u64) io"
  ce_random :: "nat \<Rightarrow> ('w, string, byte list) io"
  ce_context_new :: "client_config \<Rightarrow> AppError + 'r"
  ce_get_profile_address :: "'r \<Rightarrow> string \<Rightarrow> ('w, AppError, string) io"
  ce_is_deployed :: "'r \<Rightarrow> string \<Rightarrow> 'w \<Rightarrow> bool \<times> 'w"
  ce_wait_account :: "'r \<Rightarrow> string \<Rightarrow> u8 \<Rightarrow> u64 \<Rightarrow> ('w, AppError, unit) io"
  ce_query_context_added :: "'r \<Rightarrow> string \<Rightarrow> u64 \<Rightarrow> nat \<Rightarrow> ('w, AppError, context_event list) io"
  ce_add_context_text :: "'r \<Rightarrow> string \<Rightarrow> string \<Rightarrow> KeyPair \<Rightarrow> ('w, AppError, ResultOfSendMessage) io"
  ce_query_profiles :: "'r \<Rightarrow> string \<Rightarrow> u64 option \<Rightarrow> nat \<Rightarrow> string option \<Rightarrow> ('w, AppError, profiles_page) io"
  ce_envelope_from_str :: "string \<Rightarrow> ConnectMessageEnvelope result"
  ce_value_from_slice :: "byte list \<Rightarrow> json result"
  ce_value_to_string :: "json \<Rightarrow> string result"
  ce_hello_from_value :: "json \<Rightarrow> WalletHelloBody result"
  ce_keys_from_value :: "json \<Rightarrow> SetMiningKeysBody result"
  ce_response_from_value :: "json \<Rightarrow> ChallengeResponseBody result"
  ce_payload_to_string :: "ConnectPayload \<Rightarrow> string result"
  ce_payload_from_str :: "string \<Rightarrow> ConnectPayload result"
  ce_from_utf8 :: "byte list \<Rightarrow> string result"

text \<open>The two ways errors are raised: a text, and a text with a context.\<close>

abbreviation fail :: "string \<Rightarrow> AppError" where
  "fail \<equiv> app_error_from_string"

definition str_ctx :: "string \<Rightarrow> string \<Rightarrow> AppError" where
  "str_ctx context e = with_context context (app_error_from_string e)"

definition json_ctx :: "string \<Rightarrow> string \<Rightarrow> AppError" where
  "json_ctx context e = with_context context (app_error_from_json e)"

section \<open>Envelopes\<close>

definition random_token_b64url :: "('w, 'r) connect_env \<Rightarrow> nat \<Rightarrow> ('w, AppError, string) io" where
  "random_token_b64url env num_bytes =
     io_then (io_map_err (str_ctx ''Generate random bytes'') (ce_random env num_bytes)) (\<lambda>bytes.
     io_lift (Inr (cr_b64_encode (ce_crypto env) bytes)))"

definition connect_envelope ::
  "string \<Rightarrow> string \<Rightarrow> u64 \<Rightarrow> string \<Rightarrow> u64 \<Rightarrow> EncryptedConnectBody \<Rightarrow> string option \<Rightarrow> json" where
  "connect_envelope session_id dir seq msg_type ts encrypted dh_public =
     (let envelope = JObj
        [(''v'', JStr CONNECT_MESSAGE_VERSION), (''session_id'', JStr session_id), (''dir'', JStr dir),
         (''seq'', JNum seq), (''type'', JStr msg_type), (''ts'', JNum ts),
         (''enc'', JObj [(''alg'', JStr CONNECT_MESSAGE_ENC_XCHACHA),
                         (''nonce'', JStr (eb_nonce_b64url encrypted)),
                         (''salt'', JStr (eb_salt_b64url encrypted))]),
         (''body'', JStr (eb_ciphertext_b64url encrypted))]
      in case dh_public of
           Some dh_pub \<Rightarrow> json_set ''dh_public'' (JStr dh_pub) envelope
         | None \<Rightarrow> envelope)"

text \<open>\<open>encrypt_connect_body\<close> with its two draws.\<close>

definition io_encrypt_body ::
  "('w, 'r) connect_env \<Rightarrow> json \<Rightarrow> string \<Rightarrow> byte list \<Rightarrow> ('w, string, EncryptedConnectBody) io" where
  "io_encrypt_body env body secret aad w =
     (case cr_to_vec (ce_crypto env) body of
        Inl _ \<Rightarrow> (encrypt_connect_body (ce_crypto env) body secret aad (Inl []) (Inl []), w)
      | Inr _ \<Rightarrow>
          (case ce_random env 24 w of
             (Inl e, w1) \<Rightarrow> (encrypt_connect_body (ce_crypto env) body secret aad (Inl e) (Inl []), w1)
           | (Inr nonce, w1) \<Rightarrow>
               (case ce_random env 32 w1 of (salt, w2) \<Rightarrow>
                  (encrypt_connect_body (ce_crypto env) body secret aad (Inr nonce) salt, w2))))"

definition encode_connect_message ::
  "('w, 'r) connect_env \<Rightarrow> string \<Rightarrow> string \<Rightarrow> u64 \<Rightarrow> string \<Rightarrow> json \<Rightarrow> string option \<Rightarrow> string option \<Rightarrow>
   ('w, AppError, string) io" where
  "encode_connect_message env session_id dir seq msg_type body encryption_secret dh_public =
     (if trim session_id = [] then io_lift (Inl (fail ''connect message session_id is empty''))
      else if trim dir = [] then io_lift (Inl (fail ''connect message dir is empty''))
      else if trim msg_type = [] then io_lift (Inl (fail ''connect message type is empty''))
      else
      io_then (ce_now_secs env) (\<lambda>ts.
      io_then (io_lift (map_err fail (connect_message_aad (ce_crypto env) session_id dir seq msg_type ts))) (\<lambda>aad.
      io_then (io_lift (ok_or (fail (''connect message `'' @ msg_type @ ''` requires session owner secret for encryption''))
                 encryption_secret)) (\<lambda>secret.
      io_then (io_map_err fail (io_encrypt_body env body secret aad)) (\<lambda>encrypted.
      io_lift (map_err (json_ctx ''Serialize connect message'')
        (ce_value_to_string env (connect_envelope session_id dir seq msg_type ts encrypted dh_public))))))))"

definition decode_connect_message_body ::
  "('w, 'r) connect_env \<Rightarrow> ConnectMessageEnvelope \<Rightarrow> string option \<Rightarrow> AppError + json option" where
  "decode_connect_message_body env envelope encryption_secret =
     (let alg = (case en_enc envelope of Some enc \<Rightarrow> me_alg enc | None \<Rightarrow> CONNECT_MESSAGE_ENC_NONE)
      in if alg = CONNECT_MESSAGE_ENC_NONE then Inl (fail ''Unencrypted connect messages are no longer accepted'')
         else if alg \<noteq> CONNECT_MESSAGE_ENC_XCHACHA then Inr None
         else case Option.bind encryption_secret (\<lambda>v. if trim v = [] then None else Some (trim v)) of
           None \<Rightarrow> Inr None
         | Some secret \<Rightarrow>
           and_then (ok_or (fail ''Encrypted connect message misses `enc`'') (en_enc envelope)) (\<lambda>enc.
           and_then (ok_or (fail ''Encrypted connect message misses nonce'') (me_nonce enc)) (\<lambda>nonce_b64url.
           and_then (ok_or (fail ''Encrypted connect message misses salt'') (me_salt enc)) (\<lambda>salt_b64url.
           and_then (ok_or (fail ''Encrypted connect message body must be base64url string'')
                       (json_as_str (en_body envelope))) (\<lambda>ciphertext_b64url.
           and_then (ok_or (fail ''Encrypted connect message misses ts'') (en_ts envelope)) (\<lambda>ts.
           and_then (map_err fail (connect_message_aad (ce_crypto env) (en_session_id envelope) (en_dir envelope)
                       (en_seq envelope) (en_msg_type envelope) ts)) (\<lambda>aad.
           and_then (map_err fail (decrypt_connect_body (ce_crypto env) ciphertext_b64url nonce_b64url salt_b64url
                       secret aad)) (\<lambda>plaintext.
           and_then (map_err (json_ctx ''Deserialize decrypted connect body'') (ce_value_from_slice env plaintext)) (\<lambda>body.
           Inr (Some body))))))))))"

section \<open>Descriptions and payloads\<close>

record ParsedConnectDescription =
  pd_app_id :: "string option"
  pd_session_id :: "string option"

definition parsed_default :: ParsedConnectDescription where
  "parsed_default = \<lparr> pd_app_id = None, pd_session_id = None \<rparr>"

definition is_connect_description :: "string \<Rightarrow> bool" where
  "is_connect_description value = starts_with value CONNECT_DESCRIPTION_PREFIX"

definition parse_connect_description :: "string \<Rightarrow> ParsedConnectDescription" where
  "parse_connect_description value =
     (case strip_prefix CONNECT_DESCRIPTION_PREFIX value of
        None \<Rightarrow> parsed_default
      | Some tail \<Rightarrow>
          (case split_on (CHR '':'') tail of
             version # raw_app_id # raw_session_id # _ \<Rightarrow>
               if version \<noteq> CONNECT_DESCRIPTION_VERSION then parsed_default
               else (case res_ok (normalize_uint256_hex raw_app_id) of
                       None \<Rightarrow> parsed_default
                     | Some app_id \<Rightarrow>
                         if raw_session_id = [] then parsed_default
                         else \<lparr> pd_app_id = Some app_id, pd_session_id = Some raw_session_id \<rparr>)
           | _ \<Rightarrow> parsed_default))"

definition validate_connect_payload_shape :: "ConnectPayload \<Rightarrow> AppError + unit" where
  "validate_connect_payload_shape payload =
     (if cp_v payload \<noteq> CONNECT_DEEPLINK_VERSION
      then Inl (fail (''Unsupported connect deeplink version `'' @ cp_v payload @ ''` (expected `'' @
                      CONNECT_DEEPLINK_VERSION @ ''`)''))
      else if trim (cp_session_id payload) = [] then Inl (fail ''connect payload session_id is empty'')
      else if trim (cp_description payload) = [] then Inl (fail ''connect payload description is empty'')
      else if cp_expires_at payload = 0 then Inl (fail ''connect payload expires_at must be > 0'')
      else and_then (map_err fail (normalize_uint256_hex (cp_app_id payload))) (\<lambda>_. Inr ()))"

definition decode_connect_payload_b64url :: "('w, 'r) connect_env \<Rightarrow> string \<Rightarrow> AppError + ConnectPayload" where
  "decode_connect_payload_b64url env raw =
     (let payload_b64url = trim raw
      in if payload_b64url = [] then Inl (fail ''connect payload is empty'')
         else
         and_then (map_err (str_ctx ''Decode connect payload base64url'')
                     (cr_b64_decode (ce_crypto env) payload_b64url)) (\<lambda>payload_bytes.
         and_then (map_err (str_ctx ''Decode connect payload utf8'') (ce_from_utf8 env payload_bytes)) (\<lambda>payload_json.
         and_then (map_err (json_ctx ''Deserialize connect payload'') (ce_payload_from_str env payload_json)) (\<lambda>payload.
         and_then (validate_connect_payload_shape payload) (\<lambda>_.
         and_then (map_err fail (normalize_uint256_hex (cp_app_id payload))) (\<lambda>app_id.
         let payload = payload\<lparr>cp_app_id := app_id\<rparr>;
             parsed_description = parse_connect_description (cp_description payload)
         in if pd_app_id parsed_description \<noteq> Some (cp_app_id payload)
            then Inl (fail ''connect payload description app_id mismatch'')
            else if pd_session_id parsed_description \<noteq> Some (cp_session_id payload)
            then Inl (fail ''connect payload description session_id mismatch'')
            else Inr payload))))))"

record SessionCommon =
  sc_session_id :: string
  sc_description :: string
  sc_created_at :: u64
  sc_expires_at :: u64
  sc_app_id :: string
  sc_payload_json :: string
  sc_payload_b64url :: string

definition create_session_common ::
  "('w, 'r) connect_env \<Rightarrow> string \<Rightarrow> u64 option \<Rightarrow> string option \<Rightarrow> ('w, AppError, SessionCommon) io" where
  "create_session_common env app_id ttl_secs nonce =
     io_then (ce_now_secs env) (\<lambda>now_secs.
     let ttl_secs = max (unwrap_or DEFAULT_CONNECT_TTL_SECS ttl_secs) 1;
         expires_at = sat_add now_secs ttl_secs
     in
     io_then (io_lift (map_err fail (normalize_uint256_hex app_id))) (\<lambda>app_id.
     io_then (random_token_b64url env 16) (\<lambda>session_id.
     io_then (random_token_b64url env 16) (\<lambda>token.
     let description = CONNECT_DESCRIPTION_PREFIX @ CONNECT_DESCRIPTION_VERSION @ '':'' @ app_id @ '':'' @
                       session_id @ '':'' @ token;
         payload = \<lparr> cp_v = CONNECT_DEEPLINK_VERSION, cp_session_id = session_id, cp_description = description,
                     cp_expires_at = expires_at, cp_app_id = app_id, cp_nonce = nonce \<rparr>
     in
     io_then (io_lift (map_err (json_ctx ''Serialize connect payload'') (ce_payload_to_string env payload))) (\<lambda>payload_json.
     io_lift (Inr \<lparr> sc_session_id = session_id, sc_description = description, sc_created_at = now_secs,
                    sc_expires_at = expires_at, sc_app_id = app_id, sc_payload_json = payload_json,
                    sc_payload_b64url = cr_b64_encode (ce_crypto env) (as_bytes payload_json) \<rparr>))))))"

record ResultOfCreateSharedKeySession =
  rs_common :: SessionCommon
  rs_deep_link :: string
  rs_client_dh_public :: string
  rs_client_dh_secret :: string

definition create_shared_key_session ::
  "('w, 'r) connect_env \<Rightarrow> string \<Rightarrow> u64 option \<Rightarrow> string option \<Rightarrow> ('w, AppError, ResultOfCreateSharedKeySession) io" where
  "create_shared_key_session env app_id ttl_secs nonce =
     io_then (create_session_common env app_id ttl_secs nonce) (\<lambda>common.
     io_then (\<lambda>w. case ce_random env 32 w of (draw, w1) \<Rightarrow>
                (map_err fail (generate_dh_keypair (ce_crypto env) draw), w1)) (\<lambda>dh_keypair.
     io_lift (Inr \<lparr> rs_common = common,
       rs_deep_link = CONNECT_DEEPLINK_RESOLVER_URL @ CONNECT_DEEPLINK_PATH @ ''?payload='' @ sc_payload_b64url common @
                      ''&client_dh_public='' @ dk_public_hex dh_keypair,
       rs_client_dh_public = dk_public_hex dh_keypair, rs_client_dh_secret = dk_secret_hex dh_keypair \<rparr>)))"

section \<open>Scanning the events of a profile\<close>

text \<open>
  The counters of the three scans.  A scan looks at the events in order and returns the first that
  passes every check; events that fail only raise a counter.
\<close>

record scan_counts =
  n_parse :: nat
  n_filtered :: nat
  n_no_dh :: nat
  n_dh :: nat
  n_rekey :: nat
  n_decrypt :: nat
  n_body :: nat

definition no_counts :: scan_counts where
  "no_counts = \<lparr> n_parse = 0, n_filtered = 0, n_no_dh = 0, n_dh = 0, n_rekey = 0, n_decrypt = 0, n_body = 0 \<rparr>"

datatype 'a verdict = Found 'a | Skip "scan_counts \<Rightarrow> scan_counts"

fun scan_events ::
  "('ev \<Rightarrow> 'w \<Rightarrow> 'a verdict \<times> 'w) \<Rightarrow> 'ev list \<Rightarrow> scan_counts \<Rightarrow> 'w \<Rightarrow> ('a + scan_counts) \<times> 'w" where
  "scan_events look [] counts w = (Inr counts, w)"
| "scan_events look (ev # evs) counts w =
     (case look ev w of
        (Found a, w1) \<Rightarrow> (Inl a, w1)
      | (Skip f, w1) \<Rightarrow> scan_events look evs (f counts) w1)"

record WalletHelloFound =
  wf_event_id :: string
  wf_event_created_at :: u64
  wf_wallet_name :: string
  wf_wallet_address :: string
  wf_raw_message_json :: string
  wf_session_state :: ConnectSessionState
  wf_nonce :: "string option"
  wf_signature :: "string option"
  wf_epk_public :: "string option"

record SetMiningKeysFound =
  kf_event_id :: string
  kf_event_created_at :: u64
  kf_app_id :: string
  kf_owner_public :: string
  kf_raw_message_json :: string
  kf_updated_session_state :: "ConnectSessionState option"

record ChallengeResponseFound =
  rf_event_id :: string
  rf_event_created_at :: u64
  rf_nonce :: string
  rf_signature :: string
  rf_wallet_address :: string
  rf_epk_public :: "string option"
  rf_raw_message_json :: string
  rf_updated_session_state :: "ConnectSessionState option"

definition skip_as_is :: "scan_counts \<Rightarrow> scan_counts" where
  "skip_as_is c = c"

definition look_wallet_hello ::
  "('w, 'r) connect_env \<Rightarrow> string \<Rightarrow> string \<Rightarrow> context_event \<Rightarrow> 'w \<Rightarrow> WalletHelloFound verdict \<times> 'w" where
  "look_wallet_hello env session_id client_dh_secret record w =
     (let raw = ce_text record
      in case ce_envelope_from_str env raw of
        Inl _ \<Rightarrow> (Skip skip_as_is, w)
      | Inr envelope \<Rightarrow>
        if en_v envelope \<noteq> CONNECT_MESSAGE_VERSION \<or> en_session_id envelope \<noteq> session_id \<or>
           en_dir envelope \<noteq> ''w2c'' \<or> en_seq envelope = 0 \<or>
           en_msg_type envelope \<noteq> CONNECT_MESSAGE_TYPE_WALLET_HELLO
        then (Skip skip_as_is, w)
        else case en_dh_public envelope of
          None \<Rightarrow> (Skip (n_no_dh_update Suc), w)
        | Some wallet_dh_public \<Rightarrow>
          (case compute_shared_secret (ce_crypto env) client_dh_secret wallet_dh_public of
             Inl _ \<Rightarrow> (Skip (n_dh_update Suc), w)
           | Inr shared_secret \<Rightarrow>
             (case derive_session_keys (ce_crypto env) shared_secret session_id of
                Inl _ \<Rightarrow> (Skip (n_dh_update Suc), w)
              | Inr session_keys \<Rightarrow>
                (case decode_connect_message_body env envelope (Some (sk_encryption_root_hex session_keys)) of
                   Inl _ \<Rightarrow> (Skip (n_decrypt_update Suc), w)
                 | Inr None \<Rightarrow> (Skip (n_decrypt_update Suc), w)
                 | Inr (Some body_value) \<Rightarrow>
                   (case ce_hello_from_value env body_value of
                      Inl _ \<Rightarrow> (Skip (n_body_update Suc), w)
                    | Inr body \<Rightarrow>
                      (case ce_dh_now_secs env w of (now, w1) \<Rightarrow>
                         let session_state = (create_initial_state now session_keys client_dh_secret wallet_dh_public)
                               \<lparr>cs_last_seen_seq := en_seq envelope\<rparr>
                         in (Found \<lparr> wf_event_id = ce_id record, wf_event_created_at = ce_created_at record,
                                     wf_wallet_name = wb_wallet_name body, wf_wallet_address = wb_wallet_address body,
                                     wf_raw_message_json = raw, wf_session_state = session_state,
                                     wf_nonce = wb_nonce body, wf_signature = wb_signature body,
                                     wf_epk_public = wb_epk_public body \<rparr>, w1)))))))"

definition query_context_events ::
  "('w, 'r) connect_env \<Rightarrow> 'r \<Rightarrow> string \<Rightarrow> u64 \<Rightarrow> ('w, AppError, context_event list) io" where
  "query_context_events env root profile created_at_from =
     io_map_err (with_context ''AuthProfile::query_context_added_events'')
       (ce_query_context_added env root profile created_at_from 50)"

definition find_wallet_hello_event ::
  "('w, 'r) connect_env \<Rightarrow> 'r \<Rightarrow> string \<Rightarrow> string \<Rightarrow> string \<Rightarrow> u64 \<Rightarrow> ('w, AppError, WalletHelloFound option) io" where
  "find_wallet_hello_event env root profile session_id client_dh_secret created_at_from =
     io_then (query_context_events env root profile created_at_from) (\<lambda>events w.
     case scan_events (look_wallet_hello env session_id client_dh_secret) events no_counts w of
       (Inl found, w1) \<Rightarrow> (Inr (Some found), w1)
     | (Inr c, w1) \<Rightarrow>
         let failed_candidates = n_no_dh c + n_dh c + n_decrypt c + n_body c
         in if failed_candidates > 0
            then (Inl (fail (''wallet_hello: found '' @ show_nat failed_candidates @
                    '' matching event(s) but none succeeded (total_events='' @ show_nat (length events) @
                    '', no_dh='' @ show_nat (n_no_dh c) @ '', dh_fail='' @ show_nat (n_dh c) @
                    '', decrypt_fail='' @ show_nat (n_decrypt c) @ '', body_parse_fail='' @ show_nat (n_body c) @ '')'')), w1)
            else (Inr None, w1))"

text \<open>
  The part the two other scans share: re-key for the message, decrypt its body with the new root,
  and hand both on; on any failure the state is the old one.  The clock is read by \<open>is_expired\<close>,
  which asks it only for sessions that can expire.
\<close>

definition io_dh_now :: "('w, 'r) connect_env \<Rightarrow> ConnectSessionState \<Rightarrow> 'w \<Rightarrow> u64 \<times> 'w" where
  "io_dh_now env state w = (if cs_expires_at state = 0 then (0, w) else ce_dh_now_secs env w)"

definition rekey_and_decrypt ::
  "('w, 'r) connect_env \<Rightarrow> ConnectSessionState \<Rightarrow> string \<Rightarrow> string \<Rightarrow> ConnectMessageEnvelope \<Rightarrow> 'w \<Rightarrow>
   ((scan_counts \<Rightarrow> scan_counts) + RekeyResult \<times> json) \<times> 'w" where
  "rekey_and_decrypt env state peer_dh_pub session_id envelope w =
     (case io_dh_now env state w of (now, w1) \<Rightarrow>
        (case rekey_inbound (ce_crypto env) now state peer_dh_pub session_id (en_seq envelope) of
           Inl _ \<Rightarrow> (Inl (n_rekey_update Suc), w1)
         | Inr rekey \<Rightarrow>
             (case decode_connect_message_body env envelope (Some (rr_message_encryption_root rekey)) of
                Inr (Some v) \<Rightarrow> (Inr (rekey, v), w1)
              | _ \<Rightarrow> (Inl (n_decrypt_update Suc), w1))))"

definition look_set_mining_keys ::
  "('w, 'r) connect_env \<Rightarrow> string \<Rightarrow> ConnectSessionState option \<Rightarrow> context_event \<Rightarrow> 'w \<Rightarrow>
   SetMiningKeysFound verdict \<times> 'w" where
  "look_set_mining_keys env session_id current_state record w =
     (let raw = ce_text record
      in case ce_envelope_from_str env raw of
        Inl _ \<Rightarrow> (Skip skip_as_is, w)
      | Inr envelope \<Rightarrow>
        if en_v envelope \<noteq> CONNECT_MESSAGE_VERSION \<or> en_session_id envelope \<noteq> session_id \<or> en_dir envelope \<noteq> ''c2w''
        then (Skip skip_as_is, w)
        else if en_msg_type envelope \<noteq> CONNECT_MESSAGE_TYPE_SET_MINING_KEYS then (Skip skip_as_is, w)
        else case (current_state, en_dh_public envelope) of
          (Some state, Some peer_dh_pub) \<Rightarrow>
            (case rekey_and_decrypt env state peer_dh_pub session_id envelope w of
               (Inl f, w1) \<Rightarrow> (Skip f, w1)
             | (Inr (rekey, body_value), w1) \<Rightarrow>
                 (case ce_keys_from_value env body_value of
                    Inl _ \<Rightarrow> (Skip (n_body_update Suc), w1)
                  | Inr body \<Rightarrow>
                      (case normalize_uint256_hex (kb_app_id body) of
                         Inl _ \<Rightarrow> (Skip (n_body_update Suc), w1)
                       | Inr app_id \<Rightarrow>
                           (case normalize_owner_public_hex (kb_owner_public body) of
                              Inl _ \<Rightarrow> (Skip (n_body_update Suc), w1)
                            | Inr owner_public \<Rightarrow>
                                (Found \<lparr> kf_event_id = ce_id record, kf_event_created_at = ce_created_at record,
                                         kf_app_id = app_id, kf_owner_public = owner_public, kf_raw_message_json = raw,
                                         kf_updated_session_state = Some (rr_updated_state rekey) \<rparr>, w1)))))
        | _ \<Rightarrow> (Skip skip_as_is, w))"

definition io_ensure_not_expired ::
  "('w, 'r) connect_env \<Rightarrow> string \<Rightarrow> ConnectSessionState option \<Rightarrow> ('w, AppError, unit) io" where
  "io_ensure_not_expired env context session_state w =
     (case session_state of
        None \<Rightarrow> (Inr (), w)
      | Some state \<Rightarrow> (case io_dh_now env state w of (now, w1) \<Rightarrow>
          (map_err (str_ctx context) (ensure_not_expired now state), w1)))"

definition find_set_mining_keys_event ::
  "('w, 'r) connect_env \<Rightarrow> 'r \<Rightarrow> string \<Rightarrow> string \<Rightarrow> ConnectSessionState option \<Rightarrow> u64 \<Rightarrow>
   ('w, AppError, SetMiningKeysFound option) io" where
  "find_set_mining_keys_event env root profile session_id session_state created_at_from =
     io_then (io_ensure_not_expired env ''find_set_mining_keys_event'' session_state) (\<lambda>_.
     io_then (query_context_events env root profile created_at_from) (\<lambda>events w.
     case scan_events (look_set_mining_keys env session_id session_state) events no_counts w of
       (Inl found, w1) \<Rightarrow> (Inr (Some found), w1)
     | (Inr c, w1) \<Rightarrow>
         let failed_candidates = n_rekey c + n_decrypt c + n_body c
         in if failed_candidates > 0
            then (Inl (fail (''set_mining_keys: found '' @ show_nat failed_candidates @
                    '' matching event(s) but none succeeded (total_events='' @ show_nat (length events) @
                    '', rekey_fail='' @ show_nat (n_rekey c) @ '', decrypt_fail='' @ show_nat (n_decrypt c) @
                    '', body_parse_fail='' @ show_nat (n_body c) @ '')'')), w1)
            else (Inr None, w1)))"

definition look_challenge_response ::
  "('w, 'r) connect_env \<Rightarrow> string \<Rightarrow> ConnectSessionState option \<Rightarrow> context_event \<Rightarrow> 'w \<Rightarrow>
   ChallengeResponseFound verdict \<times> 'w" where
  "look_challenge_response env session_id current_state record w =
     (let raw = ce_text record
      in case ce_envelope_from_str env raw of
        Inl _ \<Rightarrow> (Skip (n_parse_update Suc), w)
      | Inr envelope \<Rightarrow>
        if en_v envelope \<noteq> CONNECT_MESSAGE_VERSION \<or> en_session_id envelope \<noteq> session_id \<or> en_dir envelope \<noteq> ''w2c''
        then (Skip (n_filtered_update Suc), w)
        else if en_msg_type envelope = CONNECT_MESSAGE_TYPE_WALLET_HELLO then (Skip (n_filtered_update Suc), w)
        else if en_msg_type envelope \<noteq> CONNECT_MESSAGE_TYPE_CHALLENGE_RESPONSE then (Skip (n_filtered_update Suc), w)
        else case (current_state, en_dh_public envelope) of
          (Some state, Some peer_dh_pub) \<Rightarrow>
            (case rekey_and_decrypt env state peer_dh_pub session_id envelope w of
               (Inl f, w1) \<Rightarrow> (Skip f, w1)
             | (Inr (rekey, body_value), w1) \<Rightarrow>
                 (case ce_response_from_value env body_value of
                    Inl _ \<Rightarrow> (Skip (n_body_update Suc), w1)
                  | Inr body \<Rightarrow>
                      (Found \<lparr> rf_event_id = ce_id record, rf_event_created_at = ce_created_at record,
                               rf_nonce = rb_nonce body, rf_signature = rb_signature body,
                               rf_wallet_address = rb_wallet_address body, rf_epk_public = rb_epk_public body,
                               rf_raw_message_json = raw,
                               rf_updated_session_state = Some (rr_updated_state rekey) \<rparr>, w1)))
        | _ \<Rightarrow> (Skip skip_as_is, w))"

definition find_challenge_response_event ::
  "('w, 'r) connect_env \<Rightarrow> 'r \<Rightarrow> string \<Rightarrow> string \<Rightarrow> ConnectSessionState option \<Rightarrow> u64 \<Rightarrow>
   ('w, AppError, ChallengeResponseFound option) io" where
  "find_challenge_response_event env root profile session_id session_state created_at_from =
     io_then (io_ensure_not_expired env ''find_challenge_response_event'' session_state) (\<lambda>_.
     io_then (query_context_events env root profile created_at_from) (\<lambda>events w.
     case scan_events (look_challenge_response env session_id session_state) events no_counts w of
       (Inl found, w1) \<Rightarrow> (Inr (Some found), w1)
     | (Inr c, w1) \<Rightarrow>
         let had_candidates = n_parse c + n_rekey c + n_decrypt c + n_body c > 0
         in if had_candidates
            then
              let detail = ''(total_events='' @ show_nat (length events) @ '', parse_fail='' @ show_nat (n_parse c) @
                    '', filtered='' @ show_nat (n_filtered c) @ '', rekey_fail='' @ show_nat (n_rekey c) @
                    '', decrypt_fail='' @ show_nat (n_decrypt c) @ '', body_parse_fail='' @ show_nat (n_body c) @ '')'';
                  pre = (if n_decrypt c > 0 then ''session_desync: '' else [])
              in (Inl (fail (pre @ ''challenge_response: found candidates but none succeeded '' @ detail)), w1)
            else (Inr None, w1)))"

end
