(* ===== verification/ConnectOps.thy ===== *)
theory ConnectOps
  imports ConnectClient
begin

text \<open>
  \<open>bee_connect/src/client.rs\<close>, continued: the operations of \<open>ConnectClient\<close> that talk to the chain.
  They resolve the session's profile, send messages to it, poll it for the wallet's answers and list
  the active sessions of a wallet.

  The token of the client (\<open>api_token\<close>) is the first argument of the operations.  The operations that
  take a parameter struct take its fields one by one.
\<close>

section \<open>Reaching a profile\<close>

definition acquired :: "('w, 'r) connect_env \<Rightarrow> ('w, 'e, 'a) io \<Rightarrow> ('w, 'e, 'a) io" where
  "acquired env m w = m (ce_acquire env w)"

definition root_with_endpoints :: "('w, 'r) connect_env \<Rightarrow> string list \<Rightarrow> string option \<Rightarrow> AppError + 'r" where
  "root_with_endpoints env endpoints api_token =
     map_err (with_context ''Create tvm client context'')
       (ce_context_new env \<lparr> cfg_endpoints = endpoints, cfg_max_reconnect_timeout = 0, cfg_api_token = api_token \<rparr>)"

definition wait_profile_active ::
  "('w, 'r) connect_env \<Rightarrow> 'r \<Rightarrow> string \<Rightarrow> u32 option \<Rightarrow> u64 option \<Rightarrow> ('w, AppError, unit) io" where
  "wait_profile_active env root profile attempts_limit poll_ms =
     (let attempts = ucast (min (unwrap_or 100 attempts_limit) 255);
          attempts_timeout = unwrap_or 500 poll_ms
      in io_map_err (with_context ''AuthProfile::wait_account Active'')
           (ce_wait_account env root profile attempts attempts_timeout))"

definition resolve_profile ::
  "('w, 'r) connect_env \<Rightarrow> string option \<Rightarrow> string list \<Rightarrow> string \<Rightarrow> ('w, AppError, 'r \<times> string) io" where
  "resolve_profile env api_token endpoints description =
     io_then (io_lift (root_with_endpoints env endpoints api_token)) (\<lambda>root.
     io_then (io_map_err (with_context ''AuthServiceRoot::get_profile_address'')
                (ce_get_profile_address env root description)) (\<lambda>profile_address.
     io_lift (Inr (root, profile_address))))"

definition open_profile ::
  "('w, 'r) connect_env \<Rightarrow> string option \<Rightarrow> string list \<Rightarrow> string \<Rightarrow> u32 option \<Rightarrow> u64 option \<Rightarrow>
   ('w, AppError, 'r \<times> string) io" where
  "open_profile env api_token endpoints description attempts_limit poll_ms =
     io_then (resolve_profile env api_token endpoints description) (\<lambda>(root, profile_address).
     io_then (wait_profile_active env root profile_address attempts_limit poll_ms) (\<lambda>_.
     io_lift (Inr (root, profile_address))))"

definition get_profile_address ::
  "('w, 'r) connect_env \<Rightarrow> string option \<Rightarrow> string list \<Rightarrow> string \<Rightarrow> ('w, AppError, string) io" where
  "get_profile_address env api_token endpoints description =
     acquired env (io_then (resolve_profile env api_token endpoints description) (\<lambda>(root, profile_address).
       io_lift (Inr profile_address)))"

definition is_session_profile_deployed ::
  "('w, 'r) connect_env \<Rightarrow> string option \<Rightarrow> string list \<Rightarrow> string \<Rightarrow> ('w, AppError, bool) io" where
  "is_session_profile_deployed env api_token endpoints description =
     acquired env (io_then (resolve_profile env api_token endpoints description) (\<lambda>(root, profile_address) w.
       case ce_is_deployed env root profile_address w of (deployed, w1) \<Rightarrow> (Inr deployed, w1)))"

section \<open>Sending\<close>

definition show_int :: "int \<Rightarrow> string" where
  "show_int i = (if i < 0 then CHR ''-'' # show_nat (nat (- i)) else show_nat (nat i))"

definition show_bool :: "bool \<Rightarrow> string" where
  "show_bool b = (if b then ''true'' else ''false'')"

definition ensure_tx_success :: "ResultOfSendMessage \<Rightarrow> string \<Rightarrow> AppError + ResultOfSendMessage" where
  "ensure_tx_success result context =
     (let aborted = unwrap_or False (sm_aborted result);
          exit_code = unwrap_or 0 (sm_exit_code result)
      in if aborted \<or> exit_code > 0
         then Inl (fail (context @ '': tx aborted='' @ show_bool aborted @ '', exit_code='' @ show_int exit_code))
         else Inr result)"

text \<open>The re-keying with its clock reading and, once its checks have passed, its random draw.\<close>

definition io_rekey_outbound ::
  "('w, 'r) connect_env \<Rightarrow> ConnectSessionState \<Rightarrow> string \<Rightarrow> u64 \<Rightarrow> ('w, string, RekeyResult) io" where
  "io_rekey_outbound env state session_id seq w =
     (case io_dh_now env state w of (now, w1) \<Rightarrow>
        if is_expired now state \<or> seq = 0 \<or> seq \<le> cs_last_sent_seq state
        then (rekey_outbound (ce_crypto env) now (Inl []) state session_id seq, w1)
        else case ce_random env 32 w1 of (draw, w2) \<Rightarrow>
          (rekey_outbound (ce_crypto env) now draw state session_id seq, w2))"

definition io_next_outbound_seq :: "('w, 'r) connect_env \<Rightarrow> ConnectSessionState \<Rightarrow> ('w, string, u64) io" where
  "io_next_outbound_seq env state w =
     (case ce_now_millis env w of (now, w1) \<Rightarrow> (next_outbound_seq now state, w1))"

text \<open>
  What the three requests share from the sequence number on.  \<open>operation\<close> is the name of the method
  in its error contexts.
\<close>

definition send_connect_message ::
  "('w, 'r) connect_env \<Rightarrow> 'r \<Rightarrow> string \<Rightarrow> string \<Rightarrow> string \<Rightarrow> string \<Rightarrow> json \<Rightarrow> ConnectSessionState \<Rightarrow>
   ('w, AppError, RekeyResult \<times> string \<times> ResultOfSendMessage) io" where
  "send_connect_message env root profile operation session_id msg_type body state =
     io_then (io_map_err (str_ctx (operation @ '' next_outbound_seq'')) (io_next_outbound_seq env state)) (\<lambda>seq.
     io_then (io_map_err (str_ctx (operation @ '' rekey_outbound''))
                (io_rekey_outbound env state session_id seq)) (\<lambda>rekey.
     let signing_keys = \<lparr> kp_public = cs_signing_public state, kp_secret = cs_signing_secret state \<rparr>
     in
     io_then (encode_connect_message env session_id ''c2w'' (rr_outbound_seq rekey) msg_type body
                (Some (rr_message_encryption_root rekey)) (rr_new_dh_public rekey)) (\<lambda>raw_message_json.
     io_then (io_map_err (with_context (''AuthProfile::add_context_text '' @ msg_type))
                (ce_add_context_text env root profile raw_message_json signing_keys)) (\<lambda>send_result.
     io_then (io_lift (ensure_tx_success send_result (msg_type @ '' add_context''))) (\<lambda>send_result.
     io_lift (Inr (rekey, raw_message_json, send_result)))))))"

record ResultOfDisconnectSession =
  ds_profile_address :: string
  ds_message_id :: "string option"
  ds_raw_message_json :: string
  ds_updated_session_state :: ConnectSessionState

definition disconnect_body :: "string option \<Rightarrow> json" where
  "disconnect_body reason =
     (case Option.bind reason (\<lambda>v. if trim v = [] then None else Some (trim v)) of
        Some reason \<Rightarrow> JObj [(''reason'', JStr reason)]
      | None \<Rightarrow> JObj [])"

definition disconnect_session ::
  "('w, 'r) connect_env \<Rightarrow> string option \<Rightarrow> string list \<Rightarrow> string \<Rightarrow> string \<Rightarrow> ConnectSessionState \<Rightarrow>
   string option \<Rightarrow> u32 option \<Rightarrow> u64 option \<Rightarrow> ('w, AppError, ResultOfDisconnectSession) io" where
  "disconnect_session env api_token endpoints session_id description session_state reason attempts_limit poll_ms =
     acquired env
     (if trim session_id = [] then io_lift (Inl (fail ''disconnect_session session_id is empty''))
      else
      io_then (open_profile env api_token endpoints description attempts_limit poll_ms) (\<lambda>(root, profile_address).
      io_then (send_connect_message env root profile_address ''disconnect_session'' session_id
                 CONNECT_MESSAGE_TYPE_CLIENT_DISCONNECT (disconnect_body reason) session_state)
        (\<lambda>(rekey, raw_message_json, send_result).
      io_lift (Inr \<lparr> ds_profile_address = profile_address, ds_message_id = sm_message_hash send_result,
                     ds_raw_message_json = raw_message_json, ds_updated_session_state = rr_updated_state rekey \<rparr>))))"

record ResultOfRequestSetMiningKeys =
  rk_profile_address :: string
  rk_message_id :: "string option"
  rk_app_id :: string
  rk_owner_public :: string
  rk_raw_message_json :: string
  rk_updated_session_state :: ConnectSessionState

definition set_mining_keys_body :: "string \<Rightarrow> string \<Rightarrow> json" where
  "set_mining_keys_body app_id owner_public =
     JObj [(''app_id'', JStr app_id), (''owner_public'', JStr owner_public)]"

definition request_set_mining_keys ::
  "('w, 'r) connect_env \<Rightarrow> string option \<Rightarrow> string list \<Rightarrow> string \<Rightarrow> string \<Rightarrow> ConnectSessionState \<Rightarrow>
   string \<Rightarrow> string \<Rightarrow> u32 option \<Rightarrow> u64 option \<Rightarrow> ('w, AppError, ResultOfRequestSetMiningKeys) io" where
  "request_set_mining_keys env api_token endpoints session_id description session_state raw_app_id raw_owner_public
     attempts_limit poll_ms =
     acquired env
     (if trim session_id = [] then io_lift (Inl (fail ''request_set_mining_keys session_id is empty''))
      else
      io_then (io_lift (map_err fail (normalize_uint256_hex raw_app_id))) (\<lambda>app_id.
      io_then (io_lift (map_err fail (normalize_owner_public_hex raw_owner_public))) (\<lambda>owner_public.
      io_then (open_profile env api_token endpoints description attempts_limit poll_ms) (\<lambda>(root, profile_address).
      io_then (send_connect_message env root profile_address ''request_set_mining_keys'' session_id
                 CONNECT_MESSAGE_TYPE_SET_MINING_KEYS (set_mining_keys_body app_id owner_public) session_state)
        (\<lambda>(rekey, raw_message_json, send_result).
      io_lift (Inr \<lparr> rk_profile_address = profile_address, rk_message_id = sm_message_hash send_result,
                     rk_app_id = app_id, rk_owner_public = owner_public, rk_raw_message_json = raw_message_json,
                     rk_updated_session_state = rr_updated_state rekey \<rparr>))))))"

record ResultOfRequestSignChallenge =
  rc_profile_address :: string
  rc_message_id :: "string option"
  rc_nonce :: string
  rc_raw_message_json :: string
  rc_updated_session_state :: ConnectSessionState
  rc_sent_at :: u64

definition sign_challenge_body :: "string \<Rightarrow> json" where
  "sign_challenge_body nonce = JObj [(''nonce'', JStr nonce)]"

definition request_sign_challenge ::
  "('w, 'r) connect_env \<Rightarrow> string option \<Rightarrow> string list \<Rightarrow> string \<Rightarrow> string \<Rightarrow> ConnectSessionState \<Rightarrow>
   string \<Rightarrow> u32 option \<Rightarrow> u64 option \<Rightarrow> ('w, AppError, ResultOfRequestSignChallenge) io" where
  "request_sign_challenge env api_token endpoints session_id description session_state nonce attempts_limit poll_ms =
     acquired env
     (if trim session_id = [] then io_lift (Inl (fail ''request_sign_challenge session_id is empty''))
      else if trim nonce = [] then io_lift (Inl (fail ''request_sign_challenge nonce is empty''))
      else
      io_then (open_profile env api_token endpoints description attempts_limit poll_ms) (\<lambda>(root, profile_address).
      io_then (send_connect_message env root profile_address ''request_sign_challenge'' session_id
                 CONNECT_MESSAGE_TYPE_SIGN_CHALLENGE (sign_challenge_body nonce) session_state)
        (\<lambda>(rekey, raw_message_json, send_result).
      io_then (ce_now_secs env) (\<lambda>sent_at.
      io_lift (Inr \<lparr> rc_profile_address = profile_address, rc_message_id = sm_message_hash send_result,
                     rc_nonce = nonce, rc_raw_message_json = raw_message_json,
                     rc_updated_session_state = rr_updated_state rekey, rc_sent_at = sent_at \<rparr>)))))"

section \<open>Waiting for messages\<close>

text \<open>The start of the scanned window: given, or five minutes ago.\<close>

definition scan_from :: "('w, 'r) connect_env \<Rightarrow> u64 option \<Rightarrow> 'w \<Rightarrow> u64 \<times> 'w" where
  "scan_from env created_at_from w =
     (case created_at_from of
        Some t \<Rightarrow> (t, w)
      | None \<Rightarrow> (case ce_now_secs env w of (now, w1) \<Rightarrow> (sat_sub (unwrap_or 0 (res_ok now)) 300, w1)))"

text \<open>
  What the three waits share: open the profile, then poll it with \<open>find_event\<close>, each attempt behind the
  rate limiter.
\<close>

definition wait_for_event ::
  "('w, 'r) connect_env \<Rightarrow> string option \<Rightarrow> string list \<Rightarrow> string \<Rightarrow> u64 option \<Rightarrow> u32 option \<Rightarrow> u64 option \<Rightarrow>
   string \<Rightarrow> string \<Rightarrow> ('r \<Rightarrow> string \<Rightarrow> u64 \<Rightarrow> ('w, AppError, 'f option) io) \<Rightarrow> ('w, AppError, string \<times> 'f) io" where
  "wait_for_event env api_token endpoints description created_at_from attempts_limit poll_ms query missing find_event =
     io_then (open_profile env api_token endpoints description attempts_limit poll_ms) (\<lambda>(root, profile_address) w.
     case scan_from env created_at_from w of (from_secs, w1) \<Rightarrow>
     io_then (poll_until fail (ce_sleep_ms env)
                (acquired env (io_map_err (with_context query) (find_event root profile_address from_secs)))
                (\<lambda>found. found \<noteq> None) attempts_limit poll_ms) (\<lambda>found.
     io_then (io_lift (ok_or (fail missing) found)) (\<lambda>found.
     io_lift (Inr (profile_address, found)))) w1)"

definition wait_wallet_hello ::
  "('w, 'r) connect_env \<Rightarrow> string option \<Rightarrow> string list \<Rightarrow> string \<Rightarrow> string \<Rightarrow> string \<Rightarrow> u64 option \<Rightarrow> u32 option \<Rightarrow>
   u64 option \<Rightarrow> ('w, AppError, string \<times> WalletHelloFound) io" where
  "wait_wallet_hello env api_token endpoints session_id description client_dh_secret created_at_from attempts_limit poll_ms =
     acquired env
     (wait_for_event env api_token endpoints description created_at_from attempts_limit poll_ms
        ''Query wallet_hello'' ''wait_wallet_hello: no wallet_hello event found''
        (\<lambda>root profile from_secs. find_wallet_hello_event env root profile session_id client_dh_secret from_secs))"

definition wait_set_mining_keys_request ::
  "('w, 'r) connect_env \<Rightarrow> string option \<Rightarrow> string list \<Rightarrow> string \<Rightarrow> string \<Rightarrow> ConnectSessionState option \<Rightarrow>
   u64 option \<Rightarrow> u32 option \<Rightarrow> u64 option \<Rightarrow> ('w, AppError, string \<times> SetMiningKeysFound) io" where
  "wait_set_mining_keys_request env api_token endpoints session_id description session_state created_at_from
     attempts_limit poll_ms =
     acquired env
     (wait_for_event env api_token endpoints description created_at_from attempts_limit poll_ms
        ''Query set_mining_keys'' ''wait_set_mining_keys_request: no set_mining_keys event found''
        (\<lambda>root profile from_secs. find_set_mining_keys_event env root profile session_id session_state from_secs))"

definition wait_challenge_response ::
  "('w, 'r) connect_env \<Rightarrow> string option \<Rightarrow> string list \<Rightarrow> string \<Rightarrow> string \<Rightarrow> ConnectSessionState option \<Rightarrow>
   u64 option \<Rightarrow> u32 option \<Rightarrow> u64 option \<Rightarrow> ('w, AppError, string \<times> ChallengeResponseFound) io" where
  "wait_challenge_response env api_token endpoints session_id description session_state created_at_from
     attempts_limit poll_ms =
     acquired env
     (if trim session_id = [] then io_lift (Inl (fail ''wait_challenge_response session_id is empty''))
      else
      wait_for_event env api_token endpoints description created_at_from attempts_limit poll_ms
        ''Query challenge_response'' ''wait_challenge_response: no challenge_response event found''
        (\<lambda>root profile from_secs. find_challenge_response_event env root profile session_id session_state from_secs))"

section \<open>Active sessions\<close>

definition normalize_optional_app_id :: "string option \<Rightarrow> AppError + string option" where
  "normalize_optional_app_id value =
     (case value of
        None \<Rightarrow> Inr None
      | Some v \<Rightarrow> if trim v = [] then Inr None
                 else and_then (map_err fail (normalize_uint256_hex v)) (\<lambda>app_id. Inr (Some app_id)))"

record ActiveConnectSession =
  ac_profile_address :: string
  ac_description :: string
  ac_app_id :: "string option"
  ac_session_id :: "string option"
  ac_deployed_event_id :: string
  ac_deployed_at :: u64

definition active_session_uniqueness_key :: "ActiveConnectSession \<Rightarrow> string" where
  "active_session_uniqueness_key value =
     (let session_part = unwrap_or (ac_description value)
            (Option.bind (ac_session_id value) (\<lambda>v. if trim v = [] then None else Some v))
      in to_ascii_lowercase (ac_profile_address value) @ ''::'' @ session_part)"

text \<open>The variables of the scan.\<close>

record active_scan =
  as_sessions :: "ActiveConnectSession list"
  as_seen :: "string set"
  as_deployed :: "string \<Rightarrow> bool option"
  as_has_deployed :: bool
  as_next_before :: "string option"
  as_before :: "string option"
  as_stalled :: bool

definition push_unique_active_session :: "ActiveConnectSession \<Rightarrow> active_scan \<Rightarrow> active_scan" where
  "push_unique_active_session session st =
     (let key = active_session_uniqueness_key session
      in if key \<in> as_seen st then st
         else st\<lparr>as_seen := insert key (as_seen st), as_sessions := as_sessions st @ [session]\<rparr>)"

definition session_of_record :: "profile_record \<Rightarrow> ActiveConnectSession" where
  "session_of_record record =
     (let parsed = parse_connect_description (pr_description record)
      in \<lparr> ac_profile_address = pr_profile record, ac_description = pr_description record,
           ac_app_id = pd_app_id parsed, ac_session_id = pd_session_id parsed,
           ac_deployed_event_id = pr_event_id record, ac_deployed_at = pr_created_at record \<rparr>)"

text \<open>\<open>is_deployed\<close> through the cache.\<close>

definition cached_is_deployed :: "('w, 'r) connect_env \<Rightarrow> 'r \<Rightarrow> string \<Rightarrow> active_scan \<Rightarrow> 'w \<Rightarrow> bool \<times> active_scan \<times> 'w" where
  "cached_is_deployed env root profile st w =
     (case as_deployed st profile of
        Some cached \<Rightarrow> (cached, st, w)
      | None \<Rightarrow> (case ce_is_deployed env root profile w of (value, w1) \<Rightarrow>
          (value, st\<lparr>as_deployed := (as_deployed st)(profile \<mapsto> value)\<rparr>, w1)))"

text \<open>The loop over the records of a page; it breaks once the list of sessions is full.\<close>

fun active_records ::
  "('w, 'r) connect_env \<Rightarrow> 'r \<Rightarrow> string option \<Rightarrow> profile_record list \<Rightarrow> active_scan \<Rightarrow> 'w \<Rightarrow> active_scan \<times> 'w" where
  "active_records env root filt [] st w = (st, w)"
| "active_records env root filt (record # records) st w =
     (if \<not> is_connect_description (pr_description record) then active_records env root filt records st w
      else case cached_is_deployed env root (pr_profile record) st w of
        (False, st1, w1) \<Rightarrow> active_records env root filt records st1 w1
      | (True, st1, w1) \<Rightarrow>
          let st2 = st1\<lparr>as_has_deployed := True\<rparr>
          in if filt \<noteq> None \<and> ac_app_id (session_of_record record) \<noteq> filt
             then active_records env root filt records st2 w1
             else let st3 = push_unique_active_session (session_of_record record) st2
                  in if length (as_sessions st3) \<ge> ACTIVE_SESSIONS_CHUNK_SIZE then (st3, w1)
                     else active_records env root filt records st3 w1)"

text \<open>
  What follows the records of a page: whether the scan goes on, with the new variables.
\<close>

definition active_advance :: "profiles_page \<Rightarrow> active_scan \<Rightarrow> bool \<times> active_scan" where
  "active_advance page st =
     (case pg_oldest_cursor page of
        None \<Rightarrow> (False, st)
      | Some cursor \<Rightarrow>
          if as_before st = Some cursor then (False, st\<lparr>as_stalled := True, as_next_before := None\<rparr>)
          else (length (pg_records page) \<ge> ACTIVE_SESSIONS_CHUNK_SIZE,
                st\<lparr>as_next_before := Some cursor, as_before := Some cursor\<rparr>))"

text \<open>One iteration of the scan over the pages: its result, or the variables for the next one.\<close>

definition active_page ::
  "('w, 'r) connect_env \<Rightarrow> 'r \<Rightarrow> string \<Rightarrow> u64 option \<Rightarrow> string option \<Rightarrow> active_scan \<Rightarrow> 'w \<Rightarrow>
   (AppError + active_scan) \<times> 'w + active_scan \<times> 'w" where
  "active_page env root multifactor created_at_from filt st w =
     (if length (as_sessions st) \<ge> ACTIVE_SESSIONS_CHUNK_SIZE then Inl (Inr st, w)
      else case ce_query_profiles env root multifactor created_at_from ACTIVE_SESSIONS_CHUNK_SIZE (as_before st) w of
        (Inl e, w1) \<Rightarrow> Inl (Inl (with_context ''AuthServiceRoot::query_profiles_by_multifactor'' e), w1)
      | (Inr page, w1) \<Rightarrow>
          if pg_records page = [] then Inl (Inr st, w1)
          else case active_records env root filt (pg_records page) st w1 of (st1, w2) \<Rightarrow>
            case active_advance page st1 of
              (True, st2) \<Rightarrow> Inr (st2, w2)
            | (False, st2) \<Rightarrow> Inl (Inr st2, w2))"

text \<open>The scan may go on for ever, which is the value \<open>None\<close>.\<close>

partial_function (option) active_pages ::
  "('w, 'r) connect_env \<Rightarrow> 'r \<Rightarrow> string \<Rightarrow> u64 option \<Rightarrow> string option \<Rightarrow> active_scan \<Rightarrow> 'w \<Rightarrow>
   ((AppError + active_scan) \<times> 'w) option" where
  "active_pages env root multifactor created_at_from filt st w =
     (case active_page env root multifactor created_at_from filt st w of
        Inl r \<Rightarrow> Some r
      | Inr (st1, w1) \<Rightarrow> active_pages env root multifactor created_at_from filt st1 w1)"

record ResultOfQueryActiveSessions =
  qa_sessions :: "ActiveConnectSession list"
  qa_next_before :: "string option"
  qa_exhausted_active :: bool

definition active_scan_start :: "string option \<Rightarrow> active_scan" where
  "active_scan_start before =
     \<lparr> as_sessions = [], as_seen = {}, as_deployed = (\<lambda>_. None), as_has_deployed = False, as_next_before = None,
       as_before = before, as_stalled = False \<rparr>"

definition active_scan_result :: "active_scan \<Rightarrow> ResultOfQueryActiveSessions" where
  "active_scan_result st =
     \<lparr> qa_sessions = as_sessions st, qa_next_before = as_next_before st,
       qa_exhausted_active = (as_stalled st \<or> \<not> as_has_deployed st) \<rparr>"

definition query_active_sessions_by_multifactor ::
  "('w, 'r) connect_env \<Rightarrow> string option \<Rightarrow> string list \<Rightarrow> string \<Rightarrow> string option \<Rightarrow> u64 option \<Rightarrow> string option \<Rightarrow> 'w \<Rightarrow>
   ((AppError + ResultOfQueryActiveSessions) \<times> 'w) option" where
  "query_active_sessions_by_multifactor env api_token endpoints multifactor app_id created_at_from before w =
     (let w0 = ce_acquire env w
      in case and_then (normalize_optional_app_id app_id) (\<lambda>app_id_filter.
                and_then (root_with_endpoints env endpoints api_token) (\<lambda>root. Inr (app_id_filter, root))) of
           Inl e \<Rightarrow> Some (Inl e, w0)
         | Inr (app_id_filter, root) \<Rightarrow>
             map_option (\<lambda>(r, w1). (and_then r (\<lambda>st. Inr (active_scan_result st)), w1))
               (active_pages env root multifactor created_at_from app_id_filter (active_scan_start before) w0))"

end
