(* ===== verification/WalletConnect.thy ===== *)
theory WalletConnect
  imports ConnectOps
begin

text \<open>
  The wallet side of the connect protocol: \<open>bee_wallet/src/services/connect.rs\<close> (payloads, the
  encoders of the wallet's messages, the parser of session messages) and
  \<open>bee_wallet/src/modules/connect.rs\<close> (accepting a connection, reading the messages of a session,
  destroying a profile).

  The wallet uses the same packages, clocks and contracts as the client; they are the field
  \<open>we_base\<close>, and the calls only the wallet makes are further fields of \<open>wallet_env\<close>.
\<close>

section \<open>Data\<close>

definition DEFAULT_QUERY_SESSION_MESSAGES_LIMIT :: u32 where "DEFAULT_QUERY_SESSION_MESSAGES_LIMIT = 50"
definition MAX_QUERY_SESSION_MESSAGES_LIMIT :: u32 where "MAX_QUERY_SESSION_MESSAGES_LIMIT = 200"

record ClientDisconnectMessageBody =
  db_reason :: "string option"

record SignChallengeBody =
  sb_nonce :: string

record ConnectSessionMessage =
  cm_event_id :: string
  cm_event_created_at :: u64
  cm_dir :: string
  cm_seq :: u64
  cm_msg_type :: string
  cm_ts :: "u64 option"
  cm_raw_message_json :: string
  cm_body_json :: string
  cm_body_decrypted :: bool
  cm_wallet_hello :: "WalletHelloBody option"
  cm_set_mining_keys :: "SetMiningKeysBody option"
  cm_client_disconnect :: "ClientDisconnectMessageBody option"
  cm_sign_challenge :: "SignChallengeBody option"
  cm_challenge_response :: "ChallengeResponseBody option"
  cm_session_state_after :: "ConnectSessionState option"

record ResultOfQuerySessionMessages =
  qm_profile_address :: string
  qm_messages :: "ConnectSessionMessage list"
  qm_next_before :: "string option"
  qm_updated_session_state :: "ConnectSessionState option"

record ResultOfAcceptConnect =
  ra_profile_address :: string
  ra_deploy_message_id :: "string option"
  ra_wallet_hello_message_id :: "string option"
  ra_wallet_hello_json :: string
  ra_session_state :: ConnectSessionState

record profile_details =
  pf_pubkey_hash :: string
  pf_multifactor_hash :: string

record submit_params =
  tp_dest :: string
  tp_value :: u128
  tp_bounce :: bool
  tp_all_balance :: bool
  tp_epk_expire_at :: u64
  tp_payload :: string

record ('w, 'r) wallet_env =
  we_base :: "('w, 'r) connect_env"
  we_root :: 'r
  we_now_secs :: "'w \<Rightarrow> u64 \<times> 'w"
  we_now_ms :: "('w, AppError, u64) io"
  we_value_from_str :: "string \<Rightarrow> json result"
  we_disconnect_from_value :: "json \<Rightarrow> ClientDisconnectMessageBody result"
  we_sign_from_value :: "json \<Rightarrow> SignChallengeBody result"
  we_query_events :: "string \<Rightarrow> u64 option \<Rightarrow> u32 \<Rightarrow> string option \<Rightarrow> ('w, AppError, context_event list \<times> string option) io"
  we_hash_pubkey :: "string \<Rightarrow> ('w, AppError, string) io"
  we_hash_multifactor :: "string \<Rightarrow> ('w, AppError, string) io"
  we_deploy_profile :: "string \<Rightarrow> string \<Rightarrow> string \<Rightarrow> ('w, AppError, ResultOfSendMessage) io"
  we_get_details :: "string \<Rightarrow> ('w, AppError, profile_details) io"
  we_get_epk_expire_at :: "string \<Rightarrow> string \<Rightarrow> ('w, AppError, u64) io"
  we_submit_transaction :: "string \<Rightarrow> submit_params \<Rightarrow> KeyPair \<Rightarrow> ('w, AppError, ResultOfSendMessage) io"

definition connect_error :: "string \<Rightarrow> AppError" where
  "connect_error message = with_kind ''connect'' (app_error_new message)"

section \<open>Payloads\<close>

definition wallet_validate_payload_shape :: "ConnectPayload \<Rightarrow> AppError + unit" where
  "wallet_validate_payload_shape payload =
     (if cp_v payload \<noteq> CONNECT_DEEPLINK_VERSION
      then Inl (connect_error (''Unsupported connect deeplink version `'' @ cp_v payload @ ''` (expected `'' @
                               CONNECT_DEEPLINK_VERSION @ ''`)''))
      else if trim (cp_session_id payload) = [] then Inl (connect_error ''Connect payload session_id is empty'')
      else if trim (cp_description payload) = [] then Inl (connect_error ''Connect payload description is empty'')
      else and_then (map_err connect_error (normalize_uint256_hex (cp_app_id payload))) (\<lambda>_. Inr ()))"

definition wallet_decode_payload :: "('w, 'r) connect_env \<Rightarrow> string \<Rightarrow> AppError + ConnectPayload" where
  "wallet_decode_payload env payload_b64 =
     and_then (map_err (\<lambda>e. connect_error (''Decode connect payload base64url ('' @ e @ '')''))
                 (cr_b64_decode (ce_crypto env) payload_b64)) (\<lambda>payload_bytes.
     and_then (map_err (\<lambda>e. connect_error (''Decode connect payload utf8 ('' @ e @ '')''))
                 (ce_from_utf8 env payload_bytes)) (\<lambda>payload_json.
     and_then (map_err (\<lambda>e. connect_error (''Deserialize connect payload json ('' @ e @ '')''))
                 (ce_payload_from_str env payload_json)) (\<lambda>payload.
     and_then (wallet_validate_payload_shape payload) (\<lambda>_. Inr payload))))"

definition validate_connect_payload :: "ConnectPayload \<Rightarrow> u64 \<Rightarrow> AppError + unit" where
  "validate_connect_payload payload now_secs =
     and_then (wallet_validate_payload_shape payload) (\<lambda>_.
     if cp_expires_at payload \<le> now_secs
     then Inl (connect_error (''Connect payload expired at '' @ show_u (cp_expires_at payload) @ '', now '' @ show_u now_secs))
     else Inr ())"

definition validate_shared_key_connect_payload :: "ConnectPayload \<Rightarrow> u64 \<Rightarrow> AppError + unit" where
  "validate_shared_key_connect_payload payload now_secs =
     and_then (validate_connect_payload payload now_secs) (\<lambda>_. Inr ())"

definition validate_session_message_params :: "string \<Rightarrow> string \<Rightarrow> AppError + unit" where
  "validate_session_message_params session_id description =
     (if trim session_id = [] then Inl (connect_error ''connect session_id is empty'')
      else if trim description = [] then Inl (connect_error ''connect description is empty'')
      else Inr ())"

definition normalize_query_session_messages_limit :: "u32 option \<Rightarrow> u32" where
  "normalize_query_session_messages_limit limit =
     min (max (unwrap_or DEFAULT_QUERY_SESSION_MESSAGES_LIMIT limit) 1) MAX_QUERY_SESSION_MESSAGES_LIMIT"

section \<open>Encoders\<close>

definition wallet_envelope ::
  "string \<Rightarrow> u64 \<Rightarrow> string \<Rightarrow> u64 \<Rightarrow> EncryptedConnectBody \<Rightarrow> string \<Rightarrow> json" where
  "wallet_envelope session_id seq msg_type ts encrypted wallet_dh_public =
     JObj
        [(''v'', JStr CONNECT_MESSAGE_VERSION), (''session_id'', JStr session_id), (''dir'', JStr ''w2c''),
         (''seq'', JNum seq), (''type'', JStr msg_type), (''ts'', JNum ts), (''dh_public'', JStr wallet_dh_public),
         (''enc'', JObj [(''alg'', JStr CONNECT_MESSAGE_ENC_XCHACHA),
                         (''nonce'', JStr (eb_nonce_b64url encrypted)),
                         (''salt'', JStr (eb_salt_b64url encrypted))]),
         (''body'', JStr (eb_ciphertext_b64url encrypted))]"

text \<open>\<open>body[key] = value\<close> for the optional fields.\<close>

definition set_opt :: "string \<Rightarrow> string option \<Rightarrow> json \<Rightarrow> json" where
  "set_opt key value body = (case value of Some v \<Rightarrow> json_set key (JStr v) body | None \<Rightarrow> body)"

definition wallet_hello_body ::
  "string \<Rightarrow> string \<Rightarrow> string option \<Rightarrow> string option \<Rightarrow> string option \<Rightarrow> json" where
  "wallet_hello_body wallet_name wallet_address nonce signature epk_public =
     set_opt ''epk_public'' epk_public (set_opt ''signature'' signature (set_opt ''nonce'' nonce
       (JObj [(''wallet_name'', JStr wallet_name), (''wallet_address'', JStr wallet_address)])))"

definition challenge_response_body :: "string \<Rightarrow> string \<Rightarrow> string \<Rightarrow> string option \<Rightarrow> json" where
  "challenge_response_body nonce signature wallet_address epk_public =
     set_opt ''epk_public'' epk_public
       (JObj [(''nonce'', JStr nonce), (''signature'', JStr signature), (''wallet_address'', JStr wallet_address)])"

text \<open>What the two encoders share after their checks; \<open>name\<close> is the name in the error text.\<close>

definition encode_wallet_message ::
  "('w, 'r) wallet_env \<Rightarrow> string \<Rightarrow> string \<Rightarrow> u64 \<Rightarrow> json \<Rightarrow> string \<Rightarrow> string \<Rightarrow> ('w, AppError, string) io" where
  "encode_wallet_message env session_id msg_type seq body encryption_root wallet_dh_public w =
     (case we_now_secs env w of (ts, w1) \<Rightarrow>
      io_then (io_lift (map_err connect_error
                 (connect_message_aad (ce_crypto (we_base env)) session_id ''w2c'' seq msg_type ts))) (\<lambda>aad.
      io_then (io_map_err connect_error (io_encrypt_body (we_base env) body encryption_root aad)) (\<lambda>encrypted.
      io_lift (map_err (\<lambda>e. connect_error (''Serialize '' @ msg_type @ '' message ('' @ e @ '')''))
        (ce_value_to_string (we_base env) (wallet_envelope session_id seq msg_type ts encrypted wallet_dh_public))))) w1)"

definition encode_wallet_hello_message ::
  "('w, 'r) wallet_env \<Rightarrow> string \<Rightarrow> string \<Rightarrow> string \<Rightarrow> string \<Rightarrow> string \<Rightarrow> u64 \<Rightarrow>
   string option \<Rightarrow> string option \<Rightarrow> string option \<Rightarrow> ('w, AppError, string) io" where
  "encode_wallet_hello_message env session_id wallet_name wallet_address encryption_root wallet_dh_public seq
     nonce signature epk_public =
     (if session_id = [] then io_lift (Inl (connect_error ''wallet_hello session_id is empty''))
      else if seq = 0 then io_lift (Inl (connect_error ''wallet_hello seq must be > 0''))
      else encode_wallet_message env session_id ''wallet_hello'' seq
             (wallet_hello_body wallet_name wallet_address nonce signature epk_public) encryption_root wallet_dh_public)"

definition encode_challenge_response_message ::
  "('w, 'r) wallet_env \<Rightarrow> string \<Rightarrow> string \<Rightarrow> string \<Rightarrow> string \<Rightarrow> string option \<Rightarrow> string \<Rightarrow> string \<Rightarrow> u64 \<Rightarrow>
   ('w, AppError, string) io" where
  "encode_challenge_response_message env session_id nonce signature wallet_address epk_public encryption_root
     wallet_dh_public seq =
     (if session_id = [] then io_lift (Inl (connect_error ''challenge_response session_id is empty''))
      else if seq = 0 then io_lift (Inl (connect_error ''challenge_response seq must be > 0''))
      else encode_wallet_message env session_id CONNECT_MESSAGE_TYPE_CHALLENGE_RESPONSE seq
             (challenge_response_body nonce signature wallet_address epk_public) encryption_root wallet_dh_public)"

section \<open>Reading messages\<close>

definition wallet_decode_body ::
  "('w, 'r) connect_env \<Rightarrow> ConnectMessageEnvelope \<Rightarrow> string option \<Rightarrow> string \<Rightarrow> AppError + json" where
  "wallet_decode_body env envelope encryption_secret expected_session_id =
     (let alg = (case en_enc envelope of Some enc \<Rightarrow> me_alg enc | None \<Rightarrow> CONNECT_MESSAGE_ENC_NONE)
      in if alg = CONNECT_MESSAGE_ENC_NONE
         then Inl (connect_error ''Unencrypted connect messages are no longer accepted'')
         else if alg \<noteq> CONNECT_MESSAGE_ENC_XCHACHA
         then Inl (connect_error (''Unsupported connect message enc alg `'' @ alg @ ''`''))
         else
         and_then (ok_or (connect_error ''Encrypted connect message requires encryption secret'')
                     (Option.bind encryption_secret (\<lambda>v. if trim v = [] then None else Some (trim v)))) (\<lambda>secret.
         and_then (ok_or (connect_error ''Encrypted connect message misses `enc`'') (en_enc envelope)) (\<lambda>enc.
         and_then (ok_or (connect_error ''Encrypted connect message misses nonce'') (me_nonce enc)) (\<lambda>nonce_b64url.
         and_then (ok_or (connect_error ''Encrypted connect message misses salt'') (me_salt enc)) (\<lambda>salt_b64url.
         and_then (ok_or (connect_error ''Encrypted connect message body must be base64url string'')
                     (json_as_str (en_body envelope))) (\<lambda>ciphertext_b64url.
         and_then (ok_or (connect_error ''Encrypted connect message misses ts'') (en_ts envelope)) (\<lambda>ts.
         and_then (map_err connect_error (connect_message_aad (ce_crypto env) expected_session_id (en_dir envelope)
                     (en_seq envelope) (en_msg_type envelope) ts)) (\<lambda>aad.
         and_then (map_err connect_error (decrypt_connect_body (ce_crypto env) ciphertext_b64url nonce_b64url salt_b64url
                     secret aad)) (\<lambda>plaintext.
         map_err (\<lambda>e. connect_error (''Deserialize decrypted connect body ('' @ e @ '')''))
           (ce_value_from_slice env plaintext))))))))))"

text \<open>The typed body of a message, by its type.\<close>

definition typed_body ::
  "('w, 'r) wallet_env \<Rightarrow> ConnectMessageEnvelope \<Rightarrow> json option \<Rightarrow> ConnectSessionMessage \<Rightarrow> ConnectSessionMessage" where
  "typed_body env envelope decoded_body message =
     (let msg_type = en_msg_type envelope
      in if msg_type = CONNECT_MESSAGE_TYPE_WALLET_HELLO then
           (case Option.bind decoded_body (\<lambda>v. res_ok (ce_hello_from_value (we_base env) v)) of
              Some body \<Rightarrow> message\<lparr>cm_wallet_hello := Some body\<rparr>
            | None \<Rightarrow> message)
         else if msg_type = CONNECT_MESSAGE_TYPE_SET_MINING_KEYS then
           (case Option.bind decoded_body (\<lambda>v. res_ok (ce_keys_from_value (we_base env) v)) of
              Some body \<Rightarrow>
                (case (res_ok (normalize_uint256_hex (kb_app_id body)), res_ok (normalize_owner_public_hex (kb_owner_public body))) of
                   (Some app_id, Some owner_public) \<Rightarrow>
                     message\<lparr>cm_set_mining_keys := Some \<lparr> kb_app_id = app_id, kb_owner_public = owner_public \<rparr>\<rparr>
                 | _ \<Rightarrow> message)
            | None \<Rightarrow> message)
         else if msg_type = CONNECT_MESSAGE_TYPE_CLIENT_DISCONNECT then
           (case we_disconnect_from_value env (unwrap_or (en_body envelope) decoded_body) of
              Inr body \<Rightarrow> message\<lparr>cm_client_disconnect := Some
                \<lparr> db_reason = Option.bind (db_reason body) (\<lambda>v. if trim v = [] then None else Some (trim v)) \<rparr>\<rparr>
            | Inl _ \<Rightarrow> message)
         else if msg_type = CONNECT_MESSAGE_TYPE_SIGN_CHALLENGE then
           (case Option.bind decoded_body (\<lambda>v. res_ok (we_sign_from_value env v)) of
              Some body \<Rightarrow> message\<lparr>cm_sign_challenge := Some body\<rparr>
            | None \<Rightarrow> message)
         else if msg_type = CONNECT_MESSAGE_TYPE_CHALLENGE_RESPONSE then
           (case Option.bind decoded_body (\<lambda>v. res_ok (ce_response_from_value (we_base env) v)) of
              Some body \<Rightarrow> message\<lparr>cm_challenge_response := Some body\<rparr>
            | None \<Rightarrow> message)
         else message)"

definition parse_connect_session_message_with_secret ::
  "('w, 'r) wallet_env \<Rightarrow> string \<Rightarrow> string \<Rightarrow> string option \<Rightarrow> string \<Rightarrow> u64 \<Rightarrow> ConnectSessionMessage option" where
  "parse_connect_session_message_with_secret env raw_message_json expected encryption_secret event_id event_created_at =
     (let expected_session_id = trim expected
      in if expected_session_id = [] then None
         else case ce_envelope_from_str (we_base env) raw_message_json of
           Inl _ \<Rightarrow> None
         | Inr envelope \<Rightarrow>
           if en_v envelope \<noteq> CONNECT_MESSAGE_VERSION then None
           else if en_session_id envelope \<noteq> expected_session_id then None
           else if trim (en_dir envelope) = [] then None
           else
             let decoded_body = res_ok (wallet_decode_body (we_base env) envelope encryption_secret expected_session_id);
                 body_json = unwrap_or (unwrap_or ''null'' (res_ok (ce_value_to_string (we_base env) (en_body envelope))))
                               (Option.bind decoded_body (\<lambda>v. res_ok (ce_value_to_string (we_base env) v)));
                 message = \<lparr> cm_event_id = event_id, cm_event_created_at = event_created_at, cm_dir = en_dir envelope,
                             cm_seq = en_seq envelope, cm_msg_type = en_msg_type envelope, cm_ts = en_ts envelope,
                             cm_raw_message_json = raw_message_json, cm_body_json = body_json,
                             cm_body_decrypted = (decoded_body \<noteq> None), cm_wallet_hello = None,
                             cm_set_mining_keys = None, cm_client_disconnect = None, cm_sign_challenge = None,
                             cm_challenge_response = None, cm_session_state_after = None \<rparr>
             in Some (typed_body env envelope decoded_body message))"

definition parse_connect_session_message ::
  "('w, 'r) wallet_env \<Rightarrow> string \<Rightarrow> string \<Rightarrow> string \<Rightarrow> u64 \<Rightarrow> ConnectSessionMessage option" where
  "parse_connect_session_message env raw_message_json expected_session_id event_id event_created_at =
     parse_connect_session_message_with_secret env raw_message_json expected_session_id None event_id event_created_at"

section \<open>The messages of a session\<close>

text \<open>The variables of the loop: the state, whether it moved, and the messages so far.\<close>

record session_scan =
  ss_state :: "ConnectSessionState option"
  ss_had_rekey :: bool
  ss_messages :: "ConnectSessionMessage list"

fun json_as_u64 :: "json \<Rightarrow> u64 option" where
  "json_as_u64 (JNum n) = Some n"
| "json_as_u64 _ = None"

definition field_str :: "string \<Rightarrow> json \<Rightarrow> string option" where
  "field_str key envelope = Option.bind (json_get key envelope) json_as_str"

text \<open>The key of a message that needs a re-key: its public key and its number.\<close>

definition needs_rekey :: "('w, 'r) wallet_env \<Rightarrow> string \<Rightarrow> string \<Rightarrow> (string \<times> u64) option" where
  "needs_rekey env session_id raw =
     (case we_value_from_str env raw of
        Inl _ \<Rightarrow> None
      | Inr envelope \<Rightarrow>
          if field_str ''dir'' envelope = Some ''c2w'' \<and> field_str ''session_id'' envelope = Some session_id
          then map_option (\<lambda>peer_dh_pub. (peer_dh_pub, unwrap_or 0 (Option.bind (json_get ''seq'' envelope) json_as_u64)))
                 (field_str ''dh_public'' envelope)
          else None)"

text \<open>Re-key and decrypt: the message and the state after it, when both succeed.\<close>

definition read_rekeyed ::
  "('w, 'r) wallet_env \<Rightarrow> string \<Rightarrow> context_event \<Rightarrow> ConnectSessionState \<Rightarrow> string \<Rightarrow> u64 \<Rightarrow> 'w \<Rightarrow>
   (ConnectSessionMessage \<times> ConnectSessionState) option \<times> 'w" where
  "read_rekeyed env session_id record state peer_dh_pub envelope_seq w =
     (case io_dh_now (we_base env) state w of (now, w1) \<Rightarrow>
        (case rekey_inbound (ce_crypto (we_base env)) now state peer_dh_pub session_id envelope_seq of
           Inl _ \<Rightarrow> (None, w1)
         | Inr rekey \<Rightarrow>
             (case parse_connect_session_message_with_secret env (ce_text record) session_id
                     (Some (rr_message_encryption_root rekey)) (ce_id record) (ce_created_at record) of
                None \<Rightarrow> (None, w1)
              | Some msg \<Rightarrow>
                  if cm_body_decrypted msg
                  then (Some (msg\<lparr>cm_session_state_after := Some (rr_updated_state rekey)\<rparr>, rr_updated_state rekey), w1)
                  else (None, w1))))"

definition read_plain :: "('w, 'r) wallet_env \<Rightarrow> string \<Rightarrow> context_event \<Rightarrow> session_scan \<Rightarrow> session_scan" where
  "read_plain env session_id record st =
     (let parsed =
            (case map_option cs_encryption_root (ss_state st) of
               Some secret \<Rightarrow> parse_connect_session_message_with_secret env (ce_text record) session_id (Some secret)
                                (ce_id record) (ce_created_at record)
             | None \<Rightarrow> parse_connect_session_message env (ce_text record) session_id (ce_id record) (ce_created_at record))
      in case parsed of Some msg \<Rightarrow> st\<lparr>ss_messages := ss_messages st @ [msg]\<rparr> | None \<Rightarrow> st)"

definition read_event ::
  "('w, 'r) wallet_env \<Rightarrow> string \<Rightarrow> context_event \<Rightarrow> session_scan \<Rightarrow> 'w \<Rightarrow> session_scan \<times> 'w" where
  "read_event env session_id record st w =
     (case (needs_rekey env session_id (ce_text record), ss_state st) of
        (Some (peer_dh_pub, envelope_seq), Some state) \<Rightarrow>
          (case read_rekeyed env session_id record state peer_dh_pub envelope_seq w of
             (Some (msg, state1), w1) \<Rightarrow>
               (st\<lparr>ss_state := Some state1, ss_had_rekey := True, ss_messages := ss_messages st @ [msg]\<rparr>, w1)
           | (None, w1) \<Rightarrow> (read_plain env session_id record st, w1))
      | _ \<Rightarrow> (read_plain env session_id record st, w))"

fun read_session_records ::
  "('w, 'r) wallet_env \<Rightarrow> string \<Rightarrow> context_event list \<Rightarrow> session_scan \<Rightarrow> 'w \<Rightarrow> session_scan \<times> 'w" where
  "read_session_records env session_id [] st w = (st, w)"
| "read_session_records env session_id (record # records) st w =
     (case read_event env session_id record st w of (st1, w1) \<Rightarrow> read_session_records env session_id records st1 w1)"

definition query_session_messages ::
  "('w, 'r) wallet_env \<Rightarrow> string \<Rightarrow> string \<Rightarrow> ConnectSessionState option \<Rightarrow> u64 option \<Rightarrow> string option \<Rightarrow> u32 option \<Rightarrow>
   ('w, AppError, ResultOfQuerySessionMessages) io" where
  "query_session_messages env session_id description session_state created_at_from before limit =
     acquired (we_base env)
     (io_then (io_lift (validate_session_message_params session_id description)) (\<lambda>_.
      io_then (io_map_err (with_context ''connect query get_profile_address'')
                 (ce_get_profile_address (we_base env) (we_root env) description)) (\<lambda>profile_address w.
      case ce_is_deployed (we_base env) (we_root env) profile_address w of
        (False, w1) \<Rightarrow>
          (Inr \<lparr> qm_profile_address = profile_address, qm_messages = [], qm_next_before = None,
                 qm_updated_session_state = None \<rparr>, w1)
      | (True, w1) \<Rightarrow>
          io_then (io_map_err (with_context ''connect query_context_added_events'')
                     (we_query_events env profile_address created_at_from (normalize_query_session_messages_limit limit) before))
            (\<lambda>(events, cursor) w2.
               case read_session_records env session_id events
                      \<lparr> ss_state = session_state, ss_had_rekey = False, ss_messages = [] \<rparr> w2 of
                 (st, w3) \<Rightarrow>
                   (Inr \<lparr> qm_profile_address = profile_address, qm_messages = ss_messages st, qm_next_before = cursor,
                          qm_updated_session_state = (if ss_had_rekey st then ss_state st else session_state) \<rparr>, w3)) w1)))"

section \<open>Accepting a connection\<close>

definition DESTROY_PROFILE_TRANSFER_NANO :: u128 where "DESTROY_PROFILE_TRANSFER_NANO = 1000000000"

text \<open>\<open>infra::ensure_tx_success\<close>\<close>

definition wallet_ensure_tx_success :: "ResultOfSendMessage \<Rightarrow> string \<Rightarrow> AppError + ResultOfSendMessage" where
  "wallet_ensure_tx_success result context =
     (let aborted = unwrap_or False (sm_aborted result);
          exit_code = unwrap_or 0 (sm_exit_code result)
      in if aborted \<or> exit_code > 0
         then Inl (app_error_new (context @ '': tx aborted='' @ show_bool aborted @ '', exit_code='' @ show_int exit_code))
         else Inr result)"

definition wallet_wait_profile_active ::
  "('w, 'r) wallet_env \<Rightarrow> string \<Rightarrow> u32 option \<Rightarrow> u64 option \<Rightarrow> ('w, AppError, unit) io" where
  "wallet_wait_profile_active env profile attempts_limit poll_ms =
     (let attempts = ucast (min (unwrap_or 60 attempts_limit) 255);
          attempts_timeout = unwrap_or 1000 poll_ms
      in io_map_err (with_context ''connect wait profile active'')
           (ce_wait_account (we_base env) (we_root env) profile attempts attempts_timeout))"

text \<open>The key exchange: a fresh key pair, the shared secret and the keys derived from it.\<close>

definition wallet_key_exchange ::
  "('w, 'r) wallet_env \<Rightarrow> string \<Rightarrow> string \<Rightarrow> ('w, AppError, DhKeyPair \<times> DhSessionKeys) io" where
  "wallet_key_exchange env session_id client_dh_public =
     io_then (\<lambda>w. case ce_random (we_base env) 32 w of (draw, w1) \<Rightarrow>
                (map_err connect_error (generate_dh_keypair (ce_crypto (we_base env)) draw), w1)) (\<lambda>wallet_dh.
     io_then (io_lift (map_err connect_error
                (compute_shared_secret (ce_crypto (we_base env)) (dk_secret_hex wallet_dh) client_dh_public))) (\<lambda>shared_secret.
     io_then (io_lift (map_err connect_error
                (derive_session_keys (ce_crypto (we_base env)) shared_secret session_id))) (\<lambda>session_keys.
     io_lift (Inr (wallet_dh, session_keys)))))"

text \<open>Deploys the profile unless it is deployed, and waits for it.\<close>

definition ensure_profile_deployed ::
  "('w, 'r) wallet_env \<Rightarrow> string \<Rightarrow> string \<Rightarrow> string \<Rightarrow> string \<Rightarrow> u32 option \<Rightarrow> u64 option \<Rightarrow>
   ('w, AppError, string option) io" where
  "ensure_profile_deployed env profile owner_public wallet_address description attempts_limit poll_ms w =
     (case ce_is_deployed (we_base env) (we_root env) profile w of
        (True, w1) \<Rightarrow> (Inr None, w1)
      | (False, w1) \<Rightarrow>
          io_then (io_map_err (with_context ''connect deploy_profile_by_identity'')
                     (we_deploy_profile env (''0x'' @ owner_public) wallet_address description)) (\<lambda>deploy_result.
          io_then (io_lift (wallet_ensure_tx_success deploy_result ''connect deploy_profile_by_identity'')) (\<lambda>deploy_result.
          io_then (wallet_wait_profile_active env profile attempts_limit poll_ms) (\<lambda>_.
          io_lift (Inr (sm_message_hash deploy_result))))) w1)"

definition check_profile_owner :: "profile_details \<Rightarrow> string \<Rightarrow> string \<Rightarrow> AppError + unit" where
  "check_profile_owner details pubkey_hash multifactor_hash =
     (if pf_pubkey_hash details \<noteq> pubkey_hash
      then Inl (connect_error (''AuthProfile owner mismatch: expected pubkey_hash `'' @ pubkey_hash @ ''`, got `'' @
                               pf_pubkey_hash details @ ''`''))
      else if to_ascii_lowercase (pf_multifactor_hash details) \<noteq> to_ascii_lowercase multifactor_hash
      then Inl (connect_error (''AuthProfile multifactor mismatch: expected multifactor_hash `'' @ multifactor_hash @
                               ''`, got `'' @ pf_multifactor_hash details @ ''`''))
      else Inr ())"

text \<open>Everything up to the greeting: the profile's address and the id of the deploy message.\<close>

definition prepare_profile ::
  "('w, 'r) wallet_env \<Rightarrow> string \<Rightarrow> string \<Rightarrow> string \<Rightarrow> u32 option \<Rightarrow> u64 option \<Rightarrow> ('w, AppError, string \<times> string option) io" where
  "prepare_profile env description owner_public wallet_address attempts_limit poll_ms =
     io_then (io_map_err (with_context ''connect get_profile_address'')
                (ce_get_profile_address (we_base env) (we_root env) description)) (\<lambda>profile_address.
     io_then (io_map_err (with_context ''connect hash_pubkey'') (we_hash_pubkey env (''0x'' @ owner_public))) (\<lambda>pubkey_hash.
     io_then (io_map_err (with_context ''connect hash_multifactor'') (we_hash_multifactor env wallet_address)) (\<lambda>multifactor_hash.
     io_then (ensure_profile_deployed env profile_address owner_public wallet_address description
                attempts_limit poll_ms) (\<lambda>deploy_message_id.
     io_then (io_map_err (with_context ''connect profile.get_details'') (we_get_details env profile_address)) (\<lambda>details.
     io_then (io_lift (check_profile_owner details pubkey_hash multifactor_hash)) (\<lambda>_.
     io_lift (Inr (profile_address, deploy_message_id))))))))"

definition accept_connect_common ::
  "('w, 'r) wallet_env \<Rightarrow> ConnectPayload \<Rightarrow> string \<Rightarrow> string \<Rightarrow> string \<Rightarrow> u32 option \<Rightarrow> u64 option \<Rightarrow>
   string option \<Rightarrow> string option \<Rightarrow> ('w, AppError, ResultOfAcceptConnect) io" where
  "accept_connect_common env payload wallet_name wallet_address client_dh_public attempts_limit poll_ms
     challenge_signature challenge_epk_public =
     io_then (wallet_key_exchange env (cp_session_id payload) client_dh_public) (\<lambda>(wallet_dh, session_keys).
     let owner_keys = \<lparr> kp_public = sk_signing_public_hex session_keys, kp_secret = sk_signing_secret_hex session_keys \<rparr>
     in
     io_then (prepare_profile env (cp_description payload) (kp_public owner_keys) wallet_address attempts_limit poll_ms)
       (\<lambda>(profile_address, deploy_message_id).
     io_then (io_map_err (\<lambda>e. connect_error (''wallet_hello now_ms ('' @ ae_message e @ '')'')) (we_now_ms env)) (\<lambda>hello_seq.
     io_then (encode_wallet_hello_message env (cp_session_id payload) wallet_name wallet_address
                (sk_encryption_root_hex session_keys) (dk_public_hex wallet_dh) hello_seq (cp_nonce payload)
                challenge_signature challenge_epk_public) (\<lambda>wallet_hello_json.
     io_then (io_map_err (with_context ''connect add_context_text wallet_hello'')
                (ce_add_context_text (we_base env) (we_root env) profile_address wallet_hello_json owner_keys)) (\<lambda>hello_result.
     io_then (io_lift (wallet_ensure_tx_success hello_result ''connect wallet_hello add_context'')) (\<lambda>hello_result w.
     case ce_dh_now_secs (we_base env) w of (now, w1) \<Rightarrow>
       (Inr \<lparr> ra_profile_address = profile_address, ra_deploy_message_id = deploy_message_id,
              ra_wallet_hello_message_id = sm_message_hash hello_result, ra_wallet_hello_json = wallet_hello_json,
              ra_session_state = (create_initial_state now session_keys (dk_secret_hex wallet_dh) client_dh_public)
                 \<lparr>cs_last_sent_seq := hello_seq\<rparr> \<rparr>, w1)))))))"

definition accept_shared_key_connect ::
  "('w, 'r) wallet_env \<Rightarrow> ConnectPayload \<Rightarrow> string \<Rightarrow> string \<Rightarrow> string \<Rightarrow> u32 option \<Rightarrow> u64 option \<Rightarrow>
   string option \<Rightarrow> string option \<Rightarrow> ('w, AppError, ResultOfAcceptConnect) io" where
  "accept_shared_key_connect env payload wallet_name wallet_address client_dh_public attempts_limit poll_ms
     challenge_signature challenge_epk_public =
     acquired (we_base env) (\<lambda>w.
     case we_now_secs env w of (now, w1) \<Rightarrow>
     io_then (io_lift (validate_shared_key_connect_payload payload now)) (\<lambda>_.
     accept_connect_common env payload wallet_name wallet_address client_dh_public attempts_limit poll_ms
       challenge_signature challenge_epk_public) w1)"

section \<open>Destroying a profile\<close>

definition destroy_transaction :: "string \<Rightarrow> u64 \<Rightarrow> submit_params" where
  "destroy_transaction profile_address epk_expire_at =
     \<lparr> tp_dest = profile_address, tp_value = DESTROY_PROFILE_TRANSFER_NANO, tp_bounce = False, tp_all_balance = False,
       tp_epk_expire_at = epk_expire_at, tp_payload = [] \<rparr>"

text \<open>The result is the list of message ids of the write.\<close>

definition destroy_connect_profile ::
  "('w, 'r) wallet_env \<Rightarrow> string \<Rightarrow> string \<Rightarrow> KeyPair \<Rightarrow> ('w, AppError, string list) io" where
  "destroy_connect_profile env profile_address multifactor_address signer_keys =
     acquired (we_base env) (\<lambda>w.
     case ce_is_deployed (we_base env) (we_root env) profile_address w of
       (False, w1) \<Rightarrow> (Inr [], w1)
     | (True, w1) \<Rightarrow>
       io_then (io_map_err (with_context ''connect destroy profile.get_details'') (we_get_details env profile_address)) (\<lambda>details.
       io_then (io_map_err (with_context ''connect destroy hash_multifactor'')
                  (we_hash_multifactor env multifactor_address)) (\<lambda>expected_multifactor_hash.
       if to_ascii_lowercase (pf_multifactor_hash details) \<noteq> to_ascii_lowercase expected_multifactor_hash
       then io_lift (Inl (connect_error (''AuthProfile multifactor mismatch: expected `'' @ expected_multifactor_hash @
                                         ''`, got `'' @ pf_multifactor_hash details @ ''`'')))
       else
       io_then (io_map_err (with_context ''connect destroy get_epk_expire_at'')
                  (we_get_epk_expire_at env multifactor_address (''0x'' @ kp_public signer_keys))) (\<lambda>epk_expire_at.
       io_then (io_map_err (with_context ''connect destroy multifactor.submit_transaction'')
                  (we_submit_transaction env multifactor_address (destroy_transaction profile_address epk_expire_at)
                     signer_keys)) (\<lambda>result.
       io_then (io_lift (wallet_ensure_tx_success result ''connect destroy profile'')) (\<lambda>result.
       io_lift (Inr (case sm_message_hash result of Some h \<Rightarrow> [h] | None \<Rightarrow> []))))))) w1)"

end
