(* ===== verification/ConnectProtocol.thy ===== *)
theory ConnectProtocol
  imports WalletConnect "HOL-Library.Countable"
begin

unbundle bit_operations_syntax

text \<open>
  The connect protocol as a whole: what one side writes, the other side reads.  \<open>connect_env_ok\<close> and
  \<open>wallet_env_ok\<close> collect what both sides rely on of the packages: the random generator fills its
  buffer, base64 has its alphabet, and \<open>serde_json\<close> reads back what it printed, taking the fields of a
  struct from an object by name.
\<close>

section \<open>The laws of the packages\<close>

text \<open>A field of a struct: required, or optional with \<open>#[serde(default)]\<close>.\<close>

definition req_str :: "string \<Rightarrow> (string \<times> json) list \<Rightarrow> string option" where
  "req_str k fs = Option.bind (map_of fs k) json_as_str"

definition req_u64 :: "string \<Rightarrow> (string \<times> json) list \<Rightarrow> u64 option" where
  "req_u64 k fs = Option.bind (map_of fs k) json_as_u64"

definition opt_with :: "(json \<Rightarrow> 'a option) \<Rightarrow> string \<Rightarrow> (string \<times> json) list \<Rightarrow> 'a option option" where
  "opt_with f k fs =
     (case map_of fs k of
        None \<Rightarrow> Some None
      | Some v \<Rightarrow> if v = JNull then Some None else map_option Some (f v))"

fun enc_of_value :: "json \<Rightarrow> ConnectMessageEnc option" where
  "enc_of_value (JObj fs) =
     Option.bind (req_str ''alg'' fs) (\<lambda>alg. Option.bind (opt_with json_as_str ''nonce'' fs) (\<lambda>nonce.
     Option.bind (opt_with json_as_str ''salt'' fs) (\<lambda>salt. Some \<lparr> me_alg = alg, me_nonce = nonce, me_salt = salt \<rparr>)))"
| "enc_of_value _ = None"

definition envelope_of_fields :: "(string \<times> json) list \<Rightarrow> ConnectMessageEnvelope option" where
  "envelope_of_fields fs =
     Option.bind (req_str ''v'' fs) (\<lambda>v. Option.bind (req_str ''session_id'' fs) (\<lambda>session_id.
     Option.bind (req_str ''dir'' fs) (\<lambda>dir. Option.bind (req_u64 ''seq'' fs) (\<lambda>seq.
     Option.bind (req_str ''type'' fs) (\<lambda>msg_type. Option.bind (opt_with json_as_u64 ''ts'' fs) (\<lambda>ts.
     Option.bind (opt_with json_as_str ''dh_public'' fs) (\<lambda>dh_public. Option.bind (opt_with enc_of_value ''enc'' fs) (\<lambda>enc.
     Some \<lparr> en_v = v, en_session_id = session_id, en_dir = dir, en_seq = seq, en_msg_type = msg_type, en_ts = ts,
            en_dh_public = dh_public, en_enc = enc, en_body = unwrap_or JNull (map_of fs ''body'') \<rparr>))))))))"

definition hello_of_fields :: "(string \<times> json) list \<Rightarrow> WalletHelloBody option" where
  "hello_of_fields fs =
     Option.bind (req_str ''wallet_name'' fs) (\<lambda>wallet_name. Option.bind (req_str ''wallet_address'' fs) (\<lambda>wallet_address.
     Option.bind (opt_with json_as_str ''nonce'' fs) (\<lambda>nonce. Option.bind (opt_with json_as_str ''signature'' fs) (\<lambda>signature.
     Option.bind (opt_with json_as_str ''epk_public'' fs) (\<lambda>epk_public.
     Some \<lparr> wb_wallet_name = wallet_name, wb_wallet_address = wallet_address, wb_nonce = nonce,
            wb_signature = signature, wb_epk_public = epk_public \<rparr>)))))"

definition keys_of_fields :: "(string \<times> json) list \<Rightarrow> SetMiningKeysBody option" where
  "keys_of_fields fs =
     Option.bind (req_str ''app_id'' fs) (\<lambda>app_id. Option.bind (req_str ''owner_public'' fs) (\<lambda>owner_public.
     Some \<lparr> kb_app_id = app_id, kb_owner_public = owner_public \<rparr>))"

definition response_of_fields :: "(string \<times> json) list \<Rightarrow> ChallengeResponseBody option" where
  "response_of_fields fs =
     Option.bind (req_str ''nonce'' fs) (\<lambda>nonce. Option.bind (req_str ''signature'' fs) (\<lambda>signature.
     Option.bind (req_str ''wallet_address'' fs) (\<lambda>wallet_address. Option.bind (opt_with json_as_str ''epk_public'' fs) (\<lambda>epk_public.
     Some \<lparr> rb_nonce = nonce, rb_signature = signature, rb_wallet_address = wallet_address, rb_epk_public = epk_public \<rparr>))))"

definition sign_of_fields :: "(string \<times> json) list \<Rightarrow> SignChallengeBody option" where
  "sign_of_fields fs = Option.bind (req_str ''nonce'' fs) (\<lambda>nonce. Some \<lparr> sb_nonce = nonce \<rparr>)"

definition disconnect_of_fields :: "(string \<times> json) list \<Rightarrow> ClientDisconnectMessageBody option" where
  "disconnect_of_fields fs =
     Option.bind (opt_with json_as_str ''reason'' fs) (\<lambda>reason. Some \<lparr> db_reason = reason \<rparr>)"

definition b64url_char :: "char \<Rightarrow> bool" where
  "b64url_char c = (let n = (of_char c :: nat) in 48 \<le> n \<and> n \<le> 57 \<or> 65 \<le> n \<and> n \<le> 90 \<or> 97 \<le> n \<and> n \<le> 122 \<or> n = 45 \<or> n = 95)"

definition connect_env_ok :: "('w, 'r) connect_env \<Rightarrow> bool" where
  "connect_env_ok env =
     (crypto_ok (ce_crypto env) \<and>
      (\<forall>n w bs w'. ce_random env n w = (Inr bs, w') \<longrightarrow> length bs = n) \<and>
      (\<forall>bs. cr_b64_encode (ce_crypto env) bs = [] \<longrightarrow> bs = []) \<and>
      (\<forall>bs. list_all b64url_char (cr_b64_encode (ce_crypto env) bs)) \<and>
      (\<forall>fs s. ce_value_to_string env (JObj fs) = Inr s \<longrightarrow> res_ok (ce_envelope_from_str env s) = envelope_of_fields fs) \<and>
      (\<forall>j bs. cr_to_vec (ce_crypto env) j = Inr bs \<longrightarrow> ce_value_from_slice env bs = Inr j) \<and>
      (\<forall>fs. res_ok (ce_hello_from_value env (JObj fs)) = hello_of_fields fs) \<and>
      (\<forall>fs. res_ok (ce_keys_from_value env (JObj fs)) = keys_of_fields fs) \<and>
      (\<forall>fs. res_ok (ce_response_from_value env (JObj fs)) = response_of_fields fs) \<and>
      (\<forall>p s. ce_payload_to_string env p = Inr s \<longrightarrow>
         s \<noteq> [] \<and> ce_from_utf8 env (as_bytes s) = Inr s \<and> ce_payload_from_str env s = Inr p))"

lemma connect_env_okD:
  assumes "connect_env_ok env"
  shows "crypto_ok (ce_crypto env)"
    and "ce_random env n w = (Inr bs, w') \<Longrightarrow> length bs = n"
    and "cr_b64_encode (ce_crypto env) bs = [] \<Longrightarrow> bs = []"
    and "list_all b64url_char (cr_b64_encode (ce_crypto env) bs)"
    and "ce_value_to_string env (JObj fs) = Inr s \<Longrightarrow> res_ok (ce_envelope_from_str env s) = envelope_of_fields fs"
    and "cr_to_vec (ce_crypto env) j = Inr bs \<Longrightarrow> ce_value_from_slice env bs = Inr j"
    and "res_ok (ce_hello_from_value env (JObj fs)) = hello_of_fields fs"
    and "res_ok (ce_keys_from_value env (JObj fs)) = keys_of_fields fs"
    and "res_ok (ce_response_from_value env (JObj fs)) = response_of_fields fs"
    and "ce_payload_to_string env p = Inr s \<Longrightarrow> s \<noteq> []"
    and "ce_payload_to_string env p = Inr s \<Longrightarrow> ce_from_utf8 env (as_bytes s) = Inr s"
    and "ce_payload_to_string env p = Inr s \<Longrightarrow> ce_payload_from_str env s = Inr p"
  using assms unfolding connect_env_ok_def by blast+

definition wallet_env_ok :: "('w, 'r) wallet_env \<Rightarrow> bool" where
  "wallet_env_ok env =
     (connect_env_ok (we_base env) \<and>
      (\<forall>fs s. ce_value_to_string (we_base env) (JObj fs) = Inr s \<longrightarrow> we_value_from_str env s = Inr (JObj fs)) \<and>
      (\<forall>fs. res_ok (we_sign_from_value env (JObj fs)) = sign_of_fields fs) \<and>
      (\<forall>fs. res_ok (we_disconnect_from_value env (JObj fs)) = disconnect_of_fields fs))"

lemma wallet_env_okD:
  assumes "wallet_env_ok env"
  shows "connect_env_ok (we_base env)"
    and "ce_value_to_string (we_base env) (JObj fs) = Inr s \<Longrightarrow> we_value_from_str env s = Inr (JObj fs)"
    and "res_ok (we_sign_from_value env (JObj fs)) = sign_of_fields fs"
    and "res_ok (we_disconnect_from_value env (JObj fs)) = disconnect_of_fields fs"
  using assms unfolding wallet_env_ok_def by blast+

lemma res_ok_Some [res_simps]: "res_ok r = Some x \<longleftrightarrow> r = Inr x"
  by (cases r) auto

section \<open>Bodies and envelopes\<close>

text \<open>Hexadecimal secrets survive the trimming of the decoders.\<close>

lemma hexdigit_b64url: "is_ascii_hexdigit c \<Longrightarrow> b64url_char c"
proof -
  have "list_all b64url_char ''0123456789abcdefABCDEF''" by code_simp
  then show "is_ascii_hexdigit c \<Longrightarrow> ?thesis" unfolding is_ascii_hexdigit_def list_all_iff by blast
qed

lemma b64url_visible: "list_all b64url_char s \<Longrightarrow> visible_ascii s"
  unfolding visible_ascii_def list_all_iff b64url_char_def Let_def by force

lemma hexdigit_visible: "list_all is_ascii_hexdigit s \<Longrightarrow> visible_ascii s"
  by (rule b64url_visible) (erule list.pred_mono_strong, rule hexdigit_b64url)

lemma hex_trim:
  assumes "crypto_ok cr"
  shows "trim (cr_hex_encode cr bs) = cr_hex_encode cr bs"
  using crypto_okD(2) [OF assms] by (auto intro!: trim_visible hexdigit_visible simp: list_all_iff)

text \<open>The envelope the readers see of a message, whichever side wrote it.\<close>

definition sent_envelope ::
  "string \<Rightarrow> string \<Rightarrow> u64 \<Rightarrow> string \<Rightarrow> u64 \<Rightarrow> EncryptedConnectBody \<Rightarrow> string option \<Rightarrow> ConnectMessageEnvelope" where
  "sent_envelope session_id dir seq msg_type ts eb dh_public =
     \<lparr> en_v = CONNECT_MESSAGE_VERSION, en_session_id = session_id, en_dir = dir, en_seq = seq, en_msg_type = msg_type,
       en_ts = Some ts, en_dh_public = dh_public,
       en_enc = Some \<lparr> me_alg = CONNECT_MESSAGE_ENC_XCHACHA, me_nonce = Some (eb_nonce_b64url eb),
                       me_salt = Some (eb_salt_b64url eb) \<rparr>,
       en_body = JStr (eb_ciphertext_b64url eb) \<rparr>"

lemmas field_simps_json = req_str_def req_u64_def opt_with_def

lemma connect_envelope_read:
  "\<exists>fs. connect_envelope session_id dir seq msg_type ts eb dh_public = JObj fs \<and>
        envelope_of_fields fs = Some (sent_envelope session_id dir seq msg_type ts eb dh_public)"
  by (cases dh_public)
    (simp_all add: connect_envelope_def Let_def envelope_of_fields_def sent_envelope_def field_simps_json)

lemma wallet_envelope_read:
  "\<exists>fs. wallet_envelope session_id seq msg_type ts eb dh_public = JObj fs \<and>
        envelope_of_fields fs = Some (sent_envelope session_id ''w2c'' seq msg_type ts eb (Some dh_public))"
  by (simp add: wallet_envelope_def envelope_of_fields_def sent_envelope_def field_simps_json)

lemma io_encrypt_body_ok:
  assumes "io_encrypt_body env body secret aad w = (Inr eb, w')"
  shows "\<exists>nonce salt w1. ce_random env 24 w = (Inr nonce, w1) \<and> ce_random env 32 w1 = (Inr salt, w') \<and>
           encrypt_connect_body (ce_crypto env) body secret aad (Inr nonce) (Inr salt) = Inr eb"
  using assms
  by (auto simp: io_encrypt_body_def encrypt_connect_body_def res_simps split: sum.splits prod.splits)

text \<open>The reader's decryption inverts the writer's encryption.\<close>

lemma decrypt_io_encrypt:
  assumes ok: "connect_env_ok env" and enc: "io_encrypt_body env body secret aad w = (Inr eb, w')"
  shows "\<exists>plain. decrypt_connect_body (ce_crypto env) (eb_ciphertext_b64url eb) (eb_nonce_b64url eb)
             (eb_salt_b64url eb) secret aad = Inr plain \<and> ce_value_from_slice env plain = Inr body"
proof -
  obtain nonce salt w1 where draws: "ce_random env 24 w = (Inr nonce, w1)" "ce_random env 32 w1 = (Inr salt, w')"
    and eb: "encrypt_connect_body (ce_crypto env) body secret aad (Inr nonce) (Inr salt) = Inr eb"
    using io_encrypt_body_ok [OF enc] by blast
  let ?k = "\<lparr> bk_crypto = ce_crypto env, bk_secret = secret, bk_aad = aad, bk_nonce = nonce, bk_salt = salt \<rparr>"
  have "body_key_ok ?k"
    using draws connect_env_okD(1,2) [OF ok] by (auto simp: body_key_ok_def)
  moreover have "seal_body ?k body = Inr eb" using eb by (simp add: seal_body_def)
  ultimately obtain plain where "cr_to_vec (ce_crypto env) body = Inr plain" "open_body ?k eb = Inr plain"
    using body.unseal_seal by (fastforce simp: res_simps)
  with connect_env_okD(6) [OF ok] show ?thesis by (auto simp: open_body_def)
qed

lemma client_decodes:
  assumes ok: "connect_env_ok env" and aad: "connect_message_aad (ce_crypto env) session_id dir seq msg_type ts = Inr aad"
    and enc: "io_encrypt_body env body secret aad w = (Inr eb, w')" and secret: "trim secret = secret" "secret \<noteq> []"
  shows "decode_connect_message_body env (sent_envelope session_id dir seq msg_type ts eb dh_public) (Some secret)
     = Inr (Some body)"
  using decrypt_io_encrypt [OF ok enc] aad secret
  by (auto simp: decode_connect_message_body_def sent_envelope_def CONNECT_MESSAGE_ENC_NONE_def CONNECT_MESSAGE_ENC_XCHACHA_def)

lemma decoders_agree:
  "decode_connect_message_body env envelope secret = Inr (Some body) \<longleftrightarrow>
   wallet_decode_body env envelope secret (en_session_id envelope) = Inr body"
proof (cases "Option.bind secret (\<lambda>v. if trim v = [] then None else Some (trim v))")
  case None
  then show ?thesis by (simp add: decode_connect_message_body_def wallet_decode_body_def Let_def)
next
  case (Some s)
  then show ?thesis
    by (simp add: decode_connect_message_body_def wallet_decode_body_def Let_def res_simps)
qed

text \<open>
  Further property.  The two implementations of the body decoder, the client's and the wallet's, agree: on
  every envelope and secret one returns a body exactly when the other does, and the same one.
\<close>

theorem body_decoders_agree:
  "decode_connect_message_body env envelope secret = Inr (Some body) \<longleftrightarrow>
   wallet_decode_body env envelope secret (en_session_id envelope) = Inr body"
  by (rule decoders_agree)

section \<open>Messages on the wire\<close>

text \<open>
  \<open>carries\<close>: the text is an envelope with the given header, and its body opens with the given secret
  to the given value.
\<close>

definition carries ::
  "('w, 'r) connect_env \<Rightarrow> string \<Rightarrow> string \<Rightarrow> string \<Rightarrow> u64 \<Rightarrow> string \<Rightarrow> string option \<Rightarrow> string \<Rightarrow> json \<Rightarrow> bool" where
  "carries env raw session_id dir seq msg_type dh_public secret body =
     (\<exists>ts eb. ce_envelope_from_str env raw = Inr (sent_envelope session_id dir seq msg_type ts eb dh_public) \<and>
        decode_connect_message_body env (sent_envelope session_id dir seq msg_type ts eb dh_public) (Some secret)
          = Inr (Some body))"

lemma encode_connect_message_ok:
  assumes "encode_connect_message env session_id dir seq msg_type body (Some secret) dh_public w = (Inr raw, w')"
  shows "\<exists>ts w1 aad eb. ce_now_secs env w = (Inr ts, w1) \<and>
           connect_message_aad (ce_crypto env) session_id dir seq msg_type ts = Inr aad \<and>
           io_encrypt_body env body secret aad w1 = (Inr eb, w') \<and>
           ce_value_to_string env (connect_envelope session_id dir seq msg_type ts eb dh_public) = Inr raw"
  using assms by (auto simp: encode_connect_message_def res_simps split: if_splits)

lemma encode_wallet_message_ok:
  assumes "encode_wallet_message env session_id msg_type seq body secret dh_public w = (Inr raw, w')"
  shows "\<exists>ts w1 aad eb. we_now_secs env w = (ts, w1) \<and>
           connect_message_aad (ce_crypto (we_base env)) session_id ''w2c'' seq msg_type ts = Inr aad \<and>
           io_encrypt_body (we_base env) body secret aad w1 = (Inr eb, w') \<and>
           ce_value_to_string (we_base env) (wallet_envelope session_id seq msg_type ts eb dh_public) = Inr raw"
  using assms by (auto simp: encode_wallet_message_def res_simps split: prod.splits)

lemma carriesI:
  assumes ok: "connect_env_ok env"
    and "connect_message_aad (ce_crypto env) session_id dir seq msg_type ts = Inr aad"
    and "io_encrypt_body env body secret aad w = (Inr eb, w')"
    and "trim secret = secret" "secret \<noteq> []"
    and printed: "ce_value_to_string env j = Inr raw"
    and read: "\<exists>fs. j = JObj fs \<and> envelope_of_fields fs = Some (sent_envelope session_id dir seq msg_type ts eb dh_public)"
  shows "carries env raw session_id dir seq msg_type dh_public secret body"
proof -
  from read obtain fs where fs: "j = JObj fs"
    "envelope_of_fields fs = Some (sent_envelope session_id dir seq msg_type ts eb dh_public)" by blast
  have "res_ok (ce_envelope_from_str env raw) = Some (sent_envelope session_id dir seq msg_type ts eb dh_public)"
    using connect_env_okD(5) [OF ok] printed fs by simp
  with client_decodes [OF assms(1-5)] show ?thesis
    unfolding carries_def res_ok_Some by blast
qed

lemma encode_connect_message_carries:
  assumes ok: "connect_env_ok env"
    and enc: "encode_connect_message env session_id dir seq msg_type body (Some secret) dh_public w = (Inr raw, w')"
    and secret: "trim secret = secret" "secret \<noteq> []"
  shows "carries env raw session_id dir seq msg_type dh_public secret body"
  using encode_connect_message_ok [OF enc] carriesI [OF ok _ _ secret _ connect_envelope_read] by blast

lemma encode_wallet_message_carries:
  assumes ok: "connect_env_ok (we_base env)"
    and enc: "encode_wallet_message env session_id msg_type seq body secret dh_public w = (Inr raw, w')"
    and secret: "trim secret = secret" "secret \<noteq> []"
  shows "carries (we_base env) raw session_id ''w2c'' seq msg_type (Some dh_public) secret body"
  using encode_wallet_message_ok [OF enc] carriesI [OF ok _ _ secret _ wallet_envelope_read] by blast

text \<open>The wallet's pre-parse of a client message sees its public key and its number.\<close>

lemma encode_connect_message_needs_rekey:
  assumes ok: "wallet_env_ok env"
    and enc: "encode_connect_message (we_base env) session_id ''c2w'' seq msg_type body (Some secret) (Some pub) w = (Inr raw, w')"
  shows "needs_rekey env session_id raw = Some (pub, seq)"
proof -
  obtain ts eb where "ce_value_to_string (we_base env) (connect_envelope session_id ''c2w'' seq msg_type ts eb (Some pub)) = Inr raw"
    using encode_connect_message_ok [OF enc] by blast
  moreover obtain fs where fs: "connect_envelope session_id ''c2w'' seq msg_type ts eb (Some pub) = JObj fs"
      "map_of fs ''dir'' = Some (JStr ''c2w'')" "map_of fs ''session_id'' = Some (JStr session_id)"
      "map_of fs ''seq'' = Some (JNum seq)" "map_of fs ''dh_public'' = Some (JStr pub)"
    by (simp add: connect_envelope_def Let_def)
  ultimately have "we_value_from_str env raw = Inr (JObj fs)"
    using wallet_env_okD(2) [OF ok] by metis
  with fs show ?thesis by (simp add: needs_rekey_def field_str_def)
qed

section \<open>The deep link\<close>

lemma create_session_common_ok:
  assumes "create_session_common env app_id ttl_secs nonce w = (Inr common, w')"
  shows "\<exists>now app s1 s2 w1 w2 payload. ce_now_secs env w = (Inr now, w1) \<and> normalize_uint256_hex app_id = Inr app \<and>
     ce_random env 16 w1 = (Inr s1, w2) \<and> ce_random env 16 w2 = (Inr s2, w') \<and>
     payload = \<lparr> cp_v = CONNECT_DEEPLINK_VERSION, cp_session_id = cr_b64_encode (ce_crypto env) s1,
        cp_description = CONNECT_DESCRIPTION_PREFIX @ CONNECT_DESCRIPTION_VERSION @ '':'' @ app @ '':'' @
          cr_b64_encode (ce_crypto env) s1 @ '':'' @ cr_b64_encode (ce_crypto env) s2,
        cp_expires_at = sat_add now (max (unwrap_or DEFAULT_CONNECT_TTL_SECS ttl_secs) 1), cp_app_id = app, cp_nonce = nonce \<rparr> \<and>
     ce_payload_to_string env payload = Inr (sc_payload_json common) \<and>
     sc_session_id common = cp_session_id payload \<and> sc_description common = cp_description payload \<and>
     sc_created_at common = now \<and> sc_expires_at common = cp_expires_at payload \<and> sc_app_id common = app \<and>
     sc_payload_b64url common = cr_b64_encode (ce_crypto env) (as_bytes (sc_payload_json common))"
  using assms by (auto simp: create_session_common_def random_token_b64url_def Let_def res_simps)

lemma b64url_no_colon: "list_all b64url_char s \<Longrightarrow> CHR '':'' \<notin> set s"
proof -
  have "\<not> b64url_char (CHR '':'')" by code_simp
  then show "list_all b64url_char s \<Longrightarrow> ?thesis" by (auto simp: list_all_iff)
qed

lemma lower_hex_no_colon: "list_all is_lower_hex s \<Longrightarrow> CHR '':'' \<notin> set s"
proof -
  have "\<not> is_lower_hex (CHR '':'')" by code_simp
  then show "list_all is_lower_hex s \<Longrightarrow> ?thesis" by (auto simp: list_all_iff)
qed

lemma normalize_uint256_hex_result:
  assumes "normalize_uint256_hex value = Inr app"
  shows "normalize_uint256_hex app = Inr app \<and> CHR '':'' \<notin> set app \<and> visible_ascii app"
proof -
  let ?d = "pad64 (to_ascii_lowercase (strip_0x value))"
  have d: "app = ''0x'' @ ?d" "length ?d = 64" "list_all is_lower_hex ?d"
    using assms by (simp_all add: normalize_uint256_hex_ok length_pad64 pad64_lower_hex lower_hexdigits)
  have "visible_ascii ?d" using d(3) by (intro hexdigit_visible lower_hex_digits)
  with d normalize_uint256_hex_normal [OF d(2,3)] lower_hex_no_colon [OF d(3)] show ?thesis
    by (simp add: visible_ascii_def)
qed

text \<open>A description parses back to the application id and the session id it was built from.\<close>

lemma parse_connect_description_built:
  assumes "normalize_uint256_hex app = Inr app" "CHR '':'' \<notin> set app" "CHR '':'' \<notin> set sid" "sid \<noteq> []"
  shows "parse_connect_description
           (CONNECT_DESCRIPTION_PREFIX @ CONNECT_DESCRIPTION_VERSION @ '':'' @ app @ '':'' @ sid @ '':'' @ token)
         = \<lparr> pd_app_id = Some app, pd_session_id = Some sid \<rparr>"
proof -
  have "split_on (CHR '':'') (CONNECT_DESCRIPTION_VERSION @ '':'' @ app @ '':'' @ sid @ '':'' @ token)
      = CONNECT_DESCRIPTION_VERSION # app # sid # split_on (CHR '':'') token"
    using assms by (simp add: CONNECT_DESCRIPTION_VERSION_def str_simps)
  with assms show ?thesis by (simp add: parse_connect_description_def)
qed

lemma sat_add_nonzero: "b \<noteq> 0 \<Longrightarrow> sat_add a b \<noteq> 0" for a b :: "'a::len word"
proof -
  assume "b \<noteq> 0"
  then have "0 < unat b" by (simp add: unat_gt_0)
  moreover have "1 < (2 :: nat) ^ LENGTH('a)" by (rule one_less_power) simp_all
  ultimately have "0 < unat (sat_add a b)" by (simp add: unat_sat_add)
  then show ?thesis by (simp add: unat_gt_0)
qed

lemma max_1_nonzero: "max t (1 :: u64) \<noteq> 0"
  by (cases "t \<le> 1") (auto simp: max_def)

lemma link_payload_decodes:
  assumes ok: "connect_env_ok env" and create: "create_session_common env app_id ttl_secs nonce w = (Inr common, w')"
  shows "\<exists>payload. decode_connect_payload_b64url env (sc_payload_b64url common) = Inr payload \<and>
           wallet_decode_payload env (sc_payload_b64url common) = Inr payload \<and>
           cp_session_id payload = sc_session_id common \<and> cp_description payload = sc_description common \<and>
           cp_expires_at payload = sc_expires_at common \<and> cp_app_id payload = sc_app_id common \<and> cp_nonce payload = nonce"
proof -
  from create_session_common_ok [OF create] obtain now app s1 s2 w1 w2 payload where c:
    "normalize_uint256_hex app_id = Inr app" "ce_random env 16 w1 = (Inr s1, w2)"
    "payload = \<lparr> cp_v = CONNECT_DEEPLINK_VERSION, cp_session_id = cr_b64_encode (ce_crypto env) s1,
        cp_description = CONNECT_DESCRIPTION_PREFIX @ CONNECT_DESCRIPTION_VERSION @ '':'' @ app @ '':'' @
          cr_b64_encode (ce_crypto env) s1 @ '':'' @ cr_b64_encode (ce_crypto env) s2,
        cp_expires_at = sat_add now (max (unwrap_or DEFAULT_CONNECT_TTL_SECS ttl_secs) 1), cp_app_id = app, cp_nonce = nonce \<rparr>"
    "ce_payload_to_string env payload = Inr (sc_payload_json common)"
    "sc_session_id common = cp_session_id payload" "sc_description common = cp_description payload"
    "sc_expires_at common = cp_expires_at payload" "sc_app_id common = app"
    "sc_payload_b64url common = cr_b64_encode (ce_crypto env) (as_bytes (sc_payload_json common))"
    by blast
  let ?sid = "cr_b64_encode (ce_crypto env) s1" and ?b64 = "sc_payload_b64url common"
  have app: "normalize_uint256_hex app = Inr app" "CHR '':'' \<notin> set app" "visible_ascii app"
    using normalize_uint256_hex_result [OF c(1)] by auto
  have "length s1 = 16" using connect_env_okD(2) [OF ok] c(2) by blast
  then have sid: "?sid \<noteq> []" using connect_env_okD(3) [OF ok, of s1] by fastforce
  have sid_chars: "trim ?sid = ?sid" "CHR '':'' \<notin> set ?sid"
    using connect_env_okD(4) [OF ok] by (simp_all add: b64url_visible b64url_no_colon)
  have "sc_payload_json common \<noteq> []" using connect_env_okD(10) [OF ok c(4)] .
  then have b64: "?b64 \<noteq> []" "trim ?b64 = ?b64"
    using connect_env_okD(3,4) [OF ok] unfolding c(9) by (auto simp: b64url_visible as_bytes_def)
  have desc: "parse_connect_description (cp_description payload) = \<lparr> pd_app_id = Some app, pd_session_id = Some ?sid \<rparr>"
    using parse_connect_description_built [OF app(1,2) sid_chars(2) sid] by (simp add: c(3))
  have "visible_ascii (cp_description payload)"
    using app(3) connect_env_okD(4) [OF ok, THEN b64url_visible]
    by (simp add: c(3) visible_ascii_def CONNECT_DESCRIPTION_PREFIX_def CONNECT_DESCRIPTION_VERSION_def ball_Un)
  then have "trim (cp_description payload) \<noteq> []"
    by (simp add: c(3) CONNECT_DESCRIPTION_PREFIX_def)
  then have shape: "validate_connect_payload_shape payload = Inr ()" "wallet_validate_payload_shape payload = Inr ()"
    using app sid sid_chars
    by (simp_all add: validate_connect_payload_shape_def wallet_validate_payload_shape_def c(3) sat_add_nonzero max_1_nonzero)
  have bytes: "cr_b64_decode (ce_crypto env) ?b64 = Inr (as_bytes (sc_payload_json common))"
    "ce_from_utf8 env (as_bytes (sc_payload_json common)) = Inr (sc_payload_json common)"
    "ce_payload_from_str env (sc_payload_json common) = Inr payload"
    using crypto_okD(4) [OF connect_env_okD(1) [OF ok]] connect_env_okD(11,12) [OF ok c(4)] by (simp_all add: c(9))
  have "decode_connect_payload_b64url env ?b64 = Inr payload" "wallet_decode_payload env ?b64 = Inr payload"
    using b64 bytes shape app desc
    by (simp_all add: decode_connect_payload_b64url_def wallet_decode_payload_def Let_def c(3))
  with c show ?thesis by auto
qed

section \<open>A concrete instance\<close>

text \<open>
  An instance of all parameters, for applying the theorems to concrete data.  JSON texts are the
  decimal codes of a numbering of all JSON values, and the world is a counter that the random generator
  advances and the list of the texts written to the profile.
\<close>

instance json :: countable
  by countable_datatype

definition toy_print :: "json \<Rightarrow> string" where
  "toy_print j = show_nat (to_nat j)"

definition toy_parse :: "string \<Rightarrow> json" where
  "toy_parse s = from_nat (read_dec s)"

lemma toy_parse_print [simp]: "toy_parse (toy_print j) = j"
  by (simp add: toy_parse_def toy_print_def str_simps)

lemma toy_print_nonempty [simp]: "toy_print j \<noteq> []"
  unfolding toy_print_def by (subst show_nat.simps) simp

definition payload_value :: "ConnectPayload \<Rightarrow> json" where
  "payload_value p = JObj
     ([(''v'', JStr (cp_v p)), (''session_id'', JStr (cp_session_id p)), (''description'', JStr (cp_description p)),
       (''expires_at'', JNum (cp_expires_at p)), (''app_id'', JStr (cp_app_id p))] @
      (case cp_nonce p of None \<Rightarrow> [] | Some n \<Rightarrow> [(''nonce'', JStr n)]))"

fun payload_of_value :: "json \<Rightarrow> ConnectPayload option" where
  "payload_of_value (JObj fs) =
     Option.bind (req_str ''v'' fs) (\<lambda>v. Option.bind (req_str ''session_id'' fs) (\<lambda>session_id.
     Option.bind (req_str ''description'' fs) (\<lambda>description. Option.bind (req_u64 ''expires_at'' fs) (\<lambda>expires_at.
     Option.bind (req_str ''app_id'' fs) (\<lambda>app_id. Option.bind (opt_with json_as_str ''nonce'' fs) (\<lambda>nonce.
     Some \<lparr> cp_v = v, cp_session_id = session_id, cp_description = description, cp_expires_at = expires_at,
            cp_app_id = app_id, cp_nonce = nonce \<rparr>))))))"
| "payload_of_value _ = None"

lemma payload_of_value_value [simp]: "payload_of_value (payload_value p) = Some p"
  by (cases "cp_nonce p") (simp_all add: payload_value_def field_simps_json)

fun of_object :: "((string \<times> json) list \<Rightarrow> 'a option) \<Rightarrow> json \<Rightarrow> 'a result" where
  "of_object f (JObj fs) = ok_or ''invalid value'' (f fs)"
| "of_object f _ = Inl ''invalid type''"

lemma res_ok_ok_or [simp]: "res_ok (ok_or e v) = v"
  by (cases v) auto

definition toy_connect_crypto :: crypto where
  "toy_connect_crypto = toy_crypto\<lparr>cr_to_vec := (\<lambda>j. Inr (as_bytes (toy_print j)))\<rparr>"

type_synonym toy_world = "nat \<times> context_event list"

definition toy_sent :: "string \<Rightarrow> toy_world \<Rightarrow> toy_world" where
  "toy_sent raw w = (fst w, snd w @ [\<lparr> ce_id = show_nat (length (snd w)), ce_created_at = 1000, ce_text = raw \<rparr>])"

definition toy_env :: "(toy_world, unit) connect_env" where
  "toy_env =
     \<lparr> ce_crypto = toy_connect_crypto, ce_acquire = id, ce_sleep_ms = (\<lambda>_ w. w),
       ce_now_secs = (\<lambda>w. (Inr 1000, w)), ce_dh_now_secs = (\<lambda>w. (1000, w)), ce_now_millis = (\<lambda>w. (Inr 1000000, w)),
       ce_random = (\<lambda>n w. (Inr (replicate n (word_of_nat (Suc (fst w)))), (Suc (fst w), snd w))),
       ce_context_new = (\<lambda>_. Inr ()), ce_get_profile_address = (\<lambda>_ _ w. (Inr ''profile'', w)),
       ce_is_deployed = (\<lambda>_ _ w. (True, w)), ce_wait_account = (\<lambda>_ _ _ _ w. (Inr (), w)),
       ce_query_context_added = (\<lambda>_ _ _ _ w. (Inr (snd w), w)),
       ce_add_context_text = (\<lambda>_ _ raw _ w.
         (Inr \<lparr> sm_message_hash = Some ''hash'', sm_aborted = None, sm_exit_code = None \<rparr>, toy_sent raw w)),
       ce_query_profiles = (\<lambda>_ _ _ _ _ w. (Inr \<lparr> pg_records = [], pg_oldest_cursor = None \<rparr>, w)),
       ce_envelope_from_str = (\<lambda>s. of_object envelope_of_fields (toy_parse s)),
       ce_value_from_slice = (\<lambda>bs. Inr (toy_parse (text_of_bytes bs))), ce_value_to_string = (\<lambda>j. Inr (toy_print j)),
       ce_hello_from_value = of_object hello_of_fields, ce_keys_from_value = of_object keys_of_fields,
       ce_response_from_value = of_object response_of_fields,
       ce_payload_to_string = (\<lambda>p. Inr (toy_print (payload_value p))),
       ce_payload_from_str = (\<lambda>s. ok_or ''invalid value'' (payload_of_value (toy_parse s))),
       ce_from_utf8 = (\<lambda>bs. Inr (text_of_bytes bs)) \<rparr>"

definition toy_wallet_env :: "(toy_world, unit) wallet_env" where
  "toy_wallet_env =
     \<lparr> we_base = toy_env, we_root = (), we_now_secs = (\<lambda>w. (1000, w)), we_now_ms = (\<lambda>w. (Inr 1000000, w)),
       we_value_from_str = (\<lambda>s. Inr (toy_parse s)), we_disconnect_from_value = of_object disconnect_of_fields,
       we_sign_from_value = of_object sign_of_fields,
       we_query_events = (\<lambda>_ _ _ _ w. (Inr (snd w, None), w)),
       we_hash_pubkey = (\<lambda>_ w. (Inr ''pk'', w)), we_hash_multifactor = (\<lambda>_ w. (Inr ''mf'', w)),
       we_deploy_profile = (\<lambda>_ _ _ w. (Inr \<lparr> sm_message_hash = None, sm_aborted = None, sm_exit_code = None \<rparr>, w)),
       we_get_details = (\<lambda>_ w. (Inr \<lparr> pf_pubkey_hash = ''pk'', pf_multifactor_hash = ''mf'' \<rparr>, w)),
       we_get_epk_expire_at = (\<lambda>_ _ w. (Inr 0, w)),
       we_submit_transaction = (\<lambda>_ _ _ w. (Inr \<lparr> sm_message_hash = None, sm_aborted = None, sm_exit_code = None \<rparr>, w)) \<rparr>"

lemma text_of_bytes_as_bytes [simp]: "text_of_bytes (as_bytes s) = s"
proof -
  have "char_of (unat (of_char c :: byte)) = c" for c :: char
  proof -
    have "(of_char c :: byte) = of_nat (of_char c)" by (simp only: of_nat_of_char)
    then have "unat (of_char c :: byte) = of_char c mod 256" by (simp add: unat_of_nat)
    then show ?thesis by simp
  qed
  then show ?thesis by (simp add: text_of_bytes_def as_bytes_def map_idI)
qed

lemma toy_connect_crypto_sel [simp]:
  "cr_hex_encode toy_connect_crypto = hex_enc" "cr_hex_decode toy_connect_crypto = hex_dec"
  "cr_b64_encode toy_connect_crypto = hex_enc" "cr_b64_decode toy_connect_crypto = hex_dec"
  "cr_x25519_public toy_connect_crypto = pad32" "cr_x25519 toy_connect_crypto a b = map2 (XOR) (pad32 a) (pad32 b)"
  "cr_to_vec toy_connect_crypto j = Inr (as_bytes (toy_print j))"
  "cr_hkdf toy_connect_crypto salt ikm info = Inr (pad32 (rev ikm @ salt @ info))"
  "cr_encrypt toy_connect_crypto k n m aad = Inr (k @ n @ aad @ m)"
  by (simp_all add: toy_connect_crypto_def)

lemma toy_env_sel [simp]:
  "ce_crypto toy_env = toy_connect_crypto" "ce_acquire toy_env = id"
  "ce_sleep_ms toy_env = (\<lambda>_ w. w)"
  "ce_now_secs toy_env w = (Inr 1000, w)" "ce_dh_now_secs toy_env w = (1000, w)"
  "ce_now_millis toy_env w = (Inr 1000000, w)"
  "ce_random toy_env n (k, evs) = (Inr (replicate n (word_of_nat (Suc k))), (Suc k, evs))"
  "ce_context_new toy_env cfg = Inr ()" "ce_get_profile_address toy_env r d w = (Inr ''profile'', w)"
  "ce_is_deployed toy_env r p w = (True, w)" "ce_wait_account toy_env r p a t w = (Inr (), w)"
  "ce_query_context_added toy_env r p f n w = (Inr (snd w), w)"
  "ce_add_context_text toy_env r p raw keys w =
     (Inr \<lparr> sm_message_hash = Some ''hash'', sm_aborted = None, sm_exit_code = None \<rparr>, toy_sent raw w)"
  "ce_envelope_from_str toy_env s = of_object envelope_of_fields (toy_parse s)"
  "ce_value_from_slice toy_env bs = Inr (toy_parse (text_of_bytes bs))"
  "ce_value_to_string toy_env j = Inr (toy_print j)"
  "ce_payload_to_string toy_env pl = Inr (toy_print (payload_value pl))"
  by (simp_all add: toy_env_def)

lemma toy_wallet_env_sel [simp]:
  "we_base toy_wallet_env = toy_env" "we_now_secs toy_wallet_env w = (1000, w)"
  "we_now_ms toy_wallet_env w = (Inr 1000000, w)"
  "we_value_from_str toy_wallet_env s = Inr (toy_parse s)"
  "we_query_events toy_wallet_env p f n b w = (Inr (snd w, None), w)"
  "we_hash_pubkey toy_wallet_env k w = (Inr ''pk'', w)" "we_hash_multifactor toy_wallet_env m w = (Inr ''mf'', w)"
  "we_get_details toy_wallet_env p w = (Inr \<lparr> pf_pubkey_hash = ''pk'', pf_multifactor_hash = ''mf'' \<rparr>, w)"
  by (simp_all add: toy_wallet_env_def)

lemma toy_connect_crypto_ok: "crypto_ok toy_connect_crypto"
  using toy_crypto_ok by (simp add: crypto_ok_def toy_connect_crypto_def)

lemma toy_env_ok: "connect_env_ok toy_env"
  unfolding connect_env_ok_def
proof (intro conjI allI impI)
  show "crypto_ok (ce_crypto toy_env)" using toy_connect_crypto_ok by (simp add: toy_env_def)
  show "list_all b64url_char (cr_b64_encode (ce_crypto toy_env) bs)" for bs
    by (simp add: toy_env_def toy_connect_crypto_def list_all_iff hex_enc_hexdigit hexdigit_b64url)
  show "bs = []" if "cr_b64_encode (ce_crypto toy_env) bs = []" for bs
    using that by (cases bs) (simp_all add: toy_env_def toy_connect_crypto_def)
qed (auto simp: toy_env_def toy_connect_crypto_def)

lemma toy_wallet_env_ok: "wallet_env_ok toy_wallet_env"
  using toy_env_ok unfolding wallet_env_ok_def by (auto simp: toy_wallet_env_def toy_env_def)

text \<open>In the instance every body can be encrypted with the hexadecimal text of a key.\<close>

lemma strip_0x_hex: "list_all is_ascii_hexdigit s \<Longrightarrow> strip_0x s = s"
proof -
  have x: "\<not> is_ascii_hexdigit (CHR ''x'')" "\<not> is_ascii_hexdigit (CHR ''X'')" by code_simp+
  show "list_all is_ascii_hexdigit s \<Longrightarrow> ?thesis"
    using x by (cases "strip_prefix ''0X'' s") (auto simp: strip_0x_def str_simps split: option.splits)
qed

lemma toy_io_encrypt:
  assumes "length root = 32"
  shows "\<exists>eb. io_encrypt_body toy_env body (hex_enc root) aad (k, evs) = (Inr eb, (Suc (Suc k), evs))"
proof -
  have "strip_0x (hex_enc root) = hex_enc root" "list_all is_ascii_hexdigit (hex_enc root)"
    by (simp_all add: strip_0x_hex list_all_iff hex_enc_hexdigit)
  moreover have "hex_enc root \<noteq> []" "root \<noteq> []" using assms length_hex_enc [of root] by fastforce+
  ultimately have "derive_connect_message_key toy_connect_crypto (hex_enc root) salt
      = Inr (pad32 (rev root @ salt @ CONNECT_MESSAGE_KEY_INFO))" for salt
    by (simp add: derive_connect_message_key_def)
  then show ?thesis by (simp add: io_encrypt_body_def encrypt_connect_body_def)
qed

end
