(* ===== verification/ConnectEndToEnd.thy ===== *)
theory ConnectEndToEnd
  imports ConnectProtocol
begin

text \<open>
  The end-to-end properties of the connect protocol: a deep link created by the client is decoded by
  the wallet, the wallet's greeting opens a session in which both sides hold matching states, the
  client's requests reach the wallet and the wallet's answers the client.  Each is stated over the
  operations of both sides, with one environment and arbitrary worlds in between.
\<close>

section \<open>From the deep link to the session\<close>

text \<open>
  Property C13.  The payload of a created deep link decodes on both sides, to the session id, the
  description, the expiry, the application id and the nonce of the created session.
\<close>

theorem connect_payload_roundtrip:
  assumes "connect_env_ok env" "create_shared_key_session env app_id ttl_secs nonce w = (Inr session, w')"
  shows "\<exists>payload. decode_connect_payload_b64url env (sc_payload_b64url (rs_common session)) = Inr payload \<and>
           wallet_decode_payload env (sc_payload_b64url (rs_common session)) = Inr payload \<and>
           cp_session_id payload = sc_session_id (rs_common session) \<and>
           cp_description payload = sc_description (rs_common session) \<and>
           cp_expires_at payload = sc_expires_at (rs_common session) \<and>
           cp_app_id payload = sc_app_id (rs_common session) \<and> cp_nonce payload = nonce"
proof -
  obtain w1 where "create_session_common env app_id ttl_secs nonce w = (Inr (rs_common session), w1)"
    using assms(2) by (auto simp: create_shared_key_session_def res_simps)
  from link_payload_decodes [OF assms(1) this] show ?thesis .
qed

text \<open>A session of the concrete environment.\<close>

lemma normalize_ff: "normalize_uint256_hex ''ff'' = Inr (''0x'' @ pad64 ''ff'')"
  by (simp add: normalize_uint256_hex_ok strip_0x_def) code_simp

lemma toy_create:
  "\<exists>session. create_shared_key_session toy_env ''ff'' None nonce (0, []) = (Inr session, (3, [])) \<and>
     rs_client_dh_public session = hex_enc (replicate 32 3) \<and> rs_client_dh_secret session = hex_enc (replicate 32 3) \<and>
     sc_session_id (rs_common session) = hex_enc (replicate 16 1) \<and> sc_expires_at (rs_common session) = 1300"
  by (simp add: sat_add_def DEFAULT_CONNECT_TTL_SECS_def create_shared_key_session_def create_session_common_def random_token_b64url_def
      io_then_def io_lift_def io_map_err_def Let_def normalize_ff generate_dh_keypair_def pad32_id)

theorem connect_payload_roundtrip_witness:
  "\<exists>session w' payload. create_shared_key_session toy_env ''ff'' None None (0, []) = (Inr session, w') \<and>
     wallet_decode_payload toy_env (sc_payload_b64url (rs_common session)) = Inr payload"
proof -
  obtain session w' where "create_shared_key_session toy_env ''ff'' None None (0, []) = (Inr session, w')"
    using toy_create [of None] by blast
  with connect_payload_roundtrip [OF toy_env_ok this] show ?thesis by blast
qed

lemma io_thenE:
  assumes "io_then m f w = (Inr y, w2)"
  obtains x w1 where "m w = (Inr x, w1)" "f x w1 = (Inr y, w2)"
  using assms by (auto simp: io_then_eq_Inr)

lemma keypair_draw:
  assumes "(case ce_random env 32 w of (draw, w1) \<Rightarrow> (map_err f (generate_dh_keypair cr draw), w1)) = (Inr k, w')"
  shows "\<exists>s. ce_random env 32 w = (Inr s, w') \<and> generate_dh_keypair cr (Inr s) = Inr k"
  using assms by (auto simp: generate_dh_keypair_def res_simps split: prod.splits)

lemma create_shared_key_session_keys:
  assumes "connect_env_ok env" "create_shared_key_session env app_id ttl_secs nonce w = (Inr session, w')"
  shows "\<exists>s. length s = 32 \<and> generate_dh_keypair (ce_crypto env) (Inr s)
           = Inr \<lparr> dk_public_hex = rs_client_dh_public session, dk_secret_hex = rs_client_dh_secret session \<rparr>"
proof -
  from assms(2) obtain k w1 where
    "(case ce_random env 32 w1 of (draw, w2) \<Rightarrow> (map_err fail (generate_dh_keypair (ce_crypto env) draw), w2)) = (Inr k, w')"
    "rs_client_dh_public session = dk_public_hex k" "rs_client_dh_secret session = dk_secret_hex k"
    by (auto simp only: create_shared_key_session_def io_then_eq_Inr io_lift_eq sum.inject
        ResultOfCreateSharedKeySession.select_convs)
  moreover from this(1) obtain s where "ce_random env 32 w1 = (Inr s, w')" "generate_dh_keypair (ce_crypto env) (Inr s) = Inr k"
    by (auto dest!: keypair_draw)
  moreover have "k = \<lparr> dk_public_hex = dk_public_hex k, dk_secret_hex = dk_secret_hex k \<rparr>" by simp
  ultimately show ?thesis
    using connect_env_okD(2) [OF assms(1)] by metis
qed

lemma wallet_key_exchange_ok:
  assumes "wallet_key_exchange env session_id client_dh_public w = (Inr (wallet_dh, session_keys), w')"
  shows "\<exists>s shared. ce_random (we_base env) 32 w = (Inr s, w') \<and>
           generate_dh_keypair (ce_crypto (we_base env)) (Inr s) = Inr wallet_dh \<and>
           compute_shared_secret (ce_crypto (we_base env)) (dk_secret_hex wallet_dh) client_dh_public = Inr shared \<and>
           derive_session_keys (ce_crypto (we_base env)) shared session_id = Inr session_keys"
  using assms
  by (auto simp: wallet_key_exchange_def res_simps generate_dh_keypair_def split: prod.splits)

lemma accept_connect_common_ok:
  assumes "accept_connect_common env payload wallet_name wallet_address client_dh_public attempts_limit poll_ms
             signature epk w = (Inr accepted, w')"
  shows "\<exists>wallet_dh keys hello_seq now w1 w2 w3.
     wallet_key_exchange env (cp_session_id payload) client_dh_public w = (Inr (wallet_dh, keys), w1) \<and>
     encode_wallet_hello_message env (cp_session_id payload) wallet_name wallet_address (sk_encryption_root_hex keys)
       (dk_public_hex wallet_dh) hello_seq (cp_nonce payload) signature epk w2 = (Inr (ra_wallet_hello_json accepted), w3) \<and>
     ra_session_state accepted = (create_initial_state now keys (dk_secret_hex wallet_dh) client_dh_public)
        \<lparr>cs_last_sent_seq := hello_seq\<rparr>"
proof -
  from assms obtain x w1 y seq w3 json w4 w6 and r' :: ResultOfSendMessage where
    "wallet_key_exchange env (cp_session_id payload) client_dh_public w = (Inr x, w1)"
    "encode_wallet_hello_message env (cp_session_id payload) wallet_name wallet_address (sk_encryption_root_hex (snd x))
       (dk_public_hex (fst x)) seq (cp_nonce payload) signature epk w3 = (Inr json, w4)"
    "\<lparr> ra_profile_address = fst y, ra_deploy_message_id = snd y,
              ra_wallet_hello_message_id = sm_message_hash r', ra_wallet_hello_json = json,
              ra_session_state = (create_initial_state (fst (ce_dh_now_secs (we_base env) w6)) (snd x) (dk_secret_hex (fst x)) client_dh_public)
                 \<lparr>cs_last_sent_seq := seq\<rparr> \<rparr> = accepted"
    unfolding accept_connect_common_def Let_def split_beta
    by (elim io_thenE) (simp only: prod.inject sum.inject, elim conjE, rule that, assumption+)
  then show ?thesis
    by (intro exI [of _ "fst x"] exI [of _ "snd x"] exI [of _ seq] exI [of _ "fst (ce_dh_now_secs (we_base env) w6)"]
        exI [of _ w1] exI [of _ w3] exI [of _ w4]) auto
qed

lemma hello_body_read:
  "\<exists>fs. wallet_hello_body name address nonce signature epk = JObj fs \<and>
        hello_of_fields fs = Some \<lparr> wb_wallet_name = name, wb_wallet_address = address, wb_nonce = nonce,
          wb_signature = signature, wb_epk_public = epk \<rparr>"
  by (cases nonce; cases signature; cases epk)
    (simp_all add: wallet_hello_body_def set_opt_def hello_of_fields_def field_simps_json)

lemma derive_session_keys_root:
  assumes "crypto_ok cr" "derive_session_keys cr shared session_id = Inr keys"
  shows "\<exists>root. length root = 32 \<and> sk_encryption_root_hex keys = cr_hex_encode cr root"
  using assms(2) crypto_okD(6) [OF assms(1)]
  by (auto simp: derive_session_keys_def res_simps Let_def split: if_splits) (metis sum.inject(2))

lemma hex_secret:
  assumes "crypto_ok cr" "length bs = 32"
  shows "trim (cr_hex_encode cr bs) = cr_hex_encode cr bs" "cr_hex_encode cr bs \<noteq> []"
  using hex_trim [OF assms(1)] crypto_okD(3) [OF assms(1), of bs] assms(2) by auto

text \<open>What a reader that holds the client's secret makes of a greeting.\<close>

lemma look_wallet_hello_found:
  assumes ok: "connect_env_ok env"
    and "carries env (ce_text ev) session_id ''w2c'' seq CONNECT_MESSAGE_TYPE_WALLET_HELLO (Some wallet_pub)
           (sk_encryption_root_hex keys) (wallet_hello_body name address nonce signature epk)"
    and "seq \<noteq> 0" "compute_shared_secret (ce_crypto env) secret wallet_pub = Inr shared"
    and "derive_session_keys (ce_crypto env) shared session_id = Inr keys"
  shows "look_wallet_hello env session_id secret ev w =
     (Found \<lparr> wf_event_id = ce_id ev, wf_event_created_at = ce_created_at ev, wf_wallet_name = name,
              wf_wallet_address = address, wf_raw_message_json = ce_text ev,
              wf_session_state = (create_initial_state (fst (ce_dh_now_secs env w)) keys secret wallet_pub)
                \<lparr>cs_last_seen_seq := seq\<rparr>,
              wf_nonce = nonce, wf_signature = signature, wf_epk_public = epk \<rparr>, snd (ce_dh_now_secs env w))"
proof -
  from assms(2) obtain ts eb where e:
    "ce_envelope_from_str env (ce_text ev) = Inr (sent_envelope session_id ''w2c'' seq CONNECT_MESSAGE_TYPE_WALLET_HELLO ts eb (Some wallet_pub))"
    "decode_connect_message_body env (sent_envelope session_id ''w2c'' seq CONNECT_MESSAGE_TYPE_WALLET_HELLO ts eb (Some wallet_pub)) (Some (sk_encryption_root_hex keys)) = Inr (Some (wallet_hello_body name address nonce signature epk))"
    by (auto simp: carries_def)
  obtain fs where "wallet_hello_body name address nonce signature epk = JObj fs"
    "hello_of_fields fs = Some \<lparr> wb_wallet_name = name, wb_wallet_address = address, wb_nonce = nonce,
       wb_signature = signature, wb_epk_public = epk \<rparr>"
    using hello_body_read by blast
  then have "ce_hello_from_value env (wallet_hello_body name address nonce signature epk)
      = Inr \<lparr> wb_wallet_name = name, wb_wallet_address = address, wb_nonce = nonce, wb_signature = signature, wb_epk_public = epk \<rparr>"
    using connect_env_okD(7) [OF ok, of fs] by (simp add: res_simps)
  with e assms(3-5) show ?thesis
    by (simp add: look_wallet_hello_def Let_def sent_envelope_def split: prod.splits)
qed

lemma scan_events_skip:
  assumes "\<forall>e \<in> set before. \<forall>w. \<exists>f. look e w = (Skip f, w)"
  shows "\<exists>c'. scan_events look (before @ evs) c w = scan_events look evs c' w"
  using assms
proof (induction before arbitrary: c)
  case (Cons e before)
  from Cons.prems obtain f where "look e w = (Skip f, w)" by (meson list.set_intros(1))
  with Cons.IH [of "f c"] Cons.prems show ?case by simp
qed auto

text \<open>The events the scan for a greeting looks into.\<close>

definition wallet_hello_for :: "('w, 'r) connect_env \<Rightarrow> string \<Rightarrow> context_event \<Rightarrow> bool" where
  "wallet_hello_for env session_id ev =
     (case ce_envelope_from_str env (ce_text ev) of
        Inl _ \<Rightarrow> False
      | Inr e \<Rightarrow> en_v e = CONNECT_MESSAGE_VERSION \<and> en_session_id e = session_id \<and> en_dir e = ''w2c'' \<and> en_seq e \<noteq> 0 \<and>
                en_msg_type e = CONNECT_MESSAGE_TYPE_WALLET_HELLO)"

lemma look_wallet_hello_skips:
  "\<not> wallet_hello_for env session_id ev \<Longrightarrow> look_wallet_hello env session_id secret ev w = (Skip skip_as_is, w)"
  by (cases "ce_envelope_from_str env (ce_text ev)")
    (auto simp: wallet_hello_for_def look_wallet_hello_def)

lemma encode_wallet_hello_ok:
  assumes "encode_wallet_hello_message env session_id name address root pub seq nonce signature epk w = (Inr raw, w')"
  shows "seq \<noteq> 0 \<and> encode_wallet_message env session_id ''wallet_hello'' seq
           (wallet_hello_body name address nonce signature epk) root pub w = (Inr raw, w')"
  using assms by (auto simp: encode_wallet_hello_message_def io_lift_eq split: if_splits)

text \<open>The wallet's acceptance and the client's secret give a greeting the client can open.\<close>

lemma accepted_hello_opens:
  assumes ok: "connect_env_ok (we_base env)"
    and s: "length s = 32" "generate_dh_keypair (ce_crypto (we_base env)) (Inr s)
         = Inr \<lparr> dk_public_hex = client_pub, dk_secret_hex = client_secret \<rparr>"
    and acc: "accept_connect_common env payload name address client_pub attempts_limit poll_ms signature epk w = (Inr accepted, w')"
    and ev_text: "ce_text ev = ra_wallet_hello_json accepted"
  shows "\<exists>found w5. look_wallet_hello (we_base env) (cp_session_id payload) client_secret ev w4 = (Found found, w5) \<and>
           wf_wallet_name found = name \<and> wf_wallet_address found = address \<and> wf_nonce found = cp_nonce payload \<and>
           wf_signature found = signature \<and> wf_epk_public found = epk \<and>
           in_sync (ce_crypto (we_base env)) (wf_session_state found) (ra_session_state accepted) \<and>
           cs_signing_secret (wf_session_state found) = cs_signing_secret (ra_session_state accepted) \<and>
           cs_last_seen_seq (wf_session_state found) = cs_last_sent_seq (ra_session_state accepted)"
proof -
  let ?cr = "ce_crypto (we_base env)"
  have cr: "crypto_ok ?cr" using connect_env_okD(1) [OF ok] .
  from accept_connect_common_ok [OF acc] obtain wallet_dh keys seq now w1 w2 w3 where a:
    "wallet_key_exchange env (cp_session_id payload) client_pub w = (Inr (wallet_dh, keys), w1)"
    "encode_wallet_hello_message env (cp_session_id payload) name address (sk_encryption_root_hex keys)
       (dk_public_hex wallet_dh) seq (cp_nonce payload) signature epk w2 = (Inr (ra_wallet_hello_json accepted), w3)"
    "ra_session_state accepted = (create_initial_state now keys (dk_secret_hex wallet_dh) client_pub)\<lparr>cs_last_sent_seq := seq\<rparr>"
    by blast
  from wallet_key_exchange_ok [OF a(1)] obtain sw shared where k:
    "ce_random (we_base env) 32 w = (Inr sw, w1)" "generate_dh_keypair ?cr (Inr sw) = Inr wallet_dh"
    "compute_shared_secret ?cr (dk_secret_hex wallet_dh) client_pub = Inr shared"
    "derive_session_keys ?cr shared (cp_session_id payload) = Inr keys"
    by blast
  have sw: "length sw = 32" using connect_env_okD(2) [OF ok k(1)] .
  from handshake_agrees [OF cr sw s(1) k(2) s(2), of shared] k(3)
  have shared: "compute_shared_secret ?cr client_secret (dk_public_hex wallet_dh) = Inr shared" by simp
  from handshake_agrees [OF cr s(1) sw s(2) k(2), of shared "cp_session_id payload" _ now] shared k(4)
  have sync: "in_sync ?cr (create_initial_state t keys client_secret (dk_public_hex wallet_dh))
      (create_initial_state now keys (dk_secret_hex wallet_dh) client_pub)" for t by simp
  obtain root where root: "length root = 32" "sk_encryption_root_hex keys = cr_hex_encode ?cr root"
    using derive_session_keys_root [OF cr k(4)] by blast
  have seq: "seq \<noteq> 0" and enc: "encode_wallet_message env (cp_session_id payload) ''wallet_hello'' seq
      (wallet_hello_body name address (cp_nonce payload) signature epk) (sk_encryption_root_hex keys)
      (dk_public_hex wallet_dh) w2 = (Inr (ra_wallet_hello_json accepted), w3)"
    using encode_wallet_hello_ok [OF a(2)] by auto
  have "carries (we_base env) (ce_text ev) (cp_session_id payload) ''w2c'' seq CONNECT_MESSAGE_TYPE_WALLET_HELLO
      (Some (dk_public_hex wallet_dh)) (sk_encryption_root_hex keys)
      (wallet_hello_body name address (cp_nonce payload) signature epk)"
    using encode_wallet_message_carries [OF ok enc] hex_secret [OF cr root(1)]
    unfolding ev_text root(2) CONNECT_MESSAGE_TYPE_WALLET_HELLO_def by simp
  from look_wallet_hello_found [OF ok this seq shared k(4)] sync
  show ?thesis by (auto simp: a(3) in_sync_def create_initial_state_def)
qed

text \<open>
  Property C4.  The handshake, end to end: when the wallet decodes a deep link of the client, accepts the
  connection and its greeting is among the events of the profile, behind any number of events that
  are not greetings of this session, then the client's scan finds it, reports the wallet's name,
  address and answer to the nonce, and both sides hold matching session states.
\<close>

theorem connect_handshake_end_to_end:
  assumes ok: "connect_env_ok (we_base env)"
    and create: "create_shared_key_session (we_base env) app_id ttl_secs nonce w0 = (Inr session, w1)"
    and decode: "wallet_decode_payload (we_base env) (sc_payload_b64url (rs_common session)) = Inr payload"
    and acc: "accept_shared_key_connect env payload name address (rs_client_dh_public session) attempts_limit poll_ms
                signature epk w2 = (Inr accepted, w3)"
    and query: "ce_query_context_added (we_base env) root profile from_secs 50 w4 = (Inr (earlier @ ev # later), w5)"
    and hello: "ce_text ev = ra_wallet_hello_json accepted"
    and other: "\<forall>e \<in> set earlier. \<not> wallet_hello_for (we_base env) (sc_session_id (rs_common session)) e"
  shows "\<exists>found w6. find_wallet_hello_event (we_base env) root profile (sc_session_id (rs_common session))
             (rs_client_dh_secret session) from_secs w4 = (Inr (Some found), w6) \<and>
           wf_wallet_name found = name \<and> wf_wallet_address found = address \<and> wf_nonce found = nonce \<and>
           wf_signature found = signature \<and> wf_epk_public found = epk \<and>
           in_sync (ce_crypto (we_base env)) (wf_session_state found) (ra_session_state accepted) \<and>
           cs_signing_secret (wf_session_state found) = cs_signing_secret (ra_session_state accepted) \<and>
           cs_last_seen_seq (wf_session_state found) = cs_last_sent_seq (ra_session_state accepted)"
proof -
  let ?sid = "sc_session_id (rs_common session)" and ?secret = "rs_client_dh_secret session"
  obtain w where "create_session_common (we_base env) app_id ttl_secs nonce w0 = (Inr (rs_common session), w)"
    using create by (auto simp: create_shared_key_session_def res_simps)
  from link_payload_decodes [OF ok this] decode have payload: "cp_session_id payload = ?sid" "cp_nonce payload = nonce"
    by auto
  obtain s where s: "length s = 32" "generate_dh_keypair (ce_crypto (we_base env)) (Inr s)
      = Inr \<lparr> dk_public_hex = rs_client_dh_public session, dk_secret_hex = ?secret \<rparr>"
    using create_shared_key_session_keys [OF ok create] by blast
  obtain w where acc': "accept_connect_common env payload name address (rs_client_dh_public session) attempts_limit poll_ms
      signature epk w = (Inr accepted, w3)"
    using acc by (auto simp: accept_shared_key_connect_def acquired_def res_simps split: prod.splits)
  obtain found w6 where found: "look_wallet_hello (we_base env) ?sid ?secret ev w5 = (Found found, w6)"
    and result: "wf_wallet_name found = name \<and> wf_wallet_address found = address \<and> wf_nonce found = nonce \<and>
           wf_signature found = signature \<and> wf_epk_public found = epk \<and>
           in_sync (ce_crypto (we_base env)) (wf_session_state found) (ra_session_state accepted) \<and>
           cs_signing_secret (wf_session_state found) = cs_signing_secret (ra_session_state accepted) \<and>
           cs_last_seen_seq (wf_session_state found) = cs_last_sent_seq (ra_session_state accepted)"
    using accepted_hello_opens [OF ok s acc' hello, of w5] unfolding payload by blast
  have "\<forall>e \<in> set earlier. \<forall>w. \<exists>f. look_wallet_hello (we_base env) ?sid ?secret e w = (Skip f, w)"
    using other by (intro ballI allI exI [of _ skip_as_is] look_wallet_hello_skips) blast
  from scan_events_skip [OF this] obtain c where
    "scan_events (look_wallet_hello (we_base env) ?sid ?secret) (earlier @ ev # later) no_counts w5
      = scan_events (look_wallet_hello (we_base env) ?sid ?secret) (ev # later) c w5" by blast
  with query found have "find_wallet_hello_event (we_base env) root profile ?sid ?secret from_secs w4 = (Inr (Some found), w6)"
    by (simp only: find_wallet_hello_event_def query_context_events_def io_then_def io_map_err_def prod.case sum.case
        map_err.simps scan_events.simps verdict.case)
  with result show ?thesis by blast
qed

text \<open>In the concrete environment the wallet accepts every link of the client.\<close>

lemma toy_encode:
  assumes "length root = 32"
  shows "\<exists>raw. encode_wallet_message toy_wallet_env session_id msg_type seq body (hex_enc root) pub (k, evs)
     = (Inr raw, (Suc (Suc k), evs))"
proof -
  obtain aad where "connect_message_aad toy_connect_crypto session_id ''w2c'' seq msg_type 1000 = Inr aad"
    by (simp add: connect_message_aad_def)
  moreover obtain eb where "io_encrypt_body toy_env body (hex_enc root) aad (k, evs) = (Inr eb, (Suc (Suc k), evs))"
    using toy_io_encrypt [OF assms] by blast
  ultimately show ?thesis
    by (simp only: encode_wallet_message_def toy_wallet_env_sel toy_env_sel io_then_def io_lift_def io_map_err_def
        prod.case sum.case map_err.simps) simp
qed

lemma toy_key_exchange:
  "\<exists>keys root. wallet_key_exchange toy_wallet_env session_id (hex_enc (replicate 32 3)) (3, [])
     = (Inr (\<lparr> dk_public_hex = hex_enc (replicate 32 4), dk_secret_hex = hex_enc (replicate 32 4) \<rparr>, keys), (4, [])) \<and>
     sk_encryption_root_hex keys = hex_enc root \<and> length root = 32"
proof -
  let ?s = "replicate 32 (4 :: byte)" and ?c = "replicate 32 (3 :: byte)"
  let ?k = "\<lambda>s. \<lparr> dk_public_hex = hex_enc s, dk_secret_hex = hex_enc s \<rparr>"
  obtain shared where shared: "compute_shared_secret toy_connect_crypto (hex_enc ?s) (hex_enc ?c) = Inr shared"
    using compute_shared_secret_hex [OF toy_connect_crypto_ok, of ?s ?c] by (simp add: pad32_id toy_xor list_all_iff)
  have gen: "generate_dh_keypair toy_connect_crypto (Inr s) = Inr (?k s)" if "length s = 32" for s
    using that by (simp add: generate_dh_keypair_def pad32_id)
  obtain keys where keys: "derive_session_keys toy_connect_crypto shared session_id = Inr keys"
    using handshake_agrees [OF toy_connect_crypto_ok _ _ gen gen, of ?s ?c shared session_id] shared by auto
  from derive_session_keys_root [OF toy_connect_crypto_ok this]
  obtain root where "sk_encryption_root_hex keys = hex_enc root" "length root = 32" by auto
  moreover have "wallet_key_exchange toy_wallet_env session_id (hex_enc ?c) (3, []) = (Inr (?k ?s, keys), (4, []))"
    using shared keys gen [of ?s] by (simp add: wallet_key_exchange_def io_then_def io_lift_def)
  ultimately show ?thesis by blast
qed

lemma toy_prepare:
  "prepare_profile toy_wallet_env description owner address None None w = (Inr (''profile'', None), w)"
  by (simp add: prepare_profile_def ensure_profile_deployed_def check_profile_owner_def io_then_def io_lift_def io_map_err_def)

lemma toy_accept:
  assumes "wallet_validate_payload_shape payload = Inr ()" "1000 < cp_expires_at payload" "cp_session_id payload \<noteq> []"
  shows "\<exists>accepted. accept_shared_key_connect toy_wallet_env payload ''name'' ''address'' (hex_enc (replicate 32 3))
     None None None None (3, []) = (Inr accepted, toy_sent (ra_wallet_hello_json accepted) (6, []))"
proof -
  obtain keys root where k: "wallet_key_exchange toy_wallet_env (cp_session_id payload) (hex_enc (replicate 32 3)) (3, [])
     = (Inr (\<lparr> dk_public_hex = hex_enc (replicate 32 4), dk_secret_hex = hex_enc (replicate 32 4) \<rparr>, keys), (4, []))"
     "sk_encryption_root_hex keys = hex_enc root" "length root = 32"
    using toy_key_exchange [of "cp_session_id payload"] by blast
  obtain raw where "encode_wallet_hello_message toy_wallet_env (cp_session_id payload) ''name'' ''address''
      (hex_enc root) (hex_enc (replicate 32 4)) 1000000 (cp_nonce payload) None None (4, []) = (Inr raw, (6, []))"
    using toy_encode [OF k(3), of _ _ _ _ _ 4 "[]"] assms(3) by (fastforce simp: encode_wallet_hello_message_def)
  with k assms(1,2) toy_prepare show ?thesis
    by (simp add: accept_shared_key_connect_def acquired_def accept_connect_common_def validate_shared_key_connect_payload_def
        validate_connect_payload_def io_then_def io_lift_def io_map_err_def wallet_ensure_tx_success_def)
qed

lemma toy_session:
  "\<exists>session payload accepted.
     create_shared_key_session toy_env ''ff'' None nonce (0, []) = (Inr session, (3, [])) \<and>
     wallet_decode_payload toy_env (sc_payload_b64url (rs_common session)) = Inr payload \<and>
     accept_shared_key_connect toy_wallet_env payload ''name'' ''address'' (rs_client_dh_public session)
       None None None None (3, []) = (Inr accepted, toy_sent (ra_wallet_hello_json accepted) (6, []))"
proof -
  obtain session where s: "create_shared_key_session toy_env ''ff'' None nonce (0, []) = (Inr session, (3, []))"
    "rs_client_dh_public session = hex_enc (replicate 32 3)" "sc_session_id (rs_common session) = hex_enc (replicate 16 1)"
    "sc_expires_at (rs_common session) = 1300"
    using toy_create by blast
  then obtain w where "create_session_common toy_env ''ff'' None nonce (0, []) = (Inr (rs_common session), w)"
    by (auto simp: create_shared_key_session_def res_simps)
  from link_payload_decodes [OF toy_env_ok this] obtain payload where p:
    "wallet_decode_payload toy_env (sc_payload_b64url (rs_common session)) = Inr payload"
    "cp_session_id payload = hex_enc (replicate 16 1)" "cp_expires_at payload = 1300"
    unfolding s by blast
  have "wallet_validate_payload_shape payload = Inr ()"
    using p(1) by (auto simp: wallet_decode_payload_def res_simps)
  moreover have "cp_session_id payload \<noteq> []" using p(2) length_hex_enc [of "replicate 16 1"] by fastforce
  ultimately obtain accepted where "accept_shared_key_connect toy_wallet_env payload ''name'' ''address''
      (hex_enc (replicate 32 3)) None None None None (3, []) = (Inr accepted, toy_sent (ra_wallet_hello_json accepted) (6, []))"
    using toy_accept p(3) by fastforce
  with s p show ?thesis by metis
qed

theorem connect_handshake_end_to_end_witness:
  "\<exists>(session :: ResultOfCreateSharedKeySession) payload accepted found w.
     accept_shared_key_connect toy_wallet_env payload ''name'' ''address'' (rs_client_dh_public session)
       None None None None (3, []) = (Inr accepted, toy_sent (ra_wallet_hello_json accepted) (6, [])) \<and>
     find_wallet_hello_event toy_env () ''profile'' (sc_session_id (rs_common session)) (rs_client_dh_secret session) 0
       (toy_sent (ra_wallet_hello_json accepted) (6, [])) = (Inr (Some found), w) \<and>
     in_sync toy_connect_crypto (wf_session_state found) (ra_session_state accepted)"
proof -
  obtain session payload accepted where s:
    "create_shared_key_session toy_env ''ff'' None None (0, []) = (Inr session, (3, []))"
    "wallet_decode_payload toy_env (sc_payload_b64url (rs_common session)) = Inr payload"
    "accept_shared_key_connect toy_wallet_env payload ''name'' ''address'' (rs_client_dh_public session)
       None None None None (3, []) = (Inr accepted, toy_sent (ra_wallet_hello_json accepted) (6, []))"
    using toy_session by blast
  let ?ev = "\<lparr> ce_id = show_nat 0, ce_created_at = 1000, ce_text = ra_wallet_hello_json accepted \<rparr>"
  have q: "ce_query_context_added toy_env () ''profile'' 0 50 (toy_sent (ra_wallet_hello_json accepted) (6, []))
      = (Inr ([] @ ?ev # []), toy_sent (ra_wallet_hello_json accepted) (6, []))" by (simp add: toy_sent_def)
  have "ce_text ?ev = ra_wallet_hello_json accepted" by simp
  from connect_handshake_end_to_end [of toy_wallet_env, unfolded toy_wallet_env_sel,
      OF toy_env_ok s q this]
  obtain found w where "find_wallet_hello_event toy_env () ''profile'' (sc_session_id (rs_common session))
      (rs_client_dh_secret session) 0 (toy_sent (ra_wallet_hello_json accepted) (6, [])) = (Inr (Some found), w)"
    "in_sync toy_connect_crypto (wf_session_state found) (ra_session_state accepted)" by auto
  with s(3) show ?thesis by blast
qed

section \<open>Requests of the client\<close>

lemma io_rekey_outbound_ok:
  assumes ok: "connect_env_ok env" and "io_rekey_outbound env state session_id seq w = (Inr rekey, w')"
  shows "\<exists>now s. length s = 32 \<and> rekey_outbound (ce_crypto env) now (Inr s) state session_id seq = Inr rekey"
proof -
  obtain now w1 where now: "io_dh_now env state w = (now, w1)" by fastforce
  show ?thesis
  proof (cases "is_expired now state \<or> seq = 0 \<or> seq \<le> cs_last_sent_seq state")
    case True
    with assms(2) now show ?thesis by (auto simp: io_rekey_outbound_def rekey_outbound_ok)
  next
    case False
    with assms(2) now obtain draw where "ce_random env 32 w1 = (draw, w')"
      "rekey_outbound (ce_crypto env) now draw state session_id seq = Inr rekey"
      by (auto simp: io_rekey_outbound_def split: prod.splits)
    moreover from this(2) obtain s where "draw = Inr s" by (auto simp: rekey_outbound_ok)
    ultimately show ?thesis using connect_env_okD(2) [OF ok] by metis
  qed
qed

lemma send_connect_message_ok:
  assumes ok: "connect_env_ok env"
    and send: "send_connect_message env root profile operation session_id msg_type body a w = (Inr (rekey, raw, result), w')"
  shows "\<exists>seq now s w1 w2. length s = 32 \<and> rekey_outbound (ce_crypto env) now (Inr s) a session_id seq = Inr rekey \<and>
           encode_connect_message env session_id ''c2w'' seq msg_type body (Some (rr_message_encryption_root rekey))
             (rr_new_dh_public rekey) w1 = (Inr raw, w2)"
proof -
  from send obtain seq w1 w2 w3 where
    rekey: "io_map_err (str_ctx (operation @ '' rekey_outbound'')) (io_rekey_outbound env a session_id seq) w1 = (Inr rekey, w2)"
    and enc: "encode_connect_message env session_id ''c2w'' (rr_outbound_seq rekey) msg_type body (Some (rr_message_encryption_root rekey))
             (rr_new_dh_public rekey) w2 = (Inr raw, w3)"
    unfolding send_connect_message_def Let_def
    by (elim io_thenE) (simp only: io_lift_eq sum.inject prod.inject)
  from rekey obtain w' where "io_rekey_outbound env a session_id seq w1 = (Inr rekey, w')"
    by (auto simp: io_map_err_def res_simps split: prod.splits)
  from io_rekey_outbound_ok [OF ok this] obtain now s where
    "length s = 32" "rekey_outbound (ce_crypto env) now (Inr s) a session_id seq = Inr rekey" by blast
  moreover from this(2) have "rr_outbound_seq rekey = seq" by (auto simp: rekey_outbound_ok)
  ultimately show ?thesis using enc by metis
qed

lemma rekey_outbound_sent:
  assumes "rekey_outbound cr now (Inr s) a session_id seq = Inr rekey"
  shows "cs_last_sent_seq a < seq" "cs_last_sent_seq (rr_updated_state rekey) = seq" "rr_outbound_seq rekey = seq"
    "\<exists>pub. rr_new_dh_public rekey = Some pub"
    "cs_last_seen_seq (rr_updated_state rekey) = cs_last_seen_seq a"
  using assms by (auto simp: rekey_outbound_ok)

lemma rekey_root_bytes:
  assumes "crypto_ok cr" "rekey_outbound cr now (Inr s) a session_id seq = Inr rekey"
  shows "\<exists>bs. length bs = 32 \<and> rr_message_encryption_root rekey = cr_hex_encode cr bs"
proof -
  obtain shared where "derive_rekey_root cr (cs_encryption_root a) shared session_id = Inr (rr_message_encryption_root rekey)"
    using assms(2) by (auto simp: rekey_outbound_ok)
  from derive_rekey_root_hex [OF assms(1) this] show ?thesis by blast
qed

lemma rekey_root_hex:
  assumes "crypto_ok cr" "rekey_outbound cr now (Inr s) a session_id seq = Inr rekey"
  shows "trim (rr_message_encryption_root rekey) = rr_message_encryption_root rekey" "rr_message_encryption_root rekey \<noteq> []"
  using rekey_root_bytes [OF assms] hex_secret [OF assms(1)] by (metis, metis)

text \<open>The sender is ahead: matching states, and the receiver has seen no number the sender has not used.\<close>

definition linked :: "crypto \<Rightarrow> ConnectSessionState \<Rightarrow> ConnectSessionState \<Rightarrow> bool" where
  "linked cr a b = (in_sync cr a b \<and> cs_last_seen_seq b \<le> cs_last_sent_seq a)"

text \<open>One re-keyed message: the receiver derives the same root, and stays linked.\<close>

lemma linked_deliver:
  assumes "linked cr a b" "rekey_outbound cr now (Inr s) a session_id seq = Inr r" "length s = 32"
    and "\<not> is_expired now' b" "rr_new_dh_public r = Some pub"
  shows "\<exists>r'. rekey_inbound cr now' b pub session_id seq = Inr r' \<and>
           rr_message_encryption_root r' = rr_message_encryption_root r \<and>
           linked cr (rr_updated_state r) (rr_updated_state r') \<and>
           cs_expires_at (rr_updated_state r') = cs_expires_at b"
proof -
  have "cs_last_seen_seq b < seq" using assms(1) rekey_outbound_sent(1) [OF assms(2)] by (auto simp: linked_def)
  from rekey_deliver [OF _ assms(2,3,4) this] assms(1,5) rekey_outbound_sent(2) [OF assms(2)]
  show ?thesis by (auto simp: linked_def)
qed

text \<open>What the wallet's parser makes of a text that carries a body.\<close>

lemma parse_carried:
  assumes "carries (we_base env) raw session_id dir seq msg_type pub secret body"
    and "trim session_id = session_id" "session_id \<noteq> []" "trim dir \<noteq> []"
  shows "\<exists>e base. parse_connect_session_message_with_secret env raw session_id (Some secret) event_id created_at
             = Some (typed_body env e (Some body) base) \<and>
           en_msg_type e = msg_type \<and> cm_body_decrypted base \<and> cm_msg_type base = msg_type \<and> cm_seq base = seq \<and>
           cm_raw_message_json base = raw \<and> cm_session_state_after base = None"
proof -
  from assms(1) obtain ts eb where e:
    "ce_envelope_from_str (we_base env) raw = Inr (sent_envelope session_id dir seq msg_type ts eb pub)"
    "wallet_decode_body (we_base env) (sent_envelope session_id dir seq msg_type ts eb pub) (Some secret) session_id = Inr body"
    by (auto simp: carries_def decoders_agree sent_envelope_def)
  then show ?thesis
    using assms(2-4) unfolding parse_connect_session_message_with_secret_def Let_def
    by (intro exI [of _ "sent_envelope session_id dir seq msg_type ts eb pub"])
      (auto simp: sent_envelope_def)
qed

lemma typed_body_keeps [simp]:
  "cm_body_decrypted (typed_body env e d m) = cm_body_decrypted m" "cm_msg_type (typed_body env e d m) = cm_msg_type m"
  "cm_seq (typed_body env e d m) = cm_seq m" "cm_session_state_after (typed_body env e d m) = cm_session_state_after m"
  "cm_raw_message_json (typed_body env e d m) = cm_raw_message_json m"
  unfolding typed_body_def Let_def by (auto split: option.splits sum.splits)

lemma read_plain_state [simp]:
  "ss_state (read_plain env session_id ev st) = ss_state st"
  "ss_had_rekey (read_plain env session_id ev st) = ss_had_rekey st"
  by (auto simp: read_plain_def Let_def split: option.splits)

lemma parse_state_after:
  "parse_connect_session_message_with_secret env raw session_id secret event_id created_at = Some msg \<Longrightarrow>
   cm_session_state_after msg = None"
  by (auto simp: parse_connect_session_message_with_secret_def Let_def split: if_splits sum.splits)

lemma read_plain_messages:
  "\<exists>plain. ss_messages (read_plain env session_id ev st) = ss_messages st @ plain \<and>
     list_all (\<lambda>m. cm_session_state_after m = None) plain"
  by (auto simp: read_plain_def Let_def parse_connect_session_message_def dest: parse_state_after split: option.splits)

text \<open>The wallet reads one message of a linked client: it opens, and the states stay linked.\<close>

lemma wallet_reads_message:
  assumes ok: "wallet_env_ok env" and linked: "linked (ce_crypto (we_base env)) a b"
    and send: "send_connect_message (we_base env) root profile operation session_id msg_type body a w0 = (Inr (rekey, raw, result), w1)"
    and sid: "trim session_id = session_id" "session_id \<noteq> []"
    and ev: "ce_text ev = raw" and fresh: "\<not> is_expired (fst (io_dh_now (we_base env) b w)) b"
    and st: "ss_state st = Some b"
  shows "\<exists>e base msg b'. read_event env session_id ev st w =
           (st\<lparr>ss_state := Some b', ss_had_rekey := True, ss_messages := ss_messages st @ [msg]\<rparr>,
            snd (io_dh_now (we_base env) b w)) \<and>
         msg = (typed_body env e (Some body) base)\<lparr>cm_session_state_after := Some b'\<rparr> \<and>
         en_msg_type e = msg_type \<and> cm_msg_type msg = msg_type \<and> cm_raw_message_json msg = raw \<and> cm_body_decrypted msg \<and>
         linked (ce_crypto (we_base env)) (rr_updated_state rekey) b' \<and> cs_expires_at b' = cs_expires_at b"
proof -
  let ?cr = "ce_crypto (we_base env)"
  have cok: "connect_env_ok (we_base env)" and cr: "crypto_ok ?cr"
    using wallet_env_okD(1) [OF ok] connect_env_okD(1) by auto
  from send_connect_message_ok [OF cok send] obtain seq now s w2 w3 where s: "length s = 32"
    and rekey: "rekey_outbound ?cr now (Inr s) a session_id seq = Inr rekey"
    and enc: "encode_connect_message (we_base env) session_id ''c2w'' seq msg_type body (Some (rr_message_encryption_root rekey))
        (rr_new_dh_public rekey) w2 = (Inr raw, w3)" by blast
  obtain pub where pub: "rr_new_dh_public rekey = Some pub" using rekey_outbound_sent(4) [OF rekey] by blast
  from linked_deliver [OF linked rekey s fresh pub] obtain r' where r':
    "rekey_inbound ?cr (fst (io_dh_now (we_base env) b w)) b pub session_id seq = Inr r'"
    "rr_message_encryption_root r' = rr_message_encryption_root rekey"
    "linked ?cr (rr_updated_state rekey) (rr_updated_state r')" "cs_expires_at (rr_updated_state r') = cs_expires_at b"
    by blast
  have "carries (we_base env) raw session_id ''c2w'' seq msg_type (Some pub) (rr_message_encryption_root r') body"
    using encode_connect_message_carries [OF cok enc rekey_root_hex [OF cr rekey]] by (simp only: pub r'(2))
  moreover have "trim ''c2w'' \<noteq> []" by (simp add: visible_ascii_def)
  ultimately obtain e base where p:
    "parse_connect_session_message_with_secret env raw session_id (Some (rr_message_encryption_root r')) (ce_id ev) (ce_created_at ev)
       = Some (typed_body env e (Some body) base)"
    "en_msg_type e = msg_type" "cm_body_decrypted base" "cm_msg_type base = msg_type" "cm_raw_message_json base = raw"
    using parse_carried [OF _ sid] by metis
  have needs: "needs_rekey env session_id raw = Some (pub, seq)"
    using encode_connect_message_needs_rekey [OF ok] enc unfolding pub by blast
  have "read_rekeyed env session_id ev b pub seq w =
     (Some ((typed_body env e (Some body) base)\<lparr>cm_session_state_after := Some (rr_updated_state r')\<rparr>, rr_updated_state r'),
      snd (io_dh_now (we_base env) b w))"
    using r'(1) p(1,3) ev by (simp add: read_rekeyed_def split_beta)
  with needs ev st p r'(3,4) show ?thesis
    by (intro exI [of _ e] exI [of _ base] exI [of _ "(typed_body env e (Some body) base)\<lparr>cm_session_state_after := Some (rr_updated_state r')\<rparr>"]
        exI [of _ "rr_updated_state r'"]) (simp add: read_event_def)
qed

text \<open>
  What a profile shows of a session: the client's messages in the order they were sent, each the next
  step of the client's state, among events of any other kind.  The third argument lists the types
  and texts of the client's messages.
\<close>

inductive session_log ::
  "('w, 'r) wallet_env \<Rightarrow> string \<Rightarrow> ConnectSessionState \<Rightarrow> context_event list \<Rightarrow> (string \<times> string) list \<Rightarrow>
   ConnectSessionState \<Rightarrow> bool" for env session_id where
  log_nil: "session_log env session_id a [] [] a"
| log_other: "needs_rekey env session_id (ce_text ev) = None \<Longrightarrow> session_log env session_id a evs msgs a' \<Longrightarrow>
    session_log env session_id a (ev # evs) msgs a'"
| log_sent: "send_connect_message (we_base env) root profile operation session_id msg_type body a w
      = (Inr (rekey, ce_text ev, result), w') \<Longrightarrow>
    session_log env session_id (rr_updated_state rekey) evs msgs a' \<Longrightarrow>
    session_log env session_id a (ev # evs) ((msg_type, ce_text ev) # msgs) a'"

text \<open>The messages a reader re-keyed for, and a clock that stays before the expiry.\<close>

definition rekeyed_messages :: "ConnectSessionMessage list \<Rightarrow> (string \<times> string) list" where
  "rekeyed_messages msgs =
     map (\<lambda>m. (cm_msg_type m, cm_raw_message_json m)) (filter (\<lambda>m. cm_session_state_after m \<noteq> None) msgs)"

definition clock_before :: "('w, 'r) connect_env \<Rightarrow> u64 \<Rightarrow> bool" where
  "clock_before env expires_at = (\<forall>w. fst (ce_dh_now_secs env w) < expires_at)"

lemma clock_not_expired:
  "clock_before env (cs_expires_at b) \<Longrightarrow> \<not> is_expired (fst (io_dh_now env b w)) b"
  by (auto simp: clock_before_def is_expired_def io_dh_now_def not_le)

lemma read_session_records_log:
  assumes ok: "wallet_env_ok env" and sid: "trim session_id = session_id" "session_id \<noteq> []"
    and log: "session_log env session_id a evs msgs a'"
    and "linked (ce_crypto (we_base env)) a b" "clock_before (we_base env) (cs_expires_at b)" "ss_state st = Some b"
  shows "\<exists>st' w' b'. read_session_records env session_id evs st w = (st', w') \<and> ss_state st' = Some b' \<and>
           linked (ce_crypto (we_base env)) a' b' \<and> ss_had_rekey st' = (ss_had_rekey st \<or> msgs \<noteq> []) \<and>
           rekeyed_messages (ss_messages st') = rekeyed_messages (ss_messages st) @ msgs"
  using log assms(5-7)
proof (induction arbitrary: b st w rule: session_log.induct)
  case (log_nil a)
  then show ?case by simp
next
  case (log_other ev a evs msgs a')
  let ?st = "read_plain env session_id ev st"
  have step: "read_event env session_id ev st w = (?st, w)"
    using log_other.hyps(1) by (simp add: read_event_def)
  obtain plain where "ss_messages ?st = ss_messages st @ plain" "list_all (\<lambda>m. cm_session_state_after m = None) plain"
    using read_plain_messages by blast
  then have "rekeyed_messages (ss_messages ?st) = rekeyed_messages (ss_messages st)"
    by (simp add: rekeyed_messages_def list_all_iff filter_empty_conv)
  with log_other.IH [OF log_other.prems(1,2), of ?st w] log_other.prems(3) step show ?case by simp
next
  case (log_sent root profile operation msg_type body a w0 rekey ev result w1 evs msgs a')
  from wallet_reads_message [OF ok log_sent.prems(1) log_sent.hyps(1) sid refl clock_not_expired [OF log_sent.prems(2)]
      log_sent.prems(3), of w]
  obtain msg b' where step: "read_event env session_id ev st w =
      (st\<lparr>ss_state := Some b', ss_had_rekey := True, ss_messages := ss_messages st @ [msg]\<rparr>, snd (io_dh_now (we_base env) b w))"
    and msg: "cm_session_state_after msg = Some b'" "cm_msg_type msg = msg_type" "cm_raw_message_json msg = ce_text ev"
    and next_b: "linked (ce_crypto (we_base env)) (rr_updated_state rekey) b'" "cs_expires_at b' = cs_expires_at b"
    by auto
  let ?st = "st\<lparr>ss_state := Some b', ss_had_rekey := True, ss_messages := ss_messages st @ [msg]\<rparr>"
  have "rekeyed_messages (ss_messages ?st) = rekeyed_messages (ss_messages st) @ [(msg_type, ce_text ev)]"
    using msg by (simp add: rekeyed_messages_def)
  with log_sent.IH [OF next_b(1), of ?st "snd (io_dh_now (we_base env) b w)"] next_b(2) log_sent.prems(2) step
  show ?case by simp
qed

text \<open>
  Property C6.  The wallet reads every message of the client: when the profile shows the client's messages in
  the order they were sent, among events of any other kind, and the two sides matched before, one
  call of \<open>query_session_messages\<close> re-keys for exactly these messages in this order, opens each of
  them, and returns a state that matches the client's last one.
\<close>

theorem wallet_reads_all_messages:
  assumes ok: "wallet_env_ok env" and sid: "trim session_id = session_id" "session_id \<noteq> []" "trim description \<noteq> []"
    and log: "session_log env session_id a evs msgs a'" and "msgs \<noteq> []"
    and linked: "linked (ce_crypto (we_base env)) a b" and clock: "clock_before (we_base env) (cs_expires_at b)"
    and address: "ce_get_profile_address (we_base env) (we_root env) description (ce_acquire (we_base env) w) = (Inr profile, w1)"
    and deployed: "ce_is_deployed (we_base env) (we_root env) profile w1 = (True, w2)"
    and events: "we_query_events env profile created_at_from (normalize_query_session_messages_limit limit) before w2 = (Inr (evs, cursor), w3)"
  shows "\<exists>result w4 b'. query_session_messages env session_id description (Some b) created_at_from before limit w = (Inr result, w4) \<and>
           rekeyed_messages (qm_messages result) = msgs \<and> qm_updated_session_state result = Some b' \<and>
           linked (ce_crypto (we_base env)) a' b'"
proof -
  obtain st w4 b' where st: "read_session_records env session_id evs \<lparr> ss_state = Some b, ss_had_rekey = False, ss_messages = [] \<rparr> w3 = (st, w4)"
    "ss_state st = Some b'" "linked (ce_crypto (we_base env)) a' b'" "ss_had_rekey st" "rekeyed_messages (ss_messages st) = msgs"
    using read_session_records_log [OF ok sid(1,2) log linked clock, of "\<lparr> ss_state = Some b, ss_had_rekey = False, ss_messages = [] \<rparr>" w3]
      \<open>msgs \<noteq> []\<close> by (auto simp: rekeyed_messages_def)
  have "validate_session_message_params session_id description = Inr ()"
    using sid by (simp add: validate_session_message_params_def)
  with st address deployed events show ?thesis
    by (simp add: query_session_messages_def acquired_def io_then_def io_lift_def io_map_err_def)
qed

text \<open>A message of the concrete environment.\<close>

lemma toy_connect_sync: "in_sync toy_connect_crypto (toy_state a b) (toy_state b a)"
  unfolding in_sync_def
proof (intro conjI exI)
  show "crypto_ok toy_connect_crypto" by (rule toy_connect_crypto_ok)
  show "length (replicate 32 (9 :: byte)) = 32" "length (replicate 32 a) = 32" "length (replicate 32 b) = 32" by simp_all
qed (simp_all add: toy_state_def pad32_id)

lemma toy_encode_client:
  assumes "length root = 32" "trim msg_type \<noteq> []"
  shows "\<exists>raw. encode_connect_message toy_env ''sid'' ''c2w'' seq msg_type body (Some (hex_enc root)) pub (k, evs)
     = (Inr raw, (Suc (Suc k), evs))"
proof -
  obtain aad where "connect_message_aad toy_connect_crypto ''sid'' ''c2w'' seq msg_type 1000 = Inr aad"
    by (simp add: connect_message_aad_def)
  moreover obtain eb where "io_encrypt_body toy_env body (hex_enc root) aad (k, evs) = (Inr eb, (Suc (Suc k), evs))"
    using toy_io_encrypt [OF assms(1)] by blast
  moreover have "trim ''sid'' \<noteq> []" "trim ''c2w'' \<noteq> []" by (simp_all add: visible_ascii_def)
  ultimately show ?thesis using assms(2)
    by (simp only: encode_connect_message_def toy_env_sel io_then_def io_lift_def io_map_err_def
        prod.case sum.case map_err.simps ok_or.simps if_False) (rule exI, rule refl)
qed

lemma toy_send_message:
  assumes "trim msg_type \<noteq> []"
  shows "\<exists>rekey raw result. send_connect_message toy_env () ''profile'' operation ''sid'' msg_type body (toy_state 1 2) (3, [])
     = (Inr (rekey, raw, result), toy_sent raw (6, []))"
proof -
  have "\<not> list_all (\<lambda>b. b = 0) (cr_x25519 toy_connect_crypto (replicate 32 4) (replicate 32 2))"
    by (simp add: pad32_id toy_xor list_all_iff)
  then obtain rekey where r: "rekey_outbound toy_connect_crypto 1000 (Inr (replicate 32 4)) (toy_state 1 2) ''sid'' 1000000 = Inr rekey"
    using rekey_outbound_succeeds [OF toy_connect_crypto_ok, of "replicate 32 9" "replicate 32 4" "replicate 32 2" "toy_state 1 2" 1000 1000000 "''sid''"]
    by (auto simp: toy_state_def is_expired_def)
  from rekey_root_bytes [OF toy_connect_crypto_ok this] obtain root where root: "length root = 32"
    "rr_message_encryption_root rekey = hex_enc root" by auto
  have seq: "rr_outbound_seq rekey = 1000000" using rekey_outbound_sent(3) [OF r] .
  obtain raw where "encode_connect_message toy_env ''sid'' ''c2w'' 1000000 msg_type body (Some (hex_enc root))
      (rr_new_dh_public rekey) (4, []) = (Inr raw, (6, []))"
    using toy_encode_client [OF root(1) assms, of 1000000 body "rr_new_dh_public rekey" 4 "[]"] by auto
  with r root seq show ?thesis
    by (simp add: send_connect_message_def io_next_outbound_seq_def next_outbound_seq_def io_rekey_outbound_def io_dh_now_def
        toy_state_def is_expired_def io_then_def io_lift_def io_map_err_def ensure_tx_success_def)
qed

theorem wallet_reads_all_messages_witness:
  "\<exists>raw result w b'. query_session_messages toy_wallet_env ''sid'' ''description'' (Some (toy_state 2 1)) None None None
       (toy_sent raw (6, [])) = (Inr result, w) \<and>
     rekeyed_messages (qm_messages result) = [(CONNECT_MESSAGE_TYPE_SIGN_CHALLENGE, raw)] \<and>
     qm_updated_session_state result = Some b'"
proof -
  have "trim CONNECT_MESSAGE_TYPE_SIGN_CHALLENGE \<noteq> []"
    by (simp add: CONNECT_MESSAGE_TYPE_SIGN_CHALLENGE_def visible_ascii_def)
  from toy_send_message [OF this] obtain rekey raw result where send:
    "send_connect_message toy_env () ''profile'' ''request_sign_challenge'' ''sid'' CONNECT_MESSAGE_TYPE_SIGN_CHALLENGE
       (sign_challenge_body ''n'') (toy_state 1 2) (3, []) = (Inr (rekey, raw, result), toy_sent raw (6, []))" by blast
  let ?ev = "\<lparr> ce_id = show_nat 0, ce_created_at = 1000, ce_text = raw \<rparr>"
  have log: "session_log toy_wallet_env ''sid'' (toy_state 1 2) [?ev] [(CONNECT_MESSAGE_TYPE_SIGN_CHALLENGE, raw)] (rr_updated_state rekey)"
    using session_log.log_sent [of toy_wallet_env _ _ _ "''sid''" _ _ _ _ _ ?ev] send session_log.log_nil
    by (metis context_event.select_convs(3) toy_wallet_env_sel(1))
  have linked: "linked toy_connect_crypto (toy_state 1 2) (toy_state 2 1)"
    using toy_connect_sync by (simp add: linked_def toy_state_def)
  have events: "we_query_events toy_wallet_env ''profile'' None (normalize_query_session_messages_limit None) None (toy_sent raw (6, []))
      = (Inr ([?ev], None), toy_sent raw (6, []))" by (simp add: toy_sent_def)
  have clock: "clock_before (we_base toy_wallet_env) (cs_expires_at (toy_state 2 1))" by (simp add: clock_before_def toy_state_def)
  have "\<exists>result w4 b'. query_session_messages toy_wallet_env ''sid'' ''description'' (Some (toy_state 2 1)) None None None
      (toy_sent raw (6, [])) = (Inr result, w4) \<and>
     rekeyed_messages (qm_messages result) = [(CONNECT_MESSAGE_TYPE_SIGN_CHALLENGE, raw)] \<and>
     qm_updated_session_state result = Some b' \<and> linked (ce_crypto (we_base toy_wallet_env)) (rr_updated_state rekey) b'"
    by (rule wallet_reads_all_messages [OF toy_wallet_env_ok _ _ _ log _ _ clock _ _ events])
      (simp_all add: visible_ascii_def linked)
  then show ?thesis by blast
qed

section \<open>Answers of the wallet\<close>

lemma response_body_read:
  "\<exists>fs. challenge_response_body nonce signature address epk = JObj fs \<and>
        response_of_fields fs = Some \<lparr> rb_nonce = nonce, rb_signature = signature, rb_wallet_address = address, rb_epk_public = epk \<rparr>"
  by (cases epk) (simp_all add: challenge_response_body_def set_opt_def response_of_fields_def field_simps_json)

text \<open>What the client makes of a carried response: it re-keys, opens it and reports its fields.\<close>

lemma look_challenge_response_found:
  assumes ok: "connect_env_ok env"
    and "carries env (ce_text ev) session_id ''w2c'' seq CONNECT_MESSAGE_TYPE_CHALLENGE_RESPONSE (Some pub)
           (rr_message_encryption_root r) (challenge_response_body nonce signature address epk)"
    and "rekey_inbound (ce_crypto env) (fst (io_dh_now env a w)) a pub session_id seq = Inr r"
  shows "look_challenge_response env session_id (Some a) ev w =
     (Found \<lparr> rf_event_id = ce_id ev, rf_event_created_at = ce_created_at ev, rf_nonce = nonce, rf_signature = signature,
              rf_wallet_address = address, rf_epk_public = epk, rf_raw_message_json = ce_text ev,
              rf_updated_session_state = Some (rr_updated_state r) \<rparr>, snd (io_dh_now env a w))"
proof -
  from assms(2) obtain ts eb where e:
    "ce_envelope_from_str env (ce_text ev) = Inr (sent_envelope session_id ''w2c'' seq CONNECT_MESSAGE_TYPE_CHALLENGE_RESPONSE ts eb (Some pub))"
    "decode_connect_message_body env (sent_envelope session_id ''w2c'' seq CONNECT_MESSAGE_TYPE_CHALLENGE_RESPONSE ts eb (Some pub))
       (Some (rr_message_encryption_root r)) = Inr (Some (challenge_response_body nonce signature address epk))"
    by (auto simp: carries_def)
  obtain fs where "challenge_response_body nonce signature address epk = JObj fs"
    "response_of_fields fs = Some \<lparr> rb_nonce = nonce, rb_signature = signature, rb_wallet_address = address, rb_epk_public = epk \<rparr>"
    using response_body_read by blast
  then have body: "ce_response_from_value env (challenge_response_body nonce signature address epk)
      = Inr \<lparr> rb_nonce = nonce, rb_signature = signature, rb_wallet_address = address, rb_epk_public = epk \<rparr>"
    using connect_env_okD(9) [OF ok, of fs] by (simp add: res_simps)
  have "rekey_and_decrypt env a pub session_id (sent_envelope session_id ''w2c'' seq CONNECT_MESSAGE_TYPE_CHALLENGE_RESPONSE ts eb (Some pub)) w
      = (Inr (r, challenge_response_body nonce signature address epk), snd (io_dh_now env a w))"
    using e(2) assms(3) by (simp add: rekey_and_decrypt_def split_beta) (simp add: sent_envelope_def)
  with e(1) body show ?thesis
    by (simp add: look_challenge_response_def Let_def)
      (simp add: sent_envelope_def CONNECT_MESSAGE_TYPE_CHALLENGE_RESPONSE_def CONNECT_MESSAGE_TYPE_WALLET_HELLO_def)
qed

lemma io_ensure_alive:
  assumes "\<not> is_expired (fst (io_dh_now env a w)) a"
  shows "io_ensure_not_expired env context (Some a) w = (Inr (), snd (io_dh_now env a w))"
  using assms by (simp only: io_ensure_not_expired_def ensure_not_expired_def guard_def split_beta option.case if_False map_err.simps)

lemma scan_events_skip_any:
  assumes "\<forall>e \<in> set before. \<forall>w. \<exists>f w'. look e w = (Skip f, w')"
  shows "\<exists>c' w'. scan_events look (before @ evs) c w = scan_events look evs c' w'"
  using assms
proof (induction before arbitrary: c w)
  case (Cons e before)
  from Cons.prems obtain f w' where "look e w = (Skip f, w')" by (meson list.set_intros(1))
  with Cons.IH [of "f c" w'] Cons.prems show ?case by simp
qed auto

text \<open>
  Property C7.  The wallet's answer reaches the client: a \<open>challenge_response\<close> that the wallet encodes after
  re-keying from a state that matches the client's is found by the client's scan behind any events
  it skips, with the nonce, the signature, the address and the key the wallet put in, and the states
  match again.
\<close>

theorem challenge_response_end_to_end:
  assumes ok: "connect_env_ok (we_base env)" and linked: "linked (ce_crypto (we_base env)) b a"
    and rekey: "rekey_outbound (ce_crypto (we_base env)) now (Inr s) b session_id seq = Inr rekey" "length s = 32"
    and pub: "rr_new_dh_public rekey = Some pub"
    and enc: "encode_challenge_response_message env session_id nonce signature address epk (rr_message_encryption_root rekey)
                pub seq w0 = (Inr raw, w1)"
    and clock: "clock_before (we_base env) (cs_expires_at a)"
    and query: "ce_query_context_added (we_base env) root profile from_secs 50 (snd (io_dh_now (we_base env) a w))
                = (Inr (earlier @ ev # later), w2)"
    and ev: "ce_text ev = raw"
    and other: "\<forall>e \<in> set earlier. \<forall>w. \<exists>f w'. look_challenge_response (we_base env) session_id (Some a) e w = (Skip f, w')"
  shows "\<exists>found a' w'. find_challenge_response_event (we_base env) root profile session_id (Some a) from_secs w = (Inr (Some found), w') \<and>
           rf_nonce found = nonce \<and> rf_signature found = signature \<and> rf_wallet_address found = address \<and>
           rf_epk_public found = epk \<and> rf_updated_session_state found = Some a' \<and>
           linked (ce_crypto (we_base env)) (rr_updated_state rekey) a'"
proof -
  let ?cr = "ce_crypto (we_base env)" and ?look = "look_challenge_response (we_base env) session_id (Some a)"
  have cr: "crypto_ok ?cr" using connect_env_okD(1) [OF ok] .
  have enc': "encode_wallet_message env session_id CONNECT_MESSAGE_TYPE_CHALLENGE_RESPONSE seq
      (challenge_response_body nonce signature address epk) (rr_message_encryption_root rekey) pub w0 = (Inr raw, w1)"
    using enc by (auto simp: encode_challenge_response_message_def io_lift_eq split: if_splits)
  have carried: "carries (we_base env) (ce_text ev) session_id ''w2c'' seq CONNECT_MESSAGE_TYPE_CHALLENGE_RESPONSE (Some pub)
      (rr_message_encryption_root rekey) (challenge_response_body nonce signature address epk)"
    using encode_wallet_message_carries [OF ok enc' rekey_root_hex [OF cr rekey(1)]] unfolding ev .
  have found: "\<exists>found a' w'. ?look ev v = (Found found, w') \<and> rf_nonce found = nonce \<and> rf_signature found = signature \<and>
      rf_wallet_address found = address \<and> rf_epk_public found = epk \<and> rf_updated_session_state found = Some a' \<and>
      linked ?cr (rr_updated_state rekey) a'" for v
  proof -
    obtain r' where r': "rekey_inbound ?cr (fst (io_dh_now (we_base env) a v)) a pub session_id seq = Inr r'"
      "rr_message_encryption_root r' = rr_message_encryption_root rekey" "linked ?cr (rr_updated_state rekey) (rr_updated_state r')"
      using linked_deliver [OF linked rekey clock_not_expired [OF clock] pub] by blast
    from look_challenge_response_found [OF ok carried [folded r'(2)] r'(1)] r'(3) show ?thesis by auto
  qed
  note alive = io_ensure_alive [OF clock_not_expired [OF clock], of "''find_challenge_response_event''" w]
  obtain c w3 where "scan_events ?look (earlier @ ev # later) no_counts w2 = scan_events ?look (ev # later) c w3"
    using scan_events_skip_any [OF other] by blast
  moreover obtain f a' w' where f: "?look ev w3 = (Found f, w')" "rf_nonce f = nonce" "rf_signature f = signature"
      "rf_wallet_address f = address" "rf_epk_public f = epk" "rf_updated_session_state f = Some a'"
      "linked ?cr (rr_updated_state rekey) a'" using found by blast
  ultimately have "find_challenge_response_event (we_base env) root profile session_id (Some a) from_secs w = (Inr (Some f), w')"
    using query alive
    by (simp only: find_challenge_response_event_def query_context_events_def io_then_def io_map_err_def prod.case sum.case
        map_err.simps scan_events.simps verdict.case)
  with f show ?thesis by blast
qed

lemma toy_response:
  "\<exists>rekey pub raw. rekey_outbound toy_connect_crypto 1000 (Inr (replicate 32 4)) (toy_state 2 1) ''sid'' 7 = Inr rekey \<and>
     rr_new_dh_public rekey = Some pub \<and>
     encode_challenge_response_message toy_wallet_env ''sid'' ''n'' ''sig'' ''address'' None (rr_message_encryption_root rekey) pub 7 (4, [])
       = (Inr raw, (6, []))"
proof -
  have "\<not> list_all (\<lambda>b. b = 0) (cr_x25519 toy_connect_crypto (replicate 32 4) (replicate 32 1))"
    by (simp add: pad32_id toy_xor list_all_iff)
  then obtain rekey where r: "rekey_outbound toy_connect_crypto 1000 (Inr (replicate 32 4)) (toy_state 2 1) ''sid'' 7 = Inr rekey"
    using rekey_outbound_succeeds [OF toy_connect_crypto_ok, of "replicate 32 9" "replicate 32 4" "replicate 32 1" "toy_state 2 1" 1000 7 "''sid''"]
    by (auto simp: toy_state_def is_expired_def)
  moreover obtain pub where "rr_new_dh_public rekey = Some pub" using rekey_outbound_sent(4) [OF r] by blast
  moreover obtain root where "length root = 32" "rr_message_encryption_root rekey = hex_enc root"
    using rekey_root_bytes [OF toy_connect_crypto_ok r] by auto
  ultimately show ?thesis
    using toy_encode [of root "''sid''" CONNECT_MESSAGE_TYPE_CHALLENGE_RESPONSE 7 _ pub 4 "[]"]
    by (simp add: encode_challenge_response_message_def)
qed

theorem challenge_response_end_to_end_witness:
  "\<exists>raw found a' w'. find_challenge_response_event toy_env () ''profile'' ''sid'' (Some (toy_state 1 2)) 0 (toy_sent raw (6, []))
       = (Inr (Some found), w') \<and> rf_nonce found = ''n'' \<and> rf_signature found = ''sig'' \<and>
     rf_updated_session_state found = Some a'"
proof -
  obtain rekey pub raw where r: "rekey_outbound toy_connect_crypto 1000 (Inr (replicate 32 4)) (toy_state 2 1) ''sid'' 7 = Inr rekey"
     "rr_new_dh_public rekey = Some pub"
     "encode_challenge_response_message toy_wallet_env ''sid'' ''n'' ''sig'' ''address'' None (rr_message_encryption_root rekey) pub 7 (4, [])
       = (Inr raw, (6, []))"
    using toy_response by blast
  let ?ev = "\<lparr> ce_id = show_nat 0, ce_created_at = 1000, ce_text = raw \<rparr>"
  have linked: "linked toy_connect_crypto (toy_state 2 1) (toy_state 1 2)"
    using toy_connect_sync by (simp add: linked_def toy_state_def)
  have clock: "clock_before toy_env (cs_expires_at (toy_state 1 2))" by (simp add: clock_before_def toy_state_def)
  have query: "ce_query_context_added toy_env () ''profile'' 0 50 (snd (io_dh_now toy_env (toy_state 1 2) (toy_sent raw (6, []))))
      = (Inr ([] @ ?ev # []), toy_sent raw (6, []))"
    by (simp add: io_dh_now_def toy_sent_def toy_state_def)
  have len: "length (replicate 32 (4 :: byte)) = 32" and ev: "ce_text ?ev = raw" by simp_all
  from challenge_response_end_to_end [of toy_wallet_env, unfolded toy_wallet_env_sel toy_env_sel(1),
      OF toy_env_ok linked r(1) len r(2,3) clock query ev] show ?thesis by auto
qed

text \<open>
  Property C35.  A response that was handled before fails the wait: when the scanned window shows a
  \<open>challenge_response\<close> of the session whose number was seen already, and nothing else, the scan
  does not skip it but fails, and the poll that waits for the next response ends with this error at
  its first attempt.
\<close>

theorem handled_response_fails_wait:
  assumes clock: "clock_before env (cs_expires_at a)"
    and query: "ce_query_context_added env root profile from_secs 50 (snd (io_dh_now env a (ce_acquire env w))) = (Inr [ev], w1)"
    and envelope: "ce_envelope_from_str env (ce_text ev) = Inr e" "en_v e = CONNECT_MESSAGE_VERSION" "en_session_id e = session_id"
      "en_dir e = ''w2c''" "en_msg_type e = CONNECT_MESSAGE_TYPE_CHALLENGE_RESPONSE" "en_dh_public e = Some pub"
    and handled: "en_seq e \<le> cs_last_seen_seq a" and "attempts_limit \<noteq> Some 0"
  shows "\<exists>err w'. poll_until fail (ce_sleep_ms env)
           (acquired env (io_map_err (with_context ''Query challenge_response'')
              (find_challenge_response_event env root profile session_id (Some a) from_secs)))
           (\<lambda>found. found \<noteq> None) attempts_limit poll_ms w = (Inl err, w')"
proof -
  let ?w = "ce_acquire env w"
  have "rekey_inbound (ce_crypto env) now a pub session_id (en_seq e) \<noteq> Inr r" for now r
    using handled by (auto simp: rekey_inbound_ok)
  then have "rekey_and_decrypt env a pub session_id e v = (Inl (n_rekey_update Suc), snd (io_dh_now env a v))" for v
    by (cases "rekey_inbound (ce_crypto env) (fst (io_dh_now env a v)) a pub session_id (en_seq e)")
      (simp_all add: rekey_and_decrypt_def split_beta)
  then have "look_challenge_response env session_id (Some a) ev v = (Skip (n_rekey_update Suc), snd (io_dh_now env a v))" for v
    using envelope by (simp add: look_challenge_response_def Let_def CONNECT_MESSAGE_TYPE_CHALLENGE_RESPONSE_def
        CONNECT_MESSAGE_TYPE_WALLET_HELLO_def)
  moreover note alive = io_ensure_alive [OF clock_not_expired [OF clock], of "''find_challenge_response_event''" ?w]
  ultimately obtain err w' where "find_challenge_response_event env root profile session_id (Some a) from_secs ?w = (Inl err, w')"
    using query
    by (simp add: find_challenge_response_event_def query_context_events_def io_then_def io_map_err_def no_counts_def)
  then show ?thesis
    using \<open>attempts_limit \<noteq> Some 0\<close>
    by (cases attempts_limit) (simp_all add: poll_until_def Let_def poll_loop.simps acquired_def io_map_err_def)
qed

theorem handled_response_fails_wait_witness:
  "\<exists>raw err w'. poll_until fail (ce_sleep_ms toy_env)
     (acquired toy_env (io_map_err (with_context ''Query challenge_response'')
        (find_challenge_response_event toy_env () ''profile'' ''sid'' (Some ((toy_state 1 2)\<lparr>cs_last_seen_seq := 7\<rparr>)) 0)))
     (\<lambda>found. found \<noteq> None) None None (toy_sent raw (6, [])) = (Inl err, w')"
proof -
  let ?a = "(toy_state 1 2)\<lparr>cs_last_seen_seq := 7\<rparr>"
  obtain raw ts eb where e: "ce_envelope_from_str toy_env raw
      = Inr (sent_envelope ''sid'' ''w2c'' 7 CONNECT_MESSAGE_TYPE_CHALLENGE_RESPONSE ts eb (Some ''pub''))"
    using wallet_envelope_read [of "''sid''" 7 CONNECT_MESSAGE_TYPE_CHALLENGE_RESPONSE 0 _ "''pub''"]
    by (metis of_object.simps(1) ok_or.simps(2) toy_env_sel(14) toy_parse_print)
  let ?ev = "\<lparr> ce_id = show_nat 0, ce_created_at = 1000, ce_text = raw \<rparr>"
  have clock: "clock_before toy_env (cs_expires_at ?a)" by (simp add: clock_before_def toy_state_def)
  have query: "ce_query_context_added toy_env () ''profile'' 0 50 (snd (io_dh_now toy_env ?a (ce_acquire toy_env (toy_sent raw (6, [])))))
      = (Inr [?ev], toy_sent raw (6, []))"
    by (simp add: io_dh_now_def toy_sent_def toy_state_def)
  from e have "ce_envelope_from_str toy_env (ce_text ?ev)
      = Inr (sent_envelope ''sid'' ''w2c'' 7 CONNECT_MESSAGE_TYPE_CHALLENGE_RESPONSE ts eb (Some ''pub''))" by simp
  from handled_response_fails_wait [OF clock query this, where attempts_limit = None] show ?thesis
    by (simp add: sent_envelope_def) blast
qed

section \<open>Unencrypted messages\<close>

text \<open>
  Further property.  The wallet's parser refuses the body of an unencrypted message for every type but
  one: a \<open>client_disconnect\<close> without encryption is reported with its typed body, taken from the
  plain text, whether or not the wallet holds a key.  Every other unencrypted message has no typed
  body at all.
\<close>

theorem unencrypted_messages:
  assumes "wallet_env_ok env" and "ce_envelope_from_str (we_base env) raw = Inr e" "en_v e = CONNECT_MESSAGE_VERSION"
    and "en_session_id e = session_id" "trim session_id = session_id" "session_id \<noteq> []" "trim (en_dir e) \<noteq> []"
    and "en_enc e = None" "en_body e = JObj body_fields"
  shows "\<exists>msg. parse_connect_session_message_with_secret env raw session_id secret event_id created_at = Some msg \<and>
           \<not> cm_body_decrypted msg \<and> cm_wallet_hello msg = None \<and> cm_set_mining_keys msg = None \<and>
           cm_sign_challenge msg = None \<and> cm_challenge_response msg = None \<and>
           cm_client_disconnect msg =
             (if en_msg_type e = CONNECT_MESSAGE_TYPE_CLIENT_DISCONNECT
              then map_option (\<lambda>b. \<lparr> db_reason = Option.bind (db_reason b) (\<lambda>v. if trim v = [] then None else Some (trim v)) \<rparr>)
                     (disconnect_of_fields body_fields)
              else None)"
proof -
  have "wallet_decode_body (we_base env) e secret session_id = Inl (connect_error ''Unencrypted connect messages are no longer accepted'')"
    using assms(8) by (simp add: wallet_decode_body_def)
  moreover have "disconnect_of_fields body_fields = res_ok (we_disconnect_from_value env (JObj body_fields))"
    using wallet_env_okD(4) [OF assms(1)] by simp
  ultimately show ?thesis
    using assms(2-9)
    by (cases "we_disconnect_from_value env (JObj body_fields)")
      (auto simp: parse_connect_session_message_with_secret_def Let_def typed_body_def
        CONNECT_MESSAGE_TYPE_WALLET_HELLO_def CONNECT_MESSAGE_TYPE_SET_MINING_KEYS_def CONNECT_MESSAGE_TYPE_CLIENT_DISCONNECT_def
        CONNECT_MESSAGE_TYPE_SIGN_CHALLENGE_def CONNECT_MESSAGE_TYPE_CHALLENGE_RESPONSE_def)
qed

definition plain_disconnect :: json where
  "plain_disconnect = JObj
     [(''v'', JStr CONNECT_MESSAGE_VERSION), (''session_id'', JStr ''sid''), (''dir'', JStr ''c2w''), (''seq'', JNum 1),
      (''type'', JStr CONNECT_MESSAGE_TYPE_CLIENT_DISCONNECT), (''body'', JObj [(''reason'', JStr ''bye'')])]"

theorem unencrypted_messages_witness:
  "\<exists>msg. parse_connect_session_message_with_secret toy_wallet_env (toy_print plain_disconnect) ''sid'' None ''id'' 0 = Some msg \<and>
     \<not> cm_body_decrypted msg \<and> cm_client_disconnect msg = Some \<lparr> db_reason = Some ''bye'' \<rparr>"
proof -
  let ?e = "\<lparr> en_v = CONNECT_MESSAGE_VERSION, en_session_id = ''sid'', en_dir = ''c2w'', en_seq = 1,
     en_msg_type = CONNECT_MESSAGE_TYPE_CLIENT_DISCONNECT, en_ts = None, en_dh_public = None, en_enc = None,
     en_body = JObj [(''reason'', JStr ''bye'')] \<rparr>"
  have "ce_envelope_from_str (we_base toy_wallet_env) (toy_print plain_disconnect) = Inr ?e"
    by (simp add: plain_disconnect_def envelope_of_fields_def field_simps_json)
  from unencrypted_messages [OF toy_wallet_env_ok this, of "''sid''" "[(''reason'', JStr ''bye'')]" None "''id''" 0] show ?thesis
    by (auto simp: visible_ascii_def disconnect_of_fields_def field_simps_json)
qed

section \<open>Payloads of other origin\<close>

text \<open>
  Further property.  What the client's decoder accepts, the wallet's accepts too, up to the spelling of
  the application id; the converse fails: a payload whose description names another application or
  session passes the wallet's decoder and is refused by the client's.
\<close>

theorem payload_decoders:
  assumes "trim raw = raw" "raw \<noteq> []" "cr_b64_decode (ce_crypto env) raw = Inr bytes" "ce_from_utf8 env bytes = Inr text_json"
    and "ce_payload_from_str env text_json = Inr payload"
  shows "(case decode_connect_payload_b64url env raw of
            Inr p \<Rightarrow> wallet_decode_payload env raw = Inr payload \<and> normalize_uint256_hex (cp_app_id payload) = Inr (cp_app_id p) \<and>
                     p = payload\<lparr>cp_app_id := cp_app_id p\<rparr>
          | Inl _ \<Rightarrow> True) \<and>
         (wallet_decode_payload env raw = Inr payload \<and>
          pd_session_id (parse_connect_description (cp_description payload)) \<noteq> Some (cp_session_id payload) \<longrightarrow>
            (\<exists>e. decode_connect_payload_b64url env raw = Inl e))"
  using assms
  by (auto simp: decode_connect_payload_b64url_def wallet_decode_payload_def wallet_validate_payload_shape_def
      validate_connect_payload_shape_def Let_def res_simps split: sum.splits if_splits)

definition foreign_payload :: ConnectPayload where
  "foreign_payload = \<lparr> cp_v = CONNECT_DEEPLINK_VERSION, cp_session_id = ''sid'', cp_description = ''x'', cp_expires_at = 1,
     cp_app_id = ''ff'', cp_nonce = None \<rparr>"

theorem payload_decoders_witness:
  "\<exists>raw e. wallet_decode_payload toy_env raw = Inr foreign_payload \<and> decode_connect_payload_b64url toy_env raw = Inl e"
proof -
  let ?json = "toy_print (payload_value foreign_payload)"
  let ?raw = "hex_enc (as_bytes ?json)"
  have bytes: "cr_b64_decode (ce_crypto toy_env) ?raw = Inr (as_bytes ?json)" "ce_from_utf8 toy_env (as_bytes ?json) = Inr ?json"
    "ce_payload_from_str toy_env ?json = Inr foreign_payload"
    by (simp_all add: toy_env_def)
  have raw: "trim ?raw = ?raw" "?raw \<noteq> []"
    using connect_env_okD(3,4) [OF toy_env_ok, of "as_bytes ?json"] by (auto simp: b64url_visible as_bytes_def)
  have shape: "wallet_validate_payload_shape foreign_payload = Inr ()"
    by (simp add: wallet_validate_payload_shape_def foreign_payload_def normalize_ff visible_ascii_def)
  have "wallet_decode_payload toy_env ?raw = Inr foreign_payload"
    using bytes shape by (simp add: wallet_decode_payload_def)
  moreover have "pd_session_id (parse_connect_description (cp_description foreign_payload)) \<noteq> Some (cp_session_id foreign_payload)"
    by (simp add: foreign_payload_def parse_connect_description_def CONNECT_DESCRIPTION_PREFIX_def parsed_default_def)
  ultimately show ?thesis using payload_decoders [OF raw bytes] by blast
qed

end
