(* ===== verification/ActiveSessions.thy ===== *)
theory ActiveSessions
  imports ConnectProtocol
begin

text \<open>
  The listing of active sessions (\<open>query_active_sessions_by_multifactor\<close> of
  \<open>bee_connect/src/client.rs\<close>) against its specification: the first ten distinct deployed sessions
  among the profile records of the pages it visits.
\<close>

section \<open>The specification\<close>

text \<open>Of the sessions with equal keys the first is kept.\<close>

fun distinct_sessions :: "string set \<Rightarrow> ActiveConnectSession list \<Rightarrow> ActiveConnectSession list" where
  "distinct_sessions seen [] = []"
| "distinct_sessions seen (s # ss) =
     (if active_session_uniqueness_key s \<in> seen then distinct_sessions seen ss
      else s # distinct_sessions (insert (active_session_uniqueness_key s) seen) ss)"

definition wanted :: "(string \<Rightarrow> bool) \<Rightarrow> string option \<Rightarrow> profile_record \<Rightarrow> bool" where
  "wanted deployed filt r =
     (is_connect_description (pr_description r) \<and> deployed (pr_profile r) \<and>
      (filt = None \<or> ac_app_id (session_of_record r) = filt))"

definition listed :: "(string \<Rightarrow> bool) \<Rightarrow> string option \<Rightarrow> profile_record list \<Rightarrow> ActiveConnectSession list" where
  "listed deployed filt records =
     distinct_sessions {} (map session_of_record (filter (wanted deployed filt) records))"

lemma distinct_sessions_append:
  "distinct_sessions seen (xs @ ys) =
     distinct_sessions seen xs @ distinct_sessions (seen \<union> active_session_uniqueness_key ` set xs) ys"
  by (induction seen xs rule: distinct_sessions.induct) (auto simp: insert_absorb)

lemma distinct_sessions_keys:
  "active_session_uniqueness_key ` set (distinct_sessions seen xs) = active_session_uniqueness_key ` set xs - seen \<and>
   distinct (map active_session_uniqueness_key (distinct_sessions seen xs))"
  by (induction seen xs rule: distinct_sessions.induct) auto

section \<open>The records of a page\<close>

text \<open>
  The variables agree with the records seen so far: the sessions and their keys are those of the
  records, and the cache holds the deployment status of the profiles.
\<close>

definition scan_of :: "(string \<Rightarrow> bool) \<Rightarrow> string option \<Rightarrow> profile_record list \<Rightarrow> active_scan \<Rightarrow> bool" where
  "scan_of deployed filt records st =
     (as_sessions st = listed deployed filt records \<and>
      as_seen st = active_session_uniqueness_key ` set (map session_of_record (filter (wanted deployed filt) records)) \<and>
      (\<forall>p v. as_deployed st p = Some v \<longrightarrow> v = deployed p) \<and>
      as_has_deployed st = (\<exists>r \<in> set records. is_connect_description (pr_description r) \<and> deployed (pr_profile r)))"

definition deployment :: "('w, 'r) connect_env \<Rightarrow> 'r \<Rightarrow> (string \<Rightarrow> bool) \<Rightarrow> bool" where
  "deployment env root deployed = (\<forall>p w. fst (ce_is_deployed env root p w) = deployed p)"

lemma cached_is_deployed_value:
  assumes "deployment env root deployed" "\<forall>p v. as_deployed st p = Some v \<longrightarrow> v = deployed p"
  shows "\<exists>w' cache. cached_is_deployed env root p st w = (deployed p, st\<lparr>as_deployed := cache\<rparr>, w') \<and>
           (\<forall>p v. cache p = Some v \<longrightarrow> v = deployed p)"
proof (cases "as_deployed st p")
  case None
  moreover have "fst (ce_is_deployed env root p w) = deployed p" using assms(1) by (simp add: deployment_def)
  ultimately show ?thesis
    using assms(2)
    by (intro exI [of _ "snd (ce_is_deployed env root p w)"] exI [of _ "(as_deployed st)(p \<mapsto> deployed p)"])
      (auto simp: cached_is_deployed_def split_beta)
next
  case (Some v)
  then show ?thesis
    using assms(2) by (intro exI [of _ w] exI [of _ "as_deployed st"]) (auto simp: cached_is_deployed_def)
qed

lemma listed_snoc:
  "listed deployed filt (rs @ [r]) =
     (if wanted deployed filt r \<and>
         active_session_uniqueness_key (session_of_record r) \<notin>
           active_session_uniqueness_key ` set (map session_of_record (filter (wanted deployed filt) rs))
      then listed deployed filt rs @ [session_of_record r] else listed deployed filt rs)"
  by (auto simp: listed_def distinct_sessions_append)

lemma listed_append_prefix: "\<exists>rest. listed deployed filt (rs @ rs') = listed deployed filt rs @ rest"
  by (simp add: listed_def distinct_sessions_append)

text \<open>What the scan of a page does not touch.\<close>

definition same_cursor :: "active_scan \<Rightarrow> active_scan \<Rightarrow> bool" where
  "same_cursor st st' =
     (as_before st' = as_before st \<and> as_next_before st' = as_next_before st \<and> as_stalled st' = as_stalled st)"

lemma same_cursor_trans: "same_cursor a b \<Longrightarrow> same_cursor b c \<Longrightarrow> same_cursor a c"
  by (simp add: same_cursor_def)

lemma push_unique_scan:
  assumes "scan_of deployed filt before (st\<lparr>as_has_deployed := h\<rparr>)" "wanted deployed filt r"
  shows "scan_of deployed filt (before @ [r]) (push_unique_active_session (session_of_record r) (st\<lparr>as_has_deployed := True\<rparr>))"
  using assms by (auto simp: scan_of_def push_unique_active_session_def Let_def listed_snoc wanted_def insert_absorb)

text \<open>One record: the loop goes on with the variables of one rest record, or stops with a full list.\<close>

lemma active_records_step:
  assumes dep: "deployment env root deployed" and st: "scan_of deployed filt before st"
    and room: "length (as_sessions st) < ACTIVE_SESSIONS_CHUNK_SIZE"
  shows "\<exists>st1 w1. scan_of deployed filt (before @ [r]) st1 \<and> same_cursor st st1 \<and>
           length (as_sessions st1) \<le> ACTIVE_SESSIONS_CHUNK_SIZE \<and>
           active_records env root filt (r # rs) st w =
             (if length (as_sessions st1) < ACTIVE_SESSIONS_CHUNK_SIZE then active_records env root filt rs st1 w1
              else (st1, w1))"
proof (cases "is_connect_description (pr_description r)")
  case False
  then have "scan_of deployed filt (before @ [r]) st" using st by (auto simp: scan_of_def listed_snoc wanted_def)
  with False room show ?thesis by (intro exI [of _ st] exI [of _ w]) (simp add: same_cursor_def)
next
  case True
  obtain w1 cache where c: "cached_is_deployed env root (pr_profile r) st w = (deployed (pr_profile r), st\<lparr>as_deployed := cache\<rparr>, w1)"
    "\<forall>p v. cache p = Some v \<longrightarrow> v = deployed p"
    using cached_is_deployed_value [OF dep] st unfolding scan_of_def by metis
  have st1: "scan_of deployed filt before (st\<lparr>as_deployed := cache\<rparr>)" using st c(2) by (simp add: scan_of_def)
  show ?thesis
  proof (cases "deployed (pr_profile r)")
    case False
    then have "scan_of deployed filt (before @ [r]) (st\<lparr>as_deployed := cache\<rparr>)"
      using st1 by (auto simp: scan_of_def listed_snoc wanted_def)
    with False True c(1) room show ?thesis
      by (intro exI [of _ "st\<lparr>as_deployed := cache\<rparr>"] exI [of _ w1]) (simp add: same_cursor_def)
  next
    case dep_r: True
    let ?st2 = "st\<lparr>as_deployed := cache, as_has_deployed := True\<rparr>"
    show ?thesis
    proof (cases "filt \<noteq> None \<and> ac_app_id (session_of_record r) \<noteq> filt")
      case mismatch: True
      then have "scan_of deployed filt (before @ [r]) ?st2"
        using st1 dep_r True by (auto simp: scan_of_def listed_snoc wanted_def)
      with mismatch dep_r True c(1) room show ?thesis
        by (intro exI [of _ ?st2] exI [of _ w1]) (simp add: same_cursor_def)
    next
      case match: False
      let ?st3 = "push_unique_active_session (session_of_record r) ?st2"
      have "scan_of deployed filt (before @ [r]) ?st3"
        using push_unique_scan [of deployed filt before "as_has_deployed st" "st\<lparr>as_deployed := cache\<rparr>" r] st1 match True dep_r
        by (simp add: wanted_def)
      moreover have "length (as_sessions ?st3) \<le> ACTIVE_SESSIONS_CHUNK_SIZE" "same_cursor st ?st3"
        using room by (simp_all add: push_unique_active_session_def Let_def same_cursor_def)
      ultimately show ?thesis
        using match dep_r True c(1)
        by (intro exI [of _ ?st3] exI [of _ w1]) (auto simp: Let_def)
    qed
  qed
qed

lemma active_records_scan:
  assumes "deployment env root deployed" "scan_of deployed filt before st" "length (as_sessions st) < ACTIVE_SESSIONS_CHUNK_SIZE"
  shows "\<exists>st' w' n. active_records env root filt rs st w = (st', w') \<and> n \<le> length rs \<and>
           scan_of deployed filt (before @ take n rs) st' \<and> same_cursor st st' \<and>
           length (as_sessions st') \<le> ACTIVE_SESSIONS_CHUNK_SIZE \<and>
           (length (as_sessions st') < ACTIVE_SESSIONS_CHUNK_SIZE \<longrightarrow> n = length rs)"
  using assms(2,3)
proof (induction rs arbitrary: before st w)
  case Nil
  then show ?case by (intro exI [of _ st] exI [of _ w] exI [of _ 0]) (simp add: same_cursor_def)
next
  case (Cons r rs)
  obtain st1 w1 where s: "scan_of deployed filt (before @ [r]) st1" "same_cursor st st1"
    "length (as_sessions st1) \<le> ACTIVE_SESSIONS_CHUNK_SIZE"
    "active_records env root filt (r # rs) st w =
       (if length (as_sessions st1) < ACTIVE_SESSIONS_CHUNK_SIZE then active_records env root filt rs st1 w1 else (st1, w1))"
    using active_records_step [OF assms(1) Cons.prems] by blast
  show ?case
  proof (cases "length (as_sessions st1) < ACTIVE_SESSIONS_CHUNK_SIZE")
    case True
    from Cons.IH [OF s(1) True, of w1] obtain st' w' n where
      "active_records env root filt rs st1 w1 = (st', w')" "n \<le> length rs"
      "scan_of deployed filt ((before @ [r]) @ take n rs) st'" "same_cursor st1 st'"
      "length (as_sessions st') \<le> ACTIVE_SESSIONS_CHUNK_SIZE"
      "length (as_sessions st') < ACTIVE_SESSIONS_CHUNK_SIZE \<longrightarrow> n = length rs" by blast
    with s True same_cursor_trans show ?thesis
      by (intro exI [of _ st'] exI [of _ w'] exI [of _ "Suc n"]) auto
  next
    case False
    with s show ?thesis by (intro exI [of _ st1] exI [of _ w1] exI [of _ 1]) auto
  qed
qed

section \<open>The pages\<close>

text \<open>
  A server that answers a query by its cursor alone, the pages that follow each other from a cursor
  on, and cursors that make progress: behind every full page the cursor has a smaller rank.
\<close>

definition serves :: "('w, 'r) connect_env \<Rightarrow> 'r \<Rightarrow> string \<Rightarrow> u64 option \<Rightarrow> (string option \<Rightarrow> profiles_page) \<Rightarrow> bool" where
  "serves env root multifactor created_at_from srv =
     (\<forall>b w. \<exists>w'. ce_query_profiles env root multifactor created_at_from ACTIVE_SESSIONS_CHUNK_SIZE b w = (Inr (srv b), w'))"

fun page_chain :: "(string option \<Rightarrow> profiles_page) \<Rightarrow> string option \<Rightarrow> profiles_page list \<Rightarrow> bool" where
  "page_chain srv b [] = True"
| "page_chain srv b (p # ps) = (p = srv b \<and> (ps = [] \<or> (pg_oldest_cursor p \<noteq> None \<and> page_chain srv (pg_oldest_cursor p) ps)))"

text \<open>The scan has to end at a page, and has ended at the last of a list of pages.\<close>

definition last_page :: "(string option \<Rightarrow> profiles_page) \<Rightarrow> string option \<Rightarrow> bool" where
  "last_page srv b =
     (pg_records (srv b) = [] \<or> pg_oldest_cursor (srv b) = None \<or> pg_oldest_cursor (srv b) = b \<or>
      length (pg_records (srv b)) < ACTIVE_SESSIONS_CHUNK_SIZE)"

fun all_pages :: "(string option \<Rightarrow> profiles_page) \<Rightarrow> string option \<Rightarrow> profiles_page list \<Rightarrow> bool" where
  "all_pages srv b [] = False"
| "all_pages srv b [p] = last_page srv b"
| "all_pages srv b (p # q # ps) = all_pages srv (pg_oldest_cursor p) (q # ps)"

definition progresses :: "(string option \<Rightarrow> profiles_page) \<Rightarrow> (string option \<Rightarrow> nat) \<Rightarrow> bool" where
  "progresses srv rank =
     (\<forall>b c. pg_oldest_cursor (srv b) = Some c \<longrightarrow> b \<noteq> Some c \<longrightarrow> ACTIVE_SESSIONS_CHUNK_SIZE \<le> length (pg_records (srv b)) \<longrightarrow>
        rank (Some c) < rank b)"

lemma take_listed:
  assumes "length (listed deployed filt rs) \<le> k" "length (listed deployed filt rs) < k \<longrightarrow> rest = []"
  shows "take k (listed deployed filt (rs @ rest)) = listed deployed filt rs"
proof -
  obtain l where "listed deployed filt (rs @ rest) = listed deployed filt rs @ l" using listed_append_prefix by blast
  with assms show ?thesis by (cases "length (listed deployed filt rs) < k") auto
qed

lemma active_page_cases:
  assumes dep: "deployment env root deployed" and srv: "serves env root multifactor created_at_from srv"
    and st: "scan_of deployed filt before st" "length (as_sessions st) < ACTIVE_SESSIONS_CHUNK_SIZE"
  shows "\<exists>st' w' n. n \<le> length (pg_records (srv (as_before st))) \<and>
           scan_of deployed filt (before @ take n (pg_records (srv (as_before st)))) st' \<and>
           length (as_sessions st') \<le> ACTIVE_SESSIONS_CHUNK_SIZE \<and>
           (length (as_sessions st') < ACTIVE_SESSIONS_CHUNK_SIZE \<longrightarrow> n = length (pg_records (srv (as_before st)))) \<and>
           (active_page env root multifactor created_at_from filt st w = Inl (Inr st', w') \<and> last_page srv (as_before st) \<or>
            active_page env root multifactor created_at_from filt st w = Inr (st', w') \<and>
            (\<exists>c. pg_oldest_cursor (srv (as_before st)) = Some c \<and> as_before st \<noteq> Some c \<and> as_before st' = Some c \<and>
                 ACTIVE_SESSIONS_CHUNK_SIZE \<le> length (pg_records (srv (as_before st)))))"
proof -
  let ?page = "srv (as_before st)"
  obtain w1 where q: "ce_query_profiles env root multifactor created_at_from ACTIVE_SESSIONS_CHUNK_SIZE (as_before st) w = (Inr ?page, w1)"
    using srv unfolding serves_def by blast
  show ?thesis
  proof (cases "pg_records ?page = []")
    case True
    with q st show ?thesis
      by (intro exI [of _ st] exI [of _ w1] exI [of _ 0]) (simp add: active_page_def last_page_def)
  next
    case False
    obtain st1 w2 n where r: "active_records env root filt (pg_records ?page) st w1 = (st1, w2)" "n \<le> length (pg_records ?page)"
      "scan_of deployed filt (before @ take n (pg_records ?page)) st1" "same_cursor st st1"
      "length (as_sessions st1) \<le> ACTIVE_SESSIONS_CHUNK_SIZE"
      "length (as_sessions st1) < ACTIVE_SESSIONS_CHUNK_SIZE \<longrightarrow> n = length (pg_records ?page)"
      using active_records_scan [OF dep st] by blast
    obtain rest st2 where a: "active_advance ?page st1 = (rest, st2)" by fastforce
    then have keep: "scan_of deployed filt (before @ take n (pg_records ?page)) st2" "as_sessions st2 = as_sessions st1"
      using r(3) by (auto simp: active_advance_def scan_of_def split: option.splits if_splits)
    have "active_page env root multifactor created_at_from filt st w = (if rest then Inr (st2, w2) else Inl (Inr st2, w2))"
      using q False st(2) r(1) a by (simp add: active_page_def)
    moreover have "rest \<Longrightarrow> \<exists>c. pg_oldest_cursor ?page = Some c \<and> as_before st \<noteq> Some c \<and> as_before st2 = Some c \<and>
        ACTIVE_SESSIONS_CHUNK_SIZE \<le> length (pg_records ?page)"
      using a r(4) by (auto simp: active_advance_def same_cursor_def split: option.splits if_splits)
    moreover have "\<not> rest \<Longrightarrow> last_page srv (as_before st)"
      using a r(4) by (auto simp: active_advance_def same_cursor_def last_page_def split: option.splits if_splits)
    ultimately show ?thesis
      using r keep by (intro exI [of _ st2] exI [of _ w2] exI [of _ n]) auto
  qed
qed

lemma active_pages_scan:
  assumes dep: "deployment env root deployed" and srv: "serves env root multifactor created_at_from srv"
    and prog: "progresses srv rank"
    and "scan_of deployed filt before st" "length (as_sessions st) \<le> ACTIVE_SESSIONS_CHUNK_SIZE"
  shows "\<exists>st' w' pages. active_pages env root multifactor created_at_from filt st w = Some (Inr st', w') \<and>
           page_chain srv (as_before st) pages \<and>
           as_sessions st' = take ACTIVE_SESSIONS_CHUNK_SIZE (listed deployed filt (before @ concat (map pg_records pages))) \<and>
           (ACTIVE_SESSIONS_CHUNK_SIZE \<le> length (as_sessions st') \<or> all_pages srv (as_before st) pages)"
  using assms(4,5)
proof (induction "rank (as_before st)" arbitrary: st before w rule: less_induct)
  case less
  show ?case
  proof (cases "length (as_sessions st) < ACTIVE_SESSIONS_CHUNK_SIZE")
    case False
    then have "active_pages env root multifactor created_at_from filt st w = Some (Inr st, w)"
      by (subst active_pages.simps) (simp add: active_page_def)
    with less.prems False show ?thesis by (intro exI [of _ st] exI [of _ w] exI [of _ "[]"]) (auto simp: scan_of_def)
  next
    case True
    let ?page = "srv (as_before st)"
    let ?n = "ACTIVE_SESSIONS_CHUNK_SIZE"
    from active_page_cases [OF dep srv less.prems(1) True, of w] obtain st1 w1 n where p: "n \<le> length (pg_records ?page)"
      "scan_of deployed filt (before @ take n (pg_records ?page)) st1" "length (as_sessions st1) \<le> ?n"
      "length (as_sessions st1) < ?n \<longrightarrow> n = length (pg_records ?page)"
      "active_page env root multifactor created_at_from filt st w = Inl (Inr st1, w1) \<and> last_page srv (as_before st) \<or>
       active_page env root multifactor created_at_from filt st w = Inr (st1, w1) \<and>
            (\<exists>c. pg_oldest_cursor ?page = Some c \<and> as_before st \<noteq> Some c \<and> as_before st1 = Some c \<and> ?n \<le> length (pg_records ?page))"
      by blast
    have sessions: "as_sessions st1 = listed deployed filt (before @ take n (pg_records ?page))"
      using p(2) by (simp add: scan_of_def)
    have full: "take ?n (listed deployed filt (before @ pg_records ?page @ rest)) = as_sessions st1"
      if "length (as_sessions st1) < ?n \<longrightarrow> rest = []" for rest
    proof -
      have "before @ pg_records ?page @ rest = (before @ take n (pg_records ?page)) @ (drop n (pg_records ?page) @ rest)"
        by (metis append_assoc append_take_drop_id)
      moreover have "length (as_sessions st1) < ?n \<longrightarrow> drop n (pg_records ?page) @ rest = []" using that p(4) by auto
      ultimately show ?thesis using take_listed p(3) unfolding sessions by metis
    qed
    from p(5) show ?thesis
    proof
      assume a: "active_page env root multifactor created_at_from filt st w = Inl (Inr st1, w1) \<and> last_page srv (as_before st)"
      then have "active_pages env root multifactor created_at_from filt st w = Some (Inr st1, w1)"
        by (subst active_pages.simps) simp
      with a full [of "[]"] show ?thesis by (intro exI [of _ st1] exI [of _ w1] exI [of _ "[?page]"]) simp
    next
      assume a: "active_page env root multifactor created_at_from filt st w = Inr (st1, w1) \<and>
            (\<exists>c. pg_oldest_cursor ?page = Some c \<and> as_before st \<noteq> Some c \<and> as_before st1 = Some c \<and> ?n \<le> length (pg_records ?page))"
      then have unfold: "active_pages env root multifactor created_at_from filt st w
          = active_pages env root multifactor created_at_from filt st1 w1"
        by (subst active_pages.simps) simp
      have "rank (as_before st1) < rank (as_before st)" using prog a unfolding progresses_def by metis
      from less.hyps [OF this p(2,3), of w1] obtain st' w' pages where i:
        "active_pages env root multifactor created_at_from filt st1 w1 = Some (Inr st', w')" "page_chain srv (as_before st1) pages"
        "as_sessions st' = take ?n (listed deployed filt ((before @ take n (pg_records ?page)) @ concat (map pg_records pages)))"
        "?n \<le> length (as_sessions st') \<or> all_pages srv (as_before st1) pages"
        by blast
      have "as_sessions st' = take ?n (listed deployed filt (before @ concat (map pg_records (?page # pages))))"
      proof (cases "length (as_sessions st1) < ?n")
        case True
        with p(4) i(3) show ?thesis by simp
      next
        case False
        then have "as_sessions st' = as_sessions st1"
          using i(3) take_listed p(3) unfolding sessions by metis
        also have "\<dots> = take ?n (listed deployed filt (before @ pg_records ?page @ concat (map pg_records pages)))"
          using full False by simp
        finally show ?thesis by simp
      qed
      moreover have "all_pages srv (as_before st1) pages \<Longrightarrow> all_pages srv (as_before st) (?page # pages)"
        using a by (cases pages) auto
      ultimately show ?thesis
        using i(1,2,4) unfold a by (intro exI [of _ st'] exI [of _ w'] exI [of _ "?page # pages"]) auto
    qed
  qed
qed


text \<open>
  A concrete server: \<open>page n\<close> holds ten records behind the cursor of the page; the last page is empty.
\<close>

definition toy_record :: "nat \<Rightarrow> profile_record" where
  "toy_record n = \<lparr> pr_profile = show_nat n, pr_description = (if n = 0 then ''other'' else CONNECT_DESCRIPTION_PREFIX),
                    pr_event_id = [], pr_created_at = 0 \<rparr>"

definition toy_server :: "string option \<Rightarrow> profiles_page" where
  "toy_server b =
     (if b = None then \<lparr> pg_records = map toy_record [0..<10], pg_oldest_cursor = Some ''a'' \<rparr>
      else if b = Some ''a'' then \<lparr> pg_records = map toy_record [10..<20], pg_oldest_cursor = Some ''b'' \<rparr>
      else \<lparr> pg_records = [], pg_oldest_cursor = None \<rparr>)"

definition toy_sessions_env :: "(toy_world, unit) connect_env" where
  "toy_sessions_env = toy_env\<lparr>ce_query_profiles := (\<lambda>_ _ _ _ b w. (Inr (toy_server b), w))\<rparr>"

definition toy_rank :: "string option \<Rightarrow> nat" where
  "toy_rank b = (if b = None then 2 else if b = Some ''a'' then 1 else 0)"

lemma toy_sessions_env_ok:
  "deployment toy_sessions_env () (\<lambda>_. True)" "serves toy_sessions_env () m f toy_server" "progresses toy_server toy_rank"
  by (auto simp: deployment_def serves_def progresses_def toy_sessions_env_def toy_server_def toy_rank_def)

lemma toy_sessions_root: "root_with_endpoints toy_sessions_env endpoints token = Inr ()"
  by (simp add: root_with_endpoints_def toy_sessions_env_def)


section \<open>Records that are passed over\<close>

lemma active_records_full:
  assumes "active_records env root filt rs st w = (st1, w1)" "length (as_sessions st) < ACTIVE_SESSIONS_CHUNK_SIZE"
    and "ACTIVE_SESSIONS_CHUNK_SIZE \<le> length (as_sessions st1)"
  shows "active_records env root filt (rs @ rest) st w = (st1, w1)"
  using assms(1,2)
proof (induction rs arbitrary: st w)
  case Nil
  with assms(3) show ?case by simp
next
  case (Cons r rs)
  obtain d st2 w2 where c: "cached_is_deployed env root (pr_profile r) st w = (d, st2, w2)" by (metis prod_cases3)
  have len: "as_sessions st2 = as_sessions st"
    using c by (auto simp: cached_is_deployed_def split: option.splits prod.splits)
  show ?case
    using Cons.prems Cons.IH c len by (cases d) (auto simp: Let_def not_le split: if_splits)
qed

text \<open>
  Further property.  When the list of sessions fills up in the middle of a page, the scan leaves the rest of the
  page out, and the cursor it returns is the one behind the whole page: the sessions of the records
  in between are neither returned nor found by a query from that cursor on.
\<close>

theorem active_sessions_skip_rest_of_page:
  assumes "ce_query_profiles env root multifactor created_at_from ACTIVE_SESSIONS_CHUNK_SIZE (as_before st) w = (Inr page, w1)"
    and "pg_records page = rs @ rest" "rs \<noteq> []" "pg_oldest_cursor page = Some cursor" "as_before st \<noteq> Some cursor"
    and "length (as_sessions st) < ACTIVE_SESSIONS_CHUNK_SIZE"
    and "active_records env root filt rs st w1 = (st1, w2)" "ACTIVE_SESSIONS_CHUNK_SIZE \<le> length (as_sessions st1)"
    and "as_before st1 = as_before st"
  shows "\<exists>st2. active_pages env root multifactor created_at_from filt st w = Some (Inr st2, w2) \<and>
           as_sessions st2 = as_sessions st1 \<and> as_next_before st2 = Some cursor"
proof -
  let ?st2 = "st1\<lparr>as_next_before := Some cursor, as_before := Some cursor\<rparr>"
  have "active_page env root multifactor created_at_from filt st w =
      (if ACTIVE_SESSIONS_CHUNK_SIZE \<le> length (rs @ rest) then Inr (?st2, w2) else Inl (Inr ?st2, w2))"
    using assms active_records_full [OF assms(7,6,8)] by (simp add: active_page_def active_advance_def)
  moreover have "active_pages env root multifactor created_at_from filt ?st2 w2 = Some (Inr ?st2, w2)"
    using assms(8) by (subst active_pages.simps) (simp add: active_page_def)
  ultimately have "active_pages env root multifactor created_at_from filt st w = Some (Inr ?st2, w2)"
    by (subst active_pages.simps) simp
  then show ?thesis by (intro exI [of _ ?st2]) simp
qed

text \<open>
  On the concrete server a scan that stands before the second page with nine sessions takes the first
  record of the page and passes over the other nine.
\<close>

definition nine_sessions :: active_scan where
  "nine_sessions = (active_scan_start (Some ''a''))\<lparr>as_sessions := map session_of_record (map toy_record [1..<10])\<rparr>"

theorem active_sessions_skip_rest_of_page_witness:
  "\<exists>st2 w2. active_pages toy_sessions_env () ''m'' None None nine_sessions (0, []) = Some (Inr st2, w2) \<and>
     as_sessions st2 = map session_of_record (map toy_record [1..<11]) \<and> as_next_before st2 = Some ''b''"
proof -
  let ?st1 = "nine_sessions\<lparr>as_deployed := [show_nat 10 \<mapsto> True], as_has_deployed := True,
      as_seen := {active_session_uniqueness_key (session_of_record (toy_record 10))},
      as_sessions := map session_of_record (map toy_record [1..<11])\<rparr>"
  have q: "ce_query_profiles toy_sessions_env () ''m'' None ACTIVE_SESSIONS_CHUNK_SIZE (as_before nine_sessions) (0, [])
      = (Inr (toy_server (Some ''a'')), (0, []))"
    by (simp add: toy_sessions_env_def nine_sessions_def active_scan_start_def)
  have records: "pg_records (toy_server (Some ''a'')) = [toy_record 10] @ map toy_record [11..<20]"
    by (simp add: toy_server_def upt_conv_Cons)
  have "[1..<11] = [1..<10] @ [10 :: nat]" by (simp add: upt_conv_Cons)
  moreover have "is_connect_description CONNECT_DESCRIPTION_PREFIX"
    using strip_prefix_append [of CONNECT_DESCRIPTION_PREFIX "[]"] by (simp add: is_connect_description_def starts_with_def)
  ultimately have step: "active_records toy_sessions_env () None [toy_record 10] nine_sessions (0, []) = (?st1, (0, []))"
    by (simp add: toy_record_def cached_is_deployed_def toy_sessions_env_def
        nine_sessions_def active_scan_start_def push_unique_active_session_def Let_def del: upt_Suc)
  show ?thesis
    using active_sessions_skip_rest_of_page [OF q records _ _ _ _ step, of "''b''"]
    by (auto simp: toy_server_def nine_sessions_def active_scan_start_def ACTIVE_SESSIONS_CHUNK_SIZE_def)
qed

end
