(* ===== verification/Numerals.thy ===== *)
theory Numerals
  imports Errors
begin

text \<open>
  Decimal numerals as the Rust standard library reads them (\<open>str::parse\<close> at an unsigned or a signed
  integer type), shared by the wallet's services.  An error is its \<open>Display\<close> text.
\<close>

section \<open>Unsigned integers\<close>

definition is_digit :: "char \<Rightarrow> bool" where
  "is_digit c = (c \<in> set ''0123456789'')"

definition digit_val :: "char \<Rightarrow> nat" where
  "digit_val c = of_char c - 48"

text \<open>The digits are read from the left; each step checks the digit before the overflow.\<close>

fun parse_digits :: "nat \<Rightarrow> nat \<Rightarrow> string \<Rightarrow> nat result" where
  "parse_digits limit acc [] = Inr acc"
| "parse_digits limit acc (c # cs) =
     (if \<not> is_digit c then Inl ''invalid digit found in string''
      else if acc * 10 + digit_val c \<ge> limit then Inl ''number too large to fit in target type''
      else parse_digits limit (acc * 10 + digit_val c) cs)"

definition parse_nat :: "nat \<Rightarrow> string \<Rightarrow> nat result" where
  "parse_nat limit s =
     (if s = [] then Inl ''cannot parse integer from empty string''
      else if s = ''+'' then Inl ''invalid digit found in string''
      else parse_digits limit 0 (unwrap_or s (strip_prefix ''+'' s)))"

definition parse_u :: "string \<Rightarrow> 'a::len word result" where
  "parse_u s = and_then (parse_nat (2 ^ LENGTH('a)) s) (\<lambda>n. Inr (word_of_nat n))"

text \<open>\<open>From<ParseIntError>\<close>.\<close>

definition app_error_from_parse :: "string \<Rightarrow> AppError" where
  "app_error_from_parse message = with_kind ''parse'' (app_error_new message)"

lemma parse_digits_eq_Inr:
  assumes "acc < limit"
  shows "parse_digits limit acc s = Inr n \<longleftrightarrow>
         list_all is_digit s \<and> n = foldl (\<lambda>a c. a * 10 + (of_char c - 48)) acc s \<and> n < limit"
  using assms
proof (induction s arbitrary: acc)
  case (Cons c s)
  let ?f = "\<lambda>a c. a * 10 + (of_char c - 48) :: nat"
  have mono: "b \<le> foldl ?f b s" for b
  proof (induction s arbitrary: b)
    case (Cons d s)
    have "b \<le> ?f b d" by simp
    also have "\<dots> \<le> foldl ?f (?f b d) s" by (rule Cons)
    finally show ?case by simp
  qed simp
  show ?case
  proof (cases "?f acc c < limit")
    case True
    with Cons.IH [OF True] show ?thesis by (auto simp: digit_val_def)
  next
    case False
    with mono [of "?f acc c"] show ?thesis by (auto simp: digit_val_def)
  qed
qed auto

lemma digits_no_sign:
  assumes "list_all is_digit s"
  shows "strip_prefix ''+'' s = None"
  using assms by (cases s) (auto simp: is_digit_def)

lemma parse_nat_eq_Inr:
  assumes "0 < limit"
  shows "parse_nat limit s = Inr n \<longleftrightarrow>
         (\<exists>t. t \<noteq> [] \<and> list_all is_digit t \<and> (s = t \<or> s = ''+'' @ t) \<and> n = read_dec t \<and> n < limit)"
proof -
  have plus: "\<not> is_digit (CHR ''+'')" by (simp add: is_digit_def)
  show ?thesis
  proof (cases "strip_prefix ''+'' s")
    case None
    then have "s \<noteq> CHR ''+'' # t" for t by (auto simp: str_simps)
    with None show ?thesis
      by (auto simp: parse_nat_def parse_digits_eq_Inr [OF assms] read_dec_def)
  next
    case (Some t)
    then have s: "s = CHR ''+'' # t" by (simp add: str_simps)
    with Some plus show ?thesis
      by (auto simp: parse_nat_def parse_digits_eq_Inr [OF assms] read_dec_def)
  qed
qed

lemma show_nat_all_digits: "list_all is_digit (show_nat n)"
  unfolding list_all_iff is_digit_def using show_nat_digits [of n] by blast

lemma parse_nat_show [simp]:
  assumes "n < limit"
  shows "parse_nat limit (show_nat n) = Inr n"
proof -
  have "\<exists>t. t \<noteq> [] \<and> list_all is_digit t \<and> (show_nat n = t \<or> show_nat n = ''+'' @ t) \<and> n = read_dec t \<and> n < limit"
    using assms show_nat_all_digits [of n] read_dec_show_nat [of n] show_nat_nonempty [of n] by metis
  with assms show ?thesis by (subst parse_nat_eq_Inr) auto
qed

lemma parse_u_show [simp]: "parse_u (show_u w) = Inr w"
  by (simp add: parse_u_def show_u_def unat_bound)

lemma parse_u_eq_Inr:
  "parse_u s = Inr (w :: 'a::len word) \<longleftrightarrow>
     (\<exists>t. t \<noteq> [] \<and> list_all is_digit t \<and> (s = t \<or> s = ''+'' @ t) \<and> read_dec t = unat w)"
proof -
  have "parse_u s = Inr w \<longleftrightarrow> parse_nat (2 ^ LENGTH('a)) s = Inr (unat w)"
  proof (cases "parse_nat (2 ^ LENGTH('a)) s")
    case (Inr n)
    then have "n < 2 ^ LENGTH('a)" by (auto simp: parse_nat_eq_Inr)
    with Inr show ?thesis by (auto simp: parse_u_def word_unat_eq_iff unat_of_nat)
  qed (simp add: parse_u_def)
  then show ?thesis using unat_bound [of w] by (auto simp: parse_nat_eq_Inr)
qed

section \<open>Signed integers\<close>

text \<open>
  At a signed type a leading minus counts downwards, with the lower bound of the type as the limit.
\<close>

fun parse_digits_neg :: "nat \<Rightarrow> nat \<Rightarrow> string \<Rightarrow> nat result" where
  "parse_digits_neg limit acc [] = Inr acc"
| "parse_digits_neg limit acc (c # cs) =
     (if \<not> is_digit c then Inl ''invalid digit found in string''
      else if acc * 10 + digit_val c > limit then Inl ''number too small to fit in target type''
      else parse_digits_neg limit (acc * 10 + digit_val c) cs)"

definition parse_int :: "nat \<Rightarrow> string \<Rightarrow> int result" where
  "parse_int half s =
     (if s = [] then Inl ''cannot parse integer from empty string''
      else if s = ''+'' \<or> s = ''-'' then Inl ''invalid digit found in string''
      else case strip_prefix ''-'' s of
             Some t \<Rightarrow> and_then (parse_digits_neg half 0 t) (\<lambda>n. Inr (- int n))
           | None \<Rightarrow> and_then (parse_digits half 0 (unwrap_or s (strip_prefix ''+'' s))) (\<lambda>n. Inr (int n)))"

lemma parse_int_show [simp]:
  assumes "n < half"
  shows "parse_int half (show_nat n) = Inr (int n)"
proof -
  have "strip_prefix ''-'' (show_nat n) = None"
    using show_nat_all_digits [of n] by (cases "show_nat n") (auto simp: is_digit_def)
  moreover have "show_nat n \<noteq> ''+''" "show_nat n \<noteq> ''-''"
    using show_nat_all_digits [of n] by (auto simp: is_digit_def)
  moreover have "parse_digits half 0 (show_nat n) = Inr n"
    using assms show_nat_all_digits [of n]
    by (simp add: parse_digits_eq_Inr read_dec_def [symmetric] str_simps)
  ultimately show ?thesis by (simp add: parse_int_def digits_no_sign [OF show_nat_all_digits])
qed

end
