(* ===== verification/Accounts.thy ===== *)
theory Accounts
  imports Numerals
begin

text \<open>
  Reading a multifactor account (\<open>bee_wallet/src/services/multifactor/query.rs\<close>) and the addressing
  helpers of \<open>bee_wallet/src/dapp.rs\<close>.  The contract kit is \<open>account_env\<close>: a contract object is given by
  its address, and the kit's struct \<open>JwkData\<close>, which is only passed on, is kept as a JSON value.
\<close>

section \<open>Account data\<close>

record AccountData =
  acc_candidate :: "(string \<times> string) list option"
  acc_factors_len :: string
  acc_factors_by_timestamp :: "(string \<times> string) list"
  acc_force_remove_oldest :: bool
  acc_index_mod_4 :: string
  acc_iss_base_64 :: string
  acc_jwk_modulus_data :: "(string \<times> json) list"
  acc_jwk_modulus_data_len :: string
  acc_m_security_cards_len :: string
  acc_m_transactions_len :: string
  acc_max_cleanup_txns :: string
  acc_min_value :: string
  acc_name :: string
  acc_owner_pubkey :: string
  acc_pub_recovery_key :: string
  acc_root :: string
  acc_use_security_card :: bool
  acc_zkid :: string
  acc_jwk_update_key :: string
  acc_wasm_hash :: string
  acc_white_list :: "(string \<times> bool) list"

record ResultOfGetMultifactorDetails =
  gd_address :: string
  gd_data :: AccountData

text \<open>
  \<open>get_indexer\<close> gives the address of the indexer contract of a name, \<open>get_details\<close> of the indexer the
  address of the multifactor or an error, with whether its code is \<open>AccountIsNotActive\<close>.
\<close>

record 'w account_env =
  ac_is_deployed :: "string \<Rightarrow> 'w \<Rightarrow> bool \<times> 'w"
  ac_data :: "string \<Rightarrow> 'w \<Rightarrow> string option \<times> 'w"
  ac_decode :: "string \<Rightarrow> AppError + AccountData"
  ac_get_indexer :: "string \<Rightarrow> ('w, AppError, string) io"
  ac_indexer_details :: "string \<Rightarrow> ('w, bool \<times> AppError, string) io"

definition get_multifactor_decoded_data :: "'w account_env \<Rightarrow> string \<Rightarrow> ('w, AppError, AccountData) io" where
  "get_multifactor_decoded_data env address w =
     (case ac_is_deployed env address w of (deployed, w1) \<Rightarrow>
        if \<not> deployed then (Inl (app_error_new (''account '' @ address @ '' is not deployed'')), w1)
        else case ac_data env address w1 of
          (None, w2) \<Rightarrow> (Inl (app_error_new (''account data '' @ address @ '' not found'')), w2)
        | (Some data, w2) \<Rightarrow>
            (map_err (with_context (''failed to decode account data for '' @ address)) (ac_decode env data), w2))"

definition get_multifactor_decoded_data_by_name ::
  "'w account_env \<Rightarrow> string \<Rightarrow> ('w, AppError, ResultOfGetMultifactorDetails option) io" where
  "get_multifactor_decoded_data_by_name env wallet_name =
     io_then (io_map_err (with_context ''failed to get_indexer_address'') (ac_get_indexer env wallet_name)) (\<lambda>indexer.
     io_then (io_map_err (with_context ''failed to get_indexer_details'' \<circ> snd) (ac_indexer_details env indexer)) (\<lambda>address.
     io_then (io_map_err (with_context ''failed to get decoded data'') (get_multifactor_decoded_data env address)) (\<lambda>acc_data.
     io_lift (Inr (Some \<lparr> gd_address = address, gd_data = acc_data \<rparr>)))))"

record ResultOfCheckNameAvailability =
  na_is_available :: bool
  na_multifactor_address :: "string option"

definition check_name_availability ::
  "'w account_env \<Rightarrow> string \<Rightarrow> ('w, AppError, ResultOfCheckNameAvailability) io" where
  "check_name_availability env wallet_name =
     io_then (io_map_err (with_context ''failed to get_indexer_address'') (ac_get_indexer env wallet_name)) (\<lambda>indexer w.
       case ac_indexer_details env indexer w of
         (Inr address, w1) \<Rightarrow> (Inr \<lparr> na_is_available = False, na_multifactor_address = Some address \<rparr>, w1)
       | (Inl (not_active, e), w1) \<Rightarrow>
           if not_active then (Inr \<lparr> na_is_available = True, na_multifactor_address = None \<rparr>, w1)
           else (Inl (with_context ''failed to get_indexer_details'' e), w1))"

section \<open>Addresses\<close>

text \<open>\<open>rsplit_once(':')\<close>: what follows the last colon, or the whole text without one.\<close>

definition account_id :: "string \<Rightarrow> string" where
  "account_id address = last (split_on (CHR '':'') address)"

text \<open>\<open>replacen(pat, rep, 1)\<close>.\<close>

fun replace_first :: "string \<Rightarrow> string \<Rightarrow> string \<Rightarrow> string" where
  "replace_first pat rep [] = []"
| "replace_first pat rep (c # cs) =
     (case strip_prefix pat (c # cs) of Some t \<Rightarrow> rep @ t | None \<Rightarrow> c # replace_first pat rep cs)"

lemma account_id_raw [simp]: "CHR '':'' \<notin> set account \<Longrightarrow> account_id (''0:'' @ account) = account"
  by (simp add: account_id_def split_on_no_sep)

section \<open>First occurrences\<close>

text \<open>
  The idiom \<open>filter(|x| seen.insert(key(x)))\<close> over a \<open>HashSet\<close>: it keeps the first element of every
  key that is not in the set, and leaves the set with all keys.
\<close>

fun keep_new :: "('a \<Rightarrow> 'k) \<Rightarrow> 'k set \<Rightarrow> 'a list \<Rightarrow> 'a list" where
  "keep_new key seen [] = []"
| "keep_new key seen (x # xs) =
     (if key x \<in> seen then keep_new key seen xs else x # keep_new key (insert (key x) seen) xs)"

lemma keep_new_subset: "set (keep_new key seen xs) \<subseteq> set xs"
  by (induction key seen xs rule: keep_new.induct) auto

lemma keep_new_keys: "key ` set (keep_new key seen xs) = key ` set xs - seen"
  by (induction key seen xs rule: keep_new.induct) auto

lemma keep_new_distinct: "distinct (map key (keep_new key seen xs))"
proof (induction key seen xs rule: keep_new.induct)
  case (2 key seen x xs)
  have "key x \<notin> key ` set (keep_new key (insert (key x) seen) xs)"
    by (simp only: keep_new_keys) simp
  with 2 show ?case by auto
qed simp

lemma keep_new_all:
  "distinct (map key xs) \<Longrightarrow> key ` set xs \<inter> seen = {} \<Longrightarrow> keep_new key seen xs = xs"
  by (induction key seen xs rule: keep_new.induct) auto

end
