(* ===== verification/History.thy ===== *)
theory History
  imports Accounts
begin

text \<open>
  \<open>bee_wallet/src/services/transaction/history.rs\<close>: the paged transaction history of an account, put
  together from the account's messages and its mining rewards, each read from a recent (hot) and an
  optional archive endpoint.

  The GraphQL client, the deserialisers of its answers, the contract of the game and the scheduling
  of concurrent tasks are the fields of \<open>history_env\<close>; \<open>'c\<close> is a client context.  The two query texts
  are the constructors of \<open>gql_text\<close>, and the wrapper structs of an answer (\<open>data\<close>, \<open>blockchain\<close>,
  \<open>account\<close>, \<open>edges\<close>, \<open>node\<close>) are left out.
\<close>

section \<open>Data\<close>

definition GAME_ROOT_ADDRESS :: string where
  "GAME_ROOT_ADDRESS = ''0:'' @ concat (replicate 32 ''05'')"
definition NACKL_CURRENCY_ID :: u32 where "NACKL_CURRENCY_ID = 1"

definition KNOWN_ADDRESSES :: "(string \<times> string) list" where
  "KNOWN_ADDRESSES =
     [(''0:'' @ concat (replicate 32 ''11''), ''Giver''), (''0:'' @ concat (replicate 32 ''10''), ''DEX''),
      (''0:'' @ concat (replicate 32 ''15''), ''DEX Oracle''), (''0:'' @ concat (replicate 32 ''1a''), ''Exchange''),
      (''0:'' @ concat (replicate 32 ''35''), ''Accumulator'')]"

definition known_name :: "string \<Rightarrow> string option" where
  "known_name address = map_of KNOWN_ADDRESSES address"

definition ARCHIVE_CURSOR_PREFIX :: string where "ARCHIVE_CURSOR_PREFIX = ''a:''"

datatype CursorSource = Hot "string option" | Archive "string option"

definition decode_cursor :: "string option \<Rightarrow> CursorSource" where
  "decode_cursor cursor =
     (case cursor of
        None \<Rightarrow> Hot None
      | Some c \<Rightarrow> (case strip_prefix ARCHIVE_CURSOR_PREFIX c of
                    Some inner \<Rightarrow> Archive (if inner = [] then None else Some inner)
                  | None \<Rightarrow> Hot (Some c)))"

definition encode_archive_cursor :: "string option \<Rightarrow> string option" where
  "encode_archive_cursor cursor = Some (ARCHIVE_CURSOR_PREFIX @ unwrap_or [] cursor)"

definition MAX_AUTO_FETCH_PAGES :: nat where "MAX_AUTO_FETCH_PAGES = 10"
definition ARCHIVE_FETCH_TIMEOUT :: nat where "ARCHIVE_FETCH_TIMEOUT = 5000"
definition ARCHIVE_PROBE_TIMEOUT :: nat where "ARCHIVE_PROBE_TIMEOUT = 2000"
definition ARCHIVE_PROBE_PAGE_SIZE :: u32 where "ARCHIVE_PROBE_PAGE_SIZE = 1"

record ParamsOfGetHistory =
  ph_multifactor_address :: string
  ph_token_id :: string
  ph_page_size :: u32
  ph_cursor :: "string option"
  ph_mining_cursor :: "string option"

datatype TxType = TxMining | TxIncoming | TxOutgoing

record TxData =
  td_id :: string
  td_tx_type :: TxType
  td_created_at :: u64
  td_value :: u128
  td_src_name :: "string option"

record ResultOfGetHistory =
  hr_data :: "TxData list"
  hr_next_cursor :: "string option"
  hr_next_mining_cursor :: "string option"
  hr_has_next_page :: bool

datatype TokenKind = Ecc u32 | Tip3 string

definition parse_token_id :: "string \<Rightarrow> TokenKind result" where
  "parse_token_id token_id = (case parse_u token_id of Inr currency_id \<Rightarrow> Inr (Ecc currency_id) | Inl _ \<Rightarrow> Inr (Tip3 token_id))"

record ValueOther =
  vo_currency :: u32
  vo_value :: string

record EccMsg =
  em_id :: string
  em_src :: string
  em_dst :: string
  em_created_at :: u64
  em_value_other :: "ValueOther list"

record GqlPageInfo =
  gp_start_cursor :: "string option"
  gp_has_previous_page :: bool

record GqlEventNode =
  gn_msg_id :: string
  gn_created_at :: u64
  gn_dst :: string
  gn_body :: string

datatype gql_text = GQL_ECC_QUERY | GQL_MINING_EVENTS_QUERY

type_synonym page = "EccMsg list \<times> string option \<times> bool"

record ('w, 'c) history_env =
  he_query :: "'c \<Rightarrow> gql_text \<Rightarrow> json \<Rightarrow> ('w, ClientError, json) io"
  he_error_value :: "ClientError \<Rightarrow> json result"
  he_messages_from_value :: "json \<Rightarrow> (EccMsg list \<times> GqlPageInfo) result"
  he_events_from_value :: "json \<Rightarrow> (GqlEventNode list \<times> GqlPageInfo) result"
  he_decode_reward :: "'c \<Rightarrow> GqlEventNode \<Rightarrow> (string option) result"
  he_get_popitgame :: "'c \<Rightarrow> string \<Rightarrow> ('w, AppError, string) io"
  he_dapp_id :: string
  he_timed_out :: "nat \<Rightarrow> 'w \<Rightarrow> 'w \<Rightarrow> 'w option"
  he_accounts :: "'c \<Rightarrow> 'w account_env"
  he_join_next :: "string list \<Rightarrow> 'w \<Rightarrow> (nat \<times> string option) \<times> 'w"

section \<open>Queries\<close>

definition opt_str :: "string option \<Rightarrow> json" where
  "opt_str s = (case s of None \<Rightarrow> JNull | Some t \<Rightarrow> JStr t)"

definition execute_gql_query ::
  "('w, 'c) history_env \<Rightarrow> 'c \<Rightarrow> string \<Rightarrow> u32 \<Rightarrow> string option \<Rightarrow> ('w, AppError, EccMsg list \<times> GqlPageInfo) io" where
  "execute_gql_query env client address page_size cursor =
     (let variables = JObj [(''account_id'', JStr (account_id address)), (''dapp_id'', JStr (he_dapp_id env)),
                            (''last'', JNum (ucast page_size)), (''before'', opt_str cursor)]
      in io_then (io_map_err (\<lambda>e. with_context ''GraphQL query failed'' (app_error_from_client (he_error_value env) e))
                    (he_query env client GQL_ECC_QUERY variables)) (\<lambda>result.
         io_lift (map_err (\<lambda>e. with_context ''Parse GQL response'' (app_error_from_json e))
                    (he_messages_from_value env result))))"

text \<open>An event that does not decode as a reward is dropped.\<close>

definition msg_of_event :: "('w, 'c) history_env \<Rightarrow> 'c \<Rightarrow> string \<Rightarrow> u32 \<Rightarrow> GqlEventNode \<Rightarrow> EccMsg option" where
  "msg_of_event env client popitgame_address currency_id node =
     (case he_decode_reward env client node of
        Inr (Some reward) \<Rightarrow>
          Some \<lparr> em_id = gn_msg_id node, em_src = GAME_ROOT_ADDRESS, em_dst = popitgame_address,
                 em_created_at = gn_created_at node,
                 em_value_other = [\<lparr> vo_currency = currency_id, vo_value = reward \<rparr>] \<rparr>
      | _ \<Rightarrow> None)"

definition execute_mining_events_query ::
  "('w, 'c) history_env \<Rightarrow> 'c \<Rightarrow> string \<Rightarrow> u32 \<Rightarrow> u32 \<Rightarrow> string option \<Rightarrow>
   ('w, AppError, EccMsg list \<times> GqlPageInfo) io" where
  "execute_mining_events_query env client popitgame_address currency_id page_size cursor =
     (let popitgame_ext_dst = replace_first ''0:'' '':'' popitgame_address;
          variables = JObj [(''account_id'', JStr (account_id GAME_ROOT_ADDRESS)), (''dapp_id'', JStr (he_dapp_id env)),
                            (''dst'', JStr popitgame_ext_dst), (''last'', JNum (ucast page_size)), (''before'', opt_str cursor)]
      in io_then (io_map_err (\<lambda>e. with_context ''Mining events GraphQL query failed''
                                   (app_error_from_client (he_error_value env) e))
                    (he_query env client GQL_MINING_EVENTS_QUERY variables)) (\<lambda>result.
         io_then (io_lift (map_err (\<lambda>e. with_context ''Parse mining events GQL response'' (app_error_from_json e))
                    (he_events_from_value env result))) (\<lambda>(nodes, page_info).
         io_lift (Inr (List.map_filter (msg_of_event env client popitgame_address currency_id) nodes, page_info)))))"

section \<open>Pages\<close>

text \<open>The body of the loop over at most \<open>MAX_AUTO_FETCH_PAGES\<close> pages, with \<open>n\<close> rounds left.\<close>

definition has_currency :: "u32 \<Rightarrow> EccMsg \<Rightarrow> bool" where
  "has_currency currency_id m = list_ex (\<lambda>vo. vo_currency vo = currency_id) (em_value_other m)"

fun auto_fetch ::
  "('w, 'c) history_env \<Rightarrow> 'c \<Rightarrow> string \<Rightarrow> u32 \<Rightarrow> u32 \<Rightarrow> nat \<Rightarrow> string option \<Rightarrow> page \<Rightarrow> ('w, AppError, page) io" where
  "auto_fetch env client address currency_id page_size 0 current_cursor st w = (Inr st, w)"
| "auto_fetch env client address currency_id page_size (Suc n) current_cursor st w =
     (case execute_gql_query env client address page_size current_cursor w of
        (Inl e, w1) \<Rightarrow> (Inl e, w1)
      | (Inr (msgs, page_info), w1) \<Rightarrow>
          let all_msgs = fst st @ filter (has_currency currency_id) msgs;
              next_cursor = gp_start_cursor page_info;
              has_more = gp_has_previous_page page_info
          in if all_msgs \<noteq> [] \<or> \<not> has_more then (Inr (all_msgs, next_cursor, has_more), w1)
             else auto_fetch env client address currency_id page_size n next_cursor (all_msgs, next_cursor, has_more) w1)"

definition fetch_ecc_with_auto_pagination ::
  "('w, 'c) history_env \<Rightarrow> string \<Rightarrow> u32 \<Rightarrow> 'c \<Rightarrow> u32 \<Rightarrow> string option \<Rightarrow> ('w, AppError, page) io" where
  "fetch_ecc_with_auto_pagination env address currency_id client page_size initial_cursor =
     auto_fetch env client address currency_id page_size MAX_AUTO_FETCH_PAGES initial_cursor ([], None, False)"

definition fetch_mining_with_auto_pagination ::
  "('w, 'c) history_env \<Rightarrow> string \<Rightarrow> u32 \<Rightarrow> 'c \<Rightarrow> u32 \<Rightarrow> string option \<Rightarrow> ('w, AppError, page) io" where
  "fetch_mining_with_auto_pagination env popitgame_address currency_id client page_size initial_cursor =
     io_then (execute_mining_events_query env client popitgame_address currency_id page_size initial_cursor)
       (\<lambda>(msgs, page_info). io_lift (Inr (msgs, gp_start_cursor page_info, gp_has_previous_page page_info)))"

text \<open>
  \<open>tokio::time::timeout\<close>: when the call did not finish in time, \<open>he_timed_out\<close> gives the world in which
  it was abandoned; the result is dropped then.
\<close>

definition archive_call_or_empty ::
  "('w, 'c) history_env \<Rightarrow> nat \<Rightarrow> ('w, AppError, page) io \<Rightarrow> 'w \<Rightarrow> page \<times> 'w" where
  "archive_call_or_empty env timeout fut w =
     (case fut w of (r, w1) \<Rightarrow>
        (case he_timed_out env timeout w w1 of
           Some w2 \<Rightarrow> (([], None, False), w2)
         | None \<Rightarrow> (case r of Inr p \<Rightarrow> (p, w1) | Inl _ \<Rightarrow> (([], None, False), w1))))"

text \<open>\<open>archive_ecc_has_data\<close> and \<open>archive_mining_has_data\<close>, which differ in the fetch only.\<close>

definition archive_has_data ::
  "('w, 'c) history_env \<Rightarrow> ('c \<Rightarrow> u32 \<Rightarrow> string option \<Rightarrow> ('w, AppError, page) io) \<Rightarrow> 'c \<Rightarrow> 'w \<Rightarrow> bool \<times> 'w" where
  "archive_has_data env fetch arc_client w =
     (case archive_call_or_empty env ARCHIVE_PROBE_TIMEOUT (fetch arc_client ARCHIVE_PROBE_PAGE_SIZE None) w of
        ((msgs, _, _), w1) \<Rightarrow> (msgs \<noteq> [], w1))"

definition archive_page ::
  "('w, 'c) history_env \<Rightarrow> ('c \<Rightarrow> u32 \<Rightarrow> string option \<Rightarrow> ('w, AppError, page) io) \<Rightarrow> 'c \<Rightarrow> u32 \<Rightarrow> string option \<Rightarrow>
   ('w, AppError, page) io" where
  "archive_page env fetch arc_client page_size cursor w =
     (case archive_call_or_empty env ARCHIVE_FETCH_TIMEOUT (fetch arc_client page_size cursor) w of
        ((msgs, next_cursor, has_next), w1) \<Rightarrow> (Inr (msgs, encode_archive_cursor next_cursor, has_next), w1))"

text \<open>One stream of the history: the messages and the mining rewards go through the same cases.\<close>

definition stream_page ::
  "('w, 'c) history_env \<Rightarrow> ('c \<Rightarrow> u32 \<Rightarrow> string option \<Rightarrow> ('w, AppError, page) io) \<Rightarrow> 'c \<Rightarrow> 'c option \<Rightarrow> u32 \<Rightarrow>
   CursorSource \<Rightarrow> ('w, AppError, page) io" where
  "stream_page env fetch hot archive page_size source =
     (case source of
        Hot cursor \<Rightarrow>
          io_then (fetch hot page_size cursor) (\<lambda>(msgs, next_cursor, has_next).
            if \<not> has_next \<and> msgs = [] then
              (case archive of
                 Some arc_client \<Rightarrow> archive_page env fetch arc_client page_size None
               | None \<Rightarrow> io_lift (Inr (msgs, next_cursor, has_next)))
            else if \<not> has_next then
              (case archive of
                 Some arc_client \<Rightarrow> (\<lambda>w. case archive_has_data env fetch arc_client w of
                   (found, w1) \<Rightarrow> (Inr (if found then (msgs, encode_archive_cursor None, True) else (msgs, None, False)), w1))
               | None \<Rightarrow> io_lift (Inr (msgs, None, False)))
            else io_lift (Inr (msgs, next_cursor, has_next)))
      | Archive cursor \<Rightarrow>
          (case archive of
             Some arc_client \<Rightarrow> archive_page env fetch arc_client page_size cursor
           | None \<Rightarrow> io_lift (Inr ([], None, False))))"

definition mining_stream ::
  "('w, 'c) history_env \<Rightarrow> string option \<Rightarrow> u32 \<Rightarrow> 'c \<Rightarrow> 'c option \<Rightarrow> u32 \<Rightarrow> CursorSource \<Rightarrow> ('w, AppError, page) io" where
  "mining_stream env popitgame_address currency_id hot archive page_size source =
     (case popitgame_address of
        Some addr \<Rightarrow> stream_page env (fetch_mining_with_auto_pagination env addr currency_id) hot archive page_size source
      | None \<Rightarrow> io_lift (Inr ([], None, False)))"

section \<open>Names of the counterparties\<close>

definition counterparty :: "string \<Rightarrow> EccMsg \<Rightarrow> string option" where
  "counterparty me e =
     (if em_src e = me then Some (em_dst e) else if em_dst e = me then Some (em_src e) else None)"

definition counterparties :: "string \<Rightarrow> EccMsg list \<Rightarrow> string list" where
  "counterparties me msgs =
     keep_new id {} (filter (\<lambda>a. known_name a = None) (filter (\<lambda>a. a \<noteq> me) (List.map_filter (counterparty me) msgs)))"

definition PAR :: nat where "PAR = 10"

text \<open>
  The loop over the \<open>JoinSet\<close>: \<open>running\<close> are the addresses of the spawned tasks and \<open>iter\<close> those still to
  be spawned.  \<open>he_join_next\<close> decides which task finishes next, and whether joining it fails; its
  reads of the chain take place then.
\<close>

lemma length_remove_nth: "n < length xs \<Longrightarrow> length (take n xs @ drop (Suc n) xs) = length xs - 1"
  by simp

lemma length_remove_spawned:
  assumes "running @ take k iter \<noteq> []"
  shows "length (take (i mod length (running @ take k iter)) (running @ take k iter) @
                 drop (Suc (i mod length (running @ take k iter))) (running @ take k iter)) +
         length (drop k iter) < length running + length iter"
proof -
  let ?r = "running @ take k iter"
  have pos: "0 < length ?r" using assms by (simp only: length_greater_0_conv not_False_eq_True)
  then have "i mod length ?r < length ?r" by (rule mod_less_divisor)
  moreover have "length ?r + length (drop k iter) = length running + length iter"
    by (simp add: min_def)
  ultimately show ?thesis using pos length_remove_nth [of "i mod length ?r" ?r] by linarith
qed

function resolve_names ::
  "('w, 'c) history_env \<Rightarrow> 'c \<Rightarrow> string list \<Rightarrow> string list \<Rightarrow> (string \<rightharpoonup> AccountData) \<Rightarrow>
   ('w, AppError, string \<rightharpoonup> AccountData) io" where
  "resolve_names env client running iter decoded_map w =
     (let k = PAR - length running;
          running = running @ take k iter;
          iter = drop k iter
      in if running = [] then (Inr decoded_map, w)
         else case he_join_next env running w of
           ((_, Some e), w1) \<Rightarrow> (Inl (with_context ''Join error'' (with_kind ''tokio'' (app_error_new e))), w1)
         | ((i, None), w1) \<Rightarrow>
             (let n = i mod length running; addr = running ! n
              in case get_multifactor_decoded_data (he_accounts env client) addr w1 of
                   (Inr decoded, w2) \<Rightarrow>
                     resolve_names env client (take n running @ drop (Suc n) running) iter (decoded_map(addr \<mapsto> decoded)) w2
                 | (Inl _, w2) \<Rightarrow>
                     resolve_names env client (take n running @ drop (Suc n) running) iter decoded_map w2))"
  by pat_completeness auto
termination
  by (relation "measure (\<lambda>(env, client, running, iter, m, w). length running + length iter)";
      (simp only: in_measure split_conv wf_measure)?; (rule length_remove_spawned)?)

declare resolve_names.simps [simp del]

section \<open>The history\<close>

definition message_value :: "string \<Rightarrow> u32 \<Rightarrow> EccMsg \<Rightarrow> AppError + u128" where
  "message_value what currency_id evt =
     and_then (ok_or (app_error_from_string (''No value_other for currency '' @ show_u currency_id @ '' in '' @ what @
                        ''message '' @ em_id evt))
                (List.find (\<lambda>vo. vo_currency vo = currency_id) (em_value_other evt))) (\<lambda>vo.
     map_err (\<lambda>e. with_context (''Failed to parse value '' @ [CHR 39] @ vo_value vo @ [CHR 39] @ '' in '' @
                                what @ ''msg '' @ em_id evt) (app_error_from_parse e))
       (parse_u (vo_value vo)))"

definition message_tx ::
  "string \<Rightarrow> u32 \<Rightarrow> (string \<rightharpoonup> AccountData) \<Rightarrow> EccMsg \<Rightarrow> AppError + TxData" where
  "message_tx me currency_id decoded_map evt =
     and_then (message_value [] currency_id evt) (\<lambda>val.
     and_then (if em_src evt = me then Inr TxOutgoing
               else if em_dst evt = me then Inr TxIncoming
               else Inl (app_error_new (''Event '' @ em_id evt @ '' is unrelated: src='' @ em_src evt @ '', dst='' @
                           em_dst evt @ '', expected addr='' @ me))) (\<lambda>tx_type.
     let addr = (if tx_type = TxOutgoing then em_dst evt else em_src evt);
         src_name = (case known_name addr of Some name \<Rightarrow> Some name | None \<Rightarrow> map_option acc_name (decoded_map addr))
     in Inr \<lparr> td_id = em_id evt, td_tx_type = tx_type, td_created_at = em_created_at evt, td_value = val,
              td_src_name = src_name \<rparr>))"

definition mining_tx :: "u32 \<Rightarrow> EccMsg \<Rightarrow> AppError + TxData" where
  "mining_tx currency_id evt =
     and_then (message_value ''mining '' currency_id evt) (\<lambda>val.
     Inr \<lparr> td_id = em_id evt, td_tx_type = TxMining, td_created_at = em_created_at evt, td_value = val,
           td_src_name = None \<rparr>)"

text \<open>\<open>sort_by_key(|b| Reverse(b.created_at))\<close>, which is stable.\<close>

definition newest_first :: "TxData list \<Rightarrow> TxData list" where
  "newest_first data = sort_key (\<lambda>t. - uint (td_created_at t)) data"

definition get_ecc_txs ::
  "('w, 'c) history_env \<Rightarrow> 'c \<Rightarrow> 'c option \<Rightarrow> ParamsOfGetHistory \<Rightarrow> ('w, AppError, ResultOfGetHistory) io" where
  "get_ecc_txs env hot archive params =
     (case parse_token_id (ph_token_id params) of
        Inr (Ecc currency_id) \<Rightarrow>
          (let me = ph_multifactor_address params; size = ph_page_size params
           in io_then (\<lambda>w. if currency_id = NACKL_CURRENCY_ID
                           then (case he_get_popitgame env hot me w of (r, w1) \<Rightarrow> (Inr (res_ok r), w1))
                           else (Inr None, w)) (\<lambda>popitgame_address.
              io_then (stream_page env (fetch_ecc_with_auto_pagination env me currency_id) hot archive size
                         (decode_cursor (ph_cursor params))) (\<lambda>(mf_msgs, mf_cursor, mf_has_next).
              io_then (mining_stream env popitgame_address currency_id hot archive size
                         (decode_cursor (ph_mining_cursor params))) (\<lambda>(pg_msgs, pg_cursor, pg_has_next).
              let mf_new = keep_new em_id {} mf_msgs;
                  pg_new = keep_new em_id (em_id ` set mf_msgs) pg_msgs
              in io_then (resolve_names env hot [] (counterparties me mf_new) Map.empty) (\<lambda>decoded_map.
                 io_lift (and_then (collect_res (message_tx me currency_id decoded_map) mf_new) (\<lambda>data.
                          and_then (collect_res (mining_tx currency_id) pg_new) (\<lambda>mining_data.
                          Inr \<lparr> hr_data = newest_first (data @ mining_data), hr_next_cursor = mf_cursor,
                                hr_next_mining_cursor = pg_cursor, hr_has_next_page = mf_has_next \<or> pg_has_next \<rparr>))))))))
      | _ \<Rightarrow> io_lift (Inl (app_error_new (''ECC history requires numeric token_id, got: '' @ ph_token_id params))))"

definition get_token_txs :: "ParamsOfGetHistory \<Rightarrow> ('w, AppError, ResultOfGetHistory) io" where
  "get_token_txs params =
     io_lift (Inr \<lparr> hr_data = [], hr_next_cursor = None, hr_next_mining_cursor = None, hr_has_next_page = False \<rparr>)"

definition get_history ::
  "('w, 'c) history_env \<Rightarrow> 'c \<Rightarrow> 'c option \<Rightarrow> ParamsOfGetHistory \<Rightarrow> ('w, AppError, ResultOfGetHistory) io" where
  "get_history env hot archive params =
     (case parse_token_id (ph_token_id params) of
        Inr (Ecc _) \<Rightarrow> get_ecc_txs env hot archive params
      | Inr (Tip3 _) \<Rightarrow> get_token_txs params
      | Inl e \<Rightarrow> io_lift (Inl (app_error_new e)))"

text \<open>\<open>HistoryModule::get_history\<close> of \<open>modules/history.rs\<close>, behind the wallet's rate limiter.\<close>

definition module_get_history ::
  "('w \<Rightarrow> 'w) \<Rightarrow> ('w, 'c) history_env \<Rightarrow> 'c \<Rightarrow> 'c option \<Rightarrow> ParamsOfGetHistory \<Rightarrow> ('w, AppError, ResultOfGetHistory) io" where
  "module_get_history wait_turn env hot archive params w =
     io_map_err (with_context ''Failed to get history'') (get_history env hot archive params) (wait_turn w)"

end
