(* ===== verification/HistoryPages.thy ===== *)
theory HistoryPages
  imports History
begin

text \<open>
  What the pages of the transaction history contain, and what a caller sees who follows the cursors
  from page to page.
\<close>

section \<open>One page\<close>

text \<open>The names found do not depend on the order in which the tasks finish.\<close>

definition stable_accounts :: "('w, 'c) history_env \<Rightarrow> 'c \<Rightarrow> (string \<Rightarrow> AppError + AccountData) \<Rightarrow> bool" where
  "stable_accounts env client res =
     (\<forall>addr w. fst (get_multifactor_decoded_data (he_accounts env client) addr w) = res addr)"

definition joins_succeed :: "('w, 'c) history_env \<Rightarrow> bool" where
  "joins_succeed env = (\<forall>running w. snd (fst (he_join_next env running w)) = None)"

definition add_decoded :: "(string \<Rightarrow> AppError + AccountData) \<Rightarrow> string set \<Rightarrow> (string \<rightharpoonup> AccountData) \<Rightarrow> (string \<rightharpoonup> AccountData)" where
  "add_decoded res addrs m = (\<lambda>a. if a \<in> addrs then (case res a of Inr d \<Rightarrow> Some d | Inl _ \<Rightarrow> m a) else m a)"

lemma add_decoded_empty [simp]: "add_decoded res {} m = m"
  by (simp add: add_decoded_def)

lemma add_decoded_insert:
  assumes "A = insert a B"
  shows "add_decoded res A m = add_decoded res B (case res a of Inr d \<Rightarrow> m(a \<mapsto> d) | Inl _ \<Rightarrow> m)"
  unfolding assms by (rule ext) (auto simp: add_decoded_def split: sum.splits)

lemma remove_nth_set: "n < length xs \<Longrightarrow> set xs = insert (xs ! n) (set (take n xs @ drop (Suc n) xs))"
  by (metis id_take_nth_drop list.simps(15) set_append Un_insert_right)

lemma resolve_names_step:
  assumes "k = PAR - length running" "R = running @ take k iter" "R \<noteq> []" "he_join_next env R w = ((i, None), w1)"
    and "n = i mod length R" "get_multifactor_decoded_data (he_accounts env client) (R ! n) w1 = (r, w2)"
  shows "resolve_names env client running iter m w =
         resolve_names env client (take n R @ drop (Suc n) R) (drop k iter)
           (case r of Inr d \<Rightarrow> m(R ! n \<mapsto> d) | Inl _ \<Rightarrow> m) w2"
  unfolding resolve_names.simps [of env client running iter m w] Let_def assms(1,2) [symmetric] assms(4)
    prod.case option.case assms(5) [symmetric] assms(6)
  using assms(3) by (simp split: sum.split)

lemma resolve_names_cases:
  assumes "joins_succeed env"
  obtains (finished) "running = []" "iter = []" "resolve_names env client running iter m w = (Inr m, w)"
  | (join) addr running' iter' r w1 w2 where
      "get_multifactor_decoded_data (he_accounts env client) addr w1 = (r, w2)"
      "set running \<union> set iter = insert addr (set running' \<union> set iter')"
      "length running' + length iter' < length running + length iter"
      "resolve_names env client running iter m w =
         resolve_names env client running' iter' (case r of Inr d \<Rightarrow> m(addr \<mapsto> d) | Inl _ \<Rightarrow> m) w2"
proof -
  let ?k = "PAR - length running"
  let ?r = "running @ take ?k iter"
  let ?i = "drop ?k iter"
  have all: "set running \<union> set iter = set ?r \<union> set ?i"
    by (metis append_take_drop_id set_append sup_assoc)
  show thesis
  proof (cases "?r = []")
    case True
    then have "running = []" "iter = []" by (auto simp: PAR_def)
    then show ?thesis
      by (intro finished) (simp_all add: resolve_names.simps [of env client "[]" "[]"] Let_def)
  next
    case False
    obtain i e w1 where pick: "he_join_next env ?r w = ((i, e), w1)" by (metis prod.exhaust)
    then have e: "e = None" using assms by (simp add: joins_succeed_def) (metis fst_conv snd_conv)
    let ?n = "i mod length ?r"
    have n: "?n < length ?r" using False by (intro mod_less_divisor) blast
    obtain r w2 where r: "get_multifactor_decoded_data (he_accounts env client) (?r ! ?n) w1 = (r, w2)"
      by (metis prod.exhaust)
    show ?thesis
      by (rule join [OF r _ length_remove_spawned [OF False]
            resolve_names_step [OF HOL.refl HOL.refl False pick [unfolded e] HOL.refl r, of m]])
        (use remove_nth_set [OF n] all in \<open>simp only: Un_insert_left\<close>)
  qed
qed

lemma resolve_names_total:
  assumes "joins_succeed env"
  shows "\<exists>m' w'. resolve_names env client running iter m w = (Inr m', w')"
proof (induction "length running + length iter" arbitrary: running iter m w rule: less_induct)
  case less
  show ?case using assms
  proof (cases rule: resolve_names_cases [where running = running and iter = iter and client = client and m = m and w = w])
    case (join addr running' iter' r w1 w2)
    with less.hyps [OF join(3)] show ?thesis by simp
  qed simp
qed

text \<open>
  The names that are found: whatever the scheduler does, and with at most \<open>PAR\<close> tasks at a time, every
  counterparty that decodes gets its data and nothing else is added.
\<close>

lemma resolve_names_result:
  assumes "stable_accounts env client res" "joins_succeed env"
  shows "fst (resolve_names env client running iter m w) = Inr (add_decoded res (set running \<union> set iter) m)"
proof (induction "length running + length iter" arbitrary: running iter m w rule: less_induct)
  case less
  show ?case using assms(2)
  proof (cases rule: resolve_names_cases [where running = running and iter = iter and client = client and m = m and w = w])
    case (join addr running' iter' r w1 w2)
    then have "r = res addr" using assms(1) by (metis stable_accounts_def fst_conv)
    with join less.hyps [OF join(3)] add_decoded_insert [OF join(2), of res m] show ?thesis by simp
  qed simp
qed

text \<open>A page of the history, once its two streams are fetched.\<close>

definition build_data ::
  "string \<Rightarrow> u32 \<Rightarrow> (string \<rightharpoonup> AccountData) \<Rightarrow> EccMsg list \<Rightarrow> EccMsg list \<Rightarrow> AppError + TxData list" where
  "build_data me currency_id names mf pg =
     and_then (collect_res (message_tx me currency_id names) (keep_new em_id {} mf)) (\<lambda>data.
     and_then (collect_res (mining_tx currency_id) (keep_new em_id (em_id ` set mf) pg)) (\<lambda>mining_data.
     Inr (newest_first (data @ mining_data))))"

lemma sorted_newest_first: "sorted (map (\<lambda>t. - uint (td_created_at t)) (newest_first data))"
  by (simp add: newest_first_def)

lemma set_newest_first [simp]: "set (newest_first data) = set data"
  by (simp add: newest_first_def)

lemma distinct_newest_first: "distinct (map f (newest_first data)) = distinct (map f data)"
  by (simp only: newest_first_def distinct_map distinct_sort set_sort)

lemma tx_ids:
  "message_tx me c names e = Inr t \<Longrightarrow> td_id t = em_id e"
  "mining_tx c e = Inr t \<Longrightarrow> td_id t = em_id e"
  by (auto simp: message_tx_def mining_tx_def Let_def res_simps)

lemma collect_res_map_eq:
  assumes "collect_res f xs = Inr ys" "\<And>x y. x \<in> set xs \<Longrightarrow> f x = Inr y \<Longrightarrow> g y = h x"
  shows "map g ys = map h xs"
proof (rule nth_equalityI)
  show "length (map g ys) = length (map h xs)" using assms(1) by (simp add: collect_res_eq_Inr)
  show "map g ys ! i = map h xs ! i" if "i < length (map g ys)" for i
    using that assms by (auto simp: collect_res_eq_Inr)
qed

lemma collect_res_mem:
  assumes "collect_res f xs = Inr ys" "y \<in> set ys"
  shows "\<exists>x \<in> set xs. f x = Inr y"
  using assms by (auto simp: collect_res_eq_Inr in_set_conv_nth) (metis nth_mem)

lemma build_data_ids:
  assumes "build_data me c names mf pg = Inr data"
  shows "td_id ` set data = em_id ` set mf \<union> em_id ` set pg" "distinct (map td_id data)"
proof -
  let ?mf = "keep_new em_id {} mf" and ?pg = "keep_new em_id (em_id ` set mf) pg"
  obtain d1 d2 where d: "collect_res (message_tx me c names) ?mf = Inr d1" "collect_res (mining_tx c) ?pg = Inr d2"
    "data = newest_first (d1 @ d2)"
    using assms by (auto simp: build_data_def res_simps)
  have ids: "map td_id d1 = map em_id ?mf" "map td_id d2 = map em_id ?pg"
    by (rule collect_res_map_eq [OF d(1) tx_ids(1)], simp) (rule collect_res_map_eq [OF d(2) tx_ids(2)], simp)
  then have sets: "td_id ` set d1 = em_id ` set mf" "td_id ` set d2 = em_id ` set pg - em_id ` set mf"
    using keep_new_keys [of em_id "{}" mf] keep_new_keys [of em_id "em_id ` set mf" pg]
    by (metis list.set_map Diff_empty, metis list.set_map)
  then show "td_id ` set data = em_id ` set mf \<union> em_id ` set pg" by (auto simp: d(3) image_Un)
  have "distinct (map td_id (d1 @ d2))"
    unfolding map_append distinct_append set_map sets unfolding ids
    using keep_new_distinct [of em_id "{}" mf] keep_new_distinct [of em_id "em_id ` set mf" pg] by blast
  then show "distinct (map td_id data)" by (simp only: d(3) distinct_newest_first)
qed

lemma get_ecc_txs_eq_Inr:
  "get_ecc_txs env hot archive params w = (Inr r, w') \<longleftrightarrow>
     (\<exists>c pop w0 mf mh w1 pg ph w2 names.
        parse_token_id (ph_token_id params) = Inr (Ecc c) \<and>
        (if c = NACKL_CURRENCY_ID
         then \<exists>q. he_get_popitgame env hot (ph_multifactor_address params) w = (q, w0) \<and> pop = res_ok q
         else pop = None \<and> w0 = w) \<and>
        stream_page env (fetch_ecc_with_auto_pagination env (ph_multifactor_address params) c) hot archive
          (ph_page_size params) (decode_cursor (ph_cursor params)) w0 = (Inr (mf, hr_next_cursor r, mh), w1) \<and>
        mining_stream env pop c hot archive (ph_page_size params) (decode_cursor (ph_mining_cursor params)) w1 =
          (Inr (pg, hr_next_mining_cursor r, ph), w2) \<and>
        resolve_names env hot [] (counterparties (ph_multifactor_address params) (keep_new em_id {} mf)) Map.empty w2 =
          (Inr names, w') \<and>
        build_data (ph_multifactor_address params) c names mf pg = Inr (hr_data r) \<and>
        hr_has_next_page r = (mh \<or> ph))"
proof (cases "parse_token_id (ph_token_id params)")
  case (Inr k)
  show ?thesis
  proof (cases k)
    case (Ecc c)
    with Inr show ?thesis
      by (cases r) (auto simp: get_ecc_txs_def Let_def build_data_def res_simps split: if_splits prod.splits)
  qed (use Inr in \<open>auto simp: get_ecc_txs_def\<close>)
qed (auto simp: get_ecc_txs_def)

lemma mining_tx_source:
  assumes "mining_tx c e = Inr t"
  shows "td_id t = em_id e \<and> td_created_at t = em_created_at e \<and> td_tx_type t = TxMining \<and>
         (\<exists>vo \<in> set (em_value_other e). vo_currency vo = c \<and> parse_u (vo_value vo) = Inr (td_value t))"
  using assms by (auto simp: mining_tx_def message_value_def res_simps find_Some_iff)

lemma message_tx_source:
  assumes "message_tx me c names e = Inr t"
  shows "td_id t = em_id e \<and> td_created_at t = em_created_at e \<and>
         (\<exists>vo \<in> set (em_value_other e). vo_currency vo = c \<and> parse_u (vo_value vo) = Inr (td_value t)) \<and>
         td_tx_type t = (if em_src e = me then TxOutgoing else TxIncoming) \<and> (em_src e = me \<or> em_dst e = me)"
  using assms by (auto simp: message_tx_def message_value_def Let_def res_simps find_Some_iff split: if_splits)

lemma build_data_source:
  assumes "build_data me c names mf pg = Inr data" "t \<in> set data"
  shows "\<exists>e. td_id t = em_id e \<and> td_created_at t = em_created_at e \<and>
           (\<exists>vo \<in> set (em_value_other e). vo_currency vo = c \<and> parse_u (vo_value vo) = Inr (td_value t)) \<and>
           (case td_tx_type t of
              TxOutgoing \<Rightarrow> e \<in> set mf \<and> em_src e = me
            | TxIncoming \<Rightarrow> e \<in> set mf \<and> em_src e \<noteq> me \<and> em_dst e = me
            | TxMining \<Rightarrow> e \<in> set pg)"
proof -
  obtain d1 d2 where d: "collect_res (message_tx me c names) (keep_new em_id {} mf) = Inr d1"
    "collect_res (mining_tx c) (keep_new em_id (em_id ` set mf) pg) = Inr d2" "data = newest_first (d1 @ d2)"
    using assms(1) by (auto simp: build_data_def res_simps)
  then consider "t \<in> set d1" | "t \<in> set d2" using assms(2) by auto
  then show ?thesis
  proof cases
    case 1
    then obtain e where "e \<in> set (keep_new em_id {} mf)" "message_tx me c names e = Inr t"
      using collect_res_mem [OF d(1)] by blast
    then show ?thesis using message_tx_source [of me c names e t] keep_new_subset [of em_id "{}" mf] by auto
  next
    case 2
    then obtain e where "e \<in> set (keep_new em_id (em_id ` set mf) pg)" "mining_tx c e = Inr t"
      using collect_res_mem [OF d(2)] by blast
    then show ?thesis using mining_tx_source [of c e t] keep_new_subset [of em_id "em_id ` set mf" pg] by auto
  qed
qed

section \<open>Following the cursors\<close>

text \<open>
  The messages of an account as an endpoint serves them: \<open>hist\<close> from the oldest to the newest,
  \<open>cur k\<close> the cursor before which \<open>k\<close> messages lie.  A query for \<open>n\<close> messages before a cursor gives
  the last \<open>n\<close> of these, the cursor of the first one, and whether older ones exist.
\<close>

definition cursor_at :: "(nat \<Rightarrow> string) \<Rightarrow> EccMsg list \<Rightarrow> nat \<Rightarrow> string option" where
  "cursor_at cur hist k = (if k = length hist then None else Some (cur k))"

definition serves :: "('w, 'c) history_env \<Rightarrow> 'c \<Rightarrow> string \<Rightarrow> EccMsg list \<Rightarrow> (nat \<Rightarrow> string) \<Rightarrow> bool" where
  "serves env client address hist cur =
     (\<forall>n k w. 0 < n \<and> k \<le> length hist \<longrightarrow>
        fst (execute_gql_query env client address n (cursor_at cur hist k) w) =
          Inr (drop (k - unat n) (take k hist),
               \<lparr> gp_start_cursor = (if k = 0 then None else Some (cur (k - unat n))),
                 gp_has_previous_page = unat n < k \<rparr>))"

lemma servesD:
  assumes "serves env client address hist cur" "0 < n" "k \<le> length hist"
  obtains w' where "execute_gql_query env client address n (cursor_at cur hist k) w =
    (Inr (drop (k - unat n) (take k hist),
          \<lparr> gp_start_cursor = (if k = 0 then None else Some (cur (k - unat n))), gp_has_previous_page = unat n < k \<rparr>), w')"
proof -
  have "fst (execute_gql_query env client address n (cursor_at cur hist k) w) =
    Inr (drop (k - unat n) (take k hist),
         \<lparr> gp_start_cursor = (if k = 0 then None else Some (cur (k - unat n))), gp_has_previous_page = unat n < k \<rparr>)"
    using assms unfolding serves_def by blast
  with that show ?thesis by (metis prod.collapse)
qed

text \<open>
  Fetching from position \<open>k\<close> stops at some older position \<open>k'\<close> and returns the matching messages in
  between, all of them.
\<close>

lemma auto_fetch_range:
  assumes "serves env client address hist cur" "0 < n" "k \<le> length hist"
  shows "\<exists>k' w'. k' \<le> k \<and> (0 < k \<longrightarrow> k' < k) \<and> k \<le> k' + Suc rounds * unat n \<and>
    auto_fetch env client address c n (Suc rounds) (cursor_at cur hist k) ([], nc, hm) w =
      (Inr (filter (has_currency c) (drop k' (take k hist)), (if k = 0 then None else Some (cur k')), 0 < k'), w')"
  using assms(3)
proof (induction rounds arbitrary: k nc hm w)
  case (0 k)
  obtain w' where "execute_gql_query env client address n (cursor_at cur hist k) w =
    (Inr (drop (k - unat n) (take k hist),
          \<lparr> gp_start_cursor = (if k = 0 then None else Some (cur (k - unat n))), gp_has_previous_page = unat n < k \<rparr>), w')"
    using servesD [OF assms(1,2) 0] .
  moreover have "0 < unat n" using assms(2) by (simp add: unat_gt_0)
  ultimately show ?case
    by (intro exI [of _ "k - unat n"] exI [of _ w']) (auto simp: Let_def)
next
  case (Suc rounds k)
  let ?lo = "k - unat n"
  obtain w1 where q: "execute_gql_query env client address n (cursor_at cur hist k) w =
    (Inr (drop ?lo (take k hist),
          \<lparr> gp_start_cursor = (if k = 0 then None else Some (cur ?lo)), gp_has_previous_page = unat n < k \<rparr>), w1)"
    using servesD [OF assms(1,2) Suc.prems] .
  have n: "0 < unat n" using assms(2) by (simp add: unat_gt_0)
  show ?case
  proof (cases "filter (has_currency c) (drop ?lo (take k hist)) \<noteq> [] \<or> \<not> unat n < k")
    case True
    with q n show ?thesis
      by (intro exI [of _ ?lo] exI [of _ w1]) (simp only: auto_fetch.simps, auto simp: Let_def)
  next
    case False
    then have lo: "?lo < k" "?lo \<le> length hist" "cursor_at cur hist ?lo = Some (cur ?lo)"
      using n Suc.prems by (auto simp: cursor_at_def)
    obtain k' w' where ih: "k' \<le> ?lo" "0 < ?lo \<longrightarrow> k' < ?lo" "?lo \<le> k' + Suc rounds * unat n"
      "auto_fetch env client address c n (Suc rounds) (cursor_at cur hist ?lo) ([], Some (cur ?lo), True) w1 =
        (Inr (filter (has_currency c) (drop k' (take ?lo hist)), (if ?lo = 0 then None else Some (cur k')), 0 < k'), w')"
      using Suc.IH [OF lo(2), of "Some (cur ?lo)" True w1] by auto
    have "drop k' (take k hist) = drop k' (take ?lo hist) @ drop ?lo (take k hist)"
    proof -
      have "take k hist = take ?lo hist @ drop ?lo (take k hist)"
        by (metis append_take_drop_id diff_le_self min.absorb2 take_take min.commute)
      then show ?thesis using ih(1) lo(2) by (metis drop_append length_take min.absorb2 diff_is_0_eq drop_0)
    qed
    moreover have "auto_fetch env client address c n (Suc (Suc rounds)) (cursor_at cur hist k) ([], nc, hm) w =
      auto_fetch env client address c n (Suc rounds) (Some (cur ?lo)) ([], Some (cur ?lo), True) w1"
      using False q n by (subst auto_fetch.simps(2)) (simp add: Let_def)
    ultimately show ?thesis
      using ih lo(3) False n by (intro exI [of _ k'] exI [of _ w']) auto
  qed
qed

definition readable :: "string \<Rightarrow> u32 \<Rightarrow> EccMsg \<Rightarrow> bool" where
  "readable me c m = ((em_src m = me \<or> em_dst m = me) \<and> (\<exists>v. message_value [] c m = Inr v))"

lemma readable_tx: "readable me c m \<Longrightarrow> \<exists>t. message_tx me c names m = Inr t"
  by (auto simp: readable_def message_tx_def Let_def)

lemma collect_res_total:
  assumes "\<And>x. x \<in> set xs \<Longrightarrow> \<exists>y. f x = Inr y"
  shows "\<exists>ys. collect_res f xs = Inr ys"
  using assms by (induction xs) (auto, metis and_then.simps(2))

lemma build_data_total:
  assumes "\<And>m. m \<in> set mf \<Longrightarrow> readable me c m"
  shows "\<exists>data. build_data me c names mf [] = Inr data"
proof -
  have "\<exists>d. collect_res (message_tx me c names) (keep_new em_id {} mf) = Inr d"
    using assms keep_new_subset [of em_id "{}" mf] by (intro collect_res_total readable_tx) blast
  then show ?thesis by (auto simp: build_data_def)
qed

text \<open>A cursor of the hot endpoint is never taken for one of the archive.\<close>

definition hot_cursors :: "(nat \<Rightarrow> string) \<Rightarrow> bool" where
  "hot_cursors cur = (\<forall>k. strip_prefix ARCHIVE_CURSOR_PREFIX (cur k) = None)"

lemma decode_cursor_at: "hot_cursors cur \<Longrightarrow> decode_cursor (cursor_at cur hist k) = Hot (cursor_at cur hist k)"
  by (simp add: hot_cursors_def decode_cursor_def cursor_at_def)

lemma fetch_range:
  assumes "serves env client me hist cur" "0 < n" "k \<le> length hist"
  obtains k' w' where "k' \<le> k" "0 < k \<longrightarrow> k' < k" "k \<le> k' + 10 * unat n"
    "fetch_ecc_with_auto_pagination env me c client n (cursor_at cur hist k) w =
      (Inr (filter (has_currency c) (drop k' (take k hist)), (if k = 0 then None else Some (cur k')), 0 < k'), w')"
  using auto_fetch_range [OF assms, where c = c and rounds = 9 and nc = None and hm = False and w = w]
  by (auto simp: fetch_ecc_with_auto_pagination_def MAX_AUTO_FETCH_PAGES_def eval_nat_numeral)

lemma hot_stream_range:
  assumes "serves env hot me hist cur" "0 < n" "k \<le> length hist"
  shows "\<exists>k' nc w'. k' \<le> k \<and> (0 < k \<longrightarrow> k' < k) \<and> (0 < k' \<longrightarrow> nc = Some (cur k')) \<and> k \<le> k' + 10 * unat n \<and>
    stream_page env (fetch_ecc_with_auto_pagination env me c) hot None n (Hot (cursor_at cur hist k)) w =
      (Inr (filter (has_currency c) (drop k' (take k hist)), nc, 0 < k'), w')"
proof -
  obtain k' w' where k': "k' \<le> k" "0 < k \<longrightarrow> k' < k" "k \<le> k' + 10 * unat n" and
    fetch: "fetch_ecc_with_auto_pagination env me c hot n (cursor_at cur hist k) w =
      (Inr (filter (has_currency c) (drop k' (take k hist)), (if k = 0 then None else Some (cur k')), 0 < k'), w')"
    by (rule fetch_range [OF assms])
  show ?thesis
  proof (cases "0 < k'")
    case True
    with k' fetch show ?thesis
      by (intro exI [of _ k'] exI [of _ "Some (cur k')"] exI [of _ w']) (auto simp: stream_page_def)
  next
    case False
    with k' fetch show ?thesis
      by (intro exI [of _ k'] exI [of _ "if filter (has_currency c) (drop k' (take k hist)) = []
            then (if k = 0 then None else Some (cur k')) else None"] exI [of _ w']) (auto simp: stream_page_def)
  qed
qed

text \<open>A caller that asks for page after page until there is no next one; \<open>None\<close> when \<open>fuel\<close> calls do not do.\<close>

fun read_all :: "('w, 'c) history_env \<Rightarrow> 'c \<Rightarrow> 'c option \<Rightarrow> nat \<Rightarrow> ParamsOfGetHistory \<Rightarrow> 'w \<Rightarrow> TxData list option" where
  "read_all env hot archive 0 params w = None"
| "read_all env hot archive (Suc fuel) params w =
     (case get_history env hot archive params w of
        (Inl e, w1) \<Rightarrow> None
      | (Inr r, w1) \<Rightarrow>
          if \<not> hr_has_next_page r then Some (hr_data r)
          else map_option (append (hr_data r))
                 (read_all env hot archive fuel
                    (params\<lparr>ph_cursor := hr_next_cursor r, ph_mining_cursor := hr_next_mining_cursor r\<rparr>) w1))"

definition history_ok ::
  "('w, 'c) history_env \<Rightarrow> 'c \<Rightarrow> ParamsOfGetHistory \<Rightarrow> u32 \<Rightarrow> EccMsg list \<Rightarrow> (nat \<Rightarrow> string) \<Rightarrow> bool" where
  "history_ok env hot params c hist cur \<longleftrightarrow>
     serves env hot (ph_multifactor_address params) hist cur \<and> hot_cursors cur \<and> joins_succeed env \<and>
     0 < ph_page_size params \<and> parse_u (ph_token_id params) = Inr c \<and>
     (\<forall>m \<in> set hist. has_currency c m \<longrightarrow> readable (ph_multifactor_address params) c m)"

abbreviation matching :: "u32 \<Rightarrow> EccMsg list \<Rightarrow> EccMsg list" where
  "matching c ms \<equiv> filter (has_currency c) ms"

lemma build_data_times:
  assumes "build_data me c names mf [] = Inr data" "t \<in> set data"
  shows "\<exists>m \<in> set mf. td_created_at t = em_created_at m"
  using build_data_source [OF assms] by (cases "td_tx_type t") auto

lemma hot_page:
  assumes ok: "history_ok env hot params c hist cur" and c: "c \<noteq> NACKL_CURRENCY_ID"
    and k: "k \<le> length hist" "ph_cursor params = cursor_at cur hist k"
  obtains k' r w' where "k' \<le> k" "0 < k \<longrightarrow> k' < k" "get_history env hot None params w = (Inr r, w')"
    "hr_has_next_page r = (0 < k')" "0 < k' \<longrightarrow> hr_next_cursor r = Some (cur k')"
    "td_id ` set (hr_data r) = em_id ` set (matching c (drop k' (take k hist)))" "distinct (map td_id (hr_data r))"
    "sorted (map (\<lambda>t. - uint (td_created_at t)) (hr_data r))"
    "\<forall>t \<in> set (hr_data r). \<exists>m \<in> set (drop k' (take k hist)). td_created_at t = em_created_at m"
proof -
  let ?me = "ph_multifactor_address params"
  have srv: "serves env hot ?me hist cur" "hot_cursors cur" "joins_succeed env" "0 < ph_page_size params"
    and tok: "parse_token_id (ph_token_id params) = Inr (Ecc c)"
    using ok by (auto simp: history_ok_def parse_token_id_def)
  obtain k' nc w1 where k': "k' \<le> k" "0 < k \<longrightarrow> k' < k" "0 < k' \<longrightarrow> nc = Some (cur k')" and
    page: "stream_page env (fetch_ecc_with_auto_pagination env ?me c) hot None (ph_page_size params)
        (decode_cursor (ph_cursor params)) w = (Inr (matching c (drop k' (take k hist)), nc, 0 < k'), w1)"
    using hot_stream_range [OF srv(1,4) k(1), of c w] by (auto simp: k(2) decode_cursor_at [OF srv(2)])
  let ?mf = "matching c (drop k' (take k hist))"
  obtain names w2 where names: "resolve_names env hot [] (counterparties ?me (keep_new em_id {} ?mf)) Map.empty w1 = (Inr names, w2)"
    using resolve_names_total [OF srv(3)] by blast
  have "readable ?me c m" if "m \<in> set ?mf" for m
    using ok that in_set_dropD in_set_takeD by (fastforce simp: history_ok_def)
  then obtain data where data: "build_data ?me c names ?mf [] = Inr data" using build_data_total by blast
  let ?r = "\<lparr> hr_data = data, hr_next_cursor = nc, hr_next_mining_cursor = None, hr_has_next_page = 0 < k' \<rparr>"
  have "get_ecc_txs env hot None params w = (Inr ?r, w2)"
    unfolding get_ecc_txs_eq_Inr using tok c page names data
    by (intro exI [of _ c] exI [of _ None] exI [of _ w] exI [of _ ?mf] exI [of _ "0 < k'"] exI [of _ w1] exI [of _ "[]"]
        exI [of _ False] exI [of _ w1] exI [of _ names]) (simp add: mining_stream_def)
  then have get: "get_history env hot None params w = (Inr ?r, w2)" by (simp add: get_history_def tok)
  have "sorted (map (\<lambda>t. - uint (td_created_at t)) data)"
    using data sorted_newest_first by (auto simp: build_data_def res_simps)
  moreover have "\<exists>m \<in> set (drop k' (take k hist)). td_created_at t = em_created_at m" if "t \<in> set data" for t
    using build_data_times [OF data that] by auto
  ultimately show thesis
    using that [OF k'(1,2) get] k'(3) build_data_ids [OF data] by simp
qed

lemma history_ok_update [simp]:
  "history_ok env hot (params\<lparr>ph_cursor := a, ph_mining_cursor := b\<rparr>) c hist cur = history_ok env hot params c hist cur"
  by (simp add: history_ok_def)

lemma sorted_times_split:
  assumes "sorted (map (\<lambda>m. uint (em_created_at m)) hist)" "x \<in> set (drop k hist)" "y \<in> set (take k hist)"
  shows "- uint (em_created_at x) \<le> - uint (em_created_at y)"
proof -
  have "sorted (map (\<lambda>m. uint (em_created_at m)) (take k hist @ drop k hist))" using assms(1) by simp
  then show ?thesis using assms(2,3) by (simp only: map_append sorted_append) auto
qed

lemma read_all_complete:
  assumes ok: "history_ok env hot params c hist cur" and c: "c \<noteq> NACKL_CURRENCY_ID"
    and hist: "distinct (map em_id hist)" "sorted (map (\<lambda>m. uint (em_created_at m)) hist)"
    and k: "k \<le> length hist" "ph_cursor params = cursor_at cur hist k"
  shows "\<exists>fuel data. read_all env hot None fuel params w = Some data \<and>
    td_id ` set data = em_id ` set (matching c (take k hist)) \<and> distinct (map td_id data) \<and>
    sorted (map (\<lambda>t. - uint (td_created_at t)) data) \<and>
    (\<forall>t \<in> set data. \<exists>m \<in> set (take k hist). td_created_at t = em_created_at m)"
  using ok k
proof (induction k arbitrary: params w rule: less_induct)
  case (less k)
  obtain k' r w' where page: "k' \<le> k" "0 < k \<longrightarrow> k' < k" "get_history env hot None params w = (Inr r, w')"
    "hr_has_next_page r = (0 < k')" "0 < k' \<longrightarrow> hr_next_cursor r = Some (cur k')"
    "td_id ` set (hr_data r) = em_id ` set (matching c (drop k' (take k hist)))" "distinct (map td_id (hr_data r))"
    "sorted (map (\<lambda>t. - uint (td_created_at t)) (hr_data r))"
    "\<forall>t \<in> set (hr_data r). \<exists>m \<in> set (drop k' (take k hist)). td_created_at t = em_created_at m"
    by (rule hot_page [OF less.prems(1) c less.prems(2,3), of w])
  have split: "take k hist = take k' hist @ drop k' (take k hist)"
    using page(1) by (metis append_take_drop_id min.absorb1 take_take)
  show ?case
  proof (cases "0 < k'")
    case False
    with page show ?thesis
      by (intro exI [of _ 1] exI [of _ "hr_data r"]) (auto dest: in_set_takeD)
  next
    case True
    let ?p = "params\<lparr>ph_cursor := hr_next_cursor r, ph_mining_cursor := hr_next_mining_cursor r\<rparr>"
    have "k' < k" "k' \<le> length hist" "ph_cursor ?p = cursor_at cur hist k'"
      using True page(1,2,5) less.prems(2) by (auto simp: cursor_at_def)
    then obtain fuel data where ih: "read_all env hot None fuel ?p w' = Some data"
      "td_id ` set data = em_id ` set (matching c (take k' hist))" "distinct (map td_id data)"
      "sorted (map (\<lambda>t. - uint (td_created_at t)) data)"
      "\<forall>t \<in> set data. \<exists>m \<in> set (take k' hist). td_created_at t = em_created_at m"
      using less.IH [of k' ?p w'] less.prems(1) by auto
    have "set (map em_id (take k' hist)) \<inter> set (map em_id (drop k' (take k hist))) = {}"
    proof -
      have "distinct (map em_id (take k hist))" using hist(1) by (metis distinct_take take_map)
      then show ?thesis by (subst (asm) split) simp
    qed
    then have "td_id ` set (hr_data r) \<inter> td_id ` set data = {}" unfolding page(6) ih(2) by auto
    moreover have "- uint (td_created_at s) \<le> - uint (td_created_at t)"
      if "s \<in> set (hr_data r)" "t \<in> set data" for s t
    proof -
      obtain x y where "x \<in> set (drop k' (take k hist))" "td_created_at s = em_created_at x"
        "y \<in> set (take k' hist)" "td_created_at t = em_created_at y" using page(9) ih(5) \<open>s \<in> _\<close> \<open>t \<in> _\<close> by meson
      moreover have "drop k' (take k hist) = take (k - k') (drop k' hist)" by (rule drop_take)
      ultimately show ?thesis
        using sorted_times_split [OF hist(2), of x k' y] by (auto dest: in_set_takeD)
    qed
    moreover have "td_id ` set (hr_data r @ data) = em_id ` set (matching c (take k hist))"
      unfolding set_append image_Un page(6) ih(2) by (subst split) (auto simp: image_Un)
    moreover have "\<forall>t \<in> set (hr_data r @ data). \<exists>m \<in> set (take k hist). td_created_at t = em_created_at m"
      using page(9) ih(5) by (subst split) auto
    moreover have "read_all env hot None (Suc fuel) params w = Some (hr_data r @ data)"
      using page(3,4) True ih(1) by simp
    ultimately show ?thesis
      using page(7,8) ih(3,4)
      by (intro exI [of _ "Suc fuel"] exI [of _ "hr_data r @ data"]) (auto simp: sorted_append)
  qed
qed

end
