(* ===== verification/HistoryProperties.thy ===== *)
theory HistoryProperties
  imports HistoryPages
begin

text \<open>
  The properties of the transaction history: what a page holds, that following the cursors lists
  everything, and where the pages do not fit together (a stream that is exhausted before the other one
  starts again, and messages in the archive behind ten messages of other currencies are never shown).
  The theory begins with a concrete endpoint, on which the properties are applied.
\<close>

section \<open>A concrete endpoint\<close>

text \<open>
  Client \<open>c\<close> serves the messages \<open>hist c\<close> and the reward events \<open>events\<close>, with positions as cursors.
  The answer to a query is the query itself, which the deserialisers then answer.
\<close>

definition page_lo :: "json \<Rightarrow> nat \<Rightarrow> nat \<times> nat" where
  "page_lo vars len =
     (let hi = (case json_get ''before'' vars of
                  Some (JStr s) \<Rightarrow> (case parse_nat (Suc len) s of Inr k \<Rightarrow> k | Inl _ \<Rightarrow> len)
                | _ \<Rightarrow> len);
          n = (case json_get ''last'' vars of Some (JNum n) \<Rightarrow> unat n | _ \<Rightarrow> 0)
      in (hi - n, hi))"

definition answer_page :: "json \<Rightarrow> 'a list \<Rightarrow> 'a list \<times> GqlPageInfo" where
  "answer_page vars items =
     (case page_lo vars (length items) of (lo, hi) \<Rightarrow>
        (drop lo (take hi items),
         \<lparr> gp_start_cursor = (if hi = 0 then None else Some (show_nat lo)), gp_has_previous_page = 0 < lo \<rparr>))"

definition no_account :: "'w account_env" where
  "no_account = \<lparr> ac_is_deployed = (\<lambda>_ w. (False, w)), ac_data = (\<lambda>_ w. (None, w)),
     ac_decode = (\<lambda>_. Inl (app_error_new [])), ac_get_indexer = (\<lambda>_ w. (Inl (app_error_new []), w)),
     ac_indexer_details = (\<lambda>_ w. (Inl (True, app_error_new []), w)) \<rparr>"

definition endpoint :: "(u64 \<Rightarrow> EccMsg list) \<Rightarrow> GqlEventNode list \<Rightarrow> (unit, u64) history_env" where
  "endpoint hist events = \<lparr>
     he_query = (\<lambda>c q vars w. (Inr (JArr [JNum c, vars]), w)),
     he_error_value = (\<lambda>_. Inl []),
     he_messages_from_value = (\<lambda>v. case v of JArr [JNum c, vars] \<Rightarrow> Inr (answer_page vars (hist c)) | _ \<Rightarrow> Inl []),
     he_events_from_value = (\<lambda>v. case v of JArr [JNum c, vars] \<Rightarrow> Inr (answer_page vars events) | _ \<Rightarrow> Inl []),
     he_decode_reward = (\<lambda>_ node. Inr (Some (gn_body node))),
     he_get_popitgame = (\<lambda>_ _ w. (Inr ''0:aa'', w)),
     he_dapp_id = [], he_timed_out = (\<lambda>_ _ _. None), he_accounts = (\<lambda>_. no_account),
     he_join_next = (\<lambda>_ w. ((0, None), w)) \<rparr>"

lemma answer_page_at:
  assumes "json_get ''before'' vars = Some (opt_str (if k = length items then None else Some (show_nat k)))"
    "json_get ''last'' vars = Some (JNum (ucast (n :: u32)))" "k \<le> length items"
  shows "answer_page vars items =
    (drop (k - unat n) (take k items),
     \<lparr> gp_start_cursor = (if k = 0 then None else Some (show_nat (k - unat n))), gp_has_previous_page = unat n < k \<rparr>)"
proof -
  have "unat (ucast n :: u64) = unat n" by (simp add: unat_ucast_up)
  then show ?thesis using assms by (simp add: answer_page_def page_lo_def opt_str_def Let_def)
qed

lemma endpoint_serves: "serves (endpoint hist events) c address (hist c) show_nat"
proof -
  have "answer_page (JObj [(''account_id'', a), (''dapp_id'', b), (''last'', JNum (ucast (n :: u32))),
            (''before'', opt_str (cursor_at show_nat (hist c) k))]) (hist c) =
        (drop (k - unat n) (take k (hist c)),
         \<lparr> gp_start_cursor = (if k = 0 then None else Some (show_nat (k - unat n))), gp_has_previous_page = unat n < k \<rparr>)"
    if "k \<le> length (hist c)" for a b n k
    using that by (intro answer_page_at) (simp_all add: cursor_at_def)
  then show ?thesis by (simp add: serves_def execute_gql_query_def endpoint_def Let_def)
qed

lemma show_nat_hot: "hot_cursors show_nat"
proof -
  have "hd (show_nat k) \<noteq> CHR ''a''" for k
    using show_nat_all_digits [of k] show_nat_nonempty [of k] by (cases "show_nat k") (auto simp: is_digit_def)
  then show ?thesis
    by (auto simp: hot_cursors_def ARCHIVE_CURSOR_PREFIX_def) (metis strip_prefix_Some append_Cons list.sel(1) not_None_eq)
qed

lemma endpoint_joins: "joins_succeed (endpoint hist events)"
  by (simp add: joins_succeed_def endpoint_def)

definition transfer :: "string \<Rightarrow> u64 \<Rightarrow> u32 \<Rightarrow> EccMsg" where
  "transfer i t c = \<lparr> em_id = i, em_src = ''0:b'', em_dst = ''0:me'', em_created_at = t,
     em_value_other = [\<lparr> vo_currency = c, vo_value = ''5'' \<rparr>] \<rparr>"

lemma transfer_readable: "readable ''0:me'' c (transfer i t c)"
  by (simp add: readable_def transfer_def message_value_def parse_u_def parse_nat_def is_digit_def digit_val_def)

lemma transfer_currency [simp]: "has_currency c (transfer i t d) \<longleftrightarrow> d = c"
  by (simp add: has_currency_def transfer_def)

section \<open>Pages that fit together\<close>

text \<open>
  Property C36.  A page of the history: its entries are sorted from the newest to the oldest, no
  message is listed twice, and they are exactly the messages of the two fetched pages.  Every entry
  has the time of its message and a value of the requested currency; it is outgoing or incoming by
  the account's role in the message, and a mining reward only for the mining currency.
\<close>

theorem history_page:
  assumes "get_ecc_txs env hot archive params w = (Inr r, w')"
  shows "\<exists>c pop w0 mf mh w1 pg ph w2.
     parse_u (ph_token_id params) = Inr c \<and>
     stream_page env (fetch_ecc_with_auto_pagination env (ph_multifactor_address params) c) hot archive
       (ph_page_size params) (decode_cursor (ph_cursor params)) w0 = (Inr (mf, hr_next_cursor r, mh), w1) \<and>
     mining_stream env pop c hot archive (ph_page_size params) (decode_cursor (ph_mining_cursor params)) w1 =
       (Inr (pg, hr_next_mining_cursor r, ph), w2) \<and>
     hr_has_next_page r = (mh \<or> ph) \<and>
     sorted (map (\<lambda>t. - uint (td_created_at t)) (hr_data r)) \<and> distinct (map td_id (hr_data r)) \<and>
     td_id ` set (hr_data r) = em_id ` (set mf \<union> set pg) \<and>
     (\<forall>t \<in> set (hr_data r). \<exists>e. td_id t = em_id e \<and> td_created_at t = em_created_at e \<and>
        (\<exists>vo \<in> set (em_value_other e). vo_currency vo = c \<and> parse_u (vo_value vo) = Inr (td_value t)) \<and>
        (case td_tx_type t of
           TxOutgoing \<Rightarrow> e \<in> set mf \<and> em_src e = ph_multifactor_address params
         | TxIncoming \<Rightarrow> e \<in> set mf \<and> em_src e \<noteq> ph_multifactor_address params \<and> em_dst e = ph_multifactor_address params
         | TxMining \<Rightarrow> e \<in> set pg \<and> c = NACKL_CURRENCY_ID))"
proof -
  let ?me = "ph_multifactor_address params"
  obtain c pop w0 mf mh w1 pg ph w2 names where page:
    "parse_token_id (ph_token_id params) = Inr (Ecc c)"
    "if c = NACKL_CURRENCY_ID then \<exists>q. he_get_popitgame env hot ?me w = (q, w0) \<and> pop = res_ok q
     else pop = None \<and> w0 = w"
    "stream_page env (fetch_ecc_with_auto_pagination env ?me c) hot archive
       (ph_page_size params) (decode_cursor (ph_cursor params)) w0 = (Inr (mf, hr_next_cursor r, mh), w1)"
    "mining_stream env pop c hot archive (ph_page_size params) (decode_cursor (ph_mining_cursor params)) w1 =
       (Inr (pg, hr_next_mining_cursor r, ph), w2)"
    "build_data ?me c names mf pg = Inr (hr_data r)" "hr_has_next_page r = (mh \<or> ph)"
    using assms unfolding get_ecc_txs_eq_Inr by blast
  have c: "parse_u (ph_token_id params) = Inr c"
    using page(1) by (auto simp: parse_token_id_def split: sum.splits)
  have nackl: "c = NACKL_CURRENCY_ID" if "e \<in> set pg" for e
    using page(2,4) that by (cases pop) (auto simp: mining_stream_def split: if_splits)
  have "sorted (map (\<lambda>t. - uint (td_created_at t)) (hr_data r))"
    using page(5) sorted_newest_first by (auto simp: build_data_def res_simps) metis
  moreover have "\<exists>e. td_id t = em_id e \<and> td_created_at t = em_created_at e \<and>
        (\<exists>vo \<in> set (em_value_other e). vo_currency vo = c \<and> parse_u (vo_value vo) = Inr (td_value t)) \<and>
        (case td_tx_type t of
           TxOutgoing \<Rightarrow> e \<in> set mf \<and> em_src e = ?me
         | TxIncoming \<Rightarrow> e \<in> set mf \<and> em_src e \<noteq> ?me \<and> em_dst e = ?me
         | TxMining \<Rightarrow> e \<in> set pg \<and> c = NACKL_CURRENCY_ID)" if "t \<in> set (hr_data r)" for t
    using build_data_source [OF page(5) that] nackl by (cases "td_tx_type t") auto
  moreover have "td_id ` set (hr_data r) = em_id ` (set mf \<union> set pg)"
    using build_data_ids(1) [OF page(5)] by (simp only: image_Un)
  ultimately show ?thesis
    using c page(3,4,6) build_data_ids(2) [OF page(5)] by blast
qed

definition example_params :: "string \<Rightarrow> ParamsOfGetHistory" where
  "example_params token = \<lparr> ph_multifactor_address = ''0:me'', ph_token_id = token, ph_page_size = 2,
     ph_cursor = None, ph_mining_cursor = None \<rparr>"

text \<open>Five messages of two currencies.\<close>

definition example_hist :: "EccMsg list" where
  "example_hist = [transfer ''m1'' 1 2, transfer ''m2'' 2 3, transfer ''m3'' 3 3, transfer ''m4'' 4 2, transfer ''m5'' 5 2]"

lemma example_history_ok:
  assumes "\<forall>m \<in> set (hist 0). \<exists>i t d. m = transfer i t d" "parse_u token = Inr c"
  shows "history_ok (endpoint hist events) 0 (example_params token) c (hist 0) show_nat"
proof -
  have "readable ''0:me'' c m" if "m \<in> set (hist 0)" "has_currency c m" for m
    using assms(1) that transfer_readable by fastforce
  then show ?thesis
    using assms(2) endpoint_serves [of hist events 0 "''0:me''"] show_nat_hot endpoint_joins
    by (simp add: history_ok_def example_params_def)
qed


lemma parse_token_digit: "parse_u ''1'' = Inr (1 :: u32)" "parse_u ''2'' = Inr (2 :: u32)"
  by (simp_all add: parse_u_def parse_nat_def is_digit_def digit_val_def)

lemma example_page:
  obtains r w' where "get_ecc_txs (endpoint (\<lambda>_. example_hist) []) 0 None (example_params ''2'') () = (Inr r, w')"
    "td_id ` set (hr_data r) \<noteq> {}"
proof -
  let ?env = "endpoint (\<lambda>_. example_hist) []"
  have ok: "history_ok ?env 0 (example_params ''2'') 2 example_hist show_nat"
    by (rule example_history_ok) (auto simp: example_hist_def parse_token_digit)
  have at: "2 \<noteq> NACKL_CURRENCY_ID" "5 \<le> length example_hist" "ph_cursor (example_params ''2'') = cursor_at show_nat example_hist 5"
    by (simp_all add: NACKL_CURRENCY_ID_def example_params_def cursor_at_def example_hist_def)
  obtain k' r w' where "(0 :: nat) < 5 \<longrightarrow> k' < 5" "get_history ?env 0 None (example_params ''2'') () = (Inr r, w')"
    "td_id ` set (hr_data r) = em_id ` set (matching 2 (drop k' (take 5 example_hist)))"
    by (rule hot_page [OF ok at])
  moreover have "transfer ''m5'' 5 2 \<in> set (matching 2 (drop k' (take 5 example_hist)))" if "k' < 5" for k'
  proof -
    have "k' = 0 \<or> k' = 1 \<or> k' = 2 \<or> k' = 3 \<or> k' = 4" using that by arith
    then show ?thesis by (elim disjE) (simp_all add: example_hist_def)
  qed
  moreover have "get_history ?env 0 None (example_params ''2'') = get_ecc_txs ?env 0 None (example_params ''2'')"
    by (simp add: get_history_def parse_token_id_def example_params_def parse_token_digit)
  ultimately show thesis using that [of r w'] by (metis empty_iff image_is_empty zero_less_numeral)
qed

theorem history_page_witness:
  "\<exists>r w'. get_ecc_txs (endpoint (\<lambda>_. example_hist) []) 0 None (example_params ''2'') () = (Inr r, w') \<and>
     hr_data r \<noteq> [] \<and> sorted (map (\<lambda>t. - uint (td_created_at t)) (hr_data r)) \<and> distinct (map td_id (hr_data r))"
proof -
  obtain r w' where r: "get_ecc_txs (endpoint (\<lambda>_. example_hist) []) 0 None (example_params ''2'') () = (Inr r, w')"
    "td_id ` set (hr_data r) \<noteq> {}" by (rule example_page)
  from history_page [OF r(1)] have "sorted (map (\<lambda>t. - uint (td_created_at t)) (hr_data r))" "distinct (map td_id (hr_data r))"
    by blast+
  with r show ?thesis by auto
qed


section \<open>Pages that do not\<close>

lemma fetch_single:
  assumes "serves env client me hist cur" "0 < n" "length hist \<le> unat n"
  obtains nc w' where "fetch_ecc_with_auto_pagination env me c client n None w = (Inr (matching c hist, nc, False), w')"
proof -
  obtain w' where "execute_gql_query env client me n (cursor_at cur hist (length hist)) w =
    (Inr (drop (length hist - unat n) (take (length hist) hist),
          \<lparr> gp_start_cursor = (if length hist = 0 then None else Some (cur (length hist - unat n))),
            gp_has_previous_page = unat n < length hist \<rparr>), w')"
    by (rule servesD [OF assms(1,2) order_refl])
  then show thesis
    using that assms(3)
    by (simp add: fetch_ecc_with_auto_pagination_def MAX_AUTO_FETCH_PAGES_def eval_nat_numeral cursor_at_def Let_def)
qed

lemma stream_single:
  assumes "serves env client me hist cur" "0 < n" "length hist \<le> unat n" "matching c hist \<noteq> []"
    and "stream_page env (fetch_ecc_with_auto_pagination env me c) client None n (Hot None) w = (Inr (mf, nc, mh), w')"
  shows "mf = matching c hist \<and> nc = None \<and> \<not> mh"
proof -
  obtain nc' w1 where "fetch_ecc_with_auto_pagination env me c client n None w = (Inr (matching c hist, nc', False), w1)"
    by (rule fetch_single [OF assms(1-3)])
  with assms(4,5) show ?thesis by (auto simp: stream_page_def)
qed

lemma single_page_ids:
  assumes "history_ok env hot params c hist cur" "length hist \<le> unat (ph_page_size params)" "matching c hist \<noteq> []"
    and "ph_cursor params = None" "get_ecc_txs env hot None params w = (Inr r, w')"
  shows "em_id ` set (matching c hist) \<subseteq> td_id ` set (hr_data r) \<and> hr_next_cursor r = None"
proof -
  let ?me = "ph_multifactor_address params"
  have srv: "serves env hot ?me hist cur" "0 < ph_page_size params" and tok: "parse_token_id (ph_token_id params) = Inr (Ecc c)"
    using assms(1) by (auto simp: history_ok_def parse_token_id_def)
  obtain c' w0 mf mh w1 pg names where page: "parse_token_id (ph_token_id params) = Inr (Ecc c')"
    "stream_page env (fetch_ecc_with_auto_pagination env ?me c') hot None (ph_page_size params)
       (decode_cursor (ph_cursor params)) w0 = (Inr (mf, hr_next_cursor r, mh), w1)"
    "build_data ?me c' names mf pg = Inr (hr_data r)"
    using assms(5) unfolding get_ecc_txs_eq_Inr by blast
  then have "c' = c" "decode_cursor (ph_cursor params) = Hot None"
    using tok assms(4) by (auto simp: decode_cursor_def)
  with page(2) stream_single [OF srv assms(2,3)] have "mf = matching c hist" "hr_next_cursor r = None" by auto
  with build_data_ids(1) [OF page(3)] show ?thesis by simp
qed

text \<open>
  Further property.  A stream that ends first starts again: when all messages of the account fit on one
  page and the mining rewards do not, the next call, made with the two cursors the first one
  returned, lists every message again, because the cursor of an exhausted stream is the cursor of a
  first page.
\<close>

theorem history_exhausted_stream_restarts:
  assumes "history_ok env hot params c hist cur" "length hist \<le> unat (ph_page_size params)" "matching c hist \<noteq> []"
    and "ph_cursor params = None" "get_ecc_txs env hot None params w = (Inr r, w1)" "hr_has_next_page r"
    and "get_ecc_txs env hot None
           (params\<lparr>ph_cursor := hr_next_cursor r, ph_mining_cursor := hr_next_mining_cursor r\<rparr>) w1 = (Inr r2, w2)"
  shows "em_id ` set (matching c hist) \<subseteq> td_id ` set (hr_data r) \<inter> td_id ` set (hr_data r2)"
proof -
  note first = single_page_ids [OF assms(1-5)]
  have "em_id ` set (matching c hist) \<subseteq> td_id ` set (hr_data r2)"
    using single_page_ids [OF _ _ assms(3) _ assms(7), where cur = cur] assms(1,2) first by simp
  with first show ?thesis by blast
qed

definition reward_events :: "GqlEventNode list" where
  "reward_events = map (\<lambda>i. \<lparr> gn_msg_id = [i], gn_created_at = 1, gn_dst = [], gn_body = ''7'' \<rparr>) ''xyz''"

lemma nackl_page:
  assumes ok: "history_ok env hot params NACKL_CURRENCY_ID hist cur" "length hist \<le> unat (ph_page_size params)"
    "matching NACKL_CURRENCY_ID hist \<noteq> []" "ph_cursor params = None"
    and pop: "\<And>w. \<exists>w'. he_get_popitgame env hot (ph_multifactor_address params) w = (Inr a, w')"
    and mining: "\<And>w. \<exists>w'. mining_stream env (Some a) NACKL_CURRENCY_ID hot None (ph_page_size params)
        (decode_cursor (ph_mining_cursor params)) w = (Inr (pg, pc, ph), w')"
    and txs: "\<And>m. m \<in> set pg \<Longrightarrow> \<exists>t. mining_tx NACKL_CURRENCY_ID m = Inr t"
  obtains r w' where "get_ecc_txs env hot None params w = (Inr r, w')" "hr_has_next_page r = ph"
    "hr_next_mining_cursor r = pc" "hr_next_cursor r = None"
proof -
  let ?me = "ph_multifactor_address params" and ?c = NACKL_CURRENCY_ID
  let ?mf = "matching ?c hist"
  have srv: "serves env hot ?me hist cur" "0 < ph_page_size params" "joins_succeed env"
    and tok: "parse_token_id (ph_token_id params) = Inr (Ecc ?c)"
    using ok(1) by (auto simp: history_ok_def parse_token_id_def)
  obtain w0 where w0: "he_get_popitgame env hot ?me w = (Inr a, w0)" using pop by blast
  obtain nc w1 where "fetch_ecc_with_auto_pagination env ?me ?c hot (ph_page_size params) None w0 = (Inr (?mf, nc, False), w1)"
    by (rule fetch_single [OF srv(1,2) ok(2)])
  then have mf: "stream_page env (fetch_ecc_with_auto_pagination env ?me ?c) hot None (ph_page_size params)
      (decode_cursor (ph_cursor params)) w0 = (Inr (?mf, None, False), w1)"
    using ok(3,4) by (simp add: stream_page_def decode_cursor_def)
  obtain w2 where pg: "mining_stream env (Some a) ?c hot None (ph_page_size params)
      (decode_cursor (ph_mining_cursor params)) w1 = (Inr (pg, pc, ph), w2)" using mining by blast
  obtain names w' where names: "resolve_names env hot [] (counterparties ?me (keep_new em_id {} ?mf)) Map.empty w2 = (Inr names, w')"
    using resolve_names_total [OF srv(3)] by blast
  have "\<exists>d. collect_res (message_tx ?me ?c names) (keep_new em_id {} ?mf) = Inr d"
    using ok(1) keep_new_subset [of em_id "{}" ?mf]
    by (intro collect_res_total readable_tx) (auto simp: history_ok_def)
  moreover have "\<exists>d. collect_res (mining_tx ?c) (keep_new em_id (em_id ` set ?mf) pg) = Inr d"
    using txs keep_new_subset [of em_id "em_id ` set ?mf" pg] by (intro collect_res_total) blast
  ultimately obtain data where data: "build_data ?me ?c names ?mf pg = Inr data" by (auto simp: build_data_def)
  let ?r = "\<lparr> hr_data = data, hr_next_cursor = None, hr_next_mining_cursor = pc, hr_has_next_page = ph \<rparr>"
  have "get_ecc_txs env hot None params w = (Inr ?r, w')"
    unfolding get_ecc_txs_eq_Inr using tok w0 mf pg names data
    by (intro exI [of _ ?c] exI [of _ "Some a"] exI [of _ w0] exI [of _ ?mf] exI [of _ False] exI [of _ w1] exI [of _ pg]
        exI [of _ ph] exI [of _ w2] exI [of _ names]) simp
  then show thesis by (rule that) simp_all
qed

definition reward_msg :: "string \<Rightarrow> u32 \<Rightarrow> GqlEventNode \<Rightarrow> EccMsg" where
  "reward_msg a c node =
     \<lparr> em_id = gn_msg_id node, em_src = GAME_ROOT_ADDRESS, em_dst = a, em_created_at = gn_created_at node,
       em_value_other = [\<lparr> vo_currency = c, vo_value = gn_body node \<rparr>] \<rparr>"

lemma endpoint_rewards:
  assumes "k \<le> length events"
  shows "fetch_mining_with_auto_pagination (endpoint hist events) a c client n
           (if k = length events then None else Some (show_nat k)) w =
         (Inr (map (reward_msg a c) (drop (k - unat n) (take k events)),
               (if k = 0 then None else Some (show_nat (k - unat n))), unat n < k), w)"
proof -
  have "answer_page (JObj [(''account_id'', x), (''dapp_id'', y), (''dst'', z), (''last'', JNum (ucast n)),
            (''before'', opt_str (if k = length events then None else Some (show_nat k)))]) events =
        (drop (k - unat n) (take k events),
         \<lparr> gp_start_cursor = (if k = 0 then None else Some (show_nat (k - unat n))), gp_has_previous_page = unat n < k \<rparr>)"
    for x y z using assms by (intro answer_page_at) simp_all
  moreover have "List.map_filter (msg_of_event (endpoint hist events) client a c) nodes = map (reward_msg a c) nodes" for nodes
    by (induction nodes) (auto simp: map_filter_simps msg_of_event_def endpoint_def reward_msg_def)
  moreover have "he_query (endpoint hist events) = (\<lambda>c q vars w. (Inr (JArr [JNum c, vars]), w))"
    "he_events_from_value (endpoint hist events) =
       (\<lambda>v. case v of JArr [JNum c, vars] \<Rightarrow> Inr (answer_page vars events) | _ \<Rightarrow> Inl [])"
    by (simp_all add: endpoint_def)
  ultimately show ?thesis
    by (simp only: fetch_mining_with_auto_pagination_def execute_mining_events_query_def Let_def io_then_def
        io_map_err_def io_lift_def prod.case sum.case map_err.simps json.case list.case GqlPageInfo.simps)
qed

lemma reward_tx:
  assumes "m \<in> set (map (reward_msg a c) (drop i (take k reward_events)))"
  shows "\<exists>t. mining_tx c m = Inr t"
proof -
  obtain node where "m = reward_msg a c node" "node \<in> set reward_events"
    using assms in_set_dropD in_set_takeD by fastforce
  moreover have "gn_body node = ''7''" if "node \<in> set reward_events" for node using that by (auto simp: reward_events_def)
  ultimately show ?thesis
    by (simp add: mining_tx_def message_value_def reward_msg_def parse_u_def parse_nat_def is_digit_def digit_val_def)
qed

lemma reward_stream:
  "mining_stream (endpoint hist reward_events) (Some a) c 0 None 2 (Hot None) w =
     (Inr (map (reward_msg a c) (drop 1 (take 3 reward_events)), Some (show_nat 1), True), w)"
  "mining_stream (endpoint hist reward_events) (Some a) c 0 None 2 (Hot (Some (show_nat 1))) w =
     (Inr (map (reward_msg a c) (drop 0 (take 1 reward_events)), None, False), w)"
proof -
  have l: "length reward_events = 3" by (simp add: reward_events_def)
  show "mining_stream (endpoint hist reward_events) (Some a) c 0 None 2 (Hot None) w =
     (Inr (map (reward_msg a c) (drop 1 (take 3 reward_events)), Some (show_nat 1), True), w)"
    using endpoint_rewards [of 3 reward_events hist a c 0 2 w] l by (simp add: mining_stream_def stream_page_def)
  have "map (reward_msg a c) (drop 0 (take 1 reward_events)) \<noteq> []" by (simp add: reward_events_def)
  then show "mining_stream (endpoint hist reward_events) (Some a) c 0 None 2 (Hot (Some (show_nat 1))) w =
     (Inr (map (reward_msg a c) (drop 0 (take 1 reward_events)), None, False), w)"
    using endpoint_rewards [of 1 reward_events hist a c 0 2 w] l by (simp add: mining_stream_def stream_page_def)
qed

theorem history_exhausted_stream_restarts_witness:
  "\<exists>r w1 r2 w2. get_ecc_txs (endpoint (\<lambda>_. [transfer ''m1'' 1 1]) reward_events) 0 None (example_params ''1'') () = (Inr r, w1) \<and>
     get_ecc_txs (endpoint (\<lambda>_. [transfer ''m1'' 1 1]) reward_events) 0 None
       ((example_params ''1'')\<lparr>ph_cursor := hr_next_cursor r, ph_mining_cursor := hr_next_mining_cursor r\<rparr>) w1 = (Inr r2, w2) \<and>
     ''m1'' \<in> td_id ` set (hr_data r) \<inter> td_id ` set (hr_data r2)"
proof -
  let ?hist = "[transfer ''m1'' 1 1]"
  let ?env = "endpoint (\<lambda>_. ?hist) reward_events"
  let ?p = "example_params ''1''"
  have ok: "history_ok ?env 0 ?p NACKL_CURRENCY_ID ?hist show_nat"
    by (rule example_history_ok) (auto simp: parse_token_digit NACKL_CURRENCY_ID_def)
  have one: "length ?hist \<le> unat (ph_page_size ?p)" "matching NACKL_CURRENCY_ID ?hist \<noteq> []" "ph_cursor ?p = None"
    by (simp_all add: example_params_def NACKL_CURRENCY_ID_def)
  have pop: "\<exists>w'. he_get_popitgame ?env 0 (ph_multifactor_address q) w = (Inr ''0:aa'', w')" for q w
    by (simp add: endpoint_def)
  have q1: "decode_cursor (ph_mining_cursor ?p) = Hot None" "ph_page_size ?p = 2"
    by (simp_all add: example_params_def decode_cursor_def)
  obtain r w1 where r: "get_ecc_txs ?env 0 None ?p () = (Inr r, w1)" "hr_has_next_page r = True"
    "hr_next_mining_cursor r = Some (show_nat 1)" "hr_next_cursor r = None"
    by (rule nackl_page [OF ok one pop _ reward_tx, unfolded q1, OF exI, OF reward_stream(1)]) blast
  let ?q = "?p\<lparr>ph_cursor := hr_next_cursor r, ph_mining_cursor := hr_next_mining_cursor r\<rparr>"
  have ok2: "history_ok ?env 0 ?q NACKL_CURRENCY_ID ?hist show_nat" "length ?hist \<le> unat (ph_page_size ?q)" "ph_cursor ?q = None"
    using ok one r(4) by simp_all
  have q2: "decode_cursor (ph_mining_cursor ?q) = Hot (Some (show_nat 1))" "ph_page_size ?q = 2"
    using show_nat_hot by (simp_all add: r(3) decode_cursor_def hot_cursors_def example_params_def)
  obtain r2 w2 where r2: "get_ecc_txs ?env 0 None ?q w1 = (Inr r2, w2)"
    by (rule nackl_page [OF ok2(1,2) one(2) ok2(3) pop _ reward_tx, unfolded q2, OF exI, OF reward_stream(2)]) blast
  have "em_id ` set (matching NACKL_CURRENCY_ID ?hist) = {''m1''}"
    by (simp add: NACKL_CURRENCY_ID_def) (simp add: transfer_def)
  then have "''m1'' \<in> td_id ` set (hr_data r) \<inter> td_id ` set (hr_data r2)"
    using history_exhausted_stream_restarts [OF ok one r(1) r(2) [THEN eqTrueE] r2] by (simp only: insert_subset)
  with r(1) r2 show ?thesis by (intro exI conjI)
qed

definition never_times_out :: "('w, 'c) history_env \<Rightarrow> bool" where
  "never_times_out env = (\<forall>t w w'. he_timed_out env t w w' = None)"

lemma probe_misses:
  assumes "serves env arc me old cur" "never_times_out env"
    and "\<forall>m \<in> set (drop (length old - 10) old). \<not> has_currency c m"
  obtains w' where "archive_has_data env (fetch_ecc_with_auto_pagination env me c) arc w = (False, w')"
proof -
  obtain k' w' where k': "k' \<le> length old" "length old \<le> k' + 10 * unat ARCHIVE_PROBE_PAGE_SIZE" and
    fetch: "fetch_ecc_with_auto_pagination env me c arc ARCHIVE_PROBE_PAGE_SIZE (cursor_at cur old (length old)) w =
      (Inr (matching c (drop k' (take (length old) old)), (if length old = 0 then None else Some (cur k')), 0 < k'), w')"
    by (rule fetch_range [OF assms(1) _ order_refl, of ARCHIVE_PROBE_PAGE_SIZE c w]) (simp add: ARCHIVE_PROBE_PAGE_SIZE_def)
  have "length old - 10 \<le> k'" using k'(2) by (simp add: ARCHIVE_PROBE_PAGE_SIZE_def)
  then have "set (drop k' old) \<subseteq> set (drop (length old - 10) old)" by (rule set_drop_subset_set_drop)
  with assms(3) have "matching c (drop k' old) = []" by (auto simp: filter_empty_conv)
  with fetch have "fetch_ecc_with_auto_pagination env me c arc ARCHIVE_PROBE_PAGE_SIZE None w =
      (Inr ([], (if length old = 0 then None else Some (cur k')), 0 < k'), w')" by (simp add: cursor_at_def)
  then show thesis
    using that assms(2) by (simp add: archive_has_data_def archive_call_or_empty_def never_times_out_def)
qed

text \<open>
  Further property.  Older messages behind ten others are lost: when the last page of the hot endpoint
  has entries and the ten newest messages of the archive are of other currencies, the history ends
  there, and a caller who follows the cursors never sees the messages of the requested currency that
  the archive holds.
\<close>

theorem history_archive_probe_misses:
  assumes ok: "history_ok env hot params c hist cur" "c \<noteq> NACKL_CURRENCY_ID" "ph_cursor params = None"
    and hot: "length hist \<le> unat (ph_page_size params)" "matching c hist \<noteq> []"
    and archive: "serves env arc (ph_multifactor_address params) old cur'" "never_times_out env"
      "\<forall>m \<in> set (drop (length old - 10) old). \<not> has_currency c m"
    and m: "m \<in> set old" "has_currency c m" "em_id m \<notin> em_id ` set hist"
  shows "\<exists>data. read_all env hot (Some arc) 1 params w = Some data \<and> em_id m \<notin> td_id ` set data"
proof -
  let ?me = "ph_multifactor_address params" and ?mf = "matching c hist"
  have srv: "serves env hot ?me hist cur" "0 < ph_page_size params" "joins_succeed env"
    and tok: "parse_token_id (ph_token_id params) = Inr (Ecc c)"
    using ok(1) by (auto simp: history_ok_def parse_token_id_def)
  obtain nc w1 where f: "fetch_ecc_with_auto_pagination env ?me c hot (ph_page_size params) None w = (Inr (?mf, nc, False), w1)"
    by (rule fetch_single [OF srv(1,2) hot(1)])
  obtain w2 where "archive_has_data env (fetch_ecc_with_auto_pagination env ?me c) arc w1 = (False, w2)"
    by (rule probe_misses [OF archive])
  with f have mf: "stream_page env (fetch_ecc_with_auto_pagination env ?me c) hot (Some arc) (ph_page_size params)
      (decode_cursor (ph_cursor params)) w = (Inr (?mf, None, False), w2)"
    using hot(2) ok(3) by (simp add: stream_page_def decode_cursor_def)
  obtain names w' where names: "resolve_names env hot [] (counterparties ?me (keep_new em_id {} ?mf)) Map.empty w2 = (Inr names, w')"
    using resolve_names_total [OF srv(3)] by blast
  have "readable ?me c m" if "m \<in> set ?mf" for m using ok(1) that by (simp add: history_ok_def)
  then obtain data where data: "build_data ?me c names ?mf [] = Inr data" using build_data_total by blast
  let ?r = "\<lparr> hr_data = data, hr_next_cursor = None, hr_next_mining_cursor = None, hr_has_next_page = False \<rparr>"
  have "get_ecc_txs env hot (Some arc) params w = (Inr ?r, w')"
    unfolding get_ecc_txs_eq_Inr using tok ok(2) mf names data
    by (intro exI [of _ c] exI [of _ None] exI [of _ w] exI [of _ ?mf] exI [of _ False] exI [of _ w2] exI [of _ "[]"]
        exI [of _ False] exI [of _ w2] exI [of _ names]) (simp add: mining_stream_def)
  then have "read_all env hot (Some arc) 1 params w = Some data" by (simp add: get_history_def tok)
  moreover have "em_id m \<notin> td_id ` set data" using m(3) build_data_ids(1) [OF data] by auto
  ultimately show ?thesis by blast
qed

text \<open>The archive holds one message of currency 2 behind ten of currency 3.\<close>

definition archived :: "EccMsg list" where
  "archived = transfer ''old'' 1 2 # map (\<lambda>n. transfer ''other'' (word_of_nat n) 3) [2..<12]"

definition split_hist :: "u64 \<Rightarrow> EccMsg list" where
  "split_hist c = (if c = 0 then [transfer ''m'' 20 2] else archived)"

theorem history_archive_probe_misses_witness:
  "\<exists>data. read_all (endpoint split_hist []) 0 (Some 1) 1 (example_params ''2'') () = Some data \<and> ''old'' \<notin> td_id ` set data"
proof -
  have ok: "history_ok (endpoint split_hist []) 0 (example_params ''2'') 2 (split_hist 0) show_nat"
    by (rule example_history_ok) (auto simp: split_hist_def parse_token_digit)
  have p: "2 \<noteq> NACKL_CURRENCY_ID" "ph_cursor (example_params ''2'') = None"
    "length (split_hist 0) \<le> unat (ph_page_size (example_params ''2''))" "matching 2 (split_hist 0) \<noteq> []"
    by (simp_all add: NACKL_CURRENCY_ID_def example_params_def split_hist_def)
  have arc: "serves (endpoint split_hist []) 1 (ph_multifactor_address (example_params ''2'')) archived show_nat"
    using endpoint_serves [of split_hist "[]" 1] by (simp add: split_hist_def)
  have others: "\<forall>m \<in> set (drop (length archived - 10) archived). \<not> has_currency 2 m" by (auto simp: archived_def)
  have old: "transfer ''old'' 1 2 \<in> set archived" "has_currency 2 (transfer ''old'' 1 2)"
    "em_id (transfer ''old'' 1 2) \<notin> em_id ` set (split_hist 0)" "em_id (transfer ''old'' 1 2) = ''old''"
    by (simp_all add: archived_def split_hist_def) (simp_all add: transfer_def)
  have "never_times_out (endpoint split_hist [])" by (simp add: never_times_out_def endpoint_def)
  from history_archive_probe_misses [OF ok p arc this others old(1-3), of "()"] show ?thesis
    by (simp only: old(4))
qed

end
