(* ===== verification/SellOrders.thy ===== *)
theory SellOrders
  imports Accounts "HOL-Library.Product_Lexorder" "HOL-Library.Multiset"
begin

text \<open>
  \<open>bee_wallet/src/services/tokens/sell_orders.rs\<close>: the paged list of a seller's open orders in the shell
  accumulator.  Orders are found by the events of the accumulator on a hot and an archive endpoint;
  queue positions and owners are read from the contracts of the hot endpoint.

  The GraphQL client, the decoder of the accumulator's events, the contract getters and the order in
  which concurrent getters finish are fields of \<open>sell_env\<close>; errors of the kit arrive as \<open>AppError\<close>.
  A \<open>usize\<close> is a natural number, and a \<open>BTreeSet\<close> the set of its elements.
\<close>

section \<open>Data\<close>

type_synonym u16 = "16 word"
type_synonym order_key = "u16 \<times> u64"

definition VALID_DENOMS :: "u16 list" where "VALID_DENOMS = [1, 10, 100, 1000]"
definition EVENT_PAGE_SIZE :: u64 where "EVENT_PAGE_SIZE = 100"
definition MAX_EVENT_PAGES :: nat where "MAX_EVENT_PAGES = 50"

definition sell_orders_retry_policy :: RetryPolicy where
  "sell_orders_retry_policy =
     \<lparr> max_attempts = 3, max_total = None, base_delay = 300, max_delay = 600, jitter = True \<rparr>"

record KitEvent =
  kv_id :: string
  kv_dst :: string
  kv_created_at :: u64
  kv_body :: string

datatype DecodedAccumulatorRootEvent =
    SellOrderCreated string u16 u64
  | UsdcClaimed string u16 u64
  | OtherAccumulatorEvent

record ResultOfGetQueueState =
  qs_next_id :: u64
  qs_sold_prefix :: u64

record lot_details =
  ld_owner :: string
  ld_claimed :: bool

record SellOrderInfo =
  so_denom :: u16
  so_order_id :: u64
  so_sell_order_address :: string
  so_claimed :: bool
  so_sold :: bool
  so_position_in_queue :: u64

record GetMySellOrdersResult =
  ms_orders :: "SellOrderInfo list"
  ms_next_cursor :: "string option"
  ms_has_next_page :: bool

record ('w, 'c) sell_env =
  se_retry :: "'w retry_env"
  se_query :: "'c \<Rightarrow> json \<Rightarrow> ('w, ClientError, json) io"
  se_error_value :: "ClientError \<Rightarrow> json result"
  se_dapp_id :: string
  se_accumulator_address :: "'c \<Rightarrow> string"
  se_created_dst :: string
  se_claimed_dst :: string
  se_from_event :: "'c \<Rightarrow> KitEvent \<Rightarrow> DecodedAccumulatorRootEvent result"
  se_get_queue_state :: "'c \<Rightarrow> u16 \<Rightarrow> ('w, AppError, ResultOfGetQueueState) io"
  se_get_sell_order_address :: "'c \<Rightarrow> u16 \<Rightarrow> u64 \<Rightarrow> ('w, AppError, string) io"
  se_get_details :: "'c \<Rightarrow> string \<Rightarrow> ('w, AppError, lot_details) io"
  se_pick :: "order_key list \<Rightarrow> 'w \<Rightarrow> nat \<times> 'w"

text \<open>Every call goes through the retry policy, whatever its error.\<close>

definition with_retries :: "('w, 'c) sell_env \<Rightarrow> ('w, 'e, 'a) io \<Rightarrow> ('w, 'e, 'a) io" where
  "with_retries env op w = the (with_retry_policy (se_retry env) sell_orders_retry_policy (\<lambda>_. True) op w)"

section \<open>Events\<close>

definition addresses_equal :: "string \<Rightarrow> string \<Rightarrow> bool" where
  "addresses_equal a b = (to_ascii_lowercase (trim a) = to_ascii_lowercase (trim b))"

definition internal_to_external_address :: "string \<Rightarrow> string" where
  "internal_to_external_address addr =
     (case dropWhile (\<lambda>c. c \<noteq> CHR '':'') addr of
        [] \<Rightarrow> '':'' @ addr
      | _ # rest \<Rightarrow> '':'' @ rest)"

fun json_as_u64 :: "json \<Rightarrow> u64 option" where
  "json_as_u64 (JNum n) = Some n"
| "json_as_u64 _ = None"

fun json_as_bool :: "json \<Rightarrow> bool option" where
  "json_as_bool (JBool b) = Some b"
| "json_as_bool _ = None"

fun json_as_array :: "json \<Rightarrow> json list option" where
  "json_as_array (JArr vs) = Some vs"
| "json_as_array _ = None"

definition str_field :: "string \<Rightarrow> json \<Rightarrow> string" where
  "str_field k v = unwrap_or [] (Option.bind (json_get k v) json_as_str)"

definition event_of_edge :: "json \<Rightarrow> KitEvent option" where
  "event_of_edge edge =
     map_option (\<lambda>node. \<lparr> kv_id = str_field ''msg_id'' node, kv_dst = str_field ''dst'' node,
                          kv_created_at = unwrap_or 0 (Option.bind (json_get ''created_at'' node) json_as_u64),
                          kv_body = str_field ''body'' node \<rparr>) (json_get ''node'' edge)"

text \<open>The cursor of the first edge that has one.\<close>

fun first_cursor :: "json list \<Rightarrow> string option" where
  "first_cursor [] = None"
| "first_cursor (edge # edges) =
     (case Option.bind (json_get ''cursor'' edge) json_as_str of Some c \<Rightarrow> Some c | None \<Rightarrow> first_cursor edges)"

text \<open>The loop over at most \<open>MAX_EVENT_PAGES\<close> pages, with \<open>n\<close> left; \<open>null\<close> counts as no events.\<close>

fun event_pages ::
  "('w, 'c) sell_env \<Rightarrow> 'c \<Rightarrow> string \<Rightarrow> string \<Rightarrow> nat \<Rightarrow> string option \<Rightarrow> KitEvent list \<Rightarrow> ('w, AppError, KitEvent list) io" where
  "event_pages env ctx accumulator_addr dst 0 before all w = (Inr all, w)"
| "event_pages env ctx accumulator_addr dst (Suc n) before all w =
     (let variables = JObj [(''account_id'', JStr (account_id accumulator_addr)), (''dapp_id'', JStr (se_dapp_id env)),
                            (''dst'', JStr dst), (''last'', JNum EVENT_PAGE_SIZE),
                            (''before'', case before of None \<Rightarrow> JNull | Some c \<Rightarrow> JStr c)]
      in case with_retries env (io_map_err (\<lambda>e. with_context ''events GraphQL query''
                (app_error_from_client (se_error_value env) e)) (se_query env ctx variables)) w of
           (Inl e, w1) \<Rightarrow> (Inl e, w1)
         | (Inr result_value, w1) \<Rightarrow>
             (case json_pointer [''data'', ''blockchain'', ''account'', ''events''] result_value of
                None \<Rightarrow> (Inr all, w1)
              | Some JNull \<Rightarrow> (Inr all, w1)
              | Some events_field \<Rightarrow>
                  let edges = unwrap_or [] (Option.bind (json_get ''edges'' events_field) json_as_array);
                      all = all @ List.map_filter event_of_edge edges;
                      has_prev = unwrap_or False (Option.bind (json_pointer [''pageInfo'', ''hasPreviousPage''] events_field)
                                                    json_as_bool)
                  in if edges = [] then (Inr all, w1)
                     else if \<not> has_prev then (Inr all, w1)
                     else case first_cursor edges of
                            None \<Rightarrow> (Inr all, w1)
                          | Some c \<Rightarrow> event_pages env ctx accumulator_addr dst n (Some c) all w1))"

definition fetch_events_one_endpoint ::
  "('w, 'c) sell_env \<Rightarrow> 'c \<Rightarrow> string \<Rightarrow> string \<Rightarrow> ('w, AppError, KitEvent list) io" where
  "fetch_events_one_endpoint env ctx accumulator_addr dst =
     event_pages env ctx accumulator_addr dst MAX_EVENT_PAGES None []"

type_synonym picker = "DecodedAccumulatorRootEvent \<Rightarrow> string \<Rightarrow> order_key option"

definition decode_and_filter ::
  "('w, 'c) sell_env \<Rightarrow> 'c \<Rightarrow> KitEvent list \<Rightarrow> string \<Rightarrow> picker \<Rightarrow> order_key set" where
  "decode_and_filter env ctx events seller pick =
     set (List.map_filter (\<lambda>ev. case se_from_event env ctx ev of Inl _ \<Rightarrow> None | Inr decoded \<Rightarrow> pick decoded seller) events)"

definition fetch_seller_pairs_on_endpoint ::
  "('w, 'c) sell_env \<Rightarrow> 'c \<Rightarrow> string \<Rightarrow> string \<Rightarrow> string \<Rightarrow> string \<Rightarrow> picker \<Rightarrow> ('w, AppError, order_key set) io" where
  "fetch_seller_pairs_on_endpoint env ctx accumulator_addr seller primary_dst legacy_dst pick =
     (let legacy = io_then (fetch_events_one_endpoint env ctx accumulator_addr legacy_dst) (\<lambda>events.
                     io_lift (Inr (decode_and_filter env ctx events seller pick)))
      in if primary_dst \<noteq> legacy_dst
         then io_then (fetch_events_one_endpoint env ctx accumulator_addr primary_dst) (\<lambda>primary.
                let pairs = decode_and_filter env ctx primary seller pick
                in if pairs \<noteq> {} then io_lift (Inr pairs) else legacy)
         else legacy)"

definition fetch_seller_pairs_with_archive_fallback ::
  "('w, 'c) sell_env \<Rightarrow> 'c \<Rightarrow> 'c option \<Rightarrow> string \<Rightarrow> string \<Rightarrow> string \<Rightarrow> string \<Rightarrow> picker \<Rightarrow>
   ('w, AppError, order_key set) io" where
  "fetch_seller_pairs_with_archive_fallback env hot archive accumulator_addr seller primary_dst legacy_dst pick =
     io_then (fetch_seller_pairs_on_endpoint env hot accumulator_addr seller primary_dst legacy_dst pick) (\<lambda>hot_pairs.
       if hot_pairs \<noteq> {} then io_lift (Inr hot_pairs)
       else case archive of
              Some arc_ctx \<Rightarrow> fetch_seller_pairs_on_endpoint env arc_ctx accumulator_addr seller primary_dst legacy_dst pick
            | None \<Rightarrow> io_lift (Inr hot_pairs))"

definition pick_created :: picker where
  "pick_created ev who =
     (case ev of SellOrderCreated seller denom order_id \<Rightarrow>
                   if addresses_equal seller who then Some (denom, order_id) else None
      | _ \<Rightarrow> None)"

definition pick_claimed :: picker where
  "pick_claimed ev who =
     (case ev of UsdcClaimed seller denom order_id \<Rightarrow>
                   if addresses_equal seller who then Some (denom, order_id) else None
      | _ \<Rightarrow> None)"

section \<open>Cursors\<close>

definition encode_cursor :: "u16 \<Rightarrow> u64 \<Rightarrow> string" where
  "encode_cursor denom order_id = show_u denom @ '':'' @ show_u order_id"

text \<open>\<open>splitn(2, ':')\<close>: up to the first colon, and the rest.\<close>

definition parse_cursor :: "string \<Rightarrow> order_key option" where
  "parse_cursor s =
     (case res_ok (parse_u (takeWhile (\<lambda>c. c \<noteq> CHR '':'') s)) of
        None \<Rightarrow> None
      | Some d \<Rightarrow> (case dropWhile (\<lambda>c. c \<noteq> CHR '':'') s of
                     [] \<Rightarrow> None
                   | _ # rest \<Rightarrow> map_option (\<lambda>n. (d, n)) (res_ok (parse_u rest))))"

lemma colon_not_digit: "is_digit c \<Longrightarrow> c \<noteq> CHR '':''"
  by (auto simp: is_digit_def)

lemma parse_cursor_encode [simp]: "parse_cursor (encode_cursor d n) = Some (d, n)"
proof -
  have "c \<noteq> CHR '':''" if "c \<in> set (show_u d)" for c
    using that show_nat_all_digits [of "unat d"] colon_not_digit by (auto simp: show_u_def list_all_iff)
  then have "takeWhile (\<lambda>c. c \<noteq> CHR '':'') (show_u d @ CHR '':'' # show_u n) = show_u d"
    "dropWhile (\<lambda>c. c \<noteq> CHR '':'') (show_u d @ CHR '':'' # show_u n) = CHR '':'' # show_u n"
    by (simp_all add: takeWhile_append2 dropWhile_append2)
  then show ?thesis by (simp add: parse_cursor_def encode_cursor_def)
qed

section \<open>The list\<close>

fun fetch_queue_states ::
  "('w, 'c) sell_env \<Rightarrow> 'c \<Rightarrow> u16 list \<Rightarrow> (u16 \<rightharpoonup> ResultOfGetQueueState) \<Rightarrow> ('w, AppError, u16 \<rightharpoonup> ResultOfGetQueueState) io" where
  "fetch_queue_states env hot [] queue_states w = (Inr queue_states, w)"
| "fetch_queue_states env hot (d # ds) queue_states w =
     (case with_retries env (se_get_queue_state env hot d) w of
        (Inl e, w1) \<Rightarrow> (Inl (with_context (''get_my_sell_orders: get_queue_state(d='' @ show_u d @ '')'') e), w1)
      | (Inr qs, w1) \<Rightarrow> fetch_queue_states env hot ds (queue_states(d \<mapsto> qs)) w1)"

definition live_order :: "order_key set \<Rightarrow> (u16 \<rightharpoonup> ResultOfGetQueueState) \<Rightarrow> order_key \<Rightarrow> bool" where
  "live_order claimed_pairs queue_states pair =
     (if pair \<in> claimed_pairs then False
      else case queue_states (fst pair) of
             None \<Rightarrow> False
           | Some qs \<Rightarrow> \<not> (snd pair = 0 \<or> snd pair \<ge> qs_next_id qs))"

definition order_candidates ::
  "order_key set \<Rightarrow> order_key set \<Rightarrow> (u16 \<rightharpoonup> ResultOfGetQueueState) \<Rightarrow> order_key list" where
  "order_candidates created_pairs claimed_pairs queue_states =
     sort (filter (live_order claimed_pairs queue_states) (sorted_list_of_set created_pairs))"

text \<open>\<open>position\<close> of the first candidate after the cursor, or the length.\<close>

fun position_or_len :: "('a \<Rightarrow> bool) \<Rightarrow> 'a list \<Rightarrow> nat" where
  "position_or_len P [] = 0"
| "position_or_len P (x # xs) = (if P x then 0 else Suc (position_or_len P xs))"

definition page_start :: "order_key list \<Rightarrow> string option \<Rightarrow> AppError + nat" where
  "page_start candidates cursor =
     (case cursor of
        None \<Rightarrow> Inr 0
      | Some c \<Rightarrow> (case parse_cursor c of
                     None \<Rightarrow> Inl (app_error_new (''get_my_sell_orders: invalid cursor `'' @ c @ ''`''))
                   | Some pair \<Rightarrow> Inr (position_or_len (\<lambda>p. p > pair) candidates)))"

definition page_limit :: "u32 \<Rightarrow> nat" where
  "page_limit page_size = unat (max page_size 1)"

definition page_pairs :: "order_key list \<Rightarrow> nat \<Rightarrow> u32 \<Rightarrow> order_key list" where
  "page_pairs candidates start page_size =
     (let take_count = min (length candidates - start) (page_limit page_size + 1)
      in take take_count (drop start candidates))"

text \<open>The task of one order.\<close>

definition order_task ::
  "('w, 'c) sell_env \<Rightarrow> 'c \<Rightarrow> string \<Rightarrow> (u16 \<rightharpoonup> ResultOfGetQueueState) \<Rightarrow> order_key \<Rightarrow> ('w, AppError, SellOrderInfo option) io" where
  "order_task env hot seller queue_states pair =
     (let denom = fst pair; order_id = snd pair; qs = the (queue_states denom);
          of_order = ''d='' @ show_u denom @ '', order_id='' @ show_u order_id @ '')''
      in io_then (io_map_err (with_context (''get_my_sell_orders: get_sell_order_address('' @ of_order))
                    (with_retries env (se_get_sell_order_address env hot denom order_id))) (\<lambda>lot_addr.
         io_then (io_map_err (with_context (''get_my_sell_orders: lot.get_details(addr='' @ lot_addr @ '', '' @ of_order))
                    (with_retries env (se_get_details env hot lot_addr))) (\<lambda>details.
         if \<not> addresses_equal (ld_owner details) seller then io_lift (Inr None)
         else
           let sold = (order_id \<le> qs_sold_prefix qs);
               position = (if sold then 0 else sat_sub order_id (qs_sold_prefix qs))
           in io_lift (Inr (Some \<lparr> so_denom = denom, so_order_id = order_id, so_sell_order_address = lot_addr,
                so_claimed = ld_claimed details, so_sold = sold, so_position_in_queue = position \<rparr>)))))"

text \<open>
  The tasks run concurrently, at most eight at a time; \<open>se_pick\<close> says which of the remaining ones
  finishes next, and the calls of a task take place then.  The first error ends the loop.
\<close>

lemma mod_length_less [simp]: "xs \<noteq> [] \<Longrightarrow> i mod length xs < length xs"
  by simp

function drain_tasks ::
  "('w, 'c) sell_env \<Rightarrow> (order_key \<Rightarrow> ('w, AppError, SellOrderInfo option) io) \<Rightarrow> order_key list \<Rightarrow> SellOrderInfo list \<Rightarrow>
   ('w, AppError, SellOrderInfo list) io" where
  "drain_tasks env task tasks results w =
     (if tasks = [] then (Inr results, w)
      else case se_pick env tasks w of (i, w1) \<Rightarrow>
        (let n = i mod length tasks; rest = take n tasks @ drop (Suc n) tasks
         in case task (tasks ! n) w1 of
              (Inl e, w2) \<Rightarrow> (Inl e, w2)
            | (Inr (Some info), w2) \<Rightarrow> drain_tasks env task rest (results @ [info]) w2
            | (Inr None, w2) \<Rightarrow> drain_tasks env task rest results w2))"
  by pat_completeness auto
termination
  by (relation "measure (\<lambda>(env, task, tasks, results, w). length tasks)") (auto simp: min_def, (metis leD mod_length_less)+)

declare drain_tasks.simps [simp del]

definition orders_page :: "order_key list \<Rightarrow> nat \<Rightarrow> SellOrderInfo list \<Rightarrow> GetMySellOrdersResult" where
  "orders_page pairs limit results =
     (let results = sort_key (\<lambda>s. (so_denom s, so_order_id s)) results;
          has_next_page = length pairs > limit;
          results = (if has_next_page \<and> length results > limit then take limit results else results);
          next_cursor = (if has_next_page \<and> results \<noteq> []
                         then Some (encode_cursor (so_denom (last results)) (so_order_id (last results))) else None)
      in \<lparr> ms_orders = results, ms_next_cursor = next_cursor, ms_has_next_page = has_next_page \<rparr>)"

definition get_my_sell_orders ::
  "('w, 'c) sell_env \<Rightarrow> 'c \<Rightarrow> 'c option \<Rightarrow> string \<Rightarrow> u32 \<Rightarrow> string option \<Rightarrow> ('w, AppError, GetMySellOrdersResult) io" where
  "get_my_sell_orders env hot archive seller page_size cursor =
     (let addr = se_accumulator_address env hot
      in io_then (fetch_seller_pairs_with_archive_fallback env hot archive addr seller
                    (internal_to_external_address seller) (se_created_dst env) pick_created) (\<lambda>created_pairs.
         io_then (fetch_seller_pairs_with_archive_fallback env hot archive addr seller
                    (se_claimed_dst env) (se_claimed_dst env) pick_claimed) (\<lambda>claimed_pairs.
         io_then (fetch_queue_states env hot VALID_DENOMS Map.empty) (\<lambda>queue_states.
         let candidates = order_candidates created_pairs claimed_pairs queue_states
         in io_then (io_lift (page_start candidates cursor)) (\<lambda>start.
            let pairs = page_pairs candidates start page_size
            in io_then (drain_tasks env (order_task env hot seller queue_states) pairs []) (\<lambda>results.
               io_lift (Inr (orders_page pairs (page_limit page_size) results))))))))"

end
