(* ===== verification/SellOrdersPaging.thy ===== *)
theory SellOrdersPaging
  imports SellOrders
begin

text \<open>
  The pages of the list of sell orders against their specification, the sorted list of the seller's
  live orders, and the orders the list hides.
\<close>

section \<open>Concurrent tasks\<close>

abbreviation order_key_of :: "SellOrderInfo \<Rightarrow> order_key" where
  "order_key_of s \<equiv> (so_denom s, so_order_id s)"

lemma remove_nth_mset: "n < length xs \<Longrightarrow> mset xs = add_mset (xs ! n) (mset (take n xs @ drop (Suc n) xs))"
  by (metis id_take_nth_drop mset.simps(2) mset_append union_mset_add_mset_right)

text \<open>Whatever the order in which the tasks finish, the results are those of all tasks.\<close>

lemma drain_tasks_all:
  assumes "\<And>p w. p \<in> set tasks \<Longrightarrow> fst (task p w) = Inr (Some (info p))"
  shows "\<exists>rs w'. drain_tasks env task tasks results w = (Inr rs, w') \<and> mset rs = mset results + mset (map info tasks)"
  using assms
proof (induction "length tasks" arbitrary: tasks results w)
  case 0
  then show ?case by (simp add: drain_tasks.simps)
next
  case (Suc m)
  obtain i w1 where pick: "se_pick env tasks w = (i, w1)" by (cases "se_pick env tasks w")
  let ?n = "i mod length tasks"
  let ?rest = "take ?n tasks @ drop (Suc ?n) tasks"
  have ne: "tasks \<noteq> []" using Suc.hyps(2) by auto
  then have n: "?n < length tasks" by (rule mod_length_less)
  obtain w2 where t: "task (tasks ! ?n) w1 = (Inr (Some (info (tasks ! ?n))), w2)"
    using Suc.prems [OF nth_mem [OF n], of w1] by (metis prod.collapse)
  have sub: "set ?rest \<subseteq> set tasks" using set_take_subset set_drop_subset by fastforce
  have len: "m = length ?rest" using Suc.hyps(2) n by simp
  obtain rs w' where ih: "drain_tasks env task ?rest (results @ [info (tasks ! ?n)]) w2 = (Inr rs, w')"
    "mset rs = mset (results @ [info (tasks ! ?n)]) + mset (map info ?rest)"
    using Suc.hyps(1) [OF len, of "results @ [info (tasks ! ?n)]" w2] Suc.prems sub by blast
  have "drain_tasks env task tasks results w = (Inr rs, w')"
    using ne pick t ih(1) by (simp add: drain_tasks.simps [of env task tasks] Let_def)
  moreover have "mset rs = mset results + mset (map info tasks)"
    using ih(2) remove_nth_mset [OF n] by (simp add: mset_map image_mset_union del: append_take_drop_id)
  ultimately show ?case by blast
qed

lemma drain_tasks_subset:
  assumes "\<And>p w o' w'. p \<in> set tasks \<Longrightarrow> task p w = (Inr (Some o'), w') \<Longrightarrow> order_key_of o' = p"
    and "drain_tasks env task tasks results w = (Inr rs, w')"
  shows "order_key_of ` set rs \<subseteq> order_key_of ` set results \<union> set tasks"
  using assms
proof (induction "length tasks" arbitrary: tasks results w)
  case 0
  then show ?case by (simp add: drain_tasks.simps)
next
  case (Suc m)
  obtain i w1 where pick: "se_pick env tasks w = (i, w1)" by (cases "se_pick env tasks w")
  let ?n = "i mod length tasks"
  let ?rest = "take ?n tasks @ drop (Suc ?n) tasks"
  have ne: "tasks \<noteq> []" using Suc.hyps(2) by auto
  then have n: "?n < length tasks" by (rule mod_length_less)
  have sub: "set ?rest \<subseteq> set tasks" using set_take_subset set_drop_subset by fastforce
  have len: "m = length ?rest" using Suc.hyps(2) n by simp
  obtain r w2 where t: "task (tasks ! ?n) w1 = (Inr r, w2)"
    and run: "drain_tasks env task ?rest (case r of Some info \<Rightarrow> results @ [info] | None \<Rightarrow> results) w2 = (Inr rs, w')"
    using Suc.prems(2) ne pick
    by (auto simp: drain_tasks.simps [of env task tasks] Let_def split: sum.splits option.splits prod.splits)
  have "order_key_of ` set rs \<subseteq> order_key_of ` set (case r of Some info \<Rightarrow> results @ [info] | None \<Rightarrow> results) \<union> set ?rest"
    using Suc.hyps(1) [OF len _ run] Suc.prems(1) sub by blast
  moreover have "order_key_of o' = tasks ! ?n" if "r = Some o'" for o'
    using Suc.prems(1) [OF nth_mem [OF n]] t that by blast
  ultimately show ?case using sub nth_mem [OF n] by (cases r) auto
qed

lemma order_task_key:
  assumes "order_task env hot seller qs p w = (Inr (Some s), w')"
  shows "order_key_of s = p"
  using assms by (cases p) (auto simp: order_task_def Let_def res_simps split: if_splits)

section \<open>Pages\<close>

lemma position_or_len_takeWhile: "position_or_len P xs = length (takeWhile (\<lambda>x. \<not> P x) xs)"
  by (induction xs) auto

lemma position_after:
  fixes xs :: "'a::linorder list"
  assumes "sorted_wrt (<) xs" "k < length xs"
  shows "position_or_len (\<lambda>x. x > xs ! k) xs = Suc k"
proof -
  have "takeWhile (\<lambda>x. \<not> x > xs ! k) xs = take (Suc k) xs"
  proof (rule takeWhile_eq_take_P_nth)
    show "\<not> xs ! i > xs ! k" if "i < Suc k" "i < length xs" for i
      using that assms by (auto simp: less_Suc_eq sorted_wrt_iff_nth_less not_less intro: less_imp_le)
    show "\<not> \<not> xs ! Suc k > xs ! k" if "Suc k < length xs"
      using that assms(1) by (simp add: sorted_wrt_iff_nth_less)
  qed
  then show ?thesis using assms(2) by (simp add: position_or_len_takeWhile)
qed

text \<open>The cursor with which the page at position \<open>k\<close> of the candidates is asked for.\<close>

definition order_cursor :: "order_key list \<Rightarrow> nat \<Rightarrow> string option" where
  "order_cursor cands k = (if k = 0 then None else Some (case cands ! (k - 1) of (d, n) \<Rightarrow> encode_cursor d n))"

lemma page_start_at:
  assumes "sorted_wrt (<) cands" "k \<le> length cands"
  shows "page_start cands (order_cursor cands k) = Inr k"
proof (cases k)
  case (Suc j)
  obtain d n where p: "cands ! j = (d, n)" by fastforce
  with Suc have "page_start cands (order_cursor cands k) = Inr (position_or_len (\<lambda>p. p > cands ! j) cands)"
    by (simp add: page_start_def order_cursor_def)
  with Suc assms show ?thesis by (simp add: position_after)
qed (simp add: page_start_def order_cursor_def)

lemma sorted_candidates:
  assumes "finite created"
  shows "sorted_wrt (<) (order_candidates created claimed qs)"
    and "set (order_candidates created claimed qs) = {p \<in> created. live_order claimed qs p}"
proof -
  have "sorted (order_candidates created claimed qs)" "distinct (order_candidates created claimed qs)"
    by (simp_all add: order_candidates_def)
  then show "sorted_wrt (<) (order_candidates created claimed qs)" by (simp add: strict_sorted_iff)
  show "set (order_candidates created claimed qs) = {p \<in> created. live_order claimed qs p}"
    using assms by (auto simp: order_candidates_def)
qed

lemma page_pairs_take: "page_pairs cands k n = take (page_limit n + 1) (drop k cands)"
  by (simp add: page_pairs_def Let_def min_def)

lemma page_limit_pos: "0 < page_limit n"
  by (auto simp: page_limit_def max_def unat_gt_0)

lemma orders_page_sorted:
  assumes "mset rs = mset (map info pairs)" "\<And>p. p \<in> set pairs \<Longrightarrow> order_key_of (info p) = p" "sorted_wrt (<) pairs"
    and "length pairs \<le> limit + 1" "0 < limit"
  shows "ms_orders (orders_page pairs limit rs) = map info (take limit pairs)"
    and "ms_has_next_page (orders_page pairs limit rs) = (length pairs > limit)"
    and "ms_next_cursor (orders_page pairs limit rs) =
           (if length pairs > limit then Some (case pairs ! (limit - 1) of (d, n) \<Rightarrow> encode_cursor d n) else None)"
proof -
  have keys: "map order_key_of (map info pairs) = pairs" using assms(2) by (simp add: map_idI)
  have strict: "sorted pairs" "distinct pairs" using assms(3) by (simp_all add: strict_sorted_iff)
  have inj: "inj_on order_key_of (set rs)"
  proof -
    have "set rs = set (map info pairs)" using assms(1) by (metis set_mset_mset)
    moreover have "distinct (map order_key_of (map info pairs))" using keys strict(2) by simp
    ultimately show ?thesis by (simp only: distinct_map)
  qed
  have sorted: "sort_key order_key_of rs = map info pairs"
    using assms(1) inj keys strict(1) by (intro sort_key_inj_key_eq) auto
  show "ms_orders (orders_page pairs limit rs) = map info (take limit pairs)"
    "ms_has_next_page (orders_page pairs limit rs) = (length pairs > limit)"
    unfolding orders_page_def Let_def sorted by (auto simp: take_map)
  have "last (map info (take limit pairs)) = info (pairs ! (limit - 1))" if "length pairs > limit"
    using that assms(5) by (subst last_conv_nth) auto
  moreover have "order_key_of (info (pairs ! (limit - 1))) = pairs ! (limit - 1)" if "length pairs > limit"
    using that assms(2,5) by simp
  ultimately show "ms_next_cursor (orders_page pairs limit rs) =
           (if length pairs > limit then Some (case pairs ! (limit - 1) of (d, n) \<Rightarrow> encode_cursor d n) else None)"
    unfolding orders_page_def Let_def sorted using assms(5)
    by (auto simp: take_map split: prod.splits)
qed

text \<open>
  A chain that stands still: the events and queue states the code reads are always the same, and every
  candidate's lot belongs to the seller.
\<close>

definition chain_ok ::
  "('w, 'c) sell_env \<Rightarrow> 'c \<Rightarrow> 'c option \<Rightarrow> string \<Rightarrow> order_key set \<Rightarrow> order_key set \<Rightarrow>
   (u16 \<rightharpoonup> ResultOfGetQueueState) \<Rightarrow> bool" where
  "chain_ok env hot archive seller created claimed qs \<longleftrightarrow> finite created \<and>
     (\<forall>w. fst (fetch_seller_pairs_with_archive_fallback env hot archive (se_accumulator_address env hot) seller
                 (internal_to_external_address seller) (se_created_dst env) pick_created w) = Inr created) \<and>
     (\<forall>w. fst (fetch_seller_pairs_with_archive_fallback env hot archive (se_accumulator_address env hot) seller
                 (se_claimed_dst env) (se_claimed_dst env) pick_claimed w) = Inr claimed) \<and>
     (\<forall>w. fst (fetch_queue_states env hot VALID_DENOMS Map.empty w) = Inr qs) \<and>
     (\<forall>p \<in> set (order_candidates created claimed qs). \<exists>info. \<forall>w. fst (order_task env hot seller qs p w) = Inr (Some info))"

lemma orders_page_at:
  assumes ok: "chain_ok env hot archive seller created claimed qs"
    and cands: "cands = order_candidates created claimed qs" "k \<le> length cands"
  obtains r w' where "get_my_sell_orders env hot archive seller n (order_cursor cands k) w = (Inr r, w')"
    "map order_key_of (ms_orders r) = take (page_limit n) (drop k cands)"
    "ms_has_next_page r = (length cands > k + page_limit n)"
    "length cands > k + page_limit n \<longrightarrow> ms_next_cursor r = order_cursor cands (k + page_limit n)"
proof -
  have fin: "finite created" using ok by (simp add: chain_ok_def)
  note strict = sorted_candidates(1) [OF fin, of claimed qs, folded cands(1)]
  obtain w1 where w1: "fetch_seller_pairs_with_archive_fallback env hot archive (se_accumulator_address env hot) seller
      (internal_to_external_address seller) (se_created_dst env) pick_created w = (Inr created, w1)"
    using ok unfolding chain_ok_def by (metis prod.collapse)
  obtain w2 where w2: "fetch_seller_pairs_with_archive_fallback env hot archive (se_accumulator_address env hot) seller
      (se_claimed_dst env) (se_claimed_dst env) pick_claimed w1 = (Inr claimed, w2)"
    using ok unfolding chain_ok_def by (metis prod.collapse)
  obtain w3 where w3: "fetch_queue_states env hot VALID_DENOMS Map.empty w2 = (Inr qs, w3)"
    using ok unfolding chain_ok_def by (metis prod.collapse)
  obtain info where info: "\<And>p w. p \<in> set cands \<Longrightarrow> fst (order_task env hot seller qs p w) = Inr (Some (info p))"
    using ok unfolding chain_ok_def cands(1) by metis
  let ?L = "page_limit n"
  let ?pairs = "page_pairs cands k n"
  have sub: "set ?pairs \<subseteq> set cands"
    unfolding page_pairs_take using set_take_subset set_drop_subset by (metis order_trans)
  obtain rs w4 where rs: "drain_tasks env (order_task env hot seller qs) ?pairs [] w3 = (Inr rs, w4)"
    "mset rs = mset (map info ?pairs)"
    using drain_tasks_all [of ?pairs "order_task env hot seller qs" info env "[]" w3, OF info [OF subsetD [OF sub]]]
    by auto
  have run: "get_my_sell_orders env hot archive seller n (order_cursor cands k) w = (Inr (orders_page ?pairs ?L rs), w4)"
    using w1 w2 w3 rs(1) page_start_at [OF strict cands(2)]
    unfolding get_my_sell_orders_def Let_def by (simp only: io_then_step io_lift_step cands(1) [symmetric])
  have keys: "order_key_of (info p) = p" if "p \<in> set ?pairs" for p
  proof -
    have "fst (order_task env hot seller qs p w) = Inr (Some (info p))" by (rule info [OF subsetD [OF sub that]])
    then have "order_task env hot seller qs p w = (Inr (Some (info p)), snd (order_task env hot seller qs p w))"
      by (simp add: prod_eq_iff)
    then show ?thesis by (rule order_task_key)
  qed
  have pairs: "sorted_wrt (<) ?pairs" "length ?pairs \<le> ?L + 1" "length ?pairs > ?L \<longleftrightarrow> length cands > k + ?L"
    using strict by (auto simp: page_pairs_take sorted_wrt_take sorted_wrt_drop)
  note page = orders_page_sorted [OF rs(2) keys pairs(1,2) page_limit_pos]
  have "map order_key_of (map info (take ?L ?pairs)) = take ?L ?pairs"
    unfolding map_map by (rule map_idI) (simp add: keys [OF in_set_takeD])
  moreover have "take ?L ?pairs = take ?L (drop k cands)" by (simp add: page_pairs_take)
  moreover have "?pairs ! (?L - 1) = cands ! (k + ?L - 1)" if "length cands > k + ?L"
    using that page_limit_pos [of n] by (simp add: page_pairs_take)
  ultimately show thesis
    using that [OF run] page pairs(3) page_limit_pos [of n] by (simp add: order_cursor_def)
qed

section \<open>The whole list\<close>

fun read_orders ::
  "('w, 'c) sell_env \<Rightarrow> 'c \<Rightarrow> 'c option \<Rightarrow> string \<Rightarrow> u32 \<Rightarrow> nat \<Rightarrow> string option \<Rightarrow> 'w \<Rightarrow> SellOrderInfo list option" where
  "read_orders env hot archive seller n 0 cursor w = None"
| "read_orders env hot archive seller n (Suc fuel) cursor w =
     (case get_my_sell_orders env hot archive seller n cursor w of
        (Inl e, w1) \<Rightarrow> None
      | (Inr r, w1) \<Rightarrow>
          if \<not> ms_has_next_page r then Some (ms_orders r)
          else map_option (append (ms_orders r)) (read_orders env hot archive seller n fuel (ms_next_cursor r) w1))"

lemma read_orders_from:
  assumes "chain_ok env hot archive seller created claimed qs" "cands = order_candidates created claimed qs"
    and "k \<le> length cands"
  shows "\<exists>fuel os. read_orders env hot archive seller n fuel (order_cursor cands k) w = Some os \<and>
           map order_key_of os = drop k cands"
  using assms(3)
proof (induction "length cands - k" arbitrary: k w rule: less_induct)
  case less
  let ?L = "page_limit n"
  obtain r w' where page: "get_my_sell_orders env hot archive seller n (order_cursor cands k) w = (Inr r, w')"
    "map order_key_of (ms_orders r) = take ?L (drop k cands)"
    "ms_has_next_page r = (length cands > k + ?L)"
    "length cands > k + ?L \<longrightarrow> ms_next_cursor r = order_cursor cands (k + ?L)"
    by (rule orders_page_at [OF assms(1,2) less.prems])
  show ?case
  proof (cases "length cands > k + ?L")
    case False
    with page have "read_orders env hot archive seller n 1 (order_cursor cands k) w = Some (ms_orders r)" by simp
    moreover have "map order_key_of (ms_orders r) = drop k cands" using False page(2) by simp
    ultimately show ?thesis by blast
  next
    case True
    obtain fuel os where ih: "read_orders env hot archive seller n fuel (order_cursor cands (k + ?L)) w' = Some os"
      "map order_key_of os = drop (k + ?L) cands"
    proof -
      have "length cands - (k + ?L) < length cands - k" "k + ?L \<le> length cands"
        using True page_limit_pos [of n] by linarith+
      from less.hyps [OF this, of w'] show ?thesis using that by blast
    qed
    have "read_orders env hot archive seller n (Suc fuel) (order_cursor cands k) w = Some (ms_orders r @ os)"
      using page True ih(1) by simp
    moreover have "map order_key_of (ms_orders r @ os) = drop k cands"
      using page(2) ih(2) by (simp add: add.commute [of k] drop_drop [symmetric] del: drop_drop)
    ultimately show ?thesis by blast
  qed
qed

section \<open>A concrete accumulator\<close>

text \<open>
  Endpoint \<open>c\<close> knows the orders \<open>orders c\<close> of the seller \<open>s\<close>, none of them claimed; the bodies of the
  events are written like cursors, and the getters finish in reverse order.
\<close>

definition edge_json :: "order_key \<Rightarrow> json" where
  "edge_json p = JObj [(''cursor'', JStr ''c''),
     (''node'', JObj [(''msg_id'', JStr []), (''created_at'', JNum 1), (''dst'', JStr []),
                      (''body'', JStr (encode_cursor (fst p) (snd p)))])]"

definition events_json :: "order_key list \<Rightarrow> json" where
  "events_json ps = JObj [(''data'', JObj [(''blockchain'', JObj [(''account'', JObj [(''events'',
     JObj [(''edges'', JArr (map edge_json ps)), (''pageInfo'', JObj [(''hasPreviousPage'', JBool False)])])])])])]"

definition accumulator :: "(u64 \<Rightarrow> order_key list) \<Rightarrow> (unit, u64) sell_env" where
  "accumulator orders = \<lparr>
     se_retry = \<lparr> re_now_ms = (\<lambda>w. (0, w)), re_sleep_ms = (\<lambda>_ w. w), re_acquire = id, re_counter_fetch_add = (\<lambda>_ w. (0, w)) \<rparr>,
     se_query = (\<lambda>c vars w. (Inr (events_json (if json_get ''dst'' vars = Some (JStr ''claimed'') then [] else orders c)), w)),
     se_error_value = (\<lambda>_. Inl []), se_dapp_id = [], se_accumulator_address = (\<lambda>_. ''0:acc''),
     se_created_dst = ''created'', se_claimed_dst = ''claimed'',
     se_from_event = (\<lambda>_ ev. case parse_cursor (kv_body ev) of Some (d, n) \<Rightarrow> Inr (SellOrderCreated ''s'' d n) | None \<Rightarrow> Inl []),
     se_get_queue_state = (\<lambda>_ _ w. (Inr \<lparr> qs_next_id = 100, qs_sold_prefix = 1 \<rparr>, w)),
     se_get_sell_order_address = (\<lambda>_ _ _ w. (Inr ''lot'', w)),
     se_get_details = (\<lambda>_ _ w. (Inr \<lparr> ld_owner = ''s'', ld_claimed = False \<rparr>, w)),
     se_pick = (\<lambda>tasks w. (length tasks - 1, w)) \<rparr>"

lemma with_retries_accumulator:
  assumes "op () = (Inr x, ())"
  shows "with_retries (accumulator orders) op w = (Inr x, ())"
  using assms
  by (simp add: with_retries_def with_retry_policy_def sell_orders_retry_policy_def accumulator_def retry_loop.simps)

lemma accumulator_events:
  "fetch_events_one_endpoint (accumulator orders) c addr dst w =
     (Inr (map (\<lambda>p. \<lparr> kv_id = [], kv_dst = [], kv_created_at = 1, kv_body = encode_cursor (fst p) (snd p) \<rparr>)
            (if dst = ''claimed'' then [] else orders c)), ())"
proof -
  let ?ps = "if dst = ''claimed'' then [] else orders c"
  have edges: "List.map_filter event_of_edge (map edge_json ps) =
      map (\<lambda>p. \<lparr> kv_id = [], kv_dst = [], kv_created_at = 1, kv_body = encode_cursor (fst p) (snd p) \<rparr>) ps" for ps
    by (induction ps) (simp_all add: map_filter_simps event_of_edge_def edge_json_def str_field_def)
  have query: "with_retries (accumulator orders) (io_map_err f (se_query (accumulator orders) c
          (JObj [(''account_id'', x), (''dapp_id'', y), (''dst'', JStr dst), (''last'', z), (''before'', v)]))) w =
        (Inr (events_json ?ps), ())" for f x y z v
    by (rule with_retries_accumulator) (simp add: accumulator_def io_map_err_def)
  have "event_pages (accumulator orders) c addr dst (Suc n) None [] w =
      (Inr (map (\<lambda>p. \<lparr> kv_id = [], kv_dst = [], kv_created_at = 1, kv_body = encode_cursor (fst p) (snd p) \<rparr>) ?ps), ())" for n
    unfolding event_pages.simps Let_def query by (simp add: events_json_def edges)
  from this [of 49] show ?thesis
    by (simp add: fetch_events_one_endpoint_def MAX_EVENT_PAGES_def del: event_pages.simps)
qed

lemma accumulator_pairs:
  "decode_and_filter (accumulator orders) c
     (map (\<lambda>p. \<lparr> kv_id = [], kv_dst = [], kv_created_at = 1, kv_body = encode_cursor (fst p) (snd p) \<rparr>) ps) ''s'' pick_created = set ps"
proof -
  have "List.map_filter (\<lambda>ev. case se_from_event (accumulator orders) c ev of Inl _ \<Rightarrow> None | Inr decoded \<Rightarrow> pick_created decoded ''s'')
      (map (\<lambda>p. \<lparr> kv_id = [], kv_dst = [], kv_created_at = 1, kv_body = encode_cursor (fst p) (snd p) \<rparr>) ps) = ps"
    by (induction ps) (simp_all add: map_filter_simps accumulator_def pick_created_def addresses_equal_def split_beta)
  then show ?thesis by (simp only: decode_and_filter_def)
qed

lemma accumulator_created:
  assumes "orders hot \<noteq> []"
  shows "fetch_seller_pairs_on_endpoint (accumulator orders) hot addr ''s'' (internal_to_external_address ''s'')
           (se_created_dst (accumulator orders)) pick_created w = (Inr (set (orders hot)), ())"
  using assms accumulator_events [of orders hot addr "'':s''" w] accumulator_pairs [of orders hot "orders hot"]
  by (simp add: fetch_seller_pairs_on_endpoint_def internal_to_external_address_def Let_def) (simp add: accumulator_def)

lemma accumulator_claimed:
  "fetch_seller_pairs_on_endpoint (accumulator orders) hot addr ''s'' (se_claimed_dst (accumulator orders))
     (se_claimed_dst (accumulator orders)) pick_claimed w = (Inr {}, ())"
proof -
  have dst: "se_claimed_dst (accumulator orders) = ''claimed''" by (simp add: accumulator_def)
  show ?thesis
    using accumulator_events [of orders hot addr "''claimed''" w]
    by (simp add: dst fetch_seller_pairs_on_endpoint_def Let_def decode_and_filter_def map_filter_simps)
qed

lemma accumulator_queues:
  "fetch_queue_states (accumulator orders) hot VALID_DENOMS Map.empty w =
     (Inr (\<lambda>d. if d \<in> set VALID_DENOMS then Some \<lparr> qs_next_id = 100, qs_sold_prefix = 1 \<rparr> else None), ())"
proof -
  have "with_retries (accumulator orders) (se_get_queue_state (accumulator orders) hot d) w =
      (Inr \<lparr> qs_next_id = 100, qs_sold_prefix = 1 \<rparr>, ())" for d w
    by (rule with_retries_accumulator) (simp add: accumulator_def)
  then show ?thesis by (auto simp: VALID_DENOMS_def fun_eq_iff)
qed

lemma accumulator_task:
  "\<exists>info. \<forall>w. fst (order_task (accumulator orders) hot ''s'' qs p w) = Inr (Some info)"
proof -
  have "with_retries (accumulator orders) (se_get_sell_order_address (accumulator orders) hot d n) w = (Inr ''lot'', ())"
    "with_retries (accumulator orders) (se_get_details (accumulator orders) hot l) w =
       (Inr \<lparr> ld_owner = ''s'', ld_claimed = False \<rparr>, ())" for d n l w
    by (rule with_retries_accumulator, simp add: accumulator_def)+
  then show ?thesis by (simp add: order_task_def Let_def addresses_equal_def)
qed

lemma accumulator_chain_ok:
  assumes "orders hot \<noteq> []"
  shows "chain_ok (accumulator orders) hot None ''s'' (set (orders hot)) {}
           (\<lambda>d. if d \<in> set VALID_DENOMS then Some \<lparr> qs_next_id = 100, qs_sold_prefix = 1 \<rparr> else None)"
  using assms accumulator_created [of orders hot, OF assms] accumulator_claimed accumulator_queues accumulator_task
  by (simp add: chain_ok_def fetch_seller_pairs_with_archive_fallback_def)

section \<open>Properties\<close>


definition example_orders :: "u64 \<Rightarrow> order_key list" where
  "example_orders c = (if c = 0 then [(10, 7), (1, 3), (10, 2), (1, 200)] else [(1, 1)])"

lemma example_live:
  "sorted_list_of_set {p \<in> set (example_orders 0). live_order {}
       (\<lambda>d. if d \<in> set VALID_DENOMS then Some \<lparr> qs_next_id = 100, qs_sold_prefix = 1 \<rparr> else None) p} = [(1, 3), (10, 2), (10, 7)]"
proof -
  have "{p \<in> set (example_orders 0). live_order {}
       (\<lambda>d. if d \<in> set VALID_DENOMS then Some \<lparr> qs_next_id = 100, qs_sold_prefix = 1 \<rparr> else None) p} = set [(1, 3), (10, 2), (10, 7)]"
    by (auto simp: example_orders_def live_order_def VALID_DENOMS_def split: if_splits)
  then show ?thesis by (simp only: sorted_list_of_set_sort_remdups) (simp add: insort_key.simps)
qed


text \<open>
  Further property.  Orders in the archive are hidden by orders in the hot window: when the hot endpoint
  knows any order of the seller, the list holds only orders the hot endpoint knows, whatever the
  archive holds.
\<close>

theorem sell_orders_hide_archived:
  assumes "fetch_seller_pairs_on_endpoint env hot (se_accumulator_address env hot) seller
             (internal_to_external_address seller) (se_created_dst env) pick_created w = (Inr hot_pairs, w1)"
    and "hot_pairs \<noteq> {}" "finite hot_pairs"
    and "get_my_sell_orders env hot archive seller n cursor w = (Inr r, w')"
  shows "(\<lambda>s. (so_denom s, so_order_id s)) ` set (ms_orders r) \<subseteq> hot_pairs"
proof -
  have "fetch_seller_pairs_with_archive_fallback env hot archive (se_accumulator_address env hot) seller
          (internal_to_external_address seller) (se_created_dst env) pick_created w = (Inr hot_pairs, w1)"
    using assms(1,2) by (simp add: fetch_seller_pairs_with_archive_fallback_def)
  with assms(4) obtain claimed qs start rs w3 w4 where run:
    "drain_tasks env (order_task env hot seller qs) (page_pairs (order_candidates hot_pairs claimed qs) start n) [] w3 = (Inr rs, w4)"
    "r = orders_page (page_pairs (order_candidates hot_pairs claimed qs) start n) (page_limit n) rs"
    by (auto simp: get_my_sell_orders_def Let_def res_simps)
  have "order_key_of ` set rs \<subseteq> set (page_pairs (order_candidates hot_pairs claimed qs) start n)"
    using drain_tasks_subset [OF _ run(1)] order_task_key by fastforce
  also have "\<dots> \<subseteq> set (order_candidates hot_pairs claimed qs)"
    unfolding page_pairs_take using set_take_subset set_drop_subset by (metis order_trans)
  also have "\<dots> \<subseteq> hot_pairs" using sorted_candidates(2) [OF assms(3), of claimed qs] by auto
  finally have "order_key_of ` set rs \<subseteq> hot_pairs" .
  moreover have "set (ms_orders r) \<subseteq> set rs"
    unfolding run(2) orders_page_def Let_def by (auto dest: in_set_takeD)
  ultimately show ?thesis by blast
qed

theorem sell_orders_hide_archived_witness:
  "\<exists>r. get_my_sell_orders (accumulator example_orders) 0 (Some 1) ''s'' 20 None () = (Inr r, ()) \<and>
     (\<lambda>s. (so_denom s, so_order_id s)) ` set (ms_orders r) \<subseteq> set (example_orders 0) \<and>
     (1, 1) \<in> set (example_orders 1) \<and> (1, 1) \<notin> (\<lambda>s. (so_denom s, so_order_id s)) ` set (ms_orders r)"
proof -
  let ?env = "accumulator example_orders"
  have ne: "example_orders 0 \<noteq> []" and foreign: "(1, 1) \<in> set (example_orders 1)" "(1, 1) \<notin> set (example_orders 0)"
    by (simp_all add: example_orders_def)
  note created = accumulator_created [of example_orders 0, OF ne]
  have "chain_ok ?env 0 (Some 1) ''s'' (set (example_orders 0)) {}
           (\<lambda>d. if d \<in> set VALID_DENOMS then Some \<lparr> qs_next_id = 100, qs_sold_prefix = 1 \<rparr> else None)"
    using created accumulator_claimed accumulator_queues accumulator_task ne
    by (simp add: chain_ok_def fetch_seller_pairs_with_archive_fallback_def)
  then obtain r w' where r: "get_my_sell_orders ?env 0 (Some 1) ''s'' 20 None () = (Inr r, w')"
    by (rule orders_page_at [OF _ HOL.refl, of _ _ _ _ _ _ _ 0 20 "()"]) (auto simp: order_cursor_def)
  from sell_orders_hide_archived [OF created _ _ r] ne
  have "(\<lambda>s. (so_denom s, so_order_id s)) ` set (ms_orders r) \<subseteq> set (example_orders 0)" by simp
  with r foreign show ?thesis by auto
qed

end
