(* ===== verification/Logs.thy ===== *)
theory Logs
  imports Prelude
begin

text \<open>
  Programs whose calls are recorded in a ghost log of the world: \<open>emits log m P\<close> says that every run of \<open>m\<close>
  appends a list of entries that \<open>P\<close> relates to its result.  The rules follow the structure of programs.
\<close>

section \<open>Programs that append to a log\<close>

definition emits :: "('w \<Rightarrow> 'l list) \<Rightarrow> ('w, 'e, 'a) io \<Rightarrow> ('e + 'a \<Rightarrow> 'l list \<Rightarrow> bool) \<Rightarrow> bool" where
  "emits log m P = (\<forall>w r w'. m w = (r, w') \<longrightarrow> (\<exists>ss. log w' = log w @ ss \<and> P r ss))"

lemma emitsD: "emits log m P \<Longrightarrow> m w = (r, w') \<Longrightarrow> \<exists>ss. log w' = log w @ ss \<and> P r ss"
  by (simp add: emits_def)

lemma emits_mono: "emits log m P \<Longrightarrow> (\<And>r ss. P r ss \<Longrightarrow> Q r ss) \<Longrightarrow> emits log m Q"
  by (fastforce simp: emits_def)

lemma emits_lift: "Q r [] \<Longrightarrow> emits log (io_lift r) Q"
  by (simp add: emits_def)

lemma emits_then:
  assumes "emits log m P"
    and "\<And>x ss. P (Inr x) ss \<Longrightarrow> emits log (f x) (\<lambda>r ts. Q r (ss @ ts))"
    and "\<And>e ss. P (Inl e) ss \<Longrightarrow> Q (Inl e) ss"
  shows "emits log (io_then m f) Q"
  unfolding emits_def
proof (intro allI impI)
  fix w r w' assume run: "io_then m f w = (r, w')"
  obtain r1 w1 where m: "m w = (r1, w1)" by fastforce
  from emitsD [OF assms(1) m] obtain ss where ss: "log w1 = log w @ ss" "P r1 ss" by blast
  show "\<exists>ss. log w' = log w @ ss \<and> Q r ss"
  proof (cases r1)
    case (Inl e)
    with run m have "r = Inl e" "w' = w1" by (simp_all add: io_then_def)
    with ss Inl assms(3) show ?thesis by auto
  next
    case (Inr x)
    with run m have "f x w1 = (r, w')" by (simp add: io_then_def)
    from emitsD [OF assms(2) [OF ss(2) [unfolded Inr]] this] ss(1) show ?thesis by auto
  qed
qed

lemma emits_map_err:
  assumes "emits log m (\<lambda>r ss. Q (map_err f r) ss)"
  shows "emits log (io_map_err f m) Q"
  unfolding emits_def
proof (intro allI impI)
  fix w r w' assume "io_map_err f m w = (r, w')"
  then obtain r1 where "m w = (r1, w')" "r = map_err f r1"
    by (cases "m w") (auto simp: io_map_err_def)
  with emitsD [OF assms] show "\<exists>ss. log w' = log w @ ss \<and> Q r ss" by blast
qed

lemma emits_lift_then:
  assumes "\<And>x. r = Inr x \<Longrightarrow> emits log (f x) Q" "\<And>e. r = Inl e \<Longrightarrow> Q (Inl e) []"
  shows "emits log (io_then (io_lift r) f) Q"
  by (rule emits_then [where P = "\<lambda>r' ss. r' = r \<and> ss = []"]) (use assms in \<open>auto intro: emits_lift\<close>)

lemma emits_silent_then:
  assumes "emits log m (\<lambda>r ss. ss = [])" "\<And>x. emits log (f x) Q" "\<And>e. Q (Inl e) []"
  shows "emits log (io_then m f) Q"
  by (rule emits_then [OF assms(1)]) (use assms(2,3) in auto)

abbreviation silent :: "('w \<Rightarrow> 'l list) \<Rightarrow> ('w, 'e, 'a) io \<Rightarrow> bool" where
  "silent log m \<equiv> emits log m (\<lambda>r ss. ss = [])"

text \<open>What is known of the run itself can be added.\<close>

lemma emits_run: "emits log m P \<Longrightarrow> emits log m (\<lambda>r ss. P r ss \<and> (\<exists>v v'. m v = (r, v')))"
  unfolding emits_def by blast

lemma emits_if: "(c \<Longrightarrow> emits log m P) \<Longrightarrow> (\<not> c \<Longrightarrow> emits log n P) \<Longrightarrow> emits log (if c then m else n) P"
  by simp

lemma emits_lift_eq: "emits log (io_lift r) (\<lambda>r' ss. r' = r \<and> ss = [])"
  by (simp add: emits_def)

end
