(* ===== verification/MultisigDeploy.thy ===== *)
theory MultisigDeploy
  imports Accounts
begin

text \<open>
  \<open>bee_wallet/src/services/multisig.rs\<close>: the deployment of a multisig wallet, alone and with the
  funding by the giver, and its balances.

  The chain client and the contract kit are fields of \<open>multisig_env\<close>, with \<open>'c\<close> for a client context and
  \<open>'p\<close> for a prepared message; errors of the kit arrive as \<open>AppError\<close>, those of the client are converted
  here.  The compiled contract, its ABI and the clock of the rate limiter are fields too.  A \<open>HashMap\<close>
  that is iterated is the list of its entries in the order of the iteration.
\<close>

section \<open>Data\<close>

definition SHELL_CURRENCY_ID :: u32 where "SHELL_CURRENCY_ID = 2"
definition ECC_TOPUP_GAS :: u64 where "ECC_TOPUP_GAS = 1000000000"
definition DEFAULT_GIVER_VALUE :: u64 where "DEFAULT_GIVER_VALUE = 1000000 * ECC_TOPUP_GAS"
definition GIVER_FLAG :: u8 where "GIVER_FLAG = 16"
definition MAX_SEND_RPS :: u32 where "MAX_SEND_RPS = 2"

record MultisigBalanceConfig =
  bc_min_balance :: string
  bc_target_balance :: string

definition default_balance_config :: MultisigBalanceConfig where
  "default_balance_config = \<lparr> bc_min_balance = ''0'', bc_target_balance = ''0'' \<rparr>"

record MultisigDeploySpec =
  sp_keys :: KeyPair
  sp_owners_pubkey :: "string list"
  sp_req_confirms :: u8
  sp_req_confirms_data :: u8
  sp_constructor_value :: string
  sp_balance_config :: "MultisigBalanceConfig option"

record ParamsOfEncodeMessage =
  en_abi :: string
  en_tvc :: string
  en_workchain_id :: int
  en_initial_data :: json
  en_function_name :: string
  en_input :: json
  en_signer :: KeyPair

datatype AccountStatus = Uninit | Active | OtherStatus

record account_view =
  av_acc_type :: AccountStatus
  av_ecc :: "(u32 \<times> string) list"

record DeployOutcome =
  do_address :: string
  do_already_deployed :: bool
  do_deploy_tx :: "string option"

record ParamsOfDeployMultisigViaGiver =
  dp_endpoints :: "string list"
  dp_keys :: "KeyPair option"
  dp_owners_pubkey :: "string list option"
  dp_req_confirms :: "u8 option"
  dp_req_confirms_data :: "u8 option"
  dp_constructor_value :: "string option"
  dp_balance_config :: "MultisigBalanceConfig option"
  dp_giver_value :: "string option"
  dp_giver_ecc :: "(u32 \<times> string) list option"
  dp_wait_for_active :: "bool option"

record ResultOfDeployMultisigViaGiver =
  dr_address :: string
  dr_public :: string
  dr_secret :: string
  dr_already_deployed :: bool
  dr_deploy_tx :: "string option"

record ('w, 'c, 'p) multisig_env =
  me_error_value :: "ClientError \<Rightarrow> json result"
  me_client_context :: "string list \<Rightarrow> u32 \<Rightarrow> ClientError + 'c"
  me_abi :: string
  me_tvc_b64 :: string
  me_generate_keys :: "'c \<Rightarrow> ('w, ClientError, KeyPair) io"
  me_encode_address :: "'c \<Rightarrow> ParamsOfEncodeMessage \<Rightarrow> ('w, ClientError, string) io"
  me_fetch :: "'c \<Rightarrow> string \<Rightarrow> string \<Rightarrow> ('w, AppError, account_view) io"
  me_wait :: "'c \<Rightarrow> string \<Rightarrow> string \<Rightarrow> AccountStatus \<Rightarrow> ('w, AppError, unit) io"
  me_prepare_message :: "'c \<Rightarrow> string \<Rightarrow> string \<Rightarrow> ParamsOfEncodeMessage \<Rightarrow> ('w, AppError, 'p) io"
  me_send_prepared :: "'c \<Rightarrow> string \<Rightarrow> 'p \<Rightarrow> ('w, AppError, string option) io"
  me_giver_send :: "'c \<Rightarrow> string \<Rightarrow> u64 \<Rightarrow> (u32 \<rightharpoonup> u64) \<Rightarrow> u8 \<Rightarrow> ('w, AppError, unit) io"
  me_now_ms :: "'w \<Rightarrow> u64 \<times> 'w"
  me_sleep_ms :: "u64 \<Rightarrow> 'w \<Rightarrow> 'w"

abbreviation from_client :: "('w, 'c, 'p) multisig_env \<Rightarrow> ('w, ClientError, 'a) io \<Rightarrow> ('w, AppError, 'a) io" where
  "from_client env \<equiv> io_map_err (app_error_from_client (me_error_value env))"

section \<open>The specification of a wallet\<close>

definition balance_config_validate :: "MultisigBalanceConfig \<Rightarrow> AppError + unit" where
  "balance_config_validate config =
     and_then (map_err (\<lambda>e. app_error_new (''invalid balance_config.min_balance amount `'' @ bc_min_balance config @ ''`: '' @ e))
                (parse_u (bc_min_balance config) :: u128 result)) (\<lambda>min_balance.
     and_then (map_err (\<lambda>e. app_error_new (''invalid balance_config.target_balance amount `'' @ bc_target_balance config @ ''`: '' @ e))
                (parse_u (bc_target_balance config) :: u128 result)) (\<lambda>target_balance.
     guard (target_balance < min_balance)
       (app_error_new (''balance_config.target_balance must be >= min_balance ('' @ bc_target_balance config @ '' < '' @
                       bc_min_balance config @ '')''))))"

definition spec_validate :: "MultisigDeploySpec \<Rightarrow> AppError + unit" where
  "spec_validate spec =
     (case sp_balance_config spec of Some config \<Rightarrow> balance_config_validate config | None \<Rightarrow> Inr ())"

definition constructor_input :: "MultisigDeploySpec \<Rightarrow> AppError + json" where
  "constructor_input spec =
     and_then (spec_validate spec) (\<lambda>_.
       let config = unwrap_or default_balance_config (sp_balance_config spec)
       in Inr (JObj [(''owners_pubkey'', JArr (map JStr (sp_owners_pubkey spec))), (''owners_address'', JArr []),
            (''reqConfirms'', JNum (ucast (sp_req_confirms spec))),
            (''reqConfirmsData'', JNum (ucast (sp_req_confirms_data spec))),
            (''value'', JStr (sp_constructor_value spec)),
            (''minBalance'', JStr (bc_min_balance config)), (''targetBalance'', JStr (bc_target_balance config))]))"

definition encode_params :: "('w, 'c, 'p) multisig_env \<Rightarrow> MultisigDeploySpec \<Rightarrow> AppError + ParamsOfEncodeMessage" where
  "encode_params env spec =
     and_then (constructor_input spec) (\<lambda>input.
       Inr \<lparr> en_abi = me_abi env, en_tvc = me_tvc_b64 env, en_workchain_id = 0,
             en_initial_data = JObj [(''_pubkey'', JStr (''0x'' @ kp_public (sp_keys spec)))],
             en_function_name = ''constructor'', en_input = input, en_signer = sp_keys spec \<rparr>)"

section \<open>Addresses\<close>

text \<open>\<open>trim_start_matches("0:")\<close> drops every leading copy.\<close>

fun trim_start_0 :: "string \<Rightarrow> string" where
  "trim_start_0 s = (case s of c # d # rest \<Rightarrow> if c = CHR ''0'' \<and> d = CHR '':'' then trim_start_0 rest else s | _ \<Rightarrow> s)"

declare trim_start_0.simps [simp del]

definition dapp_id_of :: "string \<Rightarrow> string" where
  "dapp_id_of address = trim_start_0 address"

definition canonical_address :: "string \<Rightarrow> string" where
  "canonical_address raw = (let id = trim_start_0 raw in id @ ''::'' @ id)"

text \<open>\<open>split_once("::")\<close>.\<close>

fun split_once_colons :: "string \<Rightarrow> (string \<times> string) option" where
  "split_once_colons (c # d # rest) =
     (if c = CHR '':'' \<and> d = CHR '':'' then Some ([], rest)
      else map_option (\<lambda>(p, q). (c # p, q)) (split_once_colons (d # rest)))"
| "split_once_colons _ = None"

definition balances_dapp_id :: "string \<Rightarrow> string" where
  "balances_dapp_id address =
     (case split_once_colons address of Some (d, _) \<Rightarrow> d | None \<Rightarrow> trim_start_0 address)"

section \<open>Deployment\<close>

definition compute_multisig_address ::
  "('w, 'c, 'p) multisig_env \<Rightarrow> 'c \<Rightarrow> MultisigDeploySpec \<Rightarrow> ('w, AppError, string) io" where
  "compute_multisig_address env ctx spec =
     io_then (io_lift (encode_params env spec)) (\<lambda>params. from_client env (me_encode_address env ctx params))"

definition deploy_multisig ::
  "('w, 'c, 'p) multisig_env \<Rightarrow> 'c \<Rightarrow> MultisigDeploySpec \<Rightarrow> bool \<Rightarrow> ('w, AppError, DeployOutcome) io" where
  "deploy_multisig env ctx spec wait_for_active =
     io_then (io_lift (encode_params env spec)) (\<lambda>params.
     io_then (from_client env (me_encode_address env ctx params)) (\<lambda>address.
     let dapp_id = dapp_id_of address
     in io_then (me_fetch env ctx address dapp_id) (\<lambda>account.
        if av_acc_type account = Active
        then io_lift (Inr \<lparr> do_address = canonical_address address, do_already_deployed = True, do_deploy_tx = None \<rparr>)
        else
          io_then (me_prepare_message env ctx address dapp_id params) (\<lambda>prepared.
          io_then (me_send_prepared env ctx address prepared) (\<lambda>deploy_tx.
          io_then (if wait_for_active then me_wait env ctx address dapp_id Active else io_lift (Inr ())) (\<lambda>_.
          io_lift (Inr \<lparr> do_address = canonical_address address, do_already_deployed = False,
                         do_deploy_tx = deploy_tx \<rparr>)))))))"

definition make_context :: "('w, 'c, 'p) multisig_env \<Rightarrow> string list \<Rightarrow> AppError + 'c" where
  "make_context env endpoints =
     map_err (\<lambda>e. with_context ''failed to create tvm client'' (app_error_from_client (me_error_value env) e))
       (me_client_context env endpoints 0)"

definition parse_amount :: "string \<Rightarrow> string \<Rightarrow> AppError + u64" where
  "parse_amount field value =
     map_err (\<lambda>e. app_error_new (''invalid '' @ field @ '' amount `'' @ value @ ''`: '' @ e)) (parse_u value)"

fun parse_giver_ecc :: "(u32 \<times> string) list \<Rightarrow> (u32 \<rightharpoonup> u64) \<Rightarrow> AppError + (u32 \<rightharpoonup> u64)" where
  "parse_giver_ecc [] ecc = Inr ecc"
| "parse_giver_ecc ((currency, amount) # rest) ecc =
     and_then (parse_amount ''giver_ecc'' amount) (\<lambda>v. parse_giver_ecc rest (ecc(currency \<mapsto> v)))"

text \<open>\<open>rate_limiter.acquire().await\<close>: the critical section, then the sleep if there is something to wait for.\<close>

definition limiter_acquire :: "('w, 'c, 'p) multisig_env \<Rightarrow> TokenBucket \<Rightarrow> ('w, AppError, TokenBucket) io" where
  "limiter_acquire env bucket w =
     (case me_now_ms env w of (now, w1) \<Rightarrow>
        case Infra.acquire now bucket of (pause, bucket') \<Rightarrow>
          (Inr bucket', if pause > 0 then me_sleep_ms env pause w1 else w1))"

definition giver_value_of :: "ParamsOfDeployMultisigViaGiver \<Rightarrow> AppError + u64" where
  "giver_value_of params =
     (case dp_giver_value params of Some v \<Rightarrow> parse_amount ''giver_value'' v | None \<Rightarrow> Inr DEFAULT_GIVER_VALUE)"

definition deploy_spec :: "ParamsOfDeployMultisigViaGiver \<Rightarrow> KeyPair \<Rightarrow> MultisigDeploySpec" where
  "deploy_spec params keys =
     \<lparr> sp_keys = keys,
       sp_owners_pubkey = (case dp_owners_pubkey params of
                             Some v \<Rightarrow> if v \<noteq> [] then v else [''0x'' @ kp_public keys]
                           | None \<Rightarrow> [''0x'' @ kp_public keys]),
       sp_req_confirms = unwrap_or 1 (dp_req_confirms params),
       sp_req_confirms_data = unwrap_or 1 (dp_req_confirms_data params),
       sp_constructor_value = unwrap_or ''0'' (dp_constructor_value params),
       sp_balance_config = dp_balance_config params \<rparr>"

definition deploy_keys ::
  "('w, 'c, 'p) multisig_env \<Rightarrow> 'c \<Rightarrow> ParamsOfDeployMultisigViaGiver \<Rightarrow> ('w, AppError, KeyPair) io" where
  "deploy_keys env ctx params =
     (case dp_keys params of Some keys \<Rightarrow> io_lift (Inr keys) | None \<Rightarrow> from_client env (me_generate_keys env ctx))"

text \<open>The funding of the address, the deployment, and the top-up after it.\<close>

definition fund_address ::
  "('w, 'c, 'p) multisig_env \<Rightarrow> 'c \<Rightarrow> string \<Rightarrow> u64 \<Rightarrow> TokenBucket \<Rightarrow> ('w, AppError, TokenBucket) io" where
  "fund_address env ctx address giver_value limiter =
     io_then (limiter_acquire env limiter) (\<lambda>limiter.
     io_then (io_map_err (with_context ''giver account-creation failed (giver is available on shellnet only)'')
                (me_giver_send env ctx address 0 [SHELL_CURRENCY_ID \<mapsto> giver_value] GIVER_FLAG)) (\<lambda>_.
     io_then (me_wait env ctx address (dapp_id_of address) Uninit) (\<lambda>_. io_lift (Inr limiter))))"

definition top_up ::
  "('w, 'c, 'p) multisig_env \<Rightarrow> 'c \<Rightarrow> string \<Rightarrow> (u32 \<times> string) list \<Rightarrow> TokenBucket \<Rightarrow> ('w, AppError, unit) io" where
  "top_up env ctx address entries limiter =
     io_then (io_lift (parse_giver_ecc entries Map.empty)) (\<lambda>giver_ecc.
       if dom giver_ecc \<noteq> {}
       then io_then (limiter_acquire env limiter) (\<lambda>_.
              io_map_err (with_context ''giver ECC top-up failed (giver is available on shellnet only)'')
                (me_giver_send env ctx address ECC_TOPUP_GAS giver_ecc 1))
       else io_lift (Inr ()))"

definition deploy_multisig_via_giver ::
  "('w, 'c, 'p) multisig_env \<Rightarrow> ParamsOfDeployMultisigViaGiver \<Rightarrow> ('w, AppError, ResultOfDeployMultisigViaGiver) io" where
  "deploy_multisig_via_giver env params =
     io_then (io_lift (make_context env (dp_endpoints params))) (\<lambda>ctx.
     io_then (deploy_keys env ctx params) (\<lambda>keys.
     let spec = deploy_spec params keys
     in io_then (compute_multisig_address env ctx spec) (\<lambda>address.
        io_then (me_fetch env ctx address (dapp_id_of address)) (\<lambda>account.
        if av_acc_type account = Active
        then io_lift (Inr \<lparr> dr_address = canonical_address address, dr_public = kp_public keys, dr_secret = kp_secret keys,
                            dr_already_deployed = True, dr_deploy_tx = None \<rparr>)
        else
          io_then (io_lift (giver_value_of params)) (\<lambda>giver_value.
          io_then (fund_address env ctx address giver_value (the (rate_limiter_new MAX_SEND_RPS))) (\<lambda>limiter.
          io_then (limiter_acquire env limiter) (\<lambda>limiter.
          io_then (io_map_err (with_context ''multisig deploy failed'')
                     (deploy_multisig env ctx spec (unwrap_or True (dp_wait_for_active params)))) (\<lambda>outcome.
          io_then (top_up env ctx address (unwrap_or [] (dp_giver_ecc params)) limiter) (\<lambda>_.
          io_lift (Inr \<lparr> dr_address = do_address outcome, dr_public = kp_public keys, dr_secret = kp_secret keys,
                         dr_already_deployed = do_already_deployed outcome, dr_deploy_tx = do_deploy_tx outcome \<rparr>))))))))))"

text \<open>The amounts of the kit arrive as their decimal text.\<close>

definition multisig_balances ::
  "('w, 'c, 'p) multisig_env \<Rightarrow> string list \<Rightarrow> string \<Rightarrow> ('w, AppError, u32 \<rightharpoonup> string) io" where
  "multisig_balances env endpoints address =
     io_then (io_lift (make_context env endpoints)) (\<lambda>ctx.
     io_then (me_fetch env ctx address (balances_dapp_id address)) (\<lambda>account.
     io_lift (Inr (map_of (av_ecc account)))))"

end
