(* ===== verification/MultisigSends.thy ===== *)
theory MultisigSends
  imports MultisigDeploy Logs "HOL-Library.Sublist"
begin

text \<open>
  What the deployment of a multisig wallet sends, in which order, and what it rejects before.  The
  messages it tries to send are a ghost log of the world, as in the theory \<open>Logs\<close>.
\<close>

section \<open>The messages of a deployment\<close>

datatype sent = GiverSend string u64 "u32 \<rightharpoonup> u64" u8 | DeploySend string

definition logs_sends :: "('w, 'c, 'p) multisig_env \<Rightarrow> ('w \<Rightarrow> sent list) \<Rightarrow> bool" where
  "logs_sends env log =
     ((\<forall>ctx. silent log (me_generate_keys env ctx)) \<and>
      (\<forall>ctx params. silent log (me_encode_address env ctx params)) \<and>
      (\<forall>ctx a d. silent log (me_fetch env ctx a d)) \<and>
      (\<forall>ctx a d s. silent log (me_wait env ctx a d s)) \<and>
      (\<forall>ctx a d params. silent log (me_prepare_message env ctx a d params)) \<and>
      (\<forall>w. log (snd (me_now_ms env w)) = log w) \<and>
      (\<forall>t w. log (me_sleep_ms env t w) = log w) \<and>
      (\<forall>ctx a p. emits log (me_send_prepared env ctx a p) (\<lambda>r ss. ss = [DeploySend a])) \<and>
      (\<forall>ctx a v ecc f. emits log (me_giver_send env ctx a v ecc f) (\<lambda>r ss. ss = [GiverSend a v ecc f])))"

text \<open>The address is a function of what is encoded.\<close>

definition encodes :: "('w, 'c, 'p) multisig_env \<Rightarrow> (ParamsOfEncodeMessage \<Rightarrow> string) \<Rightarrow> bool" where
  "encodes env addr =
     (\<forall>ctx params w a w'. me_encode_address env ctx params w = (Inr a, w') \<longrightarrow> a = addr params)"

lemma emits_calls:
  assumes "logs_sends env log"
  shows "silent log (me_generate_keys env ctx)" "silent log (me_fetch env ctx a d)"
    "silent log (me_wait env ctx a d st)" "silent log (me_prepare_message env ctx a d params)"
    "silent log (limiter_acquire env b)"
    "emits log (me_send_prepared env ctx a p) (\<lambda>r ss. ss = [DeploySend a])"
    "emits log (me_giver_send env ctx a v ecc f) (\<lambda>r ss. ss = [GiverSend a v ecc f])"
proof -
  show "silent log (limiter_acquire env b)"
    unfolding emits_def
  proof (intro allI impI)
    fix w r w' assume "limiter_acquire env b w = (r, w')"
    moreover have "log (snd (me_now_ms env w)) = log w" "log (me_sleep_ms env t v) = log v" for t v
      using assms by (simp_all add: logs_sends_def)
    ultimately show "\<exists>ss. log w' = log w @ ss \<and> ss = []"
      by (auto simp: limiter_acquire_def split: prod.splits if_splits)
  qed
qed (use assms in \<open>simp_all add: logs_sends_def\<close>)

lemma emits_encode:
  assumes "logs_sends env log" "encodes env addr"
  shows "emits log (from_client env (me_encode_address env ctx params)) (\<lambda>r ss. ss = [] \<and> (\<forall>a. r = Inr a \<longrightarrow> a = addr params))"
proof (rule emits_map_err)
  have "silent log (me_encode_address env ctx params)" using assms(1) by (simp add: logs_sends_def)
  with assms(2) show "emits log (me_encode_address env ctx params)
      (\<lambda>r ss. ss = [] \<and> (\<forall>a. map_err (app_error_from_client (me_error_value env)) r = Inr a \<longrightarrow> a = addr params))"
    by (fastforce simp: emits_def encodes_def res_simps)
qed

definition spec_address :: "('w, 'c, 'p) multisig_env \<Rightarrow> (ParamsOfEncodeMessage \<Rightarrow> string) \<Rightarrow> MultisigDeploySpec \<Rightarrow> string" where
  "spec_address env addr spec = (case encode_params env spec of Inr params \<Rightarrow> addr params | Inl _ \<Rightarrow> [])"

lemma emits_compute:
  assumes "logs_sends env log" "encodes env addr"
  shows "emits log (compute_multisig_address env ctx spec) (\<lambda>r ss. ss = [] \<and> (\<forall>a. r = Inr a \<longrightarrow> a = spec_address env addr spec))"
  unfolding compute_multisig_address_def
  by (rule emits_lift_then, rule emits_mono [OF emits_encode [OF assms]]) (simp_all add: spec_address_def)

lemma emits_deploy:
  assumes "logs_sends env log" "encodes env addr"
  shows "emits log (deploy_multisig env ctx spec wait)
     (\<lambda>r ss. ss \<in> {[], [DeploySend (spec_address env addr spec)]} \<and>
        (\<forall>out. r = Inr out \<longrightarrow> do_address out = canonical_address (spec_address env addr spec) \<and>
                 (do_already_deployed out \<longleftrightarrow> ss = [])))"
proof -
  note calls = emits_calls [OF assms(1)]
  have step: "emits log (if av_acc_type account = Active
        then io_lift (Inr \<lparr> do_address = canonical_address a, do_already_deployed = True, do_deploy_tx = None \<rparr>)
        else io_then (me_prepare_message env ctx a (dapp_id_of a) params) (\<lambda>prepared.
          io_then (me_send_prepared env ctx a prepared) (\<lambda>deploy_tx.
          io_then (if wait then me_wait env ctx a (dapp_id_of a) Active else io_lift (Inr ())) (\<lambda>_.
          io_lift (Inr \<lparr> do_address = canonical_address a, do_already_deployed = False, do_deploy_tx = deploy_tx \<rparr>)))))
      (\<lambda>r ss. ss \<in> {[], [DeploySend a]} \<and>
        (\<forall>out. r = Inr out \<longrightarrow> do_address out = canonical_address a \<and> (do_already_deployed out \<longleftrightarrow> ss = [])))"
    for account a params
  proof (cases "av_acc_type account = Active")
    case False
    have "silent log (if wait then me_wait env ctx a (dapp_id_of a) Active else io_lift (Inr ()))"
      using calls(3) by (simp add: emits_lift)
    then have "emits log (io_then (if wait then me_wait env ctx a (dapp_id_of a) Active else io_lift (Inr ())) (\<lambda>_.
          io_lift (Inr \<lparr> do_address = canonical_address a, do_already_deployed = False, do_deploy_tx = tx \<rparr>)))
        (\<lambda>r ss. ss = [] \<and> (\<forall>out. r = Inr out \<longrightarrow> do_address out = canonical_address a \<and> \<not> do_already_deployed out))" for tx
      by (rule emits_silent_then) (auto intro: emits_lift)
    with False show ?thesis
      by (auto intro!: emits_silent_then [OF calls(4)] emits_then [OF calls(6)] intro: emits_mono)
  qed (simp add: emits_lift)
  note rest = emits_silent_then [OF calls(2) step]
  show ?thesis
    unfolding deploy_multisig_def Let_def
    apply (rule emits_lift_then)
     apply (rule emits_then [OF emits_encode [OF assms]])
      apply (elim conjE, simp only: append_Nil)
      apply (rule emits_mono [OF rest])
       apply (simp_all add: spec_address_def)
    done
qed

lemma emits_fund:
  assumes "logs_sends env log"
  shows "emits log (fund_address env ctx address gv limiter)
     (\<lambda>r ss. if isl r then ss \<in> {[], [GiverSend address 0 [SHELL_CURRENCY_ID \<mapsto> gv] GIVER_FLAG]}
             else ss = [GiverSend address 0 [SHELL_CURRENCY_ID \<mapsto> gv] GIVER_FLAG])"
proof -
  note calls = emits_calls [OF assms]
  have "emits log (io_then (me_wait env ctx address (dapp_id_of address) Uninit) (\<lambda>_. io_lift (Inr l))) (\<lambda>r ss. ss = [])" for l
    by (rule emits_silent_then [OF calls(3)]) (auto intro: emits_lift)
  note waiting = this
  show ?thesis
    unfolding fund_address_def
    apply (rule emits_silent_then [OF calls(5)])
     apply (rule emits_then [OF emits_map_err [OF calls(7)]])
      apply (rule emits_mono [OF waiting])
    by (auto simp: fun_eq_iff)
qed

lemma emits_top_up:
  assumes "logs_sends env log"
  shows "emits log (top_up env ctx address entries limiter)
     (\<lambda>r ss. \<exists>ecc. ss \<in> {[], [GiverSend address ECC_TOPUP_GAS ecc 1]} \<and>
        (\<not> isl r \<longrightarrow> parse_giver_ecc entries Map.empty = Inr ecc \<and> (ss = [] \<longleftrightarrow> ecc = Map.empty)))"
proof -
  note calls = emits_calls [OF assms]
  have "emits log (if dom ecc \<noteq> {}
       then io_then (limiter_acquire env limiter) (\<lambda>_.
              io_map_err (with_context c) (me_giver_send env ctx address ECC_TOPUP_GAS ecc 1))
       else io_lift (Inr ()))
     (\<lambda>r ss. ss \<in> {[], [GiverSend address ECC_TOPUP_GAS ecc 1]} \<and> (\<not> isl r \<longrightarrow> (ss = [] \<longleftrightarrow> ecc = Map.empty)))" for ecc c
    by (auto intro!: emits_silent_then [OF calls(5)] emits_map_err emits_mono [OF calls(7)] emits_lift)
  note send = this
  show ?thesis
    unfolding top_up_def by (rule emits_lift_then, rule emits_mono [OF send]) auto
qed


text \<open>The messages of a whole deployment to the address \<open>a\<close>.\<close>

definition giver_messages :: "string \<Rightarrow> u64 \<Rightarrow> (u32 \<rightharpoonup> u64) \<Rightarrow> sent list" where
  "giver_messages a gv ecc =
     [GiverSend a 0 [SHELL_CURRENCY_ID \<mapsto> gv] GIVER_FLAG, DeploySend a, GiverSend a ECC_TOPUP_GAS ecc 1]"

definition giver_run_ok ::
  "ParamsOfDeployMultisigViaGiver \<Rightarrow> string \<Rightarrow> KeyPair \<Rightarrow> AppError + ResultOfDeployMultisigViaGiver \<Rightarrow> sent list \<Rightarrow> bool" where
  "giver_run_ok params a keys r ss =
     (\<exists>gv ecc. subseq ss (giver_messages a gv ecc) \<and>
        (ss = [] \<or> hd ss = hd (giver_messages a gv ecc) \<and> giver_value_of params = Inr gv) \<and>
        (case r of Inl _ \<Rightarrow> True
         | Inr res \<Rightarrow> dr_address res = canonical_address a \<and> dr_public res = kp_public keys \<and> dr_secret res = kp_secret keys \<and>
             (dr_already_deployed res \<longleftrightarrow> DeploySend a \<notin> set ss) \<and>
             (ss = [] \<or> parse_giver_ecc (unwrap_or [] (dp_giver_ecc params)) Map.empty = Inr ecc \<and>
                       (ecc = Map.empty \<longleftrightarrow> GiverSend a ECC_TOPUP_GAS ecc 1 \<notin> set ss))))"

lemma giver_flag_ne: "GIVER_FLAG \<noteq> 1"
  by (simp add: GIVER_FLAG_def)

lemma emits_funded:
  assumes "logs_sends env log" "encodes env addr"
    and a: "a = spec_address env addr (deploy_spec params keys)" and gv: "giver_value_of params = Inr gv"
  shows "emits log (io_then (fund_address env ctx a gv l) (\<lambda>limiter.
          io_then (limiter_acquire env limiter) (\<lambda>limiter.
          io_then (io_map_err (with_context ''multisig deploy failed'')
                     (deploy_multisig env ctx (deploy_spec params keys) wait)) (\<lambda>outcome.
          io_then (top_up env ctx a (unwrap_or [] (dp_giver_ecc params)) limiter) (\<lambda>_.
          io_lift (Inr \<lparr> dr_address = do_address outcome, dr_public = kp_public keys, dr_secret = kp_secret keys,
                         dr_already_deployed = do_already_deployed outcome, dr_deploy_tx = do_deploy_tx outcome \<rparr>))))))
     (giver_run_ok params a keys)"
proof -
  note calls = emits_calls [OF assms(1)]
  let ?create = "GiverSend a 0 [SHELL_CURRENCY_ID \<mapsto> gv] GIVER_FLAG"
  have done_ok: "emits log (io_then (top_up env ctx a (unwrap_or [] (dp_giver_ecc params)) limiter) (\<lambda>_.
          io_lift (Inr \<lparr> dr_address = do_address outcome, dr_public = kp_public keys, dr_secret = kp_secret keys,
                         dr_already_deployed = do_already_deployed outcome, dr_deploy_tx = do_deploy_tx outcome \<rparr>)))
      (\<lambda>r ts. giver_run_ok params a keys r (?create # ds @ ts))"
    if ds: "ds \<in> {[], [DeploySend a]}" "do_address outcome = canonical_address a" "do_already_deployed outcome \<longleftrightarrow> ds = []"
    for limiter outcome ds
    by (rule emits_then [OF emits_top_up [OF assms(1)]])
      (use ds gv giver_flag_ne in \<open>auto intro!: emits_lift simp: giver_run_ok_def giver_messages_def\<close>)
  have deploy_ok: "emits log (io_then (io_map_err (with_context ''multisig deploy failed'')
                     (deploy_multisig env ctx (deploy_spec params keys) wait)) (\<lambda>outcome.
          io_then (top_up env ctx a (unwrap_or [] (dp_giver_ecc params)) limiter) (\<lambda>_.
          io_lift (Inr \<lparr> dr_address = do_address outcome, dr_public = kp_public keys, dr_secret = kp_secret keys,
                         dr_already_deployed = do_already_deployed outcome, dr_deploy_tx = do_deploy_tx outcome \<rparr>))))
      (\<lambda>r ts. giver_run_ok params a keys r (?create # ts))" for limiter
    apply (rule emits_then [OF emits_map_err [where Q = "\<lambda>r ss. ss \<in> {[], [DeploySend a]} \<and>
        (\<forall>out. r = Inr out \<longrightarrow> do_address out = canonical_address a \<and> (do_already_deployed out \<longleftrightarrow> ss = []))"]])
      apply (rule emits_mono [OF emits_deploy [OF assms(1,2)]], simp add: a map_err_eq_Inr)
     apply (rule done_ok, simp_all)
    using gv by (auto simp: giver_run_ok_def giver_messages_def)
  show ?thesis
    apply (rule emits_then [OF emits_fund [OF assms(1)]])
     apply (simp, rule emits_silent_then [OF calls(5)], rule deploy_ok)
    using gv by (auto simp: giver_run_ok_def giver_messages_def split: if_splits)
qed

section \<open>A concrete network\<close>

text \<open>
  The giver creates accounts, a deployment makes them active, a reading of an account takes 600 ms; a wait
  for a status takes a second.  The log holds the time of every message.
\<close>

record shellnet_world =
  sh_time :: u64
  sh_log :: "(u64 \<times> sent) list"
  sh_status :: AccountStatus

definition sh_send :: "sent \<Rightarrow> AccountStatus \<Rightarrow> shellnet_world \<Rightarrow> shellnet_world" where
  "sh_send m st w = w\<lparr>sh_log := sh_log w @ [(sh_time w, m)], sh_status := st\<rparr>"

definition shellnet :: "(shellnet_world, unit, unit) multisig_env" where
  "shellnet = \<lparr> me_error_value = (\<lambda>_. Inl []), me_client_context = (\<lambda>_ _. Inr ()), me_abi = [], me_tvc_b64 = [],
     me_generate_keys = (\<lambda>_ w. (Inr \<lparr> kp_public = ''ab'', kp_secret = ''cd'' \<rparr>, w)),
     me_encode_address = (\<lambda>_ p w. (Inr (''0:'' @ kp_public (en_signer p)), w)),
     me_fetch = (\<lambda>_ _ _ w. (Inr \<lparr> av_acc_type = sh_status w, av_ecc = [] \<rparr>, w\<lparr>sh_time := sh_time w + 600\<rparr>)),
     me_wait = (\<lambda>_ _ _ _ w. (Inr (), w\<lparr>sh_time := sh_time w + 1000\<rparr>)),
     me_prepare_message = (\<lambda>_ _ _ _ w. (Inr (), w)),
     me_send_prepared = (\<lambda>_ a _ w. (Inr (Some ''tx''), sh_send (DeploySend a) Active w)),
     me_giver_send = (\<lambda>_ a v ecc f w. (Inr (), sh_send (GiverSend a v ecc f) (if f = GIVER_FLAG then Uninit else sh_status w) w)),
     me_now_ms = (\<lambda>w. (sh_time w, w)),
     me_sleep_ms = (\<lambda>t w. w\<lparr>sh_time := sh_time w + t\<rparr>) \<rparr>"

definition shell_start :: shellnet_world where
  "shell_start = \<lparr> sh_time = 0, sh_log = [], sh_status = OtherStatus \<rparr>"

definition shell_params :: "(u32 \<times> string) list option \<Rightarrow> MultisigBalanceConfig option \<Rightarrow> bool option \<Rightarrow> ParamsOfDeployMultisigViaGiver" where
  "shell_params ecc config wait =
     \<lparr> dp_endpoints = [], dp_keys = None, dp_owners_pubkey = None, dp_req_confirms = None, dp_req_confirms_data = None,
       dp_constructor_value = None, dp_balance_config = config, dp_giver_value = None, dp_giver_ecc = ecc,
       dp_wait_for_active = wait \<rparr>"

lemma shellnet_ok:
  "logs_sends shellnet (map snd \<circ> sh_log)" "encodes shellnet (\<lambda>p. ''0:'' @ kp_public (en_signer p))"
  by (auto simp: logs_sends_def encodes_def emits_def shellnet_def sh_send_def)

lemma shellnet_limiter:
  "\<exists>l' w'. limiter_acquire shellnet l w = (Inr l', w') \<and> sh_status w' = sh_status w \<and> sh_log w' = sh_log w"
  by (auto simp: limiter_acquire_def shellnet_def split: prod.splits)

lemmas shellnet_run = deploy_multisig_via_giver_def deploy_multisig_def fund_address_def top_up_def Let_def io_then_def
  compute_multisig_address_def encode_params_def constructor_input_def spec_validate_def deploy_spec_def deploy_keys_def
  make_context_def limiter_acquire_def Infra.acquire_def rate_limiter_new_def giver_value_of_def io_map_err_def
  shellnet_def shell_start_def shell_params_def sh_send_def MAX_SEND_RPS_def GIVER_FLAG_def parse_amount_def

section \<open>Properties\<close>



text \<open>
  Further property.  An unreadable amount among the currencies is noticed after the creation and the
  deployment: the run fails with the parsing error, in the world in which the wallet is deployed, and
  the caller gets neither the address nor the keys, generated or not.
\<close>

theorem giver_deploy_loses_keys:
  assumes "make_context env (dp_endpoints params) = Inr ctx" "deploy_keys env ctx params w = (Inr keys, w1)"
    and "compute_multisig_address env ctx (deploy_spec params keys) w1 = (Inr a, w2)"
    and "me_fetch env ctx a (dapp_id_of a) w2 = (Inr account, w3)" "av_acc_type account \<noteq> Active"
    and "giver_value_of params = Inr gv"
    and "fund_address env ctx a gv (the (rate_limiter_new MAX_SEND_RPS)) w3 = (Inr l, w4)"
    and "limiter_acquire env l w4 = (Inr l', w5)"
    and "deploy_multisig env ctx (deploy_spec params keys) (unwrap_or True (dp_wait_for_active params)) w5 = (Inr outcome, w6)"
    and "dp_giver_ecc params = Some entries" "parse_giver_ecc entries Map.empty = Inl e"
  shows "deploy_multisig_via_giver env params w = (Inl e, w6)"
  using assms by (simp add: deploy_multisig_via_giver_def top_up_def Let_def)

theorem giver_deploy_loses_keys_witness:
  "\<exists>e w'. deploy_multisig_via_giver shellnet (shell_params (Some [(1, ''x'')]) None None) shell_start = (Inl e, w') \<and>
     sh_status w' = Active \<and> length (sh_log w') = 2"
proof -
  let ?p = "shell_params (Some [(1, ''x'')]) None None"
  let ?keys = "\<lparr> kp_public = ''ab'', kp_secret = ''cd'' \<rparr>"
  have "parse_u ''x'' = (Inl ''invalid digit found in string'' :: u64 result)"
    by (simp add: parse_u_def parse_nat_def is_digit_def)
  then have bad: "parse_giver_ecc [(1, ''x'')] Map.empty =
      Inl (app_error_new (''invalid giver_ecc amount `x`: '' @ ''invalid digit found in string''))"
    by (simp add: parse_amount_def)
  obtain w3 where w3: "me_fetch shellnet () ''0:ab'' (dapp_id_of ''0:ab'') shell_start = (Inr \<lparr> av_acc_type = OtherStatus, av_ecc = [] \<rparr>, w3)"
    "sh_status w3 = OtherStatus" "sh_log w3 = []"
    by (simp add: shellnet_run)
  obtain l w4 where w4: "fund_address shellnet () ''0:ab'' DEFAULT_GIVER_VALUE (the (rate_limiter_new MAX_SEND_RPS)) w3 = (Inr l, w4)"
    "sh_status w4 = Uninit" "length (sh_log w4) = 1"
    using w3(2,3) by (simp add: shellnet_run)
  obtain l' w5 where w5: "limiter_acquire shellnet l w4 = (Inr l', w5)" "sh_status w5 = Uninit" "length (sh_log w5) = 1"
    using shellnet_limiter [of l w4] w4(2,3) by auto
  obtain out w6 where w6: "deploy_multisig shellnet () (deploy_spec ?p ?keys) True w5 = (Inr out, w6)"
    "sh_status w6 = Active" "length (sh_log w6) = 2"
    using w5(2,3) by (simp add: shellnet_run)
  have "deploy_multisig_via_giver shellnet ?p shell_start =
      (Inl (app_error_new (''invalid giver_ecc amount `x`: '' @ ''invalid digit found in string'')), w6)"
    by (rule giver_deploy_loses_keys [OF _ _ _ w3(1) _ _ w4(1) w5(1) _ _ bad, where keys = ?keys and ?w1.0 = shell_start and outcome = out])
      (use w6(1) in \<open>simp_all add: shellnet_run\<close>)
  with w6 show ?thesis by blast
qed

text \<open>
  Further property.  A balance configuration is accepted exactly when both amounts are decimal 128-bit
  numbers and the target is not below the minimum; any other one is rejected before the first
  message, in the world right after the keys.
\<close>

lemma balance_config_validate_iff:
  "balance_config_validate c = Inr () \<longleftrightarrow>
     (\<exists>m t. parse_u (bc_min_balance c) = Inr (m :: u128) \<and> parse_u (bc_target_balance c) = Inr (t :: u128) \<and> m \<le> t)"
  by (auto simp: balance_config_validate_def res_simps)

theorem giver_deploy_rejects_config:
  assumes "make_context env (dp_endpoints params) = Inr ctx" "deploy_keys env ctx params w = (Inr keys, w1)"
    and "dp_balance_config params = Some c"
    and "\<nexists>m t. parse_u (bc_min_balance c) = Inr (m :: u128) \<and> parse_u (bc_target_balance c) = Inr (t :: u128) \<and> m \<le> t"
  shows "\<exists>e. deploy_multisig_via_giver env params w = (Inl e, w1)"
proof -
  obtain e where "balance_config_validate c = Inl e"
    using assms(4) unfolding balance_config_validate_iff [symmetric] by (cases "balance_config_validate c") auto
  with assms(3) have "encode_params env (deploy_spec params keys) = Inl e"
    by (simp add: encode_params_def constructor_input_def spec_validate_def deploy_spec_def)
  then have "compute_multisig_address env ctx (deploy_spec params keys) w1 = (Inl e, w1)"
    by (simp add: compute_multisig_address_def)
  with assms(1,2) show ?thesis by (simp add: deploy_multisig_via_giver_def Let_def)
qed

theorem giver_deploy_rejects_config_witness:
  "\<exists>e. deploy_multisig_via_giver shellnet
     (shell_params None (Some \<lparr> bc_min_balance = ''2'', bc_target_balance = ''1'' \<rparr>) None) shell_start = (Inl e, shell_start)"
proof -
  have "parse_u ''2'' = (Inr 2 :: u128 result)" "parse_u ''1'' = (Inr 1 :: u128 result)"
    by (simp_all add: parse_u_def parse_nat_def is_digit_def digit_val_def)
  then show ?thesis
    by (intro giver_deploy_rejects_config [where ctx = "()" and keys = "\<lparr> kp_public = ''ab'', kp_secret = ''cd'' \<rparr>"
          and c = "\<lparr> bc_min_balance = ''2'', bc_target_balance = ''1'' \<rparr>"]) (simp_all add: shellnet_run word_le_nat_alt)
qed

text \<open>
  Further property.  The balances of a wallet are read in the same application whether its address is
  given raw or in the canonical form that a deployment returns.
\<close>

lemma trim_start_0_no_colon:
  assumes "CHR '':'' \<notin> set s"
  shows "trim_start_0 s = s"
  using assms by (auto simp: trim_start_0.simps [of s] split: list.splits)

lemma split_once_colons_at: "CHR '':'' \<notin> set p \<Longrightarrow> split_once_colons (p @ CHR '':'' # CHR '':'' # q) = Some (p, q)"
proof (induction p)
  case (Cons c p)
  then show ?case by (cases p) auto
qed simp

lemma split_once_colons_none: "CHR '':'' \<notin> set p \<Longrightarrow> split_once_colons p = None"
  by (induction p rule: split_once_colons.induct) auto

theorem multisig_balances_dapp:
  assumes "CHR '':'' \<notin> set acc"
  shows "dapp_id_of (''0:'' @ acc) = acc \<and> balances_dapp_id (''0:'' @ acc) = acc \<and>
         balances_dapp_id (canonical_address (''0:'' @ acc)) = acc"
proof (intro conjI)
  have trim: "trim_start_0 (''0:'' @ acc) = acc"
    using trim_start_0_no_colon [OF assms] by (subst trim_start_0.simps) simp
  have "split_once_colons (''0:'' @ acc) = None"
    using assms split_once_colons_none [OF assms] by (cases acc) auto
  then show "balances_dapp_id (''0:'' @ acc) = acc" by (simp only: balances_dapp_id_def trim option.case)
  show "dapp_id_of (''0:'' @ acc) = acc" by (simp only: dapp_id_of_def trim)
  have "split_once_colons (acc @ ''::'' @ acc) = Some (acc, acc)"
    using split_once_colons_at [OF assms, of acc] by simp
  then show "balances_dapp_id (canonical_address (''0:'' @ acc)) = acc"
    by (simp only: balances_dapp_id_def canonical_address_def trim Let_def option.case prod.case)
qed

theorem multisig_balances_dapp_witness:
  "balances_dapp_id (canonical_address ''0:1f'') = ''1f''"
  using multisig_balances_dapp [of "''1f''"] by simp

text \<open>
  Further property.  When the caller does not wait for the account to become active, the top-up is sent
  in the same millisecond as the deployment, although the limiter is set to two messages a second:
  the slot of the deployment is taken before the account is read again.
\<close>

theorem giver_top_up_not_spaced:
  "\<exists>t a ecc. drop 1 (sh_log (snd (deploy_multisig_via_giver shellnet (shell_params (Some [(1, ''5'')]) None (Some False)) shell_start))) =
     [(t, DeploySend a), (t, GiverSend a ECC_TOPUP_GAS ecc 1)]"
proof -
  have "parse_u ''5'' = (Inr 5 :: u64 result)"
    by (simp add: parse_u_def parse_nat_def is_digit_def digit_val_def)
  then show ?thesis by (simp add: shellnet_run)
qed

end
