(* ===== verification/Vault.thy ===== *)
theory Vault
  imports Numerals
begin

text \<open>
  The crate \<open>bee_crypto\<close>: password-based encryption (\<open>services/chacha.rs\<close>), password hashes
  (\<open>services/hash.rs\<close>), the storage of the application (\<open>services/storage.rs\<close>), signatures, mnemonics,
  cell hashes, and the client that calls them (\<open>client.rs\<close>).

  The cryptographic packages and the TVM client are fields of \<open>vault_env\<close>; random draws are arguments.
  The definitions follow the native variants; those for the browser derive the same keys by
  the Web Crypto interface.
\<close>

section \<open>Packages\<close>

record vault_env =
  bc_hex_encode :: "byte list \<Rightarrow> string"
  bc_hex_decode :: "string \<Rightarrow> byte list result"
  bc_b64_encode :: "byte list \<Rightarrow> string"
  bc_b64_decode :: "string \<Rightarrow> byte list result"
  bc_from_utf8 :: "byte list \<Rightarrow> string result"
  bc_pbkdf2 :: "byte list \<Rightarrow> byte list \<Rightarrow> u32 \<Rightarrow> nat \<Rightarrow> byte list"
  bc_seal :: "byte list \<Rightarrow> byte list \<Rightarrow> byte list \<Rightarrow> byte list result"
  bc_open :: "byte list \<Rightarrow> byte list \<Rightarrow> byte list \<Rightarrow> byte list option"
  bc_ed25519_sign :: "byte list \<Rightarrow> byte list \<Rightarrow> byte list"
  bc_ed25519_key :: "byte list \<Rightarrow> string + unit"
  bc_ed25519_verify_strict :: "byte list \<Rightarrow> byte list \<Rightarrow> byte list \<Rightarrow> string + unit"
  bc_error_value :: "ClientError \<Rightarrow> json result"
  bc_chacha20 :: "string \<Rightarrow> string \<Rightarrow> string \<Rightarrow> ClientError + string"
  bc_sha256 :: "string \<Rightarrow> ClientError + string"
  bc_derive_sign_keys :: "string \<Rightarrow> string option \<Rightarrow> u8 \<Rightarrow> ClientError + KeyPair"
  bc_mnemonic_verify :: "string \<Rightarrow> u8 \<Rightarrow> ClientError + bool"
  bc_mnemonic_words :: "ClientError + string"
  bc_encode_boc :: "u32 \<Rightarrow> string \<Rightarrow> ClientError + string"
  bc_boc_hash :: "string \<Rightarrow> ClientError + string"

text \<open>The conversions of errors that differ in the kind (\<open>bee_errors/src/lib.rs\<close>).\<close>

definition app_error_from_hex :: "string \<Rightarrow> AppError" where
  "app_error_from_hex message = with_kind ''hex'' (app_error_new message)"

definition app_error_from_base64 :: "string \<Rightarrow> AppError" where
  "app_error_from_base64 message = with_kind ''base64'' (app_error_new message)"

definition app_error_from_utf8 :: "string \<Rightarrow> AppError" where
  "app_error_from_utf8 message = with_kind ''utf8'' (app_error_new message)"

definition decode_hex :: "vault_env \<Rightarrow> string \<Rightarrow> string \<Rightarrow> AppError + byte list" where
  "decode_hex env context s = map_err (\<lambda>e. with_context context (app_error_from_hex e)) (bc_hex_decode env s)"

definition from_tvm :: "vault_env \<Rightarrow> string \<Rightarrow> ClientError + 'a \<Rightarrow> AppError + 'a" where
  "from_tvm env context r = map_err (\<lambda>e. with_context context (app_error_from_client (bc_error_value env) e)) r"

section \<open>Keys from passwords\<close>

definition PBKDF2_ITERATIONS :: u32 where "PBKDF2_ITERATIONS = 100000"
definition LEGACY_PBKDF2_ITERATIONS :: u32 where "LEGACY_PBKDF2_ITERATIONS = 100000"
definition DERIVED_KEY_LEN :: nat where "DERIVED_KEY_LEN = 32"

definition derive_key_pbkdf2_with_rounds :: "vault_env \<Rightarrow> byte list \<Rightarrow> byte list \<Rightarrow> u32 \<Rightarrow> string" where
  "derive_key_pbkdf2_with_rounds env password salt rounds =
     bc_hex_encode env (bc_pbkdf2 env password salt rounds DERIVED_KEY_LEN)"

definition derive_key_pbkdf2 :: "vault_env \<Rightarrow> byte list \<Rightarrow> byte list \<Rightarrow> string" where
  "derive_key_pbkdf2 env password salt = derive_key_pbkdf2_with_rounds env password salt PBKDF2_ITERATIONS"

section \<open>Envelopes\<close>

text \<open>\<open>splitn(n, ':')\<close>.\<close>

fun splitn_colon :: "nat \<Rightarrow> string \<Rightarrow> string list" where
  "splitn_colon 0 s = []"
| "splitn_colon (Suc 0) s = [s]"
| "splitn_colon (Suc (Suc n)) s =
     (case dropWhile (\<lambda>c. c \<noteq> CHR '':'') s of
        [] \<Rightarrow> [s]
      | _ # rest \<Rightarrow> takeWhile (\<lambda>c. c \<noteq> CHR '':'') s # splitn_colon (Suc n) rest)"

definition aead_key :: "vault_env \<Rightarrow> string \<Rightarrow> AppError + byte list" where
  "aead_key env key_hex =
     and_then (decode_hex env ''Failed to decode derived key'' key_hex) (\<lambda>key.
       if length key \<noteq> 32 then Inl (app_error_new ''Derived key must be 32 bytes'') else Inr key)"

definition aead_encrypt :: "vault_env \<Rightarrow> byte list \<Rightarrow> string \<Rightarrow> byte list \<Rightarrow> byte list \<Rightarrow> string \<Rightarrow> AppError + string" where
  "aead_encrypt env plaintext key_hex salt nonce version_tag =
     and_then (aead_key env key_hex) (\<lambda>key.
     and_then (map_err (\<lambda>e. app_error_new (''AEAD encryption failed: '' @ e)) (bc_seal env key nonce plaintext)) (\<lambda>ciphertext.
     Inr (version_tag @ '':'' @ bc_hex_encode env salt @ '':'' @ bc_hex_encode env nonce @ '':'' @ bc_hex_encode env ciphertext)))"

definition utf8_result :: "vault_env \<Rightarrow> byte list \<Rightarrow> AppError + string" where
  "utf8_result env bytes =
     map_err (\<lambda>e. with_context ''result decryption failure'' (app_error_from_utf8 e)) (bc_from_utf8 env bytes)"

definition aead_decrypt :: "vault_env \<Rightarrow> string \<Rightarrow> byte list \<Rightarrow> byte list \<Rightarrow> AppError + string" where
  "aead_decrypt env key_hex nonce ciphertext =
     and_then (aead_key env key_hex) (\<lambda>key.
     and_then (ok_or (app_error_new ''Decryption failed: authentication tag mismatch (data may be tampered)'')
                (bc_open env key nonce ciphertext)) (utf8_result env))"

definition parse_aead_envelope :: "vault_env \<Rightarrow> string \<Rightarrow> AppError + byte list \<times> byte list \<times> byte list" where
  "parse_aead_envelope env rest =
     (case splitn_colon 3 rest of
        [salt_hex, nonce_hex, ciphertext_hex] \<Rightarrow>
          and_then (decode_hex env ''Failed to decode salt'' salt_hex) (\<lambda>salt.
          if length salt \<noteq> 32
          then Inl (app_error_new (''Invalid salt length: expected 32, got '' @ show_nat (length salt)))
          else and_then (decode_hex env ''Failed to decode nonce'' nonce_hex) (\<lambda>nonce.
          if length nonce \<noteq> 24
          then Inl (app_error_new (''Invalid nonce length: expected 24, got '' @ show_nat (length nonce)))
          else and_then (decode_hex env ''Failed to decode ciphertext'' ciphertext_hex) (\<lambda>ciphertext.
          Inr (salt, nonce, ciphertext))))
      | _ \<Rightarrow> Inl (app_error_new ''Invalid envelope format''))"

definition parse_v1_envelope :: "vault_env \<Rightarrow> string \<Rightarrow> AppError + byte list \<times> string \<times> string" where
  "parse_v1_envelope env rest =
     (case splitn_colon 3 rest of
        [salt_hex, nonce_hex, ciphertext] \<Rightarrow>
          if length nonce_hex \<noteq> 24
          then Inl (app_error_new (''Invalid v1 nonce length: expected 24 hex chars, got '' @ show_nat (length nonce_hex)))
          else and_then (decode_hex env ''Failed to decode salt hex'' salt_hex) (\<lambda>salt_bytes.
          if length salt_bytes \<noteq> 16
          then Inl (app_error_new (''Invalid v1 salt length: expected 16, got '' @ show_nat (length salt_bytes)))
          else Inr (salt_bytes, nonce_hex, ciphertext))
      | _ \<Rightarrow> Inl (app_error_new ''Invalid envelope format''))"

definition drawn :: "string \<Rightarrow> byte list result \<Rightarrow> AppError + byte list" where
  "drawn name draw = map_err (\<lambda>e. app_error_new (''Failed to generate '' @ name @ '': '' @ e)) draw"

definition vault_encrypt ::
  "vault_env \<Rightarrow> string \<Rightarrow> string \<Rightarrow> byte list result \<Rightarrow> byte list result \<Rightarrow> AppError + string" where
  "vault_encrypt env plaintext password salt_draw nonce_draw =
     and_then (drawn ''salt'' salt_draw) (\<lambda>salt.
     and_then (drawn ''nonce'' nonce_draw) (\<lambda>nonce.
     aead_encrypt env (as_bytes plaintext) (derive_key_pbkdf2 env (as_bytes password) salt) salt nonce ''v3''))"

definition decrypt_v1_legacy :: "vault_env \<Rightarrow> string \<Rightarrow> string \<Rightarrow> AppError + string" where
  "decrypt_v1_legacy env rest password =
     and_then (parse_v1_envelope env rest) (\<lambda>(salt_bytes, nonce_hex, ciphertext).
     and_then (from_tvm env ''ChaCha20 decryption failed''
       (bc_chacha20 env ciphertext
          (derive_key_pbkdf2_with_rounds env (as_bytes password) salt_bytes LEGACY_PBKDF2_ITERATIONS) nonce_hex)) (\<lambda>data.
     and_then (map_err (\<lambda>e. with_context ''Base64 decode error'' (app_error_from_base64 e)) (bc_b64_decode env data)) (\<lambda>decrypted_bytes.
     utf8_result env decrypted_bytes)))"

definition vault_decrypt :: "vault_env \<Rightarrow> string \<Rightarrow> string \<Rightarrow> AppError + string" where
  "vault_decrypt env encrypted password =
     (case strip_prefix ''v3:'' encrypted of
        Some rest \<Rightarrow> and_then (parse_aead_envelope env rest) (\<lambda>(salt, nonce, ciphertext).
          aead_decrypt env (derive_key_pbkdf2 env (as_bytes password) salt) nonce ciphertext)
      | None \<Rightarrow> (case strip_prefix ''v2:'' encrypted of
        Some rest \<Rightarrow> and_then (parse_aead_envelope env rest) (\<lambda>(salt, nonce, ciphertext).
          aead_decrypt env (derive_key_pbkdf2_with_rounds env (as_bytes password) salt LEGACY_PBKDF2_ITERATIONS) nonce ciphertext)
      | None \<Rightarrow> (case strip_prefix ''v1:'' encrypted of
        Some rest \<Rightarrow> decrypt_v1_legacy env rest password
      | None \<Rightarrow> Inl (app_error_new ''Unknown encryption envelope version''))))"

section \<open>Password hashes\<close>

definition PBKDF2_ROUNDS_V3 :: u32 where "PBKDF2_ROUNDS_V3 = PBKDF2_ITERATIONS"
definition PBKDF2_ROUNDS_V2_LEGACY :: u32 where "PBKDF2_ROUNDS_V2_LEGACY = 100000"
definition DK_LEN :: nat where "DK_LEN = 32"
definition SALT_LEN :: nat where "SALT_LEN = 32"

definition random_salted_hash :: "vault_env \<Rightarrow> string \<Rightarrow> byte list result \<Rightarrow> AppError + string" where
  "random_salted_hash env data salt_draw =
     and_then (drawn ''salt'' salt_draw) (\<lambda>salt_bytes.
       let dk = bc_pbkdf2 env (as_bytes data) salt_bytes PBKDF2_ROUNDS_V3 DK_LEN
       in Inr (''v3:'' @ bc_hex_encode env salt_bytes @ '':'' @ bc_hex_encode env dk))"

definition verify_salted_hash :: "vault_env \<Rightarrow> string \<Rightarrow> string \<Rightarrow> AppError + bool" where
  "verify_salted_hash env password envelope =
     (case split_on (CHR '':'') envelope of
        [version, salt_hex, dk_hex] \<Rightarrow>
          and_then (if version = ''v3'' then Inr PBKDF2_ROUNDS_V3
                    else if version = ''v2'' then Inr PBKDF2_ROUNDS_V2_LEGACY
                    else Inl (app_error_from_string (''Unknown hash version: '' @ version))) (\<lambda>iterations.
          and_then (map_err (\<lambda>_. app_error_from_string ''Bad salt hex'') (bc_hex_decode env salt_hex)) (\<lambda>salt_bytes.
          if length salt_bytes \<noteq> SALT_LEN then Inl (app_error_from_string ''Bad salt length'')
          else and_then (map_err (\<lambda>_. app_error_from_string ''Bad dk hex'') (bc_hex_decode env dk_hex)) (\<lambda>expected.
          if length expected \<noteq> DK_LEN then Inl (app_error_from_string ''Bad dk length'')
          else Inr (bc_pbkdf2 env (as_bytes password) salt_bytes iterations DK_LEN = expected))))
      | _ \<Rightarrow> Inl (app_error_from_string ''Bad format''))"

section \<open>Storage\<close>

definition derive_storage_key :: "vault_env \<Rightarrow> byte list \<Rightarrow> byte list \<Rightarrow> byte list" where
  "derive_storage_key env password salt = bc_pbkdf2 env password salt PBKDF2_ITERATIONS 32"

definition storage_encrypt :: "vault_env \<Rightarrow> byte list \<Rightarrow> byte list \<Rightarrow> byte list result \<Rightarrow> AppError + string" where
  "storage_encrypt env plaintext key nonce_draw =
     and_then (drawn ''nonce'' nonce_draw) (\<lambda>nonce_bytes.
     and_then (map_err (\<lambda>e. app_error_new (''AEAD encryption failed: '' @ e)) (bc_seal env key nonce_bytes plaintext)) (\<lambda>ciphertext.
     Inr (''enc1:'' @ bc_hex_encode env nonce_bytes @ '':'' @ bc_hex_encode env ciphertext)))"

definition storage_decrypt :: "vault_env \<Rightarrow> string \<Rightarrow> byte list \<Rightarrow> AppError + string" where
  "storage_decrypt env envelope key =
     and_then (ok_or (app_error_new ''Unknown storage envelope version'') (strip_prefix ''enc1:'' envelope)) (\<lambda>rest.
     case splitn_colon 2 rest of
       [nonce_hex, ct_hex] \<Rightarrow>
         and_then (decode_hex env ''Invalid nonce hex'' nonce_hex) (\<lambda>nonce_bytes.
         if length nonce_bytes \<noteq> 24
         then Inl (app_error_new (''Invalid nonce length: expected 24, got '' @ show_nat (length nonce_bytes)))
         else and_then (decode_hex env ''Invalid ciphertext hex'' ct_hex) (\<lambda>ciphertext.
         and_then (ok_or (app_error_new ''Storage decryption failed: wrong key or tampered data'')
                     (bc_open env key nonce_bytes ciphertext)) (\<lambda>plaintext.
         map_err (\<lambda>e. with_context ''Decrypted data is not valid UTF-8'' (app_error_from_utf8 e)) (bc_from_utf8 env plaintext))))
     | _ \<Rightarrow> Inl (app_error_new ''Missing ciphertext in storage envelope''))"


section \<open>Signatures\<close>

text \<open>64 bytes always form a signature, so its parsing has no error here.\<close>

definition verify_signature :: "vault_env \<Rightarrow> string \<Rightarrow> string \<Rightarrow> AppError + string" where
  "verify_signature env signed_b64 pub =
     and_then (map_err (\<lambda>e. with_context ''failed to decode signed base64'' (app_error_from_base64 e)) (bc_b64_decode env signed_b64)) (\<lambda>signed_bytes.
     if length signed_bytes < 64
     then Inl (app_error_new ''Signed data too short: must contain at least 64-byte signature'')
     else
       let signature = take 64 signed_bytes; message = drop 64 signed_bytes
       in and_then (decode_hex env ''failed to decode public key hex'' pub) (\<lambda>pub_bytes.
          if length pub_bytes \<noteq> 32 then Inl (app_error_new ''Public key must be 32 bytes'')
          else
            and_then (map_err (\<lambda>e. app_error_new (''Invalid public key: '' @ e)) (bc_ed25519_key env pub_bytes)) (\<lambda>_.
            and_then (map_err (\<lambda>e. app_error_new (''Signature verification failed: '' @ e))
                        (bc_ed25519_verify_strict env pub_bytes message signature)) (\<lambda>_.
            Inr (bc_b64_encode env message)))))"

definition sign_detached_hex :: "vault_env \<Rightarrow> string \<Rightarrow> string \<Rightarrow> AppError + string" where
  "sign_detached_hex env data secret_key =
     and_then (decode_hex env ''failed to decode hex data'' data) (\<lambda>data_bytes.
     and_then (decode_hex env ''failed to decode hex secret'' secret_key) (\<lambda>secret_key_bytes.
     if length secret_key_bytes \<noteq> 32
     then Inl (with_context ''failed to convert secret bytes'' (app_error_new ''TryFromSliceError(())''))
     else Inr (bc_hex_encode env (bc_ed25519_sign env secret_key_bytes data_bytes))))"

section \<open>Mnemonics\<close>

text \<open>\<open>split_whitespace().count()\<close>: the runs of other characters than white space.\<close>

function count_words :: "bool \<Rightarrow> string \<Rightarrow> nat" where
  "count_words in_word s =
     (case s of
        [] \<Rightarrow> 0
      | c # rest \<Rightarrow> if ws_len s > 0 then count_words False (drop (ws_len s) s)
                    else (if in_word then 0 else 1) + count_words True rest)"
  by pat_completeness auto
termination
  by (relation "measure (\<lambda>(b, s). length s)") auto

declare count_words.simps [simp del]

definition validate_phrase_word_count :: "string \<Rightarrow> u8 \<Rightarrow> AppError + unit" where
  "validate_phrase_word_count phrase expected_word_count =
     (let actual_word_count = count_words False phrase
      in if actual_word_count \<noteq> unat expected_word_count
         then Inl (with_kind ''mnemonic'' (app_error_new (''Mnemonic word count mismatch: expected '' @
                     show_u expected_word_count @ '', got '' @ show_nat actual_word_count)))
         else Inr ())"

text \<open>The phrase of \<open>mnemonic_from_random\<close> is the last argument.\<close>

definition gen_mnemonic_and_derive_keys :: "vault_env \<Rightarrow> u8 \<Rightarrow> ClientError + string \<Rightarrow> AppError + string \<times> KeyPair" where
  "gen_mnemonic_and_derive_keys env word_count phrase_draw =
     and_then (from_tvm env ''Failed to gen seed'' phrase_draw) (\<lambda>phrase.
     and_then (from_tvm env ''Failed to gen seed'' (bc_derive_sign_keys env phrase None word_count)) (\<lambda>keys.
     Inr (phrase, keys)))"

definition derive_keys_from_mnemonic :: "vault_env \<Rightarrow> string \<Rightarrow> u8 \<Rightarrow> AppError + KeyPair" where
  "derive_keys_from_mnemonic env phrase word_count =
     and_then (validate_phrase_word_count phrase word_count) (\<lambda>_.
     from_tvm env ''Failed to derive keys'' (bc_derive_sign_keys env phrase None word_count))"

definition derive_keys_from_mnemonic_with_path :: "vault_env \<Rightarrow> string \<Rightarrow> string \<Rightarrow> u8 \<Rightarrow> AppError + KeyPair" where
  "derive_keys_from_mnemonic_with_path env phrase path word_count =
     and_then (validate_phrase_word_count phrase word_count) (\<lambda>_.
     from_tvm env ''Failed to derive keys with path'' (bc_derive_sign_keys env phrase (Some path) word_count))"

definition verify_mnemonic :: "vault_env \<Rightarrow> string \<Rightarrow> u8 \<Rightarrow> AppError + bool" where
  "verify_mnemonic env phrase word_count = from_tvm env ''Failed to derive keys'' (bc_mnemonic_verify env phrase word_count)"

definition mnemonic_words :: "vault_env \<Rightarrow> AppError + string" where
  "mnemonic_words env =
     map_err (\<lambda>e. with_details (ce_message e) (app_error_new (''Get mnemonic words failed: ('' @ ce_display e @ '')'')))
       (bc_mnemonic_words env)"

section \<open>Hashes of cells and bytes\<close>

definition tvm_sha256 :: "vault_env \<Rightarrow> string \<Rightarrow> AppError + string" where
  "tvm_sha256 env data = from_tvm env ''Failed to hash data'' (bc_sha256 env (bc_b64_encode env (as_bytes data)))"

definition get_boc_hash :: "vault_env \<Rightarrow> string \<Rightarrow> AppError + string" where
  "get_boc_hash env data =
     and_then (decode_hex env ''failed to hex decode'' data) (\<lambda>bytes.
     and_then (from_tvm env ''failed to encode boc'' (bc_encode_boc env (word_of_nat (length bytes) * 8) (''0x'' @ data))) (\<lambda>boc.
     from_tvm env ''failed to get_boc_hash'' (bc_boc_hash env boc)))"

section \<open>The client\<close>

definition client_gen_mining_keys :: "vault_env \<Rightarrow> ClientError + string \<Rightarrow> AppError + KeyPair" where
  "client_gen_mining_keys env phrase_draw =
     and_then (gen_mnemonic_and_derive_keys env 12 phrase_draw) (\<lambda>res. Inr (snd res))"

definition client_verify_mnemonic :: "vault_env \<Rightarrow> string \<Rightarrow> u8 \<Rightarrow> AppError + bool" where
  "client_verify_mnemonic env phrase word_count =
     and_then (validate_phrase_word_count phrase word_count) (\<lambda>_. verify_mnemonic env phrase word_count)"

definition client_sha_256 :: "vault_env \<Rightarrow> string \<Rightarrow> AppError + string" where
  "client_sha_256 env data = map_err (with_context ''failed to hash data'') (tvm_sha256 env data)"

end
