(* ===== verification/VaultProperties.thy ===== *)
theory VaultProperties
  imports Vault
begin

text \<open>
  What the encryption, the password hashes and the storage of \<open>bee_crypto\<close> promise, under the laws of
  the packages that \<open>vault_ok\<close> states, and what they do not authenticate.
\<close>

section \<open>The laws of the packages\<close>

text \<open>
  Decoding inverts hexadecimal encoding, whose text has no colon; a key has the length asked for;
  opening inverts sealing under the same key and nonce; the bytes of a text are decoded to it.
\<close>

definition vault_ok :: "vault_env \<Rightarrow> bool" where
  "vault_ok env =
     ((\<forall>bs. bc_hex_decode env (bc_hex_encode env bs) = Inr bs) \<and>
      (\<forall>bs. CHR '':'' \<notin> set (bc_hex_encode env bs)) \<and>
      (\<forall>p s r n. length (bc_pbkdf2 env p s r n) = n) \<and>
      (\<forall>k n m c. bc_seal env k n m = Inr c \<longrightarrow> bc_open env k n c = Some m) \<and>
      (\<forall>s. bc_from_utf8 env (as_bytes s) = Inr s))"

lemma vault_okD:
  assumes "vault_ok env"
  shows "bc_hex_decode env (bc_hex_encode env bs) = Inr bs" "CHR '':'' \<notin> set (bc_hex_encode env bs)"
    "length (bc_pbkdf2 env p s r n) = n" "bc_seal env k x m = Inr c \<Longrightarrow> bc_open env k x c = Some m"
    "bc_from_utf8 env (as_bytes t) = Inr t"
  using assms by (simp_all add: vault_ok_def)

lemma colon_free_split:
  assumes "CHR '':'' \<notin> set p"
  shows "takeWhile (\<lambda>c. c \<noteq> CHR '':'') (p @ CHR '':'' # q) = p" "dropWhile (\<lambda>c. c \<noteq> CHR '':'') (p @ CHR '':'' # q) = CHR '':'' # q"
proof -
  have "x \<noteq> CHR '':''" if "x \<in> set p" for x using assms that by blast
  then show "takeWhile (\<lambda>c. c \<noteq> CHR '':'') (p @ CHR '':'' # q) = p"
    "dropWhile (\<lambda>c. c \<noteq> CHR '':'') (p @ CHR '':'' # q) = CHR '':'' # q"
    by (simp_all add: takeWhile_append2 dropWhile_append2)
qed

lemma splitn_colon_cons:
  assumes "CHR '':'' \<notin> set p"
  shows "splitn_colon (Suc (Suc n)) (p @ CHR '':'' # q) = p # splitn_colon (Suc n) q"
  unfolding splitn_colon.simps colon_free_split [OF assms] by simp

lemma splitn_colon_3:
  assumes "CHR '':'' \<notin> set p" "CHR '':'' \<notin> set q"
  shows "splitn_colon 3 (p @ '':'' @ q @ '':'' @ r) = [p, q, r]"
  using splitn_colon_cons [OF assms(1), of 1 "q @ '':'' @ r"] splitn_colon_cons [OF assms(2), of 0 r]
  by (simp add: numeral_3_eq_3)

lemma splitn_colon_2:
  assumes "CHR '':'' \<notin> set p"
  shows "splitn_colon 2 (p @ '':'' @ q) = [p, q]"
  using splitn_colon_cons [OF assms, of 0 q] by (simp add: numeral_2_eq_2)

lemma decode_hex_encode:
  assumes "vault_ok env"
  shows "decode_hex env c (bc_hex_encode env bs) = Inr bs"
  by (simp add: decode_hex_def vault_okD [OF assms])

lemma parse_aead_envelope_encode:
  assumes "vault_ok env" "length salt = 32" "length nonce = 24"
  shows "parse_aead_envelope env (bc_hex_encode env salt @ '':'' @ bc_hex_encode env nonce @ '':'' @ bc_hex_encode env ct)
         = Inr (salt, nonce, ct)"
  by (simp only: parse_aead_envelope_def splitn_colon_3 [OF vault_okD(2) [OF assms(1)] vault_okD(2) [OF assms(1)]] list.case
      decode_hex_encode [OF assms(1)] and_then.simps assms(2,3) simp_thms if_False)

lemma aead_key_ok:
  assumes "vault_ok env"
  shows "aead_key env (derive_key_pbkdf2_with_rounds env p s r) = Inr (bc_pbkdf2 env p s r 32)"
  by (simp add: aead_key_def derive_key_pbkdf2_with_rounds_def decode_hex_encode [OF assms] vault_okD [OF assms] DERIVED_KEY_LEN_def)

section \<open>Envelopes as a sealed channel\<close>

text \<open>The key of the channel is the environment, the password, the two draws and the version.\<close>

record vault_key =
  vk_env :: vault_env
  vk_password :: string
  vk_salt :: "byte list"
  vk_nonce :: "byte list"

definition vault_key_ok :: "vault_key \<Rightarrow> bool" where
  "vault_key_ok k = (vault_ok (vk_env k) \<and> length (vk_salt k) = 32 \<and> length (vk_nonce k) = 24)"

definition seal_vault :: "vault_key \<Rightarrow> string \<Rightarrow> AppError + string" where
  "seal_vault k plaintext = vault_encrypt (vk_env k) plaintext (vk_password k) (Inr (vk_salt k)) (Inr (vk_nonce k))"

definition open_vault :: "vault_key \<Rightarrow> string \<Rightarrow> AppError + string" where
  "open_vault k encrypted = vault_decrypt (vk_env k) encrypted (vk_password k)"

definition seal_storage :: "vault_key \<Rightarrow> string \<Rightarrow> AppError + string" where
  "seal_storage k plaintext =
     storage_encrypt (vk_env k) (as_bytes plaintext) (derive_storage_key (vk_env k) (as_bytes (vk_password k)) (vk_salt k)) (Inr (vk_nonce k))"

definition open_storage :: "vault_key \<Rightarrow> string \<Rightarrow> AppError + string" where
  "open_storage k envelope =
     storage_decrypt (vk_env k) envelope (derive_storage_key (vk_env k) (as_bytes (vk_password k)) (vk_salt k))"

interpretation vault: sealed_channel vault_key_ok "\<lambda>k p. Some p" seal_vault open_vault
proof
  fix k p c assume k: "vault_key_ok k" and "seal_vault k p = Inr c"
  let ?e = "vk_env k"
  let ?key = "bc_pbkdf2 ?e (as_bytes (vk_password k)) (vk_salt k) PBKDF2_ITERATIONS 32"
  have ok: "vault_ok ?e" "length (vk_salt k) = 32" "length (vk_nonce k) = 24" using k by (simp_all add: vault_key_ok_def)
  have "aead_key ?e (derive_key_pbkdf2 ?e (as_bytes (vk_password k)) (vk_salt k)) = Inr ?key"
    unfolding derive_key_pbkdf2_def by (rule aead_key_ok [OF ok(1)])
  note key = this
  from \<open>seal_vault k p = Inr c\<close> obtain ct where ct: "bc_seal ?e ?key (vk_nonce k) (as_bytes p) = Inr ct"
    "c = ''v3:'' @ bc_hex_encode ?e (vk_salt k) @ '':'' @ bc_hex_encode ?e (vk_nonce k) @ '':'' @ bc_hex_encode ?e ct"
    by (auto simp: seal_vault_def vault_encrypt_def drawn_def aead_encrypt_def key res_simps)
  have "open_vault k c = Inr p"
    unfolding open_vault_def ct(2) vault_decrypt_def strip_prefix_append option.case
      parse_aead_envelope_encode [OF ok] and_then.simps prod.case aead_decrypt_def key vault_okD(4) [OF ok(1) ct(1)] ok_or.simps
    by (simp add: utf8_result_def vault_okD(5) [OF ok(1)])
  then show "\<exists>q. Some p = Some q \<and> open_vault k c = Inr q" by blast
qed

interpretation storage: sealed_channel vault_key_ok "\<lambda>k p. Some p" seal_storage open_storage
proof
  fix k p c assume k: "vault_key_ok k" and "seal_storage k p = Inr c"
  let ?e = "vk_env k"
  let ?key = "derive_storage_key ?e (as_bytes (vk_password k)) (vk_salt k)"
  have ok: "vault_ok ?e" "length (vk_nonce k) = 24" using k by (simp_all add: vault_key_ok_def)
  from \<open>seal_storage k p = Inr c\<close> obtain ct where ct: "bc_seal ?e ?key (vk_nonce k) (as_bytes p) = Inr ct"
    "c = ''enc1:'' @ bc_hex_encode ?e (vk_nonce k) @ '':'' @ bc_hex_encode ?e ct"
    by (auto simp: seal_storage_def storage_encrypt_def drawn_def res_simps)
  have "open_storage k c = Inr p"
    unfolding open_storage_def ct(2) storage_decrypt_def strip_prefix_append ok_or.simps and_then.simps
      splitn_colon_2 [OF vault_okD(2) [OF ok(1)]] list.case decode_hex_encode [OF ok(1)] vault_okD(4) [OF ok(1) ct(1)]
    by (simp add: ok(2) vault_okD(5) [OF ok(1)])
  then show "\<exists>q. Some p = Some q \<and> open_storage k c = Inr q" by blast
qed


section \<open>Concrete packages\<close>

text \<open>
  Hexadecimal text, a derivation that cuts and pads the password and the salt, and a seal that
  puts the key and the nonce in front.
\<close>

definition toy_vault :: vault_env where
  "toy_vault = \<lparr> bc_hex_encode = hex_enc, bc_hex_decode = hex_dec, bc_b64_encode = hex_enc, bc_b64_decode = hex_dec,
     bc_from_utf8 = (\<lambda>bs. Inr (text_of_bytes bs)),
     bc_pbkdf2 = (\<lambda>p s r n. take n (p @ s @ replicate n 0)),
     bc_seal = (\<lambda>k n m. Inr (k @ n @ m)),
     bc_open = (\<lambda>k n c. if take (length (k @ n)) c = k @ n then Some (drop (length (k @ n)) c) else None),
     bc_ed25519_sign = (\<lambda>k m. m), bc_ed25519_key = (\<lambda>_. Inr ()), bc_ed25519_verify_strict = (\<lambda>_ _ _. Inr ()),
     bc_error_value = (\<lambda>_. Inl []), bc_chacha20 = (\<lambda>d k n. Inr d), bc_sha256 = Inr,
     bc_derive_sign_keys = (\<lambda>p path n. Inr \<lparr> kp_public = p, kp_secret = unwrap_or [] path \<rparr>),
     bc_mnemonic_verify = (\<lambda>_ _. Inr True), bc_mnemonic_words = Inr [], bc_encode_boc = (\<lambda>_. Inr), bc_boc_hash = Inr \<rparr>"

lemma toy_vault_ok: "vault_ok toy_vault"
proof -
  have "CHR '':'' \<notin> set (hex_enc bs)" for bs using hex_enc_chars [of bs] by auto
  moreover have "text_of_bytes (as_bytes t) = t" for t
    using as_bytes_text_of_bytes [of "as_bytes t"] by (simp only: as_bytes_inject)
  ultimately show ?thesis by (auto simp: vault_ok_def toy_vault_def)
qed

section \<open>Properties\<close>

text \<open>
  Property C20.  Decryption inverts encryption under the same password, and the version of the
  envelope is not authenticated: with the tag of the second version the same envelope is decrypted too.
\<close>

theorem vault_roundtrip:
  assumes "vault_ok env" "length salt = 32" "length nonce = 24"
    and "vault_encrypt env plaintext password (Inr salt) (Inr nonce) = Inr encrypted"
  shows "vault_decrypt env encrypted password = Inr plaintext \<and>
         (\<exists>rest. encrypted = ''v3:'' @ rest \<and> vault_decrypt env (''v2:'' @ rest) password = Inr plaintext)"
proof -
  let ?k = "\<lparr> vk_env = env, vk_password = password, vk_salt = salt, vk_nonce = nonce \<rparr>"
  have k: "vault_key_ok ?k" using assms(1-3) by (simp add: vault_key_ok_def)
  have "seal_vault ?k plaintext = Inr encrypted" using assms(4) by (simp add: seal_vault_def)
  from vault.unseal_seal [OF k this] have dec: "vault_decrypt env encrypted password = Inr plaintext"
    by (simp add: open_vault_def)
  obtain rest where rest: "encrypted = ''v3:'' @ rest"
    using assms(4) by (auto simp: vault_encrypt_def drawn_def aead_encrypt_def res_simps)
  have "vault_decrypt env (''v2:'' @ rest) password = vault_decrypt env encrypted password"
    unfolding rest
    by (simp add: vault_decrypt_def strip_prefix_append derive_key_pbkdf2_def PBKDF2_ITERATIONS_def LEGACY_PBKDF2_ITERATIONS_def)
  with dec rest show ?thesis by simp
qed

theorem vault_roundtrip_witness:
  "\<exists>c. vault_encrypt toy_vault ''secret'' ''pw'' (Inr (replicate 32 7)) (Inr (replicate 24 9)) = Inr c \<and>
     vault_decrypt toy_vault c ''pw'' = Inr ''secret''"
proof -
  have "\<exists>c. vault_encrypt toy_vault ''secret'' ''pw'' (Inr (replicate 32 7)) (Inr (replicate 24 9)) = Inr c"
    using aead_key_ok [OF toy_vault_ok]
    by (simp add: vault_encrypt_def drawn_def aead_encrypt_def derive_key_pbkdf2_def) (simp add: toy_vault_def)
  then obtain c where "vault_encrypt toy_vault ''secret'' ''pw'' (Inr (replicate 32 7)) (Inr (replicate 24 9)) = Inr c" ..
  with vault_roundtrip [OF toy_vault_ok _ _ this] show ?thesis by simp
qed

text \<open>
  Further property.  What decryption accepts was sealed: a text that comes out of an envelope of the
  second or third version was opened with the key of the password and of the envelope's own salt
  of 32 bytes and nonce of 24; the only other envelopes that are accepted are of the first version.
\<close>

theorem vault_decrypt_accepts:
  assumes "vault_decrypt env encrypted password = Inr plaintext" "strip_prefix ''v1:'' encrypted = None"
  shows "\<exists>rest salt nonce ciphertext key bytes. (encrypted = ''v3:'' @ rest \<or> encrypted = ''v2:'' @ rest) \<and>
     parse_aead_envelope env rest = Inr (salt, nonce, ciphertext) \<and> length salt = 32 \<and> length nonce = 24 \<and>
     bc_hex_decode env (bc_hex_encode env (bc_pbkdf2 env (as_bytes password) salt 100000 32)) = Inr key \<and>
     bc_open env key nonce ciphertext = Some bytes \<and> bc_from_utf8 env bytes = Inr plaintext"
proof -
  have opened: "\<exists>key bytes. bc_hex_decode env (bc_hex_encode env (bc_pbkdf2 env (as_bytes password) salt 100000 32)) = Inr key \<and>
      bc_open env key nonce ciphertext = Some bytes \<and> bc_from_utf8 env bytes = Inr plaintext"
    if "aead_decrypt env (derive_key_pbkdf2_with_rounds env (as_bytes password) salt 100000) nonce ciphertext = Inr plaintext"
    for salt nonce ciphertext
    using that by (auto simp: aead_decrypt_def aead_key_def decode_hex_def utf8_result_def derive_key_pbkdf2_with_rounds_def
        DERIVED_KEY_LEN_def res_simps split: if_splits)
  have lens: "length salt = 32 \<and> length nonce = 24" if "parse_aead_envelope env rest = Inr (salt, nonce, ciphertext)"
    for rest salt nonce ciphertext
    using that by (auto simp: parse_aead_envelope_def res_simps split: list.splits if_splits)
  have wrap: ?thesis
    if tag: "encrypted = ''v3:'' @ rest \<or> encrypted = ''v2:'' @ rest"
      and parsed: "parse_aead_envelope env rest = Inr (salt, nonce, ciphertext)"
      and dec: "aead_decrypt env (derive_key_pbkdf2_with_rounds env (as_bytes password) salt 100000) nonce ciphertext = Inr plaintext"
    for rest salt nonce ciphertext
  proof -
    from opened [OF dec] obtain key bytes where
      o: "bc_hex_decode env (bc_hex_encode env (bc_pbkdf2 env (as_bytes password) salt 100000 32)) = Inr key"
      "bc_open env key nonce ciphertext = Some bytes" "bc_from_utf8 env bytes = Inr plaintext" by blast
    have l: "length salt = 32" "length nonce = 24" using lens [OF parsed] by simp_all
    show ?thesis by (intro exI conjI) (rule tag, rule parsed, rule l(1), rule l(2), rule o(1), rule o(2), rule o(3))
  qed
  show ?thesis
  proof (cases "strip_prefix ''v3:'' encrypted")
    case (Some rest)
    with assms(1) obtain salt nonce ciphertext where
      p: "parse_aead_envelope env rest = Inr (salt, nonce, ciphertext)"
      "aead_decrypt env (derive_key_pbkdf2_with_rounds env (as_bytes password) salt 100000) nonce ciphertext = Inr plaintext"
      by (auto simp: vault_decrypt_def derive_key_pbkdf2_def PBKDF2_ITERATIONS_def res_simps)
    from Some have "encrypted = ''v3:'' @ rest" by (simp only: strip_prefix_Some)
    from wrap [OF disjI1 [OF this] p] show ?thesis .
  next
    case None
    with assms obtain rest where rest: "strip_prefix ''v2:'' encrypted = Some rest"
      by (auto simp: vault_decrypt_def split: option.splits)
    with assms(1) None obtain salt nonce ciphertext where
      p: "parse_aead_envelope env rest = Inr (salt, nonce, ciphertext)"
      "aead_decrypt env (derive_key_pbkdf2_with_rounds env (as_bytes password) salt 100000) nonce ciphertext = Inr plaintext"
      by (auto simp: vault_decrypt_def LEGACY_PBKDF2_ITERATIONS_def res_simps)
    from rest have "encrypted = ''v2:'' @ rest" by (simp only: strip_prefix_Some)
    from wrap [OF disjI2 [OF this] p] show ?thesis .
  qed
qed

theorem vault_decrypt_accepts_witness:
  "\<exists>c rest salt nonce ciphertext key bytes. (c = ''v3:'' @ rest \<or> c = ''v2:'' @ rest) \<and>
     parse_aead_envelope toy_vault rest = Inr (salt, nonce, ciphertext) \<and> bc_open toy_vault key nonce ciphertext = Some bytes \<and>
     bc_from_utf8 toy_vault bytes = Inr ''secret''"
proof -
  let ?k = "\<lparr> vk_env = toy_vault, vk_password = ''pw'', vk_salt = replicate 32 7, vk_nonce = replicate 24 9 \<rparr>"
  have k: "vault_key_ok ?k" using toy_vault_ok by (simp add: vault_key_ok_def)
  have "\<exists>c. seal_vault ?k ''secret'' = Inr c"
    using aead_key_ok [OF toy_vault_ok]
    by (simp add: seal_vault_def vault_encrypt_def drawn_def aead_encrypt_def derive_key_pbkdf2_def) (simp add: toy_vault_def)
  then obtain c where c: "seal_vault ?k ''secret'' = Inr c" ..
  then have v1: "strip_prefix ''v1:'' c = None"
    by (auto simp: seal_vault_def vault_encrypt_def drawn_def aead_encrypt_def res_simps)
  have "vault_decrypt toy_vault c ''pw'' = Inr ''secret''"
    using vault.unseal_seal [OF k c] by (simp add: open_vault_def)
  from vault_decrypt_accepts [OF this v1] show ?thesis by blast
qed

text \<open>
  Further property.  A password is accepted against the hash of another exactly when the two derive
  the same key under the salt of the hash; in particular the password itself always is.
\<close>

theorem salted_hash_verifies:
  assumes "vault_ok env" "length salt = 32" "random_salted_hash env password (Inr salt) = Inr envelope"
  shows "verify_salted_hash env password' envelope =
           Inr (bc_pbkdf2 env (as_bytes password') salt 100000 32 = bc_pbkdf2 env (as_bytes password) salt 100000 32)"
proof -
  have env: "envelope = ''v3:'' @ bc_hex_encode env salt @ '':'' @ bc_hex_encode env (bc_pbkdf2 env (as_bytes password) salt 100000 32)"
    using assms(3) by (simp add: random_salted_hash_def drawn_def PBKDF2_ROUNDS_V3_def PBKDF2_ITERATIONS_def DK_LEN_def)
  have "split_on (CHR '':'') envelope =
      [''v3'', bc_hex_encode env salt, bc_hex_encode env (bc_pbkdf2 env (as_bytes password) salt 100000 32)]"
    using split_on_append [OF vault_okD(2) [OF assms(1)], of salt] split_on_no_sep [OF vault_okD(2) [OF assms(1)]]
    unfolding env by simp
  then show ?thesis
    using assms(2)
    by (simp add: verify_salted_hash_def vault_okD(1,3) [OF assms(1)] SALT_LEN_def DK_LEN_def PBKDF2_ROUNDS_V3_def
        PBKDF2_ITERATIONS_def)
qed

theorem salted_hash_verifies_witness:
  "\<exists>h. random_salted_hash toy_vault ''pw'' (Inr (replicate 32 7)) = Inr h \<and>
     verify_salted_hash toy_vault ''pw'' h = Inr True \<and> verify_salted_hash toy_vault ''px'' h = Inr False"
proof -
  obtain h where h: "random_salted_hash toy_vault ''pw'' (Inr (replicate 32 7)) = Inr h"
    by (simp add: random_salted_hash_def drawn_def)
  have "bc_pbkdf2 toy_vault (as_bytes ''px'') (replicate 32 7) 100000 32 \<noteq> bc_pbkdf2 toy_vault (as_bytes ''pw'') (replicate 32 7) 100000 32"
    by (simp add: toy_vault_def as_bytes_def)
  with h salted_hash_verifies [OF toy_vault_ok _ h, of "''pw''"] salted_hash_verifies [OF toy_vault_ok _ h, of "''px''"]
  show ?thesis by simp
qed

text \<open>Further property.  Whatever text is stored under a key and a nonce is read back under that key.\<close>

theorem storage_roundtrip:
  assumes "vault_ok env" "length salt = 32" "length nonce = 24"
    and "storage_encrypt env (as_bytes plaintext) (derive_storage_key env (as_bytes password) salt) (Inr nonce) = Inr envelope"
  shows "storage_decrypt env envelope (derive_storage_key env (as_bytes password) salt) = Inr plaintext"
  using storage.unseal_seal [of "\<lparr> vk_env = env, vk_password = password, vk_salt = salt, vk_nonce = nonce \<rparr>" plaintext envelope] assms
  by (simp add: vault_key_ok_def seal_storage_def open_storage_def)

theorem storage_roundtrip_witness:
  "\<exists>c. storage_encrypt toy_vault (as_bytes ''data'') (derive_storage_key toy_vault (as_bytes ''pw'') (replicate 32 7)) (Inr (replicate 24 9)) = Inr c \<and>
     storage_decrypt toy_vault c (derive_storage_key toy_vault (as_bytes ''pw'') (replicate 32 7)) = Inr ''data''"
proof -
  obtain c where c: "storage_encrypt toy_vault (as_bytes ''data'') (derive_storage_key toy_vault (as_bytes ''pw'') (replicate 32 7)) (Inr (replicate 24 9)) = Inr c"
    by (simp add: storage_encrypt_def drawn_def) (simp add: toy_vault_def)
  with storage_roundtrip [OF toy_vault_ok _ _ c] show ?thesis by simp
qed


text \<open>
  Further property.  A phrase of words of visible characters, joined by single spaces, is refused exactly
  when the number of its words is not the expected one.
\<close>

fun join_words :: "string list \<Rightarrow> string" where
  "join_words [] = []"
| "join_words [w] = w"
| "join_words (w # ws) = w @ CHR '' '' # join_words ws"

lemma ws_len_visible_cons:
  assumes "33 \<le> (of_char c :: nat)" "(of_char c :: nat) \<le> 126"
  shows "ws_len (c # s) = 0"
  using visible_not_ws_lead [OF assms] by (simp add: ws_len_def split: list.splits)

lemma count_words_simps:
  "count_words b [] = 0"
  "count_words b (CHR '' '' # s) = count_words False s"
  "33 \<le> (of_char c :: nat) \<Longrightarrow> (of_char c :: nat) \<le> 126 \<Longrightarrow> count_words b (c # s) = (if b then 0 else 1) + count_words True s"
  by (subst count_words.simps, simp add: ws_len_visible_cons ws_len_def [of "CHR '' '' # s"])+

lemma count_words_in_word: "visible_ascii w \<Longrightarrow> count_words True (w @ s) = count_words True s"
  by (induction w) (auto simp: visible_ascii_def count_words_simps)

lemma count_words_word: "visible_ascii w \<Longrightarrow> w \<noteq> [] \<Longrightarrow> count_words False (w @ s) = Suc (count_words True s)"
  using count_words_in_word [of "tl w" s] by (cases w) (auto simp: visible_ascii_def count_words_simps)

lemma count_words_join: "\<forall>w \<in> set ws. w \<noteq> [] \<and> visible_ascii w \<Longrightarrow> count_words False (join_words ws) = length ws"
proof (induction ws rule: join_words.induct)
  case (2 w)
  then show ?case using count_words_word [of w "[]"] by (simp add: count_words_simps)
qed (simp_all add: count_words_word count_words_simps)

theorem phrase_word_count:
  assumes "\<forall>w \<in> set ws. w \<noteq> [] \<and> visible_ascii w"
  shows "validate_phrase_word_count (join_words ws) expected = Inr () \<longleftrightarrow> length ws = unat expected"
  by (simp add: validate_phrase_word_count_def count_words_join [OF assms] Let_def)

theorem phrase_word_count_witness:
  "validate_phrase_word_count ''bee hive honey'' 3 = Inr () \<and> validate_phrase_word_count ''bee hive honey'' 12 \<noteq> Inr ()"
proof -
  have "\<forall>w \<in> set [''bee'', ''hive'', ''honey'']. w \<noteq> [] \<and> visible_ascii w" by (simp add: visible_ascii_def)
  from phrase_word_count [OF this, of 3] phrase_word_count [OF this, of 12] show ?thesis by simp
qed

end
