(* ===== verification/KeyDerivation.thy ===== *)
theory KeyDerivation
  imports Vault
begin

text \<open>
  \<open>bee_wallet/src/services/multifactor/key_derivation.rs\<close>: the recovery and token-update keys of a wallet,
  derived from a password, and the search for the derivation path of the key the contract holds.
  The crates \<open>sha2\<close> and \<open>pbkdf2\<close> and the mnemonics of the TVM client are fields of \<open>key_env\<close>.
\<close>

section \<open>Derivation\<close>

definition CURRENT_DERIVATION_PATH :: string where "CURRENT_DERIVATION_PATH = ''m/44'/1331'/0'/0/0''"
definition LEGACY_DERIVATION_PATH :: string where "LEGACY_DERIVATION_PATH = ''m/44'/396'/0'/0/0''"

definition CANDIDATE_PATHS :: "string list" where
  "CANDIDATE_PATHS = [CURRENT_DERIVATION_PATH, LEGACY_DERIVATION_PATH]"

record key_env = vault_env +
  kd_sha256 :: "byte list \<Rightarrow> byte list"
  kd_salt_b64 :: "byte list \<Rightarrow> string result"
  kd_hash_password :: "byte list \<Rightarrow> u32 \<Rightarrow> nat \<Rightarrow> string \<Rightarrow> byte list option result"
  kd_mnemonic_from_entropy :: "u8 \<Rightarrow> string \<Rightarrow> ClientError + string"

record RecoveryKeys =
  rk_pub_recovery_key :: string
  rk_pub_recovery_key_sig :: string
  rk_keys :: KeyPair

record JwkUpdateKeys =
  jk_pub_jwk_update_key :: string
  jk_pub_jwk_update_sig :: string
  jk_keys :: KeyPair

abbreviation base :: "key_env \<Rightarrow> vault_env" where
  "base env \<equiv> vault_env.truncate env"

definition app_error_from_pbkdf2 :: "string \<Rightarrow> AppError" where
  "app_error_from_pbkdf2 message = with_kind ''crypto'' (app_error_new message)"

definition derive_sign_keys :: "key_env \<Rightarrow> string \<Rightarrow> string \<Rightarrow> AppError + KeyPair" where
  "derive_sign_keys env phrase path =
     from_tvm (base env) ''failed to derive sign keys'' (bc_derive_sign_keys env phrase (Some path) 24)"

definition pubkey_matches :: "string \<Rightarrow> string \<Rightarrow> bool" where
  "pubkey_matches derived_public on_chain_pubkey =
     (let on_chain = unwrap_or on_chain_pubkey (strip_prefix ''0x'' on_chain_pubkey)
      in to_ascii_lowercase derived_public = to_ascii_lowercase on_chain)"

fun resolve_on_paths :: "key_env \<Rightarrow> string \<Rightarrow> string \<Rightarrow> string list \<Rightarrow> AppError + KeyPair \<times> string" where
  "resolve_on_paths env phrase on_chain_pubkey [] =
     Inl (with_kind ''key_path_resolution'' (app_error_new
       ''no known HD derivation path matches the on-chain key (wrong password or social account?)''))"
| "resolve_on_paths env phrase on_chain_pubkey (path # paths) =
     and_then (derive_sign_keys env phrase path) (\<lambda>keys.
       if pubkey_matches (kp_public keys) on_chain_pubkey then Inr (keys, path)
       else resolve_on_paths env phrase on_chain_pubkey paths)"

definition resolve_sign_keys :: "key_env \<Rightarrow> string \<Rightarrow> string \<Rightarrow> AppError + KeyPair \<times> string" where
  "resolve_sign_keys env phrase on_chain_pubkey = resolve_on_paths env phrase on_chain_pubkey CANDIDATE_PATHS"

definition create_salted_hash :: "key_env \<Rightarrow> string \<Rightarrow> string \<Rightarrow> AppError + string" where
  "create_salted_hash env password salt_str =
     (let salt_bytes = kd_sha256 env (as_bytes salt_str)
      in and_then (map_err (\<lambda>e. with_context ''failed to create salt'' (app_error_from_pbkdf2 e))
                     (kd_salt_b64 env (take 16 salt_bytes))) (\<lambda>salt.
         and_then (map_err (\<lambda>e. with_context ''failed to hash'' (app_error_from_pbkdf2 e))
                     (kd_hash_password env (as_bytes password) 100000 32 salt)) (\<lambda>hash.
         and_then (ok_or (app_error_from_string ''hash missing'') hash) (\<lambda>res. Inr (bc_hex_encode env res)))))"

definition build_update_jwk :: "key_env \<Rightarrow> string \<Rightarrow> string \<Rightarrow> AppError + string" where
  "build_update_jwk env password_sha256 address =
     and_then (create_salted_hash env address password_sha256) (\<lambda>entropy.
     from_tvm (base env) ''failed to create password secret'' (kd_mnemonic_from_entropy env 24 entropy))"

definition build_recovery_password :: "key_env \<Rightarrow> string \<Rightarrow> string \<Rightarrow> AppError + string" where
  "build_recovery_password env password_sha256 address =
     and_then (create_salted_hash env password_sha256 address) (\<lambda>entropy.
     from_tvm (base env) ''failed to create recovery password'' (kd_mnemonic_from_entropy env 24 entropy))"

text \<open>The same code as \<open>bee_crypto\<close>'s \<open>sha256\<close>.\<close>

definition key_sha256 :: "key_env \<Rightarrow> string \<Rightarrow> AppError + string" where
  "key_sha256 env data = from_tvm (base env) ''Failed to hash data'' (bc_sha256 env (bc_b64_encode env (as_bytes data)))"

definition build_recovery_keys :: "key_env \<Rightarrow> string \<Rightarrow> string \<Rightarrow> AppError + RecoveryKeys" where
  "build_recovery_keys env password multifactor_address =
     and_then (key_sha256 env password) (\<lambda>password_sha256.
     and_then (build_recovery_password env password_sha256 multifactor_address) (\<lambda>recovery_mnemonic.
     and_then (map_err (with_context ''failed to create recovery keys'')
                 (derive_sign_keys env recovery_mnemonic CURRENT_DERIVATION_PATH)) (\<lambda>recovery_keys.
     and_then (sign_detached_hex (base env) (kp_public recovery_keys) (kp_secret recovery_keys)) (\<lambda>pub_recovery_key_sig.
     Inr \<lparr> rk_pub_recovery_key = ''0x'' @ kp_public recovery_keys, rk_pub_recovery_key_sig = pub_recovery_key_sig,
           rk_keys = recovery_keys \<rparr>))))"

definition build_update_jwk_keys :: "key_env \<Rightarrow> string \<Rightarrow> string \<Rightarrow> AppError + JwkUpdateKeys" where
  "build_update_jwk_keys env password sub =
     and_then (key_sha256 env password) (\<lambda>password_sha256.
     and_then (build_update_jwk env password_sha256 sub) (\<lambda>password_secret_mnemonic.
     and_then (map_err (with_context ''failed to create jwk update keys'')
                 (derive_sign_keys env password_secret_mnemonic CURRENT_DERIVATION_PATH)) (\<lambda>keys.
     and_then (sign_detached_hex (base env) (kp_public keys) (kp_secret keys)) (\<lambda>pub_jwk_update_sig.
     Inr \<lparr> jk_pub_jwk_update_key = ''0x'' @ kp_public keys, jk_pub_jwk_update_sig = pub_jwk_update_sig, jk_keys = keys \<rparr>))))"

definition resolve_jwk_update_signer :: "key_env \<Rightarrow> string \<Rightarrow> string \<Rightarrow> string \<Rightarrow> AppError + KeyPair \<times> string" where
  "resolve_jwk_update_signer env password sub on_chain_jwk_update_key =
     and_then (key_sha256 env password) (\<lambda>password_sha256.
     and_then (build_update_jwk env password_sha256 sub) (\<lambda>phrase.
     resolve_sign_keys env phrase on_chain_jwk_update_key))"

definition resolve_recovery_signer :: "key_env \<Rightarrow> string \<Rightarrow> string \<Rightarrow> string \<Rightarrow> AppError + KeyPair \<times> string" where
  "resolve_recovery_signer env password multifactor_address on_chain_pub_recovery_key =
     and_then (key_sha256 env password) (\<lambda>password_sha256.
     and_then (build_recovery_password env password_sha256 multifactor_address) (\<lambda>phrase.
     resolve_sign_keys env phrase on_chain_pub_recovery_key))"

section \<open>Properties\<close>

lemma pubkey_matches_0x [simp]: "pubkey_matches k (''0x'' @ k)"
  by (simp add: pubkey_matches_def Let_def strip_prefix_append del: append_Cons append_Nil)

text \<open>
  Property C21.  The keys that are written are the keys that are found: with the same password and
  address, or subject, the signer resolved against the key that was built is the key pair of the
  building, on the current path.
\<close>

theorem built_keys_resolve:
  assumes "build_recovery_keys env password address = Inr rk" "build_update_jwk_keys env password sub = Inr jk"
  shows "resolve_recovery_signer env password address (rk_pub_recovery_key rk) = Inr (rk_keys rk, CURRENT_DERIVATION_PATH) \<and>
         resolve_jwk_update_signer env password sub (jk_pub_jwk_update_key jk) = Inr (jk_keys jk, CURRENT_DERIVATION_PATH)"
proof -
  from assms obtain hash phrase1 phrase2 where keys: "key_sha256 env password = Inr hash"
    "build_recovery_password env hash address = Inr phrase1" "build_update_jwk env hash sub = Inr phrase2"
    "derive_sign_keys env phrase1 CURRENT_DERIVATION_PATH = Inr (rk_keys rk)"
    "derive_sign_keys env phrase2 CURRENT_DERIVATION_PATH = Inr (jk_keys jk)"
    "rk_pub_recovery_key rk = ''0x'' @ kp_public (rk_keys rk)" "jk_pub_jwk_update_key jk = ''0x'' @ kp_public (jk_keys jk)"
    by (auto simp: build_recovery_keys_def build_update_jwk_keys_def res_simps simp del: append_Cons append_Nil)
  show ?thesis
    unfolding resolve_recovery_signer_def resolve_jwk_update_signer_def resolve_sign_keys_def CANDIDATE_PATHS_def
    by (simp only: keys and_then.simps resolve_on_paths.simps pubkey_matches_0x if_True simp_thms)
qed

text \<open>
  Further property.  The search returns the first of the two paths whose key matches, with that key, and
  fails with its own kind exactly when both derivations succeed and neither matches.
\<close>

theorem resolve_sign_keys_spec:
  assumes "derive_sign_keys env phrase CURRENT_DERIVATION_PATH = Inr current"
    and "derive_sign_keys env phrase LEGACY_DERIVATION_PATH = Inr legacy"
  shows "resolve_sign_keys env phrase on_chain =
           (if pubkey_matches (kp_public current) on_chain then Inr (current, CURRENT_DERIVATION_PATH)
            else if pubkey_matches (kp_public legacy) on_chain then Inr (legacy, LEGACY_DERIVATION_PATH)
            else Inl (with_kind ''key_path_resolution'' (app_error_new
              ''no known HD derivation path matches the on-chain key (wrong password or social account?)'')))"
  using assms by (simp add: resolve_sign_keys_def CANDIDATE_PATHS_def)

section \<open>Concrete packages\<close>

definition toy_keys :: key_env where
  "toy_keys =
     \<lparr> bc_hex_encode = hex_enc, bc_hex_decode = hex_dec, bc_b64_encode = hex_enc, bc_b64_decode = hex_dec,
       bc_from_utf8 = (\<lambda>bs. Inr (text_of_bytes bs)), bc_pbkdf2 = (\<lambda>p s r n. take n (p @ s @ replicate n 0)),
       bc_seal = (\<lambda>k n m. Inr m), bc_open = (\<lambda>k n c. Some c),
       bc_ed25519_sign = (\<lambda>k m. m), bc_ed25519_key = (\<lambda>_. Inr ()), bc_ed25519_verify_strict = (\<lambda>_ _ _. Inr ()),
       bc_error_value = (\<lambda>_. Inl []), bc_chacha20 = (\<lambda>d k n. Inr d), bc_sha256 = Inr,
       bc_derive_sign_keys = (\<lambda>p path n. Inr \<lparr> kp_public = hex_enc [if path = Some CURRENT_DERIVATION_PATH then 1 else 2],
                                              kp_secret = hex_enc (replicate 32 3) \<rparr>),
       bc_mnemonic_verify = (\<lambda>_ _. Inr True), bc_mnemonic_words = Inr [], bc_encode_boc = (\<lambda>_. Inr), bc_boc_hash = Inr,
       kd_sha256 = id, kd_salt_b64 = (\<lambda>_. Inr []), kd_hash_password = (\<lambda>p r n s. Inr (Some p)),
       kd_mnemonic_from_entropy = (\<lambda>_. Inr) \<rparr>"

lemmas toy_keys_run = build_recovery_keys_def build_update_jwk_keys_def key_sha256_def build_recovery_password_def
  build_update_jwk_def create_salted_hash_def derive_sign_keys_def from_tvm_def sign_detached_hex_def decode_hex_def
  vault_env.truncate_def

theorem built_keys_resolve_witness:
  "\<exists>rk jk. build_recovery_keys toy_keys ''pw'' ''0:a'' = Inr rk \<and> build_update_jwk_keys toy_keys ''pw'' ''sub'' = Inr jk \<and>
     resolve_recovery_signer toy_keys ''pw'' ''0:a'' (rk_pub_recovery_key rk) = Inr (rk_keys rk, CURRENT_DERIVATION_PATH)"
proof -
  have "\<exists>rk. build_recovery_keys toy_keys ''pw'' ''0:a'' = Inr rk" "\<exists>jk. build_update_jwk_keys toy_keys ''pw'' ''sub'' = Inr jk"
    by (simp_all add: toy_keys_run) (simp_all add: toy_keys_def del: hex_enc.simps)
  then obtain rk jk where keys: "build_recovery_keys toy_keys ''pw'' ''0:a'' = Inr rk"
    "build_update_jwk_keys toy_keys ''pw'' ''sub'' = Inr jk" by blast
  from built_keys_resolve [OF keys] keys show ?thesis by blast
qed

theorem resolve_sign_keys_spec_witness:
  "snd (projr (resolve_sign_keys toy_keys ''p'' ''0x02'')) = LEGACY_DERIVATION_PATH"
proof -
  have paths: "LEGACY_DERIVATION_PATH \<noteq> CURRENT_DERIVATION_PATH"
    by (simp add: CURRENT_DERIVATION_PATH_def LEGACY_DERIVATION_PATH_def)
  have "derive_sign_keys toy_keys ''p'' CURRENT_DERIVATION_PATH = Inr \<lparr> kp_public = ''01'', kp_secret = hex_enc (replicate 32 3) \<rparr>"
    "derive_sign_keys toy_keys ''p'' LEGACY_DERIVATION_PATH = Inr \<lparr> kp_public = ''02'', kp_secret = hex_enc (replicate 32 3) \<rparr>"
    using paths by (simp_all add: derive_sign_keys_def from_tvm_def toy_keys_def nibble_def)
  from resolve_sign_keys_spec [OF this, of "''0x02''"] show ?thesis
    by (simp add: pubkey_matches_def to_ascii_lowercase_def ascii_lower_def)
qed

end
