(* ===== verification/WalletInfra.thy ===== *)
theory WalletInfra
  imports Accounts
begin

text \<open>
  What the wallet's operations share: the classification of transient and pending errors, and the retries of
  reads (\<open>bee_wallet/src/infra/mod.rs\<close>, \<open>modules/multifactor.rs\<close>), the progress events
  (\<open>progress.rs\<close>, \<open>modules/deploy.rs\<close>), and the names of wallets (\<open>services/validate_name.rs\<close>,
  \<open>modules/names.rs\<close>).
\<close>

section \<open>Texts\<close>

fun str_contains :: "string \<Rightarrow> string \<Rightarrow> bool" where
  "str_contains p [] = (p = [])"
| "str_contains p (c # s) = (strip_prefix p (c # s) \<noteq> None \<or> str_contains p s)"

lemma str_contains_iff: "str_contains p s \<longleftrightarrow> (\<exists>a b. s = a @ p @ b)"
proof (induction s)
  case (Cons c s)
  have "(\<exists>a b. c # s = a @ p @ b) \<longleftrightarrow> (\<exists>b. c # s = p @ b) \<or> (\<exists>a b. s = a @ p @ b)"
    by (auto simp: Cons_eq_append_conv)
  moreover have "strip_prefix p (c # s) \<noteq> None \<longleftrightarrow> (\<exists>b. c # s = p @ b)"
    using strip_prefix_Some [of p "c # s"] by auto
  ultimately show ?case using Cons by simp
qed simp

lemma str_contains_append: "str_contains p s \<Longrightarrow> str_contains p (a @ s @ b)"
  unfolding str_contains_iff by (metis append.assoc)

definition some_contains :: "string \<Rightarrow> string option \<Rightarrow> bool" where
  "some_contains p s = (case s of Some t \<Rightarrow> str_contains p t | None \<Rightarrow> False)"

section \<open>Transient and pending errors\<close>

definition is_retryable_tvm_transient :: "AppError \<Rightarrow> bool" where
  "is_retryable_tvm_transient err =
     (if ae_error_code err = Some ''52'' \<and> (ae_kind err = Some ''tvm_exit'' \<or> ae_kind err = Some ''tvm'') then True
      else if (ae_error_code err = Some ''621'' \<or> ae_error_code err = Some ''623'') \<and> ae_kind err = Some ''tvm'' then True
      else str_contains ''exit_code=52'' (ae_message err) \<or>
           (case ae_details err of
              Some details \<Rightarrow> str_contains ''exit_code=52'' details \<or> str_contains ''tvm_code=621'' details \<or>
                              str_contains ''tvm_code=623'' details
            | None \<Rightarrow> False))"

definition is_confirmation_pending_error :: "AppError \<Rightarrow> bool" where
  "is_confirmation_pending_error err =
     (if str_contains ''Wait for property. Max'' (ae_message err) \<and> str_contains ''attempts reached'' (ae_message err) then True
      else (case ae_details err of
              Some details \<Rightarrow>
                (str_contains ''Wait for property. Max'' details \<and> str_contains ''attempts reached'' details) \<or>
                str_contains ''timed out'' details \<or> str_contains ''timeout'' details
            | None \<Rightarrow> False) \<or>
           str_contains ''timed out'' (ae_message err) \<or> str_contains ''timeout'' (ae_message err))"

definition has_transient_network_hint :: "string \<Rightarrow> bool" where
  "has_transient_network_hint s =
     (str_contains ''connection reset by peer'' s \<or> str_contains ''dns error'' s \<or>
      str_contains ''failed to lookup address information'' s \<or> str_contains ''client error (SendRequest)'' s \<or>
      str_contains ''client error (Connect)'' s \<or> str_contains ''timed out'' s \<or> str_contains ''timeout'' s)"

definition is_retryable_check_name_availability_error :: "AppError \<Rightarrow> bool" where
  "is_retryable_check_name_availability_error err =
     (if \<not> (ae_module err = Some ''account'' \<and> ae_error_code err = Some ''205'') then False
      else has_transient_network_hint (ae_message err) \<or>
           (case ae_details err of Some details \<Rightarrow> has_transient_network_hint details | None \<Rightarrow> False))"

section \<open>Retried reads\<close>

definition with_retry_of :: "u32 \<Rightarrow> u64 \<Rightarrow> RetryPolicy" where
  "with_retry_of attempts delay_ms =
     \<lparr> max_attempts = attempts, max_total = None, base_delay = unat delay_ms, max_delay = unat delay_ms, jitter = False \<rparr>"

definition with_retry ::
  "'w retry_env \<Rightarrow> ('w, AppError, 'a) io \<Rightarrow> u32 \<Rightarrow> u64 \<Rightarrow> (AppError \<Rightarrow> bool) option \<Rightarrow> ('w, AppError, 'a) io" where
  "with_retry env op attempts delay_ms should_retry w =
     (if attempts = 0 then (Inl (app_error_new ''with_retry: max_attempts must be > 0''), w)
      else the (with_retry_policy env (with_retry_of attempts delay_ms)
             (\<lambda>err. is_retryable_tvm_transient err \<or> (case should_retry of Some r \<Rightarrow> r err | None \<Rightarrow> False)) op w))"

definition module_check_name_availability ::
  "'w retry_env \<Rightarrow> ('w \<Rightarrow> 'w) \<Rightarrow> 'w account_env \<Rightarrow> string \<Rightarrow> ('w, AppError, ResultOfCheckNameAvailability) io" where
  "module_check_name_availability renv ctx_acquire env wallet_name w =
     with_retry renv (check_name_availability env wallet_name) 3 1000
       (Some is_retryable_check_name_availability_error) (ctx_acquire w)"

text \<open>\<open>poll_until_rated\<close> acquires the limiter before every fetch.\<close>

definition poll_until_rated ::
  "('w \<Rightarrow> 'w) \<Rightarrow> (u64 \<Rightarrow> 'w \<Rightarrow> 'w) \<Rightarrow> ('w, AppError, 't) io \<Rightarrow> ('t \<Rightarrow> bool) \<Rightarrow> u32 option \<Rightarrow> u64 option \<Rightarrow> ('w, AppError, 't) io" where
  "poll_until_rated limiter sleep fetch_data predicate =
     poll_until app_error_from_string sleep (\<lambda>w. fetch_data (limiter w)) predicate"

section \<open>Progress\<close>

record ProgressEvent =
  pe_op :: string
  pe_stage :: string
  pe_detail :: "string option"
  pe_pct :: "u8 option"

definition progress_event :: "string \<Rightarrow> string \<Rightarrow> ProgressEvent" where
  "progress_event op stage = \<lparr> pe_op = op, pe_stage = stage, pe_detail = None, pe_pct = None \<rparr>"

definition with_detail :: "string \<Rightarrow> ProgressEvent \<Rightarrow> ProgressEvent" where
  "with_detail detail e = e\<lparr>pe_detail := Some detail\<rparr>"

text \<open>A sink, when there is one, is a change of the world.\<close>

definition emit :: "(ProgressEvent \<Rightarrow> 'w \<Rightarrow> 'w) option \<Rightarrow> ProgressEvent \<Rightarrow> 'w \<Rightarrow> 'w" where
  "emit sink event w = (case sink of Some tx \<Rightarrow> tx event w | None \<Rightarrow> w)"

definition report_failure ::
  "(ProgressEvent \<Rightarrow> 'w \<Rightarrow> 'w) option \<Rightarrow> string \<Rightarrow> AppError + 'a \<Rightarrow> string option \<Rightarrow> 'w \<Rightarrow> 'w" where
  "report_failure sink op result suppress_kind w =
     (case result of
        Inl e \<Rightarrow>
          let suppressed = (suppress_kind \<noteq> None \<and> ae_kind e = suppress_kind)
          in if suppressed then w else emit sink (with_detail (ae_message e) (progress_event op ''failed'')) w
      | Inr _ \<Rightarrow> w)"

definition emit_deploy_outcome ::
  "(ProgressEvent \<Rightarrow> 'w \<Rightarrow> 'w) option \<Rightarrow> string \<Rightarrow> string option \<Rightarrow> string option \<Rightarrow> 'w \<Rightarrow> 'w" where
  "emit_deploy_outcome sink op pending_stage pending_reason =
     (case pending_stage of
        Some stage \<Rightarrow> emit sink (with_detail (unwrap_or stage pending_reason) (progress_event op ''pending''))
      | None \<Rightarrow> emit sink (progress_event op ''confirmed''))"

section \<open>Names of wallets\<close>

datatype WalletNameError =
  InvalidCharacters | ConsecutiveHyphens | ConsecutiveUnderscores | StartsWithSymbol | TooLong | TooShort

text \<open>
  \<open>to_lowercase\<close> on UTF-8.  Besides the ASCII letters only the Kelvin sign has an ASCII lower case; the lower
  case of every other character keeps a byte outside ASCII, so that leaving such characters as
  they are makes no difference to the alphabet test below, which is all the code does with them.
\<close>

fun to_lowercase :: "string \<Rightarrow> string" where
  "to_lowercase (a # b # c # s) =
     (if a = CHR 0xE2 \<and> b = CHR 0x84 \<and> c = CHR 0xAA then CHR ''k'' # to_lowercase s
      else ascii_lower a # to_lowercase (b # c # s))"
| "to_lowercase (a # s) = ascii_lower a # to_lowercase s"
| "to_lowercase [] = []"

definition is_name_char :: "char \<Rightarrow> bool" where
  "is_name_char c = (c \<in> set ''abcdefghijklmnopqrstuvwxyz0123456789_-'')"

definition verify_wallet_name :: "string \<Rightarrow> WalletNameError + unit" where
  "verify_wallet_name wallet_name =
     (let wallet_name = to_lowercase (trim wallet_name)
      in if \<not> (wallet_name \<noteq> [] \<and> list_all is_name_char wallet_name) then Inl InvalidCharacters
         else if str_contains ''--'' wallet_name then Inl ConsecutiveHyphens
         else if str_contains ''__'' wallet_name then Inl ConsecutiveUnderscores
         else if hd wallet_name = CHR ''-'' \<or> hd wallet_name = CHR ''_'' then Inl StartsWithSymbol
         else if length wallet_name > 39 then Inl TooLong
         else if length wallet_name < 4 then Inl TooShort
         else Inr ())"

definition name_error_code :: "WalletNameError \<Rightarrow> nat" where
  "name_error_code err =
     (case err of InvalidCharacters \<Rightarrow> 1 | ConsecutiveHyphens \<Rightarrow> 2 | ConsecutiveUnderscores \<Rightarrow> 3
      | StartsWithSymbol \<Rightarrow> 4 | TooLong \<Rightarrow> 5 | TooShort \<Rightarrow> 6)"

definition validate_name :: "string \<Rightarrow> bool \<times> nat option" where
  "validate_name wallet_name =
     (case verify_wallet_name wallet_name of
        Inr _ \<Rightarrow> (True, None)
      | Inl err \<Rightarrow> (False, Some (name_error_code err)))"

definition name_error_details :: "WalletNameError \<Rightarrow> string" where
  "name_error_details err =
     (case err of
        InvalidCharacters \<Rightarrow> ''name must contain only lowercase latin letters, digits, '' @ [CHR 39] @ ''_'' @ [CHR 39] @ '' or '' @
                              [CHR 39] @ ''-'' @ [CHR 39]
      | ConsecutiveHyphens \<Rightarrow> ''name cannot contain consecutive hyphens''
      | ConsecutiveUnderscores \<Rightarrow> ''name cannot contain consecutive underscores''
      | StartsWithSymbol \<Rightarrow> ''name cannot start with '' @ [CHR 39] @ ''-'' @ [CHR 39] @ '' or '' @ [CHR 39] @ ''_'' @ [CHR 39]
      | TooLong \<Rightarrow> ''name must be at most 39 characters''
      | TooShort \<Rightarrow> ''name must be at least 4 characters'')"

text \<open>The beginning of a deployment: the name is normalised, then checked.\<close>

definition deploy_wallet_name :: "string \<Rightarrow> AppError + string" where
  "deploy_wallet_name wallet_name =
     (let wallet_name = to_lowercase (trim wallet_name)
      in and_then (map_err (\<lambda>err. with_details (name_error_details err) (with_code ''INVALID_WALLET_NAME''
                     (app_error_new ''Invalid wallet name''))) (verify_wallet_name wallet_name)) (\<lambda>_. Inr wallet_name))"


section \<open>Properties\<close>

lemma is_name_char_facts:
  assumes "is_name_char c"
  shows "33 \<le> (of_char c :: nat) \<and> (of_char c :: nat) \<le> 126 \<and> ascii_lower c = c \<and> c \<noteq> CHR 0xE2"
proof -
  have "list_all (\<lambda>c. 33 \<le> (of_char c :: nat) \<and> (of_char c :: nat) \<le> 126 \<and> ascii_lower c = c \<and> c \<noteq> CHR 0xE2)
      ''abcdefghijklmnopqrstuvwxyz0123456789_-''"
    by code_simp
  with assms show ?thesis unfolding list_all_iff is_name_char_def by blast
qed

lemma to_lowercase_name: "list_all is_name_char n \<Longrightarrow> to_lowercase n = n"
  by (induction n rule: to_lowercase.induct) (auto dest: is_name_char_facts)

lemma trim_name: "list_all is_name_char n \<Longrightarrow> trim n = n"
  by (intro trim_visible) (auto simp: visible_ascii_def list_all_iff dest: is_name_char_facts)

lemma str_contains_twice:
  "str_contains [x, x] s \<longleftrightarrow> (\<exists>i. Suc i < length s \<and> s ! i = x \<and> s ! Suc i = x)"
proof
  assume "str_contains [x, x] s"
  then obtain a b where "s = a @ [x, x] @ b" unfolding str_contains_iff by blast
  then have "Suc (length a) < length s \<and> s ! length a = x \<and> s ! Suc (length a) = x"
    by (simp add: nth_append)
  then show "\<exists>i. Suc i < length s \<and> s ! i = x \<and> s ! Suc i = x" by blast
next
  assume "\<exists>i. Suc i < length s \<and> s ! i = x \<and> s ! Suc i = x"
  then obtain i where i: "Suc i < length s" "s ! i = x" "s ! Suc i = x" by blast
  then have "s = take i s @ [x, x] @ drop (Suc (Suc i)) s"
    by (metis Cons_nth_drop_Suc Suc_lessD append_Cons append_Nil append_take_drop_id)
  then show "str_contains [x, x] s" unfolding str_contains_iff by blast
qed

text \<open>
  Further property.  A name is accepted exactly when, trimmed and in lower case, it has 4 to 39 characters
  of the alphabet, starts with a letter or a digit, and repeats neither symbol; the name a
  deployment goes on with is its own normal form and is accepted again.
\<close>

definition good_name :: "string \<Rightarrow> bool" where
  "good_name n =
     (list_all is_name_char n \<and> 4 \<le> length n \<and> length n \<le> 39 \<and> hd n \<noteq> CHR ''-'' \<and> hd n \<noteq> CHR ''_'' \<and>
      \<not> (\<exists>i. Suc i < length n \<and> n ! i = CHR ''-'' \<and> n ! Suc i = CHR ''-'') \<and>
      \<not> (\<exists>i. Suc i < length n \<and> n ! i = CHR ''_'' \<and> n ! Suc i = CHR ''_''))"

lemma verify_wallet_name_iff: "verify_wallet_name s = Inr () \<longleftrightarrow> good_name (to_lowercase (trim s))"
  unfolding verify_wallet_name_def good_name_def Let_def str_contains_twice
  by (auto simp: not_less not_le)

lemma good_name_normal: "good_name n \<Longrightarrow> to_lowercase (trim n) = n"
  by (simp add: good_name_def trim_name to_lowercase_name)

theorem deploy_wallet_name_spec:
  "(if good_name (to_lowercase (trim s))
    then validate_name s = (True, None) \<and> deploy_wallet_name s = Inr (to_lowercase (trim s)) \<and>
         deploy_wallet_name (to_lowercase (trim s)) = Inr (to_lowercase (trim s))
    else \<not> fst (validate_name s)) \<and>
   (case deploy_wallet_name s of
      Inr n \<Rightarrow> n = to_lowercase (trim s)
    | Inl e \<Rightarrow> \<not> good_name (to_lowercase (trim s)) \<and> ae_error_code e = Some ''INVALID_WALLET_NAME'')"
proof -
  let ?n = "to_lowercase (trim s)"
  have valid: "fst (validate_name s) \<longleftrightarrow> good_name ?n" "validate_name s = (True, None) \<longleftrightarrow> good_name ?n"
    using verify_wallet_name_iff [of s] by (auto simp: validate_name_def split: sum.splits)
  have again: "verify_wallet_name ?n = Inr ()" if "good_name ?n"
    using that by (simp add: verify_wallet_name_iff good_name_normal)
  have result: "case deploy_wallet_name s of
      Inr n \<Rightarrow> n = ?n | Inl e \<Rightarrow> \<not> good_name ?n \<and> ae_error_code e = Some ''INVALID_WALLET_NAME''"
    using again by (cases "verify_wallet_name ?n") (auto simp: deploy_wallet_name_def Let_def with_details_def with_code_def)
  show ?thesis
  proof (cases "good_name ?n")
    case True
    with again [OF True] valid result show ?thesis by (simp add: deploy_wallet_name_def Let_def good_name_normal)
  qed (use valid result in simp)
qed

text \<open>
  Further property.  The exhaustion of a poll is a pending confirmation, and stays one whatever contexts are
  added: contexts never take back that an error is pending or transient.
\<close>

lemma with_context_parts:
  "ae_message (with_context c e) = (c @ '': '') @ ae_message e @ []"
  "ae_details (with_context c e) = (case ae_details e of Some d \<Rightarrow> Some ((c @ ''; '') @ d @ []) | None \<Rightarrow> Some c)"
  "ae_error_code (with_context c e) = ae_error_code e" "ae_kind (with_context c e) = ae_kind e"
  by (simp_all add: with_context_def split: option.splits)

lemma pending_with_context: "is_confirmation_pending_error e \<Longrightarrow> is_confirmation_pending_error (with_context c e)"
  unfolding is_confirmation_pending_error_def with_context_parts
  by (auto split: option.splits if_splits intro: str_contains_append simp del: append.simps append_Nil2 append_assoc)

lemma transient_with_context: "is_retryable_tvm_transient e \<Longrightarrow> is_retryable_tvm_transient (with_context c e)"
  unfolding is_retryable_tvm_transient_def with_context_parts
  by (auto split: option.splits if_splits intro: str_contains_append simp del: append.simps append_Nil2 append_assoc)

lemma exhaustion_pending: "is_confirmation_pending_error (max_attempts_err app_error_from_string n)"
proof -
  have "str_contains ''Wait for property. Max'' (''Wait for property. Max '' @ show_u n @ '' attempts reached.'')"
    unfolding str_contains_iff by (rule exI [of _ "[]"]) simp
  moreover have "str_contains ''attempts reached'' (''Wait for property. Max '' @ show_u n @ '' attempts reached.'')"
    unfolding str_contains_iff
    by (rule exI [of _ "''Wait for property. Max '' @ show_u n @ '' ''"]) simp
  ultimately show ?thesis
    by (simp only: is_confirmation_pending_error_def max_attempts_err_def app_error_from_string_def app_error_new_def
        AppError.simps if_True simp_thms)
qed

theorem contexts_keep_class:
  "is_confirmation_pending_error (fold with_context cs (max_attempts_err app_error_from_string n)) \<and>
   (if is_retryable_tvm_transient e then is_retryable_tvm_transient (fold with_context cs e) else True)"
proof -
  have "is_confirmation_pending_error e \<Longrightarrow> is_confirmation_pending_error (fold with_context cs e)" for e
    by (induction cs arbitrary: e) (simp_all add: pending_with_context)
  moreover have "is_retryable_tvm_transient e \<Longrightarrow> is_retryable_tvm_transient (fold with_context cs e)"
    by (induction cs arbitrary: e) (simp_all add: transient_with_context)
  ultimately show ?thesis by (simp add: exhaustion_pending)
qed

end
