(* ===== verification/MultifactorOps.thy ===== *)
theory MultifactorOps
  imports WalletInfra KeyDerivation WalletConnect
begin

text \<open>
  The operations of a wallet on its multifactor contract: \<open>services/multifactor/cmd.rs\<close>,
  \<open>services/multifactor/whitelist.rs\<close>, \<open>services/multifactor/jwk.rs\<close>, \<open>services/miner/cmd.rs\<close>,
  \<open>services/resolvers/mod.rs\<close> and \<open>modules/multifactor.rs\<close> of \<open>bee_wallet/src\<close>.

  The writes to the contract, and the deployment by way of its mirror, are the values of \<open>mf_call\<close>; the kit that sends them, the other contracts,
  the HTTP client and the sleep are fields of \<open>mf_env\<close>.  Errors of the kit arrive as \<open>AppError\<close>, an
  absent payload is the default of the kit's structure.
\<close>

section \<open>Calls and environment\<close>

datatype ContractIndex = Mirror | Miner | PopCoinWallet | PopitGame | RootPn | OtherContract

record submit_tx =
  st_dest :: string
  st_epk_expire_at :: u64
  st_value :: u128
  st_cc :: "u32 \<rightharpoonup> u64"
  st_bounce :: bool
  st_all_balance :: bool
  st_payload :: "string option"

record send_tx =
  sx_dest :: string
  sx_epk_expire_at :: u64
  sx_value :: u128
  sx_cc :: "u32 \<rightharpoonup> u64"
  sx_bounce :: bool
  sx_flags :: u8
  sx_payload :: string

record AddZkpFactorReq =
  zf_header_base_64 :: string
  zf_proof :: string
  zf_epk_expire_at :: int
  zf_epk :: string
  zf_esk :: string
  zf_kid :: string

record mirror_deploy =
  md_name :: string
  md_zkid :: string
  md_proof :: string
  md_epk :: string
  md_epk_sig :: string
  md_epk_expire_at :: u64
  md_jwk_modulus :: string
  md_kid :: string
  md_jwk_modulus_expire_at :: u64
  md_index_mod_4 :: u8
  md_iss_base_64 :: string
  md_header_base_64 :: string
  md_pub_recovery_key :: string
  md_pub_recovery_key_sig :: string
  md_root_provider_certificates :: "(string \<times> string) list"
  md_provider :: string
  md_jwk_update_key :: string
  md_jwk_update_key_sig :: string

record ParamsOfUpdateZkId =
  uz_zkid :: string
  uz_proof :: string
  uz_epk :: string
  uz_epk_sig :: string
  uz_epk_expire_at :: int
  uz_jwk_modulus :: string
  uz_kid :: string
  uz_jwk_modulus_expire_at :: int
  uz_index_mod_4 :: int
  uz_iss_base_64 :: string
  uz_header_base_64 :: string
  uz_owner_pubkey :: string
  uz_root_provider_certificates :: "(string \<times> string) list"
  uz_provider :: string
  uz_jwk_update_key :: string
  uz_jwk_update_key_sig :: string

datatype mf_call =
    DeleteCandidateSeedPhrase u64
  | ChangeSeedPhrase u64 string string
  | AcceptCandidateSeedPhrase string
  | AddZkpFactor string string string string int
  | SetForceRemoveOldest bool
  | SetWasmHash string
  | CleanWhitelist u64
  | UpdateWhitelist u64 ContractIndex string u128
  | AddJwkModulus string string string
  | SubmitTransaction submit_tx
  | SendTransaction send_tx
  | DeployMultifactor mirror_deploy
  | UpdateZkId ParamsOfUpdateZkId
  | UpdateRecoveryPhrase string string
  | DeleteZkpFactorByItself u64

record tls_response =
  tr_success :: bool
  tr_status :: string
  tr_json :: "string + string \<times> string"

record 'w mf_env =
  mu_account :: "'w account_env"
  mu_keys :: key_env
  mu_sleep_ms :: "u64 \<Rightarrow> 'w \<Rightarrow> 'w"
  mu_call :: "string \<Rightarrow> mf_call \<Rightarrow> KeyPair \<Rightarrow> ('w, AppError, ResultOfSendMessage) io"
  mu_get_epk_expire_at :: "string \<Rightarrow> string \<Rightarrow> ('w, AppError, u64) io"
  mu_mirror :: "string \<Rightarrow> AppError + string \<times> u128"
  mu_mirror_get_miner :: "string \<Rightarrow> string \<Rightarrow> ('w, AppError, string) io"
  mu_deploy_miner_message :: "string \<Rightarrow> ('w, AppError, string) io"
  mu_set_owner_public_message :: "string \<Rightarrow> string \<Rightarrow> string \<Rightarrow> ('w, AppError, string) io"
  mu_remove_owner_public_message :: "string \<Rightarrow> string \<Rightarrow> ('w, AppError, string) io"
  mu_miner_owner_public :: "string \<Rightarrow> ('w, AppError, string \<rightharpoonup> string) io"
  mu_is_deployed :: "string \<Rightarrow> 'w \<Rightarrow> bool \<times> 'w"
  mu_wait_active :: "string \<Rightarrow> u8 \<Rightarrow> u64 \<Rightarrow> ('w, AppError, unit) io"
  mu_post_tls :: "string \<Rightarrow> string \<Rightarrow> string \<Rightarrow> ('w, string, tls_response) io"

definition app_error_from_http :: "string \<Rightarrow> AppError" where
  "app_error_from_http message = with_kind ''http'' (app_error_new message)"

text \<open>A write, its error context, and the check of the transaction.\<close>

definition mf_send ::
  "'w mf_env \<Rightarrow> string \<Rightarrow> mf_call \<Rightarrow> KeyPair \<Rightarrow> string \<Rightarrow> string \<Rightarrow> ('w, AppError, ResultOfSendMessage) io" where
  "mf_send env address call keys context tx_context =
     io_then (io_map_err (with_context context) (mu_call env address call keys)) (\<lambda>result.
     io_lift (wallet_ensure_tx_success result tx_context))"

definition mf_details :: "'w mf_env \<Rightarrow> string \<Rightarrow> ('w, AppError, AccountData) io" where
  "mf_details env address =
     io_map_err (with_context ''Multifactor get details'') (get_multifactor_decoded_data (mu_account env) address)"

definition mf_poll ::
  "'w mf_env \<Rightarrow> string \<Rightarrow> (AccountData \<Rightarrow> bool) \<Rightarrow> u32 option \<Rightarrow> u64 option \<Rightarrow> ('w, AppError, AccountData) io" where
  "mf_poll env address predicate attempts pause =
     poll_until app_error_from_string (mu_sleep_ms env) (mf_details env address) predicate attempts pause"

definition push_message_id :: "string list \<Rightarrow> string option \<Rightarrow> string list" where
  "push_message_id message_ids message_id = (case message_id of Some i \<Rightarrow> message_ids @ [i] | None \<Rightarrow> message_ids)"

section \<open>Replacing the seed phrase\<close>

definition has_candidate_seed_phrase :: "AccountData \<Rightarrow> bool" where
  "has_candidate_seed_phrase data = (case acc_candidate data of Some m \<Rightarrow> m \<noteq> [] | None \<Rightarrow> False)"

definition wait_until_candidate_seed_phrase_absent :: "'w mf_env \<Rightarrow> string \<Rightarrow> ('w, AppError, unit) io" where
  "wait_until_candidate_seed_phrase_absent env address =
     io_then (mf_poll env address (\<lambda>data. \<not> has_candidate_seed_phrase data) None None) (\<lambda>_. io_lift (Inr ()))"

definition wait_until_candidate_seed_phrase_present :: "'w mf_env \<Rightarrow> string \<Rightarrow> ('w, AppError, unit) io" where
  "wait_until_candidate_seed_phrase_present env address =
     io_then (mf_poll env address has_candidate_seed_phrase None None) (\<lambda>_. io_lift (Inr ()))"

definition wait_until_owner_pubkey :: "'w mf_env \<Rightarrow> string \<Rightarrow> string \<Rightarrow> ('w, AppError, unit) io" where
  "wait_until_owner_pubkey env address expected_owner_pubkey =
     io_then (mf_poll env address (\<lambda>data. acc_owner_pubkey data = expected_owner_pubkey) None None) (\<lambda>_. io_lift (Inr ()))"

definition delete_candidate_seed_phrase_and_wait ::
  "'w mf_env \<Rightarrow> string \<Rightarrow> u64 \<Rightarrow> KeyPair \<Rightarrow> ('w, AppError, string option) io" where
  "delete_candidate_seed_phrase_and_wait env address epk_expire_at signer_keys =
     io_then (mf_send env address (DeleteCandidateSeedPhrase epk_expire_at) signer_keys
                ''[delete_candidate_seed_phrase]'' ''delete_candidate_seed_phrase'') (\<lambda>result.
     io_then (wait_until_candidate_seed_phrase_absent env address) (\<lambda>_.
     io_lift (Inr (sm_message_hash result))))"

definition submit_change_seed_phrase ::
  "'w mf_env \<Rightarrow> string \<Rightarrow> u64 \<Rightarrow> string \<Rightarrow> string \<Rightarrow> KeyPair \<Rightarrow> ('w, AppError, string option) io" where
  "submit_change_seed_phrase env address epk_expire_at new_owner_pubkey_sig new_owner_pubkey signer_keys =
     io_then (mf_send env address (ChangeSeedPhrase epk_expire_at new_owner_pubkey_sig new_owner_pubkey) signer_keys
                ''[change_seed_phrase]'' ''change_seed_phrase'') (\<lambda>result.
     io_then (wait_until_candidate_seed_phrase_present env address) (\<lambda>_.
     io_lift (Inr (sm_message_hash result))))"

definition accept_candidate_seed_phrase_and_wait ::
  "'w mf_env \<Rightarrow> string \<Rightarrow> string \<Rightarrow> KeyPair \<Rightarrow> ('w, AppError, string option) io" where
  "accept_candidate_seed_phrase_and_wait env address new_owner_pubkey signer_keys =
     io_then (mf_send env address (AcceptCandidateSeedPhrase new_owner_pubkey) signer_keys
                ''[accept_candidate_seed_phrase]'' ''accept_candidate_seed_phrase'') (\<lambda>result.
     io_then (wait_until_owner_pubkey env address new_owner_pubkey) (\<lambda>_.
     io_lift (Inr (sm_message_hash result))))"

record ParamsOfChangeSeedPhrase =
  cs_password :: string
  cs_signer_keys :: KeyPair
  cs_new_owner_keys :: KeyPair
  cs_multifactor_address :: string

definition change_seed_phrase ::
  "'w mf_env \<Rightarrow> string \<Rightarrow> u64 \<Rightarrow> ParamsOfChangeSeedPhrase \<Rightarrow> ('w, AppError, string list) io" where
  "change_seed_phrase env address epk_expire_at params =
     (let new_keys = cs_new_owner_keys params
      in io_then (io_lift (sign_detached_hex (base (mu_keys env)) (kp_public new_keys) (kp_secret new_keys))) (\<lambda>new_owner_pubkey_sig.
         let new_owner_pubkey = ''0x'' @ kp_public new_keys
         in io_then (get_multifactor_decoded_data (mu_account env) address) (\<lambda>multifactor_data.
            io_then (if has_candidate_seed_phrase multifactor_data
                     then io_then (delete_candidate_seed_phrase_and_wait env address epk_expire_at (cs_signer_keys params)) (\<lambda>message_id.
                            io_lift (Inr (push_message_id [] message_id)))
                     else io_lift (Inr [])) (\<lambda>message_ids.
            io_then (io_map_err (with_context ''change_seed_phrase step 2: submit'')
                       (submit_change_seed_phrase env address epk_expire_at new_owner_pubkey_sig new_owner_pubkey
                          (cs_signer_keys params))) (\<lambda>message_id.
            let message_ids = push_message_id message_ids message_id
            in io_then (io_lift (resolve_recovery_signer (mu_keys env) (cs_password params) address
                          (acc_pub_recovery_key multifactor_data))) (\<lambda>(recovery_signer, _).
               io_then (io_map_err (with_context ''change_seed_phrase step 3: accept'')
                          (accept_candidate_seed_phrase_and_wait env address (''0x'' @ kp_public new_keys) recovery_signer)) (\<lambda>message_id.
               io_lift (Inr (push_message_id message_ids message_id))))))))) "

definition module_change_seed_phrase ::
  "'w mf_env \<Rightarrow> ('w \<Rightarrow> 'w) \<Rightarrow> ParamsOfChangeSeedPhrase \<Rightarrow> ('w, AppError, string list) io" where
  "module_change_seed_phrase env ctx_acquire params w =
     io_then (io_map_err (with_context ''Get EPK expire at'')
                (mu_get_epk_expire_at env (cs_multifactor_address params) (''0x'' @ kp_public (cs_signer_keys params)))) (\<lambda>epk_expire_at.
       change_seed_phrase env (cs_multifactor_address params) epk_expire_at params) (ctx_acquire w)"

section \<open>Adding a factor\<close>

definition MAX_NUM_OF_FACTORS :: int where "MAX_NUM_OF_FACTORS = 10"
definition ADD_FACTOR_CONFIRM_MAX_ATTEMPTS :: u32 where "ADD_FACTOR_CONFIRM_MAX_ATTEMPTS = 60"
definition ADD_FACTOR_CONFIRM_INTERVAL_MS :: u64 where "ADD_FACTOR_CONFIRM_INTERVAL_MS = 500"

text \<open>\<open>parse().unwrap_or(0)\<close> at a 32-bit signed integer.\<close>

definition factors_len_of :: "AccountData \<Rightarrow> int" where
  "factors_len_of data = unwrap_or 0 (res_ok (parse_int (2 ^ 31) (acc_factors_len data)))"

definition confirm_factor_increment ::
  "'w mf_env \<Rightarrow> ('w, AppError, 't) io \<Rightarrow> ('t \<Rightarrow> bool) \<Rightarrow> (ProgressEvent \<Rightarrow> 'w \<Rightarrow> 'w) option \<Rightarrow> u32 \<Rightarrow> u64 \<Rightarrow> ('w, AppError, 't) io" where
  "confirm_factor_increment env fetch predicate progress attempts pause w =
     (case poll_until app_error_from_string (mu_sleep_ms env)
             (\<lambda>w. fetch (emit progress (progress_event ''add_factor'' ''confirming'') w)) predicate (Some attempts) (Some pause) w of
        (Inr data, w1) \<Rightarrow> (Inr data, emit progress (progress_event ''add_factor'' ''confirmed'') w1)
      | (Inl e, w1) \<Rightarrow>
          if is_confirmation_pending_error e
          then (Inl (with_kind ''add_factor_timeout'' (app_error_new ''add_zkp_factor: on-chain confirmation did not arrive in time'')),
                emit progress (progress_event ''add_factor'' ''timed_out'') w1)
          else (Inl e, w1))"

text \<open>The addition is on 32 bits; it stays in range for every length below the largest.\<close>

definition add_zkp_factor ::
  "'w mf_env \<Rightarrow> string \<Rightarrow> AccountData \<Rightarrow> AddZkpFactorReq \<Rightarrow> (ProgressEvent \<Rightarrow> 'w \<Rightarrow> 'w) option \<Rightarrow> ('w, AppError, string option) io" where
  "add_zkp_factor env address multifactor_data params progress =
     (let current_factors_length = factors_len_of multifactor_data
      in io_then (mf_send env address
                    (AddZkpFactor (zf_proof params) (''0x'' @ zf_epk params) (zf_kid params) (zf_header_base_64 params) (zf_epk_expire_at params))
                    \<lparr> kp_public = zf_epk params, kp_secret = zf_esk params \<rparr> ''failed to add zkp factor'' ''add_zkp_factor'') (\<lambda>result w.
         let message_id = sm_message_hash result;
             target_factors_len = min (current_factors_length + 1) MAX_NUM_OF_FACTORS
         in io_then (confirm_factor_increment env (mf_details env address) (\<lambda>data. factors_len_of data = target_factors_len)
                       progress ADD_FACTOR_CONFIRM_MAX_ATTEMPTS ADD_FACTOR_CONFIRM_INTERVAL_MS) (\<lambda>_.
            io_lift (Inr message_id)) (emit progress (progress_event ''add_factor'' ''submitted'') w)))"

section \<open>Flags of the contract\<close>

definition WASM_HASH :: string where
  "WASM_HASH = ''343268736f6dbb5a075a477fb1146b3c25c114d341b41c142e6609a7d1a90a2c''"

definition set_remove_oldest :: "'w mf_env \<Rightarrow> string \<Rightarrow> KeyPair \<Rightarrow> bool \<Rightarrow> ('w, AppError, string option) io" where
  "set_remove_oldest env address owner_keys flag =
     io_then (mf_send env address (SetForceRemoveOldest flag) owner_keys
                ''Set force to remove oldest failure'' ''set_force_remove_oldest'') (\<lambda>result.
     io_lift (Inr (sm_message_hash result)))"

definition set_wasm_hash :: "'w mf_env \<Rightarrow> string \<Rightarrow> KeyPair \<Rightarrow> string \<Rightarrow> ('w, AppError, string option) io" where
  "set_wasm_hash env address owner_keys wasm_hash =
     io_then (mf_send env address (SetWasmHash wasm_hash) owner_keys ''Set wasm hash failure'' ''set_wasm_hash'') (\<lambda>result.
     io_lift (Inr (sm_message_hash result)))"

definition update_contract_flags :: "'w mf_env \<Rightarrow> string \<Rightarrow> KeyPair \<Rightarrow> bool \<Rightarrow> ('w, AppError, string list) io" where
  "update_contract_flags env address keys wait =
     io_then (get_multifactor_decoded_data (mu_account env) address) (\<lambda>current_data.
     let need_remove_oldest = \<not> acc_force_remove_oldest current_data;
         need_wasm_hash = acc_wasm_hash current_data \<noteq> WASM_HASH
     in if \<not> need_remove_oldest \<and> \<not> need_wasm_hash then io_lift (Inr [])
        else
          io_then (if need_remove_oldest
                   then io_map_err (with_context ''Set force to remove oldest failure'') (set_remove_oldest env address keys True)
                   else io_lift (Inr None)) (\<lambda>message_id.
          let message_ids = push_message_id [] message_id
          in io_then (if need_wasm_hash
                      then io_map_err (with_context ''Set wasm hash failure'') (set_wasm_hash env address keys WASM_HASH)
                      else io_lift (Inr None)) (\<lambda>message_id.
             let message_ids = push_message_id message_ids message_id
             in if wait
                then io_then (mf_poll env address (\<lambda>data. (\<not> need_remove_oldest \<or> acc_force_remove_oldest data) \<and>
                                                         (\<not> need_wasm_hash \<or> acc_wasm_hash data = WASM_HASH)) None None) (\<lambda>_.
                       io_lift (Inr message_ids))
                else io_lift (Inr message_ids))))"

section \<open>The whitelist\<close>

definition EXPECTED_AFTER_CLEAN :: nat where "EXPECTED_AFTER_CLEAN = 1"
definition WHITELIST_MAX :: nat where "WHITELIST_MAX = 15"

record ParamsOfUpdateMultifactorWhiteList =
  wl_epk_expire_at :: u64
  wl_payload_destination :: ContractIndex
  wl_target_address :: string
  wl_mirror_index :: u128
  wl_whitelisted_name :: "string option"

definition update_multifactor_whitelist ::
  "'w mf_env \<Rightarrow> string \<Rightarrow> ParamsOfUpdateMultifactorWhiteList \<Rightarrow> KeyPair \<Rightarrow> ('w, AppError, string option) io" where
  "update_multifactor_whitelist env address params signer =
     (if wl_payload_destination params = PopCoinWallet \<and> wl_whitelisted_name params = None
      then io_lift (Inl (app_error_new ''whitelisted_name should be set in case of destionation is popcoin wallet''))
      else io_then (mf_send env address (UpdateWhitelist (wl_epk_expire_at params) (wl_payload_destination params)
                      (unwrap_or [] (wl_whitelisted_name params)) (wl_mirror_index params)) signer
                      ''Update mutifactor whitelist'' ''update_whitelist'') (\<lambda>result.
           io_lift (Inr (sm_message_hash result))))"

definition whitelisted :: "AccountData \<Rightarrow> string \<Rightarrow> bool" where
  "whitelisted data address = (address \<in> fst ` set (acc_white_list data))"

definition update_multifactor_whitelist_and_wait ::
  "'w mf_env \<Rightarrow> string \<Rightarrow> ParamsOfUpdateMultifactorWhiteList \<Rightarrow> KeyPair \<Rightarrow> ('w, AppError, string list) io" where
  "update_multifactor_whitelist_and_wait env address params signer =
     io_then (get_multifactor_decoded_data (mu_account env) address) (\<lambda>data.
     if whitelisted data (wl_target_address params) then io_lift (Inr [])
     else
       io_then (if length (acc_white_list data) > WHITELIST_MAX
                then io_then (mf_send env address (CleanWhitelist (wl_epk_expire_at params)) signer ''clean_whitelist'' ''clean_whitelist'') (\<lambda>result.
                     io_then (mf_poll env address (\<lambda>data. length (acc_white_list data) = EXPECTED_AFTER_CLEAN) None None) (\<lambda>_.
                     io_lift (Inr (push_message_id [] (sm_message_hash result)))))
                else io_lift (Inr [])) (\<lambda>message_ids.
       io_then (update_multifactor_whitelist env address params signer) (\<lambda>message_id.
       io_then (mf_poll env address (\<lambda>data. whitelisted data (wl_target_address params)) None None) (\<lambda>_.
       io_lift (Inr (push_message_id message_ids message_id))))))"


section \<open>Token keys\<close>

definition to_lv_kid :: "key_env \<Rightarrow> string \<Rightarrow> AppError + string" where
  "to_lv_kid env kid_hex =
     and_then (decode_hex (base env) ''failed to decode kid_hex'' kid_hex) (\<lambda>kid.
     Inr (bc_hex_encode env (word_of_nat (length kid) # kid)))"

definition fetch_tls :: "'w mf_env \<Rightarrow> string \<Rightarrow> string \<Rightarrow> ('w, AppError, string \<times> string) io" where
  "fetch_tls env iss_base_64 index_mod_4 =
     io_then (io_map_err (\<lambda>e. with_context ''Send fetch tls request'' (app_error_from_http e))
                (mu_post_tls env ''https://oauth.gosh.sh/v1/tls'' iss_base_64 index_mod_4)) (\<lambda>response.
     if \<not> tr_success response
     then io_lift (Inl (app_error_new (''Fetch tls response (status: '' @ tr_status response @ '')'')))
     else io_lift (map_err (\<lambda>e. with_context ''failed to deserialize'' (app_error_from_http e)) (tr_json response)))"

definition add_jwk_modulus ::
  "'w mf_env \<Rightarrow> string \<Rightarrow> AccountData \<Rightarrow> string \<Rightarrow> string \<Rightarrow> string \<Rightarrow> string \<Rightarrow> ('w, AppError, string option) io" where
  "add_jwk_modulus env address multifactor_data kid password sub kid_boc_hash =
     io_then (io_map_err (with_context ''failed to fetch tls'')
                (fetch_tls env (acc_iss_base_64 multifactor_data) (acc_index_mod_4 multifactor_data))) (\<lambda>(root_cert_sn_hex, tls_data).
     io_then (io_lift (to_lv_kid (mu_keys env) kid)) (\<lambda>lv_kid.
     io_then (io_lift (resolve_jwk_update_signer (mu_keys env) password sub (acc_jwk_update_key multifactor_data))) (\<lambda>(jwk_signer, _).
     io_then (mf_send env address (AddJwkModulus lv_kid root_cert_sn_hex tls_data) jwk_signer
                ''failed to add jwk modulus'' ''add_jwk_modulus'') (\<lambda>res.
     io_then (mf_poll env address (\<lambda>data. ''0x'' @ kid_boc_hash \<in> fst ` set (acc_jwk_modulus_data data)) None None) (\<lambda>_.
     io_lift (Inr (sm_message_hash res)))))))"

section \<open>Resolving contracts\<close>

text \<open>\<open>rsplit(':').next()\<close> is the text after the last colon.\<close>

definition address_tail :: "string \<Rightarrow> AppError + string" where
  "address_tail addr =
     (let tail = last (split_on (CHR '':'') addr)
      in if tail \<noteq> [] then Inr tail else Inl (app_error_from_string (''invalid address format: '' @ addr)))"

definition normalize_pubkey :: "string \<Rightarrow> string" where
  "normalize_pubkey s =
     (case strip_prefix ''0x'' s of Some t \<Rightarrow> t
      | None \<Rightarrow> (case strip_prefix ''0X'' s of Some t \<Rightarrow> t | None \<Rightarrow> s))"

definition mirror_from_seed :: "'w mf_env \<Rightarrow> string \<Rightarrow> AppError + string \<times> u128" where
  "mirror_from_seed env seed = map_err (with_context (''Mirror::new_default(seed='' @ seed @ '')'')) (mu_mirror env seed)"

definition wallet_mirror_for_multifactor :: "'w mf_env \<Rightarrow> string \<Rightarrow> AppError + string \<times> u128" where
  "wallet_mirror_for_multifactor env multifactor_address =
     and_then (address_tail multifactor_address) (mirror_from_seed env)"

definition wallet_mirror_for_pubkey :: "'w mf_env \<Rightarrow> string \<Rightarrow> AppError + string \<times> u128" where
  "wallet_mirror_for_pubkey env pubkey = mirror_from_seed env (normalize_pubkey pubkey)"

definition wallet_miner_for_multifactor :: "'w mf_env \<Rightarrow> string \<Rightarrow> ('w, AppError, string) io" where
  "wallet_miner_for_multifactor env multifactor_address =
     io_then (io_lift (wallet_mirror_for_multifactor env multifactor_address)) (\<lambda>(mirror, _).
     io_map_err (with_context ''Resolve miner for multifactor'') (mu_mirror_get_miner env mirror multifactor_address))"

section \<open>The miner contract\<close>

definition TX_VALUE :: u128 where "TX_VALUE = 100000000"

definition miner_transaction :: "string \<Rightarrow> u64 \<Rightarrow> string \<Rightarrow> mf_call" where
  "miner_transaction dest epk_expire_at payload =
     SubmitTransaction \<lparr> st_dest = dest, st_epk_expire_at = epk_expire_at, st_value = TX_VALUE, st_cc = Map.empty,
       st_bounce = True, st_all_balance = False, st_payload = Some payload \<rparr>"

record ResultOfDeployMiner =
  dm_message_ids :: "string list"
  dm_pending_stage :: "string option"
  dm_pending_reason :: "string option"

definition cmd_deploy_miner :: "'w mf_env \<Rightarrow> string \<Rightarrow> KeyPair \<Rightarrow> u64 \<Rightarrow> ('w, AppError, ResultOfDeployMiner) io" where
  "cmd_deploy_miner env multifactor signer epk_expire_at =
     io_then (io_lift (wallet_mirror_for_multifactor env multifactor)) (\<lambda>(mirror, index).
     io_then (wallet_miner_for_multifactor env multifactor) (\<lambda>miner.
     io_then (io_map_err (with_context ''miner.deploy_miner: add mirror to whitelist'')
                (update_multifactor_whitelist_and_wait env multifactor
                   \<lparr> wl_epk_expire_at = epk_expire_at, wl_payload_destination = Mirror, wl_target_address = mirror,
                     wl_mirror_index = index - 1, wl_whitelisted_name = None \<rparr> signer)) (\<lambda>message_ids.
     io_then (io_map_err (with_context ''miner.deploy_miner: mirror.deploy_miner_message'') (mu_deploy_miner_message env mirror)) (\<lambda>payload.
     io_then (mf_send env multifactor (miner_transaction mirror epk_expire_at payload) signer
                ''miner.deploy_miner: multifactor.submit_transaction'' ''deploy_miner'') (\<lambda>res.
     let message_ids = push_message_id message_ids (sm_message_hash res)
     in (\<lambda>w. case io_map_err (with_context ''miner.deploy_miner: miner.wait_account'') (mu_wait_active env miner 100 100) w of
          (Inr _, w1) \<Rightarrow> (Inr \<lparr> dm_message_ids = message_ids, dm_pending_stage = None, dm_pending_reason = None \<rparr>, w1)
        | (Inl err, w1) \<Rightarrow>
            if is_confirmation_pending_error err
            then (Inr \<lparr> dm_message_ids = message_ids, dm_pending_stage = Some ''miner_activation'',
                        dm_pending_reason = Some (ae_message err) \<rparr>, w1)
            else (Inl err, w1)))))))"

definition cmd_set_mining_keys ::
  "'w mf_env \<Rightarrow> string \<Rightarrow> string \<Rightarrow> string \<Rightarrow> u64 \<Rightarrow> string \<Rightarrow> KeyPair \<Rightarrow> ('w, AppError, string list) io" where
  "cmd_set_mining_keys env miner multifactor mining_pubkey epk_expire_at app_id signer =
     io_then (io_lift (wallet_mirror_for_multifactor env multifactor)) (\<lambda>(mirror, index).
     io_then (io_map_err (with_context ''miner.set_mining_keys: add miner to whitelist'')
                (update_multifactor_whitelist_and_wait env multifactor
                   \<lparr> wl_epk_expire_at = epk_expire_at, wl_payload_destination = Miner, wl_target_address = miner,
                     wl_mirror_index = index - 1, wl_whitelisted_name = None \<rparr> signer)) (\<lambda>message_ids.
     let expected_owner_public = ''0x'' @ mining_pubkey
     in io_then (io_map_err (with_context ''miner.set_mining_keys: miner.set_owner_public_message'')
                   (mu_set_owner_public_message env miner expected_owner_public app_id)) (\<lambda>msg.
        io_then (mf_send env multifactor (miner_transaction miner epk_expire_at msg) signer
                   ''miner.set_mining_keys: multifactor.submit_transaction'' ''set_mining_keys'') (\<lambda>res.
        io_then (io_map_err (with_context ''miner.set_mining_keys: wait owner_public set'')
                   (poll_until app_error_from_string (mu_sleep_ms env)
                      (io_map_err (with_context ''miner.set_mining_keys: miner.get_details'') (mu_miner_owner_public env miner))
                      (\<lambda>owner_public. owner_public app_id = Some expected_owner_public) (Some 200) (Some 250))) (\<lambda>_.
        io_lift (Inr (push_message_id message_ids (sm_message_hash res))))))))"

definition cmd_del_mining_key ::
  "'w mf_env \<Rightarrow> string \<Rightarrow> string \<Rightarrow> u64 \<Rightarrow> string \<Rightarrow> bool \<Rightarrow> KeyPair \<Rightarrow> ('w, AppError, string list) io" where
  "cmd_del_mining_key env miner multifactor epk_expire_at app_id wait signer =
     io_then (io_lift (wallet_mirror_for_multifactor env multifactor)) (\<lambda>(mirror, index).
     io_then (io_map_err (with_context ''miner.del_mining_key: add miner to whitelist'')
                (update_multifactor_whitelist_and_wait env multifactor
                   \<lparr> wl_epk_expire_at = epk_expire_at, wl_payload_destination = Miner, wl_target_address = miner,
                     wl_mirror_index = index - 1, wl_whitelisted_name = None \<rparr> signer)) (\<lambda>message_ids.
     io_then (io_map_err (with_context ''miner.del_mining_key: miner.remove_owner_public_message'')
                (mu_remove_owner_public_message env miner app_id)) (\<lambda>msg.
     io_then (mf_send env multifactor (miner_transaction miner epk_expire_at msg) signer
                ''miner.del_mining_key: multifactor.submit_transaction'' ''del_mining_key'') (\<lambda>res.
     io_then (if wait
              then io_then (io_map_err (with_context ''miner.del_mining_key: wait owner_public removal'')
                     (poll_until app_error_from_string (mu_sleep_ms env)
                        (io_map_err (with_context ''miner.del_mining_key: miner.get_details'') (mu_miner_owner_public env miner))
                        (\<lambda>owner_public. \<not> (case owner_public app_id of Some v \<Rightarrow> v \<noteq> [] | None \<Rightarrow> False)) None None)) (\<lambda>_. io_lift (Inr ()))
              else io_lift (Inr ())) (\<lambda>_.
     io_lift (Inr (push_message_id message_ids (sm_message_hash res))))))))"

text \<open>The module resolves the miner first and takes the expiry of the key from the contract when the caller has none.\<close>

definition epk_expiry :: "'w mf_env \<Rightarrow> string \<Rightarrow> u64 option \<Rightarrow> string \<Rightarrow> ('w, AppError, u64) io" where
  "epk_expiry env multifactor given pub =
     (case given of
        Some v \<Rightarrow> io_lift (Inr v)
      | None \<Rightarrow> io_map_err (with_context ''Get EPK expire at'') (mu_get_epk_expire_at env multifactor (''0x'' @ pub)))"

definition deployed_miner :: "'w mf_env \<Rightarrow> string \<Rightarrow> ('w, AppError, string) io" where
  "deployed_miner env multifactor =
     io_then (io_map_err (with_context ''Failed to resolve miner for multifactor'') (wallet_miner_for_multifactor env multifactor)) (\<lambda>miner w.
       case mu_is_deployed env miner w of (deployed, w1) \<Rightarrow>
         (if deployed then Inr miner else Inl (app_error_new ''Miner is not deployed''), w1))"

definition module_set_mining_keys ::
  "'w mf_env \<Rightarrow> ('w \<Rightarrow> 'w) \<Rightarrow> string \<Rightarrow> string \<Rightarrow> KeyPair \<Rightarrow> string \<Rightarrow> u64 option \<Rightarrow> string \<Rightarrow> ('w, AppError, string list) io" where
  "module_set_mining_keys env ctx_acquire ctx_app_id multifactor signer_keys mining_pubkey epk_expire_at app_id w =
     io_then (deployed_miner env multifactor) (\<lambda>miner.
     io_then (epk_expiry env multifactor epk_expire_at (kp_public signer_keys)) (\<lambda>epk_expire_at.
     io_map_err (with_context ''Failed to set miner owner pubkey'')
       (cmd_set_mining_keys env miner multifactor mining_pubkey epk_expire_at (if app_id = [] then ctx_app_id else app_id) signer_keys)))
     (ctx_acquire w)"

definition module_del_mining_key ::
  "'w mf_env \<Rightarrow> ('w \<Rightarrow> 'w) \<Rightarrow> string \<Rightarrow> string \<Rightarrow> KeyPair \<Rightarrow> u64 option \<Rightarrow> string \<Rightarrow> bool \<Rightarrow> ('w, AppError, string list) io" where
  "module_del_mining_key env ctx_acquire ctx_app_id multifactor signer_keys epk_expire_at app_id wait w =
     io_then (deployed_miner env multifactor) (\<lambda>miner.
     io_then (epk_expiry env multifactor epk_expire_at (kp_public signer_keys)) (\<lambda>epk_expire_at.
     io_map_err (with_context ''Failed to del mining key'')
       (cmd_del_mining_key env miner multifactor epk_expire_at (if app_id = [] then ctx_app_id else app_id) wait signer_keys)))
     (ctx_acquire w)"

end
