(* ===== verification/MultifactorProperties.thy ===== *)
theory MultifactorProperties
  imports MultifactorOps Logs "HOL-Library.Sublist"
begin

text \<open>
  What the operations on the multifactor contract write, in which order and signed by whom, and what the
  contract shows when they report success.  The writes are a ghost log of the world.
\<close>

section \<open>The log of writes\<close>

definition logs_calls :: "'w mf_env \<Rightarrow> ('w \<Rightarrow> (mf_call \<times> KeyPair) list) \<Rightarrow> bool" where
  "logs_calls env log =
     ((\<forall>a c k. emits log (mu_call env a c k) (\<lambda>r ss. ss = [(c, k)])) \<and>
      (\<forall>t w. log (mu_sleep_ms env t w) = log w) \<and>
      (\<forall>a w. log (snd (ac_is_deployed (mu_account env) a w)) = log w) \<and>
      (\<forall>a w. log (snd (ac_data (mu_account env) a w)) = log w) \<and>
      (\<forall>m. silent log (mu_miner_owner_public env m)) \<and>
      (\<forall>m a. silent log (mu_mirror_get_miner env m a)) \<and>
      (\<forall>m. silent log (mu_deploy_miner_message env m)) \<and>
      (\<forall>m p a. silent log (mu_set_owner_public_message env m p a)) \<and>
      (\<forall>m n t. silent log (mu_wait_active env m n t)))"

lemma silent_poll_loop:
  assumes "silent log fetch" "\<And>w. log (sleep w) = log w"
  shows "silent log (poll_loop fetch p sleep e m n)"
  unfolding emits_def
proof (intro allI impI)
  fix w r w' assume "poll_loop fetch p sleep e m n w = (r, w')"
  with assms have "log w' = log w"
  proof (induction fetch p sleep e m n w arbitrary: r w' rule: poll_loop.induct)
    case (1 fetch p sleep e m n w)
    obtain r1 w1 where f: "fetch w = (r1, w1)" by fastforce
    have l1: "log w1 = log w" using emitsD [OF "1.prems"(1) f] by simp
    show ?case
    proof (cases r1)
      case (Inl a)
      with "1.prems"(3) f l1 show ?thesis by (simp add: poll_loop.simps [of fetch p sleep e m n w])
    next
      case (Inr d)
      show ?thesis
      proof (cases "p d \<or> m \<le> n + 1")
        case True
        with "1.prems"(3) f l1 Inr show ?thesis
          by (auto simp: poll_loop.simps [of fetch p sleep e m n w] split: if_splits)
      next
        case False
        with "1.prems"(3) f Inr have "poll_loop fetch p sleep e m (n + 1) (sleep w1) = (r, w')"
          by (simp add: poll_loop.simps [of fetch p sleep e m n w])
        with "1.IH" [OF f [symmetric] Inr _ _ "1.prems"(1,2) this] False l1 "1.prems"(2) show ?thesis by simp
      qed
    qed
  qed
  then show "\<exists>ss. log w' = log w @ ss \<and> ss = []" by simp
qed

lemma poll_loop_Inr:
  "poll_loop fetch p sleep e m n w = (Inr d, w') \<Longrightarrow> p d \<and> (\<exists>v. fetch v = (Inr d, w'))"
proof (induction fetch p sleep e m n w arbitrary: w' rule: poll_loop.induct)
  case (1 fetch p sleep e m n w)
  obtain r1 w1 where f: "fetch w = (r1, w1)" by fastforce
  with "1.prems" obtain d1 where d1: "r1 = Inr d1"
    by (cases r1) (auto simp: poll_loop.simps [of fetch p sleep e m n w])
  show ?case
  proof (cases "p d1 \<or> m \<le> n + 1")
    case True
    with "1.prems" f d1 show ?thesis by (auto simp: poll_loop.simps [of fetch p sleep e m n w] split: if_splits)
  next
    case False
    with "1.prems" f d1 have "poll_loop fetch p sleep e m (n + 1) (sleep w1) = (Inr d, w')"
      by (simp add: poll_loop.simps [of fetch p sleep e m n w])
    with "1.IH" [OF f [symmetric] d1 _ _ this] False show ?thesis by simp
  qed
qed

lemma poll_until_Inr:
  assumes "poll_until from_string sleep fetch p attempts pause w = (Inr d, w')"
  shows "p d \<and> (\<exists>v. fetch v = (Inr d, w'))"
  using assms poll_loop_Inr by (fastforce simp: poll_until_def Let_def split: if_splits)

lemma silent_poll:
  assumes "silent log fetch" "\<And>t w. log (sleep t w) = log w"
  shows "silent log (poll_until from_string sleep fetch p attempts pause)"
  using silent_poll_loop [OF assms(1), of "sleep (unwrap_or 100 pause)"] assms(2)
  by (auto simp: poll_until_def Let_def emits_def)

lemma logs_callsD:
  assumes "logs_calls env log"
  shows "silent log (get_multifactor_decoded_data (mu_account env) a)"
    and "silent log (mf_details env a)" "silent log (mf_poll env a p m t)"
    and "silent log (poll_until from_string (mu_sleep_ms env) (io_map_err f (mu_miner_owner_public env miner)) q m t)"
    and "emits log (mf_send env a c k x y) (\<lambda>r ss. ss = [(c, k)])"
proof -
  have d: "log (snd (ac_is_deployed (mu_account env) b w)) = log w" "log (snd (ac_data (mu_account env) b w)) = log w"
    "log (mu_sleep_ms env t' w) = log w" for b w t'
    using assms by (simp_all add: logs_calls_def)
  show decoded: "silent log (get_multifactor_decoded_data (mu_account env) a)" for a
    unfolding emits_def
  proof (intro allI impI)
    fix w r w' assume "get_multifactor_decoded_data (mu_account env) a w = (r, w')"
    then show "\<exists>ss. log w' = log w @ ss \<and> ss = []"
      using d(1) [of a w] d(2) [of a "snd (ac_is_deployed (mu_account env) a w)"]
      by (auto simp: get_multifactor_decoded_data_def split: prod.splits if_splits option.splits)
  qed
  show details: "silent log (mf_details env a)"
    unfolding mf_details_def by (rule emits_map_err [OF decoded])
  show "silent log (mf_poll env a p m t)"
    unfolding mf_poll_def by (rule silent_poll) (rule details, simp only: d(3))
  have "silent log (mu_miner_owner_public env miner)" using assms by (simp add: logs_calls_def)
  then show "silent log (poll_until from_string (mu_sleep_ms env) (io_map_err f (mu_miner_owner_public env miner)) q m t)"
    by (intro silent_poll emits_map_err) (simp_all only: d(3))
  have "emits log (mu_call env a c k) (\<lambda>r ss. ss = [(c, k)])" using assms by (simp add: logs_calls_def)
  then have call: "emits log (io_map_err (with_context x) (mu_call env a c k)) (\<lambda>r ss. ss = [(c, k)])"
    by (rule emits_map_err)
  have "emits log (io_then (io_map_err (with_context x) (mu_call env a c k)) (\<lambda>result. io_lift (wallet_ensure_tx_success result y)))
      (\<lambda>r ss. ss = [(c, k)])"
    by (rule emits_then [OF call], rule emits_lift, simp_all)
  then show "emits log (mf_send env a c k x y) (\<lambda>r ss. ss = [(c, k)])" by (simp only: mf_send_def)
qed

lemma mf_poll_Inr:
  "mf_poll env a p m t w = (Inr d, w') \<Longrightarrow> p d \<and> (\<exists>v. mf_details env a v = (Inr d, w'))"
  unfolding mf_poll_def by (rule poll_until_Inr)


section \<open>Replacing the seed phrase\<close>

lemma resolve_on_paths_matches:
  "resolve_on_paths env phrase on_chain paths = Inr (k, p) \<Longrightarrow> pubkey_matches (kp_public k) on_chain"
  by (induction paths) (auto simp: res_simps split: if_splits)

lemma resolve_recovery_signer_matches:
  "resolve_recovery_signer env password address on_chain = Inr (k, p) \<Longrightarrow> pubkey_matches (kp_public k) on_chain"
  by (auto simp: resolve_recovery_signer_def resolve_sign_keys_def res_simps intro: resolve_on_paths_matches)

lemma emits_sent_and_polled:
  assumes "logs_calls env log" "silent log waiting"
  shows "emits log (io_then (mf_send env a c k x y) (\<lambda>result. io_then waiting (\<lambda>_. io_lift (Inr (g result)))))
           (\<lambda>r ss. ss = [(c, k)])"
  by (rule emits_then [OF logs_callsD(5) [OF assms(1)]], rule emits_silent_then [OF assms(2)])
    (simp_all add: emits_lift)

lemma silent_then_unit: "silent log m \<Longrightarrow> silent log (io_then m (\<lambda>_. io_lift (Inr u)))"
  by (rule emits_silent_then) (simp_all add: emits_lift)

lemma emits_seed_steps:
  assumes "logs_calls env log"
  shows "emits log (delete_candidate_seed_phrase_and_wait env a e k) (\<lambda>r ss. ss = [(DeleteCandidateSeedPhrase e, k)])"
    and "emits log (submit_change_seed_phrase env a e sig new k) (\<lambda>r ss. ss = [(ChangeSeedPhrase e sig new, k)])"
    and "emits log (accept_candidate_seed_phrase_and_wait env a new k) (\<lambda>r ss. ss = [(AcceptCandidateSeedPhrase new, k)])"
  unfolding delete_candidate_seed_phrase_and_wait_def submit_change_seed_phrase_def accept_candidate_seed_phrase_and_wait_def
    wait_until_candidate_seed_phrase_absent_def wait_until_candidate_seed_phrase_present_def wait_until_owner_pubkey_def
  by (rule emits_sent_and_polled [OF assms silent_then_unit [OF logs_callsD(3) [OF assms]]])+

text \<open>The key pair holds the recovery key that the contract showed at some time.\<close>

definition recovery_signer_of :: "'w mf_env \<Rightarrow> string \<Rightarrow> KeyPair \<Rightarrow> bool" where
  "recovery_signer_of env a rk =
     (\<exists>v data v'. get_multifactor_decoded_data (mu_account env) a v = (Inr data, v') \<and>
        pubkey_matches (kp_public rk) (acc_pub_recovery_key data))"

definition seed_writes ::
  "'w mf_env \<Rightarrow> string \<Rightarrow> u64 \<Rightarrow> ParamsOfChangeSeedPhrase \<Rightarrow> bool \<Rightarrow> (mf_call \<times> KeyPair) list \<Rightarrow> bool" where
  "seed_writes env a e params finished ss =
     (\<exists>sig rk. let new = ''0x'' @ kp_public (cs_new_owner_keys params); k = cs_signer_keys params;
                   deletion = [(DeleteCandidateSeedPhrase e, k)]; change = [(ChangeSeedPhrase e sig new, k)];
                   acceptance = [(AcceptCandidateSeedPhrase new, rk)]
        in if finished then ss \<in> {change @ acceptance, deletion @ change @ acceptance} \<and> recovery_signer_of env a rk
           else ss \<in> {[], deletion, change, deletion @ change} \<or>
                ss \<in> {change @ acceptance, deletion @ change @ acceptance} \<and> recovery_signer_of env a rk)"

lemma emits_change_seed_phrase:
  assumes "logs_calls env log"
  shows "emits log (change_seed_phrase env a e params) (\<lambda>r ss. seed_writes env a e params (\<not> isl r) ss)"
proof -
  note steps = emits_seed_steps [OF assms]
  let ?new = "''0x'' @ kp_public (cs_new_owner_keys params)" and ?k = "cs_signer_keys params"
  define D where "D c = (if c then [(DeleteCandidateSeedPhrase e, ?k)] else [])" for c
  have data: "emits log (get_multifactor_decoded_data (mu_account env) a)
      (\<lambda>r ss. ss = [] \<and> (\<exists>v v'. get_multifactor_decoded_data (mu_account env) a v = (r, v')))"
    by (rule emits_run [OF logs_callsD(1) [OF assms]])
  have deletion: "emits log (if c then io_then (delete_candidate_seed_phrase_and_wait env a e ?k) (\<lambda>i. io_lift (Inr (push_message_id [] i)))
        else io_lift (Inr [])) (\<lambda>r ss. ss = D c)" for c
    unfolding D_def by (rule emits_if; simp) (rule emits_then [OF steps(1)], simp_all add: emits_lift)
  have stop: "seed_writes env a e params False []" "seed_writes env a e params False (D c)" for c
    unfolding seed_writes_def Let_def D_def by auto
  have change: "seed_writes env a e params False (D c @ [(ChangeSeedPhrase e sig ?new, ?k)])" for c sig
    unfolding seed_writes_def Let_def D_def by auto
  have accept: "seed_writes env a e params b (D c @ [(ChangeSeedPhrase e sig ?new, ?k)] @ [(AcceptCandidateSeedPhrase ?new, rk)])"
    if "recovery_signer_of env a rk" for c sig rk b
    using that unfolding seed_writes_def Let_def D_def by (intro exI [of _ sig] exI [of _ rk]) (cases b; cases c; simp)
  have signer: "recovery_signer_of env a (fst rp)"
    if "get_multifactor_decoded_data (mu_account env) a v = (Inr d, v')"
      "resolve_recovery_signer (mu_keys env) pw a (acc_pub_recovery_key d) = Inr rp" for v d v' pw rp
    using that resolve_recovery_signer_matches unfolding recovery_signer_of_def by (metis prod.collapse)
  have accepted: "emits log (io_then (io_map_err ctx (accept_candidate_seed_phrase_and_wait env a ?new rk)) (\<lambda>i. io_lift (Inr (f i))))
      (\<lambda>r ts. seed_writes env a e params (\<not> isl r) (D c @ [(ChangeSeedPhrase e sig ?new, ?k)] @ ts))"
    if "recovery_signer_of env a rk" for ctx rk f c sig
    apply (rule emits_then [OF emits_map_err [OF steps(3)]])
     apply (rule emits_lift, simp only: append_Nil2, rule accept [OF that])
    by (simp only:, rule accept [OF that])
  show ?thesis
    unfolding change_seed_phrase_def Let_def
    apply (rule emits_lift_then)
     apply (rule emits_then [OF data])
      apply (elim conjE exE, simp only: append_Nil)
      apply (rule emits_then [OF deletion])
       apply (simp only:)
       apply (rule emits_then [OF emits_map_err [OF steps(2)]])
        apply (simp only:)
        apply (rule emits_lift_then)
         apply (simp only: split_beta append_assoc)
         apply (rule accepted, rule signer, assumption, assumption)
    using stop change by (auto simp del: append_Cons append_Nil)
qed


lemma change_seed_phrase_result:
  assumes "change_seed_phrase env a e params w = (Inr ids, w')"
  shows "\<exists>v data. mf_details env a v = (Inr data, w') \<and> acc_owner_pubkey data = ''0x'' @ kp_public (cs_new_owner_keys params)"
proof -
  from assms obtain d where "\<exists>v p m t. mf_poll env a (\<lambda>data. acc_owner_pubkey data = ''0x'' @ kp_public (cs_new_owner_keys params)) m t v = (Inr d, w')"
    by (auto simp: change_seed_phrase_def Let_def accept_candidate_seed_phrase_and_wait_def wait_until_owner_pubkey_def res_simps
        simp del: append_Cons append_Nil)
  then show ?thesis using mf_poll_Inr by fast
qed

section \<open>A concrete contract\<close>

text \<open>
  The contract is in one of a few named states; its data are decoded from the name.  Deleting, changing and
  accepting a seed phrase, adding an address to the whitelist and setting the flags move between them.
\<close>

record toy_mf_world =
  ty_state :: string
  ty_log :: "(mf_call \<times> KeyPair) list"

definition toy_data :: AccountData where
  "toy_data =
     \<lparr> acc_candidate = None, acc_factors_len = ''3'', acc_factors_by_timestamp = [], acc_force_remove_oldest = False,
       acc_index_mod_4 = [], acc_iss_base_64 = [], acc_jwk_modulus_data = [], acc_jwk_modulus_data_len = [],
       acc_m_security_cards_len = [], acc_m_transactions_len = [], acc_max_cleanup_txns = [], acc_min_value = [],
       acc_name = [], acc_owner_pubkey = ''0x00'', acc_pub_recovery_key = ''0x01'', acc_root = [],
       acc_use_security_card = False, acc_zkid = [], acc_jwk_update_key = ''0x01'', acc_wasm_hash = [],
       acc_white_list = [(''0:root'', True)] \<rparr>"

definition toy_decode :: "string \<Rightarrow> AppError + AccountData" where
  "toy_decode s = Inr (
     if s = ''candidate'' then toy_data\<lparr>acc_candidate := Some [(''0x05'', ''1'')]\<rparr>
     else if s = ''owned'' then toy_data\<lparr>acc_owner_pubkey := ''0x'' @ hex_enc [5]\<rparr>
     else if s = ''full'' then toy_data\<lparr>acc_factors_len := ''10''\<rparr>
     else if s = ''crowded'' then toy_data\<lparr>acc_white_list := replicate 16 (''0:old'', True)\<rparr>
     else if s = ''listed'' then toy_data\<lparr>acc_white_list := [(''0:root'', True), (''0:miner'', True)]\<rparr>
     else if s = ''flagged'' then toy_data\<lparr>acc_force_remove_oldest := True, acc_wasm_hash := WASM_HASH\<rparr>
     else toy_data)"

definition toy_step :: "mf_call \<Rightarrow> string \<Rightarrow> string" where
  "toy_step c s =
     (case c of
        DeleteCandidateSeedPhrase _ \<Rightarrow> ''idle''
      | ChangeSeedPhrase _ _ _ \<Rightarrow> ''candidate''
      | AcceptCandidateSeedPhrase _ \<Rightarrow> ''owned''
      | CleanWhitelist _ \<Rightarrow> ''idle''
      | UpdateWhitelist _ _ _ _ \<Rightarrow> ''listed''
      | SetWasmHash _ \<Rightarrow> ''flagged''
      | _ \<Rightarrow> s)"

definition toy_mf :: "toy_mf_world mf_env" where
  "toy_mf = \<lparr> mu_account = \<lparr> ac_is_deployed = (\<lambda>_ w. (True, w)), ac_data = (\<lambda>_ w. (Some (ty_state w), w)), ac_decode = toy_decode,
                             ac_get_indexer = (\<lambda>_ w. (Inr [], w)), ac_indexer_details = (\<lambda>_ w. (Inr [], w)) \<rparr>,
     mu_keys = toy_keys, mu_sleep_ms = (\<lambda>_ w. w),
     mu_call = (\<lambda>_ c k w. (Inr \<lparr> sm_message_hash = Some ''id'', sm_aborted = None, sm_exit_code = None \<rparr>,
                            w\<lparr>ty_state := toy_step c (ty_state w), ty_log := ty_log w @ [(c, k)]\<rparr>)),
     mu_get_epk_expire_at = (\<lambda>_ _ w. (Inr 9, w)), mu_mirror = (\<lambda>_. Inr (''0:mirror'', 1)),
     mu_mirror_get_miner = (\<lambda>_ _ w. (Inr ''0:miner'', w)), mu_deploy_miner_message = (\<lambda>_ w. (Inr [], w)),
     mu_set_owner_public_message = (\<lambda>_ _ _ w. (Inr [], w)), mu_remove_owner_public_message = (\<lambda>_ _ w. (Inr [], w)),
     mu_miner_owner_public = (\<lambda>_ w. (Inr [''app'' \<mapsto> ''0x07''], w)), mu_is_deployed = (\<lambda>_ w. (True, w)),
     mu_wait_active = (\<lambda>_ _ _ w. (Inr (), w)), mu_post_tls = (\<lambda>_ _ _ w. (Inl [], w)) \<rparr>"

lemma toy_mf_logs: "logs_calls toy_mf ty_log"
  by (simp add: logs_calls_def emits_def toy_mf_def)

lemma toy_details: "get_multifactor_decoded_data (mu_account toy_mf) a w = (toy_decode (ty_state w), w)"
  by (simp add: get_multifactor_decoded_data_def toy_mf_def) (simp add: toy_decode_def)

lemma toy_poll:
  assumes "toy_decode (ty_state w) = Inr d" "p d"
  shows "mf_poll toy_mf a p None None w = (Inr d, w)"
  using assms by (simp add: mf_poll_def poll_until_def Let_def mf_details_def toy_details poll_loop.simps)

lemma toy_mf_send:
  "mf_send toy_mf a c k x y w = (Inr \<lparr> sm_message_hash = Some ''id'', sm_aborted = None, sm_exit_code = None \<rparr>,
     w\<lparr>ty_state := toy_step c (ty_state w), ty_log := ty_log w @ [(c, k)]\<rparr>)"
  by (simp add: mf_send_def wallet_ensure_tx_success_def Let_def) (simp add: toy_mf_def)

section \<open>Properties of the seed phrase\<close>

text \<open>
  Property C14.  Replacing the seed phrase writes to the contract at most a deletion of an old candidate, the new
  candidate, and its acceptance, in this order.  The acceptance is signed only by a key pair that
  holds the recovery key the contract showed.  Success means that both the candidate and the
  acceptance were sent and that the contract, as it was read last, has the new owner key.
\<close>

theorem change_seed_phrase_writes:
  assumes "logs_calls env log" "change_seed_phrase env a e params w = (r, w')"
  shows "(\<exists>ss. log w' = log w @ ss \<and> seed_writes env a e params (\<not> isl r) ss) \<and>
         (case r of Inl _ \<Rightarrow> True
          | Inr ids \<Rightarrow> \<exists>v data. mf_details env a v = (Inr data, w') \<and>
                         acc_owner_pubkey data = ''0x'' @ kp_public (cs_new_owner_keys params))"
proof (rule conjI)
  show "\<exists>ss. log w' = log w @ ss \<and> seed_writes env a e params (\<not> isl r) ss"
    by (rule emitsD [OF emits_change_seed_phrase [OF assms(1)] assms(2)])
  show "case r of Inl _ \<Rightarrow> True
          | Inr ids \<Rightarrow> \<exists>v data. mf_details env a v = (Inr data, w') \<and>
                         acc_owner_pubkey data = ''0x'' @ kp_public (cs_new_owner_keys params)"
    using change_seed_phrase_result assms(2) by (auto split: sum.splits simp del: append_Cons append_Nil)
qed

definition toy_change :: ParamsOfChangeSeedPhrase where
  "toy_change = \<lparr> cs_password = ''pw'', cs_signer_keys = \<lparr> kp_public = ''aa'', kp_secret = ''bb'' \<rparr>,
     cs_new_owner_keys = \<lparr> kp_public = hex_enc [5], kp_secret = hex_enc (replicate 32 3) \<rparr>, cs_multifactor_address = ''0:m'' \<rparr>"

lemma toy_signer:
  "\<exists>k. resolve_recovery_signer (mu_keys toy_mf) ''pw'' a ''0x01'' = Inr (k, CURRENT_DERIVATION_PATH)"
proof -
  have "\<exists>ph. and_then (key_sha256 toy_keys ''pw'') (\<lambda>h. build_recovery_password toy_keys h a) = Inr ph"
    by (simp add: toy_keys_run) (simp add: toy_keys_def)
  then obtain h ph where p: "key_sha256 toy_keys ''pw'' = Inr h" "build_recovery_password toy_keys h a = Inr ph"
    by (auto simp: res_simps)
  have d: "derive_sign_keys toy_keys ph CURRENT_DERIVATION_PATH = Inr \<lparr> kp_public = ''01'', kp_secret = hex_enc (replicate 32 3) \<rparr>"
    by (simp add: derive_sign_keys_def from_tvm_def toy_keys_def nibble_def)
  have m: "pubkey_matches ''01'' ''0x01''" using pubkey_matches_0x [of "''01''"] by simp
  have "mu_keys toy_mf = toy_keys" by (simp add: toy_mf_def)
  then show ?thesis
    by (simp add: resolve_recovery_signer_def p resolve_sign_keys_def CANDIDATE_PATHS_def d m)
qed

theorem change_seed_phrase_writes_witness:
  "\<exists>ids w'. change_seed_phrase toy_mf ''0:m'' 9 toy_change \<lparr> ty_state = ''candidate'', ty_log = [] \<rparr> = (Inr ids, w') \<and>
     seed_writes toy_mf ''0:m'' 9 toy_change True (ty_log w') \<and> length (ty_log w') = 3"
proof -
  obtain k where k: "resolve_recovery_signer (mu_keys toy_mf) ''pw'' ''0:m'' ''0x01'' = Inr (k, CURRENT_DERIVATION_PATH)"
    using toy_signer by blast
  have sig: "sign_detached_hex (base (mu_keys toy_mf)) (hex_enc [5]) (hex_enc (replicate 32 3)) = Inr (hex_enc [5])"
    by (simp add: sign_detached_hex_def decode_hex_def vault_env.truncate_def del: hex_enc.simps)
      (simp add: toy_mf_def toy_keys_def del: hex_enc.simps)
  obtain ids w' where run: "change_seed_phrase toy_mf ''0:m'' 9 toy_change \<lparr> ty_state = ''candidate'', ty_log = [] \<rparr> = (Inr ids, w')"
    "length (ty_log w') = 3"
    by (simp add: change_seed_phrase_def toy_change_def sig toy_details toy_decode_def toy_data_def
        has_candidate_seed_phrase_def delete_candidate_seed_phrase_and_wait_def toy_mf_send toy_step_def
        wait_until_candidate_seed_phrase_absent_def submit_change_seed_phrase_def wait_until_candidate_seed_phrase_present_def
        accept_candidate_seed_phrase_and_wait_def wait_until_owner_pubkey_def toy_poll k del: hex_enc.simps replicate.simps)
  from change_seed_phrase_writes [OF toy_mf_logs run(1)] run show ?thesis by auto
qed


section \<open>Properties of the whitelist and of the mining keys\<close>

definition whitelist_writes ::
  "ParamsOfUpdateMultifactorWhiteList \<Rightarrow> KeyPair \<Rightarrow> (mf_call \<times> KeyPair) list set" where
  "whitelist_writes params k =
     (let clean = (CleanWhitelist (wl_epk_expire_at params), k);
          update = (UpdateWhitelist (wl_epk_expire_at params) (wl_payload_destination params)
                      (unwrap_or [] (wl_whitelisted_name params)) (wl_mirror_index params), k)
      in {[], [clean], [update], [clean, update]})"

lemma emits_whitelist:
  assumes "logs_calls env log"
  shows "emits log (update_multifactor_whitelist_and_wait env a params k) (\<lambda>r ss. ss \<in> whitelist_writes params k)"
proof -
  note calls = logs_callsD [OF assms]
  let ?clean = "(CleanWhitelist (wl_epk_expire_at params), k)"
  have update: "emits log (update_multifactor_whitelist env a params k)
      (\<lambda>r ss. ss \<in> {[], [(UpdateWhitelist (wl_epk_expire_at params) (wl_payload_destination params)
                           (unwrap_or [] (wl_whitelisted_name params)) (wl_mirror_index params), k)]})"
    unfolding update_multifactor_whitelist_def
    by (rule emits_if, simp add: emits_lift, rule emits_then [OF calls(5)]) (simp_all add: emits_lift)
  have clean: "emits log (if c then io_then (mf_send env a (CleanWhitelist (wl_epk_expire_at params)) k x y) (\<lambda>result.
          io_then (mf_poll env a p None None) (\<lambda>_. io_lift (Inr (f result)))) else io_lift (Inr []))
      (\<lambda>r ss. ss \<in> {[], [?clean]})" for c x y p f
    by (rule emits_if, rule emits_mono [OF emits_sent_and_polled [OF assms calls(3)]]) (simp_all add: emits_lift)
  show ?thesis
    unfolding update_multifactor_whitelist_and_wait_def
    apply (rule emits_silent_then [OF calls(1)])
     apply (rule emits_if)
      apply (rule emits_lift, simp add: whitelist_writes_def Let_def)
     apply (rule emits_then [OF clean])
      apply (rule emits_then [OF update])
       apply (rule emits_silent_then [OF calls(3)])
        apply (rule emits_lift)
    by (auto simp: whitelist_writes_def Let_def)
qed

lemma mf_details_of_data:
  "get_multifactor_decoded_data (mu_account env) a v = (Inr d, w') \<Longrightarrow> mf_details env a v = (Inr d, w')"
  by (simp add: mf_details_def)

lemma whitelist_result:
  assumes "update_multifactor_whitelist_and_wait env a params k w = (Inr ids, w')"
  shows "\<exists>v data. mf_details env a v = (Inr data, w') \<and> whitelisted data (wl_target_address params)"
  using assms mf_poll_Inr mf_details_of_data
  by (fastforce simp: update_multifactor_whitelist_and_wait_def res_simps split: if_splits)

text \<open>
  Property C16.  An update of the whitelist writes at most a cleaning and then the update, both signed by the
  caller, and when it succeeds the contract, as it was read last, lists the address; for an address
  that is listed already nothing is written.
\<close>

theorem whitelist_update_spec:
  assumes "logs_calls env log" "update_multifactor_whitelist_and_wait env a params k w = (r, w')"
  shows "(\<exists>ss \<in> whitelist_writes params k. log w' = log w @ ss) \<and>
         (case r of Inl _ \<Rightarrow> True
          | Inr ids \<Rightarrow> \<exists>v data. mf_details env a v = (Inr data, w') \<and> whitelisted data (wl_target_address params)) \<and>
         (case get_multifactor_decoded_data (mu_account env) a w of
            (Inr data, w1) \<Rightarrow> whitelisted data (wl_target_address params) \<longrightarrow> r = Inr [] \<and> w' = w1
          | _ \<Rightarrow> True)"
proof (intro conjI)
  show "\<exists>ss \<in> whitelist_writes params k. log w' = log w @ ss"
    using emitsD [OF emits_whitelist [OF assms(1)] assms(2)] by blast
  show "case r of Inl _ \<Rightarrow> True
          | Inr ids \<Rightarrow> \<exists>v data. mf_details env a v = (Inr data, w') \<and> whitelisted data (wl_target_address params)"
    using whitelist_result assms(2) by (auto split: sum.splits)
  show "case get_multifactor_decoded_data (mu_account env) a w of
            (Inr data, w1) \<Rightarrow> whitelisted data (wl_target_address params) \<longrightarrow> r = Inr [] \<and> w' = w1
          | _ \<Rightarrow> True"
    using assms(2) by (auto simp: update_multifactor_whitelist_and_wait_def split: prod.splits sum.splits)
qed

definition toy_whitelist :: ParamsOfUpdateMultifactorWhiteList where
  "toy_whitelist = \<lparr> wl_epk_expire_at = 9, wl_payload_destination = Miner, wl_target_address = ''0:miner'', wl_mirror_index = 0,
     wl_whitelisted_name = None \<rparr>"

lemma toy_whitelisted:
  "update_multifactor_whitelist_and_wait toy_mf a toy_whitelist k w =
     (if ty_state w = ''crowded'' then (Inr [''id'', ''id''], w\<lparr>ty_state := ''listed'',
        ty_log := ty_log w @ [(CleanWhitelist 9, k), (UpdateWhitelist 9 Miner [] 0, k)]\<rparr>)
      else if ty_state w = ''listed'' then (Inr [], w)
      else (Inr [''id''], w\<lparr>ty_state := ''listed'', ty_log := ty_log w @ [(UpdateWhitelist 9 Miner [] 0, k)]\<rparr>))"
  by (simp add: update_multifactor_whitelist_and_wait_def toy_details toy_decode_def toy_data_def whitelisted_def toy_whitelist_def
      WHITELIST_MAX_def EXPECTED_AFTER_CLEAN_def toy_mf_send toy_step_def toy_poll update_multifactor_whitelist_def push_message_id_def)

theorem whitelist_update_spec_witness:
  "\<exists>ids w'. update_multifactor_whitelist_and_wait toy_mf ''0:m'' toy_whitelist \<lparr> kp_public = ''aa'', kp_secret = ''bb'' \<rparr> \<lparr> ty_state = ''crowded'', ty_log = [] \<rparr> = (Inr ids, w') \<and>
     length (ty_log w') = 2 \<and> (\<exists>v data. mf_details toy_mf ''0:m'' v = (Inr data, w') \<and> whitelisted data ''0:miner'')"
proof -
  obtain ids w' where run: "update_multifactor_whitelist_and_wait toy_mf ''0:m'' toy_whitelist \<lparr> kp_public = ''aa'', kp_secret = ''bb'' \<rparr> \<lparr> ty_state = ''crowded'', ty_log = [] \<rparr> = (Inr ids, w')"
    "length (ty_log w') = 2"
    unfolding toy_whitelisted by simp
  from whitelist_update_spec [OF toy_mf_logs run(1)] run show ?thesis by (auto simp: toy_whitelist_def)
qed

end
