(* ===== verification/Tokens.thy ===== *)
theory Tokens
  imports MultifactorOps SellOrders
begin

text \<open>
  \<open>bee_wallet/src/services/tokens/mod.rs\<close> and \<open>modules/tokens.rs\<close>: transfers of native and of other tokens,
  the purchase, sale and redemption at the accumulator, and the withdrawal of rewards.
  The accumulator, the token contracts and the game contract are fields of \<open>token_env\<close>, the constants
  and defaults of the contract kit too; contracts are named by their addresses.
\<close>

section \<open>Calls and environment\<close>

record 'w token_env =
  tk_mf :: "'w mf_env"
  tk_default_tx :: submit_tx
  tk_accumulator :: string
  tk_exchange :: string
  tk_nackl_ecc :: u32
  tk_shell_ecc :: u32
  tk_usdc_ecc :: u32
  tk_usdc_factor :: u64
  tk_shell_amount_for_denom :: "u16 \<Rightarrow> u128 option"
  tk_is_valid_denom :: "u16 \<Rightarrow> bool"
  tk_queue_state :: "u16 \<Rightarrow> ('w, AppError, ResultOfGetQueueState) io"
  tk_sell_order_address :: "u16 \<Rightarrow> u64 \<Rightarrow> ('w, AppError, string) io"
  tk_claim_for_order :: "u16 \<Rightarrow> u64 \<Rightarrow> KeyPair \<Rightarrow> ('w, AppError, string option) io"
  tk_details :: "('w, AppError, u128 \<times> u128) io"
  tk_nackl_info :: "('w, AppError, u128 \<times> u128) io"
  tk_wallet_address :: "string \<Rightarrow> string \<Rightarrow> string \<Rightarrow> ('w, AppError, string) io"
  tk_deploy_transaction :: "string \<Rightarrow> string \<Rightarrow> u128 \<Rightarrow> string \<Rightarrow> KeyPair \<Rightarrow> ('w, AppError, ResultOfSendMessage) io"
  tk_transaction_address :: "string \<Rightarrow> string \<Rightarrow> u128 \<Rightarrow> string \<Rightarrow> ('w, AppError, string) io"
  tk_wait_transaction :: "string \<Rightarrow> string \<Rightarrow> ('w, AppError, unit) io"
  tk_get_popitgame :: "string \<Rightarrow> ('w, AppError, string) io"
  tk_popitgame_ecc :: "string \<Rightarrow> ('w, AppError, u32 \<rightharpoonup> string) io"
  tk_encode_withdraw :: "string \<Rightarrow> string \<Rightarrow> u128 \<Rightarrow> ('w, AppError, string) io"
  tk_random_mirror :: "'w \<Rightarrow> u128 \<times> 'w"

text \<open>
  \<open>..Default::default()\<close> is an update of the default.  The calls to the accumulator carry the same gas.
\<close>

definition ACCUMULATOR_VALUE :: u128 where "ACCUMULATOR_VALUE = 1000000000"

definition submit_of ::
  "'w token_env \<Rightarrow> string \<Rightarrow> u64 \<Rightarrow> u128 \<Rightarrow> bool option \<Rightarrow> submit_tx" where
  "submit_of env dest epk_expire_at value bounce =
     (tk_default_tx env)\<lparr>st_dest := dest, st_epk_expire_at := epk_expire_at, st_value := value,
       st_bounce := unwrap_or True bounce, st_all_balance := False\<rparr>"

definition submit_tokens ::
  "'w token_env \<Rightarrow> string \<Rightarrow> submit_tx \<Rightarrow> KeyPair \<Rightarrow> string \<Rightarrow> string \<Rightarrow> ('w, AppError, ResultOfSendMessage) io" where
  "submit_tokens env multifactor tx signer what tx_context =
     mf_send (tk_mf env) multifactor (SubmitTransaction tx) signer
       (''Submit multifactor `'' @ multifactor @ ''` '' @ what) tx_context"

section \<open>Native tokens\<close>

definition parse_token_root :: "string \<Rightarrow> AppError + u32" where
  "parse_token_root token_root =
     map_err (\<lambda>e. with_context (''Parse token root failure `'' @ token_root @ ''` transaction'') (app_error_from_parse e))
       (parse_u token_root)"

definition send_native_tokens ::
  "'w token_env \<Rightarrow> string \<Rightarrow> u64 \<Rightarrow> string \<Rightarrow> string \<Rightarrow> u64 \<Rightarrow> KeyPair \<Rightarrow> bool option \<Rightarrow> ('w, AppError, ResultOfSendMessage) io" where
  "send_native_tokens env multifactor epk_expire_at destination_address token_root amount_raw signer bounce =
     io_then (io_lift (parse_token_root token_root)) (\<lambda>token_root_u.
     submit_tokens env multifactor
       ((submit_of env destination_address epk_expire_at 0 bounce)\<lparr>st_cc := [token_root_u \<mapsto> amount_raw]\<rparr>) signer
       ''transaction'' ''submit_transaction (send native tokens)'')"

definition SEND_TX_DEFAULT_VALUE :: u128 where "SEND_TX_DEFAULT_VALUE = 1000000000"

definition send_native_tokens_direct ::
  "'w token_env \<Rightarrow> string \<Rightarrow> u64 \<Rightarrow> string \<Rightarrow> string \<Rightarrow> u64 \<Rightarrow> u8 \<Rightarrow> u128 option \<Rightarrow> string option \<Rightarrow> KeyPair \<Rightarrow> bool option \<Rightarrow>
    ('w, AppError, ResultOfSendMessage) io" where
  "send_native_tokens_direct env multifactor epk_expire_at destination_address token_root amount_raw flags value payload signer bounce =
     io_then (io_lift (parse_token_root token_root)) (\<lambda>token_root_u.
     mf_send (tk_mf env) multifactor
       (SendTransaction \<lparr> sx_dest = destination_address, sx_epk_expire_at = epk_expire_at,
          sx_value = unwrap_or SEND_TX_DEFAULT_VALUE value, sx_cc = [token_root_u \<mapsto> amount_raw],
          sx_bounce = unwrap_or True bounce, sx_flags = flags, sx_payload = unwrap_or [] payload \<rparr>) signer
       (''Send multifactor `'' @ multifactor @ ''` transaction'') ''send_transaction (send native tokens direct)'')"

section \<open>The accumulator\<close>

text \<open>The product of the amount is taken on 64 bits and wraps in a release build.\<close>

definition buy_shells ::
  "'w token_env \<Rightarrow> string \<Rightarrow> u64 \<Rightarrow> u64 \<Rightarrow> KeyPair \<Rightarrow> bool option \<Rightarrow> ('w, AppError, ResultOfSendMessage) io" where
  "buy_shells env multifactor epk_expire_at usdc_whole signer bounce =
     (if usdc_whole = 0 then io_lift (Inl (app_error_new ''buy_shells: usdc_amount must be > 0''))
      else
        let usdc_micro = usdc_whole * tk_usdc_factor env
        in submit_tokens env multifactor
             ((submit_of env (tk_accumulator env) epk_expire_at ACCUMULATOR_VALUE bounce)\<lparr>st_cc := [tk_usdc_ecc env \<mapsto> usdc_micro]\<rparr>)
             signer ''buy_shells transaction'' ''submit_transaction (buy_shells)'')"

record SellShellsResult =
  sr_message_hash :: "string option"
  sr_order_id :: u64
  sr_denom :: u16
  sr_sell_order_address :: string
  sr_sold :: bool
  sr_position_in_queue :: u64

definition poll_queue ::
  "'w token_env \<Rightarrow> u16 \<Rightarrow> u64 \<Rightarrow> ('w, AppError, ResultOfGetQueueState) io" where
  "poll_queue env denom order_id =
     io_map_err (with_context ''sell_shells: timed out waiting for order confirmation'')
       (poll_until app_error_from_string (mu_sleep_ms (tk_mf env))
          (io_map_err (with_context ''sell_shells: poll getQueueState'') (tk_queue_state env denom))
          (\<lambda>state. qs_next_id state > order_id) (Some 30) (Some 500))"

definition sell_shells ::
  "'w token_env \<Rightarrow> string \<Rightarrow> u64 \<Rightarrow> u16 \<Rightarrow> KeyPair \<Rightarrow> bool option \<Rightarrow> ('w, AppError, SellShellsResult) io" where
  "sell_shells env multifactor epk_expire_at denom signer bounce =
     io_then (io_lift (ok_or (app_error_new (''sell_shells: invalid denom `'' @ show_u denom @
                  ''`. Expected one of: 1, 10, 100, 1000'')) (tk_shell_amount_for_denom env denom))) (\<lambda>shell_amount.
     io_then (io_map_err (with_context ''sell_shells: getQueueState before send'') (tk_queue_state env denom)) (\<lambda>queue_before.
     let order_id = qs_next_id queue_before
     in io_then (submit_tokens env multifactor
             ((submit_of env (tk_accumulator env) epk_expire_at ACCUMULATOR_VALUE bounce)\<lparr>st_cc := [tk_shell_ecc env \<mapsto> ucast shell_amount]\<rparr>)
             signer ''sell_shells transaction'' ''submit_transaction (sell_shells)'') (\<lambda>result.
        io_then (poll_queue env denom order_id) (\<lambda>queue_after.
        io_then (io_map_err (with_context ''sell_shells: getSellOrderAddress'') (tk_sell_order_address env denom order_id)) (\<lambda>sell_order_address.
        let sold = order_id \<le> qs_sold_prefix queue_after;
            position_in_queue = (if sold then 0 else order_id - qs_sold_prefix queue_after)
        in io_lift (Inr \<lparr> sr_message_hash = sm_message_hash result, sr_order_id = order_id, sr_denom = denom,
             sr_sell_order_address = sell_order_address, sr_sold = sold, sr_position_in_queue = position_in_queue \<rparr>))))))"

record ClaimUsdcResult =
  cu_message_hash :: "string option"
  cu_usdc_payout :: u64

definition claim_usdc :: "'w token_env \<Rightarrow> u16 \<Rightarrow> u64 \<Rightarrow> KeyPair \<Rightarrow> ('w, AppError, ClaimUsdcResult) io" where
  "claim_usdc env denom order_id signer =
     (if \<not> tk_is_valid_denom env denom
      then io_lift (Inl (app_error_new (''claim_usdc: invalid denom `'' @ show_u denom @ ''`. Expected one of: 1, 10, 100, 1000'')))
      else io_then (io_map_err (with_context ''claim_usdc: claim_for_order'') (tk_claim_for_order env denom order_id signer)) (\<lambda>message_hash.
           let usdc_payout = ucast denom * tk_usdc_factor env
           in io_lift (Inr \<lparr> cu_message_hash = message_hash, cu_usdc_payout = usdc_payout \<rparr>)))"

record NacklRedeemRateResult =
  nr_redeemable_usdc :: u128
  nr_current_nackl_supply :: u128
  nr_usdc_per_nackl :: u128

definition nackl_rate :: "u128 \<Rightarrow> u128 \<Rightarrow> u128 \<Rightarrow> u128 \<Rightarrow> NacklRedeemRateResult" where
  "nackl_rate usdc_balance owed_total supply burned =
     (let redeemable_usdc = sat_sub usdc_balance owed_total;
          current_nackl_supply = sat_sub supply burned;
          usdc_per_nackl = (if current_nackl_supply = 0 \<or> redeemable_usdc = 0 then 0
                            else redeemable_usdc * 1000000000000000000 div current_nackl_supply)
      in \<lparr> nr_redeemable_usdc = redeemable_usdc, nr_current_nackl_supply = current_nackl_supply,
           nr_usdc_per_nackl = usdc_per_nackl \<rparr>)"

definition get_nackl_redeem_rate :: "'w token_env \<Rightarrow> ('w, AppError, NacklRedeemRateResult) io" where
  "get_nackl_redeem_rate env =
     io_then (io_map_err (with_context ''get_nackl_redeem_rate: getDetails'') (tk_details env)) (\<lambda>(usdc_balance, owed_total).
     io_then (io_map_err (with_context ''get_nackl_redeem_rate: getNacklInfo'') (tk_nackl_info env)) (\<lambda>(supply, burned).
     io_lift (Inr (nackl_rate usdc_balance owed_total supply burned))))"

definition redeem_nackl ::
  "'w token_env \<Rightarrow> string \<Rightarrow> u64 \<Rightarrow> u64 \<Rightarrow> KeyPair \<Rightarrow> bool option \<Rightarrow> ('w, AppError, ResultOfSendMessage) io" where
  "redeem_nackl env multifactor epk_expire_at nackl_amount signer bounce =
     (if nackl_amount = 0 then io_lift (Inl (app_error_new ''redeem_nackl: nackl_amount must be > 0''))
      else submit_tokens env multifactor
             ((submit_of env (tk_accumulator env) epk_expire_at ACCUMULATOR_VALUE bounce)\<lparr>st_cc := [tk_nackl_ecc env \<mapsto> nackl_amount]\<rparr>)
             signer ''redeem_nackl transaction'' ''submit_transaction (redeem_nackl)'')"

section \<open>Other tokens\<close>

text \<open>
  The transfer is a contract of its own: the wallet deploys it, and the multifactor contract confirms it by a
  message to its address.
\<close>

definition owner_token_wallet :: "'w token_env \<Rightarrow> string \<Rightarrow> string \<Rightarrow> string \<Rightarrow> ('w, AppError, string) io" where
  "owner_token_wallet env multifactor token_root token_dapp =
     io_map_err (with_context (''get_wallet_address `'' @ multifactor @ ''`'')) (tk_wallet_address env token_root token_dapp multifactor)"

definition deploy_transfer ::
  "'w token_env \<Rightarrow> string \<Rightarrow> string \<Rightarrow> u64 \<Rightarrow> string \<Rightarrow> KeyPair \<Rightarrow> string \<Rightarrow> ('w, AppError, string) io" where
  "deploy_transfer env token_wallet token_dapp amount_raw destination signer tx_context =
     io_then (io_map_err (with_context (''deploy_transaction, token_wallet `'' @ token_wallet @ ''`''))
                (tk_deploy_transaction env token_wallet token_dapp (ucast amount_raw) destination signer)) (\<lambda>result.
     io_then (io_lift (wallet_ensure_tx_success result tx_context)) (\<lambda>_.
     io_then (io_map_err (with_context (''get_transaction_address, token_wallet `'' @ token_wallet @ ''`''))
                (tk_transaction_address env token_wallet token_dapp (ucast amount_raw) destination)) (\<lambda>tx.
     io_then (io_map_err (with_context (''Wait for transaction `'' @ tx @ ''` active status'')) (tk_wait_transaction env tx token_dapp)) (\<lambda>_.
     io_lift (Inr tx)))))"

definition send_other_tokens ::
  "'w token_env \<Rightarrow> string \<Rightarrow> u64 \<Rightarrow> string \<Rightarrow> string \<Rightarrow> string \<Rightarrow> u64 \<Rightarrow> KeyPair \<Rightarrow> bool option \<Rightarrow> ('w, AppError, ResultOfSendMessage) io" where
  "send_other_tokens env multifactor epk_expire_at destination_address token_root token_dapp amount_raw signer bounce =
     io_then (owner_token_wallet env multifactor token_root token_dapp) (\<lambda>token_wallet.
     io_then (deploy_transfer env token_wallet token_dapp amount_raw destination_address signer ''deploy_transaction (token wallet)'') (\<lambda>tx.
     submit_tokens env multifactor (submit_of env tx epk_expire_at 1000000000 bounce) signer
       ''transaction'' ''submit_transaction (send other tokens)''))"

definition EXCHANGE_CALLBACK_VALUE :: u128 where "EXCHANGE_CALLBACK_VALUE = 5000000000"

definition migrate_tip3_usdc ::
  "'w token_env \<Rightarrow> string \<Rightarrow> u64 \<Rightarrow> string \<Rightarrow> string \<Rightarrow> u64 \<Rightarrow> KeyPair \<Rightarrow> bool option \<Rightarrow> ('w, AppError, ResultOfSendMessage) io" where
  "migrate_tip3_usdc env multifactor epk_expire_at token_root token_dapp amount_raw signer bounce =
     (if amount_raw = 0 then io_lift (Inl (app_error_new ''migrate_tip3_usdc: amount_raw must be > 0''))
      else
        io_then (owner_token_wallet env multifactor token_root token_dapp) (\<lambda>token_wallet.
        io_then (deploy_transfer env token_wallet token_dapp amount_raw (tk_exchange env) signer ''deploy_transaction (migrate_tip3_usdc)'') (\<lambda>tx.
        submit_tokens env multifactor (submit_of env tx epk_expire_at EXCHANGE_CALLBACK_VALUE bounce) signer
          ''migrate_tip3_usdc transaction'' ''submit_transaction (migrate_tip3_usdc)'')))"

section \<open>The module\<close>

definition is_native_ecc :: "string \<Rightarrow> bool" where
  "is_native_ecc token_root = (case (parse_u token_root :: u32 result) of Inr _ \<Rightarrow> True | Inl _ \<Rightarrow> False)"

record SendTokensReq =
  rq_multifactor_address :: string
  rq_destination_address :: string
  rq_token_root :: string
  rq_token_dapp :: string
  rq_amount_raw :: u64
  rq_signer_keys :: KeyPair
  rq_bounce :: "bool option"

definition epk_of :: "'w token_env \<Rightarrow> string \<Rightarrow> KeyPair \<Rightarrow> ('w, AppError, u64) io" where
  "epk_of env multifactor signer_keys =
     io_map_err (with_context ''Get EPK expire at'') (mu_get_epk_expire_at (tk_mf env) multifactor (''0x'' @ kp_public signer_keys))"

definition module_send_tokens ::
  "'w token_env \<Rightarrow> ('w \<Rightarrow> 'w) \<Rightarrow> SendTokensReq \<Rightarrow> ('w, AppError, ResultOfSendMessage) io" where
  "module_send_tokens env ctx_acquire params w =
     io_then (epk_of env (rq_multifactor_address params) (rq_signer_keys params)) (\<lambda>epk_expire_at.
       if is_native_ecc (rq_token_root params)
       then send_native_tokens env (rq_multifactor_address params) epk_expire_at (rq_destination_address params)
              (rq_token_root params) (rq_amount_raw params) (rq_signer_keys params) (rq_bounce params)
       else send_other_tokens env (rq_multifactor_address params) epk_expire_at (rq_destination_address params)
              (rq_token_root params) (rq_token_dapp params) (rq_amount_raw params) (rq_signer_keys params) (rq_bounce params))
       (ctx_acquire w)"

definition module_send_tokens_direct ::
  "'w token_env \<Rightarrow> SendTokensReq \<Rightarrow> u8 \<Rightarrow> u128 option \<Rightarrow> string option \<Rightarrow> ('w, AppError, ResultOfSendMessage) io" where
  "module_send_tokens_direct env params flags value payload =
     io_then (epk_of env (rq_multifactor_address params) (rq_signer_keys params)) (\<lambda>epk_expire_at.
       send_native_tokens_direct env (rq_multifactor_address params) epk_expire_at (rq_destination_address params)
         (rq_token_root params) (rq_amount_raw params) flags value payload (rq_signer_keys params) (rq_bounce params))"

definition module_buy_shells ::
  "'w token_env \<Rightarrow> ('w \<Rightarrow> 'w) \<Rightarrow> string \<Rightarrow> u64 \<Rightarrow> KeyPair \<Rightarrow> bool option \<Rightarrow> ('w, AppError, ResultOfSendMessage) io" where
  "module_buy_shells env ctx_acquire multifactor usdc_amount signer_keys bounce w =
     io_then (epk_of env multifactor signer_keys) (\<lambda>epk_expire_at.
       buy_shells env multifactor epk_expire_at usdc_amount signer_keys bounce) (ctx_acquire w)"

definition module_sell_shells ::
  "'w token_env \<Rightarrow> ('w \<Rightarrow> 'w) \<Rightarrow> string \<Rightarrow> u16 \<Rightarrow> KeyPair \<Rightarrow> bool option \<Rightarrow> ('w, AppError, SellShellsResult) io" where
  "module_sell_shells env ctx_acquire multifactor denom signer_keys bounce w =
     io_then (epk_of env multifactor signer_keys) (\<lambda>epk_expire_at.
       sell_shells env multifactor epk_expire_at denom signer_keys bounce) (ctx_acquire w)"

definition module_claim_usdc ::
  "'w token_env \<Rightarrow> ('w \<Rightarrow> 'w) \<Rightarrow> u16 \<Rightarrow> u64 \<Rightarrow> KeyPair \<Rightarrow> ('w, AppError, ClaimUsdcResult) io" where
  "module_claim_usdc env ctx_acquire denom order_id signer_keys w = claim_usdc env denom order_id signer_keys (ctx_acquire w)"

definition module_redeem_nackl ::
  "'w token_env \<Rightarrow> ('w \<Rightarrow> 'w) \<Rightarrow> string \<Rightarrow> u64 \<Rightarrow> KeyPair \<Rightarrow> bool option \<Rightarrow> ('w, AppError, ResultOfSendMessage) io" where
  "module_redeem_nackl env ctx_acquire multifactor nackl_amount signer_keys bounce w =
     (let w = ctx_acquire w
      in if nackl_amount = 0 then (Inl (app_error_new ''redeem_nackl: nackl_amount must be > 0''), w)
         else io_then (epk_of env multifactor signer_keys) (\<lambda>epk_expire_at.
                redeem_nackl env multifactor epk_expire_at nackl_amount signer_keys bounce) w)"

definition module_migrate_tip3_usdc ::
  "'w token_env \<Rightarrow> string \<Rightarrow> string \<Rightarrow> string \<Rightarrow> u64 \<Rightarrow> KeyPair \<Rightarrow> bool option \<Rightarrow> ('w, AppError, ResultOfSendMessage) io" where
  "module_migrate_tip3_usdc env multifactor token_root token_dapp amount_raw signer_keys bounce =
     io_then (epk_of env multifactor signer_keys) (\<lambda>epk_expire_at.
       migrate_tip3_usdc env multifactor epk_expire_at token_root token_dapp amount_raw signer_keys bounce)"

text \<open>The balance of the game contract is read as text and falls back to zero.\<close>

definition popit_value :: "(u32 \<rightharpoonup> string) \<Rightarrow> u128" where
  "popit_value ecc = (case ecc 1 of Some v \<Rightarrow> unwrap_or 0 (res_ok (parse_u v)) | None \<Rightarrow> 0)"

definition withdraw_popitgame_rewards ::
  "'w token_env \<Rightarrow> string \<Rightarrow> KeyPair \<Rightarrow> bool option \<Rightarrow> ('w, AppError, ResultOfSendMessage) io" where
  "withdraw_popitgame_rewards env multifactor signer_keys bounce =
     io_then (io_map_err (with_context ''Get popitgame'') (tk_get_popitgame env multifactor)) (\<lambda>popitgame.
     io_then (io_map_err (with_context ''fetch account popitgame'') (tk_popitgame_ecc env popitgame)) (\<lambda>popitgame_ecc.
     let value = popit_value popitgame_ecc
     in io_then (io_map_err (with_context ''Encode `activate` message'') (tk_encode_withdraw env popitgame multifactor value)) (\<lambda>body.
        io_then (epk_of env multifactor signer_keys) (\<lambda>epk_expire_at w.
        case tk_random_mirror env w of (mirror_index, w) \<Rightarrow>
          io_then (io_map_err (with_context ''withdraw_popitgame_rewards: update whitelist'')
                     (update_multifactor_whitelist_and_wait (tk_mf env) multifactor
                        \<lparr> wl_epk_expire_at = epk_expire_at, wl_payload_destination = PopitGame, wl_target_address = popitgame,
                          wl_mirror_index = mirror_index, wl_whitelisted_name = None \<rparr> signer_keys)) (\<lambda>_.
          submit_tokens env multifactor
            ((tk_default_tx env)\<lparr>st_dest := popitgame, st_epk_expire_at := epk_expire_at, st_payload := Some body,
               st_bounce := unwrap_or True bounce, st_all_balance := False\<rparr>) signer_keys
            ''transaction'' ''submit_transaction (withdraw popitgame)'') w))))"

end
