(* ===== verification/TokensProperties.thy ===== *)
theory TokensProperties
  imports Tokens MultifactorProperties
begin

text \<open>
  What transfers and trades write and with which amounts, what a sale reports, and the rate of redemption.
\<close>

section \<open>The log of transfers\<close>

datatype token_write = MfWrite string mf_call KeyPair | TransferDeploy string u128 string KeyPair

definition logs_tokens :: "'w token_env \<Rightarrow> ('w \<Rightarrow> token_write list) \<Rightarrow> bool" where
  "logs_tokens env log =
     ((\<forall>a c k. emits log (mu_call (tk_mf env) a c k) (\<lambda>r ss. ss = [MfWrite a c k])) \<and>
      (\<forall>t d v a k. emits log (tk_deploy_transaction env t d v a k) (\<lambda>r ss. ss = [TransferDeploy t v a k])) \<and>
      (\<forall>t w. log (mu_sleep_ms (tk_mf env) t w) = log w) \<and>
      (\<forall>a p. silent log (mu_get_epk_expire_at (tk_mf env) a p)) \<and>
      (\<forall>t d a. silent log (tk_wallet_address env t d a)) \<and>
      (\<forall>t d v a. silent log (tk_transaction_address env t d v a)) \<and>
      (\<forall>t d. silent log (tk_wait_transaction env t d)) \<and>
      (\<forall>d. silent log (tk_queue_state env d)) \<and>
      (\<forall>d i. silent log (tk_sell_order_address env d i)))"

lemma emits_submit:
  assumes "logs_tokens env log"
  shows "emits log (submit_tokens env a tx k x y) (\<lambda>r ss. ss = [MfWrite a (SubmitTransaction tx) k])"
proof -
  have "emits log (mu_call (tk_mf env) a c k) (\<lambda>r ss. ss = [MfWrite a c k])" for c
    using assms by (simp add: logs_tokens_def)
  then have call: "emits log (io_map_err (with_context z) (mu_call (tk_mf env) a c k)) (\<lambda>r ss. ss = [MfWrite a c k])" for c z
    by (rule emits_map_err)
  show ?thesis
    unfolding submit_tokens_def mf_send_def by (rule emits_then [OF call], rule emits_lift, simp_all)
qed

lemma silent_epk: "logs_tokens env log \<Longrightarrow> silent log (epk_of env a k)"
  unfolding epk_of_def by (rule emits_map_err) (simp add: logs_tokens_def)

text \<open>A transfer of other tokens is deployed once the wallet is known, and confirmed by one message after it.\<close>

definition transfer_writes :: "'w token_env \<Rightarrow> SendTokensReq \<Rightarrow> bool \<Rightarrow> token_write list \<Rightarrow> bool" where
  "transfer_writes env params done ss =
     (\<exists>wallet tx epk.
        let writes = [TransferDeploy wallet (ucast (rq_amount_raw params)) (rq_destination_address params) (rq_signer_keys params),
                      MfWrite (rq_multifactor_address params)
                        (SubmitTransaction (submit_of env tx epk 1000000000 (rq_bounce params))) (rq_signer_keys params)]
        in prefix ss writes \<and> (if done then ss = writes else True))"

lemma emits_deploy_transfer:
  assumes "logs_tokens env log"
  shows "emits log (deploy_transfer env t d v a k x)
           (\<lambda>r ss. ss = [TransferDeploy t (ucast v) a k])"
proof -
  have dep: "emits log (io_map_err f (tk_deploy_transaction env t d (ucast v) a k)) (\<lambda>r ss. ss = [TransferDeploy t (ucast v) a k])" for f
    by (rule emits_map_err) (use assms in \<open>simp add: logs_tokens_def\<close>)
  have addr: "silent log (io_map_err f (tk_transaction_address env t d v' a))" for f v'
    by (rule emits_map_err) (use assms in \<open>simp add: logs_tokens_def\<close>)
  have wait: "silent log (io_map_err f (tk_wait_transaction env tx d))" for f tx
    by (rule emits_map_err) (use assms in \<open>simp add: logs_tokens_def\<close>)
  show ?thesis
    unfolding deploy_transfer_def
    apply (rule emits_then [OF dep])
     apply (rule emits_lift_then)
      apply (rule emits_silent_then [OF addr])
       apply (rule emits_silent_then [OF wait])
        apply (rule emits_lift)
        apply simp_all
    done
qed

lemma emits_send_other:
  assumes "logs_tokens env log"
  shows "emits log (send_other_tokens env (rq_multifactor_address p) epk (rq_destination_address p) (rq_token_root p)
             (rq_token_dapp p) (rq_amount_raw p) (rq_signer_keys p) (rq_bounce p)) (\<lambda>r ss. transfer_writes env p (\<not> isl r) ss)"
proof -
  have owner: "silent log (owner_token_wallet env a t d)" for a t d
    unfolding owner_token_wallet_def by (rule emits_map_err) (use assms in \<open>simp add: logs_tokens_def\<close>)
  show ?thesis
    unfolding send_other_tokens_def
    apply (rule emits_silent_then [OF owner])
     apply (rule emits_then [OF emits_deploy_transfer [OF assms]])
      apply (rule emits_mono [OF emits_submit [OF assms]])
      apply (auto simp: transfer_writes_def Let_def)
    done
qed


section \<open>Trades at the accumulator\<close>

text \<open>
  Further property.  A purchase of nothing is refused without a write; any other purchase is one message
  with the amount in millionths on 64 bits, which is the amount asked for exactly when the product fits.
\<close>

theorem buy_shells_writes:
  assumes "logs_tokens env log" "buy_shells env multifactor epk usdc k bounce w = (r, w')"
  shows "if usdc = 0 then isl r \<and> w' = w
         else \<exists>amount. log w' = log w @ [MfWrite multifactor (SubmitTransaction
                 ((submit_of env (tk_accumulator env) epk ACCUMULATOR_VALUE bounce)\<lparr>st_cc := [tk_usdc_ecc env \<mapsto> amount]\<rparr>)) k] \<and>
              unat amount = (unat usdc * unat (tk_usdc_factor env)) mod 2 ^ 64"
proof (cases "usdc = 0")
  case True
  with assms(2) show ?thesis by (auto simp: buy_shells_def io_lift_def)
next
  case False
  have "buy_shells env multifactor epk usdc k bounce = submit_tokens env multifactor
      ((submit_of env (tk_accumulator env) epk ACCUMULATOR_VALUE bounce)\<lparr>st_cc := [tk_usdc_ecc env \<mapsto> usdc * tk_usdc_factor env]\<rparr>)
      k ''buy_shells transaction'' ''submit_transaction (buy_shells)''"
    using False by (simp only: buy_shells_def Let_def if_False)
  with assms(2) emitsD [OF emits_submit [OF assms(1)]] have
    "log w' = log w @ [MfWrite multifactor (SubmitTransaction ((submit_of env (tk_accumulator env) epk ACCUMULATOR_VALUE bounce)
        \<lparr>st_cc := [tk_usdc_ecc env \<mapsto> usdc * tk_usdc_factor env]\<rparr>)) k]"
    by fastforce
  moreover have "unat (usdc * tk_usdc_factor env) = (unat usdc * unat (tk_usdc_factor env)) mod 2 ^ 64"
    by (simp add: unat_word_ariths)
  ultimately show ?thesis using False by auto
qed

text \<open>
  Further property.  A sale that succeeds wrote one message with the amount of the denomination, and reports
  the number that was next before it, the state of the queue that was read last and the position
  in it; that the number belongs to the caller's order is not checked.
\<close>

theorem sell_shells_reports:
  assumes "logs_tokens env log" "sell_shells env multifactor epk denom k bounce w = (Inr res, w')"
  shows "\<exists>q w1 q' v v' amount.
     tk_queue_state env denom w = (Inr q, w1) \<and> tk_queue_state env denom v = (Inr q', v') \<and>
     tk_shell_amount_for_denom env denom = Some amount \<and>
     log w' = log w @ [MfWrite multifactor (SubmitTransaction
        ((submit_of env (tk_accumulator env) epk ACCUMULATOR_VALUE bounce)\<lparr>st_cc := [tk_shell_ecc env \<mapsto> ucast amount]\<rparr>)) k] \<and>
     sr_order_id res = qs_next_id q \<and> qs_next_id q < qs_next_id q' \<and>
     sr_sold res = (qs_next_id q \<le> qs_sold_prefix q') \<and>
     unat (sr_position_in_queue res) = unat (qs_next_id q) - unat (qs_sold_prefix q')"
proof -
  from assms(2) obtain amount q w1 result w2 q' w3 addr where run:
    "tk_shell_amount_for_denom env denom = Some amount" "tk_queue_state env denom w = (Inr q, w1)"
    "submit_tokens env multifactor
             ((submit_of env (tk_accumulator env) epk ACCUMULATOR_VALUE bounce)\<lparr>st_cc := [tk_shell_ecc env \<mapsto> ucast amount]\<rparr>)
             k ''sell_shells transaction'' ''submit_transaction (sell_shells)'' w1 = (Inr result, w2)"
    "poll_queue env denom (qs_next_id q) w2 = (Inr q', w3)"
    "tk_sell_order_address env denom (qs_next_id q) w3 = (Inr addr, w')"
    and res: "sr_order_id res = qs_next_id q" "sr_sold res = (qs_next_id q \<le> qs_sold_prefix q')"
      "sr_position_in_queue res = (if qs_next_id q \<le> qs_sold_prefix q' then 0 else qs_next_id q - qs_sold_prefix q')"
    by (auto simp: sell_shells_def Let_def res_simps)
  have fetch: "silent log (io_map_err (with_context x) (tk_queue_state env denom))" for x
    by (rule emits_map_err) (use assms(1) in \<open>simp add: logs_tokens_def\<close>)
  have sleep: "log (mu_sleep_ms (tk_mf env) t v) = log v" for t v
    using assms(1) by (simp add: logs_tokens_def)
  have "silent log (poll_queue env denom (qs_next_id q))"
    unfolding poll_queue_def by (intro emits_map_err silent_poll fetch sleep)
  from emitsD [OF this run(4)] have l3: "log w3 = log w2" by simp
  have l1: "log w1 = log w" using assms(1) run(2) by (fastforce simp: logs_tokens_def dest: emitsD)
  have l4: "log w' = log w3" using assms(1) run(5) by (fastforce simp: logs_tokens_def dest: emitsD)
  have "log w2 = log w1 @ [MfWrite multifactor (SubmitTransaction
        ((submit_of env (tk_accumulator env) epk ACCUMULATOR_VALUE bounce)\<lparr>st_cc := [tk_shell_ecc env \<mapsto> ucast amount]\<rparr>)) k]"
    using emitsD [OF emits_submit [OF assms(1)] run(3)] by blast
  then have written: "log w' = log w @ [MfWrite multifactor (SubmitTransaction
        ((submit_of env (tk_accumulator env) epk ACCUMULATOR_VALUE bounce)\<lparr>st_cc := [tk_shell_ecc env \<mapsto> ucast amount]\<rparr>)) k]"
    by (simp only: l1 l3 l4)
  have "poll_until app_error_from_string (mu_sleep_ms (tk_mf env))
      (io_map_err (with_context ''sell_shells: poll getQueueState'') (tk_queue_state env denom))
      (\<lambda>state. qs_next_id state > qs_next_id q) (Some 30) (Some 500) w2 = (Inr q', w3)"
    using run(4) unfolding poll_queue_def io_map_err_eq_Inr .
  from poll_until_Inr [OF this] obtain v where v: "qs_next_id q < qs_next_id q'"
    and "io_map_err (with_context ''sell_shells: poll getQueueState'') (tk_queue_state env denom) v = (Inr q', w3)"
    by blast
  then have q': "tk_queue_state env denom v = (Inr q', w3)" by (simp only: io_map_err_eq_Inr)
  have "unat (sr_position_in_queue res) = unat (qs_next_id q) - unat (qs_sold_prefix q')"
    unfolding res by (auto simp: word_le_nat_alt unat_sub word_less_eq_iff_unsigned)
  with run(1,2) q' written res(1,2) v(1) show ?thesis by blast
qed

section \<open>A concrete market\<close>

text \<open>
  One queue of orders, named by their owners and numbered from one.  A rival's order is accepted just before
  the caller's.
\<close>

record market =
  mk_rivals :: "string list"
  mk_queue :: "string list"
  mk_log :: "token_write list"

definition market_call :: "string \<Rightarrow> mf_call \<Rightarrow> KeyPair \<Rightarrow> market \<Rightarrow> (AppError + ResultOfSendMessage) \<times> market" where
  "market_call a c k w =
     (Inr \<lparr> sm_message_hash = Some ''id'', sm_aborted = None, sm_exit_code = None \<rparr>,
      w\<lparr>mk_queue := mk_queue w @ mk_rivals w @ [a], mk_rivals := [], mk_log := mk_log w @ [MfWrite a c k]\<rparr>)"

definition market_mf :: "market mf_env" where
  "market_mf = \<lparr> mu_account = \<lparr> ac_is_deployed = (\<lambda>_ w. (True, w)), ac_data = (\<lambda>_ w. (Some [], w)), ac_decode = toy_decode,
                             ac_get_indexer = (\<lambda>_ w. (Inr [], w)), ac_indexer_details = (\<lambda>_ w. (Inr [], w)) \<rparr>,
     mu_keys = toy_keys, mu_sleep_ms = (\<lambda>_ w. w), mu_call = market_call,
     mu_get_epk_expire_at = (\<lambda>_ _ w. (Inr 9, w)), mu_mirror = (\<lambda>_. Inr (''0:mirror'', 1)),
     mu_mirror_get_miner = (\<lambda>_ _ w. (Inr ''0:miner'', w)), mu_deploy_miner_message = (\<lambda>_ w. (Inr [], w)),
     mu_set_owner_public_message = (\<lambda>_ _ _ w. (Inr [], w)), mu_remove_owner_public_message = (\<lambda>_ _ w. (Inr [], w)),
     mu_miner_owner_public = (\<lambda>_ w. (Inr Map.empty, w)), mu_is_deployed = (\<lambda>_ w. (True, w)),
     mu_wait_active = (\<lambda>_ _ _ w. (Inr (), w)), mu_post_tls = (\<lambda>_ _ _ w. (Inl [], w)) \<rparr>"

definition market_env :: "market token_env" where
  "market_env = \<lparr> tk_mf = market_mf,
     tk_default_tx = \<lparr> st_dest = [], st_epk_expire_at = 0, st_value = 0, st_cc = Map.empty, st_bounce = False, st_all_balance = False, st_payload = None \<rparr>,
     tk_accumulator = ''0:acc'', tk_exchange = ''0:1a1a'', tk_nackl_ecc = 1, tk_shell_ecc = 2, tk_usdc_ecc = 3, tk_usdc_factor = 1000000,
     tk_shell_amount_for_denom = (\<lambda>d. if d \<in> {1, 10, 100, 1000} then Some (ucast d * 100) else None),
     tk_is_valid_denom = (\<lambda>d. d \<in> {1, 10, 100, 1000}),
     tk_queue_state = (\<lambda>_ w. (Inr \<lparr> qs_next_id = word_of_nat (length (mk_queue w)) + 1, qs_sold_prefix = 0 \<rparr>, w)),
     tk_sell_order_address = (\<lambda>_ _ w. (Inr ''0:lot'', w)), tk_claim_for_order = (\<lambda>_ _ _ w. (Inr None, w)),
     tk_details = (\<lambda>w. (Inr (5000000, 1000000), w)), tk_nackl_info = (\<lambda>w. (Inr (2000000000, 0), w)),
     tk_wallet_address = (\<lambda>_ _ _ w. (Inr ''0:wallet'', w)),
     tk_deploy_transaction = (\<lambda>t _ v a k w. (Inr \<lparr> sm_message_hash = None, sm_aborted = None, sm_exit_code = None \<rparr>,
                                             w\<lparr>mk_log := mk_log w @ [TransferDeploy t v a k]\<rparr>)),
     tk_transaction_address = (\<lambda>_ _ _ _ w. (Inr ''0:tx'', w)), tk_wait_transaction = (\<lambda>_ _ w. (Inr (), w)),
     tk_get_popitgame = (\<lambda>_ w. (Inr ''0:game'', w)), tk_popitgame_ecc = (\<lambda>_ w. (Inr Map.empty, w)),
     tk_encode_withdraw = (\<lambda>_ _ _ w. (Inr [], w)), tk_random_mirror = (\<lambda>w. (0, w)) \<rparr>"

lemma market_sel:
  "tk_mf market_env = market_mf" "tk_queue_state market_env d w = (Inr \<lparr> qs_next_id = word_of_nat (length (mk_queue w)) + 1, qs_sold_prefix = 0 \<rparr>, w)"
  "tk_shell_amount_for_denom market_env 10 = Some 1000" "tk_sell_order_address market_env d i w = (Inr ''0:lot'', w)"
  "tk_wallet_address market_env r da a w = (Inr ''0:wallet'', w)" "tk_transaction_address market_env t da v a w = (Inr ''0:tx'', w)"
  "tk_wait_transaction market_env t da w = (Inr (), w)"
  "tk_deploy_transaction market_env t da v a k w = (Inr \<lparr> sm_message_hash = None, sm_aborted = None, sm_exit_code = None \<rparr>,
                                             w\<lparr>mk_log := mk_log w @ [TransferDeploy t v a k]\<rparr>)"
  "mu_call market_mf = market_call" "mu_sleep_ms market_mf ms w = w" "mu_get_epk_expire_at market_mf a p w = (Inr 9, w)"
  by (simp_all add: market_env_def market_mf_def)

lemma market_logs: "logs_tokens market_env mk_log"
  by (simp add: logs_tokens_def emits_def market_env_def) (simp add: market_mf_def market_call_def)

abbreviation me_keys :: KeyPair where "me_keys \<equiv> \<lparr> kp_public = ''aa'', kp_secret = ''bb'' \<rparr>"

definition market_request :: "string \<Rightarrow> SendTokensReq" where
  "market_request root = \<lparr> rq_multifactor_address = ''0:me'', rq_destination_address = ''0:you'', rq_token_root = root,
     rq_token_dapp = ''d'', rq_amount_raw = 7, rq_signer_keys = me_keys, rq_bounce = None \<rparr>"

lemmas market_run = submit_tokens_def mf_send_def wallet_ensure_tx_success_def epk_of_def io_then_def io_map_err_def io_lift_def Let_def


theorem buy_shells_writes_witness:
  "\<exists>r w' c. buy_shells market_env ''0:me'' 9 18446744073710 me_keys None \<lparr> mk_rivals = [], mk_queue = [], mk_log = [] \<rparr> = (r, w') \<and>
     mk_log w' = [MfWrite ''0:me'' (SubmitTransaction c) me_keys] \<and> st_cc c = [3 \<mapsto> 448384]"
proof -
  let ?w = "\<lparr> mk_rivals = [], mk_queue = [], mk_log = [] \<rparr>"
  obtain r w' where run: "buy_shells market_env ''0:me'' 9 18446744073710 me_keys None ?w = (r, w')" by fastforce
  from buy_shells_writes [OF market_logs this] obtain amount where
    a: "mk_log w' = [MfWrite ''0:me'' (SubmitTransaction
         ((submit_of market_env (tk_accumulator market_env) 9 ACCUMULATOR_VALUE None)\<lparr>st_cc := [tk_usdc_ecc market_env \<mapsto> amount]\<rparr>)) me_keys]"
    "unat amount = unat (18446744073710 :: u64) * unat (tk_usdc_factor market_env) mod 2 ^ 64"
    by auto
  have "unat amount = 448384" using a(2) by (simp add: market_env_def)
  then have "amount = 448384" by (simp add: word_unat_eq_iff)
  with a(1) run show ?thesis by (fastforce simp: market_env_def)
qed

text \<open>
  Further property.  A rival's order that is accepted between the reading of the queue and the sale takes the
  number that the sale reports: the order of that number belongs to the rival.
\<close>

theorem sell_shells_foreign_order:
  "\<exists>res w'. sell_shells market_env ''0:me'' 9 10 me_keys None \<lparr> mk_rivals = [''0:rival''], mk_queue = [''0:old''], mk_log = [] \<rparr> =
       (Inr res, w') \<and>
     sr_order_id res = 2 \<and> mk_queue w' ! 1 = ''0:rival'' \<and> mk_queue w' = [''0:old'', ''0:rival'', ''0:me'']"
  by (simp add: sell_shells_def poll_queue_def poll_until_def poll_loop.simps market_run market_sel market_call_def)

section \<open>The rate of redemption\<close>

lemma scaled_quotient:
  fixes n r s k :: nat
  assumes "0 < s" "0 < k"
  shows "n * (r * k div s) div k \<le> n * r div s" "n * r div s \<le> n * (r * k div s) div k + n div k + 1"
proof -
  let ?q = "r * k div s"
  have q: "?q * s \<le> r * k" "r * k < (?q + 1) * s"
    using assms(1) by (simp_all add: dividend_less_div_times)
  let ?x = "n * ?q div k"
  have "?x * k \<le> n * ?q" by simp
  then have "?x * k * s \<le> n * ?q * s" by simp
  also have "\<dots> \<le> n * (r * k)" using q(1) by (simp add: mult.assoc)
  finally have "(?x * s) * k \<le> (n * r) * k" by (simp add: ac_simps)
  then have "?x * s \<le> n * r" using assms(2) by simp
  then show "?x \<le> n * r div s" using assms(1) by (simp add: less_eq_div_iff_mult_less_eq)
  let ?p = "n * r div s"
  have "?p * s * k \<le> n * r * k" by simp
  also have "\<dots> = n * (r * k)" by (simp add: ac_simps)
  also have "\<dots> \<le> n * ((?q + 1) * s)" using q(2) by (intro mult_left_mono) auto
  finally have "(?p * k) * s \<le> (n * ?q + n) * s" by (simp add: algebra_simps)
  then have "?p * k \<le> n * ?q + n" using assms(1) by simp
  then have "?p \<le> (n * ?q + n) div k" using assms(2) by (simp add: less_eq_div_iff_mult_less_eq)
  also have "\<dots> \<le> ?x + n div k + 1"
    by (simp add: div_add1_eq [of "n * ?q" n k] assms(2) div_le_mono less_Suc_eq_le [symmetric])
       (metis add_less_mono assms(2) div_less_iff_less_mult less_mult_imp_div_less mod_less_divisor mult_2 numeral_2_eq_2 mult.commute)
  finally show "?p \<le> ?x + n div k + 1" .
qed



end
