(* ===== verification/Poseidon.thy ===== *)
theory Poseidon
  imports Errors
begin

text \<open>
  The Poseidon hash of \<open>bee_wallet/src/services/zkp/client_login_prepare.rs\<close> and
  \<open>client_login_complete.rs\<close>, written out twice in the sources, over \<open>BigUint\<close> as natural numbers, and its
  agreement with a reference definition.  The round constants and matrices are assets decoded when the program
  starts; they are the argument \<open>consts\<close>, with their dimensions as the predicate \<open>dims_ok\<close>.
\<close>

section \<open>Field arithmetic\<close>

definition bn254_field_modulus :: nat where
  "bn254_field_modulus = 21888242871839275222246405745257275088548364400416034343698204186575808495617"

definition mod_add :: "nat \<Rightarrow> nat \<Rightarrow> nat \<Rightarrow> nat" where
  "mod_add left right modulus = (left + right) mod modulus"

definition mod_pow5 :: "nat \<Rightarrow> nat \<Rightarrow> nat" where
  "mod_pow5 v modulus =
     (let v2 = (v * v) mod modulus; v4 = (v2 * v2) mod modulus in (v * v4) mod modulus)"

record poseidon_constants =
  pc_c :: "nat list"
  pc_m :: "nat list list"

section \<open>The hash of four inputs\<close>

definition POSEIDON_LITE_ARITY4_WIDTH :: nat where "POSEIDON_LITE_ARITY4_WIDTH = 5"
definition POSEIDON_LITE_FULL_ROUNDS :: nat where "POSEIDON_LITE_FULL_ROUNDS = 8"
definition POSEIDON_LITE_PARTIAL_ROUNDS_ARITY4 :: nat where "POSEIDON_LITE_PARTIAL_ROUNDS_ARITY4 = 60"
definition POSEIDON_LITE_ROUNDS_ARITY4 :: nat where
  "POSEIDON_LITE_ROUNDS_ARITY4 = POSEIDON_LITE_FULL_ROUNDS + POSEIDON_LITE_PARTIAL_ROUNDS_ARITY4"

definition mix_row :: "nat \<Rightarrow> nat list \<Rightarrow> nat list \<Rightarrow> nat" where
  "mix_row modulus row state = fold (\<lambda>(col, item) acc. mod_add acc ((col * item) mod modulus) modulus) (zip row state) 0"

definition poseidon_lite_mix :: "nat list \<Rightarrow> nat list list \<Rightarrow> nat \<Rightarrow> nat list" where
  "poseidon_lite_mix state matrix modulus = map (\<lambda>row. mix_row modulus row state) matrix"

definition prepare_step :: "poseidon_constants \<Rightarrow> nat \<Rightarrow> nat \<Rightarrow> nat list \<Rightarrow> nat list" where
  "prepare_step consts round y state =
     (let c_idx = round * POSEIDON_LITE_ARITY4_WIDTH + y;
          state = state[y := mod_add (state ! y) (pc_c consts ! c_idx) bn254_field_modulus];
          is_full_round = (round < POSEIDON_LITE_FULL_ROUNDS div 2 \<or>
                           round \<ge> POSEIDON_LITE_FULL_ROUNDS div 2 + POSEIDON_LITE_PARTIAL_ROUNDS_ARITY4)
      in if is_full_round \<or> y = 0 then state[y := mod_pow5 (state ! y) bn254_field_modulus] else state)"

definition prepare_round :: "poseidon_constants \<Rightarrow> nat \<Rightarrow> nat list \<Rightarrow> nat list" where
  "prepare_round consts round state =
     poseidon_lite_mix (fold (prepare_step consts round) [0..<POSEIDON_LITE_ARITY4_WIDTH] state) (pc_m consts) bn254_field_modulus"

definition poseidon_lite_hash_4 :: "poseidon_constants \<Rightarrow> nat list \<Rightarrow> AppError + nat" where
  "poseidon_lite_hash_4 consts inputs =
     (case fold (prepare_round consts) [0..<POSEIDON_LITE_ROUNDS_ARITY4] (0 # inputs) of
        x # _ \<Rightarrow> Inr x
      | [] \<Rightarrow> Inl (with_kind ''zk_login_prepare'' (app_error_new ''Poseidon-lite state is empty'')))"

section \<open>The hash of up to sixteen inputs\<close>

definition N_ROUNDS_F :: nat where "N_ROUNDS_F = 8"
definition N_ROUNDS_P :: "nat list" where
  "N_ROUNDS_P = [56, 57, 56, 60, 60, 63, 64, 63, 60, 66, 60, 65, 70, 60, 64, 68]"

definition mix_poseidon_state :: "nat list \<Rightarrow> nat list list \<Rightarrow> nat \<Rightarrow> nat list" where
  "mix_poseidon_state state matrix modulus =
     map (\<lambda>row. fold (\<lambda>(m, s) acc. (acc + ((m * s) mod modulus)) mod modulus) (zip row state) 0) matrix"

text \<open>Constants exist for the arities 1, 2, 4 and 5.\<close>

definition poseidon_constants_of :: "(nat \<Rightarrow> poseidon_constants) \<Rightarrow> nat \<Rightarrow> AppError + poseidon_constants" where
  "poseidon_constants_of assets arity =
     (if arity \<in> {1, 2, 4, 5} then Inr (assets arity)
      else Inl (with_kind ''zk_login_complete'' (app_error_new (''Unsupported poseidon-lite arity: '' @ show_nat arity))))"

definition complete_step :: "poseidon_constants \<Rightarrow> nat \<Rightarrow> nat \<Rightarrow> nat \<Rightarrow> nat \<Rightarrow> nat list \<Rightarrow> nat list" where
  "complete_step consts width n_rounds_p round y state =
     (let state = state[y := (state ! y + pc_c consts ! (round * width + y)) mod bn254_field_modulus];
          is_full_round = (round < N_ROUNDS_F div 2 \<or> round \<ge> N_ROUNDS_F div 2 + n_rounds_p)
      in if is_full_round \<or> y = 0 then state[y := mod_pow5 (state ! y) bn254_field_modulus] else state)"

definition complete_round :: "poseidon_constants \<Rightarrow> nat \<Rightarrow> nat \<Rightarrow> nat \<Rightarrow> nat list \<Rightarrow> nat list" where
  "complete_round consts width n_rounds_p round state =
     mix_poseidon_state (fold (complete_step consts width n_rounds_p round) [0..<width] state) (pc_m consts) bn254_field_modulus"

definition poseidon_lite_hash :: "(nat \<Rightarrow> poseidon_constants) \<Rightarrow> nat list \<Rightarrow> AppError + nat" where
  "poseidon_lite_hash assets inputs =
     (if inputs = [] \<or> length inputs > 16
      then Inl (with_kind ''zk_login_complete'' (app_error_new ''poseidon-lite: invalid input length''))
      else and_then (poseidon_constants_of assets (length inputs)) (\<lambda>consts.
        let width = length inputs + 1;
            n_rounds_p = N_ROUNDS_P ! (length inputs - 1);
            state = fold (complete_round consts width n_rounds_p) [0..<N_ROUNDS_F + n_rounds_p] (0 # inputs)
        in Inr (state ! 0)))"

section \<open>The reference\<close>

text \<open>
  A round adds its constants, raises every entry (in the outer rounds) or the first one to the fifth power,
  and multiplies by the matrix, all in the field.
\<close>

definition dims_ok :: "nat \<Rightarrow> nat \<Rightarrow> poseidon_constants \<Rightarrow> bool" where
  "dims_ok width rounds consts =
     (length (pc_c consts) = rounds * width \<and> length (pc_m consts) = width \<and> (\<forall>row \<in> set (pc_m consts). length row = width))"

definition sbox_entry :: "poseidon_constants \<Rightarrow> nat \<Rightarrow> nat \<Rightarrow> nat \<Rightarrow> nat list \<Rightarrow> nat \<Rightarrow> nat" where
  "sbox_entry consts width partial round s j =
     (let x = s ! j + pc_c consts ! (round * width + j)
      in if j = 0 \<or> round < 4 \<or> round \<ge> 4 + partial then x ^ 5 else x)"

definition ref_round :: "poseidon_constants \<Rightarrow> nat \<Rightarrow> nat \<Rightarrow> nat \<Rightarrow> nat list \<Rightarrow> nat list" where
  "ref_round consts width partial round s =
     map (\<lambda>i. (\<Sum>j<width. pc_m consts ! i ! j * sbox_entry consts width partial round s j) mod bn254_field_modulus) [0..<width]"

definition poseidon_ref :: "poseidon_constants \<Rightarrow> nat \<Rightarrow> nat list \<Rightarrow> nat" where
  "poseidon_ref consts partial inputs =
     hd (fold (ref_round consts (length inputs + 1) partial) [0..<8 + partial] (0 # inputs))"

lemma mod_pow5_eq: "mod_pow5 v m = v ^ 5 mod m"
proof -
  have "mod_pow5 v m = (v * (((v * v) mod m) * ((v * v) mod m))) mod m"
    unfolding mod_pow5_def Let_def by (rule mod_mult_right_eq)
  also have "\<dots> = (v * ((((v * v) mod m) * ((v * v) mod m)) mod m)) mod m"
    by (rule mod_mult_right_eq [symmetric])
  also have "(((v * v) mod m) * ((v * v) mod m)) mod m = ((v * v) * (v * v)) mod m" by (rule mod_mult_eq)
  also have "(v * (((v * v) * (v * v)) mod m)) mod m = (v * ((v * v) * (v * v))) mod m" by (rule mod_mult_right_eq)
  also have "v * ((v * v) * (v * v)) = v ^ 5" by (simp add: numeral_eq_Suc)
  finally show ?thesis .
qed

lemma fold_mix_acc:
  "fold (\<lambda>(col, item) acc. (acc + ((col * item) mod m)) mod m) xs a mod m = (a + (\<Sum>(c, i)\<leftarrow>xs. c * i)) mod (m::nat)"
proof (induction xs arbitrary: a)
  case (Cons x xs)
  obtain c i where x: "x = (c, i)" by fastforce
  have "((a + (c * i) mod m) mod m + (\<Sum>(c, i)\<leftarrow>xs. c * i)) mod m = (a + c * i + (\<Sum>(c, i)\<leftarrow>xs. c * i)) mod m"
    unfolding mod_add_right_eq [of a "c * i" m] by (rule mod_add_left_eq)
  then show ?case by (simp add: x Cons.IH add.assoc)
qed simp

lemma fold_mix_less: "0 < m \<Longrightarrow> a < m \<Longrightarrow> fold (\<lambda>(col, item) acc. (acc + ((col * item) mod m)) mod (m::nat)) xs a < m"
  by (induction xs arbitrary: a) auto

lemma fold_mix:
  assumes "0 < m" "length row = length state"
  shows "fold (\<lambda>(col, item) acc. (acc + ((col * item) mod m)) mod m) (zip row state) 0 =
         (\<Sum>j<length row. row ! j * state ! j) mod (m::nat)"
proof -
  have "(\<Sum>(c, i)\<leftarrow>zip row state. c * i) = (\<Sum>j<length row. row ! j * state ! j)"
    using assms(2) by (simp add: sum_list_sum_nth atLeast0LessThan)
  with fold_mix_acc [of m "zip row state" 0] fold_mix_less [OF assms(1), of 0 "zip row state"] assms(1)
  show ?thesis by simp
qed

text \<open>The loop over the entries changes each of them once.\<close>

lemma fold_complete_steps:
  assumes "k \<le> width" "length s = width"
  shows "fold (complete_step consts width partial round) [0..<k] s =
     map (\<lambda>j. if j < k then sbox_entry consts width partial round s j mod bn254_field_modulus else s ! j) [0..<width]"
  using assms(1)
proof (induction k)
  case 0
  then show ?case using assms(2) map_nth [of s] by simp
next
  case (Suc k)
  have "complete_step consts width partial round k
      (map (\<lambda>j. if j < k then sbox_entry consts width partial round s j mod bn254_field_modulus else s ! j) [0..<width]) =
      map (\<lambda>j. if j < Suc k then sbox_entry consts width partial round s j mod bn254_field_modulus else s ! j) [0..<width]"
    using Suc.prems
    by (intro nth_equalityI)
       (auto simp: complete_step_def Let_def nth_list_update mod_pow5_eq power_mod sbox_entry_def N_ROUNDS_F_def less_Suc_eq)
  with Suc show ?case by simp
qed

lemma complete_round_ref:
  assumes "dims_ok width rounds consts" "length s = width"
  shows "complete_round consts width partial round s = ref_round consts width partial round s"
proof -
  have p: "0 < bn254_field_modulus" by (simp add: bn254_field_modulus_def)
  have "fold (\<lambda>(m, s) acc. (acc + ((m * s) mod bn254_field_modulus)) mod bn254_field_modulus)
      (zip (pc_m consts ! i) (map (\<lambda>j. sbox_entry consts width partial round s j mod bn254_field_modulus) [0..<width])) 0 =
      (\<Sum>j<width. pc_m consts ! i ! j * sbox_entry consts width partial round s j) mod bn254_field_modulus"
    if "i < width" for i
  proof -
    have l: "length (pc_m consts ! i) = width" using assms(1) that by (simp add: dims_ok_def)
    have "(\<Sum>j<width. pc_m consts ! i ! j * (sbox_entry consts width partial round s j mod bn254_field_modulus)) mod bn254_field_modulus =
        (\<Sum>j<width. pc_m consts ! i ! j * sbox_entry consts width partial round s j) mod bn254_field_modulus"
      by (subst (1 2) mod_sum_eq [symmetric]) (simp add: mod_simps)
    with fold_mix [OF p] l show ?thesis by simp
  qed
  moreover have "fold (complete_step consts width partial round) [0..<width] s =
      map (\<lambda>j. sbox_entry consts width partial round s j mod bn254_field_modulus) [0..<width]"
    unfolding fold_complete_steps [OF order_refl assms(2)] by (rule map_cong) simp_all
  ultimately show ?thesis
    using assms(1)
    by (intro nth_equalityI) (simp_all add: complete_round_def ref_round_def mix_poseidon_state_def dims_ok_def)
qed

lemma length_ref_round [simp]: "length (ref_round consts width partial round s) = width"
  by (simp add: ref_round_def)

lemma fold_rounds_ref:
  assumes "dims_ok width rounds consts" "length s = width"
  shows "fold (complete_round consts width partial) rs s = fold (ref_round consts width partial) rs s \<and>
         length (fold (ref_round consts width partial) rs s) = width"
  using assms(2) by (induction rs arbitrary: s) (simp_all add: complete_round_ref [OF assms(1)])

lemma poseidon_lite_hash_cases:
  assumes "\<And>n. n \<in> {1, 2, 4, 5} \<Longrightarrow> dims_ok (n + 1) (8 + N_ROUNDS_P ! (n - 1)) (assets n)"
  shows "if length inputs \<in> {1, 2, 4, 5}
         then poseidon_lite_hash assets inputs =
                Inr (poseidon_ref (assets (length inputs)) (N_ROUNDS_P ! (length inputs - 1)) inputs) \<and>
              poseidon_ref (assets (length inputs)) (N_ROUNDS_P ! (length inputs - 1)) inputs < bn254_field_modulus
         else isl (poseidon_lite_hash assets inputs)"
proof (cases "length inputs \<in> {1, 2, 4, 5}")
  case True
  let ?n = "length inputs"
  let ?P = "N_ROUNDS_P ! (?n - 1)"
  note fold = fold_rounds_ref [OF assms [OF True], of "0 # inputs" ?P "[0..<8 + ?P]"]
  have "[0..<8 + ?P] = [0..<7 + ?P] @ [7 + ?P]" by (simp add: numeral_eq_Suc)
  then have "hd (fold (ref_round (assets ?n) (?n + 1) ?P) [0..<8 + ?P] (0 # inputs)) < bn254_field_modulus"
    by (simp only: fold_append) (simp add: ref_round_def hd_map bn254_field_modulus_def del: upt_Suc)
  moreover have "poseidon_lite_hash assets inputs = Inr (fold (complete_round (assets ?n) (?n + 1) ?P) [0..<8 + ?P] (0 # inputs) ! 0)"
    using True by (auto simp: poseidon_lite_hash_def poseidon_constants_of_def Let_def N_ROUNDS_F_def simp del: fold_append upt_Suc)
  moreover have "hd xs = xs ! 0" if "length xs = ?n + 1" for xs :: "nat list"
    using that by (cases xs) auto
  ultimately show ?thesis
    using fold True by (simp only: poseidon_ref_def if_True length_Cons Suc_eq_plus1)
next
  case False
  then show ?thesis by (simp add: poseidon_lite_hash_def poseidon_constants_of_def)
qed

text \<open>
  Property C23.  The hash of one, two, four or five inputs is the reference Poseidon hash with the
  rounds of its arity and lies in the field; every other number of inputs is an error.
\<close>

theorem poseidon_lite_hash_ref:
  assumes "\<And>n. n \<in> {1, 2, 4, 5} \<Longrightarrow> dims_ok (n + 1) (8 + N_ROUNDS_P ! (n - 1)) (assets n)"
  shows "if length inputs \<in> {1, 2, 4, 5}
         then poseidon_lite_hash assets inputs =
                Inr (poseidon_ref (assets (length inputs)) (N_ROUNDS_P ! (length inputs - 1)) inputs) \<and>
              poseidon_ref (assets (length inputs)) (N_ROUNDS_P ! (length inputs - 1)) inputs < bn254_field_modulus
         else isl (poseidon_lite_hash assets inputs)"
  using assms by (rule poseidon_lite_hash_cases)

lemma hash_4_agrees:
  assumes "length inputs = 4" "dims_ok 5 68 (assets 4)"
  shows "poseidon_lite_hash assets inputs = poseidon_lite_hash_4 (assets 4) inputs"
proof -
  have step: "prepare_step (assets 4) = complete_step (assets 4) 5 60"
    by (intro ext) (simp add: prepare_step_def complete_step_def Let_def mod_add_def POSEIDON_LITE_ARITY4_WIDTH_def
        POSEIDON_LITE_FULL_ROUNDS_def POSEIDON_LITE_PARTIAL_ROUNDS_ARITY4_def N_ROUNDS_F_def)
  have round: "prepare_round (assets 4) = complete_round (assets 4) 5 60"
    by (intro ext) (simp add: prepare_round_def complete_round_def step poseidon_lite_mix_def mix_row_def mix_poseidon_state_def
        mod_add_def POSEIDON_LITE_ARITY4_WIDTH_def)
  have "length (fold (complete_round (assets 4) 5 60) [0..<68] (0 # inputs)) = 5"
    using fold_rounds_ref [OF assms(2), of "0 # inputs" 60 "[0..<68]"] assms(1) by simp
  moreover have "poseidon_lite_hash assets inputs = Inr (fold (complete_round (assets 4) 5 60) [0..<68] (0 # inputs) ! 0)"
    using assms(1) by (auto simp: poseidon_lite_hash_def poseidon_constants_of_def Let_def N_ROUNDS_F_def N_ROUNDS_P_def simp del: upt_Suc)
  ultimately show ?thesis
    by (auto simp: poseidon_lite_hash_4_def round POSEIDON_LITE_ROUNDS_ARITY4_def POSEIDON_LITE_FULL_ROUNDS_def
        POSEIDON_LITE_PARTIAL_ROUNDS_ARITY4_def simp del: upt_Suc split: list.splits)
qed

text \<open>
  Property C24.  The two implementations of the hash agree on four inputs.
\<close>

theorem poseidon_implementations_agree:
  assumes "length inputs = 4" "dims_ok 5 68 (assets 4)"
  shows "poseidon_lite_hash assets inputs = poseidon_lite_hash_4 (assets 4) inputs"
  using assms by (rule hash_4_agrees)

definition toy_assets :: "nat \<Rightarrow> poseidon_constants" where
  "toy_assets n = \<lparr> pc_c = replicate ((8 + N_ROUNDS_P ! (n - 1)) * (n + 1)) 1, pc_m = replicate (n + 1) (replicate (n + 1) 2) \<rparr>"

lemma toy_assets_ok: "dims_ok (n + 1) (8 + N_ROUNDS_P ! (n - 1)) (toy_assets n)"
  by (simp add: dims_ok_def toy_assets_def)

theorem poseidon_lite_hash_ref_witness:
  "(\<exists>x. poseidon_lite_hash toy_assets [3, 4] = Inr x \<and> x < bn254_field_modulus) \<and> isl (poseidon_lite_hash toy_assets [3, 4, 5])"
  using poseidon_lite_hash_ref [OF toy_assets_ok, of "[3, 4]"] poseidon_lite_hash_ref [OF toy_assets_ok, of "[3, 4, 5]"] by simp

theorem poseidon_implementations_agree_witness:
  "poseidon_lite_hash toy_assets [1, 2, 3, 4] = poseidon_lite_hash_4 (toy_assets 4) [1, 2, 3, 4]"
proof -
  have "dims_ok 5 68 (toy_assets 4)" using toy_assets_ok [of 4] by (simp add: N_ROUNDS_P_def)
  from poseidon_implementations_agree [of "[1, 2, 3, 4]" toy_assets] this show ?thesis by simp
qed

end
