(* ===== verification/ZkLogin.thy ===== *)
theory ZkLogin
  imports Poseidon WalletInfra
begin

text \<open>
  \<open>bee_wallet/src/services/zkp/client_login_prepare.rs\<close> and \<open>client_login_complete.rs\<close>: the preparation of a
  login, the identity and the payload for the prover, and the compression of the proof it returns.
  bech32, Ed25519, base64, serde, the decimal reader of big numbers and the HTTP client are
  fields of \<open>zk_env\<close>.  The outcome \<open>None\<close> is a panic.
\<close>

section \<open>Environment\<close>

record ProverPayload =
  pp_jwt :: string
  pp_max_epoch :: u64
  pp_jwt_randomness :: string
  pp_extended_ephemeral_public_key :: string
  pp_salt :: string
  pp_key_claim_name :: string

record IssBase64Details =
  is_value :: string
  is_index_mod4 :: u8

text \<open>The points of a proof: three coordinates of \<open>a\<close> and \<open>c\<close>, three pairs for \<open>b\<close>.\<close>

record ProofPoints =
  pt_a :: "string \<times> string \<times> string"
  pt_b :: "(string \<times> string) \<times> (string \<times> string) \<times> (string \<times> string)"
  pt_c :: "string \<times> string \<times> string"

record ZkProof =
  zp_proof_points :: ProofPoints
  zp_iss_base64_details :: IssBase64Details
  zp_header_base64 :: string

record prover_response =
  pv_success :: bool
  pv_status :: nat
  pv_text :: "string option"
  pv_json :: "ZkProof result"

record zk_env =
  ze_parse_dec :: "string \<Rightarrow> nat option"
  ze_bech32_encode :: "string \<Rightarrow> nat list \<Rightarrow> string result"
  ze_bech32_decode :: "string \<Rightarrow> (string \<times> nat list) result"
  ze_to_base32 :: "byte list \<Rightarrow> nat list"
  ze_from_base32 :: "nat list \<Rightarrow> byte list result"
  ze_ed25519_public :: "byte list \<Rightarrow> byte list"
  ze_b64url_encode :: "byte list \<Rightarrow> string"
  ze_b64url_decode :: "string \<Rightarrow> byte list result"
  ze_b64_encode :: "byte list \<Rightarrow> string"
  ze_payload_text :: "ProverPayload \<Rightarrow> string result"
  ze_assets :: "nat \<Rightarrow> poseidon_constants"

section \<open>Numbers as bytes and text\<close>

fun to_bytes_be :: "nat \<Rightarrow> byte list" where
  "to_bytes_be n = (if n < 256 then [word_of_nat n] else to_bytes_be (n div 256) @ [word_of_nat n])"

declare to_bytes_be.simps [simp del]

definition to_big_endian_fixed_len :: "nat \<Rightarrow> nat \<Rightarrow> byte list" where
  "to_big_endian_fixed_len value len =
     (let bytes = to_bytes_be value
      in if length bytes > len then drop (length bytes - len) bytes
         else if length bytes < len then replicate (len - length bytes) 0 @ bytes
         else bytes)"

definition zk_error :: "string \<Rightarrow> string \<Rightarrow> AppError" where
  "zk_error kind message = with_kind kind (app_error_new message)"

definition parse_biguint_decimal :: "zk_env \<Rightarrow> string \<Rightarrow> string \<Rightarrow> AppError + nat" where
  "parse_biguint_decimal env kind value =
     ok_or (zk_error kind (''Invalid decimal bigint: '' @ value)) (ze_parse_dec env value)"

section \<open>Preparation\<close>

definition SUI_PRIVATE_KEY_PREFIX :: string where "SUI_PRIVATE_KEY_PREFIX = ''suiprivkey''"
definition SUI_ED25519_FLAG :: byte where "SUI_ED25519_FLAG = 0"
definition ZK_LOGIN_TEMP_TTL_DAYS :: u64 where "ZK_LOGIN_TEMP_TTL_DAYS = 179"
definition MILLIS_IN_SECOND :: u64 where "MILLIS_IN_SECOND = 1000"
definition MILLIS_IN_DAY :: u64 where "MILLIS_IN_DAY = 24 * 60 * 60 * MILLIS_IN_SECOND"
definition NONCE_BYTES_LEN :: nat where "NONCE_BYTES_LEN = 20"
definition NONCE_LEN_B64URL_NO_PAD :: nat where "NONCE_LEN_B64URL_NO_PAD = 27"

record ZkLoginPrepareResult =
  zr_nonce :: string
  zr_max_epoch :: u64
  zr_randomness :: string
  zr_ephemeral_private_key :: string

definition encode_sui_private_key_ed25519 :: "zk_env \<Rightarrow> byte list \<Rightarrow> AppError + string" where
  "encode_sui_private_key_ed25519 env seed =
     map_err (\<lambda>e. app_error_new (''Encode suiprivkey bech32 ('' @ e @ '')''))
       (ze_bech32_encode env SUI_PRIVATE_KEY_PREFIX (ze_to_base32 env (SUI_ED25519_FLAG # seed)))"

definition decode_sui_bytes :: "zk_env \<Rightarrow> string \<Rightarrow> AppError + byte list" where
  "decode_sui_bytes env value =
     and_then (map_err (\<lambda>e. app_error_new (''Decode suiprivkey bech32 ('' @ e @ '')'')) (ze_bech32_decode env value)) (\<lambda>(pfx, words).
     if pfx \<noteq> SUI_PRIVATE_KEY_PREFIX then Inl (app_error_new (''Invalid suiprivkey prefix: '' @ pfx))
     else map_err (\<lambda>e. app_error_new (''Decode suiprivkey words ('' @ e @ '')'')) (ze_from_base32 env words))"

definition decode_sui_private_key_ed25519 :: "zk_env \<Rightarrow> string \<Rightarrow> AppError + byte list" where
  "decode_sui_private_key_ed25519 env value =
     and_then (decode_sui_bytes env value) (\<lambda>bytes.
     if length bytes \<noteq> 33
     then Inl (app_error_new (''Invalid suiprivkey length: expected 33 bytes, got '' @ show_nat (length bytes)))
     else if hd bytes \<noteq> SUI_ED25519_FLAG
     then Inl (app_error_new (''Invalid suiprivkey scheme flag: expected '' @ show_u SUI_ED25519_FLAG @ '', got '' @ show_u (hd bytes)))
     else Inr (tl bytes))"

definition build_zk_login_nonce :: "zk_env \<Rightarrow> byte list \<Rightarrow> u64 \<Rightarrow> string \<Rightarrow> AppError + string" where
  "build_zk_login_nonce env sui_public_key_bytes max_epoch randomness =
     (let public_key_as_bigint = be_nat sui_public_key_bytes;
          split_base = 2 ^ 128;
          eph_public_key_0 = public_key_as_bigint div split_base;
          eph_public_key_1 = public_key_as_bigint mod split_base
      in and_then (parse_biguint_decimal env ''zk_login_prepare'' randomness) (\<lambda>r.
         and_then (poseidon_lite_hash_4 (ze_assets env 4) [eph_public_key_0, eph_public_key_1, unat max_epoch, r]) (\<lambda>hash.
         let nonce = ze_b64url_encode env (to_big_endian_fixed_len hash NONCE_BYTES_LEN)
         in if length nonce \<noteq> NONCE_LEN_B64URL_NO_PAD
            then Inl (zk_error ''zk_login_prepare'' (''Invalid nonce length '' @ show_nat (length nonce) @ '' (expected '' @
                   show_nat NONCE_LEN_B64URL_NO_PAD @ '')''))
            else Inr nonce)))"

definition prepare_zk_login_with_inputs :: "zk_env \<Rightarrow> u64 \<Rightarrow> string \<Rightarrow> string \<Rightarrow> AppError + ZkLoginPrepareResult" where
  "prepare_zk_login_with_inputs env max_epoch randomness private_key_sui_bech32 =
     and_then (decode_sui_private_key_ed25519 env private_key_sui_bech32) (\<lambda>seed.
     let sui_public_key_bytes = SUI_ED25519_FLAG # ze_ed25519_public env seed
     in and_then (build_zk_login_nonce env sui_public_key_bytes max_epoch randomness) (\<lambda>nonce.
        if isl (ze_b64url_decode env nonce)
        then Inl (zk_error ''zk_login_prepare'' ''Generated nonce is not valid base64url-no-pad'')
        else Inr \<lparr> zr_nonce = nonce, zr_max_epoch = max_epoch, zr_randomness = randomness,
                   zr_ephemeral_private_key = private_key_sui_bech32 \<rparr>))"

text \<open>The random seed and the random bytes are arguments.\<close>

definition prepare_zk_login_with_now_ms :: "zk_env \<Rightarrow> u64 \<Rightarrow> byte list \<Rightarrow> byte list \<Rightarrow> AppError + ZkLoginPrepareResult" where
  "prepare_zk_login_with_now_ms env now_ms seed randomness_bytes =
     (let randomness = show_nat (be_nat randomness_bytes);
          max_epoch = (now_ms + ZK_LOGIN_TEMP_TTL_DAYS * MILLIS_IN_DAY) div MILLIS_IN_SECOND
      in and_then (encode_sui_private_key_ed25519 env seed) (\<lambda>key.
         prepare_zk_login_with_inputs env max_epoch randomness key))"

end
