(* ===== verification/ZkComplete.thy ===== *)
theory ZkComplete
  imports ZkLogin
begin

text \<open>
  \<open>bee_wallet/src/services/zkp/client_login_complete.rs\<close>: the identity of a login, the payload for the prover,
  the compressed proof and the milestones of the run.  Texts are UTF-8 bytes, except the password, which is
  its list of characters.  The outcome \<open>None\<close> is a panic.
\<close>

unbundle bit_operations_syntax

section \<open>The identity\<close>

definition MAX_KEY_CLAIM_NAME_LENGTH :: nat where "MAX_KEY_CLAIM_NAME_LENGTH = 32"
definition MAX_KEY_CLAIM_VALUE_LENGTH :: nat where "MAX_KEY_CLAIM_VALUE_LENGTH = 115"
definition MAX_AUD_VALUE_LENGTH :: nat where "MAX_AUD_VALUE_LENGTH = 145"
definition PACK_WIDTH :: nat where "PACK_WIDTH = 248"

definition format_pwd_to_int :: "nat list \<Rightarrow> string" where
  "format_pwd_to_int password = concat (map show_nat password)"

fun chunk_rest :: "nat \<Rightarrow> byte list \<Rightarrow> byte list list" where
  "chunk_rest chunk_size bytes =
     (if bytes = [] \<or> chunk_size = 0 then []
      else take chunk_size bytes # chunk_rest chunk_size (drop chunk_size bytes))"

declare chunk_rest.simps [simp del]

definition chunk_array_first_shorter :: "byte list \<Rightarrow> nat \<Rightarrow> byte list list" where
  "chunk_array_first_shorter bytes chunk_size =
     (if bytes = [] then []
      else let rem = length bytes mod chunk_size;
               first = (if rem = 0 then chunk_size else rem)
           in take first bytes # chunk_rest chunk_size (drop first bytes))"

definition hash_ascii_str_to_field :: "zk_env \<Rightarrow> string \<Rightarrow> nat \<Rightarrow> AppError + nat" where
  "hash_ascii_str_to_field env value max_size =
     (if length value > max_size
      then Inl (zk_error ''zk_login_complete'' (''String is longer than '' @ show_nat max_size @ '' chars''))
      else let bytes = as_bytes value @ replicate (max_size - length value) 0;
               chunk_size = PACK_WIDTH div 8;
               packed = map be_nat (chunk_array_first_shorter bytes chunk_size)
           in poseidon_lite_hash (ze_assets env) packed)"

definition gen_address_seed :: "zk_env \<Rightarrow> nat \<Rightarrow> string \<Rightarrow> string \<Rightarrow> string \<Rightarrow> AppError + nat" where
  "gen_address_seed env salt name value aud =
     and_then (hash_ascii_str_to_field env name MAX_KEY_CLAIM_NAME_LENGTH) (\<lambda>n.
     and_then (hash_ascii_str_to_field env value MAX_KEY_CLAIM_VALUE_LENGTH) (\<lambda>v.
     and_then (hash_ascii_str_to_field env aud MAX_AUD_VALUE_LENGTH) (\<lambda>a.
     and_then (poseidon_lite_hash (ze_assets env) [salt]) (\<lambda>s.
     poseidon_lite_hash (ze_assets env) [n, v, a, s]))))"

section \<open>The payload for the prover\<close>

record ZkLoginTempData =
  td_max_epoch :: u64
  td_randomness :: string
  td_ephemeral_private_key :: string

record ZkLoginCompleteLocalPrepareParams =
  cl_saved_data :: ZkLoginTempData
  cl_jwt :: string
  cl_jwt_sub :: string
  cl_jwt_aud :: string
  cl_user_password :: "nat list"

record ZkLoginCompleteLocalPrepareResult =
  cr_zkid :: string
  cr_payload :: string
  cr_max_epoch :: u64
  cr_ephemeral_private_key :: string
  cr_extended_ephemeral_public_key :: string
  cr_ephemeral_public_key_in_hex :: string
  cr_ephemeral_secret_key_in_hex :: string

definition complete_decode_sui_private_key :: "zk_env \<Rightarrow> string \<Rightarrow> AppError + byte list" where
  "complete_decode_sui_private_key env value =
     and_then (decode_sui_bytes env value) (\<lambda>bytes.
     if length bytes \<noteq> 33 \<or> hd bytes \<noteq> SUI_ED25519_FLAG then Inl (app_error_new ''Invalid suiprivkey payload'')
     else Inr (tl bytes))"

definition zk_login_complete_local_prepare ::
  "zk_env \<Rightarrow> ZkLoginCompleteLocalPrepareParams \<Rightarrow> AppError + ZkLoginCompleteLocalPrepareResult" where
  "zk_login_complete_local_prepare env params =
     (let user_salt_dec = format_pwd_to_int (cl_user_password params)
      in and_then (parse_biguint_decimal env ''zk_login_complete'' user_salt_dec) (\<lambda>user_salt.
         and_then (gen_address_seed env user_salt ''sub'' (cl_jwt_sub params) (cl_jwt_aud params)) (\<lambda>address_seed.
         let zkid = show_nat address_seed
         in and_then (complete_decode_sui_private_key env (td_ephemeral_private_key (cl_saved_data params))) (\<lambda>seed.
         let public_key_raw = ze_ed25519_public env seed;
             extended_ephemeral_public_key = ze_b64_encode env (SUI_ED25519_FLAG # public_key_raw)
         in and_then (map_err (\<lambda>e. zk_error ''zk_login_complete'' (''Serialize prover payload ('' @ e @ '')''))
              (ze_payload_text env
                 \<lparr> pp_jwt = cl_jwt params, pp_max_epoch = td_max_epoch (cl_saved_data params),
                   pp_jwt_randomness = td_randomness (cl_saved_data params),
                   pp_extended_ephemeral_public_key = extended_ephemeral_public_key,
                   pp_salt = user_salt_dec, pp_key_claim_name = ''sub'' \<rparr>)) (\<lambda>payload.
         Inr \<lparr> cr_zkid = zkid, cr_payload = payload, cr_max_epoch = td_max_epoch (cl_saved_data params),
               cr_ephemeral_private_key = td_ephemeral_private_key (cl_saved_data params),
               cr_extended_ephemeral_public_key = extended_ephemeral_public_key,
               cr_ephemeral_public_key_in_hex = hex_enc public_key_raw,
               cr_ephemeral_secret_key_in_hex = hex_enc seed \<rparr>)))))"

section \<open>The compressed proof\<close>

definition zkp_curve_p :: nat where
  "zkp_curve_p = 21888242871839275222246405745257275088696311157297823662689037894645226208583"

text \<open>The difference of big numbers panics when it is negative.\<close>

definition prepare_hex_representation :: "zk_env \<Rightarrow> string \<Rightarrow> nat \<Rightarrow> (AppError + string) option" where
  "prepare_hex_representation env init_x y =
     (case parse_biguint_decimal env ''zk_login_complete'' init_x of
        Inl e \<Rightarrow> Some (Inl e)
      | Inr x \<Rightarrow>
          let bytes = to_big_endian_fixed_len x 32
          in if y > zkp_curve_p then None
             else let bytes = (if y > zkp_curve_p - y then bytes[0 := (bytes ! 0) OR 0x80]
                               else bytes[0 := (bytes ! 0) AND 0x7f])
                  in Some (Inr (hex_enc (rev bytes))))"

definition panic_then :: "('e + 'a) option \<Rightarrow> ('a \<Rightarrow> ('e + 'b) option) \<Rightarrow> ('e + 'b) option" where
  "panic_then m f = (case m of None \<Rightarrow> None | Some (Inl e) \<Rightarrow> Some (Inl e) | Some (Inr x) \<Rightarrow> f x)"

definition prepare_compressed_proof :: "zk_env \<Rightarrow> ZkProof \<Rightarrow> (AppError + string) option" where
  "prepare_compressed_proof env proof =
     (case (pt_a (zp_proof_points proof), pt_b (zp_proof_points proof), pt_c (zp_proof_points proof)) of
        ((a_x, a_y_text, _), ((b0_x, b1_x), (_, b1_y_text), _), (c_x, c_y_text, _)) \<Rightarrow>
          panic_then (Some (parse_biguint_decimal env ''zk_login_complete'' a_y_text)) (\<lambda>a_y.
          panic_then (Some (parse_biguint_decimal env ''zk_login_complete'' b1_y_text)) (\<lambda>b1_y.
          panic_then (Some (parse_biguint_decimal env ''zk_login_complete'' c_y_text)) (\<lambda>c_y.
          panic_then (prepare_hex_representation env a_x a_y) (\<lambda>hex_ax.
          panic_then (prepare_hex_representation env b0_x 0) (\<lambda>hex_b0x.
          panic_then (prepare_hex_representation env b1_x b1_y) (\<lambda>hex_b1x.
          panic_then (prepare_hex_representation env c_x c_y) (\<lambda>hex_cx.
          Some (Inr (hex_ax @ hex_b0x @ hex_b1x @ hex_cx))))))))))"

definition zk_login_complete_local_finalize :: "zk_env \<Rightarrow> ZkProof \<Rightarrow> (AppError + string) option" where
  "zk_login_complete_local_finalize env zk_proofs = prepare_compressed_proof env zk_proofs"

section \<open>The run with the prover\<close>

record ZkLoginCompleteWithProverParams = ZkLoginCompleteLocalPrepareParams +
  cl_prover_url :: string

record ZkLoginCompleteWithProverResult =
  cw_zkid :: string
  cw_max_epoch :: u64
  cw_ephemeral_private_key :: string
  cw_zk_proof_compressed :: string
  cw_iss_base64_details :: IssBase64Details
  cw_header_base64 :: string
  cw_ephemeral_public_key_in_hex :: string
  cw_ephemeral_secret_key_in_hex :: string

record 'w prover_net =
  pn_client :: "('w, string, unit) io"
  pn_post :: "string \<Rightarrow> string \<Rightarrow> ('w, string, prover_response) io"

text \<open>The native client.  Its timeouts are errors of the post.\<close>

definition fetch_zk_proofs :: "'w prover_net \<Rightarrow> string \<Rightarrow> string \<Rightarrow> ('w, AppError, ZkProof) io" where
  "fetch_zk_proofs net payload prover_url =
     io_then (io_map_err (\<lambda>e. zk_error ''zk_login_complete'' (''Build prover client ('' @ e @ '')'')) (pn_client net)) (\<lambda>_.
     io_then (io_map_err (\<lambda>e. zk_error ''zk_login_complete'' (''Fetch zk proofs ('' @ e @ '')'')) (pn_post net prover_url payload)) (\<lambda>response.
     if \<not> pv_success response
     then let body = (case pv_text response of Some t \<Rightarrow> t | None \<Rightarrow> ''<failed to read body>'')
          in io_lift (Inl (zk_error ''zk_login_complete'' (''HTTP error '' @ show_nat (pv_status response) @ '': '' @ body)))
     else io_lift (map_err (\<lambda>e. zk_error ''zk_login_complete'' (''Parse zk proofs response ('' @ e @ '')'')) (pv_json response))))"

definition complete_with_prover_steps ::
  "zk_env \<Rightarrow> ZkLoginCompleteWithProverParams \<Rightarrow> (ProgressEvent \<Rightarrow> 'w \<Rightarrow> 'w) option \<Rightarrow> (string \<Rightarrow> string \<Rightarrow> ('w, AppError, ZkProof) io) \<Rightarrow>
   'w \<Rightarrow> (AppError + ZkLoginCompleteWithProverResult) option \<times> 'w" where
  "complete_with_prover_steps env params progress fetch w =
     (case zk_login_complete_local_prepare env (ZkLoginCompleteLocalPrepareParams.truncate params) of
        Inl e \<Rightarrow> (Some (Inl e), w)
      | Inr local_prepared \<Rightarrow>
          let w = emit progress (progress_event ''prove'' ''prepared'') w;
              w = emit progress (progress_event ''prove'' ''proving'') w
          in (case fetch (cr_payload local_prepared) (cl_prover_url params) w of
                (Inl e, w) \<Rightarrow> (Some (Inl e), w)
              | (Inr zk_proofs, w) \<Rightarrow>
                  let w = emit progress (progress_event ''prove'' ''proof_received'') w
                  in (case zk_login_complete_local_finalize env zk_proofs of
                        None \<Rightarrow> (None, w)
                      | Some (Inl e) \<Rightarrow> (Some (Inl e), w)
                      | Some (Inr finalized) \<Rightarrow>
                          (Some (Inr
                             \<lparr> cw_zkid = cr_zkid local_prepared, cw_max_epoch = cr_max_epoch local_prepared,
                               cw_ephemeral_private_key = cr_ephemeral_private_key local_prepared,
                               cw_zk_proof_compressed = finalized,
                               cw_iss_base64_details = zp_iss_base64_details zk_proofs,
                               cw_header_base64 = zp_header_base64 zk_proofs,
                               cw_ephemeral_public_key_in_hex = cr_ephemeral_public_key_in_hex local_prepared,
                               cw_ephemeral_secret_key_in_hex = cr_ephemeral_secret_key_in_hex local_prepared \<rparr>),
                           emit progress (progress_event ''prove'' ''finished'') w))))"

definition complete_with_prover_emitting ::
  "zk_env \<Rightarrow> ZkLoginCompleteWithProverParams \<Rightarrow> (ProgressEvent \<Rightarrow> 'w \<Rightarrow> 'w) option \<Rightarrow> (string \<Rightarrow> string \<Rightarrow> ('w, AppError, ZkProof) io) \<Rightarrow>
   'w \<Rightarrow> (AppError + ZkLoginCompleteWithProverResult) option \<times> 'w" where
  "complete_with_prover_emitting env params progress fetch w =
     (case complete_with_prover_steps env params progress fetch w of
        (Some (Inl e), w) \<Rightarrow>
          (Some (Inl e), emit progress (with_detail (ae_message e) (progress_event ''prove'' ''failed'')) w)
      | outcome \<Rightarrow> outcome)"

definition zk_login_complete_with_prover ::
  "zk_env \<Rightarrow> 'w prover_net \<Rightarrow> ZkLoginCompleteWithProverParams \<Rightarrow> (ProgressEvent \<Rightarrow> 'w \<Rightarrow> 'w) option \<Rightarrow>
   'w \<Rightarrow> (AppError + ZkLoginCompleteWithProverResult) option \<times> 'w" where
  "zk_login_complete_with_prover env net params progress = complete_with_prover_emitting env params progress (fetch_zk_proofs net)"

end
