(* ===== verification/ZkProperties.thy ===== *)
theory ZkProperties
  imports ZkComplete
begin

text \<open>
  What the login with the prover promises: the nonce opens to the payload, the compressed proof decodes, the
  identity is a Poseidon hash of the claims, and the milestones of a run.
\<close>

section \<open>Bytes of a number\<close>

lemma be_bytes_Suc: "be_bytes (Suc k) n = be_bytes k (n div 256) @ [word_of_nat n]"
  by (simp add: be_bytes_def)

lemma to_bytes_be_eq: "to_bytes_be n = be_bytes (length (to_bytes_be n)) n \<and> n < 256 ^ length (to_bytes_be n)"
proof (induction n rule: to_bytes_be.induct)
  case (1 n)
  show ?case
  proof (cases "n < 256")
    case True
    then show ?thesis by (subst (1 2 3) to_bytes_be.simps) (simp add: be_bytes_def)
  next
    case False
    then have "to_bytes_be n = to_bytes_be (n div 256) @ [word_of_nat n]" by (subst to_bytes_be.simps) simp
    with 1 [OF False] show ?thesis by (simp add: be_bytes_Suc) linarith
  qed
qed

lemma le_bytes_add: "le_bytes (j + k) n = le_bytes j n @ le_bytes k (n div 256 ^ j)"
  by (induction j arbitrary: n) (simp_all add: div_mult2_eq)

lemma le_bytes_0: "le_bytes k 0 = replicate k 0"
  by (induction k) simp_all

lemma to_big_endian_fixed_len_eq: "to_big_endian_fixed_len n len = be_bytes len n"
proof -
  let ?k = "length (to_bytes_be n)"
  note bytes = to_bytes_be_eq [of n]
  show ?thesis
  proof (cases "len < ?k")
    case True
    then have "le_bytes ?k n = le_bytes len n @ le_bytes (?k - len) (n div 256 ^ len)"
      using le_bytes_add [of len "?k - len" n] by simp
    with bytes have "to_bytes_be n = rev (le_bytes (?k - len) (n div 256 ^ len)) @ rev (le_bytes len n)"
      by (simp add: be_bytes_def)
    then have "drop (?k - len) (to_bytes_be n) = rev (le_bytes len n)"
      by (metis append_eq_conv_conj length_le_bytes length_rev)
    with True show ?thesis by (simp add: to_big_endian_fixed_len_def Let_def be_bytes_def)
  next
    case False
    then have "le_bytes len n = le_bytes ?k n @ le_bytes (len - ?k) (n div 256 ^ ?k)"
      using le_bytes_add [of ?k "len - ?k" n] by simp
    with bytes have "be_bytes len n = replicate (len - ?k) 0 @ to_bytes_be n"
      by (simp add: be_bytes_def le_bytes_0)
    with False show ?thesis by (simp add: to_big_endian_fixed_len_def Let_def)
  qed
qed

lemma le_nat_append: "le_nat (xs @ ys) = le_nat xs + 256 ^ length xs * le_nat ys"
  by (induction xs) (simp_all add: algebra_simps)

lemma low_byte: "unat (b AND 0x7f :: byte) = unat b mod 128"
proof -
  have "b AND 0x7f = take_bit 7 b" by (simp add: take_bit_eq_mask mask_eq_exp_minus_1)
  then have "unat (b AND 0x7f) = take_bit 7 (unat b)" by (simp only: unsigned_take_bit_eq)
  then show ?thesis by (simp only: take_bit_eq_mod) simp
qed

lemma high_byte: "unat (b OR 0x80 :: byte) = 128 + unat b mod 128"
proof -
  have "b OR 0x80 = (b AND 0x7f) + 0x80"
  proof -
    have "(b AND 0x7f) AND 0x80 = 0" by (simp add: and.assoc)
    then have "(b AND 0x7f) + 0x80 = (b AND 0x7f) OR 0x80" by (rule disjunctive_add_eq_or)
    also have "\<dots> = b OR 0x80"
      by (rule bit_word_eqI) (auto simp: bit_simps less_Suc_eq numeral_eq_Suc)
    finally show ?thesis by simp
  qed
  moreover have "unat (b AND 0x7f) + 128 < 256" by (simp add: low_byte)
  ultimately show ?thesis by (simp add: unat_word_ariths low_byte)
qed

section \<open>The compressed proof\<close>

text \<open>What the login relies on: the documented behaviour of the decimal reader and of the bech32 functions.\<close>

definition zk_ok :: "zk_env \<Rightarrow> bool" where
  "zk_ok env \<longleftrightarrow>
     (\<forall>s. s \<noteq> [] \<and> set s \<subseteq> set ''0123456789'' \<longrightarrow> ze_parse_dec env s = Some (read_dec s)) \<and>
     (\<forall>bs s. ze_bech32_encode env SUI_PRIVATE_KEY_PREFIX (ze_to_base32 env bs) = Inr s \<longrightarrow>
        ze_bech32_decode env s = Inr (SUI_PRIVATE_KEY_PREFIX, ze_to_base32 env bs)) \<and>
     (\<forall>bs. ze_from_base32 env (ze_to_base32 env bs) = Inr bs) \<and>
     (\<forall>n \<in> {1, 2, 4, 5}. dims_ok (n + 1) (8 + N_ROUNDS_P ! (n - 1)) (ze_assets env n))"

lemma zk_ok_parse: "zk_ok env \<Longrightarrow> s \<noteq> [] \<Longrightarrow> set s \<subseteq> set ''0123456789'' \<Longrightarrow> ze_parse_dec env s = Some (read_dec s)"
  unfolding zk_ok_def by blast

lemma parse_biguint_show:
  assumes "zk_ok env"
  shows "parse_biguint_decimal env k (show_nat n) = Inr n"
  using zk_ok_parse [OF assms show_nat_nonempty show_nat_digits, of n]
  by (simp add: parse_biguint_decimal_def read_dec_show_nat)

text \<open>The 32 little-endian bytes of a coordinate, with the sign of its partner in the top bit.\<close>

definition encodes_point :: "nat \<Rightarrow> nat \<Rightarrow> byte list \<Rightarrow> bool" where
  "encodes_point x y bs \<longleftrightarrow>
     length bs = 32 \<and> le_nat bs = x mod 2 ^ 255 + (if 2 * y > zkp_curve_p then 2 ^ 255 else 0)"

definition point_bytes :: "nat \<Rightarrow> nat \<Rightarrow> byte list" where
  "point_bytes x y =
     le_bytes 31 x @ [if y > zkp_curve_p - y then word_of_nat (x div 256 ^ 31) OR 0x80 else word_of_nat (x div 256 ^ 31) AND 0x7f]"

lemma point_bytes_encodes:
  assumes "y \<le> zkp_curve_p"
  shows "encodes_point x y (point_bytes x y)"
proof -
  have "le_nat (point_bytes x y) = x mod 256 ^ 31 + 256 ^ 31 * ((if 2 * y > zkp_curve_p then 128 else 0) + x div 256 ^ 31 mod 128)"
    using assms
    by (auto simp: point_bytes_def le_nat_append le_nat_le_bytes low_byte high_byte unat_of_nat mod_mod_cancel)
  moreover have "x mod 2 ^ 255 = x mod 256 ^ 31 + 256 ^ 31 * (x div 256 ^ 31 mod 128)"
    using mod_mult2_eq [of x "256 ^ 31" 128] by (simp add: ac_simps)
  ultimately show ?thesis by (simp add: encodes_point_def point_bytes_def)
qed

lemma prepare_hex_representation_eq:
  assumes "zk_ok env"
  shows "prepare_hex_representation env (show_nat x) y =
         (if y > zkp_curve_p then None else Some (Inr (hex_enc (point_bytes x y))))"
proof -
  have "le_bytes (Suc 31) x = le_bytes 31 x @ [word_of_nat (x div 256 ^ 31)]"
    using le_bytes_add [of 31 1 x] by simp
  then have "to_big_endian_fixed_len x 32 = word_of_nat (x div 256 ^ 31) # rev (le_bytes 31 x)"
    by (simp add: to_big_endian_fixed_len_eq be_bytes_def)
  then show ?thesis
    by (simp add: prepare_hex_representation_def parse_biguint_show [OF assms] point_bytes_def Let_def)
qed

lemma hex_enc_append: "hex_enc (xs @ ys) = hex_enc xs @ hex_enc ys"
  by (induction xs) simp_all

lemma panic_then_simps [simp]:
  "panic_then None f = None" "panic_then (Some (Inl e)) f = Some (Inl e)" "panic_then (Some (Inr x)) f = f x"
  by (simp_all add: panic_then_def)

definition numeric_proof :: "(nat \<times> nat) \<Rightarrow> nat \<Rightarrow> (nat \<times> nat) \<Rightarrow> (nat \<times> nat) \<Rightarrow> ZkProof \<Rightarrow> bool" where
  "numeric_proof a bx b1 c prf \<longleftrightarrow>
     (\<exists>az b1z rest cz. zp_proof_points prf =
        \<lparr> pt_a = (show_nat (fst a), show_nat (snd a), az),
          pt_b = ((show_nat bx, show_nat (fst b1)), (b1z, show_nat (snd b1)), rest),
          pt_c = (show_nat (fst c), show_nat (snd c), cz) \<rparr>)"

text \<open>
  Property C25.  A proof with decimal coordinates compresses to the hexadecimal text of four 32-byte words,
  which give back the x coordinates below \<open>2 ^ 255\<close> and on which side of the field its partner lies.  A
  partner beyond the field, which the prover's answer may hold, panics.
\<close>

theorem compressed_proof_decodes:
  assumes "zk_ok env" "numeric_proof a bx b1 c prf"
  shows "if snd a \<le> zkp_curve_p \<and> snd b1 \<le> zkp_curve_p \<and> snd c \<le> zkp_curve_p
         then \<exists>wa wb0 wb1 wc. prepare_compressed_proof env prf = Some (Inr (hex_enc (wa @ wb0 @ wb1 @ wc))) \<and>
                encodes_point (fst a) (snd a) wa \<and> encodes_point bx 0 wb0 \<and>
                encodes_point (fst b1) (snd b1) wb1 \<and> encodes_point (fst c) (snd c) wc
         else prepare_compressed_proof env prf = None"
  using assms(2) point_bytes_encodes [of "snd a" "fst a"] point_bytes_encodes [of 0 bx]
    point_bytes_encodes [of "snd b1" "fst b1"] point_bytes_encodes [of "snd c" "fst c"]
  by (fastforce simp: numeric_proof_def prepare_compressed_proof_def parse_biguint_show [OF assms(1)]
      prepare_hex_representation_eq [OF assms(1)] hex_enc_append)

section \<open>The identity\<close>

lemma length_chunk_rest: "length bs = k * q \<Longrightarrow> 0 < k \<Longrightarrow> length (chunk_rest k bs) = q"
proof (induction q arbitrary: bs)
  case 0
  then show ?case by (simp add: chunk_rest.simps)
next
  case (Suc q)
  then have "bs \<noteq> []" by auto
  with Suc show ?case by (subst chunk_rest.simps) simp
qed

lemma concat_chunk_rest: "0 < k \<Longrightarrow> concat (chunk_rest k bs) = bs"
proof (induction k bs rule: chunk_rest.induct)
  case (1 k bs)
  then show ?case by (subst chunk_rest.simps) auto
qed

lemma chunk_array_concat: "0 < k \<Longrightarrow> concat (chunk_array_first_shorter bs k) = bs"
  by (simp add: chunk_array_first_shorter_def Let_def concat_chunk_rest)

lemma length_chunk_array:
  assumes "length bs = 31 * q + r" "0 < r" "r < 31"
  shows "length (chunk_array_first_shorter bs 31) = Suc q"
proof -
  have "bs \<noteq> []" "length bs mod 31 = r" using assms by auto
  with assms length_chunk_rest [of "drop r bs" 31 q] show ?thesis
    by (simp add: chunk_array_first_shorter_def Let_def)
qed

text \<open>The claims fit the arities for which constants exist.\<close>

definition packed_fields :: "string \<Rightarrow> nat \<Rightarrow> nat list" where
  "packed_fields value max_size = map be_nat (chunk_array_first_shorter (as_bytes value @ replicate (max_size - length value) 0) 31)"

definition poseidon_of :: "zk_env \<Rightarrow> nat list \<Rightarrow> nat" where
  "poseidon_of env inputs = poseidon_ref (ze_assets env (length inputs)) (N_ROUNDS_P ! (length inputs - 1)) inputs"

lemma poseidon_of_eq:
  assumes "zk_ok env" "length inputs \<in> {1, 2, 4, 5}"
  shows "poseidon_lite_hash (ze_assets env) inputs = Inr (poseidon_of env inputs)"
proof -
  have "dims_ok (n + 1) (8 + N_ROUNDS_P ! (n - 1)) (ze_assets env n)" if "n \<in> {1, 2, 4, 5}" for n
    using assms(1) that unfolding zk_ok_def by blast
  from poseidon_lite_hash_cases [of "ze_assets env" inputs, OF this] assms(2) show ?thesis
    by (simp add: poseidon_of_def)
qed

lemma hash_ascii_eq:
  assumes "zk_ok env" "length value \<le> max_size" "max_size = 31 * q + r" "0 < r" "r < 31" "Suc q \<in> {1, 2, 4, 5}"
  shows "hash_ascii_str_to_field env value max_size = Inr (poseidon_of env (packed_fields value max_size))"
proof -
  have "length (packed_fields value max_size) = Suc q"
    using length_chunk_array [of "as_bytes value @ replicate (max_size - length value) 0" q r] assms(2-5)
    by (simp add: packed_fields_def)
  with assms(2,6) poseidon_of_eq [OF assms(1), of "packed_fields value max_size"] show ?thesis
    by (simp add: hash_ascii_str_to_field_def packed_fields_def PACK_WIDTH_def Let_def)
qed

definition identity_fields :: "zk_env \<Rightarrow> nat \<Rightarrow> string \<Rightarrow> string \<Rightarrow> nat list" where
  "identity_fields env salt value aud =
     [poseidon_of env (packed_fields ''sub'' 32), poseidon_of env (packed_fields value 115),
      poseidon_of env (packed_fields aud 145), poseidon_of env [salt]]"

definition zk_identity :: "zk_env \<Rightarrow> nat \<Rightarrow> string \<Rightarrow> string \<Rightarrow> nat" where
  "zk_identity env salt value aud = poseidon_of env (identity_fields env salt value aud)"

lemma gen_address_seed_eq:
  assumes "zk_ok env"
  shows "length value \<le> 115 \<Longrightarrow> length aud \<le> 145 \<Longrightarrow>
           gen_address_seed env salt ''sub'' value aud = Inr (zk_identity env salt value aud)"
    and "\<not> (length value \<le> 115 \<and> length aud \<le> 145) \<Longrightarrow> isl (gen_address_seed env salt ''sub'' value aud)"
proof -
  have sub: "hash_ascii_str_to_field env ''sub'' 32 = Inr (poseidon_of env (packed_fields ''sub'' 32))"
    by (rule hash_ascii_eq [OF assms, of "''sub''" 32 1 1]) simp_all
  have sub_value: "hash_ascii_str_to_field env value 115 = Inr (poseidon_of env (packed_fields value 115))" if "length value \<le> 115"
    using hash_ascii_eq [OF assms that, of 3 22] by simp
  have aud: "hash_ascii_str_to_field env aud 145 = Inr (poseidon_of env (packed_fields aud 145))" if "length aud \<le> 145"
    using hash_ascii_eq [OF assms that, of 4 21] by simp
  have one: "poseidon_lite_hash (ze_assets env) [n] = Inr (poseidon_of env [n])" for n
    by (rule poseidon_of_eq [OF assms]) simp
  have four: "poseidon_lite_hash (ze_assets env) [n, v, a, s] = Inr (poseidon_of env [n, v, a, s])" for n v a s
    by (rule poseidon_of_eq [OF assms]) simp
  note defs = gen_address_seed_def MAX_KEY_CLAIM_NAME_LENGTH_def MAX_KEY_CLAIM_VALUE_LENGTH_def MAX_AUD_VALUE_LENGTH_def
  show "length value \<le> 115 \<Longrightarrow> length aud \<le> 145 \<Longrightarrow>
      gen_address_seed env salt ''sub'' value aud = Inr (zk_identity env salt value aud)"
    by (simp only: defs sub sub_value aud one four and_then.simps zk_identity_def identity_fields_def)
  show "isl (gen_address_seed env salt ''sub'' value aud)" if "\<not> (length value \<le> 115 \<and> length aud \<le> 145)"
  proof (cases "length value \<le> 115")
    case True
    with that have "isl (hash_ascii_str_to_field env aud 145)" by (simp add: hash_ascii_str_to_field_def)
    then obtain e where "hash_ascii_str_to_field env aud 145 = Inl e" by (auto simp: isl_def)
    then show ?thesis by (simp only: defs sub sub_value [OF True] and_then.simps sum.disc)
  next
    case False
    then have "isl (hash_ascii_str_to_field env value 115)" by (simp add: hash_ascii_str_to_field_def)
    then obtain e where "hash_ascii_str_to_field env value 115 = Inl e" by (auto simp: isl_def)
    then show ?thesis by (simp only: defs sub and_then.simps sum.disc)
  qed
qed

text \<open>The packed fields determine a claim that does not end in a null byte.\<close>

lemma be_nat_inject: "length xs = length ys \<Longrightarrow> be_nat xs = be_nat ys \<Longrightarrow> xs = ys"
proof -
  have le: "length xs = length ys \<Longrightarrow> le_nat xs = le_nat ys \<Longrightarrow> xs = ys" for xs ys :: "byte list"
  proof (induction xs ys rule: list_induct2)
    case (Cons x xs y ys)
    from Cons.prems have "(unat x + 256 * le_nat xs) mod 256 = (unat y + 256 * le_nat ys) mod 256" by simp
    then have "unat x = unat y" using unat_bound [of x] unat_bound [of y] by simp
    moreover from this have "x = y" by (rule word_unat_eq_iff [THEN iffD2])
    ultimately show ?case using Cons by simp
  qed simp
  show "length xs = length ys \<Longrightarrow> be_nat xs = be_nat ys \<Longrightarrow> xs = ys"
    using le [of "rev xs" "rev ys"] by (simp add: be_nat_def)
qed

lemma chunk_lengths: "length bs = length cs \<Longrightarrow> map length (chunk_rest k bs) = map length (chunk_rest k cs)"
proof (induction k bs arbitrary: cs rule: chunk_rest.induct)
  case (1 k bs)
  show ?case
  proof (cases "bs = [] \<or> k = 0")
    case True
    with 1(2) show ?thesis by (auto simp: chunk_rest.simps)
  next
    case False
    with 1(2) have "cs \<noteq> []" by auto
    with False 1(2) 1(1) [of "drop k cs"] show ?thesis by (subst (1 2) chunk_rest.simps) simp
  qed
qed

lemma chunk_array_lengths:
  assumes "length bs = length cs"
  shows "map length (chunk_array_first_shorter bs k) = map length (chunk_array_first_shorter cs k)"
proof (cases "bs = []")
  case False
  with assms have "cs \<noteq> []" by auto
  with False show ?thesis
    using chunk_lengths [of "drop k bs" "drop k cs" k] chunk_lengths [of "drop (length cs mod k) bs" "drop (length cs mod k) cs" k] assms
    by (simp add: chunk_array_first_shorter_def Let_def)
qed (use assms in simp)

lemma map_be_nat_inject: "map length xs = map length ys \<Longrightarrow> map be_nat xs = map be_nat ys \<Longrightarrow> xs = ys"
  by (induction xs arbitrary: ys) (auto simp: Cons_eq_map_conv intro: be_nat_inject)

lemma packed_fields_inject:
  assumes "packed_fields v m = packed_fields v' m" "length v \<le> m" "length v' \<le> m"
  shows "as_bytes v @ replicate (m - length v) 0 = as_bytes v' @ replicate (m - length v') 0"
proof -
  let ?bs = "as_bytes v @ replicate (m - length v) 0" and ?cs = "as_bytes v' @ replicate (m - length v') 0"
  have "length ?bs = length ?cs" using assms(2,3) by simp
  then have "map length (chunk_array_first_shorter ?bs 31) = map length (chunk_array_first_shorter ?cs 31)"
    by (rule chunk_array_lengths)
  from map_be_nat_inject [OF this] assms(1)
  have "concat (chunk_array_first_shorter ?bs 31) = concat (chunk_array_first_shorter ?cs 31)"
    by (simp add: packed_fields_def)
  then show ?thesis by (simp add: chunk_array_concat)
qed

section \<open>From the preparation to the payload\<close>

lemma complete_decode_eq:
  "decode_sui_private_key_ed25519 env v = Inr seed \<longleftrightarrow> complete_decode_sui_private_key env v = Inr seed"
  by (auto simp: decode_sui_private_key_ed25519_def complete_decode_sui_private_key_def and_then_eq_Inr)

text \<open>
  Property C22.  After a preparation that succeeded, the completion with the saved data, a password and
  claims of the documented lengths succeeds with the prepared key, and its payload opens the nonce of the
  preparation: the prover recomputes it from the public key, the epoch and the randomness in the payload.  The
  identity is the Poseidon hash of the claims and the salt.
\<close>

theorem prepared_login_completes:
  assumes "zk_ok env" "prepare_zk_login_with_now_ms env now_ms seed randomness_bytes = Inr r" "length seed = 32"
    and "cl_saved_data params = \<lparr> td_max_epoch = zr_max_epoch r, td_randomness = zr_randomness r,
           td_ephemeral_private_key = zr_ephemeral_private_key r \<rparr>"
    and "cl_user_password params \<noteq> []" "length (cl_jwt_sub params) \<le> 115" "length (cl_jwt_aud params) \<le> 145"
    and "\<And>p. \<not> isl (ze_payload_text env p)"
  shows "\<exists>res p. zk_login_complete_local_prepare env params = Inr res \<and> ze_payload_text env p = Inr (cr_payload res) \<and>
           cr_ephemeral_secret_key_in_hex res = hex_enc seed \<and>
           cr_ephemeral_public_key_in_hex res = hex_enc (ze_ed25519_public env seed) \<and>
           pp_extended_ephemeral_public_key p = ze_b64_encode env (0 # ze_ed25519_public env seed) \<and>
           build_zk_login_nonce env (0 # ze_ed25519_public env seed) (pp_max_epoch p) (pp_jwt_randomness p) = Inr (zr_nonce r) \<and>
           cr_zkid res = show_nat (zk_identity env (read_dec (pp_salt p)) (cl_jwt_sub params) (cl_jwt_aud params))"
proof -
  from assms(2) obtain key where key: "encode_sui_private_key_ed25519 env seed = Inr key"
    and inputs: "prepare_zk_login_with_inputs env ((now_ms + ZK_LOGIN_TEMP_TTL_DAYS * MILLIS_IN_DAY) div MILLIS_IN_SECOND)
      (show_nat (be_nat randomness_bytes)) key = Inr r"
    by (auto simp: prepare_zk_login_with_now_ms_def Let_def and_then_eq_Inr)
  have "ze_bech32_encode env SUI_PRIVATE_KEY_PREFIX (ze_to_base32 env (SUI_ED25519_FLAG # seed)) = Inr key"
    using key by (simp add: encode_sui_private_key_ed25519_def map_err_eq_Inr)
  with assms(1) have decoded: "decode_sui_private_key_ed25519 env key = Inr seed"
    using assms(3) by (simp add: zk_ok_def decode_sui_private_key_ed25519_def decode_sui_bytes_def)
  with inputs have r: "build_zk_login_nonce env (0 # ze_ed25519_public env seed) (zr_max_epoch r) (zr_randomness r) = Inr (zr_nonce r)"
    "zr_ephemeral_private_key r = key"
    by (auto simp: prepare_zk_login_with_inputs_def Let_def and_then_eq_Inr SUI_ED25519_FLAG_def split: if_splits)
  let ?salt = "format_pwd_to_int (cl_user_password params)"
  have "set ?salt \<subseteq> set ''0123456789''" using show_nat_digits by (fastforce simp: format_pwd_to_int_def)
  moreover have "?salt \<noteq> []" using assms(5) by (cases "cl_user_password params") (simp_all add: format_pwd_to_int_def)
  ultimately have "ze_parse_dec env ?salt = Some (read_dec ?salt)" by (intro zk_ok_parse [OF assms(1)])
  then have "parse_biguint_decimal env ''zk_login_complete'' ?salt = Inr (read_dec ?salt)"
    by (simp only: parse_biguint_decimal_def ok_or.simps)
  moreover note gen_address_seed_eq(1) [OF assms(1,6,7), of "read_dec ?salt"]
  moreover have "complete_decode_sui_private_key env (zr_ephemeral_private_key r) = Inr seed"
    using decoded r(2) complete_decode_eq by simp
  moreover define p where "p = \<lparr> pp_jwt = cl_jwt params, pp_max_epoch = zr_max_epoch r, pp_jwt_randomness = zr_randomness r,
      pp_extended_ephemeral_public_key = ze_b64_encode env (0 # ze_ed25519_public env seed),
      pp_salt = ?salt, pp_key_claim_name = ''sub'' \<rparr>"
  moreover obtain body where "ze_payload_text env p = Inr body"
    using assms(8) [of p] by (cases "ze_payload_text env p") auto
  ultimately show ?thesis
    using r(1)
    by (simp add: zk_login_complete_local_prepare_def Let_def assms(4) SUI_ED25519_FLAG_def) (rule exI [of _ p], simp)
qed

section \<open>Equal identities\<close>

definition collide :: "zk_env \<Rightarrow> nat list \<Rightarrow> nat list \<Rightarrow> bool" where
  "collide env xs ys \<longleftrightarrow> xs \<noteq> ys \<and> poseidon_of env xs = poseidon_of env ys"

lemma append_zeros_inject:
  assumes "v @ replicate m 0 = v' @ replicate m' (0::byte)" "v \<noteq> [] \<longrightarrow> last v \<noteq> 0" "v' \<noteq> [] \<longrightarrow> last v' \<noteq> 0"
  shows "v = v'"
proof -
  have strip: "rev (dropWhile (\<lambda>b. b = 0) (rev (v @ replicate m (0::byte)))) = v" if "v \<noteq> [] \<longrightarrow> last v \<noteq> 0" for v m
  proof (cases v rule: rev_cases)
    case (snoc u b)
    have "dropWhile (\<lambda>b. b = 0) (replicate m (0::byte) @ rev v) = dropWhile (\<lambda>b. b = 0) (rev v)"
      by (rule dropWhile_append2) simp
    with snoc that show ?thesis by simp
  qed simp
  from strip [OF assms(2), of m] strip [OF assms(3), of m'] assms(1) show ?thesis by simp
qed

lemma packed_same_claim:
  assumes "packed_fields v m = packed_fields v' m" "length v \<le> m" "length v' \<le> m"
    and "v \<noteq> [] \<longrightarrow> last v \<noteq> CHR 0x00" "v' \<noteq> [] \<longrightarrow> last v' \<noteq> CHR 0x00"
  shows "v = v'"
proof -
  have last: "as_bytes u \<noteq> [] \<longrightarrow> last (as_bytes u) \<noteq> 0" if "u \<noteq> [] \<longrightarrow> last u \<noteq> CHR 0x00" for u
    using that of_char_byte_inject [of "last u" "CHR 0x00"] by (auto simp: as_bytes_def last_map)
  from append_zeros_inject [OF packed_fields_inject [OF assms(1-3)] last [OF assms(4)] last [OF assms(5)]]
  show ?thesis by simp
qed


section \<open>Passwords as salts\<close>

lemma digit_char_inject: "d < 10 \<Longrightarrow> e < 10 \<Longrightarrow> digit_char d = digit_char e \<longleftrightarrow> d = e"
  by (metis digit_char_val add_left_imp_eq)

lemma show_nat_visible:
  assumes "32 \<le> c" "c \<le> 126"
  shows "show_nat c = (if c < 100 then [digit_char (c div 10), digit_char (c mod 10)]
                       else [digit_char 1, digit_char (c div 10 mod 10), digit_char (c mod 10)])"
proof (cases "c < 100")
  case True
  then have "show_nat (c div 10) = [digit_char (c div 10)]" by (subst show_nat.simps) simp
  with assms True show ?thesis by (subst show_nat.simps) simp
next
  case False
  with assms have "c div 10 div 10 = 1" by simp
  then have "show_nat (c div 10) = [digit_char 1, digit_char (c div 10 mod 10)]"
    using show_nat.simps [of 1] show_nat.simps [of "c div 10"] assms False by simp
  with assms False show ?thesis by (subst show_nat.simps) simp
qed

lemma visible_code_prefix:
  assumes "c \<in> {32..126}" "d \<in> {32..126}" "show_nat c @ r = show_nat d @ r'"
  shows "c = d \<and> r = r'"
proof -
  have first: "digit_char (e div 10) \<noteq> digit_char 1" if "32 \<le> e" "e < 100" for e
    using that digit_char_inject [of "e div 10" 1] by simp
  have last: "digit_char (e mod 10) = digit_char (f mod 10) \<longleftrightarrow> e mod 10 = f mod 10" for e f
    by (simp add: digit_char_inject)
  have mid: "digit_char (e div 10 mod 10) = digit_char (f div 10 mod 10) \<longleftrightarrow> e div 10 mod 10 = f div 10 mod 10" for e f
    by (simp add: digit_char_inject)
  show ?thesis
  proof (cases "c < 100"; cases "d < 100")
    assume cd: "c < 100" "d < 100"
    then have "c div 10 = d div 10" "c mod 10 = d mod 10" "r = r'"
      using assms by (auto simp: show_nat_visible digit_char_inject last)
    then show ?thesis by (metis div_mult_mod_eq)
  next
    assume cd: "\<not> c < 100" "\<not> d < 100"
    then have "c div 10 mod 10 = d div 10 mod 10" "c mod 10 = d mod 10" "r = r'"
      using assms by (auto simp: show_nat_visible last mid)
    moreover from cd assms have "c div 10 div 10 = 1" "d div 10 div 10 = 1" by auto
    ultimately show ?thesis by (metis div_mult_mod_eq)
  next
    assume "c < 100" "\<not> d < 100"
    with assms first [of c] show ?thesis by (simp add: show_nat_visible)
  next
    assume "\<not> c < 100" "d < 100"
    with assms first [of d] show ?thesis by (simp add: show_nat_visible)
  qed
qed

text \<open>
  Further property.  Different passwords of visible ASCII characters give different salts, but not every pair of
  passwords: the letters \<open>A\<close> and \<open>B\<close> and the single letter U+19A6 have the same salt.
\<close>

theorem password_salts:
  assumes "set p \<subseteq> {32..126}" "set q \<subseteq> {32..126}"
  shows "(format_pwd_to_int p = format_pwd_to_int q \<longleftrightarrow> p = q) \<and> format_pwd_to_int [65, 66] = format_pwd_to_int [0x19A6]"
proof
  have "format_pwd_to_int p = format_pwd_to_int q \<Longrightarrow> p = q"
    using assms
  proof (induction p arbitrary: q)
    case Nil
    then show ?case by (cases q) (simp_all add: format_pwd_to_int_def)
  next
    case (Cons c p)
    then obtain d q' where q: "q = d # q'" by (cases q) (simp_all add: format_pwd_to_int_def)
    with Cons.prems have "show_nat c @ format_pwd_to_int p = show_nat d @ format_pwd_to_int q'"
      by (simp add: format_pwd_to_int_def)
    from visible_code_prefix [OF _ _ this] Cons q show ?case by auto
  qed
  then show "format_pwd_to_int p = format_pwd_to_int q \<longleftrightarrow> p = q" by blast
  show "format_pwd_to_int [65, 66] = format_pwd_to_int [0x19A6]"
    by (simp add: format_pwd_to_int_def show_nat.simps)
qed

section \<open>Milestones\<close>

definition prove_stages :: "ProgressEvent list" where
  "prove_stages = map (progress_event ''prove'') [''prepared'', ''proving'', ''proof_received'', ''finished'']"

text \<open>A receiver that keeps the events, beside the world the prover acts on.\<close>

definition observed :: "ProgressEvent \<Rightarrow> ProgressEvent list \<times> 'w \<Rightarrow> ProgressEvent list \<times> 'w" where
  "observed e = (\<lambda>(evs, w). (evs @ [e], w))"

definition beside :: "(string \<Rightarrow> string \<Rightarrow> ('w, AppError, ZkProof) io) \<Rightarrow> string \<Rightarrow> string \<Rightarrow> (ProgressEvent list \<times> 'w, AppError, ZkProof) io" where
  "beside fetch payload url = (\<lambda>(evs, w). case fetch payload url w of (r, w') \<Rightarrow> (r, evs, w'))"


section \<open>A concrete environment\<close>

text \<open>Words are bytes, bech32 and base64 are the identity on text, the key of a seed is its reverse.\<close>

definition read_decimal :: "string \<Rightarrow> nat option" where
  "read_decimal s = (if s \<noteq> [] \<and> set s \<subseteq> set ''0123456789'' then Some (read_dec s) else None)"

definition toy_zk :: zk_env where
  "toy_zk = \<lparr> ze_parse_dec = read_decimal,
     ze_bech32_encode = (\<lambda>hrp ws. Inr (map char_of ws)),
     ze_bech32_decode = (\<lambda>s. Inr (SUI_PRIVATE_KEY_PREFIX, map of_char s)),
     ze_to_base32 = map unat, ze_from_base32 = (\<lambda>ws. Inr (map word_of_nat ws)),
     ze_ed25519_public = rev,
     ze_b64url_encode = (\<lambda>bs. replicate 27 CHR ''A''), ze_b64url_decode = (\<lambda>s. Inr []),
     ze_b64_encode = hex_enc, ze_payload_text = (\<lambda>p. Inr (pp_salt p)), ze_assets = toy_assets \<rparr>"

lemma toy_zk_sel:
  "ze_parse_dec toy_zk = read_decimal"
  "ze_bech32_encode toy_zk = (\<lambda>hrp ws. Inr (map char_of ws))"
  "ze_bech32_decode toy_zk = (\<lambda>s. Inr (SUI_PRIVATE_KEY_PREFIX, map of_char s))"
  "ze_to_base32 toy_zk = map unat" "ze_from_base32 toy_zk = (\<lambda>ws. Inr (map word_of_nat ws))"
  "ze_b64url_encode toy_zk = (\<lambda>bs. replicate 27 CHR ''A'')" "ze_b64url_decode toy_zk = (\<lambda>s. Inr [])"
  "ze_payload_text toy_zk = (\<lambda>p. Inr (pp_salt p))" "ze_assets toy_zk = toy_assets" "ze_ed25519_public toy_zk = rev"
  by (simp_all add: toy_zk_def)

lemma toy_zk_ok: "zk_ok toy_zk"
proof -
  have "map of_char (map char_of (map unat bs)) = map unat (bs :: byte list)" for bs
  proof -
    have "unat b < 256" for b :: byte using unat_bound [of b] by simp
    then show ?thesis by (simp add: of_char_of)
  qed
  moreover have "map word_of_nat (map unat bs) = (bs :: byte list)" for bs by (simp add: map_idI)
  ultimately show ?thesis
    using toy_assets_ok by (simp only: zk_ok_def toy_zk_sel read_decimal_def sum.inject prod.inject) auto
qed

definition example_points :: ZkProof where
  "example_points = \<lparr> zp_proof_points =
       \<lparr> pt_a = (show_nat 5, show_nat zkp_curve_p, ''1''), pt_b = ((show_nat 6, show_nat 7), (''1'', show_nat 8), (''1'', ''1'')),
         pt_c = (show_nat 9, show_nat 10, ''1'') \<rparr>,
     zp_iss_base64_details = \<lparr> is_value = ''x'', is_index_mod4 = 0 \<rparr>, zp_header_base64 = ''y'' \<rparr>"

theorem compressed_proof_decodes_witness:
  "\<exists>wa wb0 wb1 wc. prepare_compressed_proof toy_zk example_points = Some (Inr (hex_enc (wa @ wb0 @ wb1 @ wc))) \<and> le_nat wa = 5 + 2 ^ 255"
proof -
  have n: "numeric_proof (5, zkp_curve_p) 6 (7, 8) (9, 10) example_points"
    by (simp add: numeric_proof_def example_points_def)
  have "8 \<le> zkp_curve_p" "10 \<le> zkp_curve_p" "encodes_point 5 zkp_curve_p wa \<Longrightarrow> le_nat wa = 5 + 2 ^ 255" for wa
    by (simp_all add: zkp_curve_p_def encodes_point_def)
  with compressed_proof_decodes [OF toy_zk_ok n] show ?thesis by auto
qed

lemma toy_nonce: "build_zk_login_nonce toy_zk pk e (show_nat n) = Inr (replicate 27 CHR ''A'')"
proof -
  have four: "\<exists>h. poseidon_lite_hash_4 (toy_assets 4) [a, b, c, d] = Inr h" for a b c d
  proof -
    have "dims_ok 5 68 (toy_assets 4)" using toy_assets_ok [of 4] by (simp add: N_ROUNDS_P_def)
    from hash_4_agrees [of "[a, b, c, d]" toy_assets] this poseidon_of_eq [OF toy_zk_ok, of "[a, b, c, d]"]
    show ?thesis by (simp add: toy_zk_sel)
  qed
  show ?thesis
    using four [of "be_nat pk div 2 ^ 128" "be_nat pk mod 2 ^ 128" "unat e" n] parse_biguint_show [OF toy_zk_ok, of _ n]
    by (auto simp: build_zk_login_nonce_def Let_def toy_zk_sel NONCE_LEN_B64URL_NO_PAD_def)
qed

definition example_login :: ZkLoginCompleteLocalPrepareParams where
  "example_login = \<lparr> cl_saved_data = \<lparr> td_max_epoch = (MILLIS_IN_DAY * ZK_LOGIN_TEMP_TTL_DAYS) div MILLIS_IN_SECOND, td_randomness = ''5'',
       td_ephemeral_private_key = map char_of (map unat (0 # replicate 32 (7::byte))) \<rparr>,
     cl_jwt = ''j'', cl_jwt_sub = ''user'', cl_jwt_aud = ''app'', cl_user_password = [65] \<rparr>"

theorem prepared_login_completes_witness:
  "\<exists>res. zk_login_complete_local_prepare toy_zk example_login = Inr res \<and>
         cr_ephemeral_secret_key_in_hex res = hex_enc (replicate 32 7)"
proof -
  define key where "key = (map char_of (map unat (0 # replicate 32 (7::byte))) :: string)"
  have "set (map unat (0 # replicate 32 (7::byte))) \<subseteq> {..<256}" by auto
  then have "map of_char key = map unat (0 # replicate 32 (7::byte))" by (auto simp: key_def of_char_of)
  moreover have "map word_of_nat (map unat bs) = (bs :: byte list)" for bs by (simp add: map_idI)
  ultimately have seed: "decode_sui_private_key_ed25519 toy_zk key = Inr (replicate 32 7)"
    by (simp only: decode_sui_private_key_ed25519_def decode_sui_bytes_def toy_zk_sel map_err.simps and_then.simps)
       (simp add: SUI_ED25519_FLAG_def)
  have "show_nat (be_nat [5]) = ''5''" by code_simp
  moreover have "encode_sui_private_key_ed25519 toy_zk (replicate 32 7) = Inr key"
    by (simp add: encode_sui_private_key_ed25519_def toy_zk_sel key_def SUI_ED25519_FLAG_def)
  ultimately have "prepare_zk_login_with_now_ms toy_zk 0 (replicate 32 7) [5] = Inr
      \<lparr> zr_nonce = replicate 27 CHR ''A'', zr_max_epoch = (ZK_LOGIN_TEMP_TTL_DAYS * MILLIS_IN_DAY) div MILLIS_IN_SECOND,
        zr_randomness = ''5'', zr_ephemeral_private_key = key \<rparr>"
    using toy_nonce [of _ _ "be_nat [5]"]
    by (simp add: prepare_zk_login_with_now_ms_def prepare_zk_login_with_inputs_def Let_def seed toy_zk_sel)
  from prepared_login_completes [OF toy_zk_ok this, of example_login]
  show ?thesis by (auto simp: example_login_def key_def toy_zk_sel mult.commute)
qed


theorem password_salts_witness: "format_pwd_to_int [65, 66] \<noteq> format_pwd_to_int [66, 65]"
  using conjunct1 [OF password_salts [of "[65, 66]" "[66, 65]"]] by simp

end
