(* ===== verification/ZkClaims.thy ===== *)
theory ZkClaims
  imports WalletInfra
begin

text \<open>
  \<open>bee_wallet/src/services/zkp/utils\<close> and \<open>auth.rs\<close>: the issuer claim cut out of the base64url text of a token,
  the provider it names and the domain whose certificates a deployment takes.  UTF-8 validation and the JSON
  parser are fields of \<open>claim_env\<close>.
\<close>

unbundle bit_operations_syntax

section \<open>Errors\<close>

datatype ZkCryptoError =
    InvalidInput | InputTooShort nat | InputTooLong nat | InputLengthWrong nat | InvalidSignature | InvalidProof
  | NotEnoughInputs | InvalidMessage | IgnoredMessage | GeneralError string | GeneralOpaqueError

fun zk_crypto_error_text :: "ZkCryptoError \<Rightarrow> string" where
  "zk_crypto_error_text InvalidInput = ''Invalid value was given to the function''"
| "zk_crypto_error_text (InputTooShort n) = ''Expected input of length at least '' @ show_nat n"
| "zk_crypto_error_text (InputTooLong n) = ''Expected input of length at most '' @ show_nat n"
| "zk_crypto_error_text (InputLengthWrong n) = ''Expected input of length exactly '' @ show_nat n"
| "zk_crypto_error_text InvalidSignature = ''Invalid signature was given to the function''"
| "zk_crypto_error_text InvalidProof = ''Invalid proof was given to the function''"
| "zk_crypto_error_text NotEnoughInputs = ''Not enough inputs were given to the function, retry with more''"
| "zk_crypto_error_text InvalidMessage = ''Invalid message was given to the function''"
| "zk_crypto_error_text IgnoredMessage = ''Message should be ignored''"
| "zk_crypto_error_text (GeneralError m) = ''General cryptographic error: '' @ m"
| "zk_crypto_error_text GeneralOpaqueError = ''General cryptographic error''"

definition app_error_from_zk_crypto :: "ZkCryptoError \<Rightarrow> AppError" where
  "app_error_from_zk_crypto e = with_kind ''zk'' (app_error_new (zk_crypto_error_text e))"

record claim_env =
  cm_utf8_valid :: "byte list \<Rightarrow> bool"
  cm_json_from_str :: "string \<Rightarrow> json result"

section \<open>Bits of a base64url text\<close>

definition BASE64_URL_CHARSET :: string where
  "BASE64_URL_CHARSET = ''ABCDEFGHIJKLMNOPQRSTUVWXYZabcdefghijklmnopqrstuvwxyz0123456789-_''"

fun find_char :: "char \<Rightarrow> string \<Rightarrow> nat option" where
  "find_char c [] = None"
| "find_char c (d # s) = (if c = d then Some 0 else map_option Suc (find_char c s))"

definition index_bits :: "u8 \<Rightarrow> u8 list" where
  "index_bits index = map (\<lambda>i. drop_bit i index AND 1) (rev [0..<6])"

text \<open>A byte of a character beyond ASCII is not in the set either.\<close>

definition base64_to_bitarray :: "string \<Rightarrow> ZkCryptoError + u8 list" where
  "base64_to_bitarray input =
     and_then (collect_res (\<lambda>c. ok_or InvalidInput (map_option (\<lambda>index. index_bits (word_of_nat index)) (find_char c BASE64_URL_CHARSET))) input)
       (\<lambda>bits. Inr (concat bits))"

definition byte_of_chunk :: "u8 list \<Rightarrow> byte" where
  "byte_of_chunk chunk = fold (\<lambda>(i, bit) byte. byte OR push_bit i bit) (zip [0..<length chunk] (rev chunk)) 0"

fun chunks8 :: "u8 list \<Rightarrow> u8 list list" where
  "chunks8 bits = (if bits = [] then [] else take 8 bits # chunks8 (drop 8 bits))"

declare chunks8.simps [simp del]

definition bitarray_to_bytearray :: "u8 list \<Rightarrow> ZkCryptoError + byte list" where
  "bitarray_to_bytearray bits =
     (if length bits mod 8 \<noteq> 0 then Inl InvalidInput else Inr (map byte_of_chunk (chunks8 bits)))"

text \<open>The ranges the source drains lie within the bits, which are at least twelve.\<close>

definition decode_base64_url :: "claim_env \<Rightarrow> string \<Rightarrow> u8 \<Rightarrow> ZkCryptoError + string" where
  "decode_base64_url env s i =
     (if length s < 2 then Inl (GeneralError ''Base64 string smaller than 2'')
      else and_then (base64_to_bitarray s) (\<lambda>bits.
        and_then (if i = 0 then Inr bits
                  else if i = 1 then Inr (drop 2 bits)
                  else if i = 2 then Inr (drop 4 bits)
                  else Inl (GeneralError ''Invalid first_char_offset'')) (\<lambda>bits.
        let last_char_offset = (unat i + length s - 1) mod 4
        in and_then (if last_char_offset = 3 then Inr bits
                     else if last_char_offset = 2 then Inr (take (length bits - 2) bits)
                     else if last_char_offset = 1 then Inr (take (length bits - 4) bits)
                     else Inl (GeneralError ''Invalid last_char_offset'')) (\<lambda>bits.
           if length bits mod 8 \<noteq> 0 then Inl (GeneralError ''Invalid bits length'')
           else and_then (bitarray_to_bytearray bits) (\<lambda>bytes.
             if cm_utf8_valid env bytes then Inr (text_of_bytes bytes)
             else Inl (GeneralError ''Invalid UTF8 string''))))))"

definition verify_extended_claim :: "claim_env \<Rightarrow> string \<Rightarrow> string \<Rightarrow> ZkCryptoError + string" where
  "verify_extended_claim env extended_claim expected_key =
     (if \<not> (extended_claim \<noteq> [] \<and> last extended_claim \<in> {CHR ''}'', CHR '',''})
      then Inl (GeneralError ''Invalid extended claim'')
      else let json_str = ''{'' @ butlast extended_claim @ ''}''
           in and_then (map_err (\<lambda>_. InvalidInput) (cm_json_from_str env json_str)) (\<lambda>json.
              ok_or InvalidInput (Option.bind (json_get expected_key json) json_as_str)))"

section \<open>Providers\<close>

datatype OIDCProvider =
    Google | Twitch | Facebook | Kakao | Apple | Slack | Microsoft | AwsTenant string string | KarrierOne | Credenza3 | Gosh

definition ends_with :: "string \<Rightarrow> string \<Rightarrow> bool" where
  "ends_with p s = (length p \<le> length s \<and> drop (length s - length p) s = p)"

definition match_micrsoft_iss_substring :: "string \<Rightarrow> bool" where
  "match_micrsoft_iss_substring iss =
     (starts_with iss ''https://login.microsoftonline.com/'' \<and> ends_with ''/v2.0'' iss)"

text \<open>
  The leftmost match of \<open>RE_AWS_ISS\<close>: neither group can go past the character that ends it, so that at each
  position there is one way to match.
\<close>

definition aws_iss_at :: "string \<Rightarrow> (string \<times> string) option" where
  "aws_iss_at s =
     (if \<not> starts_with s ''https://cognito-idp.'' then None
      else let rest = drop (length ''https://cognito-idp.'') s;
               region = takeWhile (\<lambda>c. c \<noteq> CHR ''.'') rest;
               rest = drop (length region) rest
           in if region = [] \<or> \<not> starts_with rest ''.amazonaws.com/'' then None
              else let tenant_id = takeWhile (\<lambda>c. c \<noteq> CHR ''/'') (drop (length ''.amazonaws.com/'') rest)
                   in if tenant_id = [] then None else Some (region, tenant_id))"

fun parse_aws_iss_substring :: "string \<Rightarrow> ZkCryptoError + (string \<times> string)" where
  "parse_aws_iss_substring [] = Inl InvalidInput"
| "parse_aws_iss_substring (c # url) =
     (case aws_iss_at (c # url) of Some captures \<Rightarrow> Inr captures | None \<Rightarrow> parse_aws_iss_substring url)"

definition from_iss :: "string \<Rightarrow> ZkCryptoError + OIDCProvider" where
  "from_iss iss =
     (if iss = ''https://accounts.google.com'' then Inr Google
      else if iss = ''https://oauth.gosh.sh'' then Inr Gosh
      else if iss = ''https://id.twitch.tv/oauth2'' then Inr Twitch
      else if iss = ''https://www.facebook.com'' then Inr Facebook
      else if iss = ''https://kauth.kakao.com'' then Inr Kakao
      else if iss = ''https://appleid.apple.com'' then Inr Apple
      else if iss = ''https://slack.com'' then Inr Slack
      else if iss = ''https://accounts.karrier.one/'' then Inr KarrierOne
      else if iss = ''https://accounts.credenza3.com'' then Inr Credenza3
      else if match_micrsoft_iss_substring iss then Inr Microsoft
      else case parse_aws_iss_substring iss of
             Inr (region, tenant_id) \<Rightarrow> Inr (AwsTenant region tenant_id)
           | Inl _ \<Rightarrow> Inl InvalidInput)"

fun provider_text :: "OIDCProvider \<Rightarrow> string" where
  "provider_text Google = ''google''"
| "provider_text Gosh = ''gosh''"
| "provider_text Twitch = ''twitch''"
| "provider_text Facebook = ''facebook''"
| "provider_text Kakao = ''kakao''"
| "provider_text Apple = ''apple''"
| "provider_text Slack = ''slack''"
| "provider_text Microsoft = ''microsoft''"
| "provider_text KarrierOne = ''karrierOne''"
| "provider_text Credenza3 = ''credenza3''"
| "provider_text (AwsTenant region tenant_id) = ''AwsTenant-region:'' @ region @ ''-tenant_id:'' @ tenant_id"

section \<open>Authentication\<close>

record Claim =
  cc_value :: string
  cc_index_mod_4 :: u8

definition get_auth_provider :: "claim_env \<Rightarrow> Claim \<Rightarrow> AppError + OIDCProvider" where
  "get_auth_provider env claim =
     and_then (map_err (\<lambda>e. with_context ''[get_auth_provider]: failed to decode claims'' (app_error_from_zk_crypto e))
       (decode_base64_url env (cc_value claim) (cc_index_mod_4 claim))) (\<lambda>ext_claim.
     and_then (map_err (\<lambda>e. with_context ''[get_auth_provider]: failed to verify_extended_claim'' (app_error_from_zk_crypto e))
       (verify_extended_claim env ext_claim ''iss'')) (\<lambda>iss.
     map_err (\<lambda>e. with_context ''[get_auth_provider]: failed to create oidc provider'' (app_error_from_zk_crypto e))
       (from_iss iss)))"

text \<open>The \<open>Debug\<close> name of a provider is an argument.\<close>

definition get_domain_by_auth_provider :: "(OIDCProvider \<Rightarrow> string) \<Rightarrow> OIDCProvider \<Rightarrow> AppError + string" where
  "get_domain_by_auth_provider debug provider =
     (case provider of
        Google \<Rightarrow> Inr ''www.googleapis.com''
      | Gosh \<Rightarrow> Inr ''oauth.gosh.sh''
      | Facebook \<Rightarrow> Inr ''www.facebook.com''
      | other \<Rightarrow> Inl (app_error_new (''bad auth provider: '' @ debug other)))"

end
