(* ===== verification/ZkClaimsProperties.thy ===== *)
theory ZkClaimsProperties
  imports ZkClaims
begin

text \<open>
  The claim decoder recovers the bytes of a piece of a token: the pieces of the base64url text that start and
  end at a byte decode to these bytes.  With the JSON parser, the provider of a token is that of its issuer.
\<close>

unbundle bit_operations_syntax

section \<open>Encoding, as a reference\<close>

definition bits_of_byte :: "byte \<Rightarrow> u8 list" where
  "bits_of_byte b = map (\<lambda>i. drop_bit i b AND 1) (rev [0..<8])"

definition bits_of_bytes :: "byte list \<Rightarrow> u8 list" where
  "bits_of_bytes bs = concat (map bits_of_byte bs)"

definition index_of_bits :: "u8 list \<Rightarrow> nat" where
  "index_of_bits bits = foldl (\<lambda>acc b. 2 * acc + unat b) 0 (take 6 (bits @ replicate 5 0))"

text \<open>Six bits to a character, the last ones filled up with zeros.\<close>

fun b64url_of_bits :: "u8 list \<Rightarrow> string" where
  "b64url_of_bits bits = (if bits = [] then [] else (BASE64_URL_CHARSET ! index_of_bits bits) # b64url_of_bits (drop 6 bits))"

declare b64url_of_bits.simps [simp del]

definition b64url_text :: "byte list \<Rightarrow> string" where
  "b64url_text bs = b64url_of_bits (bits_of_bytes bs)"

lemma find_char_nth: "distinct xs \<Longrightarrow> k < length xs \<Longrightarrow> find_char (xs ! k) xs = Some k"
proof (induction xs arbitrary: k)
  case (Cons x xs)
  then show ?case by (cases k) auto
qed simp

lemma charset: "distinct BASE64_URL_CHARSET" "length BASE64_URL_CHARSET = 64"
  by (simp_all add: BASE64_URL_CHARSET_def)

lemma index_of_six:
  assumes "set [a, b, c, d, e, f] \<subseteq> {0, 1 :: u8}"
  shows "index_of_bits ([a, b, c, d, e, f] @ bits) < 64" "index_bits (word_of_nat (index_of_bits ([a, b, c, d, e, f] @ bits))) = [a, b, c, d, e, f]"
  using assms by (auto simp: index_of_bits_def index_bits_def upt_rec)

lemma six_bits:
  assumes "bits \<noteq> []" "set bits \<subseteq> {0, 1 :: u8}"
  shows "index_of_bits bits < 64" "index_bits (word_of_nat (index_of_bits bits)) = take 6 (bits @ replicate 5 0)"
proof -
  have "length (take 6 (bits @ replicate 5 (0::u8))) = 6" using assms(1) by (cases bits) simp_all
  moreover have "\<exists>a b c d e f. xs = [a, b, c, d, e, f]" if "length xs = 6" for xs :: "u8 list"
    using that by (auto simp: length_Suc_conv numeral_eq_Suc)
  ultimately obtain a b c d e f where six: "take 6 (bits @ replicate 5 (0::u8)) = [a, b, c, d, e, f]" by blast
  have "set [a, b, c, d, e, f] \<subseteq> {0, 1}"
    unfolding six [symmetric] using assms(2) by (auto dest!: in_set_takeD)
  moreover have "index_of_bits bits = index_of_bits ([a, b, c, d, e, f] @ [])"
    using six by (simp add: index_of_bits_def)
  ultimately show "index_of_bits bits < 64" "index_bits (word_of_nat (index_of_bits bits)) = take 6 (bits @ replicate 5 0)"
    using index_of_six [of a b c d e f "[]"] six by simp_all
qed

lemma base64_to_bitarray_encoded:
  assumes "set bits \<subseteq> {0, 1}"
  shows "\<exists>pad. base64_to_bitarray (b64url_of_bits bits) = Inr (bits @ pad) \<and> length pad < 6 \<and>
           6 * length (b64url_of_bits bits) = length bits + length pad"
  using assms
proof (induction bits rule: b64url_of_bits.induct)
  case (1 bits)
  show ?case
  proof (cases "bits = []")
    case True
    then show ?thesis by (auto simp: b64url_of_bits.simps base64_to_bitarray_def)
  next
    case False
    have "set (drop 6 bits) \<subseteq> {0, 1}" using 1(2) by (auto dest: in_set_dropD)
    from 1(1) [OF False this] obtain pad
      where pad: "base64_to_bitarray (b64url_of_bits (drop 6 bits)) = Inr (drop 6 bits @ pad)" "length pad < 6"
        "6 * length (b64url_of_bits (drop 6 bits)) = length (drop 6 bits) + length pad" by blast
    note idx = six_bits [OF False 1(2)]
    have "find_char (BASE64_URL_CHARSET ! index_of_bits bits) BASE64_URL_CHARSET = Some (index_of_bits bits)"
      by (rule find_char_nth) (use idx charset in simp_all)
    with idx pad(1)
    have dec: "base64_to_bitarray (b64url_of_bits bits) = Inr (take 6 (bits @ replicate 5 0) @ drop 6 bits @ pad)"
      by (subst b64url_of_bits.simps) (auto simp: base64_to_bitarray_def False res_simps)
    have len: "length (b64url_of_bits bits) = Suc (length (b64url_of_bits (drop 6 bits)))"
      by (subst b64url_of_bits.simps) (simp add: False)
    show ?thesis
    proof (cases "length bits \<ge> 6")
      case True
      then have "take 6 (bits @ replicate 5 0) @ drop 6 bits @ pad = bits @ pad" by simp
      with dec len pad True show ?thesis by (intro exI [of _ pad]) simp
    next
      case short: False
      then have "drop 6 bits = []" by simp
      with pad have "pad = []" by (simp add: b64url_of_bits.simps)
      have "take 6 (bits @ replicate 5 0) = bits @ replicate (6 - length bits) (0::u8)"
        using short False by (cases bits) (simp_all add: min_def)
      with dec len \<open>drop 6 bits = []\<close> \<open>pad = []\<close> short False pad show ?thesis
        by (intro exI [of _ "replicate (6 - length bits) 0"]) (auto simp: b64url_of_bits.simps [of "[]"])
    qed
  qed
qed

lemma length_bits_of_bytes [simp]: "length (bits_of_bytes bs) = 8 * length bs"
  by (induction bs) (simp_all add: bits_of_bytes_def bits_of_byte_def)

lemma bits_of_bytes_Nil [simp]: "bits_of_bytes [] = []"
  by (simp add: bits_of_bytes_def)

lemma bits_of_bytes_01: "set (bits_of_bytes bs) \<subseteq> {0, 1}"
  by (auto simp: bits_of_bytes_def bits_of_byte_def and_one_eq)

lemma bits_append: "bits_of_bytes (xs @ ys) = bits_of_bytes xs @ bits_of_bytes ys"
  by (simp add: bits_of_bytes_def)

lemma bits_drop: "drop (8 * k) (bits_of_bytes bs) = bits_of_bytes (drop k bs)"
proof (cases "k \<le> length bs")
  case True
  then have "bits_of_bytes bs = bits_of_bytes (take k bs) @ bits_of_bytes (drop k bs)" by (simp flip: bits_append)
  with True show ?thesis by simp
qed simp

lemma bits_take: "take (8 * k) (bits_of_bytes bs) = bits_of_bytes (take k bs)"
proof (cases "k \<le> length bs")
  case True
  then have "bits_of_bytes bs = bits_of_bytes (take k bs) @ bits_of_bytes (drop k bs)" by (simp flip: bits_append)
  with True show ?thesis by simp
qed simp

lemma bit_fold_or:
  "bit (fold (\<lambda>(i, bit) byte. byte OR push_bit i bit) xs acc) n \<longleftrightarrow>
   bit (acc :: byte) n \<or> (\<exists>(i, x) \<in> set xs. bit (push_bit i x) n)"
  by (induction xs arbitrary: acc) (auto simp: bit_or_iff)

lemma byte_of_bits: "byte_of_chunk (bits_of_byte b) = b"
proof (rule bit_word_eqI)
  fix n
  assume "n < LENGTH(8)"
  have "zip [0..<length (bits_of_byte b)] (rev (bits_of_byte b)) = map (\<lambda>i. (i, drop_bit i b AND 1)) [0..<8]"
    by (simp add: bits_of_byte_def rev_map zip_map2 zip_same_conv_map del: upt_Suc)
  moreover have "bit (push_bit i (drop_bit i b AND 1)) n \<longleftrightarrow> n = i \<and> bit b n" for i
    using \<open>n < LENGTH(8)\<close> by (auto simp: bit_simps)
  ultimately show "bit (byte_of_chunk (bits_of_byte b)) n = bit b n"
    using \<open>n < LENGTH(8)\<close> by (auto simp: byte_of_chunk_def bit_fold_or simp del: upt_Suc)
qed

lemma bytes_of_bits: "bitarray_to_bytearray (bits_of_bytes bs) = Inr bs"
proof -
  have "map byte_of_chunk (chunks8 (bits_of_bytes bs)) = bs"
  proof (induction bs)
    case Nil
    then show ?case by (simp add: bits_of_bytes_def chunks8.simps)
  next
    case (Cons b bs)
    have "length (bits_of_byte b) = 8" by (simp add: bits_of_byte_def)
    then have "chunks8 (bits_of_bytes (b # bs)) = bits_of_byte b # chunks8 (bits_of_bytes bs)"
      by (subst chunks8.simps) (auto simp: bits_of_bytes_def)
    with Cons show ?case by (simp add: byte_of_bits)
  qed
  then show ?thesis by (simp add: bitarray_to_bytearray_def)
qed

section \<open>Pieces of a token\<close>

lemma bitarray_append:
  "base64_to_bitarray (xs @ ys) = Inr zs \<longleftrightarrow>
   (\<exists>as bs. base64_to_bitarray xs = Inr as \<and> base64_to_bitarray ys = Inr bs \<and> zs = as @ bs)"
proof (induction xs arbitrary: zs)
  case Nil
  then show ?case by (simp add: base64_to_bitarray_def)
next
  case (Cons x xs)
  have step: "base64_to_bitarray (x # us) = Inr zs \<longleftrightarrow>
      (\<exists>k cs. find_char x BASE64_URL_CHARSET = Some k \<and> base64_to_bitarray us = Inr cs \<and> zs = index_bits (word_of_nat k) @ cs)" for us zs
    by (auto simp: base64_to_bitarray_def res_simps)
  show ?case by (auto simp: step Cons.IH)
qed

lemma bitarray_length: "base64_to_bitarray xs = Inr bs \<Longrightarrow> length bs = 6 * length xs"
proof (induction xs arbitrary: bs)
  case (Cons x xs)
  then show ?case by (auto simp: base64_to_bitarray_def res_simps index_bits_def)
qed (simp add: base64_to_bitarray_def)

lemma bitarray_piece:
  assumes "base64_to_bitarray t = Inr bits" "p + n \<le> length t"
  shows "base64_to_bitarray (take n (drop p t)) = Inr (take (6 * n) (drop (6 * p) bits))"
proof -
  have "t = take p t @ take n (drop p t) @ drop (p + n) t" by (metis append_take_drop_id drop_drop add.commute)
  with assms(1) obtain a b c where abc: "base64_to_bitarray (take p t) = Inr a"
    "base64_to_bitarray (take n (drop p t)) = Inr b" "bits = a @ b @ c"
    by (metis bitarray_append)
  with bitarray_length [OF abc(1)] bitarray_length [OF abc(2)] assms(2) show ?thesis by simp
qed

lemma piece_first:
  fixes p :: nat
  assumes "p mod 4 \<noteq> 3"
  shows "6 * p + 2 * (p mod 4) = 8 * ((6 * p + 7) div 8)"
proof -
  obtain k i where p: "p = 4 * k + i" "i < 4" by (metis div_mod_decomp mod_less_divisor mult.commute zero_less_numeral)
  with assms have i: "i = 0 \<or> i = 1 \<or> i = 2" by auto
  then have "(6 * p + 7) div 8 = 3 * k + i" unfolding p(1) by (elim disjE) presburger+
  with p i show ?thesis by auto
qed

lemma piece_end:
  fixes q :: nat
  assumes "(q - 1) mod 4 \<noteq> 0" "0 < q"
  shows "6 * q - (if (q - 1) mod 4 = 3 then 0 else if (q - 1) mod 4 = 2 then 2 else 4) = 8 * (6 * q div 8)"
proof -
  obtain k i where q: "q - 1 = 4 * k + i" "i < 4" by (metis div_mod_decomp mod_less_divisor mult.commute zero_less_numeral)
  with assms have q': "q = 4 * k + i + 1" and i: "i = 1 \<or> i = 2 \<or> i = 3" by auto
  from i have "6 * q div 8 = 3 * k + i" unfolding q' by (elim disjE) presburger+
  with q q' i show ?thesis by auto
qed

text \<open>The decoder cuts \<open>2 * a\<close> bits at the front for the offset \<open>a\<close>, and up to four at the end.\<close>

definition cut_bits :: "nat \<Rightarrow> nat \<Rightarrow> u8 list \<Rightarrow> u8 list" where
  "cut_bits a d bits = take (length bits - 2 * a - (if d = 3 then 0 else if d = 2 then 2 else 4)) (drop (2 * a) bits)"

lemma decode_cut:
  assumes "base64_to_bitarray s = Inr bits" "2 \<le> length s" "a < 4" "(a + length s - 1) mod 4 = d"
  shows "decode_base64_url env s (word_of_nat a) =
    (if a = 3 then Inl (GeneralError ''Invalid first_char_offset'')
     else if d = 0 then Inl (GeneralError ''Invalid last_char_offset'')
     else if length (cut_bits a d bits) mod 8 \<noteq> 0 then Inl (GeneralError ''Invalid bits length'')
     else and_then (bitarray_to_bytearray (cut_bits a d bits)) (\<lambda>bytes.
            if cm_utf8_valid env bytes then Inr (text_of_bytes bytes) else Inl (GeneralError ''Invalid UTF8 string'')))"
proof -
  have d: "d < 4" using assms(4) by auto
  have "a = 0 \<or> a = 1 \<or> a = 2 \<or> a = 3" using assms(3) by linarith
  moreover have "d = 0 \<or> d = 1 \<or> d = 2 \<or> d = 3" using d by linarith
  ultimately show ?thesis
    using assms(1,2,4) by (elim disjE) (simp_all add: decode_base64_url_def cut_bits_def Let_def)
qed

lemma decode_piece:
  assumes "2 \<le> n" "p + n \<le> length (b64url_text bs)"
  shows "decode_base64_url env (take n (drop p (b64url_text bs))) (word_of_nat (p mod 4)) =
    (if p mod 4 = 3 then Inl (GeneralError ''Invalid first_char_offset'')
     else if (p + n - 1) mod 4 = 0 then Inl (GeneralError ''Invalid last_char_offset'')
     else let first = (6 * p + 7) div 8; piece = take (6 * (p + n) div 8 - first) (drop first bs)
          in if cm_utf8_valid env piece then Inr (text_of_bytes piece) else Inl (GeneralError ''Invalid UTF8 string''))"
proof -
  let ?s = "take n (drop p (b64url_text bs))" and ?first = "(6 * p + 7) div 8" and ?stop = "6 * (p + n) div 8"
  obtain pad where pad: "base64_to_bitarray (b64url_text bs) = Inr (bits_of_bytes bs @ pad)" "length pad < 6"
    "6 * length (b64url_text bs) = 8 * length bs + length pad"
    using base64_to_bitarray_encoded [OF bits_of_bytes_01, of bs] by (auto simp: b64url_text_def)
  let ?bits = "take (6 * n) (drop (6 * p) (bits_of_bytes bs @ pad))"
  have bits: "base64_to_bitarray ?s = Inr ?bits" by (rule bitarray_piece [OF pad(1) assms(2)])
  have len: "length ?s = n" "length ?bits = 6 * n" using assms pad by auto
  have off: "(p mod 4 + length ?s - 1) mod 4 = (p + n - 1) mod 4"
  proof -
    have "(p mod 4 + (n - 1)) mod 4 = (p + (n - 1)) mod 4" by (rule mod_add_left_eq)
    with assms(1) len(1) show ?thesis by simp
  qed
  have dec: "decode_base64_url env ?s (word_of_nat (p mod 4)) =
    (if p mod 4 = 3 then Inl (GeneralError ''Invalid first_char_offset'')
     else if (p + n - 1) mod 4 = 0 then Inl (GeneralError ''Invalid last_char_offset'')
     else if length (cut_bits (p mod 4) ((p + n - 1) mod 4) ?bits) mod 8 \<noteq> 0 then Inl (GeneralError ''Invalid bits length'')
     else and_then (bitarray_to_bytearray (cut_bits (p mod 4) ((p + n - 1) mod 4) ?bits)) (\<lambda>bytes.
            if cm_utf8_valid env bytes then Inr (text_of_bytes bytes) else Inl (GeneralError ''Invalid UTF8 string'')))"
    by (rule decode_cut [OF bits _ _ off]) (use assms(1) len(1) in simp_all)
  have cut: "cut_bits (p mod 4) ((p + n - 1) mod 4) ?bits = bits_of_bytes (take (?stop - ?first) (drop ?first bs))"
    if ok: "p mod 4 \<noteq> 3" "(p + n - 1) mod 4 \<noteq> 0"
  proof -
    let ?c = "if (p + n - 1) mod 4 = 3 then 0 else if (p + n - 1) mod 4 = 2 then 2 else 4 :: nat"
    have ends: "6 * (p + n) - ?c = 8 * ?stop" using piece_end [OF ok(2)] assms(1) by simp
    have "6 * (p + n) \<le> 6 * length (b64url_text bs)" by (rule mult_le_mono2 [OF assms(2)])
    also have "\<dots> \<le> 8 * length bs + 5" using pad(2) unfolding pad(3) by simp
    finally have "6 * (p + n) \<le> 8 * length bs + 5" .
    then have "?stop \<le> (8 * length bs + 5) div 8" by (rule div_le_mono)
    then have le: "?stop \<le> length bs" by simp
    have "6 * n - 2 * a - c = 8 * (e - f)"
      if "6 * (p + n) - c = 8 * e" "6 * p + 2 * a = 8 * f" for a c e f :: nat
    proof -
      have "8 * (e - f) = 6 * (p + n) - c - (6 * p + 2 * a)" using that by simp
      then show ?thesis by simp
    qed
    from this [OF ends piece_first [OF ok(1)]]
    have n: "6 * n - 2 * (p mod 4) - ?c = 8 * (?stop - ?first)" .
    have "cut_bits (p mod 4) ((p + n - 1) mod 4) ?bits =
        take (6 * n - 2 * (p mod 4) - ?c) (drop (2 * (p mod 4) + 6 * p) (bits_of_bytes bs @ pad))"
      unfolding cut_bits_def len(2) drop_take drop_drop take_take by (rule arg_cong2 [where f = take]) simp_all
    also have "\<dots> = take (8 * (?stop - ?first)) (drop (8 * ?first) (bits_of_bytes bs @ pad))"
      unfolding n using piece_first [OF ok(1)] by (simp add: add.commute)
    also have "\<dots> = bits_of_bytes (take (?stop - ?first) (drop ?first bs))"
      using le by (simp add: bits_drop bits_take)
    finally show ?thesis .
  qed
  show ?thesis
  proof (cases "p mod 4 = 3 \<or> (p + n - 1) mod 4 = 0")
    case True
    then show ?thesis unfolding dec by (elim disjE) (simp_all only: if_True simp_thms split: if_split)
  next
    case False
    then have ok: "p mod 4 \<noteq> 3" "(p + n - 1) mod 4 \<noteq> 0" by simp_all
    then show ?thesis
      unfolding dec cut [OF ok] Let_def
      by (simp only: if_False bytes_of_bits and_then.simps length_bits_of_bytes mod_mult_self1_is_0 simp_thms)
  qed
qed

text \<open>
  Property C27.  A piece of two or more characters of the base64url text of a token decodes to the bytes that
  lie in it as a whole, provided that it starts at a character which holds the start of a byte and ends at one
  which holds the end of a byte; otherwise the offset that is wrong is the error, and no piece is out of bounds.
\<close>

theorem decode_base64_url_piece:
  assumes "2 \<le> n" "p + n \<le> length (b64url_text bs)"
  shows "decode_base64_url env (take n (drop p (b64url_text bs))) (word_of_nat (p mod 4)) =
    (if p mod 4 = 3 then Inl (GeneralError ''Invalid first_char_offset'')
     else if (p + n - 1) mod 4 = 0 then Inl (GeneralError ''Invalid last_char_offset'')
     else let first = (6 * p + 7) div 8; piece = take (6 * (p + n) div 8 - first) (drop first bs)
          in if cm_utf8_valid env piece then Inr (text_of_bytes piece) else Inl (GeneralError ''Invalid UTF8 string''))"
  using assms by (rule decode_piece)

section \<open>The provider of a token\<close>

definition quoted :: "string \<Rightarrow> string" where
  "quoted s = CHR 0x22 # s @ [CHR 0x22]"

text \<open>Texts of visible ASCII without quotes and backslashes, and what the two library functions do on them.\<close>

definition plain_text :: "string \<Rightarrow> bool" where
  "plain_text s \<longleftrightarrow> (\<forall>c \<in> set s. 32 < (of_char c :: nat) \<and> (of_char c :: nat) < 127 \<and> c \<notin> {CHR 0x22, CHR 0x5C})"

definition claim_ok :: "claim_env \<Rightarrow> bool" where
  "claim_ok env \<longleftrightarrow>
     (\<forall>s. (\<forall>c \<in> set s. (of_char c :: nat) < 128) \<longrightarrow> cm_utf8_valid env (as_bytes s)) \<and>
     (\<forall>k v. plain_text k \<and> plain_text v \<longrightarrow>
        cm_json_from_str env (''{'' @ quoted k @ '':'' @ quoted v @ ''}'') = Inr (JObj [(k, JStr v)]))"

definition served_domains :: "(string \<times> string) set" where
  "served_domains = {(''https://accounts.google.com'', ''www.googleapis.com''), (''https://oauth.gosh.sh'', ''oauth.gosh.sh''),
     (''https://www.facebook.com'', ''www.facebook.com'')}"

lemma from_iss_served:
  "from_iss iss = Inr provider \<Longrightarrow> get_domain_by_auth_provider debug provider = Inr d \<Longrightarrow> (iss, d) \<in> served_domains"
  by (auto simp: from_iss_def get_domain_by_auth_provider_def served_domains_def split: if_splits sum.splits)

lemma served_from_iss:
  "(iss, d) \<in> served_domains \<Longrightarrow> \<exists>provider. from_iss iss = Inr provider \<and> get_domain_by_auth_provider debug provider = Inr d"
  by (auto simp: from_iss_def get_domain_by_auth_provider_def served_domains_def)

lemma decode_issuer_piece:
  assumes "claim_ok env" "2 \<le> n" "p + n \<le> length (b64url_text bs)" "p mod 4 \<noteq> 3" "(p + n - 1) mod 4 \<noteq> 0"
    and "take (6 * (p + n) div 8 - (6 * p + 7) div 8) (drop ((6 * p + 7) div 8) bs) = as_bytes t"
    and "\<forall>c \<in> set t. (of_char c :: nat) < 128"
  shows "decode_base64_url env (take n (drop p (b64url_text bs))) (word_of_nat (p mod 4)) = Inr t"
proof -
  have "as_bytes (text_of_bytes (as_bytes t)) = as_bytes t" by simp
  then have "text_of_bytes (as_bytes t) = t" by (simp only: as_bytes_inject)
  moreover have "cm_utf8_valid env (as_bytes t)" using assms(1,7) by (simp add: claim_ok_def)
  ultimately show ?thesis
    unfolding decode_piece [OF assms(2,3)] Let_def assms(6) using assms(4,5) by (simp only: if_True if_False)
qed

lemma verify_extended_claim_ok:
  assumes "cm_json_from_str env (''{'' @ body @ ''}'') = Inr (JObj [(k, JStr v)])" "sep \<in> {CHR '','', CHR ''}''}"
  shows "verify_extended_claim env (body @ [sep]) k = Inr v"
  using assms by (auto simp: verify_extended_claim_def)

text \<open>
  Property C28.  For the piece of a token that holds its issuer claim, with the comma or brace after it, the
  deployment finds a certificate domain exactly for the three served issuers, and the domain is that of the issuer.
\<close>

theorem token_domain:
  assumes "claim_ok env" "2 \<le> n" "p + n \<le> length (b64url_text bs)" "p mod 4 \<noteq> 3" "(p + n - 1) mod 4 \<noteq> 0"
    and "take (6 * (p + n) div 8 - (6 * p + 7) div 8) (drop ((6 * p + 7) div 8) bs) =
           as_bytes (quoted ''iss'' @ '':'' @ quoted iss @ [sep])"
    and "sep \<in> {CHR '','', CHR ''}''}" "plain_text iss"
  shows "and_then (get_auth_provider env \<lparr> cc_value = take n (drop p (b64url_text bs)), cc_index_mod_4 = word_of_nat (p mod 4) \<rparr>)
           (get_domain_by_auth_provider debug) = Inr d \<longleftrightarrow> (iss, d) \<in> served_domains"
proof -
  let ?t = "quoted ''iss'' @ '':'' @ quoted iss @ [sep]"
  have "\<forall>c \<in> set iss. (of_char c :: nat) < 128" using assms(8) unfolding plain_text_def by (meson less_trans numeral_less_iff semiring_norm(76,78,81))
  moreover have "(of_char sep :: nat) < 128" using assms(7) by (elim insertE) simp_all
  moreover have "\<forall>c \<in> set (quoted ''iss'' @ '':'' @ quoted []). (of_char c :: nat) < 128" by (simp add: quoted_def)
  moreover have "set ?t = set iss \<union> {sep} \<union> set (quoted ''iss'' @ '':'' @ quoted [])" by (auto simp only: quoted_def set_append list.set Un_iff insert_iff append.simps)
  ultimately have ascii: "\<forall>c \<in> set ?t. (of_char c :: nat) < 128" by blast
  note decoded = decode_issuer_piece [OF assms(1-6) ascii]
  have "plain_text ''iss''" by (simp add: plain_text_def)
  with assms(1,8) have "cm_json_from_str env (''{'' @ quoted ''iss'' @ '':'' @ quoted iss @ ''}'') = Inr (JObj [(''iss'', JStr iss)])"
    unfolding claim_ok_def by blast
  then have "verify_extended_claim env ((quoted ''iss'' @ '':'' @ quoted iss) @ [sep]) ''iss'' = Inr iss"
    by (intro verify_extended_claim_ok [OF _ assms(7)]) (simp only: append.assoc)
  then have "verify_extended_claim env ?t ''iss'' = Inr iss" by (simp only: append.assoc)
  with decoded have provider: "get_auth_provider env \<lparr> cc_value = take n (drop p (b64url_text bs)), cc_index_mod_4 = word_of_nat (p mod 4) \<rparr> =
      map_err (\<lambda>e. with_context ''[get_auth_provider]: failed to create oidc provider'' (app_error_from_zk_crypto e)) (from_iss iss)"
    by (simp only: get_auth_provider_def Claim.select_convs map_err.simps and_then.simps)
  show ?thesis
    unfolding provider using from_iss_served [of iss _ debug d] served_from_iss [of iss d debug]
    by (auto simp: and_then_eq_Inr map_err_eq_Inr)
qed

text \<open>A token of five claims' bytes around the issuer.\<close>

definition toy_claims :: claim_env where
  "toy_claims = \<lparr> cm_utf8_valid = (\<lambda>bs. True), cm_json_from_str = (\<lambda>s.
     let v = takeWhile (\<lambda>c. c \<noteq> CHR 0x22) (drop 3 (dropWhile (\<lambda>c. c \<noteq> CHR 0x22) (drop 2 s)))
     in Inr (JObj [(takeWhile (\<lambda>c. c \<noteq> CHR 0x22) (drop 2 s), JStr v)])) \<rparr>"

lemma toy_claims_ok: "claim_ok toy_claims"
proof -
  have tw: "takeWhile (\<lambda>c. c \<noteq> CHR 0x22) (v @ CHR 0x22 # r) = v" if "plain_text v" for v r
    using that by (auto simp: plain_text_def takeWhile_append2)
  have dw: "dropWhile (\<lambda>c. c \<noteq> CHR 0x22) (v @ CHR 0x22 # r) = CHR 0x22 # r" if "plain_text v" for v r
    using that by (auto simp: plain_text_def dropWhile_append2)
  show ?thesis by (auto simp: claim_ok_def toy_claims_def quoted_def tw dw Let_def)
qed

definition example_token :: "byte list" where
  "example_token = as_bytes (''{'' @ quoted ''iss'' @ '':'' @ quoted ''https://oauth.gosh.sh'' @ '','' @ quoted ''sub'' @ '':1}'')"

theorem token_domain_witness:
  "and_then (get_auth_provider toy_claims \<lparr> cc_value = take 41 (drop 1 (b64url_text example_token)), cc_index_mod_4 = word_of_nat (1 mod 4) \<rparr>)
     (get_domain_by_auth_provider provider_text) = Inr ''oauth.gosh.sh''"
proof -
  have "length example_token = 39" by (simp add: example_token_def quoted_def)
  obtain pad where "6 * length (b64url_text example_token) = 8 * 39 + length (pad :: u8 list)"
    using base64_to_bitarray_encoded [OF bits_of_bytes_01, of example_token] \<open>length example_token = 39\<close>
    by (auto simp: b64url_text_def)
  then have "1 + 41 \<le> length (b64url_text example_token)" by linarith
  moreover have "take (6 * (1 + 41) div 8 - (6 * 1 + 7) div 8) (drop ((6 * 1 + 7) div 8) example_token) =
      as_bytes (quoted ''iss'' @ '':'' @ quoted ''https://oauth.gosh.sh'' @ [CHR '',''])"
    by (simp add: example_token_def quoted_def as_bytes_def)
  moreover have "plain_text ''https://oauth.gosh.sh''" by (simp add: plain_text_def)
  ultimately show ?thesis
    using token_domain [OF toy_claims_ok, of 41 1 example_token "''https://oauth.gosh.sh''" "CHR '',''" provider_text "''oauth.gosh.sh''"]
    by (simp add: served_domains_def)
qed

theorem decode_base64_url_piece_witness:
  "decode_base64_url toy_claims (take 3 (drop 0 (b64url_text [97, 98]))) (word_of_nat (0 mod 4)) = Inr ''ab''"
proof -
  obtain pad where "6 * length (b64url_text [97, 98]) = 8 * 2 + length (pad :: u8 list)"
    using base64_to_bitarray_encoded [OF bits_of_bytes_01, of "[97, 98]"] by (auto simp: b64url_text_def)
  then have "0 + 3 \<le> length (b64url_text [97, 98])" by linarith
  moreover have "text_of_bytes [97, 98] = ''ab''" by code_simp
  ultimately show ?thesis
    using decode_base64_url_piece [of 3 0 "[97, 98]" toy_claims] by (simp add: toy_claims_def)
qed

end
