(* ===== verification/WalletModules.thy ===== *)
theory WalletModules
  imports MultifactorOps ZkClaims ZkComplete
begin

text \<open>
  The modules of the wallet that create and change a multifactor account: \<open>modules/deploy.rs\<close> with
  \<open>services/deploy\<close> and \<open>services/boost.rs\<close>, \<open>modules/zkp.rs\<close>, and the operations of
  \<open>modules/multifactor.rs\<close> on the login identity (all in \<open>bee_wallet/src\<close>).  Root certificates, the
  addresses of contracts, the clock and HTTP are fields of \<open>module_env\<close>; random draws are arguments.
\<close>

section \<open>Environment\<close>

record 'w module_env =
  wm_mf :: "'w mf_env"
  wm_acquire :: "'w \<Rightarrow> 'w"
  wm_limiter :: "'w \<Rightarrow> 'w"
  wm_claims :: claim_env
  wm_debug_provider :: "OIDCProvider \<Rightarrow> string"
  wm_root_certs :: "string \<Rightarrow> AppError + (string \<times> string) list"
  wm_get_mv_multifactor :: "string \<Rightarrow> ('w, AppError, string) io"
  wm_spawn_boost :: "string \<Rightarrow> string \<Rightarrow> 'w \<Rightarrow> 'w"
  wm_now_secs :: "'w \<Rightarrow> u64 \<times> 'w"
  wm_modulus_expire_at :: "json \<Rightarrow> string"

definition io_emit :: "(ProgressEvent \<Rightarrow> 'w \<Rightarrow> 'w) option \<Rightarrow> ProgressEvent \<Rightarrow> ('w, AppError, unit) io" where
  "io_emit progress event w = (Inr (), emit progress event w)"

section \<open>Parameters of a deployment\<close>

record ParamsOfPrepareDeploy =
  pd_zkid :: string
  pd_password :: string
  pd_proof :: string
  pd_epk :: string
  pd_esk :: string
  pd_jwk_modulus :: string
  pd_jwk_modulus_expire_at :: u64
  pd_index_mod_4 :: u8
  pd_iss_base_64 :: string
  pd_header_base_64 :: string
  pd_epk_expire_at :: u64
  pd_keys :: KeyPair
  pd_kid :: string
  pd_wallet_name :: string
  pd_multifactor_address :: string
  pd_sub :: string

definition provider_certificates ::
  "'w module_env \<Rightarrow> string \<Rightarrow> u8 \<Rightarrow> AppError + OIDCProvider \<times> (string \<times> string) list" where
  "provider_certificates env iss_base_64 index_mod_4 =
     and_then (get_auth_provider (wm_claims env) \<lparr> cc_value = iss_base_64, cc_index_mod_4 = index_mod_4 \<rparr>) (\<lambda>provider.
     and_then (get_domain_by_auth_provider (wm_debug_provider env) provider) (\<lambda>domain.
     and_then (map_err (with_context ''failed to get root certificates'') (wm_root_certs env domain)) (\<lambda>certificates.
     Inr (provider, certificates))))"

definition prepare_multifactor_deploy ::
  "'w module_env \<Rightarrow> ParamsOfPrepareDeploy \<Rightarrow> AppError + mirror_deploy \<times> string" where
  "prepare_multifactor_deploy env params =
     and_then (provider_certificates env (pd_iss_base_64 params) (pd_index_mod_4 params)) (\<lambda>(provider, certificates).
     and_then (build_recovery_keys (mu_keys (wm_mf env)) (pd_password params) (pd_multifactor_address params)) (\<lambda>recovery_keys.
     and_then (build_update_jwk_keys (mu_keys (wm_mf env)) (pd_password params) (pd_sub params)) (\<lambda>update_jwk_keys.
     and_then (sign_detached_hex (base (mu_keys (wm_mf env))) (pd_epk params) (pd_esk params)) (\<lambda>epk_sig.
     Inr (\<lparr> md_name = pd_wallet_name params, md_zkid = pd_zkid params, md_proof = pd_proof params,
            md_epk = ''0x'' @ pd_epk params, md_epk_sig = epk_sig, md_epk_expire_at = pd_epk_expire_at params,
            md_jwk_modulus = pd_jwk_modulus params, md_kid = pd_kid params,
            md_jwk_modulus_expire_at = pd_jwk_modulus_expire_at params, md_index_mod_4 = pd_index_mod_4 params,
            md_iss_base_64 = pd_iss_base_64 params, md_header_base_64 = pd_header_base_64 params,
            md_pub_recovery_key = rk_pub_recovery_key recovery_keys,
            md_pub_recovery_key_sig = rk_pub_recovery_key_sig recovery_keys,
            md_root_provider_certificates = certificates, md_provider = provider_text provider,
            md_jwk_update_key = jk_pub_jwk_update_key update_jwk_keys,
            md_jwk_update_key_sig = jk_pub_jwk_update_sig update_jwk_keys \<rparr>, WASM_HASH)))))"

section \<open>Deploying the account\<close>

record ParamsOfDeployMultifactor =
  dp_wallet_name :: string
  dp_zkid :: string
  dp_password :: string
  dp_proof :: string
  dp_epk :: string
  dp_esk :: string
  dp_jwk_modulus :: string
  dp_jwk_modulus_expire_at :: u64
  dp_index_mod_4 :: u8
  dp_iss_base_64 :: string
  dp_header_base_64 :: string
  dp_epk_expire_at :: u64
  dp_kid :: string
  dp_sub :: string

record ResultOfDeployMultifactor =
  rd_name :: string
  rd_address :: string
  rd_message_id :: "string option"
  rd_message_ids :: "string list"
  rd_pending_stage :: "string option"
  rd_pending_reason :: "string option"
  rd_password_hash :: string
  rd_phrase :: string
  rd_pubkey :: string
  rd_signing_keys :: KeyPair

definition prepare_params_of :: "ParamsOfDeployMultifactor \<Rightarrow> string \<Rightarrow> KeyPair \<Rightarrow> string \<Rightarrow> ParamsOfPrepareDeploy" where
  "prepare_params_of params wallet_name owner_keys address =
     \<lparr> pd_zkid = dp_zkid params, pd_password = dp_password params, pd_proof = dp_proof params, pd_epk = dp_epk params,
       pd_esk = dp_esk params, pd_jwk_modulus = dp_jwk_modulus params,
       pd_jwk_modulus_expire_at = dp_jwk_modulus_expire_at params, pd_index_mod_4 = dp_index_mod_4 params,
       pd_iss_base_64 = dp_iss_base_64 params, pd_header_base_64 = dp_header_base_64 params,
       pd_epk_expire_at = dp_epk_expire_at params, pd_keys = owner_keys, pd_kid = dp_kid params,
       pd_wallet_name = wallet_name, pd_multifactor_address = address, pd_sub = dp_sub params \<rparr>"

text \<open>A wait that runs out leaves the deployment pending; every other error of it is returned.\<close>

definition wait_multifactor_active ::
  "'w module_env \<Rightarrow> string \<Rightarrow> (ProgressEvent \<Rightarrow> 'w \<Rightarrow> 'w) option \<Rightarrow> ('w, AppError, (string \<times> string) option) io" where
  "wait_multifactor_active env multifactor progress w =
     (case io_map_err (with_context ''Wait multifactor active'') (mu_wait_active (wm_mf env) multifactor 255 200) w of
        (Inl err, w1) \<Rightarrow>
          if is_confirmation_pending_error err
          then (Inr (Some (''multifactor_activation'', ae_message err)), w1)
          else (Inl err, w1)
      | (Inr _, w1) \<Rightarrow> (Inr None, emit progress (progress_event ''deploy'' ''active'') w1))"

definition configure_flags ::
  "'w module_env \<Rightarrow> string \<Rightarrow> KeyPair \<Rightarrow> string list \<Rightarrow> ('w, AppError, string list \<times> (string \<times> string) option) io" where
  "configure_flags env multifactor owner_keys message_ids w =
     (case update_contract_flags (wm_mf env) multifactor owner_keys True w of
        (Inr ids, w1) \<Rightarrow> (Inr (message_ids @ ids, None), w1)
      | (Inl err, w1) \<Rightarrow>
          if is_confirmation_pending_error err
          then (Inr (message_ids, Some (''contract_flags'', ae_message err)), w1)
          else (Inl err, w1))"

text \<open>The random words of the phrase and the random salt of the password hash are arguments.\<close>

definition run_deploy_multifactor ::
  "'w module_env \<Rightarrow> ClientError + string \<Rightarrow> byte list result \<Rightarrow> ParamsOfDeployMultifactor \<Rightarrow> bool \<Rightarrow>
   (ProgressEvent \<Rightarrow> 'w \<Rightarrow> 'w) option \<Rightarrow> ('w, AppError, ResultOfDeployMultifactor) io" where
  "run_deploy_multifactor env phrase_draw salt_draw params should_update_contract_flags progress =
     io_then (io_lift (deploy_wallet_name (dp_wallet_name params))) (\<lambda>wallet_name.
     io_then (io_lift (map_err (with_context ''Failed to gen seed'')
                (gen_mnemonic_and_derive_keys (base (mu_keys (wm_mf env))) 24 phrase_draw))) (\<lambda>(phrase, owner_keys).
     io_then (io_map_err (with_context ''Failed to get multifactor address'')
                (wm_get_mv_multifactor env (''0x'' @ kp_public owner_keys))) (\<lambda>multifactor.
     io_then (io_lift (map_err (with_context ''Failed to prepare params'')
                (prepare_multifactor_deploy env (prepare_params_of params wallet_name owner_keys multifactor)))) (\<lambda>(deploy_params, _).
     io_then (io_lift (map_err (with_context ''Failed to get mirror'')
                (wallet_mirror_for_pubkey (wm_mf env) (kp_public owner_keys)))) (\<lambda>(mirror, _).
     io_then (io_emit progress (progress_event ''deploy'' ''deploying'')) (\<lambda>_.
     io_then (mf_send (wm_mf env) mirror (DeployMultifactor deploy_params) owner_keys ''Failed to deploy'' ''deploy multifactor'') (\<lambda>deploy_result.
     io_then (io_emit progress (progress_event ''deploy'' ''submitted'')) (\<lambda>_.
     io_then (io_lift (random_salted_hash (base (mu_keys (wm_mf env))) (dp_password params) salt_draw)) (\<lambda>password_hash.
     io_then (io_emit progress (progress_event ''deploy'' ''activating'')) (\<lambda>_.
     io_then (wait_multifactor_active env multifactor progress) (\<lambda>pending.
     let message_ids = push_message_id [] (sm_message_hash deploy_result)
     in io_then (if pending = None \<and> should_update_contract_flags
                 then io_then (io_emit progress (progress_event ''deploy'' ''configuring'')) (\<lambda>_.
                      configure_flags env multifactor owner_keys message_ids)
                 else io_lift (Inr (message_ids, pending))) (\<lambda>(message_ids, pending).
        io_lift (Inr \<lparr> rd_name = md_name deploy_params, rd_address = multifactor,
          rd_message_id = sm_message_hash deploy_result, rd_message_ids = message_ids,
          rd_pending_stage = map_option fst pending, rd_pending_reason = map_option snd pending,
          rd_password_hash = password_hash, rd_phrase = phrase, rd_pubkey = kp_public owner_keys,
          rd_signing_keys = \<lparr> kp_public = dp_epk params, kp_secret = dp_esk params \<rparr> \<rparr>)))))))))))))"

definition deploy_multifactor ::
  "'w module_env \<Rightarrow> ClientError + string \<Rightarrow> byte list result \<Rightarrow> ParamsOfDeployMultifactor \<Rightarrow> bool \<Rightarrow>
   (ProgressEvent \<Rightarrow> 'w \<Rightarrow> 'w) option \<Rightarrow> ('w, AppError, ResultOfDeployMultifactor) io" where
  "deploy_multifactor env phrase_draw salt_draw params should_update_contract_flags progress w =
     (let w = emit progress (progress_event ''deploy'' ''preparing'') (wm_acquire env w)
      in case run_deploy_multifactor env phrase_draw salt_draw params should_update_contract_flags progress w of (result, w) \<Rightarrow>
         let w = (case result of
                    Inr r \<Rightarrow> emit_deploy_outcome progress ''deploy'' (rd_pending_stage r) (rd_pending_reason r) w
                  | Inl _ \<Rightarrow> w)
         in (result, report_failure progress ''deploy'' result None w))"

definition prepare_multifactor_deploy_params :: "'w module_env \<Rightarrow> ParamsOfPrepareDeploy \<Rightarrow> ('w, AppError, mirror_deploy) io" where
  "prepare_multifactor_deploy_params env params w =
     (and_then (prepare_multifactor_deploy env params) (\<lambda>(deploy_params, _). Inr deploy_params), wm_acquire env w)"

section \<open>Deploying the miner\<close>

record 'w boost_net =
  bo_parse :: "string \<Rightarrow> string result"
  bo_join :: "string \<Rightarrow> string \<Rightarrow> string result"
  bo_post :: "string \<Rightarrow> string \<Rightarrow> ('w, string, bool \<times> string \<times> string option) io"

text \<open>The response: whether it is a success, its status as text and its body.\<close>

definition update_boost_code :: "'w boost_net \<Rightarrow> string \<Rightarrow> string \<Rightarrow> ('w, AppError, unit) io" where
  "update_boost_code net api_url multifactor_address =
     io_then (io_lift (map_err (\<lambda>e. with_context ''Invalid api_url'' (with_kind ''url'' (app_error_new e))) (bo_parse net api_url))) (\<lambda>url.
     io_then (io_lift (map_err (\<lambda>e. with_context ''Failed to build url'' (with_kind ''url'' (app_error_new e))) (bo_join net url ''blockchain/update-boost''))) (\<lambda>url.
     io_then (io_map_err (\<lambda>e. with_context ''Failed to send update boost request'' (app_error_from_http e)) (bo_post net url multifactor_address)) (\<lambda>(success, status, body).
     if \<not> success
     then io_lift (Inl (app_error_new (''Failed to update boost (status: '' @ status @ '', body: '' @ unwrap_or [] body @ '')'')))
     else io_lift (Inr ()))))"

definition run_deploy_miner ::
  "'w module_env \<Rightarrow> string \<Rightarrow> string \<Rightarrow> KeyPair \<Rightarrow> (ProgressEvent \<Rightarrow> 'w \<Rightarrow> 'w) option \<Rightarrow> ('w, AppError, ResultOfDeployMiner) io" where
  "run_deploy_miner env api_url multifactor signer_keys progress =
     io_then (io_map_err (with_context ''Failed to resolve miner for multifactor'') (wallet_miner_for_multifactor (wm_mf env) multifactor)) (\<lambda>miner w.
     case mu_is_deployed (wm_mf env) miner w of (deployed, w) \<Rightarrow>
       if deployed then (Inr \<lparr> dm_message_ids = [], dm_pending_stage = None, dm_pending_reason = None \<rparr>, w)
       else
         io_then (io_map_err (with_context ''Get EPK expire at'')
                    (mu_get_epk_expire_at (wm_mf env) multifactor (''0x'' @ kp_public signer_keys))) (\<lambda>epk_expire_at.
         io_then (io_emit progress (progress_event ''deploy_miner'' ''deploying'')) (\<lambda>_.
         io_then (io_map_err (with_context ''Failed to deploy miner'') (cmd_deploy_miner (wm_mf env) multifactor signer_keys epk_expire_at)) (\<lambda>result w.
         (Inr result, wm_spawn_boost env api_url multifactor w)))) w)"

definition module_deploy_miner ::
  "'w module_env \<Rightarrow> string \<Rightarrow> string \<Rightarrow> KeyPair \<Rightarrow> (ProgressEvent \<Rightarrow> 'w \<Rightarrow> 'w) option \<Rightarrow> ('w, AppError, ResultOfDeployMiner) io" where
  "module_deploy_miner env api_url multifactor signer_keys progress w =
     (let w = emit progress (progress_event ''deploy_miner'' ''resolving'') (wm_acquire env w)
      in case run_deploy_miner env api_url multifactor signer_keys progress w of (result, w) \<Rightarrow>
         let w = (case result of
                    Inr r \<Rightarrow> emit_deploy_outcome progress ''deploy_miner'' (dm_pending_stage r) (dm_pending_reason r) w
                  | Inl _ \<Rightarrow> w)
         in (result, report_failure progress ''deploy_miner'' result None w))"

section \<open>Factors\<close>

record ParamsOfAddZKPFactor =
  af_wallet_name :: string
  af_proof :: string
  af_epk :: string
  af_esk :: string
  af_header_base_64 :: string
  af_epk_expire_at :: u64
  af_jwk_expires_at :: u64
  af_kid :: string
  af_sub :: string
  af_password :: string
  af_zkid :: string

record ResultOfAddZKPFactor =
  ra_name :: string
  ra_address :: string
  ra_message_id :: "string option"
  ra_message_ids :: "string list"
  ra_pubkey :: string
  ra_password_hash :: string
  ra_signing_keys :: KeyPair

text \<open>Whether the token's modulus is added first: \<open>old\<close> is the expiry of the one on the chain.\<close>

definition should_add_jwk_modulus :: "u64 \<Rightarrow> u64 \<Rightarrow> u64 option \<Rightarrow> bool" where
  "should_add_jwk_modulus now jwk_expires_at existing =
     (let now_plus_life = now + 300 + 1;
          new_ok = jwk_expires_at > now_plus_life
      in case existing of
           Some old \<Rightarrow> new_ok \<and> old < now_plus_life \<and> jwk_expires_at > old
         | None \<Rightarrow> new_ok)"

definition deployed_account_data :: "'w module_env \<Rightarrow> string \<Rightarrow> ('w, AppError, AccountData) io" where
  "deployed_account_data env address w =
     (case ac_is_deployed (mu_account (wm_mf env)) address w of (deployed, w) \<Rightarrow>
        if \<not> deployed then (Inl (app_error_new ''contract is not deployed''), w)
        else case ac_data (mu_account (wm_mf env)) address w of
          (None, w) \<Rightarrow> (Inl (app_error_new ''failed to multifactor data''), w)
        | (Some data, w) \<Rightarrow> (map_err (with_context ''failed to decode_account_data'') (ac_decode (mu_account (wm_mf env)) data), w))"

text \<open>\<open>epk_expire_at as i64\<close> is the signed reading of the word.\<close>

definition run_add_zkp_factor ::
  "'w module_env \<Rightarrow> byte list result \<Rightarrow> ParamsOfAddZKPFactor \<Rightarrow> (ProgressEvent \<Rightarrow> 'w \<Rightarrow> 'w) option \<Rightarrow> ('w, AppError, ResultOfAddZKPFactor) io" where
  "run_add_zkp_factor env salt_draw params progress =
     io_then (io_map_err (with_context ''failed to get_indexer_address'') (ac_get_indexer (mu_account (wm_mf env)) (af_wallet_name params))) (\<lambda>indexer.
     io_then (io_map_err (with_context ''failed to get_indexer_details'' \<circ> snd) (ac_indexer_details (mu_account (wm_mf env)) indexer)) (\<lambda>multifactor.
     io_then (deployed_account_data env multifactor) (\<lambda>acc_data.
     if af_zkid params \<noteq> acc_zkid acc_data
     then io_lift (Inl (app_error_new ''Bad password or social account provided''))
     else
       io_then (io_lift (map_err (with_context ''failed to hashed kid'') (get_boc_hash (base (mu_keys (wm_mf env))) (af_kid params)))) (\<lambda>hashed_kid.
       io_then (\<lambda>w. case wm_now_secs env w of (now, w) \<Rightarrow> (Inr now, w)) (\<lambda>now.
       let existing = map_option (\<lambda>jwk. unwrap_or 0 (res_ok (parse_u (wm_modulus_expire_at env jwk))))
                        (map_of (acc_jwk_modulus_data acc_data) (''0x'' @ hashed_kid))
       in io_then (if should_add_jwk_modulus now (af_jwk_expires_at params) existing
                   then io_then (io_emit progress (with_detail ''adding json web key modulus'' (progress_event ''add_factor'' ''jwk''))) (\<lambda>_.
                        io_then (io_map_err (with_context ''Failed to add jwk modulus'')
                                   (add_jwk_modulus (wm_mf env) multifactor acc_data (af_kid params) (af_password params) (af_sub params) hashed_kid)) (\<lambda>message_id.
                        io_then (io_emit progress (progress_event ''add_factor'' ''jwk_confirmed'')) (\<lambda>_.
                        io_lift (Inr (push_message_id [] message_id)))))
                   else io_lift (Inr [])) (\<lambda>message_ids.
          io_then (io_map_err (with_context ''Failed to add jwk modulus'')
                     (add_zkp_factor (wm_mf env) multifactor acc_data
                        \<lparr> zf_header_base_64 = af_header_base_64 params, zf_proof = af_proof params,
                          zf_epk_expire_at = sint (af_epk_expire_at params), zf_epk = af_epk params, zf_esk = af_esk params,
                          zf_kid = af_kid params \<rparr> progress)) (\<lambda>message_id.
          io_then (io_lift (random_salted_hash (base (mu_keys (wm_mf env))) (af_password params) salt_draw)) (\<lambda>password_hash.
          io_lift (Inr \<lparr> ra_name = af_wallet_name params, ra_address = multifactor, ra_message_id = message_id,
            ra_message_ids = push_message_id message_ids message_id, ra_pubkey = acc_owner_pubkey acc_data,
            ra_password_hash = password_hash, ra_signing_keys = \<lparr> kp_public = af_epk params, kp_secret = af_esk params \<rparr> \<rparr>)))))))))"

definition module_add_zkp_factor ::
  "'w module_env \<Rightarrow> byte list result \<Rightarrow> ParamsOfAddZKPFactor \<Rightarrow> (ProgressEvent \<Rightarrow> 'w \<Rightarrow> 'w) option \<Rightarrow> ('w, AppError, ResultOfAddZKPFactor) io" where
  "module_add_zkp_factor env salt_draw params progress w =
     (let w = emit progress (progress_event ''add_factor'' ''resolving'') (wm_acquire env w)
      in case run_add_zkp_factor env salt_draw params progress w of (result, w) \<Rightarrow>
         (result, report_failure progress ''add_factor'' result (Some ''add_factor_timeout'') w))"

text \<open>The difference is on 32 bits; it stays in range above the least length.\<close>

definition delete_zkp_factor_by_itself :: "'w module_env \<Rightarrow> string \<Rightarrow> KeyPair \<Rightarrow> ('w, AppError, ResultOfSendMessage) io" where
  "delete_zkp_factor_by_itself env address signer_keys w =
     io_then (io_map_err (with_context ''Get EPK expire at'') (mu_get_epk_expire_at (wm_mf env) address (''0x'' @ kp_public signer_keys))) (\<lambda>epk_expire_at.
     io_then (get_multifactor_decoded_data (mu_account (wm_mf env)) address) (\<lambda>multifactor_data.
     let current_factors_length = factors_len_of multifactor_data
     in io_then (mf_send (wm_mf env) address (DeleteZkpFactorByItself epk_expire_at) signer_keys
                   ''delete_zkp_factor_by_itself'' ''delete_zkp_factor_by_itself'') (\<lambda>result.
        io_then (poll_until_rated (wm_limiter env) (mu_sleep_ms (wm_mf env)) (mf_details (wm_mf env) address)
                   (\<lambda>data. factors_len_of data = current_factors_length - 1) None None) (\<lambda>_.
        io_lift (Inr result))))) (wm_acquire env w)"

text \<open>The login with the prover, behind the limiter of the wallet.\<close>

definition module_complete_zk_login ::
  "'w module_env \<Rightarrow> zk_env \<Rightarrow> 'w prover_net \<Rightarrow> ZkLoginCompleteWithProverParams \<Rightarrow> (ProgressEvent \<Rightarrow> 'w \<Rightarrow> 'w) option \<Rightarrow>
   'w \<Rightarrow> (AppError + ZkLoginCompleteWithProverResult) option \<times> 'w" where
  "module_complete_zk_login env zk net params progress w =
     zk_login_complete_with_prover zk net params progress (wm_acquire env w)"

section \<open>The login identity\<close>

record UpdateMultifactorZkIdReq =
  uq_address :: string
  uq_zkid :: string
  uq_password :: string
  uq_proof :: string
  uq_epk :: string
  uq_esk :: string
  uq_jwk_modulus :: string
  uq_jwk_modulus_expire_at :: int
  uq_index_mod_4 :: int
  uq_iss_base_64 :: string
  uq_header_base_64 :: string
  uq_epk_expire_at :: int
  uq_pubkey :: string
  uq_secretkey :: string
  uq_kid :: string
  uq_sub :: string

definition rated_poll :: "'w module_env \<Rightarrow> string \<Rightarrow> (AccountData \<Rightarrow> bool) \<Rightarrow> ('w, AppError, AccountData) io" where
  "rated_poll env address predicate =
     poll_until_rated (wm_limiter env) (mu_sleep_ms (wm_mf env)) (mf_details (wm_mf env) address) predicate None None"

definition zk_id_params ::
  "'w module_env \<Rightarrow> UpdateMultifactorZkIdReq \<Rightarrow> AppError + ParamsOfUpdateZkId" where
  "zk_id_params env params =
     and_then (provider_certificates env (uq_iss_base_64 params) (word_of_int (uq_index_mod_4 params))) (\<lambda>(provider, certificates).
     and_then (build_update_jwk_keys (mu_keys (wm_mf env)) (uq_password params) (uq_sub params)) (\<lambda>update_jwk_keys.
     and_then (sign_detached_hex (base (mu_keys (wm_mf env))) (uq_epk params) (uq_esk params)) (\<lambda>epk_sig.
     Inr \<lparr> uz_zkid = uq_zkid params, uz_proof = uq_proof params, uz_epk = ''0x'' @ uq_epk params, uz_epk_sig = epk_sig,
           uz_epk_expire_at = uq_epk_expire_at params, uz_jwk_modulus = uq_jwk_modulus params, uz_kid = uq_kid params,
           uz_jwk_modulus_expire_at = uq_jwk_modulus_expire_at params, uz_index_mod_4 = uq_index_mod_4 params,
           uz_iss_base_64 = uq_iss_base_64 params, uz_header_base_64 = uq_header_base_64 params,
           uz_owner_pubkey = ''0x'' @ uq_pubkey params, uz_root_provider_certificates = certificates,
           uz_provider = provider_text provider, uz_jwk_update_key = jk_pub_jwk_update_key update_jwk_keys,
           uz_jwk_update_key_sig = jk_pub_jwk_update_sig update_jwk_keys \<rparr>)))"

definition update_zk_id_steps :: "'w module_env \<Rightarrow> UpdateMultifactorZkIdReq \<Rightarrow> ('w, AppError, ResultOfSendMessage) io" where
  "update_zk_id_steps env params =
     (let keys = \<lparr> kp_public = uq_pubkey params, kp_secret = uq_secretkey params \<rparr>
      in io_then (io_lift (zk_id_params env params)) (\<lambda>update_params.
         io_then (io_lift (build_recovery_keys (mu_keys (wm_mf env)) (uq_password params) (uq_address params))) (\<lambda>recovery_keys.
         io_then (mf_send (wm_mf env) (uq_address params) (UpdateZkId update_params) keys ''update_zk_id failed'' ''update_zk_id'') (\<lambda>result.
         io_then (rated_poll env (uq_address params) (\<lambda>data. uq_zkid params = acc_zkid data)) (\<lambda>_.
         io_then (mf_send (wm_mf env) (uq_address params)
                    (UpdateRecoveryPhrase (rk_pub_recovery_key recovery_keys) (rk_pub_recovery_key_sig recovery_keys)) keys
                    ''update_recovery_phrase failed'' ''update_recovery_phrase'') (\<lambda>_.
         io_then (rated_poll env (uq_address params) (\<lambda>data. rk_pub_recovery_key recovery_keys = acc_pub_recovery_key data)) (\<lambda>_.
         io_lift (Inr result))))))))"

definition update_zk_id :: "'w module_env \<Rightarrow> UpdateMultifactorZkIdReq \<Rightarrow> ('w, AppError, ResultOfSendMessage) io" where
  "update_zk_id env params w = update_zk_id_steps env params (wm_acquire env w)"

definition module_update_contract :: "'w module_env \<Rightarrow> string \<Rightarrow> KeyPair \<Rightarrow> ('w, AppError, string list) io" where
  "module_update_contract env multifactor keys w = update_contract_flags (wm_mf env) multifactor keys True (wm_acquire env w)"

section \<open>Queries of the module\<close>

definition module_get_multifactor_data_by_name ::
  "'w module_env \<Rightarrow> string \<Rightarrow> ('w, AppError, ResultOfGetMultifactorDetails option) io" where
  "module_get_multifactor_data_by_name env wallet_name w =
     get_multifactor_decoded_data_by_name (mu_account (wm_mf env)) wallet_name (wm_acquire env w)"

definition module_get_multifactor_address :: "'w module_env \<Rightarrow> string \<Rightarrow> ('w, AppError, string) io" where
  "module_get_multifactor_address env pubkey w =
     io_map_err (with_context ''failed to get_multifactor_address'') (wm_get_mv_multifactor env pubkey) (wm_acquire env w)"

definition module_get_mirror_address :: "'w module_env \<Rightarrow> string \<Rightarrow> AppError + string" where
  "module_get_mirror_address env pubkey =
     and_then (map_err (with_context ''Get mirror'') (wallet_mirror_for_pubkey (wm_mf env) pubkey)) (\<lambda>(mirror, _). Inr mirror)"

definition module_get_multifactor_info :: "'w module_env \<Rightarrow> string \<Rightarrow> ('w, AppError, AccountData option) io" where
  "module_get_multifactor_info env address w =
     (case ac_is_deployed (mu_account (wm_mf env)) address (wm_acquire env w) of (deployed, w) \<Rightarrow>
        if \<not> deployed then (Inr None, w)
        else case ac_data (mu_account (wm_mf env)) address w of
          (None, w) \<Rightarrow> (Inr None, w)
        | (Some data, w) \<Rightarrow>
            (and_then (map_err (with_context ''failed to decode_account_data'') (ac_decode (mu_account (wm_mf env)) data)) (\<lambda>acc_data. Inr (Some acc_data)), w))"

definition module_get_epk_expire_at :: "'w module_env \<Rightarrow> string \<Rightarrow> string \<Rightarrow> ('w, AppError, u64) io" where
  "module_get_epk_expire_at env multifactor epk w =
     io_map_err (with_context ''Get EPK expire at'') (mu_get_epk_expire_at (wm_mf env) multifactor (''0x'' @ epk)) (wm_acquire env w)"

end
