(* ===== verification/WalletModulesProperties.thy ===== *)
theory WalletModulesProperties
  imports WalletModules MultifactorProperties
begin

text \<open>
  What the deployment of an account, the change of its login identity and the addition of a factor write, in
  which order and signed by whom.  The writes are a ghost log of the world.
\<close>

section \<open>The log of writes\<close>

definition module_logs :: "'w module_env \<Rightarrow> (ProgressEvent \<Rightarrow> 'w \<Rightarrow> 'w) option \<Rightarrow> ('w \<Rightarrow> (mf_call \<times> KeyPair) list) \<Rightarrow> bool" where
  "module_logs env progress log \<longleftrightarrow>
     logs_calls (wm_mf env) log \<and> (\<forall>w. log (wm_acquire env w) = log w) \<and> (\<forall>w. log (wm_limiter env w) = log w) \<and>
     (\<forall>k. silent log (wm_get_mv_multifactor env k)) \<and> (\<forall>w. log (snd (wm_now_secs env w)) = log w) \<and>
     (\<forall>n. silent log (ac_get_indexer (mu_account (wm_mf env)) n)) \<and>
     (\<forall>n. silent log (ac_indexer_details (mu_account (wm_mf env)) n)) \<and>
     (\<forall>u i m. silent log (mu_post_tls (wm_mf env) u i m)) \<and>
     (\<forall>e w. log (emit progress e w) = log w)"

lemma module_logsD:
  assumes "module_logs env progress log"
  shows "logs_calls (wm_mf env) log" "silent log (wm_get_mv_multifactor env k)"
    "silent log (ac_get_indexer (mu_account (wm_mf env)) n)" "silent log (ac_indexer_details (mu_account (wm_mf env)) n)"
    "silent log (mu_post_tls (wm_mf env) u i m)"
    "log (wm_acquire env w) = log w" "log (emit progress e w) = log w" "log (wm_limiter env w) = log w"
    "log (snd (wm_now_secs env w)) = log w"
  using assms by (simp_all add: module_logs_def)

lemma silent_io_emit: "module_logs env progress log \<Longrightarrow> silent log (io_emit progress e)"
  by (simp add: emits_def io_emit_def module_logsD(7))

lemma emits_after_acquire:
  assumes "module_logs env progress log" "emits log m P" "\<And>w. m' w = m (wm_acquire env w)"
  shows "emits log m' P"
  using assms(2) unfolding emits_def assms(3) by (metis module_logsD(6) [OF assms(1)])

lemma silent_rated_poll:
  assumes "module_logs env progress log"
  shows "silent log (rated_poll env a p)"
proof -
  have "silent log (\<lambda>w. mf_details (wm_mf env) a (wm_limiter env w))"
    unfolding emits_def
  proof (intro allI impI)
    fix w r w' assume "mf_details (wm_mf env) a (wm_limiter env w) = (r, w')"
    from emitsD [OF logs_callsD(2) [OF module_logsD(1) [OF assms]] this] module_logsD(8) [OF assms]
    show "\<exists>ss. log w' = log w @ ss \<and> ss = []" by simp
  qed
  moreover have "log (mu_sleep_ms (wm_mf env) t w) = log w" for t w
    using module_logsD(1) [OF assms] by (simp add: logs_calls_def)
  ultimately show ?thesis unfolding rated_poll_def poll_until_rated_def by (rule silent_poll)
qed

lemma rated_poll_Inr:
  "rated_poll env a p w = (Inr d, w') \<Longrightarrow> p d \<and> (\<exists>v. mf_details (wm_mf env) a v = (Inr d, w'))"
  unfolding rated_poll_def poll_until_rated_def by (drule poll_until_Inr) blast

section \<open>The login identity\<close>

text \<open>The contract has shown data with the property at some time.\<close>

definition shown :: "'w mf_env \<Rightarrow> string \<Rightarrow> (AccountData \<Rightarrow> bool) \<Rightarrow> bool" where
  "shown env a p \<longleftrightarrow> (\<exists>v data v'. mf_details env a v = (Inr data, v') \<and> p data)"

definition zk_id_writes :: "'w module_env \<Rightarrow> UpdateMultifactorZkIdReq \<Rightarrow> bool \<Rightarrow> (mf_call \<times> KeyPair) list \<Rightarrow> bool" where
  "zk_id_writes env params finished ss \<longleftrightarrow>
     ss = [] \<and> \<not> finished \<or>
     (\<exists>p rk. let k = \<lparr> kp_public = uq_pubkey params, kp_secret = uq_secretkey params \<rparr>;
                 identity = (UpdateZkId p, k);
                 recovery = (UpdateRecoveryPhrase (rk_pub_recovery_key rk) (rk_pub_recovery_key_sig rk), k)
             in zk_id_params env params = Inr p \<and> build_recovery_keys (mu_keys (wm_mf env)) (uq_password params) (uq_address params) = Inr rk \<and>
                (ss = [identity] \<and> \<not> finished \<or>
                 ss = [identity, recovery] \<and> shown (wm_mf env) (uq_address params) (\<lambda>d. uq_zkid params = acc_zkid d) \<and>
                   (finished \<longrightarrow> shown (wm_mf env) (uq_address params) (\<lambda>d. rk_pub_recovery_key rk = acc_pub_recovery_key d))))"

lemma emits_rated_poll:
  assumes "module_logs env progress log"
  shows "emits log (rated_poll env a p) (\<lambda>r ss. ss = [] \<and> (\<not> isl r \<longrightarrow> shown (wm_mf env) a p))"
proof (rule emits_mono [OF emits_run [OF silent_rated_poll [OF assms]]])
  fix r ss
  assume run: "ss = [] \<and> (\<exists>v v'. rated_poll env a p v = (r, v'))"
  show "ss = [] \<and> (\<not> isl r \<longrightarrow> shown (wm_mf env) a p)"
  proof (cases r)
    case (Inr d)
    with run rated_poll_Inr [of env a p _ d] show ?thesis unfolding shown_def by blast
  qed (use run in simp)
qed

lemma emits_update_zk_id:
  assumes "module_logs env progress log"
  shows "emits log (update_zk_id env params) (\<lambda>r ss. zk_id_writes env params (\<not> isl r) ss)"
proof -
  let ?k = "\<lparr> kp_public = uq_pubkey params, kp_secret = uq_secretkey params \<rparr>"
  note calls = logs_callsD [OF module_logsD(1) [OF assms]]
  have steps: "emits log (io_then (mf_send (wm_mf env) (uq_address params) (UpdateZkId p) ?k x1 y1) (\<lambda>result.
         io_then (rated_poll env (uq_address params) (\<lambda>data. uq_zkid params = acc_zkid data)) (\<lambda>_.
         io_then (mf_send (wm_mf env) (uq_address params)
                    (UpdateRecoveryPhrase (rk_pub_recovery_key rk) (rk_pub_recovery_key_sig rk)) ?k x2 y2) (\<lambda>_.
         io_then (rated_poll env (uq_address params) (\<lambda>data. rk_pub_recovery_key rk = acc_pub_recovery_key data)) (\<lambda>_.
         io_lift (Inr result)))))) (\<lambda>r ss. zk_id_writes env params (\<not> isl r) ss)"
    if "zk_id_params env params = Inr p" "build_recovery_keys (mu_keys (wm_mf env)) (uq_password params) (uq_address params) = Inr rk" for p rk x1 y1 x2 y2
    apply (rule emits_then [OF calls(5)])
     apply (rule emits_then [OF emits_rated_poll [OF assms]])
      apply (rule emits_then [OF calls(5)])
       apply (rule emits_then [OF emits_rated_poll [OF assms]])
        apply (rule emits_lift)
    using that by (auto simp: zk_id_writes_def Let_def)
  have "emits log (update_zk_id_steps env params) (\<lambda>r ss. zk_id_writes env params (\<not> isl r) ss)"
    unfolding update_zk_id_steps_def Let_def
    by (rule emits_lift_then, rule emits_lift_then, rule steps) (simp_all add: zk_id_writes_def)
  then show ?thesis
    by (rule emits_after_acquire [OF assms]) (simp add: update_zk_id_def)
qed


section \<open>Deployment\<close>

definition flag_writes :: "KeyPair \<Rightarrow> (mf_call \<times> KeyPair) list set" where
  "flag_writes k = {[], [(SetForceRemoveOldest True, k)], [(SetWasmHash WASM_HASH, k)], [(SetForceRemoveOldest True, k), (SetWasmHash WASM_HASH, k)]}"

lemma emits_flags:
  assumes "logs_calls env log"
  shows "emits log (update_contract_flags env a k b) (\<lambda>r ss. ss \<in> flag_writes k)"
proof -
  note calls = logs_callsD [OF assms]
  have set: "emits log (if c then io_map_err f (set_remove_oldest env a k True) else io_lift (Inr None))
      (\<lambda>r ss. ss = (if c then [(SetForceRemoveOldest True, k)] else []) \<or> c \<and> isl r \<and> ss = [(SetForceRemoveOldest True, k)])" for c f
    unfolding set_remove_oldest_def
    by (rule emits_if, rule emits_map_err, rule emits_then [OF calls(5)]) (auto intro: emits_lift)
  have hash: "emits log (if c then io_map_err f (set_wasm_hash env a k WASM_HASH) else io_lift (Inr None))
      (\<lambda>r ss. ss = (if c then [(SetWasmHash WASM_HASH, k)] else []))" for c f
    unfolding set_wasm_hash_def
    by (rule emits_if, rule emits_map_err, rule emits_then [OF calls(5)]) (auto intro: emits_lift)
  show ?thesis
    unfolding update_contract_flags_def Let_def
    apply (rule emits_silent_then [OF calls(1)])
     apply (rule emits_if)
      apply (rule emits_lift, simp add: flag_writes_def)
     apply (rule emits_then [OF set])
      apply (rule emits_then [OF hash])
       apply (rule emits_if)
        apply (rule emits_silent_then [OF calls(3)])
         apply (rule emits_lift)
    by (auto simp: flag_writes_def emits_def io_lift_def split: if_splits)
qed

text \<open>What a deployment that has sent its message has written, and what its result reports.\<close>

definition deployed_as ::
  "'w module_env \<Rightarrow> ClientError + string \<Rightarrow> ParamsOfDeployMultifactor \<Rightarrow> bool \<Rightarrow> AppError + ResultOfDeployMultifactor \<Rightarrow> (mf_call \<times> KeyPair) list \<Rightarrow> bool" where
  "deployed_as env phrase_draw params flags r ss \<longleftrightarrow>
     (\<exists>name phrase k address p fl.
        deploy_wallet_name (dp_wallet_name params) = Inr name \<and>
        map_err (with_context ''Failed to gen seed'') (gen_mnemonic_and_derive_keys (base (mu_keys (wm_mf env))) 24 phrase_draw) = Inr (phrase, k) \<and>
        prepare_multifactor_deploy env (prepare_params_of params name k address) = Inr (p, WASM_HASH) \<and>
        ss = (DeployMultifactor p, k) # fl \<and> fl \<in> flag_writes k \<and> (fl \<noteq> [] \<longrightarrow> flags) \<and>
        (case r of
           Inl _ \<Rightarrow> True
         | Inr res \<Rightarrow> rd_name res = name \<and> rd_address res = address \<and> rd_phrase res = phrase \<and> rd_pubkey res = kp_public k \<and>
             (rd_pending_stage res = Some ''multifactor_activation'' \<longrightarrow> fl = [])))"

definition deploy_writes ::
  "'w module_env \<Rightarrow> ClientError + string \<Rightarrow> ParamsOfDeployMultifactor \<Rightarrow> bool \<Rightarrow> AppError + ResultOfDeployMultifactor \<Rightarrow> (mf_call \<times> KeyPair) list \<Rightarrow> bool" where
  "deploy_writes env phrase_draw params flags r ss \<longleftrightarrow> ss = [] \<and> isl r \<or> deployed_as env phrase_draw params flags r ss"

lemma prepare_name:
  "prepare_multifactor_deploy env q = Inr (p, h) \<Longrightarrow> md_name p = pd_wallet_name q \<and> h = WASM_HASH"
  by (auto simp: prepare_multifactor_deploy_def res_simps split: prod.splits)

lemma emits_wait_active:
  assumes "module_logs env progress log"
  shows "emits log (wait_multifactor_active env a progress)
    (\<lambda>r ss. ss = [] \<and> (\<forall>x. r = Inr (Some x) \<longrightarrow> fst x = ''multifactor_activation''))"
  unfolding emits_def
proof (intro allI impI)
  fix w r w' assume run: "wait_multifactor_active env a progress w = (r, w')"
  obtain r1 w1 where wait: "mu_wait_active (wm_mf env) a 255 200 w = (r1, w1)" by fastforce
  have "silent log (mu_wait_active (wm_mf env) a 255 200)"
    using module_logsD(1) [OF assms] by (simp add: logs_calls_def)
  from emitsD [OF this wait] run wait module_logsD(7) [OF assms]
  show "\<exists>ss. log w' = log w @ ss \<and> ss = [] \<and> (\<forall>x. r = Inr (Some x) \<longrightarrow> fst x = ''multifactor_activation'')"
    by (cases r1) (auto simp: wait_multifactor_active_def split: if_splits)
qed

lemma emits_configure:
  assumes "module_logs env progress log"
  shows "emits log (configure_flags env a k ids)
    (\<lambda>r ss. ss \<in> flag_writes k \<and> (\<forall>i x. r = Inr (i, Some x) \<longrightarrow> fst x = ''contract_flags''))"
  unfolding emits_def
proof (intro allI impI)
  fix w r w' assume run: "configure_flags env a k ids w = (r, w')"
  obtain r1 w1 where flags: "update_contract_flags (wm_mf env) a k True w = (r1, w1)" by fastforce
  from emitsD [OF emits_flags [OF module_logsD(1) [OF assms]] flags] run flags
  show "\<exists>ss. log w' = log w @ ss \<and> ss \<in> flag_writes k \<and> (\<forall>i x. r = Inr (i, Some x) \<longrightarrow> fst x = ''contract_flags'')"
    by (cases r1) (auto simp: configure_flags_def split: if_splits)
qed

text \<open>Everything after the message.\<close>

lemma emits_after_deploy:
  fixes env :: "'w module_env"
  assumes logs: "module_logs env progress log"
    and Qe: "\<And>e fl. fl \<in> flag_writes k \<Longrightarrow> fl \<noteq> [] \<longrightarrow> flags \<Longrightarrow> Q (Inl e) fl"
    and Qr: "\<And>ids pending hash fl. fl \<in> flag_writes k \<Longrightarrow> fl \<noteq> [] \<longrightarrow> flags \<Longrightarrow>
              map_option fst pending = Some ''multifactor_activation'' \<longrightarrow> fl = [] \<Longrightarrow> Q (Inr (mk ids pending hash)) fl"
  shows "emits log (io_then (io_emit progress e1) (\<lambda>_.
     io_then (io_lift hashed) (\<lambda>password_hash.
     io_then (io_emit progress e2) (\<lambda>_.
     io_then (wait_multifactor_active env a progress) (\<lambda>pending.
     io_then (if pending = None \<and> flags
                 then io_then (io_emit progress e3) (\<lambda>_. configure_flags env a k ids0)
                 else io_lift (Inr (ids0, pending))) (\<lambda>(ids, pending).
        io_lift (Inr (mk ids pending password_hash)))))))) Q"
proof -
  have nil: "[] \<in> flag_writes k" by (simp add: flag_writes_def)
  have tail: "emits log (if pending = None \<and> flags
                 then io_then (io_emit progress e3) (\<lambda>_. configure_flags env a k ids0)
                 else io_lift (Inr (ids0, pending)))
      (\<lambda>r ss. ss \<in> flag_writes k \<and> (ss \<noteq> [] \<longrightarrow> flags) \<and>
         (\<forall>i x. r = Inr (i, Some x) \<longrightarrow> fst x = ''multifactor_activation'' \<longrightarrow> ss = []))" for pending
    by (rule emits_if, rule emits_silent_then [OF silent_io_emit [OF logs]], rule emits_mono [OF emits_configure [OF logs]])
       (auto intro: emits_lift nil)
  show ?thesis
    apply (rule emits_silent_then [OF silent_io_emit [OF logs]])
     apply (rule emits_lift_then)
      apply (rule emits_silent_then [OF silent_io_emit [OF logs]])
       apply (rule emits_then [OF emits_wait_active [OF logs]])
        apply (rule emits_then [OF tail])
         apply (clarsimp simp only: split_beta)
         apply (rule emits_lift)
    by (auto intro!: Qe Qr nil)
qed

lemma emits_run_deploy:
  assumes logs: "module_logs env progress log"
  shows "emits log (run_deploy_multifactor env phrase_draw salt_draw params flags progress)
           (\<lambda>r ss. deploy_writes env phrase_draw params flags r ss)"
proof -
  note calls = logs_callsD [OF module_logsD(1) [OF logs]]
  have stop: "deploy_writes env phrase_draw params flags (Inl e) []" for e by (simp add: deploy_writes_def)
  have addr: "silent log (io_map_err f (wm_get_mv_multifactor env q))" for f q
    by (rule emits_map_err [OF module_logsD(2) [OF logs]])
  have sent: "deploy_writes env phrase_draw params flags r (ss @ fl)"
    if "deploy_wallet_name (dp_wallet_name params) = Inr x"
      "map_err (with_context ''Failed to gen seed'') (gen_mnemonic_and_derive_keys (base (mu_keys (wm_mf env))) 24 phrase_draw) = Inr xa"
      "map_err (with_context c) (prepare_multifactor_deploy env (prepare_params_of params x (snd xa) xb)) = Inr xc"
      "ss = [(DeployMultifactor (fst xc), snd xa)]" "fl \<in> flag_writes (snd xa)" "fl \<noteq> [] \<longrightarrow> flags"
      "case r of Inl _ \<Rightarrow> True
         | Inr res \<Rightarrow> rd_name res = md_name (fst xc) \<and> rd_address res = xb \<and> rd_phrase res = fst xa \<and> rd_pubkey res = kp_public (snd xa) \<and>
             (rd_pending_stage res = Some ''multifactor_activation'' \<longrightarrow> fl = [])"
    for r x xa xb xc fl c ss
  proof -
    have prep: "prepare_multifactor_deploy env (prepare_params_of params x (snd xa) xb) = Inr (fst xc, snd xc)"
      using that(3) by (simp add: map_err_eq_Inr)
    from prepare_name [OF this] have name: "md_name (fst xc) = x" "snd xc = WASM_HASH"
      by (simp_all add: prepare_params_of_def)
    have "deployed_as env phrase_draw params flags r (ss @ fl)"
      unfolding deployed_as_def
      by (rule exI [of _ x], rule exI [of _ "fst xa"], rule exI [of _ "snd xa"], rule exI [of _ xb], rule exI [of _ "fst xc"], rule exI [of _ fl])
        (use that prep name in \<open>simp split: sum.splits\<close>)
    then show ?thesis by (simp add: deploy_writes_def)
  qed
  have nil: "[] \<in> flag_writes k" for k by (simp add: flag_writes_def)
  have sent_err: "deploy_writes env phrase_draw params flags (Inl e) ss"
    if "deploy_wallet_name (dp_wallet_name params) = Inr x"
      "map_err (with_context ''Failed to gen seed'') (gen_mnemonic_and_derive_keys (base (mu_keys (wm_mf env))) 24 phrase_draw) = Inr xa"
      "map_err (with_context c) (prepare_multifactor_deploy env (prepare_params_of params x (snd xa) xb)) = Inr xc"
      "ss = [(DeployMultifactor (fst xc), snd xa)]" for e x xa xb xc c ss
    using sent [OF that nil, of "Inl e"] by simp
  show ?thesis
    unfolding run_deploy_multifactor_def Let_def
    apply (rule emits_lift_then)
     apply (rule emits_lift_then, simp only: split_beta)
      apply (rule emits_silent_then [OF addr])
       apply (rule emits_lift_then, simp only: split_beta)
        apply (rule emits_lift_then, simp only: split_beta)
         apply (rule emits_silent_then [OF silent_io_emit [OF logs]])
          apply (rule emits_then [OF calls(5)])
           apply (rule emits_after_deploy [OF logs])
            apply (rule sent, assumption+, simp)
           apply (rule sent, assumption+, simp)
          apply (rule sent_err, assumption+)
    by (simp_all add: stop)
qed

lemma emits_deploy_multifactor:
  assumes "module_logs env progress log"
  shows "emits log (deploy_multifactor env phrase_draw salt_draw params flags progress)
           (\<lambda>r ss. deploy_writes env phrase_draw params flags r ss)"
  unfolding emits_def
proof (intro allI impI)
  fix w r w' assume run: "deploy_multifactor env phrase_draw salt_draw params flags progress w = (r, w')"
  let ?w0 = "emit progress (progress_event ''deploy'' ''preparing'') (wm_acquire env w)"
  have emit: "log (emit progress e v) = log v" for e v by (rule module_logsD(7) [OF assms])
  obtain r1 w1 where deploy: "run_deploy_multifactor env phrase_draw salt_draw params flags progress ?w0 = (r1, w1)" by fastforce
  from run deploy have "r = r1" "log w' = log w1"
    by (auto simp: deploy_multifactor_def Let_def emit_deploy_outcome_def report_failure_def emit split: sum.splits option.splits)
  with emitsD [OF emits_run_deploy [OF assms] deploy] emit module_logsD(6) [OF assms]
  show "\<exists>ss. log w' = log w @ ss \<and> deploy_writes env phrase_draw params flags r ss" by simp
qed


section \<open>A concrete wallet\<close>

definition google_claims :: claim_env where
  "google_claims = \<lparr> cm_utf8_valid = (\<lambda>_. True), cm_json_from_str = (\<lambda>_. Inr (JObj [(''iss'', JStr ''https://accounts.google.com'')])) \<rparr>"

text \<open>Waiting for the account gives the error, when there is one.\<close>

definition toy_modules :: "AppError option \<Rightarrow> toy_mf_world module_env" where
  "toy_modules e = \<lparr> wm_mf = toy_mf\<lparr>mu_wait_active := (\<lambda>_ _ _ w. (case e of None \<Rightarrow> Inr () | Some x \<Rightarrow> Inl x, w))\<rparr>,
     wm_acquire = id, wm_limiter = id, wm_claims = google_claims, wm_debug_provider = provider_text,
     wm_root_certs = (\<lambda>d. Inr [(d, ''cert'')]), wm_get_mv_multifactor = (\<lambda>_ w. (Inr ''0:m'', w)),
     wm_spawn_boost = (\<lambda>_ _. id), wm_now_secs = (\<lambda>w. (1000, w)), wm_modulus_expire_at = (\<lambda>_. ''0'') \<rparr>"

lemma toy_modules_sel:
  "wm_acquire (toy_modules e) = id" "wm_limiter (toy_modules e) = id" "wm_claims (toy_modules e) = google_claims"
  "wm_root_certs (toy_modules e) = (\<lambda>d. Inr [(d, ''cert'')])" "wm_get_mv_multifactor (toy_modules e) = (\<lambda>_ w. (Inr ''0:m'', w))"
  "mu_keys (wm_mf (toy_modules e)) = toy_keys" "mu_mirror (wm_mf (toy_modules e)) = (\<lambda>_. Inr (''0:mirror'', 1))"
  "mu_wait_active (wm_mf (toy_modules e)) = (\<lambda>_ _ _ w. (case e of None \<Rightarrow> Inr () | Some x \<Rightarrow> Inl x, w))"
  by (simp_all add: toy_modules_def toy_mf_def)

lemma toy_modules_logs: "module_logs (toy_modules e) None ty_log"
  by (simp add: module_logs_def logs_calls_def emits_def toy_modules_def toy_mf_def emit_def)

lemma toy_modules_send:
  "mf_send (wm_mf (toy_modules e)) a c k x y w = (Inr \<lparr> sm_message_hash = Some ''id'', sm_aborted = None, sm_exit_code = None \<rparr>,
     w\<lparr>ty_state := toy_step c (ty_state w), ty_log := ty_log w @ [(c, k)]\<rparr>)"
  using toy_mf_send [of a c k x y w] by (simp add: mf_send_def toy_modules_def)

definition toy_deploy :: ParamsOfDeployMultifactor where
  "toy_deploy = \<lparr> dp_wallet_name = ''alice'', dp_zkid = ''1'', dp_password = ''pw'', dp_proof = [], dp_epk = hex_enc [5],
     dp_esk = hex_enc (replicate 32 3), dp_jwk_modulus = [], dp_jwk_modulus_expire_at = 9, dp_index_mod_4 = 0,
     dp_iss_base_64 = ''YWJ9'', dp_header_base_64 = [], dp_epk_expire_at = 9, dp_kid = [], dp_sub = ''sub'' \<rparr>"

lemma google_provider:
  "get_auth_provider google_claims \<lparr> cc_value = ''YWJ9'', cc_index_mod_4 = 0 \<rparr> = Inr Google"
proof -
  have "decode_base64_url google_claims ''YWJ9'' 0 = Inr ''ab}''" by code_simp
  moreover have "verify_extended_claim google_claims ''ab}'' ''iss'' = Inr ''https://accounts.google.com''"
    by (simp add: verify_extended_claim_def google_claims_def)
  ultimately show ?thesis
    by (simp only: get_auth_provider_def Claim.select_convs map_err.simps and_then.simps) (simp add: from_iss_def)
qed

lemma toy_deploy_prepared:
  "\<exists>p. prepare_multifactor_deploy (toy_modules e) (prepare_params_of toy_deploy name k a) = Inr (p, WASM_HASH)"
proof -
  have "\<exists>rk. build_recovery_keys toy_keys ''pw'' a = Inr rk" "\<exists>jk. build_update_jwk_keys toy_keys ''pw'' ''sub'' = Inr jk"
    by (simp_all add: toy_keys_run) (simp_all add: toy_keys_def del: hex_enc.simps)
  then obtain rk jk where keys: "build_recovery_keys toy_keys ''pw'' a = Inr rk" "build_update_jwk_keys toy_keys ''pw'' ''sub'' = Inr jk" by blast
  have sig: "sign_detached_hex (base toy_keys) (hex_enc [5]) (hex_enc (replicate 32 3)) = Inr (hex_enc [5])"
    by (simp add: sign_detached_hex_def decode_hex_def vault_env.truncate_def del: hex_enc.simps)
      (simp add: toy_keys_def del: hex_enc.simps)
  show ?thesis
    by (simp add: prepare_multifactor_deploy_def provider_certificates_def toy_modules_sel prepare_params_of_def toy_deploy_def
        google_provider get_domain_by_auth_provider_def keys sig del: hex_enc.simps replicate.simps)
qed

definition toy_owner :: KeyPair where
  "toy_owner = \<lparr> kp_public = hex_enc [2], kp_secret = hex_enc (replicate 32 3) \<rparr>"

lemma toy_generated: "gen_mnemonic_and_derive_keys (base toy_keys) 24 (Inr phrase) = Inr (phrase, toy_owner)"
  by (simp add: gen_mnemonic_and_derive_keys_def from_tvm_def vault_env.truncate_def del: hex_enc.simps replicate.simps)
    (simp add: toy_keys_def toy_owner_def CURRENT_DERIVATION_PATH_def del: hex_enc.simps replicate.simps)

lemma toy_hashed: "\<exists>h. random_salted_hash (base toy_keys) pw (Inr salt) = Inr h"
  by (simp add: random_salted_hash_def drawn_def)

lemma toy_name: "deploy_wallet_name ''alice'' = Inr ''alice''"
  by code_simp

definition toy_start :: toy_mf_world where
  "toy_start = \<lparr> ty_state = ''flagged'', ty_log = [] \<rparr>"

lemma toy_deploy_run:
  "\<exists>p h. run_deploy_multifactor (toy_modules e) (Inr phrase) (Inr []) toy_deploy False None toy_start =
     (case e of
        None \<Rightarrow> Inr \<lparr> rd_name = md_name p, rd_address = ''0:m'', rd_message_id = Some ''id'', rd_message_ids = [''id''],
            rd_pending_stage = None, rd_pending_reason = None, rd_password_hash = h, rd_phrase = phrase, rd_pubkey = kp_public toy_owner,
            rd_signing_keys = \<lparr> kp_public = hex_enc [5], kp_secret = hex_enc (replicate 32 3) \<rparr> \<rparr>
      | Some x \<Rightarrow>
          if is_confirmation_pending_error (with_context ''Wait multifactor active'' x)
          then Inr \<lparr> rd_name = md_name p, rd_address = ''0:m'', rd_message_id = Some ''id'', rd_message_ids = [''id''],
            rd_pending_stage = Some ''multifactor_activation'', rd_pending_reason = Some (ae_message (with_context ''Wait multifactor active'' x)),
            rd_password_hash = h, rd_phrase = phrase, rd_pubkey = kp_public toy_owner,
            rd_signing_keys = \<lparr> kp_public = hex_enc [5], kp_secret = hex_enc (replicate 32 3) \<rparr> \<rparr>
          else Inl (with_context ''Wait multifactor active'' x),
      toy_start\<lparr>ty_log := [(DeployMultifactor p, toy_owner)]\<rparr>)"
proof -
  obtain p where p: "prepare_multifactor_deploy (toy_modules e) (prepare_params_of toy_deploy ''alice'' toy_owner ''0:m'') = Inr (p, WASM_HASH)"
    using toy_deploy_prepared by blast
  obtain h where h: "random_salted_hash (base toy_keys) ''pw'' (Inr []) = Inr h" using toy_hashed by blast
  have params: "dp_wallet_name toy_deploy = ''alice''" "dp_password toy_deploy = ''pw''" "dp_epk toy_deploy = hex_enc [5]"
    "dp_esk toy_deploy = hex_enc (replicate 32 3)"
    by (simp_all add: toy_deploy_def del: hex_enc.simps replicate.simps)
  show ?thesis
    by (rule exI [of _ p], rule exI [of _ h])
      (simp add: run_deploy_multifactor_def Let_def params toy_name toy_modules_sel toy_generated p h
         wallet_mirror_for_pubkey_def mirror_from_seed_def io_emit_def emit_def toy_modules_send toy_step_def toy_start_def
         wait_multifactor_active_def push_message_id_def split: option.split del: hex_enc.simps replicate.simps)
qed


text \<open>
  Further property.  An error after the message has been sent returns neither the phrase nor the keys that own the
  account: for every phrase the deployment under the fixed name is written, signed with the keys of the phrase,
  and the result is the same error.
\<close>

theorem deploy_error_loses_phrase:
  "\<exists>e. \<forall>phrase. \<exists>p w'. deploy_multifactor (toy_modules (Some (app_error_new ''connection reset''))) (Inr phrase) (Inr []) toy_deploy False None toy_start =
     (Inl e, w') \<and> ty_log w' = [(DeployMultifactor p, toy_owner)]"
proof (rule exI [of _ "with_context ''Wait multifactor active'' (app_error_new ''connection reset'')"], rule allI)
  fix phrase
  have pending: "\<not> is_confirmation_pending_error (with_context ''Wait multifactor active'' (app_error_new ''connection reset''))"
    by code_simp
  show "\<exists>p w'. deploy_multifactor (toy_modules (Some (app_error_new ''connection reset''))) (Inr phrase) (Inr []) toy_deploy False None toy_start =
     (Inl (with_context ''Wait multifactor active'' (app_error_new ''connection reset'')), w') \<and> ty_log w' = [(DeployMultifactor p, toy_owner)]"
    using toy_deploy_run [of "Some (app_error_new ''connection reset'')" phrase] pending
    by (auto simp: deploy_multifactor_def emit_def toy_modules_sel report_failure_def)
qed

lemma toy_rated_poll:
  assumes "toy_decode (ty_state w) = Inr d" "p d"
  shows "rated_poll (toy_modules e) a p w = (Inr d, w)"
proof -
  have "mf_details (wm_mf (toy_modules e)) a = mf_details toy_mf a"
    by (simp add: mf_details_def toy_modules_def)
  with assms show ?thesis
    by (simp add: rated_poll_def poll_until_rated_def toy_modules_sel poll_until_def Let_def mf_details_def toy_details poll_loop.simps)
qed

definition toy_update :: UpdateMultifactorZkIdReq where
  "toy_update = \<lparr> uq_address = ''0:m'', uq_zkid = [], uq_password = ''pw'', uq_proof = [], uq_epk = hex_enc [5],
     uq_esk = hex_enc (replicate 32 3), uq_jwk_modulus = [], uq_jwk_modulus_expire_at = 9, uq_index_mod_4 = 0,
     uq_iss_base_64 = ''YWJ9'', uq_header_base_64 = [], uq_epk_expire_at = 9, uq_pubkey = ''aa'', uq_secretkey = ''bb'',
     uq_kid = [], uq_sub = ''sub'' \<rparr>"


section \<open>Adding a factor\<close>

lemma emits_add_jwk:
  assumes "module_logs env progress log"
  shows "emits log (add_jwk_modulus (wm_mf env) a data kid pw sub h)
    (\<lambda>r ss. ss = [] \<and> isl r \<or> (\<exists>lv sn tls k. ss = [(AddJwkModulus lv sn tls, k)] \<and> pubkey_matches (kp_public k) (acc_jwk_update_key data)))"
proof -
  note calls = logs_callsD [OF module_logsD(1) [OF assms]]
  have tls: "silent log (io_map_err f (fetch_tls (wm_mf env) i m))" for f i m
    unfolding fetch_tls_def
    by (rule emits_map_err, rule emits_silent_then, rule emits_map_err, rule module_logsD(5) [OF assms])
      (auto intro: emits_lift)
  have signer: "pubkey_matches (kp_public (fst kp)) (acc_jwk_update_key data)"
    if "resolve_jwk_update_signer (mu_keys (wm_mf env)) pw sub (acc_jwk_update_key data) = Inr kp" for kp
    using that resolve_on_paths_matches [of _ _ _ _ "fst kp" "snd kp"]
    by (auto simp: resolve_jwk_update_signer_def resolve_sign_keys_def res_simps)
  show ?thesis
    unfolding add_jwk_modulus_def
    apply (rule emits_silent_then [OF tls], simp only: split_beta)
      apply (rule emits_lift_then)
       apply (rule emits_lift_then, simp only: split_beta)
        apply (rule emits_then [OF calls(5)])
         apply (rule emits_silent_then [OF calls(3)])
          apply (rule emits_lift)
    by (auto dest: signer)
qed

lemma silent_confirm_increment:
  assumes "module_logs env progress log"
  shows "silent log (confirm_factor_increment (wm_mf env) (mf_details (wm_mf env) a) p progress m t)"
  unfolding emits_def
proof (intro allI impI)
  fix w r w' assume run: "confirm_factor_increment (wm_mf env) (mf_details (wm_mf env) a) p progress m t w = (r, w')"
  note details = logs_callsD(2) [OF module_logsD(1) [OF assms]] and emit = module_logsD(7) [OF assms]
  let ?poll = "poll_until app_error_from_string (mu_sleep_ms (wm_mf env))
    (\<lambda>w. mf_details (wm_mf env) a (emit progress (progress_event ''add_factor'' ''confirming'') w)) p (Some m) (Some t)"
  have "silent log (\<lambda>w. mf_details (wm_mf env) a (emit progress (progress_event ''add_factor'' ''confirming'') w))"
    unfolding emits_def
  proof (intro allI impI)
    fix w r w' assume "mf_details (wm_mf env) a (emit progress (progress_event ''add_factor'' ''confirming'') w) = (r, w')"
    from emitsD [OF details this] emit show "\<exists>ss. log w' = log w @ ss \<and> ss = []" by simp
  qed
  moreover have "log (mu_sleep_ms (wm_mf env) t w) = log w" for t w
    using module_logsD(1) [OF assms] by (simp add: logs_calls_def)
  ultimately have silent: "silent log ?poll" by (rule silent_poll)
  obtain r1 w1 where poll: "?poll w = (r1, w1)" by fastforce
  from emitsD [OF silent poll] run poll emit show "\<exists>ss. log w' = log w @ ss \<and> ss = []"
    by (auto simp: confirm_factor_increment_def split: sum.splits if_splits)
qed

lemma emits_add_factor:
  assumes "module_logs env progress log"
  shows "emits log (add_zkp_factor (wm_mf env) a data q progress)
    (\<lambda>r ss. ss = [(AddZkpFactor (zf_proof q) (''0x'' @ zf_epk q) (zf_kid q) (zf_header_base_64 q) (zf_epk_expire_at q),
                    \<lparr> kp_public = zf_epk q, kp_secret = zf_esk q \<rparr>)])"
proof -
  have confirm: "emits log (\<lambda>w. io_then (confirm_factor_increment (wm_mf env) (mf_details (wm_mf env) a) p progress m t)
      (\<lambda>_. io_lift (Inr id)) (emit progress e w)) (\<lambda>r ss. ss = [])" for p m t id e
    unfolding emits_def
  proof (intro allI impI)
    fix w r w'
    assume run: "io_then (confirm_factor_increment (wm_mf env) (mf_details (wm_mf env) a) p progress m t) (\<lambda>_. io_lift (Inr id))
      (emit progress e w) = (r, w')"
    have "silent log (io_then (confirm_factor_increment (wm_mf env) (mf_details (wm_mf env) a) p progress m t) (\<lambda>_. io_lift (Inr id)))"
      by (rule emits_silent_then [OF silent_confirm_increment [OF assms]]) (auto intro: emits_lift)
    from emitsD [OF this run] module_logsD(7) [OF assms] show "\<exists>ss. log w' = log w @ ss \<and> ss = []" by simp
  qed
  show ?thesis
    unfolding add_zkp_factor_def Let_def
    by (rule emits_then [OF logs_callsD(5) [OF module_logsD(1) [OF assms]]]) (auto intro: emits_mono [OF confirm])
qed

lemma emits_deployed_data:
  assumes "module_logs env progress log"
  shows "emits log (deployed_account_data env a) (\<lambda>r ss. ss = [] \<and> (\<exists>v v'. deployed_account_data env a v = (r, v')))"
  unfolding emits_def
proof (intro allI impI)
  fix w r w' assume run: "deployed_account_data env a w = (r, w')"
  have "log (snd (ac_is_deployed (mu_account (wm_mf env)) a w)) = log w" "log (snd (ac_data (mu_account (wm_mf env)) a w)) = log w" for w
    using module_logsD(1) [OF assms] by (simp_all add: logs_calls_def)
  from this(1) [of w] this(2) [of "snd (ac_is_deployed (mu_account (wm_mf env)) a w)"] run
  have "log w' = log w"
    by (auto simp: deployed_account_data_def split: prod.splits if_splits option.splits)
  with run show "\<exists>ss. log w' = log w @ ss \<and> ss = [] \<and> (\<exists>v v'. deployed_account_data env a v = (r, v'))" by auto
qed

definition factor_message :: "ParamsOfAddZKPFactor \<Rightarrow> mf_call \<times> KeyPair" where
  "factor_message params =
     (AddZkpFactor (af_proof params) (''0x'' @ af_epk params) (af_kid params) (af_header_base_64 params) (sint (af_epk_expire_at params)),
      \<lparr> kp_public = af_epk params, kp_secret = af_esk params \<rparr>)"

text \<open>The addition of the modulus: at most one, signed by the key that the account names for it.\<close>

definition modulus_writes :: "AccountData \<Rightarrow> (mf_call \<times> KeyPair) list \<Rightarrow> bool" where
  "modulus_writes data ss \<longleftrightarrow>
     ss = [] \<or> (\<exists>lv sn tls k. ss = [(AddJwkModulus lv sn tls, k)] \<and> pubkey_matches (kp_public k) (acc_jwk_update_key data))"

definition factor_writes :: "'w module_env \<Rightarrow> ParamsOfAddZKPFactor \<Rightarrow> bool \<Rightarrow> (mf_call \<times> KeyPair) list \<Rightarrow> bool" where
  "factor_writes env params finished ss \<longleftrightarrow>
     ss = [] \<and> \<not> finished \<or>
     (\<exists>a data v v' modulus.
        deployed_account_data env a v = (Inr data, v') \<and> acc_zkid data = af_zkid params \<and> modulus_writes data modulus \<and>
        (ss = modulus \<and> \<not> finished \<or> ss = modulus @ [factor_message params]))"

lemma emits_modulus_step:
  assumes "module_logs env progress log"
  shows "emits log (if c then io_then (io_emit progress e1) (\<lambda>_.
             io_then (io_map_err f (add_jwk_modulus (wm_mf env) a data kid pw sub h)) (\<lambda>message_id.
             io_then (io_emit progress e2) (\<lambda>_. io_lift (Inr (push_message_id [] message_id)))))
           else io_lift (Inr [])) (\<lambda>r ss. modulus_writes data ss)"
proof -
  have nil: "modulus_writes data []" by (simp add: modulus_writes_def)
  have jwk: "emits log (io_map_err f (add_jwk_modulus (wm_mf env) a data kid pw sub h)) (\<lambda>r ss. modulus_writes data ss)"
    by (rule emits_map_err, rule emits_mono [OF emits_add_jwk [OF assms]]) (auto simp: modulus_writes_def)
  note said = silent_io_emit [OF assms]
  show ?thesis
    apply (rule emits_if)
     apply (rule emits_silent_then [OF said])
      apply (rule emits_then [OF jwk])
       apply (rule emits_silent_then [OF said])
        apply (rule emits_lift)
    by (simp_all add: nil emits_lift)
qed

text \<open>Everything after the account has been read and the identity compared.\<close>

lemma emits_factor_steps:
  assumes logs: "module_logs env progress log"
    and stop: "\<And>e ss. modulus_writes data ss \<Longrightarrow> Q (Inl e) ss"
    and added: "\<And>r ss. modulus_writes data ss \<Longrightarrow> Q r (ss @ [factor_message params])"
    and message: "zf_proof q = af_proof params" "zf_epk q = af_epk params" "zf_kid q = af_kid params" "zf_esk q = af_esk params"
      "zf_header_base_64 q = af_header_base_64 params" "zf_epk_expire_at q = sint (af_epk_expire_at params)"
  shows "emits log (io_then (if c then io_then (io_emit progress e1) (\<lambda>_.
             io_then (io_map_err f (add_jwk_modulus (wm_mf env) a data kid pw sub h)) (\<lambda>message_id.
             io_then (io_emit progress e2) (\<lambda>_. io_lift (Inr (push_message_id [] message_id)))))
           else io_lift (Inr [])) (\<lambda>message_ids.
         io_then (io_map_err g (add_zkp_factor (wm_mf env) a data q progress)) (\<lambda>message_id.
         io_then (io_lift hashed) (\<lambda>password_hash.
         io_lift (Inr (mk message_ids message_id password_hash)))))) Q"
proof -
  have add: "emits log (io_map_err g (add_zkp_factor (wm_mf env) a data q progress)) (\<lambda>r ss. ss = [factor_message params])"
    by (rule emits_map_err, rule emits_mono [OF emits_add_factor [OF logs]]) (simp add: message factor_message_def)
  show ?thesis
    apply (rule emits_then [OF emits_modulus_step [OF logs]])
     apply (rule emits_then [OF add])
      apply (rule emits_lift_then)
       apply (rule emits_lift)
    by (simp_all add: stop added)
qed

lemma emits_run_add_factor:
  assumes logs: "module_logs env progress log"
  shows "emits log (run_add_zkp_factor env salt_draw params progress) (\<lambda>r ss. factor_writes env params (\<not> isl r) ss)"
proof -
  have stop: "factor_writes env params False []" by (simp add: factor_writes_def)
  have indexer: "silent log (io_map_err f (ac_get_indexer (mu_account (wm_mf env)) n))" for f n
    by (rule emits_map_err [OF module_logsD(3) [OF logs]])
  have details: "silent log (io_map_err f (ac_indexer_details (mu_account (wm_mf env)) n))" for f n
    by (rule emits_map_err [OF module_logsD(4) [OF logs]])
  have clock: "silent log (\<lambda>w. case wm_now_secs env w of (now, w) \<Rightarrow> (Inr now, w))"
    unfolding emits_def
  proof (intro allI impI)
    fix w and r :: "'b + u64" and w' assume "(case wm_now_secs env w of (now, w) \<Rightarrow> (Inr now, w)) = (r, w')"
    with module_logsD(9) [OF logs, of w] show "\<exists>ss. log w' = log w @ ss \<and> ss = []" by (auto split: prod.splits)
  qed
  have known: "factor_writes env params (\<not> isl r) ss"
    if "deployed_account_data env a v = (Inr data, v')" "acc_zkid data = af_zkid params" "modulus_writes data modulus"
      "ss = modulus \<and> isl r \<or> ss = modulus @ [factor_message params]" for a v data v' modulus r ss
    using that unfolding factor_writes_def by blast
  show ?thesis
    unfolding run_add_zkp_factor_def Let_def
    apply (rule emits_silent_then [OF indexer])
     apply (rule emits_silent_then [OF details])
      apply (rule emits_then [OF emits_deployed_data [OF logs]])
       apply (elim conjE exE)
       apply (rule emits_if)
        apply (rule emits_lift)
        apply (simp add: stop)
       apply (rule emits_lift_then)
        apply (rule emits_silent_then [OF clock])
         apply (rule emits_factor_steps [OF logs])
                apply (rule known, assumption, simp, assumption, simp)
               apply (rule known, assumption, simp, assumption, simp)
    by (simp_all add: stop)
qed


definition toy_factor :: ParamsOfAddZKPFactor where
  "toy_factor = \<lparr> af_wallet_name = ''alice'', af_proof = ''proof'', af_epk = ''05'', af_esk = ''06'', af_header_base_64 = [],
     af_epk_expire_at = 9, af_jwk_expires_at = 9, af_kid = [], af_sub = ''sub'', af_password = ''pw'', af_zkid = [] \<rparr>"

lemma toy_deployed_data:
  "deployed_account_data (toy_modules e) a w = (toy_decode (ty_state w), w)"
  by (simp add: deployed_account_data_def toy_modules_def toy_mf_def) (simp add: toy_decode_def)

lemma toy_confirmed:
  assumes "toy_decode (ty_state w) = Inr d" "p d" "m \<noteq> 0"
  shows "confirm_factor_increment (wm_mf (toy_modules e)) (mf_details (wm_mf (toy_modules e)) a) p None m t w = (Inr d, w)"
proof -
  have "mf_details (wm_mf (toy_modules e)) a = mf_details toy_mf a"
    by (simp add: mf_details_def toy_modules_def)
  with assms show ?thesis
    by (simp add: confirm_factor_increment_def emit_def poll_until_def Let_def mf_details_def toy_details poll_loop.simps)
qed


end
