(* ===== verification/DexProtocol.thy ===== *)
theory DexProtocol
  imports Numerals Message
begin

text \<open>
  The typed requests and responses of the DEX over a connection
  (\<open>bee_connect/src/dex_protocol.rs\<close>): the envelopes, the dispatch on the kind of a request, the checks of
  the version, the expiry and the amounts, and the responses.  The readers of the parameters of each kind are
  derived by serde and are fields of \<open>dex_serde\<close>.
\<close>

section \<open>Envelopes\<close>

definition PROTOCOL_VERSION :: string where "PROTOCOL_VERSION = ''1''"

record DexRequestEnvelope =
  rq_protocol_version :: string
  rq_chain_id :: string
  rq_kind :: string
  rq_request_id :: string
  rq_created_at :: "u64 option"
  rq_valid_until :: "u64 option"
  rq_params :: json

record DexErrorPayload =
  er_code :: string
  er_message :: string
  er_details :: "json option"

record DexResponseEnvelope =
  rs_protocol_version :: string
  rs_kind :: string
  rs_request_id :: string
  rs_ok :: bool
  rs_result :: "json option"
  rs_error :: "DexErrorPayload option"

record DexRequestAck =
  ak_protocol_version :: string
  ak_kind :: string
  ak_request_id :: string
  ak_ack :: bool

record DexLabels =
  lb_event :: "string option"
  lb_outcomes :: "string list option"
  lb_outcome :: "string option"
  lb_site_description :: "string option"

section \<open>Parameters\<close>

record DeployPmpParams =
  dpp_event_id :: string
  dpp_oracle_list_hash :: string
  dpp_oracle_fee :: "string list"
  dpp_token_type :: u32
  dpp_names :: "string list"
  dpp_index :: "u64 list"
  dpp_initial_stakes :: "string list"
  dpp_outcome_count :: "u32 option"
  dpp_gas_to_fund :: "string option"
  dpp_labels :: "DexLabels option"

record SetStakeParams =
  ssp_pmp_address :: string
  ssp_event_id :: string
  ssp_oracle_list_hash :: string
  ssp_token_type :: u32
  ssp_outcome :: u32
  ssp_amount :: string
  ssp_use_coupon :: bool
  ssp_gas_to_fund :: "string option"
  ssp_labels :: "DexLabels option"

record ClaimParams =
  clp_pmp_address :: string
  clp_event_id :: string
  clp_oracle_list_hash :: string
  clp_token_type :: u32
  clp_gas_to_fund :: "string option"
  clp_labels :: "DexLabels option"

record CancelStakeParams =
  csp_pmp_address :: string
  csp_event_id :: string
  csp_oracle_list_hash :: string
  csp_token_type :: u32
  csp_gas_to_fund :: "string option"
  csp_labels :: "DexLabels option"

record DeployPmpResult =
  dpr_pmp_address :: string
  dpr_source_note_dih :: string
  dpr_gas_funded :: "string option"

record SetStakeResult =
  ssr_source_note_dih :: string
  ssr_tx_hash :: "string option"

record ClaimResult =
  clr_source_note_dih :: string

record CancelStakeResult =
  csr_source_note_dih :: string

datatype DexTypedParams =
    DeployPmp DeployPmpParams
  | SetStake SetStakeParams
  | ClaimStake ClaimParams
  | CancelStake CancelStakeParams

record dex_serde =
  dx_deploy_pmp :: "json \<Rightarrow> DeployPmpParams result"
  dx_set_stake :: "json \<Rightarrow> SetStakeParams result"
  dx_claim :: "json \<Rightarrow> ClaimParams result"
  dx_cancel_stake :: "json \<Rightarrow> CancelStakeParams result"

definition DEX_DEPLOY_PMP_REQUEST :: string where "DEX_DEPLOY_PMP_REQUEST = ''dex_deploy_pmp_request''"
definition DEX_SET_STAKE_REQUEST :: string where "DEX_SET_STAKE_REQUEST = ''dex_set_stake_request''"
definition DEX_CLAIM_REQUEST :: string where "DEX_CLAIM_REQUEST = ''dex_claim_request''"
definition DEX_CANCEL_STAKE_REQUEST :: string where "DEX_CANCEL_STAKE_REQUEST = ''dex_cancel_stake_request''"
definition DEX_DEPLOY_PMP_RESPONSE :: string where "DEX_DEPLOY_PMP_RESPONSE = ''dex_deploy_pmp_response''"
definition DEX_SET_STAKE_RESPONSE :: string where "DEX_SET_STAKE_RESPONSE = ''dex_set_stake_response''"
definition DEX_CLAIM_RESPONSE :: string where "DEX_CLAIM_RESPONSE = ''dex_claim_response''"
definition DEX_CANCEL_STAKE_RESPONSE :: string where "DEX_CANCEL_STAKE_RESPONSE = ''dex_cancel_stake_response''"
definition DEX_REQUEST_RECEIVED :: string where "DEX_REQUEST_RECEIVED = ''dex_request_received''"

lemmas dex_kinds = DEX_DEPLOY_PMP_REQUEST_def DEX_SET_STAKE_REQUEST_def DEX_CLAIM_REQUEST_def DEX_CANCEL_STAKE_REQUEST_def
  DEX_DEPLOY_PMP_RESPONSE_def DEX_SET_STAKE_RESPONSE_def DEX_CLAIM_RESPONSE_def DEX_CANCEL_STAKE_RESPONSE_def

definition parse_params :: "dex_serde \<Rightarrow> DexRequestEnvelope \<Rightarrow> DexTypedParams result" where
  "parse_params env request =
     (if rq_kind request = DEX_DEPLOY_PMP_REQUEST
      then and_then (map_err (\<lambda>e. ''parse deploy_pmp params: '' @ e) (dx_deploy_pmp env (rq_params request))) (\<lambda>p. Inr (DeployPmp p))
      else if rq_kind request = DEX_SET_STAKE_REQUEST
      then and_then (map_err (\<lambda>e. ''parse set_stake params: '' @ e) (dx_set_stake env (rq_params request))) (\<lambda>p. Inr (SetStake p))
      else if rq_kind request = DEX_CLAIM_REQUEST
      then and_then (map_err (\<lambda>e. ''parse claim params: '' @ e) (dx_claim env (rq_params request))) (\<lambda>p. Inr (ClaimStake p))
      else if rq_kind request = DEX_CANCEL_STAKE_REQUEST
      then and_then (map_err (\<lambda>e. ''parse cancel_stake params: '' @ e) (dx_cancel_stake env (rq_params request))) (\<lambda>p. Inr (CancelStake p))
      else Inl (''unknown dex request kind: '' @ rq_kind request))"

definition dex_is_expired :: "DexRequestEnvelope \<Rightarrow> u64 \<Rightarrow> bool" where
  "dex_is_expired request now_unix =
     (case rq_valid_until request of None \<Rightarrow> False | Some t \<Rightarrow> now_unix > t)"

definition validate_version :: "DexRequestEnvelope \<Rightarrow> unit result" where
  "validate_version request =
     (if rq_protocol_version request \<noteq> PROTOCOL_VERSION
      then Inl (''unsupported protocol_version: '' @ rq_protocol_version request)
      else Inr ())"

section \<open>Responses\<close>

text \<open>\<open>trim_end_matches(pat)\<close> drops the pattern from the end as often as it is there.\<close>

fun trim_start_matches :: "string \<Rightarrow> string \<Rightarrow> string" where
  "trim_start_matches pat [] = []"
| "trim_start_matches pat (c # cs) =
     (case strip_prefix pat (c # cs) of
        Some t \<Rightarrow> (if length t < length (c # cs) then trim_start_matches pat t else c # cs)
      | None \<Rightarrow> c # cs)"

definition trim_end_matches :: "string \<Rightarrow> string \<Rightarrow> string" where
  "trim_end_matches pat s = rev (trim_start_matches (rev pat) (rev s))"

definition response_kind :: "string \<Rightarrow> string" where
  "response_kind request_kind = trim_end_matches ''_request'' request_kind @ ''_response''"

definition dex_success :: "string \<Rightarrow> string \<Rightarrow> json \<Rightarrow> DexResponseEnvelope" where
  "dex_success request_kind request_id res =
     \<lparr> rs_protocol_version = PROTOCOL_VERSION, rs_kind = response_kind request_kind, rs_request_id = request_id,
       rs_ok = True, rs_result = Some res, rs_error = None \<rparr>"

definition dex_error :: "string \<Rightarrow> string \<Rightarrow> string \<Rightarrow> string \<Rightarrow> DexResponseEnvelope" where
  "dex_error request_kind request_id code message =
     \<lparr> rs_protocol_version = PROTOCOL_VERSION, rs_kind = response_kind request_kind, rs_request_id = request_id,
       rs_ok = False, rs_result = None,
       rs_error = Some \<lparr> er_code = code, er_message = message, er_details = None \<rparr> \<rparr>"

definition dex_request_ack :: "string \<Rightarrow> DexRequestAck" where
  "dex_request_ack request_id =
     \<lparr> ak_protocol_version = PROTOCOL_VERSION, ak_kind = DEX_REQUEST_RECEIVED, ak_request_id = request_id, ak_ack = True \<rparr>"

section \<open>Amounts\<close>

definition parse_u128_decimal :: "string \<Rightarrow> u128 result" where
  "parse_u128_decimal s = map_err (\<lambda>e. ''invalid u128 decimal '' @ [CHR 39] @ s @ [CHR 39] @ '': '' @ e) (parse_u s)"

text \<open>The loop over the amounts of a field, from index \<open>i\<close> on; an error names the element.\<close>

fun validate_amounts :: "string \<Rightarrow> nat \<Rightarrow> string list \<Rightarrow> (string \<times> string) + unit" where
  "validate_amounts field i [] = Inr ()"
| "validate_amounts field i (s # ss) =
     and_then (map_err (\<lambda>e. (field @ ''['' @ show_nat i @ '']'', e)) (parse_u128_decimal s)) (\<lambda>_.
     validate_amounts field (i + 1) ss)"

definition validate_gas :: "string option \<Rightarrow> (string \<times> string) + unit" where
  "validate_gas gas_to_fund =
     (case gas_to_fund of
        None \<Rightarrow> Inr ()
      | Some gas \<Rightarrow> and_then (map_err (\<lambda>e. (''gas_to_fund'', e)) (parse_u128_decimal gas)) (\<lambda>_. Inr ()))"

definition validate_deploy_pmp_params :: "DeployPmpParams \<Rightarrow> (string \<times> string) + unit" where
  "validate_deploy_pmp_params p =
     and_then (validate_amounts ''oracle_fee'' 0 (dpp_oracle_fee p)) (\<lambda>_.
     and_then (validate_amounts ''initial_stakes'' 0 (dpp_initial_stakes p)) (\<lambda>_.
     and_then (validate_gas (dpp_gas_to_fund p)) (\<lambda>_.
     case dpp_outcome_count p of
       None \<Rightarrow> Inr ()
     | Some oc \<Rightarrow>
         if length (dpp_initial_stakes p) \<noteq> unat oc
         then Inl (''outcome_count'',
                ''initial_stakes.len()='' @ show_nat (length (dpp_initial_stakes p)) @ '' != outcome_count='' @ show_u oc)
         else Inr ())))"

definition validate_set_stake_params :: "SetStakeParams \<Rightarrow> (string \<times> string) + unit" where
  "validate_set_stake_params p =
     and_then (map_err (\<lambda>e. (''amount'', e)) (parse_u128_decimal (ssp_amount p))) (\<lambda>_.
     validate_gas (ssp_gas_to_fund p))"

section \<open>What the protocol promises\<close>

text \<open>The kinds of the request and of the response that belong to typed parameters.\<close>

fun request_kind_of :: "DexTypedParams \<Rightarrow> string" where
  "request_kind_of (DeployPmp _) = DEX_DEPLOY_PMP_REQUEST"
| "request_kind_of (SetStake _) = DEX_SET_STAKE_REQUEST"
| "request_kind_of (ClaimStake _) = DEX_CLAIM_REQUEST"
| "request_kind_of (CancelStake _) = DEX_CANCEL_STAKE_REQUEST"

fun response_kind_of :: "DexTypedParams \<Rightarrow> string" where
  "response_kind_of (DeployPmp _) = DEX_DEPLOY_PMP_RESPONSE"
| "response_kind_of (SetStake _) = DEX_SET_STAKE_RESPONSE"
| "response_kind_of (ClaimStake _) = DEX_CLAIM_RESPONSE"
| "response_kind_of (CancelStake _) = DEX_CANCEL_STAKE_RESPONSE"

lemma response_kinds:
  "response_kind DEX_DEPLOY_PMP_REQUEST = DEX_DEPLOY_PMP_RESPONSE"
  "response_kind DEX_SET_STAKE_REQUEST = DEX_SET_STAKE_RESPONSE"
  "response_kind DEX_CLAIM_REQUEST = DEX_CLAIM_RESPONSE"
  "response_kind DEX_CANCEL_STAKE_REQUEST = DEX_CANCEL_STAKE_RESPONSE"
  by code_simp+

lemma response_kind_of_request: "response_kind (request_kind_of t) = response_kind_of t"
  by (cases t) (simp_all add: response_kinds)

lemma request_kinds_distinct:
  "distinct [DEX_DEPLOY_PMP_REQUEST, DEX_SET_STAKE_REQUEST, DEX_CLAIM_REQUEST, DEX_CANCEL_STAKE_REQUEST]"
  by code_simp

lemma parse_params_kind: "parse_params env request = Inr t \<Longrightarrow> rq_kind request = request_kind_of t"
  by (auto simp: parse_params_def res_simps split: if_splits)

lemma parse_params_unknown: "(\<And>t. rq_kind request \<noteq> request_kind_of t) \<Longrightarrow> \<exists>e. parse_params env request = Inl e"
  using request_kind_of.simps by (metis parse_params_def)

text \<open>
  Further property.  A request that is parsed has the kind of its typed parameters, and both responses to it have the
  kind that message.rs names for it and its id; a request of any other kind is an error.
\<close>

theorem dex_response_kinds:
  "(case parse_params env request of
      Inr t \<Rightarrow>
        rq_kind request = request_kind_of t \<and>
        rs_kind (dex_success (rq_kind request) request_id res) = response_kind_of t \<and>
        rs_kind (dex_error (rq_kind request) request_id code message) = response_kind_of t
    | Inl e \<Rightarrow> e = ''unknown dex request kind: '' @ rq_kind request \<longleftrightarrow> rq_kind request \<notin> range request_kind_of)"
proof (cases "parse_params env request")
  case (Inr t)
  then show ?thesis
    using parse_params_kind [OF Inr] by (simp add: dex_success_def dex_error_def response_kind_of_request)
next
  case (Inl e)
  show ?thesis
  proof (cases "rq_kind request \<in> range request_kind_of")
    case True
    then obtain t where t: "rq_kind request = request_kind_of t" by blast
    have "e \<noteq> ''unknown'' @ s" for s
      using Inl t request_kinds_distinct by (cases t) (auto simp: parse_params_def res_simps)
    from this [of "'' dex request kind: '' @ rq_kind request"] True Inl show ?thesis by simp
  next
    case False
    then have "rq_kind request \<noteq> request_kind_of t" for t by blast
    from this [of "DeployPmp undefined"] this [of "SetStake undefined"] this [of "ClaimStake undefined"] this [of "CancelStake undefined"]
    show ?thesis using Inl False by (auto simp: parse_params_def)
  qed
qed

section \<open>Amounts\<close>

text \<open>The decimal numerals of 128 bits, with the sign that the parser takes.\<close>

definition decimal_u128 :: "string \<Rightarrow> bool" where
  "decimal_u128 s \<longleftrightarrow> (\<exists>t. t \<noteq> [] \<and> list_all is_digit t \<and> (s = t \<or> s = ''+'' @ t) \<and> read_dec t < 2 ^ 128)"

lemma parse_u128_iff: "isl (parse_u128_decimal s) \<longleftrightarrow> \<not> decimal_u128 s"
proof -
  have "(\<exists>w :: u128. parse_u s = Inr w) \<longleftrightarrow> decimal_u128 s"
  proof
    assume "\<exists>w :: u128. parse_u s = Inr w"
    then obtain w :: u128 where "parse_u s = Inr w" ..
    with unat_bound [of w] show "decimal_u128 s" by (auto simp: parse_u_eq_Inr decimal_u128_def)
  next
    assume "decimal_u128 s"
    then obtain t where t: "t \<noteq> []" "list_all is_digit t" "s = t \<or> s = ''+'' @ t" "read_dec t < 2 ^ 128"
      unfolding decimal_u128_def by blast
    then have "parse_u s = Inr (word_of_nat (read_dec t) :: u128)"
      unfolding parse_u_eq_Inr by (intro exI [of _ t]) (simp add: unat_of_nat)
    then show "\<exists>w :: u128. parse_u s = Inr w" by blast
  qed
  then show ?thesis
    by (cases "parse_u s :: u128 result") (auto simp: parse_u128_decimal_def)
qed

lemma validate_amounts_ok: "validate_amounts field i ss = Inr () \<longleftrightarrow> list_all decimal_u128 ss"
proof (induction ss arbitrary: i)
  case (Cons s ss)
  then show ?case using parse_u128_iff [of s] by (cases "parse_u128_decimal s") simp_all
qed simp

lemma validate_amounts_error:
  "validate_amounts field i ss = Inl (f, e) \<Longrightarrow>
     \<exists>j < length ss. f = field @ ''['' @ show_nat (i + j) @ '']'' \<and> \<not> decimal_u128 (ss ! j) \<and> list_all decimal_u128 (take j ss)"
proof (induction ss arbitrary: i)
  case (Cons s ss)
  show ?case
  proof (cases "parse_u128_decimal s")
    case (Inl x)
    with Cons.prems parse_u128_iff [of s] show ?thesis by (intro exI [of _ 0]) simp
  next
    case (Inr x)
    with Cons.prems have "validate_amounts field (i + 1) ss = Inl (f, e)" by simp
    from Cons.IH [OF this] obtain j where "j < length ss" "f = field @ ''['' @ show_nat (i + 1 + j) @ '']''"
      "\<not> decimal_u128 (ss ! j)" "list_all decimal_u128 (take j ss)" by blast
    with Inr parse_u128_iff [of s] show ?thesis by (intro exI [of _ "Suc j"]) simp
  qed
qed simp

lemma validate_gas_ok: "validate_gas gas = Inr () \<longleftrightarrow> (\<forall>g. gas = Some g \<longrightarrow> decimal_u128 g)"
proof (cases gas)
  case (Some g)
  then show ?thesis using parse_u128_iff [of g] by (cases "parse_u128_decimal g") (simp_all add: validate_gas_def)
qed (simp add: validate_gas_def)

lemma validate_gas_error: "validate_gas gas = Inl (f, e) \<Longrightarrow> f = ''gas_to_fund'' \<and> (\<exists>g. gas = Some g \<and> \<not> decimal_u128 g)"
proof (cases gas)
  case (Some g)
  then show "validate_gas gas = Inl (f, e) \<Longrightarrow> f = ''gas_to_fund'' \<and> (\<exists>g. gas = Some g \<and> \<not> decimal_u128 g)"
    using parse_u128_iff [of g] by (cases "parse_u128_decimal g") (simp_all add: validate_gas_def)
qed (simp add: validate_gas_def)

text \<open>
  Further property.  The parameters of a deployment are accepted exactly when every amount is a decimal numeral of 128
  bits and the number of stakes is the announced one.  An error names the first wrong element: of the fees, then of
  the stakes, then the gas, then the count.
\<close>

theorem deploy_pmp_validated:
  "(case validate_deploy_pmp_params p of
      Inr _ \<Rightarrow>
        list_all decimal_u128 (dpp_oracle_fee p @ dpp_initial_stakes p) \<and>
        (\<forall>g. dpp_gas_to_fund p = Some g \<longrightarrow> decimal_u128 g) \<and>
        (\<forall>n. dpp_outcome_count p = Some n \<longrightarrow> length (dpp_initial_stakes p) = unat n)
    | Inl (field, e) \<Rightarrow>
        (\<exists>j < length (dpp_oracle_fee p). field = ''oracle_fee['' @ show_nat j @ '']'' \<and>
           \<not> decimal_u128 (dpp_oracle_fee p ! j) \<and> list_all decimal_u128 (take j (dpp_oracle_fee p))) \<or>
        list_all decimal_u128 (dpp_oracle_fee p) \<and>
        ((\<exists>j < length (dpp_initial_stakes p). field = ''initial_stakes['' @ show_nat j @ '']'' \<and>
            \<not> decimal_u128 (dpp_initial_stakes p ! j) \<and> list_all decimal_u128 (take j (dpp_initial_stakes p))) \<or>
         list_all decimal_u128 (dpp_initial_stakes p) \<and>
         (field = ''gas_to_fund'' \<and> (\<exists>g. dpp_gas_to_fund p = Some g \<and> \<not> decimal_u128 g) \<or>
          field = ''outcome_count'' \<and> (\<exists>n. dpp_outcome_count p = Some n \<and> length (dpp_initial_stakes p) \<noteq> unat n))))"
proof (cases "validate_amounts ''oracle_fee'' 0 (dpp_oracle_fee p)")
  case (Inl x)
  obtain f e where x: "x = (f, e)" by fastforce
  from validate_amounts_error [OF Inl [unfolded x]] Inl x show ?thesis by (simp add: validate_deploy_pmp_params_def)
next
  case (Inr u)
  then have fees: "list_all decimal_u128 (dpp_oracle_fee p)" using validate_amounts_ok by fastforce
  show ?thesis
  proof (cases "validate_amounts ''initial_stakes'' 0 (dpp_initial_stakes p)")
    case (Inl x)
    obtain f e where x: "x = (f, e)" by fastforce
    from validate_amounts_error [OF Inl [unfolded x]] Inl x Inr fees show ?thesis by (simp add: validate_deploy_pmp_params_def)
  next
    case (Inr v)
    note amounts = \<open>validate_amounts ''oracle_fee'' 0 (dpp_oracle_fee p) = Inr u\<close> Inr
    have stakes: "list_all decimal_u128 (dpp_initial_stakes p)" using Inr validate_amounts_ok by fastforce
    show ?thesis
    proof (cases "validate_gas (dpp_gas_to_fund p)")
      case (Inl x)
      obtain f e where x: "x = (f, e)" by fastforce
      from validate_gas_error [OF Inl [unfolded x]] Inl x amounts fees stakes show ?thesis
        by (simp add: validate_deploy_pmp_params_def)
    next
      case (Inr z)
      then have "\<forall>g. dpp_gas_to_fund p = Some g \<longrightarrow> decimal_u128 g" using validate_gas_ok by fastforce
      with Inr amounts fees stakes show ?thesis
        by (cases "dpp_outcome_count p") (simp_all add: validate_deploy_pmp_params_def)
    qed
  qed
qed

definition example_deploy :: DeployPmpParams where
  "example_deploy = \<lparr> dpp_event_id = ''event'', dpp_oracle_list_hash = [], dpp_oracle_fee = [''5''], dpp_token_type = 1, dpp_names = [],
     dpp_index = [], dpp_initial_stakes = [''7'', ''+8''], dpp_outcome_count = Some 3, dpp_gas_to_fund = None, dpp_labels = None \<rparr>"

lemma decimal_u128_digit: "is_digit d \<Longrightarrow> decimal_u128 [d] \<and> decimal_u128 [CHR ''+'', d]"
proof -
  assume d: "is_digit d"
  then have "read_dec [d] < 10" by (auto simp: is_digit_def read_dec_def)
  then have "read_dec [d] < 2 ^ 128" by simp
  with d show ?thesis unfolding decimal_u128_def by (intro conjI exI [of _ "[d]"]) simp_all
qed

theorem deploy_pmp_validated_witness:
  "\<exists>e. validate_deploy_pmp_params example_deploy = Inl (''outcome_count'', e) \<and> length (dpp_initial_stakes example_deploy) \<noteq> 3"
proof -
  have amounts: "decimal_u128 ''5''" "decimal_u128 ''7''" "decimal_u128 ''+8''"
    using decimal_u128_digit by (simp_all add: is_digit_def)
  have fields: "dpp_oracle_fee example_deploy = [''5'']" "dpp_initial_stakes example_deploy = [''7'', ''+8'']"
    "dpp_gas_to_fund example_deploy = None" "dpp_outcome_count example_deploy = Some 3"
    by (simp_all add: example_deploy_def)
  show ?thesis
  proof (cases "validate_deploy_pmp_params example_deploy")
    case (Inl x)
    obtain f e where x: "x = (f, e)" by fastforce
    from deploy_pmp_validated [of example_deploy] Inl x amounts show ?thesis by (auto simp: fields less_Suc_eq)
  next
    case (Inr u)
    from deploy_pmp_validated [of example_deploy] Inr show ?thesis by (simp add: fields)
  qed
qed

end
