(* ===== verification/Balances.thy ===== *)
theory Balances
  imports Tokens
begin

text \<open>
  Balances: \<open>bee_wallet/src/services/balance/mod.rs\<close> and \<open>modules/balance.rs\<close>.  Accounts and token
  contracts are fields of \<open>balance_env\<close>; a contract is named by its address, a token contract also by its
  dApp.  A fetched account gives its amounts by currency, a big integer is an integer.
\<close>

section \<open>Environment\<close>

record 'w balance_env =
  bl_acquire :: "'w \<Rightarrow> 'w"
  bl_fetch_ecc :: "string \<Rightarrow> ('w, AppError, u32 \<rightharpoonup> int) io"
  bl_get_popitgame :: "string \<Rightarrow> ('w, AppError, string) io"
  bl_root_decimals :: "string \<Rightarrow> string \<Rightarrow> ('w, AppError, int) io"
  bl_wallet_address :: "string \<Rightarrow> string \<Rightarrow> string \<Rightarrow> ('w, AppError, string) io"
  bl_wallet_deployed :: "string \<Rightarrow> string \<Rightarrow> 'w \<Rightarrow> bool \<times> 'w"
  bl_wallet_balance :: "string \<Rightarrow> string \<Rightarrow> ('w, AppError, int) io"

record ResultOfGetBalance =
  gb_value :: int
  gb_decimals :: int

record ResultOfGetNativeBalances =
  nb_popitgame :: "u32 \<rightharpoonup> int"
  nb_ecc :: "u32 \<rightharpoonup> int"

record TokenRef =
  tr_token_root :: string
  tr_token_dapp :: string

record GetBalanceByTokenRootReq =
  br_token_root :: string
  br_token_dapp :: string
  br_multifactor_address :: string

record ResultOfGetBalanceByTokenRoot =
  bt_own_balance :: ResultOfGetBalance
  bt_locked_balance :: "ResultOfGetBalance option"

section \<open>Services\<close>

definition fetch_multifactor_ecc :: "'w balance_env \<Rightarrow> string \<Rightarrow> ('w, AppError, u32 \<rightharpoonup> int) io" where
  "fetch_multifactor_ecc env multifactor = io_map_err (with_context ''Fetch multifactor account'') (bl_fetch_ecc env multifactor)"

definition fetch_popitgame_ecc :: "'w balance_env \<Rightarrow> string \<Rightarrow> ('w, AppError, u32 \<rightharpoonup> int) io" where
  "fetch_popitgame_ecc env multifactor =
     io_then (io_map_err (with_context ''Get popitgame'') (bl_get_popitgame env multifactor)) (\<lambda>popitgame.
     io_map_err (with_context ''Get popitgame account'') (bl_fetch_ecc env popitgame))"

definition get_native_balances :: "'w balance_env \<Rightarrow> string \<Rightarrow> ('w, AppError, ResultOfGetNativeBalances) io" where
  "get_native_balances env multifactor =
     io_then (fetch_multifactor_ecc env multifactor) (\<lambda>multifactor_ecc.
     io_then (fetch_popitgame_ecc env multifactor) (\<lambda>popitgame_ecc.
     io_lift (Inr \<lparr> nb_popitgame = popitgame_ecc, nb_ecc = multifactor_ecc \<rparr>)))"

definition token_amount :: "'w balance_env \<Rightarrow> string \<Rightarrow> TokenRef \<Rightarrow> ('w, AppError, int) io" where
  "token_amount env multifactor token =
     io_then (io_map_err (with_context ''get_wallet_address failed'')
                (bl_wallet_address env (tr_token_root token) (tr_token_dapp token) multifactor)) (\<lambda>wallet w.
     case bl_wallet_deployed env wallet (tr_token_dapp token) w of (deployed, w) \<Rightarrow>
       if deployed
       then io_map_err (with_context ''token_wallet get_details failed'') (bl_wallet_balance env wallet (tr_token_dapp token)) w
       else (Inr 0, w))"

text \<open>The loop over the tokens, with the balances so far.\<close>

fun token_balances_loop ::
  "'w balance_env \<Rightarrow> string \<Rightarrow> (string \<rightharpoonup> int) \<Rightarrow> TokenRef list \<Rightarrow> ('w, AppError, string \<rightharpoonup> int) io" where
  "token_balances_loop env multifactor tokens [] = io_lift (Inr tokens)"
| "token_balances_loop env multifactor tokens (token # rest) =
     io_then (token_amount env multifactor token) (\<lambda>balance.
     token_balances_loop env multifactor (tokens(tr_token_root token \<mapsto> balance)) rest)"

definition get_tokens_balances :: "'w balance_env \<Rightarrow> string \<Rightarrow> TokenRef list \<Rightarrow> ('w, AppError, string \<rightharpoonup> int) io" where
  "get_tokens_balances env multifactor token_roots = token_balances_loop env multifactor Map.empty token_roots"

definition get_nackl_balance ::
  "'w balance_env \<Rightarrow> string \<Rightarrow> ('w, AppError, ResultOfGetBalance \<times> ResultOfGetBalance) io" where
  "get_nackl_balance env multifactor =
     io_then (fetch_multifactor_ecc env multifactor) (\<lambda>multifactor_ecc.
     io_then (fetch_popitgame_ecc env multifactor) (\<lambda>popitgame_ecc.
     io_lift (Inr (\<lparr> gb_value = unwrap_or 0 (multifactor_ecc 1), gb_decimals = 9 \<rparr>,
                   \<lparr> gb_value = unwrap_or 0 (popitgame_ecc 1), gb_decimals = 9 \<rparr>))))"

definition get_shell_balance :: "'w balance_env \<Rightarrow> string \<Rightarrow> ('w, AppError, ResultOfGetBalance) io" where
  "get_shell_balance env multifactor =
     io_then (fetch_multifactor_ecc env multifactor) (\<lambda>multifactor_ecc.
     io_lift (Inr \<lparr> gb_value = unwrap_or 0 (multifactor_ecc 2), gb_decimals = 9 \<rparr>))"

definition get_token_balance :: "'w balance_env \<Rightarrow> string \<Rightarrow> string \<Rightarrow> string \<Rightarrow> ('w, AppError, ResultOfGetBalance) io" where
  "get_token_balance env multifactor token_root token_dapp =
     io_then (io_map_err (with_context ''Get details'') (bl_root_decimals env token_root token_dapp)) (\<lambda>decimals.
     io_then (io_map_err (with_context ''Get wallet address'') (bl_wallet_address env token_root token_dapp multifactor)) (\<lambda>wallet.
     io_then (io_map_err (with_context ''Get wallet details'') (bl_wallet_balance env wallet token_dapp)) (\<lambda>balance.
     io_lift (Inr \<lparr> gb_value = balance, gb_decimals = decimals \<rparr>))))"

section \<open>The module\<close>

definition module_get_native_balances :: "'w balance_env \<Rightarrow> string \<Rightarrow> ('w, AppError, ResultOfGetNativeBalances) io" where
  "module_get_native_balances env multifactor w = get_native_balances env multifactor (bl_acquire env w)"

definition module_get_tokens_balances :: "'w balance_env \<Rightarrow> string \<Rightarrow> TokenRef list \<Rightarrow> ('w, AppError, string \<rightharpoonup> int) io" where
  "module_get_tokens_balances env multifactor token_roots w = get_tokens_balances env multifactor token_roots (bl_acquire env w)"

definition get_balance_by_token_root ::
  "'w balance_env \<Rightarrow> GetBalanceByTokenRootReq \<Rightarrow> ('w, AppError, ResultOfGetBalanceByTokenRoot) io" where
  "get_balance_by_token_root env params w =
     (if br_token_root params = ''1''
      then io_then (get_nackl_balance env (br_multifactor_address params)) (\<lambda>(own_balance, locked_balance).
           io_lift (Inr \<lparr> bt_own_balance = own_balance, bt_locked_balance = Some locked_balance \<rparr>))
      else if br_token_root params = ''2''
      then io_then (get_shell_balance env (br_multifactor_address params)) (\<lambda>own_balance.
           io_lift (Inr \<lparr> bt_own_balance = own_balance, bt_locked_balance = None \<rparr>))
      else io_then (get_token_balance env (br_multifactor_address params) (br_token_root params) (br_token_dapp params)) (\<lambda>balance.
           io_lift (Inr \<lparr> bt_own_balance = balance, bt_locked_balance = None \<rparr>))) (bl_acquire env w)"

section \<open>The answers agree\<close>

text \<open>
  Further property.  Asked in the same state, the balance of the first currency is what the list of native balances
  says of the account and of the game contract, zero where it says nothing, and fails in the same way; the
  second currency is the account's amount.
\<close>

theorem native_balances_agree:
  "case module_get_native_balances env m w of
     (Inr b, w') \<Rightarrow>
       get_balance_by_token_root env \<lparr> br_token_root = ''1'', br_token_dapp = dapp, br_multifactor_address = m \<rparr> w =
         (Inr \<lparr> bt_own_balance = \<lparr> gb_value = unwrap_or 0 (nb_ecc b 1), gb_decimals = 9 \<rparr>,
                bt_locked_balance = Some \<lparr> gb_value = unwrap_or 0 (nb_popitgame b 1), gb_decimals = 9 \<rparr> \<rparr>, w') \<and>
       fst (get_balance_by_token_root env \<lparr> br_token_root = ''2'', br_token_dapp = dapp, br_multifactor_address = m \<rparr> w) =
         Inr \<lparr> bt_own_balance = \<lparr> gb_value = unwrap_or 0 (nb_ecc b 2), gb_decimals = 9 \<rparr>, bt_locked_balance = None \<rparr>
   | (Inl e, w') \<Rightarrow>
       get_balance_by_token_root env \<lparr> br_token_root = ''1'', br_token_dapp = dapp, br_multifactor_address = m \<rparr> w = (Inl e, w')"
proof -
  obtain r1 w1 where own: "fetch_multifactor_ecc env m (bl_acquire env w) = (r1, w1)" by fastforce
  obtain r2 w2 where game: "fetch_popitgame_ecc env m w1 = (r2, w2)" by fastforce
  show ?thesis
    by (cases r1; cases r2)
      (simp_all add: module_get_native_balances_def get_native_balances_def get_balance_by_token_root_def get_nackl_balance_def
        get_shell_balance_def own game)
qed

text \<open>A chain that stands still: reading changes nothing.\<close>

definition reads_still :: "'w balance_env \<Rightarrow> bool" where
  "reads_still env \<longleftrightarrow>
     (\<forall>a d o' w. snd (bl_wallet_address env a d o' w) = w) \<and> (\<forall>a d w. snd (bl_wallet_deployed env a d w) = w) \<and>
     (\<forall>a d w. snd (bl_wallet_balance env a d w) = w) \<and> (\<forall>a d w. snd (bl_root_decimals env a d w) = w)"

lemma reads_stillD:
  assumes "reads_still env"
  shows "bl_wallet_address env a d m w = (r, w') \<Longrightarrow> w' = w" "bl_wallet_deployed env a d w = (b, w') \<Longrightarrow> w' = w"
    "bl_wallet_balance env a d w = (q, w') \<Longrightarrow> w' = w" "bl_root_decimals env a d w = (q, w') \<Longrightarrow> w' = w"
  using assms unfolding reads_still_def by (metis snd_conv)+

lemma token_amount_still:
  assumes "reads_still env" "token_amount env m token w = (r, w')"
  shows "w' = w"
proof -
  obtain a v where addr: "bl_wallet_address env (tr_token_root token) (tr_token_dapp token) m w = (a, v)" by fastforce
  from reads_stillD(1) [OF assms(1) addr] have v: "v = w" .
  show ?thesis
  proof (cases a)
    case (Inl e)
    with assms(2) addr v show ?thesis by (simp add: token_amount_def)
  next
    case (Inr wallet)
    obtain deployed u where dep: "bl_wallet_deployed env wallet (tr_token_dapp token) w = (deployed, u)" by fastforce
    obtain q x where bal: "bl_wallet_balance env wallet (tr_token_dapp token) w = (q, x)" by fastforce
    from reads_stillD(2) [OF assms(1) dep] reads_stillD(3) [OF assms(1) bal] assms(2) addr v Inr dep bal
    show ?thesis by (simp add: token_amount_def split: if_splits)
  qed
qed

lemma token_balances_loop_still:
  assumes "reads_still env"
  shows "token_balances_loop env m acc refs w = (Inr t, w') \<Longrightarrow> distinct (map tr_token_root refs) \<Longrightarrow>
     w' = w \<and> (\<forall>token \<in> set refs. \<exists>b. token_amount env m token w = (Inr b, w) \<and> t (tr_token_root token) = Some b) \<and>
     (\<forall>root. root \<notin> tr_token_root ` set refs \<longrightarrow> t root = acc root)"
proof (induction refs arbitrary: acc w)
  case (Cons token refs)
  obtain r1 w1 where amount: "token_amount env m token w = (r1, w1)" by fastforce
  from token_amount_still [OF assms amount] have "w1 = w" .
  with Cons.prems(1) amount obtain b where b: "r1 = Inr b"
    "token_balances_loop env m (acc(tr_token_root token \<mapsto> b)) refs w = (Inr t, w')"
    by (cases r1) (auto simp: io_then_def)
  from Cons.IH [OF b(2)] Cons.prems(2) amount b(1) \<open>w1 = w\<close> show ?case by auto
qed (auto simp: res_simps)

lemma get_token_balance_steps:
  assumes "reads_still env" "fst (bl_root_decimals env root dapp w) = Inr d" "fst (bl_wallet_address env root dapp m w) = Inr wallet"
  shows "get_token_balance env m root dapp w =
     (map_err (with_context ''Get wallet details'') (case fst (bl_wallet_balance env wallet dapp w) of
        Inr b \<Rightarrow> Inr \<lparr> gb_value = b, gb_decimals = d \<rparr> | Inl e \<Rightarrow> Inl e), w)"
proof -
  from assms reads_stillD [OF assms(1)] have "bl_root_decimals env root dapp w = (Inr d, w)" "bl_wallet_address env root dapp m w = (Inr wallet, w)"
    by (metis prod.collapse)+
  moreover obtain r where "bl_wallet_balance env wallet dapp w = (r, w)"
    using reads_stillD(3) [OF assms(1)] by (metis prod.collapse)
  ultimately show ?thesis by (cases r) (simp_all add: get_token_balance_def)
qed


definition toy_balances :: "unit balance_env" where
  "toy_balances = \<lparr> bl_acquire = id, bl_fetch_ecc = (\<lambda>_ w. (Inr [1 \<mapsto> 7], w)), bl_get_popitgame = (\<lambda>_ w. (Inr ''0:game'', w)),
     bl_root_decimals = (\<lambda>_ _ w. (Inr 6, w)), bl_wallet_address = (\<lambda>root _ _ w. (Inr (root @ ''-wallet''), w)),
     bl_wallet_deployed = (\<lambda>a _ w. (a = ''0:held-wallet'', w)),
     bl_wallet_balance = (\<lambda>a _ w. (if a = ''0:held-wallet'' then Inr 5 else Inl (app_error_new ''not active''), w)) \<rparr>"


text \<open>
  Further property.  The currency 3 is a native currency for transfers, but its balance is asked from a token contract
  with the address 3.
\<close>

theorem usdc_balance_asks_token_contract:
  "is_native_ecc ''3'' \<and>
   fst (get_balance_by_token_root env \<lparr> br_token_root = ''3'', br_token_dapp = dapp, br_multifactor_address = m \<rparr> w) =
     fst (io_then (get_token_balance env m ''3'' dapp) (\<lambda>b. io_lift (Inr \<lparr> bt_own_balance = b, bt_locked_balance = None \<rparr>)) (bl_acquire env w))"
proof
  have "''3'' = show_u (3 :: u32)" by code_simp
  then have "parse_u ''3'' = Inr (3 :: u32)" using parse_u_show [of "3 :: u32"] by metis
  then show "is_native_ecc ''3''" by (simp add: is_native_ecc_def)
qed (simp add: get_balance_by_token_root_def)

end
