(* ===== verification/Vouchers.thy ===== *)
theory Vouchers
  imports WalletModulesProperties
begin

text \<open>
  Vouchers of the DEX: \<open>bee_wallet/src/services/dex.rs\<close> and \<open>modules/dex.rs\<close>.  The address of the root of
  private notes and the encoding of its payload belong to the contract crates and are fields of \<open>voucher_env\<close>.
\<close>

section \<open>Generating a voucher\<close>

record 'w voucher_env =
  vo_mf :: "'w mf_env"
  vo_acquire :: "'w \<Rightarrow> 'w"
  vo_root_pn :: string
  vo_encode :: "string \<Rightarrow> bool \<Rightarrow> AppError + string"

record ParamsOfGenerateVoucher =
  gv_multifactor_address :: string
  gv_token_type :: u32
  gv_amount :: u64
  gv_is_fee :: bool
  gv_sk_u_commit :: string
  gv_signer_keys :: KeyPair

definition voucher_whitelist :: "'w voucher_env \<Rightarrow> u64 \<Rightarrow> u128 \<Rightarrow> ParamsOfUpdateMultifactorWhiteList" where
  "voucher_whitelist env epk_expire_at mirror_index =
     \<lparr> wl_epk_expire_at = epk_expire_at, wl_payload_destination = RootPn, wl_target_address = vo_root_pn env,
       wl_mirror_index = mirror_index, wl_whitelisted_name = None \<rparr>"

definition voucher_transaction :: "'w voucher_env \<Rightarrow> ParamsOfGenerateVoucher \<Rightarrow> u64 \<Rightarrow> string \<Rightarrow> submit_tx" where
  "voucher_transaction env params epk_expire_at payload =
     \<lparr> st_dest = vo_root_pn env, st_epk_expire_at = epk_expire_at, st_value = 2000000000,
       st_cc = [gv_token_type params \<mapsto> gv_amount params], st_bounce = True, st_all_balance = False,
       st_payload = Some payload \<rparr>"

definition generate_voucher ::
  "'w voucher_env \<Rightarrow> ParamsOfGenerateVoucher \<Rightarrow> u64 \<Rightarrow> u128 \<Rightarrow> ('w, AppError, ResultOfSendMessage) io" where
  "generate_voucher env params epk_expire_at mirror_index =
     io_then (io_map_err (with_context ''generate_voucher: add RootPN to whitelist'')
                (update_multifactor_whitelist_and_wait (vo_mf env) (gv_multifactor_address params)
                   (voucher_whitelist env epk_expire_at mirror_index) (gv_signer_keys params))) (\<lambda>_.
     io_then (io_lift (map_err (with_context ''encode generatevoucher payload'')
                (vo_encode env (gv_sk_u_commit params) (gv_is_fee params)))) (\<lambda>payload.
     mf_send (vo_mf env) (gv_multifactor_address params)
       (SubmitTransaction (voucher_transaction env params epk_expire_at payload)) (gv_signer_keys params)
       ''generate_voucher: submit_transaction'' ''generate_voucher''))"

definition module_generate_voucher ::
  "'w voucher_env \<Rightarrow> ParamsOfGenerateVoucher \<Rightarrow> ('w, AppError, ResultOfSendMessage) io" where
  "module_generate_voucher env params w =
     io_then (io_map_err (with_context ''Get EPK expire at'')
                (mu_get_epk_expire_at (vo_mf env) (gv_multifactor_address params) (''0x'' @ kp_public (gv_signer_keys params)))) (\<lambda>epk_expire_at.
     generate_voucher env params epk_expire_at 0) (vo_acquire env w)"

section \<open>What it writes\<close>

definition voucher_writes :: "'w voucher_env \<Rightarrow> ParamsOfGenerateVoucher \<Rightarrow> bool \<Rightarrow> (mf_call \<times> KeyPair) list \<Rightarrow> bool" where
  "voucher_writes env params finished ss \<longleftrightarrow>
     ss = [] \<and> \<not> finished \<or>
     (\<exists>epk. \<exists>ws \<in> whitelist_writes (voucher_whitelist env epk 0) (gv_signer_keys params).
        ss = ws \<and> \<not> finished \<or>
        (\<exists>payload. vo_encode env (gv_sk_u_commit params) (gv_is_fee params) = Inr payload \<and>
           ss = ws @ [(SubmitTransaction (voucher_transaction env params epk payload), gv_signer_keys params)] \<and>
           shown (vo_mf env) (gv_multifactor_address params) (\<lambda>data. whitelisted data (vo_root_pn env))))"

lemma isl_map_err: "isl (map_err h r) \<longleftrightarrow> isl r"
  by (cases r) simp_all

lemma emits_whitelisted:
  assumes "logs_calls env log"
  shows "emits log (update_multifactor_whitelist_and_wait env a q k)
    (\<lambda>r ss. ss \<in> whitelist_writes q k \<and> (\<not> isl r \<longrightarrow> shown env a (\<lambda>data. whitelisted data (wl_target_address q))))"
proof (rule emits_mono [OF emits_run [OF emits_whitelist [OF assms]]])
  fix r ss
  assume run: "ss \<in> whitelist_writes q k \<and> (\<exists>v v'. update_multifactor_whitelist_and_wait env a q k v = (r, v'))"
  show "ss \<in> whitelist_writes q k \<and> (\<not> isl r \<longrightarrow> shown env a (\<lambda>data. whitelisted data (wl_target_address q)))"
  proof (cases r)
    case (Inr ids)
    with run whitelist_result [of env a q k _ ids] show ?thesis unfolding shown_def by blast
  qed (use run in simp)
qed

lemma emits_voucher:
  assumes logs: "logs_calls (vo_mf env) log"
    and epk: "\<And>a k. silent log (mu_get_epk_expire_at (vo_mf env) a k)"
  shows "emits log (io_then (io_map_err f (mu_get_epk_expire_at (vo_mf env) a q)) (\<lambda>epk_expire_at.
           generate_voucher env params epk_expire_at 0)) (\<lambda>r ss. voucher_writes env params (\<not> isl r) ss)"
proof -
  have stop: "voucher_writes env params False []" by (simp add: voucher_writes_def)
  have wl: "emits log (io_map_err g (update_multifactor_whitelist_and_wait (vo_mf env) (gv_multifactor_address params)
        (voucher_whitelist env e 0) (gv_signer_keys params)))
      (\<lambda>r ss. ss \<in> whitelist_writes (voucher_whitelist env e 0) (gv_signer_keys params) \<and>
         (\<not> isl r \<longrightarrow> shown (vo_mf env) (gv_multifactor_address params) (\<lambda>data. whitelisted data (vo_root_pn env))))" for g e
    by (rule emits_map_err, rule emits_mono [OF emits_whitelisted [OF logs]])
      (auto simp: voucher_whitelist_def isl_map_err)
  show ?thesis
    unfolding generate_voucher_def
    apply (rule emits_silent_then [OF emits_map_err [OF epk]])
     apply (rule emits_then [OF wl])
      apply (rule emits_lift_then)
       apply (rule emits_mono [OF logs_callsD(5) [OF logs]])
       apply (auto simp: stop voucher_writes_def map_err_eq_Inr)
    done
qed

text \<open>
  Further property.  A voucher writes at most the whitelisting of the root of private notes and then one transaction
  to it, with exactly the amount in the token's currency and the encoded commitment; the transaction is written
  only after the contract has shown the address on its whitelist, and success means that it was written.
\<close>

theorem generate_voucher_writes:
  assumes "logs_calls (vo_mf env) log" "\<And>a k. silent log (mu_get_epk_expire_at (vo_mf env) a k)"
    "\<And>w. log (vo_acquire env w) = log w" "module_generate_voucher env params w = (r, w')"
  shows "\<exists>ss. log w' = log w @ ss \<and> voucher_writes env params (\<not> isl r) ss"
  using emitsD [OF emits_voucher [OF assms(1,2)] assms(4) [unfolded module_generate_voucher_def]] assms(3) by simp

definition toy_vouchers :: "toy_mf_world voucher_env" where
  "toy_vouchers = \<lparr> vo_mf = toy_mf, vo_acquire = id, vo_root_pn = ''0:miner'', vo_encode = (\<lambda>commit fee. Inr commit) \<rparr>"

definition toy_voucher :: ParamsOfGenerateVoucher where
  "toy_voucher = \<lparr> gv_multifactor_address = ''0:m'', gv_token_type = 3, gv_amount = 5, gv_is_fee = False, gv_sk_u_commit = ''0'',
     gv_signer_keys = \<lparr> kp_public = ''aa'', kp_secret = ''bb'' \<rparr> \<rparr>"

theorem generate_voucher_writes_witness:
  "\<exists>res w'. module_generate_voucher toy_vouchers toy_voucher \<lparr> ty_state = ''crowded'', ty_log = [] \<rparr> = (Inr res, w') \<and>
     voucher_writes toy_vouchers toy_voucher True (ty_log w') \<and> length (ty_log w') = 3"
proof -
  have logs: "logs_calls (vo_mf toy_vouchers) ty_log" "silent ty_log (mu_get_epk_expire_at (vo_mf toy_vouchers) a k)"
    "ty_log (vo_acquire toy_vouchers w) = ty_log w" for a k w
    using toy_mf_logs by (simp_all add: toy_vouchers_def emits_def) (simp_all add: toy_mf_def)
  have epk: "mu_get_epk_expire_at toy_mf = (\<lambda>_ _ w. (Inr 9, w))" by (simp add: toy_mf_def)
  have wl: "update_multifactor_whitelist_and_wait toy_mf a (voucher_whitelist toy_vouchers 9 0) k \<lparr> ty_state = ''crowded'', ty_log = [] \<rparr> =
     (Inr [''id'', ''id''], \<lparr> ty_state = ''listed'', ty_log = [(CleanWhitelist 9, k), (UpdateWhitelist 9 RootPn [] 0, k)] \<rparr>)" for a k
    by (simp add: update_multifactor_whitelist_and_wait_def toy_details toy_decode_def toy_data_def whitelisted_def voucher_whitelist_def
        toy_vouchers_def WHITELIST_MAX_def EXPECTED_AFTER_CLEAN_def toy_mf_send toy_step_def toy_poll
        update_multifactor_whitelist_def push_message_id_def)
  have sel: "vo_mf toy_vouchers = toy_mf" "vo_acquire toy_vouchers = id" "vo_encode toy_vouchers = (\<lambda>commit fee. Inr commit)"
    by (simp_all add: toy_vouchers_def)
  obtain res w' where run: "module_generate_voucher toy_vouchers toy_voucher \<lparr> ty_state = ''crowded'', ty_log = [] \<rparr> = (Inr res, w')"
    "length (ty_log w') = 3"
    by (simp add: module_generate_voucher_def generate_voucher_def sel epk wl toy_mf_send)
  from generate_voucher_writes [OF logs run(1)] run show ?thesis by auto
qed

end
