(* ===== verification/QueueProxy.thy ===== *)
theory QueueProxy
  imports Infra
begin

text \<open>
  The proxy that injects queue overflows (\<open>tools/queue_overflow_proxy/src/lib.rs\<close>): it answers the first
  requests for every message with an overflow, records every attempt and forwards everything else.  The web
  framework, the HTTP client, the JSON reader and writer and blake3 are fields of \<open>proxy_env\<close>; the console
  output and the life cycle of the server are left out.  The observations stand behind a lock, so that every
  attempt is recorded as one step.
\<close>

section \<open>State\<close>

definition MAX_REQUEST_BODY_BYTES :: nat where "MAX_REQUEST_BODY_BYTES = 16 * 1024 * 1024"

record MessageAttempt =
  ma_message_id :: string
  ma_body_hash :: string
  ma_attempt :: u64
  ma_observed_at :: u64
  ma_forwarded :: bool

record ProxyObservations =
  po_attempts_by_message :: "string \<rightharpoonup> u64"
  po_attempts :: "MessageAttempt list"

definition proxy_observations_default :: ProxyObservations where
  "proxy_observations_default = \<lparr> po_attempts_by_message = Map.empty, po_attempts = [] \<rparr>"

text \<open>Headers are kept with their lower-case names, in order.\<close>

record http_request =
  hr_method :: string
  hr_path :: string
  hr_path_and_query :: "string option"
  hr_headers :: "(string \<times> string) list"
  hr_body :: "byte list"

record http_response =
  hs_status :: nat
  hs_headers :: "(string \<times> string) list"
  hs_body :: "byte list"

record upstream_response =
  us_status :: nat
  us_headers :: "(string \<times> string) list"
  us_bytes :: "byte list result"

record 'w proxy_env =
  px_to_bytes :: "nat \<Rightarrow> byte list \<Rightarrow> byte list result"
  px_json :: "byte list \<Rightarrow> json result"
  px_json_text :: "json \<Rightarrow> byte list"
  px_blake3_hex :: "string \<Rightarrow> string"
  px_send :: "string \<Rightarrow> string \<Rightarrow> (string \<times> string) list \<Rightarrow> byte list \<Rightarrow> ('w, string, upstream_response) io"
  px_now :: "'w \<Rightarrow> u64"
  px_upstream :: string
  px_fail_first :: u64

text \<open>\<open>px_upstream\<close> is the configured address as \<open>spawn\<close> keeps it, without slashes at its end.\<close>

definition kept_upstream :: "string \<Rightarrow> string" where
  "kept_upstream upstream = rev (dropWhile (\<lambda>c. c = CHR ''/'') (rev upstream))"

section \<open>Messages\<close>

record MessageRequest =
  mr_id :: string
  mr_body_hash :: string

definition parse_message :: "'w proxy_env \<Rightarrow> byte list \<Rightarrow> MessageRequest option" where
  "parse_message env body =
     (case px_json env body of
        Inr (JArr (message # _)) \<Rightarrow>
          (case (Option.bind (json_get ''id'' message) json_as_str, Option.bind (json_get ''body'' message) json_as_str) of
             (Some message_id, Some encoded_boc) \<Rightarrow> Some \<lparr> mr_id = message_id, mr_body_hash = px_blake3_hex env encoded_boc \<rparr>
           | _ \<Rightarrow> None)
      | _ \<Rightarrow> None)"

definition record_attempt :: "u64 \<Rightarrow> u64 \<Rightarrow> MessageRequest \<Rightarrow> ProxyObservations \<Rightarrow> u64 \<times> ProxyObservations" where
  "record_attempt fail_first now message obs =
     (let attempt = unwrap_or 0 (po_attempts_by_message obs (mr_id message)) + 1
      in (attempt,
          \<lparr> po_attempts_by_message = (po_attempts_by_message obs)(mr_id message \<mapsto> attempt),
            po_attempts = po_attempts obs @
              [\<lparr> ma_message_id = mr_id message, ma_body_hash = mr_body_hash message, ma_attempt = attempt,
                 ma_observed_at = now, ma_forwarded = attempt > fail_first \<rparr>] \<rparr>))"

section \<open>Responses\<close>

definition json_response :: "'w proxy_env \<Rightarrow> nat \<Rightarrow> json \<Rightarrow> http_response" where
  "json_response env status body =
     \<lparr> hs_status = status,
       hs_headers = [(''content-type'', ''application/json''), (''access-control-allow-origin'', ''*'')],
       hs_body = px_json_text env body \<rparr>"

definition queue_overflow_response :: "'w proxy_env \<Rightarrow> string \<Rightarrow> http_response" where
  "queue_overflow_response env message_id =
     json_response env 200 (JObj
       [(''result'', JNull),
        (''error'', JObj [(''code'', JStr ''QUEUE_OVERFLOW''),
           (''message'', JStr ''Message queue is full. Please try to send the message later.''),
           (''data'', JObj [(''message_hash'', JStr message_id)])]),
        (''ext_message_token'', JNull)])"

definition without_headers :: "string list \<Rightarrow> (string \<times> string) list \<Rightarrow> (string \<times> string) list" where
  "without_headers names headers = filter (\<lambda>(name, _). name \<notin> set names) headers"

definition HOP_BY_HOP_REQUEST :: "string list" where
  "HOP_BY_HOP_REQUEST = [''host'', ''content-length'', ''connection'', ''transfer-encoding'', ''accept-encoding'']"

definition HOP_BY_HOP_RESPONSE :: "string list" where
  "HOP_BY_HOP_RESPONSE = [''content-length'', ''connection'', ''transfer-encoding'']"

definition forward_request :: "'w proxy_env \<Rightarrow> http_request \<Rightarrow> byte list \<Rightarrow> 'w \<Rightarrow> http_response \<times> 'w" where
  "forward_request env request body w =
     (let target = px_upstream env @ unwrap_or ''/'' (hr_path_and_query request)
      in case px_send env (hr_method request) target (without_headers HOP_BY_HOP_REQUEST (hr_headers request)) body w of
           (Inl error, w) \<Rightarrow> (json_response env 502 (JObj [(''error'', JStr (''upstream request failed: '' @ error))]), w)
         | (Inr response, w) \<Rightarrow>
             (case us_bytes response of
                Inl error \<Rightarrow> json_response env 502 (JObj [(''error'', JStr (''failed to read upstream response: '' @ error))])
              | Inr bytes \<Rightarrow>
                  \<lparr> hs_status = us_status response, hs_headers = without_headers HOP_BY_HOP_RESPONSE (us_headers response),
                    hs_body = bytes \<rparr>, w))"

definition path_ends_with :: "string \<Rightarrow> string \<Rightarrow> bool" where
  "path_ends_with suffix s = starts_with (rev suffix) (rev s)"

definition proxy_request ::
  "'w proxy_env \<Rightarrow> http_request \<Rightarrow> ProxyObservations \<times> 'w \<Rightarrow> http_response \<times> ProxyObservations \<times> 'w" where
  "proxy_request env request = (\<lambda>(obs, w).
     case px_to_bytes env MAX_REQUEST_BODY_BYTES (hr_body request) of
       Inl error \<Rightarrow> (json_response env 413 (JObj [(''error'', JStr (''failed to read request body: '' @ error))]), obs, w)
     | Inr body \<Rightarrow>
         (case (if path_ends_with ''/v2/messages'' (hr_path request) then parse_message env body else None) of
            Some message \<Rightarrow>
              (case record_attempt (px_fail_first env) (px_now env w) message obs of (attempt, obs) \<Rightarrow>
                 if attempt \<le> px_fail_first env then (queue_overflow_response env (mr_id message), obs, w)
                 else (case forward_request env request body w of (response, w) \<Rightarrow> (response, obs, w)))
          | None \<Rightarrow> (case forward_request env request body w of (response, w) \<Rightarrow> (response, obs, w))))"

definition validate_upstream :: "(string \<Rightarrow> string result) \<Rightarrow> (string \<Rightarrow> string) \<Rightarrow> string \<Rightarrow> unit result" where
  "validate_upstream url_scheme debug upstream =
     (case url_scheme upstream of
        Inl error \<Rightarrow> Inl (''invalid upstream URL '' @ debug upstream @ '': '' @ error)
      | Inr scheme \<Rightarrow>
          if scheme = ''http'' \<or> scheme = ''https'' then Inr ()
          else Inl (''unsupported upstream URL scheme '' @ debug scheme))"

section \<open>What is recorded\<close>

definition record_all :: "u64 \<Rightarrow> (u64 \<times> MessageRequest) list \<Rightarrow> ProxyObservations" where
  "record_all fail_first ms =
     foldl (\<lambda>obs (now, m). snd (record_attempt fail_first now m obs)) proxy_observations_default ms"

definition requests_of :: "string \<Rightarrow> (u64 \<times> MessageRequest) list \<Rightarrow> nat" where
  "requests_of message_id ms = length (filter (\<lambda>(_, m). mr_id m = message_id) ms)"

lemma requests_of_simps [simp]:
  "requests_of i [] = 0" "requests_of i (ms @ [(t, m)]) = requests_of i ms + (if mr_id m = i then 1 else 0)"
  by (simp_all add: requests_of_def)

lemma requests_of_le: "requests_of i ms \<le> length ms"
  by (simp add: requests_of_def)

lemma record_all_snoc: "record_all f (ms @ [(t, m)]) = snd (record_attempt f t m (record_all f ms))"
  by (simp add: record_all_def)

lemma record_all_counts:
  "length ms < 2 ^ 64 \<Longrightarrow> unat (unwrap_or 0 (po_attempts_by_message (record_all f ms) i)) = requests_of i ms"
proof (induction ms rule: rev_induct)
  case (snoc x ms)
  obtain t m where x: "x = (t, m)" by fastforce
  have "requests_of i ms + 1 < 2 ^ 64" using requests_of_le [of i ms] snoc.prems by simp
  with snoc show ?case
    by (auto simp: x record_all_snoc record_attempt_def Let_def unat_word_ariths)
qed (simp add: record_all_def proxy_observations_default_def)

lemma record_all_log:
  "length ms < 2 ^ 64 \<Longrightarrow>
     length (po_attempts (record_all f ms)) = length ms \<and>
     (\<forall>j < length ms. let a = po_attempts (record_all f ms) ! j; m = snd (ms ! j)
        in ma_message_id a = mr_id m \<and> ma_body_hash a = mr_body_hash m \<and>
           unat (ma_attempt a) = requests_of (mr_id m) (take (Suc j) ms) \<and>
           (ma_forwarded a \<longleftrightarrow> requests_of (mr_id m) (take (Suc j) ms) > unat f))"
proof (induction ms rule: rev_induct)
  case (snoc x ms)
  obtain t m where x: "x = (t, m)" by fastforce
  let ?c = "unwrap_or 0 (po_attempts_by_message (record_all f ms) (mr_id m))"
  have count: "unat ?c = requests_of (mr_id m) ms" using snoc.prems record_all_counts by simp
  have "requests_of (mr_id m) ms + 1 < 2 ^ 64" using requests_of_le [of "mr_id m" ms] snoc.prems by simp
  with count have num: "unat (?c + 1) = requests_of (mr_id m) ms + 1" by (simp add: unat_word_ariths)
  have log: "po_attempts (record_all f (ms @ [x])) = po_attempts (record_all f ms) @
     [\<lparr> ma_message_id = mr_id m, ma_body_hash = mr_body_hash m, ma_attempt = ?c + 1, ma_observed_at = t, ma_forwarded = ?c + 1 > f \<rparr>]"
    by (simp add: x record_all_snoc record_attempt_def Let_def)
  from snoc have len: "length (po_attempts (record_all f ms)) = length ms" by simp
  show ?case
  proof (intro conjI allI impI)
    fix j assume j: "j < length (ms @ [x])"
    show "let a = po_attempts (record_all f (ms @ [x])) ! j; m = snd ((ms @ [x]) ! j)
        in ma_message_id a = mr_id m \<and> ma_body_hash a = mr_body_hash m \<and>
           unat (ma_attempt a) = requests_of (mr_id m) (take (Suc j) (ms @ [x])) \<and>
           (ma_forwarded a \<longleftrightarrow> requests_of (mr_id m) (take (Suc j) (ms @ [x])) > unat f)"
    proof (cases "j < length ms")
      case True
      with snoc len show ?thesis by (simp add: log nth_append Let_def)
    next
      case False
      with j have "j = length ms" by simp
      with len num show ?thesis by (simp add: log [unfolded x] nth_append Let_def x word_less_nat_alt)
    qed
  qed (simp add: log len)
qed (simp add: record_all_def proxy_observations_default_def)

section \<open>Delivery through the proxy\<close>

text \<open>The state after \<open>k\<close> answers with an overflow; the client sleeps in between.\<close>

fun after_overflows ::
  "'w proxy_env \<Rightarrow> MessageRequest \<Rightarrow> ('w \<Rightarrow> 'w) \<Rightarrow> nat \<Rightarrow> ProxyObservations \<times> 'w \<Rightarrow> ProxyObservations \<times> 'w" where
  "after_overflows env m nap 0 s = s"
| "after_overflows env m nap (Suc k) s =
     after_overflows env m nap k (snd (record_attempt (px_fail_first env) (px_now env (snd s)) m (fst s)), nap (snd s))"

definition attempts_of :: "string \<Rightarrow> ProxyObservations \<Rightarrow> nat" where
  "attempts_of i obs = unat (unwrap_or 0 (po_attempts_by_message obs i))"

lemma record_attempt_below:
  assumes "attempts_of (mr_id m) obs < unat f"
  shows "unat (fst (record_attempt f t m obs)) = attempts_of (mr_id m) obs + 1"
    and "attempts_of (mr_id m) (snd (record_attempt f t m obs)) = attempts_of (mr_id m) obs + 1"
    and "length (po_attempts (snd (record_attempt f t m obs))) = length (po_attempts obs) + 1"
proof -
  have "attempts_of (mr_id m) obs + 1 < 2 ^ 64" using assms unat_bound [of f] by simp
  then show "unat (fst (record_attempt f t m obs)) = attempts_of (mr_id m) obs + 1"
    "attempts_of (mr_id m) (snd (record_attempt f t m obs)) = attempts_of (mr_id m) obs + 1"
    by (simp_all add: record_attempt_def attempts_of_def Let_def unat_word_ariths)
qed (simp add: record_attempt_def Let_def)

lemma after_overflows_state:
  "attempts_of (mr_id m) (fst s) + k \<le> unat (px_fail_first env) \<Longrightarrow>
     attempts_of (mr_id m) (fst (after_overflows env m nap k s)) = attempts_of (mr_id m) (fst s) + k \<and>
     length (po_attempts (fst (after_overflows env m nap k s))) = length (po_attempts (fst s)) + k \<and>
     snd (after_overflows env m nap k s) = (nap ^^ k) (snd s)"
proof (induction k arbitrary: s)
  case (Suc k)
  let ?s = "(snd (record_attempt (px_fail_first env) (px_now env (snd s)) m (fst s)), nap (snd s))"
  have "attempts_of (mr_id m) (fst s) < unat (px_fail_first env)" using Suc.prems by simp
  note step = record_attempt_below [OF this, of "px_now env (snd s)"]
  with Suc.IH [of ?s] Suc.prems show ?case by (simp add: funpow_swap1)
qed simp

text \<open>A request that carries a message, and a client that reads an injected answer as a queue overflow.\<close>

definition carries_message :: "'w proxy_env \<Rightarrow> http_request \<Rightarrow> byte list \<Rightarrow> MessageRequest \<Rightarrow> bool" where
  "carries_message env request body m \<longleftrightarrow>
     px_to_bytes env MAX_REQUEST_BODY_BYTES (hr_body request) = Inr body \<and>
     path_ends_with ''/v2/messages'' (hr_path request) \<and> parse_message env body = Some m"

definition send_through ::
  "'w proxy_env \<Rightarrow> http_request \<Rightarrow> (http_response \<Rightarrow> ClientError + 'a) \<Rightarrow> (ProxyObservations \<times> 'w, ClientError, 'a) io" where
  "send_through env request read s = (case proxy_request env request s of (response, s) \<Rightarrow> (read response, s))"

lemma send_below:
  assumes "carries_message env request body m" "attempts_of (mr_id m) (fst s) < unat (px_fail_first env)"
  shows "send_through env request read s =
    (read (queue_overflow_response env (mr_id m)), (snd (record_attempt (px_fail_first env) (px_now env (snd s)) m (fst s)), snd s))"
proof -
  obtain n obs where r: "record_attempt (px_fail_first env) (px_now env (snd s)) m (fst s) = (n, obs)" by fastforce
  with record_attempt_below(1) [OF assms(2), of "px_now env (snd s)"] assms(2) have "n \<le> px_fail_first env"
    by (simp add: word_le_nat_alt)
  with r assms(1) show ?thesis by (cases s) (simp add: send_through_def proxy_request_def carries_message_def)
qed

lemma send_beyond:
  assumes "carries_message env request body m" "attempts_of (mr_id m) (fst s) = unat (px_fail_first env)" "unat (px_fail_first env) < 2 ^ 64 - 1"
  shows "send_through env request read s =
    (read (fst (forward_request env request body (snd s))),
     (snd (record_attempt (px_fail_first env) (px_now env (snd s)) m (fst s)), snd (forward_request env request body (snd s))))"
proof -
  obtain n obs where r: "record_attempt (px_fail_first env) (px_now env (snd s)) m (fst s) = (n, obs)" by fastforce
  then have "n = unwrap_or 0 (po_attempts_by_message (fst s) (mr_id m)) + 1" by (auto simp: record_attempt_def Let_def)
  with assms(2,3) have "\<not> n \<le> px_fail_first env"
    by (simp add: word_le_nat_alt attempts_of_def unat_word_ariths)
  with r assms(1) show ?thesis
    by (cases s) (simp add: send_through_def proxy_request_def carries_message_def split: prod.splits)
qed

definition nap_through :: "('w \<Rightarrow> 'w) \<Rightarrow> duration \<Rightarrow> ProxyObservations \<times> 'w \<Rightarrow> ProxyObservations \<times> 'w" where
  "nap_through nap d s = (fst s, nap (snd s))"

definition clock_through :: "('w \<Rightarrow> u64) \<Rightarrow> ProxyObservations \<times> 'w \<Rightarrow> u64" where
  "clock_through clock s = clock (snd s)"

lemma overflow_rounds:
  assumes "carries_message env request body m" "read (queue_overflow_response env (mr_id m)) = Inl e" "is_queue_overflow e"
  shows "attempts_of (mr_id m) (fst s) + k \<le> unat (px_fail_first env) \<Longrightarrow>
     (\<And>j. j < k \<Longrightarrow> unat (clock ((nap ^^ j) (snd s))) + 1000 < unat d) \<Longrightarrow>
     rounds_world (overflow_round (send_through env request read) (nap_through nap) (clock_through clock) d) n s k =
       Some (after_overflows env m nap k s)"
proof (induction k arbitrary: n s)
  case (Suc k)
  let ?s = "(snd (record_attempt (px_fail_first env) (px_now env (snd s)) m (fst s)), nap (snd s))"
  have below: "attempts_of (mr_id m) (fst s) < unat (px_fail_first env)" using Suc.prems(1) by simp
  have "overflow_round (send_through env request read) (nap_through nap) (clock_through clock) d n s = Inr ?s"
    using Suc.prems(2) [of 0] assms(2,3)
    by (simp add: overflow_round_def send_below [OF assms(1) below] nap_through_def clock_through_def)
  moreover have "unat (clock ((nap ^^ j) (snd ?s))) + 1000 < unat d" if "j < k" for j
    using Suc.prems(2) [of "Suc j"] that by (simp add: funpow_swap1)
  ultimately show ?case
    using Suc.IH [of ?s "n + 1"] Suc.prems(1) record_attempt_below(2) [OF below, of "px_now env (snd s)"] by simp
qed simp

text \<open>
  Property C39.  A message that is sent through the proxy for the first time, with the retry of the wallet and with
  time enough, is delivered after as many sleeps as requests are to fail when these are at most thirty; beyond that
  the overflow is returned and nothing is forwarded.  The proxy has then seen one attempt more than the failed
  ones, at most thirty-one.
\<close>

theorem delivery_through_proxy:
  fixes clock :: "'w \<Rightarrow> u64"
  assumes carried: "carries_message env request body m"
    and injected: "read (queue_overflow_response env (mr_id m)) = Inl e" "is_queue_overflow e"
    and fresh: "attempts_of (mr_id m) obs = 0"
    and time: "\<And>j. j < min 30 (unat (px_fail_first env)) \<Longrightarrow> unat (clock ((nap ^^ j) w)) + 1000 < unat expires_at * 1000"
    and answer: "\<And>v error. read (fst (forward_request env request body v)) = Inl error \<Longrightarrow> \<not> is_queue_overflow error"
  shows "\<exists>obs'. length (po_attempts obs') = length (po_attempts obs) + min 30 (unat (px_fail_first env)) + 1 \<and>
    with_queue_overflow_retry (send_through env request read) (nap_through nap) (clock_through clock) (Some expires_at) (obs, w) =
    (if unat (px_fail_first env) \<le> 30
     then (let (response, v) = forward_request env request body ((nap ^^ unat (px_fail_first env)) w) in (read response, (obs', v)))
     else (Inl e, (obs', (nap ^^ 30) w)))"
proof -
  let ?f = "unat (px_fail_first env)" and ?k = "min 30 (unat (px_fail_first env))"
  let ?d = "ucast expires_at * 1000 :: u64" and ?s = "after_overflows env m nap (min 30 (unat (px_fail_first env))) (obs, w)"
  have d: "unat ?d = unat expires_at * 1000"
  proof -
    have "unat expires_at < 2 ^ 32" using unat_bound [of expires_at] by simp
    moreover have "unat (ucast expires_at :: u64) = unat expires_at" by (simp add: unat_ucast_up)
    ultimately show ?thesis by (simp add: unat_word_ariths)
  qed
  have rounds: "rounds_world (overflow_round (send_through env request read) (nap_through nap) (clock_through clock) ?d) 0 (obs, w) ?k = Some ?s"
    using overflow_rounds [where read = read, OF carried injected, of "(obs, w)" ?k clock nap ?d 0] fresh time d by simp
  have state: "attempts_of (mr_id m) (fst ?s) = ?k" "length (po_attempts (fst ?s)) = length (po_attempts obs) + ?k" "snd ?s = (nap ^^ ?k) w"
    using after_overflows_state [of m "(obs, w)" ?k env nap] fresh by simp_all
  let ?obs = "snd (record_attempt (px_fail_first env) (px_now env (snd ?s)) m (fst ?s))"
  have len: "length (po_attempts ?obs) = length (po_attempts obs) + ?k + 1"
    using state(2) by (simp add: record_attempt_def Let_def)
  show ?thesis
  proof (cases "?f \<le> 30")
    case True
    let ?r = "forward_request env request body ((nap ^^ ?f) w)"
    have sent: "send_through env request read ?s = (read (fst ?r), (?obs, snd ?r))"
      using send_beyond [OF carried, of ?s read] state(1,3) True by (simp add: min_absorb2)
    have "with_queue_overflow_retry (send_through env request read) (nap_through nap) (clock_through clock) (Some expires_at) (obs, w) =
        (read (fst ?r), (?obs, snd ?r))"
      by (rule queue_overflow_retry_spec [OF rounds sent]) (use True answer in auto)
    with len True show ?thesis by (auto simp: split_beta Let_def)
  next
    case False
    then have k: "?k = 30" by simp
    with state(1) False have "attempts_of (mr_id m) (fst ?s) < ?f" by simp
    from send_below [OF carried this, of read] injected(1)
    have sent: "send_through env request read ?s = (Inl e, (?obs, snd ?s))" by simp
    have "with_queue_overflow_retry (send_through env request read) (nap_through nap) (clock_through clock) (Some expires_at) (obs, w) =
        (Inl e, (?obs, snd ?s))"
      by (rule queue_overflow_retry_spec [OF rounds sent]) (use k in simp)
    with len False state(3) k show ?thesis by auto
  qed
qed

text \<open>
  Further property.  The log of the proxy holds every request in order, each with the number of requests for the same
  message up to it, and marks it as forwarded exactly when that number is beyond the ones that are to fail; the
  requests for one message do not count for another.
\<close>

theorem proxy_log:
  assumes "length ms < 2 ^ 64"
  shows "length (po_attempts (record_all f ms)) = length ms \<and>
     (\<forall>j < length ms. let a = po_attempts (record_all f ms) ! j; m = snd (ms ! j)
        in ma_message_id a = mr_id m \<and> ma_body_hash a = mr_body_hash m \<and>
           unat (ma_attempt a) = requests_of (mr_id m) (take (Suc j) ms) \<and>
           (ma_forwarded a \<longleftrightarrow> requests_of (mr_id m) (take (Suc j) ms) > unat f))"
  by (rule record_all_log [OF assms])

definition toy_message :: "string \<Rightarrow> MessageRequest" where
  "toy_message i = \<lparr> mr_id = i, mr_body_hash = ''hash'' \<rparr>"

theorem proxy_log_witness:
  "ma_attempt (po_attempts (record_all 1 [(5, toy_message ''a''), (6, toy_message ''b''), (7, toy_message ''a'')]) ! 2) = 2 \<and>
   ma_forwarded (po_attempts (record_all 1 [(5, toy_message ''a''), (6, toy_message ''b''), (7, toy_message ''a'')]) ! 2)"
proof -
  let ?ms = "[(5, toy_message ''a''), (6, toy_message ''b''), (7, toy_message ''a'')]"
  have count: "requests_of (mr_id (snd (?ms ! 2))) (take (Suc 2) ?ms) = 2" by code_simp
  have len: "length ?ms < 2 ^ 64" by simp
  have "2 < length ?ms" by simp
  with proxy_log [OF len, of 1] count have
    "unat (ma_attempt (po_attempts (record_all 1 ?ms) ! 2)) = 2 \<and> ma_forwarded (po_attempts (record_all 1 ?ms) ! 2)"
    unfolding Let_def by (metis one_less_numeral_iff semiring_norm(76) unat_1)
  then show ?thesis by (simp add: word_unat_eq_iff)
qed

definition toy_overflow :: ClientError where
  "toy_overflow = \<lparr> ce_code = 0, ce_message = [],
     ce_data = JObj [(''node_error'', JObj [(''extensions'', JObj [(''code'', JStr ''QUEUE_OVERFLOW'')])])], ce_display = [] \<rparr>"

definition toy_proxy :: "nat proxy_env" where
  "toy_proxy = \<lparr> px_to_bytes = (\<lambda>_ b. Inr b), px_json = (\<lambda>_. Inr (JArr [JObj [(''id'', JStr ''a''), (''body'', JStr ''boc'')]])),
     px_json_text = (\<lambda>_. [1]), px_blake3_hex = (\<lambda>_. ''hash''),
     px_send = (\<lambda>_ _ _ _ w. (Inr \<lparr> us_status = 200, us_headers = [], us_bytes = Inr [2] \<rparr>, w)),
     px_now = word_of_nat, px_upstream = ''http://node'', px_fail_first = 2 \<rparr>"

definition toy_request :: http_request where
  "toy_request = \<lparr> hr_method = ''POST'', hr_path = ''/v2/messages'', hr_path_and_query = None, hr_headers = [], hr_body = [] \<rparr>"

definition toy_read :: "http_response \<Rightarrow> ClientError + byte list" where
  "toy_read response = (if hs_body response = [1] then Inl toy_overflow else Inr (hs_body response))"

theorem delivery_through_proxy_witness:
  "\<exists>obs'. length (po_attempts obs') = 3 \<and>
     with_queue_overflow_retry (send_through toy_proxy toy_request toy_read) (nap_through ((+) 1000)) (clock_through word_of_nat)
       (Some 60) (proxy_observations_default, 0) = (Inr [2], (obs', 2000))"
proof -
  have carried: "carries_message toy_proxy toy_request [] (toy_message ''a'')"
    unfolding carries_message_def by (simp add: toy_proxy_def toy_request_def parse_message_def toy_message_def) code_simp
  have answer: "forward_request toy_proxy toy_request [] v = (\<lparr> hs_status = 200, hs_headers = [], hs_body = [2] \<rparr>, v)" for v
    by (simp add: forward_request_def toy_proxy_def toy_request_def without_headers_def)
  have injected: "toy_read (queue_overflow_response toy_proxy (mr_id (toy_message ''a''))) = Inl toy_overflow"
    by (simp add: toy_read_def queue_overflow_response_def json_response_def toy_proxy_def)
  have overflow: "is_queue_overflow toy_overflow" by code_simp
  have fresh: "attempts_of (mr_id (toy_message ''a'')) proxy_observations_default = 0"
    by (simp add: attempts_of_def proxy_observations_default_def)
  have fail: "unat (px_fail_first toy_proxy) = 2" by (simp add: toy_proxy_def)
  have time: "unat (word_of_nat (((+) 1000 ^^ j) 0) :: u64) + 1000 < unat (60 :: u32) * 1000" if "j < min 30 (unat (px_fail_first toy_proxy))" for j
  proof -
    have "j = 0 \<or> j = 1" using that unfolding fail by arith
    then show ?thesis by (elim disjE) simp_all
  qed
  have no_overflow: "\<not> is_queue_overflow error" if "toy_read (fst (forward_request toy_proxy toy_request [] v)) = Inl error" for v error
    using that by (simp add: answer toy_read_def)
  from delivery_through_proxy [where read = toy_read and nap = "(+) 1000" and clock = word_of_nat and w = 0 and expires_at = 60, OF carried injected overflow fresh time no_overflow]
  show ?thesis by (auto simp: fail answer toy_read_def proxy_observations_default_def numeral_2_eq_2 Let_def)
qed

end
