(* ===== verification/Spec2Isabelle.thy ===== *)
theory Spec2Isabelle
  imports Prelude Infra Shared Mining Verifier Worker Message Dh Errors ConnectClient
    ConnectOps WalletConnect ConnectProtocol ConnectEndToEnd ActiveSessions
    Numerals Accounts History HistoryPages HistoryProperties SellOrders SellOrdersPaging
    Logs MultisigDeploy MultisigSends Vault VaultProperties KeyDerivation WalletInfra
    MultifactorOps MultifactorProperties Tokens TokensProperties Poseidon ZkLogin ZkComplete ZkProperties
    ZkClaims ZkClaimsProperties WalletModules WalletModulesProperties DexProtocol
    Balances Vouchers QueueProxy
begin

text \<open>
  \<^bold>\<open>A verification library for bee-engine.\<close>

  bee-engine is a Rust workspace around a blockchain: a miner that turns taps into proofs of work
  and commits them in Merkle trees (\<open>bee_miner\<close>), the verifier of these sessions (\<open>bee_verifier\<close>,
  with the types of \<open>bee_shared\<close>), a protocol between applications and wallets over the events of a
  profile contract (\<open>bee_connect\<close> and the connect parts of \<open>bee_wallet\<close>), the wallet itself, and
  the infrastructure they share (\<open>bee_infra\<close>, \<open>bee_errors\<close>).

  \<^bold>\<open>Conventions.\<close>  A struct is a record, an enum a datatype, an unsigned integer a word of its
  width; \<open>Result\<close> is a sum with the error on the left.  Code that calls the chain, the clock or the
  random generator is a function of a world \<open>'w\<close> that returns the world after the call; the calls
  themselves are fields of an environment record, since the contract kit, the TVM client, serde,
  blake3, rs_merkle and the cryptographic crates are not part of the sources.  What the properties
  rely on of them is stated as named predicates on these records (\<open>merkle_lib_ok\<close>, \<open>crypto_ok\<close>,
  \<open>connect_env_ok\<close>, \<open>wallet_env_ok\<close>, and the like), each shown to hold for a concrete instance in
  the witnesses.

  \<^bold>\<open>Theories.\<close>

  \<^item> \<open>Prelude\<close>: results, world-passing programs, saturating words, byte and text codecs, JSON values;
    the locales \<open>fixed_codec\<close>, \<open>sealed_channel\<close> and \<open>ratchet\<close>.
  \<^item> \<open>Infra\<close> (\<open>bee_infra/src\<close>): rate limiter, polling, retry policies with back-off, and the resending
    of messages after queue overflows.
  \<^item> \<open>Shared\<close> (\<open>bee_shared/src\<close>): leaves, their preimages and proofs of work, and the decoder of a
    verification request.
  \<^item> \<open>Mining\<close> (\<open>bee_miner/src/core\<close>): the nonce search, the Merkle processor, the mining session, the
    choice of complexities and the mining keys.
  \<^item> \<open>Verifier\<close> (\<open>bee_verifier/src\<close>): the four openings of a session and the result bytes.
  \<^item> \<open>Worker\<close> (\<open>bee_miner/src/wasm\<close>): the cooperative tasks of the miner between their suspension
    points, the miner object, and the interleavings of tasks, calls and contract events as a step
    relation.
  \<^item> \<open>Message\<close>, \<open>Dh\<close> (\<open>bee_connect/src/message.rs\<close>, \<open>dh.rs\<close>): encrypted bodies, key agreement and the
    ratchet.  \<open>Errors\<close> (\<open>bee_errors/src/lib.rs\<close>): errors and their classification.
  \<^item> \<open>ConnectClient\<close>, \<open>ConnectOps\<close> (\<open>bee_connect/src/client.rs\<close>): the client's codecs and scans, and its
    operations on the chain.
  \<^item> \<open>WalletConnect\<close> (\<open>bee_wallet/src/services/connect.rs\<close>, \<open>modules/connect.rs\<close>): the wallet's side.
  \<^item> \<open>ConnectProtocol\<close>, \<open>ConnectEndToEnd\<close>: the two sides put together, with concrete environments.
  \<^item> \<open>ActiveSessions\<close>: the listing of active sessions against an abstract specification.
  \<^item> \<open>Numerals\<close>: Rust's parsing of integers.  \<open>Accounts\<close> (\<open>bee_wallet/src/services/multifactor/query.rs\<close>,
    \<open>dapp.rs\<close>): reading and decoding accounts.
  \<^item> \<open>History\<close>, \<open>HistoryPages\<close>, \<open>HistoryProperties\<close> (\<open>bee_wallet/src/services/transaction/history.rs\<close>): the
    paged transaction history over a hot and an archive endpoint, and the clients that follow its cursors.
  \<^item> \<open>SellOrders\<close>, \<open>SellOrdersPaging\<close> (\<open>bee_wallet/src/services/tokens/sell_orders.rs\<close>): the paged list of
    a seller's orders, and the client that follows its cursors.

  \<^item> \<open>Vault\<close>, \<open>VaultProperties\<close> (\<open>bee_crypto/src\<close>): the envelopes of the vault and the storage, password
    hashes, signatures, mnemonics and cell hashes.
  \<^item> \<open>Logs\<close>: a ghost log of the writes of a program and the rules that follow its structure.
  \<^item> \<open>MultisigDeploy\<close>, \<open>MultisigSends\<close> (\<open>bee_wallet/src/services/multisig.rs\<close>): multisig wallets, and their
    deployment by way of the giver.
  \<^item> \<open>KeyDerivation\<close> (\<open>services/multifactor/key_derivation.rs\<close>): recovery keys, token-update keys and the
    search for the derivation path.  \<open>WalletInfra\<close> (\<open>infra/mod.rs\<close>, \<open>progress.rs\<close>,
    \<open>services/validate_name.rs\<close>, \<open>modules/names.rs\<close>): retried reads, the classes of errors, progress
    events and the rules for names.
  \<^item> \<open>MultifactorOps\<close>, \<open>MultifactorProperties\<close> (\<open>services/multifactor\<close>, \<open>services/miner/cmd.rs\<close>,
    \<open>services/resolvers\<close>): the commands on the multifactor contract and on the miner contract.
  \<^item> \<open>Tokens\<close>, \<open>TokensProperties\<close> (\<open>services/tokens/mod.rs\<close>, \<open>modules/tokens.rs\<close>): transfers, the purchase
    and sale of shells, redemption and migration.
  \<^item> \<open>Poseidon\<close>, \<open>ZkLogin\<close>, \<open>ZkComplete\<close>, \<open>ZkProperties\<close> (\<open>services/zkp/client_login_prepare.rs\<close>,
    \<open>client_login_complete.rs\<close>): the two implementations of the hash, the preparation of a login and its
    completion with the prover.  \<open>ZkClaims\<close>, \<open>ZkClaimsProperties\<close> (\<open>services/zkp/auth.rs\<close>,
    \<open>services/zkp/utils\<close>): the claims of a token.
  \<^item> \<open>WalletModules\<close>, \<open>WalletModulesProperties\<close> (\<open>modules/deploy.rs\<close>, \<open>modules/zkp.rs\<close>,
    \<open>modules/multifactor.rs\<close>, \<open>services/deploy\<close>, \<open>services/boost.rs\<close>): the deployment of an account and
    of its miner, the addition and deletion of factors, and the change of the login identity.
  \<^item> \<open>Balances\<close> (\<open>services/balance/mod.rs\<close>, \<open>modules/balance.rs\<close>): the balances.  \<open>Vouchers\<close>
    (\<open>services/dex.rs\<close>, \<open>modules/dex.rs\<close>): vouchers of the DEX.  \<open>DexProtocol\<close>
    (\<open>bee_connect/src/dex_protocol.rs\<close>): its typed requests and responses.
  \<^item> \<open>QueueProxy\<close> (\<open>tools/queue_overflow_proxy/src/lib.rs\<close>): the proxy that injects queue overflows, and the
    delivery of messages through it.

  \<^bold>\<open>What is shown.\<close>  Honest sessions are accepted by the verifier and acceptance means exactly the
  four openings; the miner keeps its invariants in every interleaving; the two parties of a
  connection derive the same keys for every message, read each other's messages and refuse replays;
  polling, retries, back-off and the rate limiter stay within their bounds; the listing of sessions
  refines its specification; following the cursors of the history and of the sell orders ends and
  yields every entry once; encrypted values decrypt, and keys written to the contract are found again
  from the password; a prepared login completes, and the two Poseidon implementations agree with the
  reference and with each other.  For every operation of the wallet that sends more than one message
  the writes are determined: which messages, in which order, signed by which key, and what the chain
  has shown before each of them and before success is reported.  Several properties state what the
  code does where this is not what it means to do; they are the findings of the manifest.

  \<^bold>\<open>Bounds.\<close>  The nonce search and the listing of active sessions may run forever; they are partial
  functions into options, and their properties say when they return.  The clients that follow
  cursors (\<open>read_all\<close>, \<open>read_orders\<close>) take fuel, and their properties say that some fuel is enough.
  All other loops are bounded by the code or structural.

  \<^bold>\<open>Not modelled.\<close>  The bindings for JavaScript and native callers (\<open>wasm.rs\<close>, the adapters), the
  command line tools, \<open>bee_sdk\<close>, which re-exports, and getters that only read one field of a contract:
  they convert or pass on their arguments.  The life cycle of the proxy's server is left out.
\<close>

end
